(* ===== verification/Prelude.thy ===== *)
theory Prelude
  imports Complex_Main "HOL-Library.AList"
begin

text \<open>
  Shared ground of the development: Python exceptions as values, sequencing of fallible
  steps, Python dictionaries as insertion-ordered association lists, and the stripping of
  text that every contract constructor performs.  The named collection \<open>res_simps\<close>
  holds the rules that turn ``this step returned'' into facts about its parts.
\<close>

named_theorems res_simps

section \<open>Results\<close>

text \<open>
  A raised Python exception is a value of \<open>py_exn\<close>; the message is kept without its
  interpolated parts.  A fallible operation returns \<open>py_exn + 'a\<close>.
\<close>

datatype py_exn =
    ValidationError string
  | ValueError string
  | ArithmeticError string
  | KeyError string
  | RuntimeError string
  | TypeError string
  | AttributeError string
  | IndexError string
  | ReplayError string
  | AssertionError string

type_synonym 'a res = "py_exn + 'a"

definition and_then :: "'a res \<Rightarrow> ('a \<Rightarrow> 'b res) \<Rightarrow> 'b res" where
  "and_then m f = (case m of Inl e \<Rightarrow> Inl e | Inr x \<Rightarrow> f x)"

text \<open>Evaluation is lazy in the continuation: it is entered only once the first result is known.\<close>

lemma and_then_code [code_unfold]: "and_then m f = (case m of Inl e \<Rightarrow> Inl e | Inr x \<Rightarrow> f x)"
  by (rule and_then_def)

definition raise :: "string \<Rightarrow> 'a res" where
  "raise msg = Inl (ValidationError msg)"

definition of_option :: "string \<Rightarrow> 'a option \<Rightarrow> 'a res" where
  "of_option msg v = (case v of None \<Rightarrow> raise msg | Some x \<Rightarrow> Inr x)"

fun returns :: "'a res \<Rightarrow> bool" where
  "returns (Inl e) = False"
| "returns (Inr x) = True"

fun fold_res :: "('s \<Rightarrow> 'a \<Rightarrow> 's res) \<Rightarrow> 's \<Rightarrow> 'a list \<Rightarrow> 's res" where
  "fold_res f s [] = Inr s"
| "fold_res f s (x # xs) = and_then (f s x) (\<lambda>s'. fold_res f s' xs)"

fun map_res :: "('a \<Rightarrow> 'b res) \<Rightarrow> 'a list \<Rightarrow> 'b list res" where
  "map_res f [] = Inr []"
| "map_res f (x # xs) = and_then (f x) (\<lambda>y. and_then (map_res f xs) (\<lambda>ys. Inr (y # ys)))"

lemma and_then_Inr [simp, res_simps]:
  "and_then m f = Inr y \<longleftrightarrow> (\<exists>x. m = Inr x \<and> f x = Inr y)"
  by (cases m) (simp_all add: and_then_def)

lemma and_thenE:
  assumes "and_then m f = Inr y"
  obtains x where "m = Inr x" "f x = Inr y"
  using assms by auto

lemma if_InrE:
  assumes "(if b then Inr x else k) = Inr y"
  obtains "b" "x = y" | "\<not> b" "k = Inr y"
  using assms by (cases b) auto

lemma if_raiseE:
  assumes "(if b then raise msg else k) = Inr y"
  obtains "\<not> b" "k = Inr y"
  using assms by (cases b) (auto simp: raise_def)

lemma and_then_Inl_eq:
  "and_then m f = Inl e \<longleftrightarrow> m = Inl e \<or> (\<exists>x. m = Inr x \<and> f x = Inl e)"
  by (cases m) (simp_all add: and_then_def)

lemma and_then_eval [simp]:
  "and_then (Inl e) f = Inl e"
  "and_then (Inr x) f = f x"
  by (simp_all add: and_then_def)

lemma raise_not_Inr [simp, res_simps]:
  "raise msg = Inr x \<longleftrightarrow> False"
  "Inr x = raise msg \<longleftrightarrow> False"
  by (simp_all add: raise_def)

lemma of_option_Inr [simp, res_simps]: "of_option msg v = Inr x \<longleftrightarrow> v = Some x"
  by (cases v) (simp_all add: of_option_def)

lemma if_raise_Inr [simp, res_simps]:
  "(if b then raise msg else m) = Inr x \<longleftrightarrow> \<not> b \<and> m = Inr x"
  "(if b then m else raise msg) = Inr x \<longleftrightarrow> b \<and> m = Inr x"
  "(if b then Inl e else m) = Inr x \<longleftrightarrow> \<not> b \<and> m = Inr x"
  "(if b then m else Inl e) = Inr x \<longleftrightarrow> b \<and> m = Inr x"
  by simp_all

lemma returns_iff: "returns m \<longleftrightarrow> (\<exists>x. m = Inr x)"
  by (cases m) simp_all

lemma fold_res_append:
  "fold_res f s (xs @ ys) = and_then (fold_res f s xs) (\<lambda>s'. fold_res f s' ys)"
proof (induction xs arbitrary: s)
  case Nil
  then show ?case by simp
next
  case (Cons x xs)
  then show ?case by (cases "f s x") simp_all
qed

lemma fold_res_invariant:
  assumes "fold_res f s xs = Inr s'" and "P s"
    and step: "\<And>s x s'. P s \<Longrightarrow> x \<in> set xs \<Longrightarrow> f s x = Inr s' \<Longrightarrow> P s'"
  shows "P s'"
  using assms
proof (induction xs arbitrary: s)
  case Nil
  then show ?case by simp
next
  case (Cons x xs)
  from Cons.prems(1) obtain t where t: "f s x = Inr t" "fold_res f t xs = Inr s'"
    by auto
  have "P t" using Cons.prems(2) t(1) by (rule Cons.prems(3) [OF _ list.set_intros(1)])
  with t(2) show ?case
  proof (rule Cons.IH)
    fix u y u'
    assume "P u" "y \<in> set xs" "f u y = Inr u'"
    then show "P u'" by (elim Cons.prems(3)) simp_all
  qed
qed

lemma fold_res_prefix_invariant:
  assumes "fold_res f s xs = Inr s'" "P [] s"
    and step: "\<And>ys x zs s s'. xs = ys @ x # zs \<Longrightarrow> P ys s \<Longrightarrow> f s x = Inr s' \<Longrightarrow> P (ys @ [x]) s'"
  shows "P xs s'"
proof -
  have "fold_res f s ys = Inr t \<Longrightarrow> P ys t" if "xs = ys @ zs" for ys zs t
    using that
  proof (induction ys arbitrary: zs t rule: rev_induct)
    case Nil
    then show ?case using assms(2) by simp
  next
    case (snoc y ys)
    from snoc.prems(1) obtain u where u: "fold_res f s ys = Inr u" "f u y = Inr t"
      by (auto simp: fold_res_append)
    show ?case
      by (rule step [OF _ snoc.IH [OF u(1)] u(2)]) (use snoc.prems(2) in simp_all)
  qed
  from this [of xs "[]"] assms(1) show ?thesis by simp
qed

lemma map_res_length: "map_res f xs = Inr ys \<Longrightarrow> length ys = length xs"
  by (induction xs arbitrary: ys) auto

section \<open>Dictionaries\<close>

text \<open>
  A Python dictionary keeps its keys in insertion order and overwrites in place, which is
  what \<^const>\<open>AList.update\<close> does; deletion is \<^const>\<open>AList.delete\<close>.  Reading is
  \<^const>\<open>map_of\<close>.
\<close>

type_synonym ('k, 'v) dict = "('k \<times> 'v) list"

abbreviation dget :: "('k, 'v) dict \<Rightarrow> 'k \<Rightarrow> 'v option" where
  "dget d k \<equiv> map_of d k"

abbreviation dset :: "'k \<Rightarrow> 'v \<Rightarrow> ('k, 'v) dict \<Rightarrow> ('k, 'v) dict" where
  "dset k v d \<equiv> AList.update k v d"

abbreviation ddel :: "'k \<Rightarrow> ('k, 'v) dict \<Rightarrow> ('k, 'v) dict" where
  "ddel k d \<equiv> AList.delete k d"

definition dget_or :: "('k, 'v) dict \<Rightarrow> 'k \<Rightarrow> 'v \<Rightarrow> 'v" where
  "dget_or d k v = (case dget d k of None \<Rightarrow> v | Some x \<Rightarrow> x)"

definition dkeys :: "('k, 'v) dict \<Rightarrow> 'k list" where
  "dkeys d = map fst d"

lemma dget_dset [simp]: "dget (dset k v d) k' = (if k' = k then Some v else dget d k')"
  by (simp add: update_conv')

lemma dget_ddel [simp]: "dget (ddel k d) k' = (if k' = k then None else dget d k')"
  by (simp add: delete_conv')

lemma dget_or_dset [simp]:
  "dget_or (dset k v d) k' w = (if k' = k then v else dget_or d k' w)"
  by (simp add: dget_or_def)

lemma distinct_dset [simp]: "distinct (map fst d) \<Longrightarrow> distinct (map fst (dset k v d))"
  by (rule distinct_update)

lemma distinct_ddel [simp]: "distinct (map fst d) \<Longrightarrow> distinct (map fst (ddel k d))"
  by (rule distinct_delete)

section \<open>Text\<close>

text \<open>
  Strings are sequences of code points below 256.  \<open>str.strip\<close> removes white space at
  both ends; \<open>_required_text\<close> of \<open>contracts.py\<close> is built from it.
\<close>

definition py_space :: "char \<Rightarrow> bool" where
  "py_space c = (let n = of_char c :: nat in
     (9 \<le> n \<and> n \<le> 13) \<or> (28 \<le> n \<and> n \<le> 32) \<or> n = 133 \<or> n = 160)"

definition py_strip :: "string \<Rightarrow> string" where
  "py_strip s = rev (dropWhile py_space (rev (dropWhile py_space s)))"

lemma dropWhile_rev_dropWhile:
  "dropWhile P (rev (dropWhile P (rev (dropWhile P s)))) = rev (dropWhile P (rev (dropWhile P s)))"
proof (cases "dropWhile P s")
  case Nil
  then show ?thesis by (simp only: rev.simps dropWhile.simps)
next
  case (Cons a as)
  then have a: "\<not> P a" by (metis dropWhile_eq_Cons_conv)
  have "dropWhile P (zs @ [a]) = dropWhile P zs @ [a]" for zs
    using a by (induction zs) auto
  then show ?thesis using a by (simp add: Cons)
qed

lemma py_strip_idem [simp]: "py_strip (py_strip s) = py_strip s"
  by (simp add: py_strip_def dropWhile_rev_dropWhile)

lemma py_strip_id: "s \<noteq> '''' \<Longrightarrow> \<not> py_space (hd s) \<Longrightarrow> \<not> py_space (last s) \<Longrightarrow> py_strip s = s"
  by (cases s; cases "rev (tl s)") (auto simp: py_strip_def last_rev simp flip: hd_rev)

section \<open>Machines whose steps may fail\<close>

text \<open>
  The shared contract of the stateful components: under its admissibility condition, a step
  that returns keeps the component's invariant.  A run stops at the first step that raises.
\<close>

fun admissible :: "('s \<Rightarrow> 'op \<Rightarrow> 's res) \<Rightarrow> ('s \<Rightarrow> 'op \<Rightarrow> bool) \<Rightarrow> 's \<Rightarrow> 'op list \<Rightarrow> bool" where
  "admissible step ok s [] \<longleftrightarrow> True"
| "admissible step ok s (x # xs) \<longleftrightarrow> ok s x \<and>
     (case step s x of Inl e \<Rightarrow> True | Inr s' \<Rightarrow> admissible step ok s' xs)"

locale fallible_machine =
  fixes step :: "'s \<Rightarrow> 'op \<Rightarrow> 's res"
    and ok :: "'s \<Rightarrow> 'op \<Rightarrow> bool"
    and inv :: "'s \<Rightarrow> bool"
  assumes step_inv: "inv s \<Longrightarrow> ok s x \<Longrightarrow> step s x = Inr s' \<Longrightarrow> inv s'"
begin

lemma run_inv:
  "inv s \<Longrightarrow> admissible step ok s xs \<Longrightarrow> fold_res step s xs = Inr s' \<Longrightarrow> inv s'"
proof (induction xs arbitrary: s)
  case Nil
  then show ?case by simp
next
  case (Cons x xs)
  from Cons.prems(3) obtain t where t: "step s x = Inr t" "fold_res step t xs = Inr s'"
    by auto
  show ?case
    using Cons.IH [OF _ _ t(2)] Cons.prems(1,2) step_inv [OF _ _ t(1)] t(1) by simp
qed

end

end
