(* ===== verification/Rounding.thy ===== *)
theory Rounding
  imports Prelude
begin

text \<open>
  Decimal rounding over exact rationals: round-half-even and truncation to an integer, the
  number of decimal digits of a magnitude, and rounding to a number of significant digits,
  which is what every operator of Python's \<open>decimal\<close> module does with its result under
  the ambient context (28 digits and half-even unless the process changes it).
\<close>

section \<open>Rounding to an integer\<close>

definition round_half_even :: "rat \<Rightarrow> int" where
  "round_half_even x =
     (let f = \<lfloor>x\<rfloor>; r = x - of_int f
      in if r < 1 / 2 then f else if 1 / 2 < r then f + 1 else if even f then f else f + 1)"

definition round_down :: "rat \<Rightarrow> int" where
  "round_down x = (if 0 \<le> x then \<lfloor>x\<rfloor> else - \<lfloor>- x\<rfloor>)"

text \<open>Ties go away from zero.\<close>

definition round_half_up :: "rat \<Rightarrow> int" where
  "round_half_up x = (if 0 \<le> x then \<lfloor>x + 1 / 2\<rfloor> else - \<lfloor>1 / 2 - x\<rfloor>)"

lemma round_half_up_mono: "x \<le> y \<Longrightarrow> round_half_up x \<le> round_half_up y"
proof -
  assume "x \<le> y"
  then have "\<lfloor>x + 1 / 2\<rfloor> \<le> \<lfloor>y + 1 / 2\<rfloor>" "\<lfloor>1 / 2 - y\<rfloor> \<le> \<lfloor>1 / 2 - x\<rfloor>" by (simp_all add: floor_mono)
  moreover have "0 \<le> \<lfloor>1 / 2 - x\<rfloor>" if "x < 0" using that by simp
  moreover have "0 \<le> \<lfloor>y + 1 / 2\<rfloor>" if "0 \<le> y" using that by simp
  ultimately show ?thesis using \<open>x \<le> y\<close> unfolding round_half_up_def by (cases "0 \<le> x"; cases "0 \<le> y"; simp only: if_True if_False; linarith)
qed

lemma round_half_up_nonneg: "0 \<le> x \<Longrightarrow> 0 \<le> round_half_up x"
  by (simp add: round_half_up_def)

lemma round_half_even_of_int [simp]: "round_half_even (of_int n) = n"
  by (simp add: round_half_even_def)

lemma round_half_even_0 [simp]: "round_half_even 0 = 0"
  using round_half_even_of_int [of 0] by simp

lemma round_half_even_error: "\<bar>of_int (round_half_even x) - x\<bar> \<le> 1 / 2"
proof -
  have "0 \<le> x - of_int \<lfloor>x\<rfloor>" "x - of_int \<lfloor>x\<rfloor> < 1"
    by linarith+
  then show ?thesis
    by (auto simp: round_half_even_def Let_def abs_le_iff)
qed

lemma round_half_even_unique:
  assumes "\<bar>of_int n - x\<bar> < 1 / 2"
  shows "round_half_even x = n"
proof -
  have "\<bar>of_int (round_half_even x) - x\<bar> \<le> 1 / 2"
    by (rule round_half_even_error)
  with assms have "\<bar>of_int (round_half_even x) - (of_int n :: rat)\<bar> < 1"
    by linarith
  then have "\<bar>round_half_even x - n\<bar> < 1"
    by (simp flip: of_int_diff of_int_abs)
  then show ?thesis by linarith
qed

lemma round_half_even_tie:
  assumes "x - of_int \<lfloor>x\<rfloor> = 1 / 2"
  shows "round_half_even x = (if even \<lfloor>x\<rfloor> then \<lfloor>x\<rfloor> else \<lfloor>x\<rfloor> + 1)"
  using assms by (simp add: round_half_even_def)

lemma round_half_even_minus: "round_half_even (- x) = - round_half_even x"
proof (cases "x - of_int \<lfloor>x\<rfloor> = 1 / 2")
  case True
  then have x: "x = of_int \<lfloor>x\<rfloor> + 1 / 2" by linarith
  then have f: "\<lfloor>- x\<rfloor> = - \<lfloor>x\<rfloor> - 1"
    by linarith
  then have "- x - of_int \<lfloor>- x\<rfloor> = 1 / 2"
    using x by simp
  then have "round_half_even (- x) = (if even \<lfloor>- x\<rfloor> then \<lfloor>- x\<rfloor> else \<lfloor>- x\<rfloor> + 1)"
    by (rule round_half_even_tie)
  with f round_half_even_tie [OF True] show ?thesis by simp
next
  case False
  have "\<bar>of_int (round_half_even x) - x\<bar> < 1 / 2"
  proof -
    have "0 \<le> x - of_int \<lfloor>x\<rfloor>" "x - of_int \<lfloor>x\<rfloor> < 1" by linarith+
    with False show ?thesis
      by (auto simp: round_half_even_def Let_def abs_less_iff)
  qed
  then have "\<bar>of_int (- round_half_even x) - (- x)\<bar> < 1 / 2"
    by (simp add: abs_minus_commute)
  then show ?thesis by (rule round_half_even_unique)
qed

lemma round_half_even_mono: "x \<le> y \<Longrightarrow> round_half_even x \<le> round_half_even y"
proof (rule ccontr)
  assume le: "x \<le> y" and "\<not> round_half_even x \<le> round_half_even y"
  then have lt: "round_half_even y + 1 \<le> round_half_even x" by simp
  have ex: "\<bar>of_int (round_half_even x) - x\<bar> \<le> 1 / 2"
    and ey: "\<bar>of_int (round_half_even y) - y\<bar> \<le> 1 / 2"
    by (rule round_half_even_error)+
  have "of_int (round_half_even y) + (1::rat) \<le> of_int (round_half_even x)"
    using lt by (metis of_int_1 of_int_add of_int_le_iff)
  with le ex ey have "x = y" by linarith
  with lt show False by simp
qed

lemma round_half_even_nonneg: "0 \<le> x \<Longrightarrow> 0 \<le> round_half_even x"
  using round_half_even_mono [of 0 x] by simp

lemma round_down_of_int [simp]: "round_down (of_int n) = n"
  by (simp add: round_down_def)

lemma round_down_0 [simp]: "round_down 0 = 0"
  using round_down_of_int [of 0] by simp

lemma round_down_minus: "round_down (- x) = - round_down x"
  by (auto simp: round_down_def)

lemma round_down_le: "0 \<le> x \<Longrightarrow> of_int (round_down x) \<le> x \<and> 0 \<le> round_down x"
  by (simp add: round_down_def)

section \<open>Significant digits\<close>

fun ndigits :: "nat \<Rightarrow> nat" where
  "ndigits n = (if n < 10 then (if n = 0 then 0 else 1) else Suc (ndigits (n div 10)))"

declare ndigits.simps [simp del]

lemma ndigits_0 [simp]: "ndigits 0 = 0"
  by (simp add: ndigits.simps)

lemma ndigits_bounds:
  "n < 10 ^ ndigits n" "0 < n \<Longrightarrow> 10 ^ (ndigits n - 1) \<le> n"
proof -
  have "n < 10 ^ ndigits n \<and> (0 < n \<longrightarrow> 0 < ndigits n \<and> 10 ^ (ndigits n - 1) \<le> n)"
  proof (induction n rule: ndigits.induct)
    case (1 n)
    show ?case
    proof (cases "n < 10")
      case True
      then show ?thesis by (simp add: ndigits.simps [of n])
    next
      case False
      then have e: "ndigits n = Suc (ndigits (n div 10))"
        by (simp add: ndigits.simps [of n])
      from 1 False have ih: "n div 10 < 10 ^ ndigits (n div 10)"
        "0 < ndigits (n div 10)" "10 ^ (ndigits (n div 10) - 1) \<le> n div 10"
        by (auto simp: div_greater_zero_iff)
      from ih(2) obtain k where k: "ndigits (n div 10) = Suc k"
        by (metis gr0_implies_Suc)
      from ih k show ?thesis by (simp add: e) linarith
    qed
  qed
  then show "n < 10 ^ ndigits n" "0 < n \<Longrightarrow> 10 ^ (ndigits n - 1) \<le> n" by auto
qed

text \<open>
  \<open>magnitude x\<close> is the exponent \<open>e\<close> with \<open>10\<^sup>e\<^sup>-\<^sup>1 \<le> \<bar>x\<bar> < 10\<^sup>e\<close>, computed from the digit
  counts of the numerator and the denominator.
\<close>

definition magnitude :: "rat \<Rightarrow> int" where
  "magnitude x = (let (a, b) = quotient_of \<bar>x\<bar>;
       k = int (ndigits (nat a)) - int (ndigits (nat b))
     in if \<bar>x\<bar> < 10 powi k then k else k + 1)"

text \<open>The same count on integers, for evaluation.\<close>

function int_digits :: "int \<Rightarrow> int" where
  "int_digits a = (if a < 10 then (if a \<le> 0 then 0 else 1) else int_digits (a div 10) + 1)"
  by pat_completeness auto
termination
  by (relation "measure nat") (auto simp: nat_less_iff)

declare int_digits.simps [simp del]

lemma int_digits: "int_digits a = int (ndigits (nat a))"
proof (induction a rule: int_digits.induct)
  case (1 a)
  show ?case
  proof (cases "a < 10")
    case True
    then show ?thesis by (auto simp: int_digits.simps [of a] ndigits.simps [of "nat a"])
  next
    case False
    then have "ndigits (nat a) = Suc (ndigits (nat a div 10))" by (auto simp: ndigits.simps [of "nat a"])
    with 1 False show ?thesis by (simp add: int_digits.simps [of a] nat_div_distrib)
  qed
qed

lemma magnitude_code [code]:
  "magnitude x = (let (a, b) = quotient_of \<bar>x\<bar>; k = int_digits a - int_digits b
     in if \<bar>x\<bar> < 10 powi k then k else k + 1)"
  by (simp add: magnitude_def int_digits)

definition ctx_round :: "nat \<Rightarrow> rat \<Rightarrow> rat" where
  "ctx_round p x = (if x = 0 then 0
     else let q = 10 powi (magnitude x - int p) in of_int (round_half_even (x / q)) * q)"

lemma magnitude_bounds:
  assumes "x \<noteq> 0"
  shows "\<bar>x\<bar> < 10 powi magnitude x" "10 powi (magnitude x - 1) \<le> \<bar>x\<bar>"
proof -
  obtain a b where q: "quotient_of \<bar>x\<bar> = (a, b)" by (cases "quotient_of \<bar>x\<bar>")
  have b: "0 < b" using q by (rule quotient_of_denom_pos)
  have x: "\<bar>x\<bar> = of_int a / of_int b" using q by (rule quotient_of_div)
  have a: "0 < a"
  proof -
    have "0 < \<bar>x\<bar>" using assms by simp
    then have "0 < (of_int a :: rat)" using x b by (simp add: zero_less_divide_iff)
    then show ?thesis by simp
  qed
  define da where "da = ndigits (nat a)"
  define db where "db = ndigits (nat b)"
  have na: "nat a < 10 ^ da" "10 ^ (da - 1) \<le> nat a" and nb: "nat b < 10 ^ db" "10 ^ (db - 1) \<le> nat b"
    using ndigits_bounds [of "nat a"] ndigits_bounds [of "nat b"] a b by (simp_all add: da_def db_def)
  have pos: "0 < da" "0 < db"
    using na nb a b by (cases da; cases db; simp)+
  have ra: "(of_int a :: rat) < 10 ^ da" "10 ^ (da - 1) \<le> (of_int a :: rat)"
    using na a by (metis of_int_less_iff of_int_numeral of_int_power of_nat_less_iff int_nat_eq
        of_nat_numeral of_nat_power less_imp_le, metis of_int_le_iff of_int_numeral of_int_power
        of_nat_le_iff int_nat_eq of_nat_numeral of_nat_power less_imp_le)
  have rb: "(of_int b :: rat) < 10 ^ db" "10 ^ (db - 1) \<le> (of_int b :: rat)"
    using nb b by (metis of_int_less_iff of_int_numeral of_int_power of_nat_less_iff int_nat_eq
        of_nat_numeral of_nat_power less_imp_le, metis of_int_le_iff of_int_numeral of_int_power
        of_nat_le_iff int_nat_eq of_nat_numeral of_nat_power less_imp_le)
  have up: "\<bar>x\<bar> < 10 powi (int da - int db + 1)"
  proof -
    have "\<bar>x\<bar> < 10 ^ da / 10 ^ (db - 1)"
      unfolding x using ra(1) rb(2) a b by (intro frac_less) auto
    also have "\<dots> = 10 powi (int da - int db + 1)"
      using pos by (simp add: power_int_diff power_int_add field_simps power_eq_if)
    finally show ?thesis .
  qed
  have lo: "10 powi (int da - int db - 1) \<le> \<bar>x\<bar>"
  proof -
    have "10 powi (int da - int db - 1) = 10 ^ (da - 1) / (10 ^ db :: rat)"
      using pos by (simp add: power_int_diff power_int_add field_simps power_eq_if)
    also have "\<dots> \<le> \<bar>x\<bar>"
      unfolding x using ra(2) rb(1) a b by (intro frac_le) auto
    finally show ?thesis .
  qed
  have m: "magnitude x = (if \<bar>x\<bar> < 10 powi (int da - int db) then int da - int db else int da - int db + 1)"
    by (simp add: magnitude_def q da_def db_def)
  show "\<bar>x\<bar> < 10 powi magnitude x" "10 powi (magnitude x - 1) \<le> \<bar>x\<bar>"
    using up lo by (auto simp: m not_less)
qed

lemma powi_10_less_imp: "(10::rat) powi m < 10 powi n \<Longrightarrow> m < n"
  using power_int_increasing [of n m "10::rat"] by (meson linorder_not_less numeral_le_one_iff
      order.trans power_int_increasing semiring_norm(69) one_le_numeral)

lemma ctx_round_0 [simp]: "ctx_round p 0 = 0"
  by (simp add: ctx_round_def)

lemma magnitude_minus [simp]: "magnitude (- x) = magnitude x"
  by (simp add: magnitude_def)

lemma ctx_round_minus: "ctx_round p (- x) = - ctx_round p x"
  by (simp add: ctx_round_def Let_def round_half_even_minus)

lemma ctx_round_exact:
  assumes "\<bar>n\<bar> < 10 ^ p"
  shows "ctx_round p (of_int n * 10 powi k) = of_int n * 10 powi k"
proof (cases "n = 0")
  case True
  then show ?thesis by simp
next
  case False
  define x :: rat where "x = of_int n * 10 powi k"
  have x0: "x \<noteq> 0" using False by (simp add: x_def)
  have "(of_int \<bar>n\<bar> :: rat) < of_int (10 ^ p)" using assms by (simp only: of_int_less_iff)
  then have n: "\<bar>of_int n :: rat\<bar> < 10 ^ p" by simp
  have "\<bar>x\<bar> < 10 ^ p * 10 powi k"
    using n by (simp add: x_def abs_mult)
  then have "(10::rat) powi (magnitude x - 1) < 10 powi (int p + k)"
    using magnitude_bounds(2) [OF x0] by (simp add: power_int_add)
  then have le: "magnitude x - int p \<le> k"
    using powi_10_less_imp by force
  define q :: rat where "q = 10 powi (magnitude x - int p)"
  define j where "j = nat (k - (magnitude x - int p))"
  have "x / q = of_int n * 10 powi (k - (magnitude x - int p))"
    by (simp add: x_def q_def power_int_diff)
  also have "\<dots> = of_int (n * 10 ^ j)"
    using le by (simp add: j_def power_int_def)
  finally have e: "x / q = of_int (n * 10 ^ j)" .
  have q0: "q \<noteq> 0" by (simp add: q_def)
  have "ctx_round p x = of_int (round_half_even (x / q)) * q"
    using x0 by (simp add: ctx_round_def q_def Let_def)
  also have "\<dots> = (x / q) * q"
    by (simp only: e round_half_even_of_int)
  finally have "ctx_round p x = x" using q0 by simp
  then show ?thesis by (simp only: x_def)
qed

lemma ctx_round_exact_div:
  assumes "\<bar>n\<bar> < 10 ^ p"
  shows "ctx_round p (of_int n / 10 ^ k) = of_int n / 10 ^ k"
  using ctx_round_exact [OF assms, of "- int k"]
  by (simp add: power_int_minus divide_inverse)

lemma ctx_round_error: "\<bar>ctx_round p x - x\<bar> \<le> 10 powi (1 - int p) / 2 * \<bar>x\<bar>"
proof (cases "x = 0")
  case True
  then show ?thesis by simp
next
  case False
  define q :: rat where "q = 10 powi (magnitude x - int p)"
  have q: "0 < q" by (simp add: q_def)
  have "ctx_round p x - x = (of_int (round_half_even (x / q)) - x / q) * q"
    using False q by (simp add: ctx_round_def q_def Let_def algebra_simps)
  then have "\<bar>ctx_round p x - x\<bar> = \<bar>of_int (round_half_even (x / q)) - x / q\<bar> * q"
    using q by (simp add: abs_mult)
  also have "\<dots> \<le> 1 / 2 * q"
    using q round_half_even_error by (intro mult_right_mono) auto
  also have "q = 10 powi (1 - int p) * 10 powi (magnitude x - 1)"
    by (simp add: q_def flip: power_int_add)
  also have "1 / 2 * (10 powi (1 - int p) * 10 powi (magnitude x - 1)) \<le> 10 powi (1 - int p) / 2 * \<bar>x\<bar>"
    using magnitude_bounds(2) [OF False] by (simp add: field_simps)
  finally show ?thesis .
qed

lemma ctx_round_nonneg: "0 \<le> x \<Longrightarrow> 0 \<le> ctx_round p x"
  by (auto simp: ctx_round_def Let_def intro!: mult_nonneg_nonneg round_half_even_nonneg)

lemma ctx_round_form:
  assumes "0 < p"
  shows "\<exists>m k. ctx_round p x = of_int m * 10 powi k \<and> \<bar>m\<bar> < 10 ^ p"
proof (cases "x = 0")
  case True
  then have "ctx_round p x = of_int 0 * 10 powi 0 \<and> \<bar>0 :: int\<bar> < 10 ^ p" by simp
  then show ?thesis by blast
next
  case False
  define k where "k = magnitude x - int p"
  define m where "m = round_half_even (x / 10 powi k)"
  have e: "ctx_round p x = of_int m * 10 powi k"
    using False by (simp add: ctx_round_def m_def k_def Let_def)
  have "\<bar>x\<bar> < 10 powi magnitude x" using magnitude_bounds(1) [OF False] .
  then have "\<bar>x\<bar> / 10 powi k < 10 powi magnitude x / 10 powi k" by (simp add: divide_strict_right_mono)
  also have "10 powi magnitude x / 10 powi k = (10::rat) ^ p"
    by (simp add: k_def flip: power_int_diff)
  finally have "\<bar>x / 10 powi k\<bar> \<le> of_int (10 ^ p)" by (simp add: abs_divide)
  then have b: "x / 10 powi k \<le> of_int (10 ^ p)" "- of_int (10 ^ p) \<le> x / 10 powi k" by linarith+
  have "m \<le> 10 ^ p" using round_half_even_mono [OF b(1)] by (simp only: m_def round_half_even_of_int)
  moreover have "- (10 ^ p) \<le> m"
    using round_half_even_mono [OF b(2)] by (simp only: m_def round_half_even_of_int round_half_even_minus)
  ultimately consider "\<bar>m\<bar> < 10 ^ p" | "m = 10 ^ p" | "m = - (10 ^ p)" by linarith
  then show ?thesis
  proof cases
    case 1
    with e show ?thesis by blast
  next
    case 2
    then have "ctx_round p x = of_int 1 * 10 powi (int p + k) \<and> \<bar>1 :: int\<bar> < 10 ^ p"
      using e assms by (simp add: power_int_add)
    then show ?thesis by blast
  next
    case 3
    then have "ctx_round p x = of_int (- 1) * 10 powi (int p + k) \<and> \<bar>- 1 :: int\<bar> < 10 ^ p"
      using e assms by (simp add: power_int_add)
    then show ?thesis by blast
  qed
qed

lemma ctx_round_idem: "0 < p \<Longrightarrow> ctx_round p (ctx_round p x) = ctx_round p x"
  using ctx_round_form [of p x] ctx_round_exact by fastforce

text \<open>Rounding to the context keeps a value on its decimal grid.\<close>

lemma ctx_round_grid: "\<exists>m. ctx_round p (of_int n / 10 ^ k) = of_int m / 10 ^ k"
proof (cases "\<bar>n\<bar> < 10 ^ p")
  case True
  then show ?thesis using ctx_round_exact_div by blast
next
  case False
  define x :: rat where "x = of_int n / 10 ^ k"
  have n0: "n \<noteq> 0" using False by auto
  then have x0: "x \<noteq> 0" by (simp add: x_def)
  have "(10::rat) ^ p \<le> of_int \<bar>n\<bar>" using False of_int_le_iff [where ?'a = rat, of "10 ^ p" "\<bar>n\<bar>"] by simp
  then have "10 powi (int p - int k) \<le> \<bar>x\<bar>"
    by (simp add: x_def abs_divide power_int_diff divide_right_mono)
  also have "\<dots> < 10 powi magnitude x" by (rule magnitude_bounds(1) [OF x0])
  finally have "int p - int k < magnitude x" by (rule powi_10_less_imp)
  then have le: "- int k \<le> magnitude x - int p" by simp
  define j where "j = nat (magnitude x - int p + int k)"
  have "(10::rat) powi (magnitude x - int p) = 10 powi (int j - int k)" using le by (simp add: j_def)
  also have "\<dots> = 10 ^ j / 10 ^ k" by (simp add: power_int_diff)
  finally have q: "(10::rat) powi (magnitude x - int p) = 10 ^ j / 10 ^ k" .
  have "ctx_round p x = of_int (round_half_even (x / (10 ^ j / 10 ^ k)) * 10 ^ j) / 10 ^ k"
    using x0 by (simp add: ctx_round_def Let_def q)
  then show ?thesis unfolding x_def by blast
qed

text \<open>A result below half of the context's range was not rounded.\<close>

lemma ctx_round_small:
  assumes "0 < p" "ctx_round p (of_int n / 10 ^ k) = of_int m / 10 ^ k" "2 * \<bar>m\<bar> < 10 ^ p"
  shows "m = n"
proof -
  define x :: rat where "x = of_int n / 10 ^ k"
  define r :: rat where "r = of_int m / 10 ^ k"
  have "(10::rat) powi (1 - int p) \<le> 10 powi 0" using assms(1) by (intro power_int_increasing) auto
  then have "10 powi (1 - int p) / 2 * \<bar>x\<bar> \<le> 1 / 2 * \<bar>x\<bar>" by (intro mult_right_mono) auto
  then have "\<bar>r - x\<bar> \<le> 1 / 2 * \<bar>x\<bar>"
    using ctx_round_error [of p x] assms(2) by (simp add: x_def r_def)
  then have "\<bar>x\<bar> \<le> 2 * \<bar>r\<bar>" by linarith
  then have "\<bar>of_int n :: rat\<bar> \<le> 2 * \<bar>of_int m\<bar>" by (simp add: x_def r_def abs_divide divide_le_cancel)
  then have "of_int \<bar>n\<bar> \<le> (of_int (2 * \<bar>m\<bar>) :: rat)" by simp
  then have "\<bar>n\<bar> \<le> 2 * \<bar>m\<bar>" by (simp only: of_int_le_iff)
  with assms(3) have "\<bar>n\<bar> < 10 ^ p" by linarith
  from ctx_round_exact_div [OF this, of k] assms(2) show ?thesis by simp
qed

text \<open>Rounding to the context is monotone.\<close>

lemma ctx_round_bounds:
  assumes "0 < p" "0 < x"
  shows "10 powi (magnitude x - 1) \<le> ctx_round p x" "ctx_round p x \<le> 10 powi magnitude x"
proof -
  define q :: rat where "q = 10 powi (magnitude x - int p)"
  have q: "0 < q" by (simp add: q_def)
  have r: "ctx_round p x = of_int (round_half_even (x / q)) * q"
    using assms(2) by (simp add: ctx_round_def q_def Let_def)
  have up: "10 powi magnitude x = of_int (10 ^ p) * q" by (simp add: q_def power_int_diff)
  have lo: "10 powi (magnitude x - 1) = of_int (10 ^ (p - 1)) * q"
    using assms(1) by (simp add: q_def of_nat_diff flip: power_int_of_nat power_int_add)
  have "of_int (10 ^ (p - 1)) \<le> x / q"
    using magnitude_bounds(2) [of x] assms(2) q lo by (simp only: pos_le_divide_eq) (simp add: abs_of_pos)
  then have "10 ^ (p - 1) \<le> round_half_even (x / q)"
    using round_half_even_mono [of "of_int (10 ^ (p - 1))" "x / q"] by (simp only: round_half_even_of_int)
  then show "10 powi (magnitude x - 1) \<le> ctx_round p x"
    unfolding r lo using q by (intro mult_right_mono) (simp_all only: of_int_le_iff less_imp_le)
  have "x / q \<le> of_int (10 ^ p)"
    using magnitude_bounds(1) [of x] assms(2) q up by (simp only: pos_divide_le_eq) (simp add: abs_of_pos)
  then have "round_half_even (x / q) \<le> 10 ^ p"
    using round_half_even_mono [of "x / q" "of_int (10 ^ p)"] by (simp only: round_half_even_of_int)
  then show "ctx_round p x \<le> 10 powi magnitude x"
    unfolding r up using q by (intro mult_right_mono) (simp_all only: of_int_le_iff less_imp_le)
qed

lemma ctx_round_mono_pos:
  assumes "0 < p" "0 < x" "x \<le> y"
  shows "ctx_round p x \<le> ctx_round p y"
proof (cases "magnitude x = magnitude y")
  case True
  define q :: rat where "q = 10 powi (magnitude y - int p)"
  have q: "0 < q" by (simp add: q_def)
  have "round_half_even (x / q) \<le> round_half_even (y / q)"
    using assms(3) q by (intro round_half_even_mono divide_right_mono) auto
  then show ?thesis
    using assms q True by (auto simp: ctx_round_def Let_def q_def [symmetric] intro!: mult_right_mono)
next
  case False
  have y: "0 < y" using assms by simp
  have "(10::rat) powi (magnitude x - 1) < 10 powi magnitude y"
    using magnitude_bounds(2) [of x] magnitude_bounds(1) [of y] assms y by simp
  then have "magnitude x - 1 < magnitude y" by (rule powi_10_less_imp)
  with False have "magnitude x \<le> magnitude y - 1" by simp
  then have "(10::rat) powi magnitude x \<le> 10 powi (magnitude y - 1)" by (intro power_int_increasing) auto
  with ctx_round_bounds(2) [OF assms(1,2)] ctx_round_bounds(1) [OF assms(1) y] show ?thesis by linarith
qed

lemma ctx_round_mono:
  assumes "0 < p" "x \<le> y"
  shows "ctx_round p x \<le> ctx_round p y"
proof -
  consider "0 < x" | "y < 0" | "x \<le> 0" "0 \<le> y" by linarith
  then show ?thesis
  proof cases
    case 1
    with assms show ?thesis by (simp add: ctx_round_mono_pos)
  next
    case 2
    with assms ctx_round_mono_pos [of p "- y" "- x"] show ?thesis by (simp add: ctx_round_minus)
  next
    case 3
    with ctx_round_nonneg [of y p] ctx_round_nonneg [of "- x" p] show ?thesis by (simp add: ctx_round_minus)
  qed
qed

text \<open>A short decimal is returned as a reduced fraction, which is all that most evaluations need.\<close>

lemma ctx_round_code [code]:
  "ctx_round p x = (case quotient_of x of (a, b) \<Rightarrow>
     if 100000000 mod b = 0 \<and> \<bar>a\<bar> * (100000000 div b) < 1000000000000000000 \<and> 18 \<le> p then of_int a / of_int b
     else if x = 0 then 0
     else let q = 10 powi (magnitude x - int p) in of_int (round_half_even (x / q)) * q)"
proof (cases "quotient_of x")
  case (Pair a b)
  have b: "0 < b" using Pair by (rule quotient_of_denom_pos)
  have x: "x = of_int a / of_int b" using Pair by (rule quotient_of_div)
  have "ctx_round p x = x" if small: "100000000 mod b = 0" "\<bar>a\<bar> * (100000000 div b) < 1000000000000000000" "18 \<le> p"
  proof -
    define k where "k = 100000000 div b"
    have k: "b * k = 100000000" using small(1) mult_div_mod_eq [of b 100000000] by (simp add: k_def)
    have "0 < k" using k b by (metis zero_less_mult_pos zero_less_numeral)
    have e: "x = of_int (a * k) / 10 ^ 8"
    proof -
      have "(of_int b :: rat) * of_int k = 10 ^ 8" using k by (simp flip: of_int_mult)
      then show ?thesis using b \<open>0 < k\<close> by (simp add: x field_simps)
    qed
    have "\<bar>a * k\<bar> < 10 ^ 18" using small(2) \<open>0 < k\<close> by (simp add: k_def abs_mult)
    also have "(10::int) ^ 18 \<le> 10 ^ p" using small(3) by (intro power_increasing) auto
    finally show ?thesis unfolding e by (rule ctx_round_exact_div)
  qed
  then show ?thesis by (simp add: Pair ctx_round_def Let_def flip: x)
qed

end
