(* ===== verification/Fixed.thy ===== *)
theory Fixed
  imports Rounding
begin

text \<open>
  \<open>_fixed.py\<close>: exact arithmetic helpers.  A finite \<open>decimal.Decimal\<close> is modelled here as
  what \<open>as_tuple()\<close> shows: sign, digit tuple and exponent (\<open>pydecimal\<close>); the theorems of
  this theory show that the digit-level routines compute exact rational sums and products.
  The other theories therefore work with the numeric value of a \<open>Decimal\<close>, a rational.

  \<open>FixedPoint\<close> and its methods, \<open>ensure_utc_datetime\<close>, the rendering of timestamps, SHA-256
  and the precision of the ambient decimal context come from outside the repository; they
  are the fields of a record \<open>env\<close> that every definition using them takes as an argument.
  The locale \<open>fixed_env\<close> states what the code relies on; its interpretation \<open>std\<close> on the
  reference environment shows that the laws can hold.
\<close>

section \<open>The environment\<close>

record fixed_point =
  units :: int
  scale :: nat

datatype rounding = ROUND_HALF_EVEN | ROUND_DOWN | ROUND_HALF_UP

type_synonym instant = int \<comment> \<open>a UTC timestamp, in nanoseconds since 1970\<close>
type_synonym day = int \<comment> \<open>a calendar date, \<open>date.toordinal()\<close>\<close>

record env =
  mk_fixed :: "int \<Rightarrow> nat \<Rightarrow> fixed_point option"
  to_dec :: "fixed_point \<Rightarrow> rat"
  from_dec :: "rat \<Rightarrow> nat \<Rightarrow> rounding option \<Rightarrow> fixed_point option"
  prec :: nat
  fp_is_positive :: "fixed_point \<Rightarrow> bool"
  fp_truthy :: "fixed_point \<Rightarrow> bool"
  ensure_utc :: "instant \<Rightarrow> instant option"
  iso_utc :: "instant \<Rightarrow> string"
  sha256_hex :: "string \<Rightarrow> string"

locale fixed_env =
  fixes E :: env
  assumes mk_fixed_sound: "mk_fixed E u s = Some f \<Longrightarrow> f = \<lparr>units = u, scale = s\<rparr>"
    and to_dec_value: "to_dec E f = of_int (units f) / 10 ^ scale f"
    and from_dec_half_even: "from_dec E x s (Some ROUND_HALF_EVEN) = Some f \<Longrightarrow>
          f = \<lparr>units = round_half_even (x * 10 ^ s), scale = s\<rparr>"
    and from_dec_down: "from_dec E x s (Some ROUND_DOWN) = Some f \<Longrightarrow>
          f = \<lparr>units = round_down (x * 10 ^ s), scale = s\<rparr>"
    and from_dec_half_up: "from_dec E x s (Some ROUND_HALF_UP) = Some f \<Longrightarrow>
          f = \<lparr>units = round_half_up (x * 10 ^ s), scale = s\<rparr>"
    and from_dec_exact: "from_dec E x s None = Some f \<Longrightarrow>
          scale f = s \<and> of_int (units f) = x * 10 ^ s"
    and prec_pos: "0 < prec E"
    and is_positive_units: "fp_is_positive E f \<longleftrightarrow> 0 < units f"
    and hex_digest: "set (sha256_hex E msg) \<subseteq> set ''0123456789abcdef''"

text \<open>
  The reference environment: \<open>FixedPoint\<close> accepts scales up to 18 and converts exactly, an
  inexact conversion without a rounding mode is refused, and the context has 28 digits.  Its
  timestamps are rendered in unary and its hash is the hexadecimal rendering of the bytes,
  which is injective.
\<close>

definition std_env :: env where
  "std_env = \<lparr>
     mk_fixed = (\<lambda>u s. if s \<le> 18 then Some \<lparr>units = u, scale = s\<rparr> else None),
     to_dec = (\<lambda>f. of_int (units f) / 10 ^ scale f),
     from_dec = (\<lambda>x s r. if 18 < s then None else
        (case r of
           Some ROUND_HALF_EVEN \<Rightarrow> Some \<lparr>units = round_half_even (x * 10 ^ s), scale = s\<rparr>
         | Some ROUND_DOWN \<Rightarrow> Some \<lparr>units = round_down (x * 10 ^ s), scale = s\<rparr>
         | Some ROUND_HALF_UP \<Rightarrow> Some \<lparr>units = round_half_up (x * 10 ^ s), scale = s\<rparr>
         | None \<Rightarrow> (if of_int \<lfloor>x * 10 ^ s\<rfloor> = x * 10 ^ s
                    then Some \<lparr>units = \<lfloor>x * 10 ^ s\<rfloor>, scale = s\<rparr> else None))),
     prec = 28,
     fp_is_positive = (\<lambda>f. 0 < units f),
     fp_truthy = (\<lambda>f. True),
     ensure_utc = Some,
     iso_utc = (\<lambda>t. replicate (nat t) CHR ''t''),
     sha256_hex = (\<lambda>s. concat (map (\<lambda>c. [''0123456789abcdef'' ! (of_char c div 16),
                                      ''0123456789abcdef'' ! (of_char c mod 16)]) s))\<rparr>"

text \<open>Powers of ten are evaluated as integers.\<close>

lemma std_env_code [code]:
  "std_env = \<lparr>
     mk_fixed = (\<lambda>u s. if s \<le> 18 then Some \<lparr>units = u, scale = s\<rparr> else None),
     to_dec = (\<lambda>f. of_int (units f) / of_int (10 ^ scale f)),
     from_dec = (\<lambda>x s r. if 18 < s then None else let y = x * of_int (10 ^ s) in
        (case r of
           Some ROUND_HALF_EVEN \<Rightarrow> Some \<lparr>units = round_half_even y, scale = s\<rparr>
         | Some ROUND_DOWN \<Rightarrow> Some \<lparr>units = round_down y, scale = s\<rparr>
         | Some ROUND_HALF_UP \<Rightarrow> Some \<lparr>units = round_half_up y, scale = s\<rparr>
         | None \<Rightarrow> (let n = \<lfloor>y\<rfloor> in if of_int n = y then Some \<lparr>units = n, scale = s\<rparr> else None))),
     prec = 28,
     fp_is_positive = (\<lambda>f. 0 < units f),
     fp_truthy = (\<lambda>f. True),
     ensure_utc = Some,
     iso_utc = (\<lambda>t. replicate (nat t) CHR ''t''),
     sha256_hex = (\<lambda>s. concat (map (\<lambda>c. [''0123456789abcdef'' ! (of_char c div 16),
                                      ''0123456789abcdef'' ! (of_char c mod 16)]) s))\<rparr>"
  by (auto simp: std_env_def Let_def fun_eq_iff split: option.split rounding.split)

lemma std_env_digest: "set (sha256_hex std_env s) \<subseteq> set ''0123456789abcdef''"
proof -
  have "''0123456789abcdef'' ! n \<in> set ''0123456789abcdef''" if "n < 16" for n
    using that by (intro nth_mem) simp
  moreover have "of_char c div 16 < (16 :: nat)" "of_char c mod 16 < (16 :: nat)" for c :: char
    using nat_of_char_less_256 [of c] by (simp_all del: nat_of_char_less_256)
  ultimately show ?thesis
    by (simp only: std_env_def env.simps set_concat set_map UN_subset_iff) (auto simp del: nth_Cons_numeral)
qed

interpretation std: fixed_env std_env
  using std_env_digest by unfold_locales (auto simp: std_env_def split: if_splits)

definition decimal :: "env \<Rightarrow> fixed_point \<Rightarrow> rat" where
  "decimal E f = to_dec E f"

definition fixed :: "env \<Rightarrow> rat \<Rightarrow> nat \<Rightarrow> rounding option \<Rightarrow> fixed_point res" where
  "fixed E x s r = of_option ''fixed-point conversion'' (from_dec E x s r)"

definition new_fixed :: "env \<Rightarrow> int \<Rightarrow> nat \<Rightarrow> fixed_point res" where
  "new_fixed E u s = of_option ''FixedPoint'' (mk_fixed E u s)"

definition utc :: "env \<Rightarrow> instant \<Rightarrow> instant res" where
  "utc E t = of_option ''timestamp must be UTC'' (ensure_utc E t)"

context fixed_env
begin

lemma decimal_value: "decimal E f = of_int (units f) / 10 ^ scale f"
  by (simp add: decimal_def to_dec_value)

lemma new_fixed_Inr: "new_fixed E u s = Inr f \<Longrightarrow> f = \<lparr>units = u, scale = s\<rparr>"
  by (auto simp: new_fixed_def dest: mk_fixed_sound)

lemma fixed_half_even:
  "fixed E x s (Some ROUND_HALF_EVEN) = Inr f \<Longrightarrow>
     units f = round_half_even (x * 10 ^ s) \<and> scale f = s"
  by (auto simp: fixed_def dest: from_dec_half_even)

lemma fixed_down:
  "fixed E x s (Some ROUND_DOWN) = Inr f \<Longrightarrow> units f = round_down (x * 10 ^ s) \<and> scale f = s"
  by (auto simp: fixed_def dest: from_dec_down)

lemma fixed_half_up:
  "fixed E x s (Some ROUND_HALF_UP) = Inr f \<Longrightarrow> units f = round_half_up (x * 10 ^ s) \<and> scale f = s"
  by (auto simp: fixed_def dest: from_dec_half_up)

lemma fixed_exact:
  "fixed E x s None = Inr f \<Longrightarrow> scale f = s \<and> of_int (units f) = x * 10 ^ s"
  by (auto simp: fixed_def dest: from_dec_exact)

lemma fixed_opposite:
  assumes "fixed E x s (Some ROUND_HALF_EVEN) = Inr f"
    and "fixed E (- x) s (Some ROUND_HALF_EVEN) = Inr g"
  shows "units f + units g = 0"
  using fixed_half_even [OF assms(1)] fixed_half_even [OF assms(2)]
  by (simp add: round_half_even_minus)

lemma decimal_fixed_half_even:
  assumes "fixed E x s (Some ROUND_HALF_EVEN) = Inr f"
  shows "\<bar>decimal E f - x\<bar> \<le> 1 / (2 * 10 ^ s)"
proof -
  have "\<bar>of_int (round_half_even (x * 10 ^ s)) - x * 10 ^ s\<bar> / 10 ^ s \<le> 1 / 2 / 10 ^ s"
    by (intro divide_right_mono round_half_even_error) simp
  moreover have "decimal E f - x = (of_int (round_half_even (x * 10 ^ s)) - x * 10 ^ s) / 10 ^ s"
    using fixed_half_even [OF assms] by (simp add: decimal_value field_simps)
  ultimately show ?thesis by (simp add: abs_divide)
qed

lemma fixed_decimal_fixpoint:
  assumes "fixed E (decimal E f) (scale f) (Some ROUND_HALF_EVEN) = Inr g"
  shows "g = f"
  using fixed_half_even [OF assms] by (cases f; cases g) (simp add: decimal_value)

end

section \<open>Decimal operators under the ambient context\<close>

definition dadd :: "env \<Rightarrow> rat \<Rightarrow> rat \<Rightarrow> rat" where
  "dadd E x y = ctx_round (prec E) (x + y)"

definition dsub :: "env \<Rightarrow> rat \<Rightarrow> rat \<Rightarrow> rat" where
  "dsub E x y = ctx_round (prec E) (x - y)"

definition dmul :: "env \<Rightarrow> rat \<Rightarrow> rat \<Rightarrow> rat" where
  "dmul E x y = ctx_round (prec E) (x * y)"

definition dneg :: "env \<Rightarrow> rat \<Rightarrow> rat" where
  "dneg E x = ctx_round (prec E) (- x)"

definition dabs :: "env \<Rightarrow> rat \<Rightarrow> rat" where
  "dabs E x = ctx_round (prec E) \<bar>x\<bar>"

definition ddiv :: "env \<Rightarrow> rat \<Rightarrow> rat \<Rightarrow> rat res" where
  "ddiv E x y = (if y = 0 then Inl (ArithmeticError ''division by zero'')
     else Inr (ctx_round (prec E) (x / y)))"

text \<open>\<open>%\<close> truncates the quotient and refuses one that needs more digits than the context has.\<close>

definition dmod :: "env \<Rightarrow> rat \<Rightarrow> rat \<Rightarrow> rat res" where
  "dmod E x y =
     (if y = 0 then Inl (ArithmeticError ''invalid operation'')
      else let q = round_down (x / y) in
        if 10 ^ prec E \<le> \<bar>q\<bar> then Inl (ArithmeticError ''division impossible'')
        else Inr (ctx_round (prec E) (x - of_int q * y)))"

definition dsum :: "env \<Rightarrow> rat list \<Rightarrow> rat" where
  "dsum E xs = fold (\<lambda>x s. dadd E s x) xs 0"

text \<open>
  \<open>Decimal.quantize\<close> to a number of decimal places under one of the rounding modes; it refuses a
  result with more digits than the context has.
\<close>

definition dquantize :: "env \<Rightarrow> (rat \<Rightarrow> int) \<Rightarrow> rat \<Rightarrow> nat \<Rightarrow> rat res" where
  "dquantize E mode x places = (let n = mode (x * 10 ^ places) in
     if 10 ^ prec E \<le> \<bar>n\<bar> then Inl (ArithmeticError ''invalid operation'') else Inr (of_int n / 10 ^ places))"

lemma dquantize_code [code]:
  "dquantize E mode x places = (let n = mode (x * of_int (10 ^ places)) in
     if 10 ^ prec E \<le> \<bar>n\<bar> then Inl (ArithmeticError ''invalid operation'') else Inr (of_int n / of_int (10 ^ places)))"
  by (simp add: dquantize_def Let_def)

lemma dneg_dadd: "dneg E (dadd E x y) = ctx_round (prec E) (- dadd E x y)"
  by (simp add: dneg_def)

lemma ctx_round_eq_0_iff: "0 < p \<Longrightarrow> ctx_round p x = 0 \<longleftrightarrow> x = 0"
proof
  assume p: "0 < p" and z: "ctx_round p x = 0"
  show "x = 0"
  proof (rule ccontr)
    assume x: "x \<noteq> 0"
    have "\<bar>ctx_round p x - x\<bar> \<le> 10 powi (1 - int p) / 2 * \<bar>x\<bar>"
      by (rule ctx_round_error)
    moreover have "(10::rat) powi (1 - int p) \<le> 10 powi 0"
      using p by (intro power_int_increasing) auto
    ultimately have "\<bar>x\<bar> \<le> 1 / 2 * \<bar>x\<bar>"
      using z mult_right_mono [of "10 powi (1 - int p) / 2" "1/2" "\<bar>x\<bar>"] by simp
    with x show False by simp
  qed
qed simp

context fixed_env
begin

lemma dmod_zero_iff:
  assumes "dmod E x y = Inr r"
  shows "r = 0 \<longleftrightarrow> (\<exists>k::int. x = of_int k * y)"
proof -
  from assms have y: "y \<noteq> 0"
    and r: "r = ctx_round (prec E) (x - of_int (round_down (x / y)) * y)"
    by (auto simp: dmod_def Let_def split: if_splits)
  have "r = 0 \<longleftrightarrow> x = of_int (round_down (x / y)) * y"
    using prec_pos by (simp add: r ctx_round_eq_0_iff)
  also have "\<dots> \<longleftrightarrow> (\<exists>k::int. x = of_int k * y)"
    using y by (metis nonzero_mult_div_cancel_right round_down_of_int)
  finally show ?thesis .
qed

end

section \<open>Digit-level exact arithmetic\<close>

datatype pydecimal =
    Finite (negative: bool) (digits: "nat list") (exponent: int)
  | NonFinite

definition coefficient :: "nat list \<Rightarrow> nat" where
  "coefficient ds = foldl (\<lambda>c d. c * 10 + d) 0 ds"

fun decimal_digits :: "nat \<Rightarrow> nat list" where
  "decimal_digits n = (if n < 10 then [n] else decimal_digits (n div 10) @ [n mod 10])"

declare decimal_digits.simps [simp del]

fun dval :: "pydecimal \<Rightarrow> rat" where
  "dval (Finite s ds e) = (if s then - 1 else 1) * of_nat (coefficient ds) * 10 powi e"
| "dval NonFinite = 0"

fun finite_dec :: "pydecimal \<Rightarrow> bool" where
  "finite_dec (Finite s ds e) = True"
| "finite_dec NonFinite = False"

definition aligned_units :: "bool \<Rightarrow> nat list \<Rightarrow> int \<Rightarrow> int \<Rightarrow> int" where
  "aligned_units s ds e x =
     (let c = int (coefficient ds) * 10 ^ nat (e - x) in if s \<and> c \<noteq> 0 then - c else c)"

fun add_decimal_exact :: "pydecimal \<Rightarrow> pydecimal \<Rightarrow> pydecimal res" where
  "add_decimal_exact (Finite s1 ds1 e1) (Finite s2 ds2 e2) =
     (let x = min e1 e2;
          total = aligned_units s1 ds1 e1 x + aligned_units s2 ds2 e2 x
      in Inr (Finite (total < 0) (decimal_digits (nat \<bar>total\<bar>)) x))"
| "add_decimal_exact _ _ = raise ''exact decimal addition requires finite values''"

definition sum_decimal_exact :: "pydecimal list \<Rightarrow> pydecimal \<Rightarrow> pydecimal res" where
  "sum_decimal_exact vs start = fold_res add_decimal_exact start vs"

datatype decimal_like = OfFixed fixed_point | OfInt int | OfDecimal pydecimal

fun decimal_fraction :: "decimal_like \<Rightarrow> rat res" where
  "decimal_fraction (OfFixed f) = Inr (of_int (units f) / of_int (10 ^ scale f))"
| "decimal_fraction (OfInt n) = Inr (of_int n)"
| "decimal_fraction (OfDecimal NonFinite) =
     raise ''exact fraction conversion requires a finite decimal value''"
| "decimal_fraction (OfDecimal (Finite s ds e)) =
     (let c = int (coefficient ds); c' = (if s then - c else c)
      in if 0 \<le> e then Inr (of_int (c' * 10 ^ nat e)) else Inr (of_int c' / of_int (10 ^ nat (- e))))"

function strip_factor :: "nat \<Rightarrow> nat \<Rightarrow> nat \<times> nat" where
  "strip_factor f d =
     (if 1 < f \<and> 0 < d \<and> d mod f = 0
      then (let (r, c) = strip_factor f (d div f) in (r, Suc c)) else (d, 0))"
  by pat_completeness auto
termination
  by (relation "measure (\<lambda>(f, d). d)") auto

declare strip_factor.simps [simp del]

definition fraction_decimal_exact :: "rat \<Rightarrow> pydecimal res" where
  "fraction_decimal_exact x =
     (let (numerator, denominator) = quotient_of x;
          (d2, twos) = strip_factor 2 (nat denominator);
          (d5, fives) = strip_factor 5 d2
      in if d5 \<noteq> 1 then raise ''exact decimal result is non-terminating''
         else let s = max twos fives;
                  c = nat \<bar>numerator\<bar> * 2 ^ (s - twos) * 5 ^ (s - fives)
              in Inr (Finite (numerator < 0) (decimal_digits c) (- int s)))"

definition multiply_decimal_exact :: "decimal_like list \<Rightarrow> pydecimal res" where
  "multiply_decimal_exact vs =
     and_then (fold_res (\<lambda>r v. and_then (decimal_fraction v) (\<lambda>x. Inr (r * x))) 1 vs)
       fraction_decimal_exact"

definition fixed_fraction_half_even :: "env \<Rightarrow> rat \<Rightarrow> nat \<Rightarrow> fixed_point res" where
  "fixed_fraction_half_even E x s = and_then (new_fixed E 0 s) (\<lambda>_.
     let scaled = x * 10 ^ s;
         (num, den) = quotient_of scaled;
         u = \<bar>num\<bar> div den;
         remainder = \<bar>num\<bar> mod den;
         doubled = remainder * 2;
         u' = (if doubled > den \<or> (doubled = den \<and> u mod 2 \<noteq> 0) then u + 1 else u)
     in new_fixed E (if scaled < 0 then - u' else u') s)"

definition floor_to_scale :: "env \<Rightarrow> rat \<Rightarrow> nat \<Rightarrow> fixed_point res" where
  "floor_to_scale E x s = fixed E x s (Some ROUND_DOWN)"

definition aligned :: "env \<Rightarrow> fixed_point \<Rightarrow> fixed_point \<Rightarrow> bool res" where
  "aligned E v step = and_then (dmod E (decimal E v) (decimal E step)) (\<lambda>r. Inr (r = 0))"

definition remaining_units :: "fixed_point \<Rightarrow> fixed_point \<Rightarrow> int res" where
  "remaining_units whole filled =
     (if scale whole \<noteq> scale filled then raise ''quantity scales differ''
      else Inr (units whole - units filled))"

definition canonical_fixed :: "fixed_point \<Rightarrow> int \<times> nat" where
  "canonical_fixed f = (units f, scale f)"

section \<open>Exactness\<close>

lemma coefficient_snoc [simp]: "coefficient (ds @ [d]) = coefficient ds * 10 + d"
  by (simp add: coefficient_def)

lemma coefficient_decimal_digits [simp]: "coefficient (decimal_digits n) = n"
proof (induction n rule: decimal_digits.induct)
  case (1 n)
  then show ?case
    by (cases "n < 10") (simp_all add: decimal_digits.simps [of n] coefficient_def [of "[n]"])
qed

lemma aligned_units_value:
  assumes "x \<le> e"
  shows "of_int (aligned_units s ds e x) * 10 powi x = dval (Finite s ds e)"
proof -
  have "(10::rat) ^ nat (e - x) = 10 powi (e - x)"
    using assms by (simp add: power_int_def)
  then have "(10::rat) ^ nat (e - x) * 10 powi x = 10 powi e"
    by (simp flip: power_int_add)
  then show ?thesis
    by (simp add: aligned_units_def Let_def mult.assoc)
qed

lemma add_decimal_exact_value:
  assumes "finite_dec a" "finite_dec b"
  shows "\<exists>r. add_decimal_exact a b = Inr r \<and> finite_dec r \<and> dval r = dval a + dval b"
proof -
  obtain s1 ds1 e1 s2 ds2 e2 where ab: "a = Finite s1 ds1 e1" "b = Finite s2 ds2 e2"
    using assms by (cases a; cases b) auto
  define x where "x = min e1 e2"
  define t where "t = aligned_units s1 ds1 e1 x + aligned_units s2 ds2 e2 x"
  have "dval (Finite (t < 0) (decimal_digits (nat \<bar>t\<bar>)) x) = of_int t * 10 powi x"
    by (simp add: of_nat_nat)
  also have "\<dots> = dval a + dval b"
    using aligned_units_value [of x e1 s1 ds1] aligned_units_value [of x e2 s2 ds2]
    by (simp add: t_def ab x_def distrib_right)
  finally show ?thesis by (simp add: ab Let_def x_def t_def)
qed

lemma sum_decimal_exact_value:
  assumes "finite_dec start" "list_all finite_dec vs"
  shows "\<exists>r. sum_decimal_exact vs start = Inr r \<and> finite_dec r
           \<and> dval r = dval start + sum_list (map dval vs)"
  using assms
proof (induction vs arbitrary: start)
  case Nil
  then show ?case by (simp add: sum_decimal_exact_def)
next
  case (Cons v vs)
  then obtain r where r: "add_decimal_exact start v = Inr r" "finite_dec r"
    "dval r = dval start + dval v"
    using add_decimal_exact_value by fastforce
  with Cons.IH [OF r(2)] Cons.prems show ?case
    by (auto simp: sum_decimal_exact_def add.assoc)
qed

lemma decimal_fraction_value: "decimal_fraction (OfDecimal (Finite s ds e)) = Inr (dval (Finite s ds e))"
  by (simp add: Let_def power_int_def field_simps)

lemma strip_factor_value:
  assumes "1 < f" "0 < d" "strip_factor f d = (r, c)"
  shows "d = r * f ^ c \<and> 0 < r \<and> \<not> f dvd r"
  using assms
proof (induction f d arbitrary: r c rule: strip_factor.induct)
  case (1 f d)
  show ?case
  proof (cases "d mod f = 0")
    case False
    with "1.prems" show ?thesis by (auto simp: strip_factor.simps [of f d] mod_eq_0_iff_dvd)
  next
    case True
    obtain r' c' where rc: "strip_factor f (d div f) = (r', c')" by (cases "strip_factor f (d div f)")
    with True "1.prems" have "r = r'" "c = Suc c'"
      by (auto simp: strip_factor.simps [of f d])
    moreover have "0 < d div f" using True "1.prems" by (auto simp: div_greater_zero_iff mod_eq_0_iff_dvd dvd_imp_le)
    ultimately have "d div f = r * f ^ c' \<and> 0 < r \<and> \<not> f dvd r"
      using "1.IH" [OF _ "1.prems"(1) _ rc] True "1.prems" by simp
    moreover have "d = d div f * f" using True by (metis add.right_neutral div_mult_mod_eq)
    ultimately show ?thesis using \<open>c = Suc c'\<close> by (metis mult.assoc mult.commute power_Suc)
  qed
qed

lemma fraction_parts:
  assumes "quotient_of x = (num, den)" "strip_factor 2 (nat den) = (d2, twos)"
    "strip_factor 5 d2 = (d5, fives)"
  shows "nat den = d5 * 5 ^ fives * 2 ^ twos" "0 < d5" "\<not> 5 dvd d5" "\<not> 2 dvd d5"
proof -
  have den: "0 < nat den" using quotient_of_denom_pos [OF assms(1)] by simp
  have a: "nat den = d2 * 2 ^ twos \<and> 0 < d2 \<and> \<not> 2 dvd d2"
    using den assms(2) by (intro strip_factor_value) auto
  then have b: "d2 = d5 * 5 ^ fives \<and> 0 < d5 \<and> \<not> 5 dvd d5"
    using assms(3) by (intro strip_factor_value) auto
  from a b show "nat den = d5 * 5 ^ fives * 2 ^ twos" "0 < d5" "\<not> 5 dvd d5" "\<not> 2 dvd d5"
    by auto
qed

lemma fraction_decimal_exact_value:
  assumes "fraction_decimal_exact x = Inr d"
  shows "finite_dec d \<and> dval d = x"
proof -
  obtain num den where q: "quotient_of x = (num, den)" by (cases "quotient_of x")
  obtain d2 twos where t: "strip_factor 2 (nat den) = (d2, twos)" by (cases "strip_factor 2 (nat den)")
  obtain d5 fives where f: "strip_factor 5 d2 = (d5, fives)" by (cases "strip_factor 5 d2")
  define s where "s = max twos fives"
  define c where "c = nat \<bar>num\<bar> * 2 ^ (s - twos) * 5 ^ (s - fives)"
  from assms have d5: "d5 = 1" and d: "d = Finite (num < 0) (decimal_digits c) (- int s)"
    by (auto simp: fraction_decimal_exact_def q t f Let_def s_def c_def)
  have den: "(of_int den :: rat) = 5 ^ fives * 2 ^ twos"
  proof -
    have "of_nat (nat den) = (of_nat (5 ^ fives * 2 ^ twos) :: rat)"
      using fraction_parts(1) [OF q t f] d5 by simp
    then show ?thesis using quotient_of_denom_pos [OF q] by simp
  qed
  have ten: "(10::rat) ^ s = (2 ^ (s - twos) * 5 ^ (s - fives)) * (5 ^ fives * 2 ^ twos)"
  proof -
    have "(10::rat) ^ s = 2 ^ s * 5 ^ s" by (simp flip: power_mult_distrib)
    also have "(2::rat) ^ s = 2 ^ (s - twos) * 2 ^ twos" by (simp add: s_def flip: power_add)
    also have "(5::rat) ^ s = 5 ^ (s - fives) * 5 ^ fives" by (simp add: s_def flip: power_add)
    finally show ?thesis by simp
  qed
  have "dval d = of_int num * (2 ^ (s - twos) * 5 ^ (s - fives)) / 10 ^ s"
    by (simp add: d c_def of_nat_nat power_int_minus divide_inverse)
  also have "\<dots> = of_int num / of_int den"
    unfolding ten den by simp
  also have "\<dots> = x" using quotient_of_div [OF q] by simp
  finally show ?thesis by (simp add: d)
qed

lemma terminating_stripped:
  assumes q: "quotient_of x = (num, den)" and x: "x = of_int n / 10 ^ k"
    and r: "nat den = r * m" "0 < r" "\<not> 5 dvd r" "\<not> 2 dvd r"
  shows "r = 1"
proof -
  have den: "0 < den" using q by (rule quotient_of_denom_pos)
  have "(of_int num :: rat) / of_int den = of_int n / 10 ^ k"
    using quotient_of_div [OF q] x by simp
  then have "(of_int (num * 10 ^ k) :: rat) = of_int (n * den)"
    using den by (simp add: field_simps)
  then have e: "num * 10 ^ k = n * den" by (simp only: of_int_eq_iff)
  have "coprime num den" using q by (rule quotient_of_coprime)
  then have "den dvd 10 ^ k"
    using e by (metis coprime_commute coprime_dvd_mult_right_iff dvd_triv_right)
  then have "nat den dvd nat (10 ^ k)" using den by (simp add: nat_dvd_iff)
  then have "nat den dvd 10 ^ k" by (simp add: nat_power_eq)
  then have "r dvd 10 ^ k" using r(1) by (metis dvd_mult_left)
  moreover have "coprime r 10"
  proof -
    have "gcd r 5 dvd 5" by simp
    then have "gcd r 5 \<le> 5" by (rule dvd_imp_le) simp
    moreover have "gcd r 5 \<noteq> 0" by simp
    moreover have "\<not> 2 dvd (5::nat)" "\<not> 3 dvd (5::nat)" "\<not> 4 dvd (5::nat)" by simp_all
    then have "gcd r 5 \<noteq> 2" "gcd r 5 \<noteq> 3" "gcd r 5 \<noteq> 4"
      using \<open>gcd r 5 dvd 5\<close> by metis+
    moreover have "gcd r 5 \<noteq> 5" using r(3) by (metis gcd_dvd1)
    ultimately have "gcd r 5 = 1" by arith
    then have "coprime r 5" by (simp add: coprime_iff_gcd_eq_1)
    moreover have "coprime r 2" using r(4) by simp
    moreover have "(10::nat) = 2 * 5" by simp
    ultimately show ?thesis by (metis coprime_mult_right_iff)
  qed
  ultimately show ?thesis
    by (metis coprime_power_right_iff coprime_absorb_left is_unit_power_iff nat_dvd_1_iff_1)
qed

text \<open>
  \<open>fraction_decimal_exact\<close> returns a decimal exactly for the fractions with a finite
  base-10 expansion; every other fraction is refused.
\<close>

theorem fraction_decimal_exact_returns_iff:
  "returns (fraction_decimal_exact x) \<longleftrightarrow> (\<exists>n k. x = of_int n / 10 ^ k)"
proof
  assume "returns (fraction_decimal_exact x)"
  then obtain d where "fraction_decimal_exact x = Inr d" by (auto simp: returns_iff)
  then have d: "finite_dec d" "dval d = x" using fraction_decimal_exact_value by auto
  then obtain s ds e where "d = Finite s ds e" by (cases d) auto
  define z where "z = (if s then - 1 else 1) * int (coefficient ds)"
  from d \<open>d = Finite s ds e\<close> have x: "x = of_int z * 10 powi e" by (auto simp: z_def)
  show "\<exists>n k. x = of_int n / 10 ^ k"
  proof (cases "0 \<le> e")
    case True
    then have "x = of_int (z * 10 ^ nat e) / 10 ^ 0" by (simp add: x power_int_def)
    then show ?thesis by blast
  next
    case False
    then have "e = - int (nat (- e))" by simp
    then have "(10::rat) powi e = inverse (10 ^ nat (- e))"
      by (metis power_int_minus power_int_of_nat)
    then have "x = of_int z / 10 ^ nat (- e)" by (simp only: x divide_inverse)
    then show ?thesis by blast
  qed
next
  assume "\<exists>n k. x = of_int n / 10 ^ k"
  then obtain n k where x: "x = of_int n / 10 ^ k" by blast
  obtain num den where q: "quotient_of x = (num, den)" by (cases "quotient_of x")
  obtain d2 twos where t: "strip_factor 2 (nat den) = (d2, twos)" by (cases "strip_factor 2 (nat den)")
  obtain d5 fives where f: "strip_factor 5 d2 = (d5, fives)" by (cases "strip_factor 5 d2")
  have "nat den = d5 * (5 ^ fives * 2 ^ twos)"
    using fraction_parts(1) [OF q t f] by (simp add: mult.assoc)
  then have "d5 = 1"
    using terminating_stripped [OF q x] fraction_parts(2-4) [OF q t f] by blast
  then show "returns (fraction_decimal_exact x)"
    by (simp add: fraction_decimal_exact_def q t f Let_def)
qed

lemma half_even_quotient:
  assumes q: "quotient_of y = (num, den)" and u: "u = \<bar>num\<bar> div den"
    and r: "doubled = \<bar>num\<bar> mod den * 2"
  shows "round_half_even \<bar>y\<bar> =
    (if doubled > den \<or> (doubled = den \<and> u mod 2 \<noteq> 0) then u + 1 else u)"
proof -
  have den: "0 < den" using q by (rule quotient_of_denom_pos)
  have y: "\<bar>y\<bar> = of_int \<bar>num\<bar> / of_int den"
    using quotient_of_div [OF q] den by (simp add: abs_divide)
  have split: "(of_int \<bar>num\<bar> :: rat) = of_int u * of_int den + of_int (\<bar>num\<bar> mod den)"
    unfolding u by (metis of_int_add of_int_mult div_mult_mod_eq)
  have fl: "\<lfloor>\<bar>y\<bar>\<rfloor> = u" unfolding y u by (rule floor_divide_of_int_eq)
  have fr: "\<bar>y\<bar> - of_int u = of_int (\<bar>num\<bar> mod den) / of_int den"
    unfolding y split using den by (simp add: field_simps)
  define m where "m = \<bar>num\<bar> mod den"
  have rd: "(of_int doubled :: rat) = 2 * of_int m" by (simp add: r m_def)
  have dpos: "(0::rat) < of_int den" using den by simp
  have c1: "of_int m / of_int den < (1/2 :: rat) \<longleftrightarrow> doubled < den"
  proof -
    have "of_int m / of_int den < (1/2 :: rat) \<longleftrightarrow> 2 * of_int m < (of_int den :: rat)"
      using dpos by (simp add: pos_divide_less_eq mult.commute)
    also have "\<dots> \<longleftrightarrow> doubled < den" by (simp only: rd [symmetric] of_int_less_iff)
    finally show ?thesis .
  qed
  have c2: "(1/2 :: rat) < of_int m / of_int den \<longleftrightarrow> den < doubled"
  proof -
    have "(1/2 :: rat) < of_int m / of_int den \<longleftrightarrow> (of_int den :: rat) < 2 * of_int m"
      using dpos by (simp add: pos_less_divide_eq mult.commute)
    also have "\<dots> \<longleftrightarrow> den < doubled" by (simp only: rd [symmetric] of_int_less_iff)
    finally show ?thesis .
  qed
  show ?thesis
    unfolding round_half_even_def Let_def fl fr m_def [symmetric] c1 c2 by (auto simp: even_iff_mod_2_eq_zero)
qed

text \<open>
  rounding a rational book allocation with integer division and a doubled remainder is
  round-half-even of the exact value, whatever the ambient decimal context.
\<close>

theorem fixed_fraction_half_even_correct:
  assumes "fixed_env E" and "fixed_fraction_half_even E x s = Inr f"
  shows "units f = round_half_even (x * 10 ^ s) \<and> scale f = s
         \<and> \<bar>decimal E f - x\<bar> \<le> 1 / (2 * 10 ^ s)"
proof -
  obtain num den where q: "quotient_of (x * 10 ^ s) = (num, den)" by (cases "quotient_of (x * 10 ^ s)")
  have u: "(let u = \<bar>num\<bar> div den; doubled = \<bar>num\<bar> mod den * 2
        in if doubled > den \<or> (doubled = den \<and> u mod 2 \<noteq> 0) then u + 1 else u)
      = round_half_even \<bar>x * 10 ^ s\<bar>"
    using half_even_quotient [OF q refl refl] by (simp only: Let_def)
  have "new_fixed E (if x * 10 ^ s < 0 then - round_half_even \<bar>x * 10 ^ s\<bar>
          else round_half_even \<bar>x * 10 ^ s\<bar>) s = Inr f"
    using assms(2) unfolding u [symmetric]
    by (simp only: fixed_fraction_half_even_def q Let_def prod.case and_then_Inr) blast
  moreover have "(if y < 0 then - round_half_even \<bar>y\<bar> else round_half_even \<bar>y\<bar>) = round_half_even y"
    for y using round_half_even_minus [of y] by simp
  ultimately have f: "f = \<lparr>units = round_half_even (x * 10 ^ s), scale = s\<rparr>"
    using fixed_env.new_fixed_Inr [OF assms(1)] by simp
  have "\<bar>of_int (round_half_even (x * 10 ^ s)) - x * 10 ^ s\<bar> / 10 ^ s \<le> 1 / 2 / 10 ^ s"
    by (intro divide_right_mono round_half_even_error) simp
  moreover have "decimal E f - x = (of_int (round_half_even (x * 10 ^ s)) - x * 10 ^ s) / 10 ^ s"
    by (simp add: f fixed_env.decimal_value [OF assms(1)] field_simps)
  ultimately show ?thesis by (simp add: f abs_divide)
qed

theorem fixed_fraction_half_even_correct_witness:
  "\<exists>f. fixed_fraction_half_even std_env (5 / 8) 2 = Inr f
     \<and> units f = round_half_even (5 / 8 * 10 ^ 2) \<and> units f = 62"
proof -
  have r: "fixed_fraction_half_even std_env (5 / 8) 2 = Inr \<lparr>units = 62, scale = 2\<rparr>"
    by code_simp
  from fixed_fraction_half_even_correct [OF std.fixed_env_axioms r] r show ?thesis
    by (intro exI [of _ "\<lparr>units = 62, scale = 2\<rparr>"]) simp
qed

lemma fold_product_value:
  "fold_res (\<lambda>r v. and_then (decimal_fraction v) (\<lambda>x. Inr (r * x))) a vs = Inr p \<Longrightarrow>
     \<exists>xs. map_res decimal_fraction vs = Inr xs \<and> p = a * prod_list xs"
proof (induction vs arbitrary: a)
  case Nil
  then show ?case by simp
next
  case (Cons v vs)
  then obtain x where x: "decimal_fraction v = Inr x"
    "fold_res (\<lambda>r v. and_then (decimal_fraction v) (\<lambda>x. Inr (r * x))) (a * x) vs = Inr p"
    by auto
  from Cons.IH [OF x(2)] obtain xs where "map_res decimal_fraction vs = Inr xs" "p = a * x * prod_list xs"
    by auto
  with x(1) show ?case by (auto simp: mult.assoc)
qed

text \<open>
  sums and products of decimals computed on the digit tuples are exact: the value of
  the sum is the sum of the values, and a returned product is the product of the factors.
\<close>

theorem exact_sum_and_product:
  assumes "list_all finite_dec vs" and "multiply_decimal_exact ws = Inr d"
  shows "(\<exists>r. sum_decimal_exact vs (Finite False [0] 0) = Inr r
              \<and> dval r = sum_list (map dval vs))
         \<and> (\<exists>xs. map_res decimal_fraction ws = Inr xs \<and> dval d = prod_list xs)"
proof
  show "\<exists>r. sum_decimal_exact vs (Finite False [0] 0) = Inr r \<and> dval r = sum_list (map dval vs)"
    using sum_decimal_exact_value [OF _ assms(1), of "Finite False [0] 0"]
    by (auto simp: coefficient_def)
  from assms(2) obtain p where
    "fold_res (\<lambda>r v. and_then (decimal_fraction v) (\<lambda>x. Inr (r * x))) 1 ws = Inr p"
    "fraction_decimal_exact p = Inr d"
    by (auto simp: multiply_decimal_exact_def)
  then show "\<exists>xs. map_res decimal_fraction ws = Inr xs \<and> dval d = prod_list xs"
    using fold_product_value fraction_decimal_exact_value by fastforce
qed

theorem exact_sum_and_product_witness:
  "\<exists>r d. sum_decimal_exact [Finite False [1] 3, Finite True [1] (- 3)] (Finite False [0] 0) = Inr r
     \<and> dval r = 10 ^ 3 - 1 / 10 ^ 3
     \<and> multiply_decimal_exact [OfFixed \<lparr>units = 5, scale = 1\<rparr>, OfInt 3] = Inr d \<and> dval d = 3 / 2"
proof -
  let ?vs = "[Finite False [1] 3, Finite True [1] (- 3)]"
  let ?ws = "[OfFixed \<lparr>units = 5, scale = 1\<rparr>, OfInt 3]"
  have d: "multiply_decimal_exact ?ws = Inr (Finite False [1, 5] (- 1))"
    by code_simp
  have f: "list_all finite_dec ?vs" by simp
  from exact_sum_and_product [OF f d] obtain r where
    "sum_decimal_exact ?vs (Finite False [0] 0) = Inr r" "dval r = sum_list (map dval ?vs)"
    by auto
  moreover have "sum_list (map dval ?vs) = 10 ^ 3 - 1 / 10 ^ 3"
    by code_simp
  moreover have "dval (Finite False [1, 5] (- 1)) = 3 / 2"
    by code_simp
  ultimately show ?thesis using d by metis
qed

end
