(* ===== verification/Tokens.thy ===== *)
theory Tokens
  imports Fixed
begin

text \<open>
  \<open>_json.py\<close>: the small JSON encoders behind every deterministic identifier, and the
  identifier scheme itself (\<open>_digest\<close> of \<open>broker.py\<close>, \<open>_identifier\<close> of \<open>ledger.py\<close>): the first
  24 hexadecimal digits of the SHA-256 of an encoded flat sequence.  The theorem of this
  theory is that the encoding is injective, so two identifiers agree only where the hash does.
\<close>

datatype scalar = SStr string | SNull | SBool bool | SInt int

definition hex_digit :: "nat \<Rightarrow> char" where
  "hex_digit n = (if n < 10 then char_of (n + 48) else char_of (n + 87))"

text \<open>\<open>json.encoder.encode_basestring_ascii\<close> on code points below 256.\<close>

definition escape_char :: "char \<Rightarrow> string" where
  "escape_char c =
     (if c = CHR 0x5C then [CHR 0x5C, CHR 0x5C]
      else if c = CHR 0x22 then [CHR 0x5C, CHR 0x22]
      else if c = CHR 8 then [CHR 0x5C, CHR ''b'']
      else if c = CHR 12 then [CHR 0x5C, CHR ''f'']
      else if c = CHR 10 then [CHR 0x5C, CHR ''n'']
      else if c = CHR 13 then [CHR 0x5C, CHR ''r'']
      else if c = CHR 9 then [CHR 0x5C, CHR ''t'']
      else let n = of_char c :: nat in
        if 32 \<le> n \<and> n \<le> 126 then [c]
        else [CHR 0x5C, CHR ''u'', CHR ''0'', CHR ''0'', hex_digit (n div 16), hex_digit (n mod 16)])"

definition string_token :: "string \<Rightarrow> string" where
  "string_token s = CHR 0x22 # concat (map escape_char s) @ [CHR 0x22]"

definition digit_char :: "nat \<Rightarrow> char" where
  "digit_char d = char_of (d + 48)"

definition show_nat :: "nat \<Rightarrow> string" where
  "show_nat n = map digit_char (decimal_digits n)"

definition show_int :: "int \<Rightarrow> string" where
  "show_int i = (if i < 0 then CHR ''-'' # show_nat (nat (- i)) else show_nat (nat i))"

fun scalar_token :: "scalar \<Rightarrow> string" where
  "scalar_token (SStr s) = string_token s"
| "scalar_token SNull = ''null''"
| "scalar_token (SBool True) = ''true''"
| "scalar_token (SBool False) = ''false''"
| "scalar_token (SInt i) = show_int i"

fun join_comma :: "string list \<Rightarrow> string" where
  "join_comma [] = ''''"
| "join_comma [t] = t"
| "join_comma (t # ts) = t @ CHR '','' # join_comma ts"

definition flat_sequence_bytes :: "scalar list \<Rightarrow> string" where
  "flat_sequence_bytes vs = CHR ''['' # join_comma (map scalar_token vs) @ [CHR '']'']"

fun fixed_token :: "fixed_point option \<Rightarrow> string" where
  "fixed_token None = ''null''"
| "fixed_token (Some f) =
     CHR 0x7B # CHR 0x22 # ''scale'' @ CHR 0x22 # CHR '':'' # show_nat (scale f)
       @ CHR '','' # CHR 0x22 # ''units'' @ CHR 0x22 # CHR '':'' # show_int (units f) @ [CHR 0x7D]"

definition mint_id :: "env \<Rightarrow> string \<Rightarrow> scalar list \<Rightarrow> string" where
  "mint_id E prefix parts = prefix @ CHR ''-'' # take 24 (sha256_hex E (flat_sequence_bytes parts))"

context fixed_env
begin

lemma mint_id_strip:
  assumes "prefix \<noteq> ''''" "\<not> py_space (hd prefix)"
  shows "py_strip (mint_id E prefix parts) = mint_id E prefix parts"
proof (rule py_strip_id)
  let ?h = "take 24 (sha256_hex E (flat_sequence_bytes parts))"
  show "mint_id E prefix parts \<noteq> ''''" "\<not> py_space (hd (mint_id E prefix parts))"
    using assms by (simp_all add: mint_id_def)
  have "set (CHR ''-'' # ?h) \<subseteq> set ''-0123456789abcdef''"
    using hex_digest [of "flat_sequence_bytes parts"] set_take_subset by fastforce
  moreover have "last (mint_id E prefix parts) \<in> set (CHR ''-'' # ?h)"
    by (simp add: mint_id_def)
  moreover have "\<forall>c \<in> set ''-0123456789abcdef''. \<not> py_space c"
    by (simp add: py_space_def)
  ultimately show "\<not> py_space (last (mint_id E prefix parts))" by blast
qed

end

section \<open>Injectivity\<close>

text \<open>A decoder for one escaped character; it inverts the encoder on every character.\<close>

definition unhex :: "char \<Rightarrow> nat" where
  "unhex h = (let n = of_char h in if n < 58 then n - 48 else n - 87)"

fun unescape :: "string \<Rightarrow> char \<times> string" where
  "unescape (a # b # r) =
     (if a \<noteq> CHR 0x5C then (a, b # r)
      else if b = CHR ''b'' then (CHR 8, r)
      else if b = CHR ''f'' then (CHR 12, r)
      else if b = CHR ''n'' then (CHR 10, r)
      else if b = CHR ''r'' then (CHR 13, r)
      else if b = CHR ''t'' then (CHR 9, r)
      else if b = CHR ''u'' then (char_of (unhex (r ! 2) * 16 + unhex (r ! 3)), drop 4 r)
      else (b, r))"
| "unescape [a] = (a, [])"
| "unescape [] = (CHR 0x00, [])"

lemma unhex_hex_digit [simp]: "n < 16 \<Longrightarrow> unhex (hex_digit n) = n"
  by (simp add: hex_digit_def unhex_def)

lemma unhex_char [simp]:
  "char_of (unhex (hex_digit ((of_char c :: nat) div 16)) * 16
     + unhex (hex_digit ((of_char c :: nat) mod 16))) = c"
proof -
  have "(of_char c :: nat) div 16 < 16"
    by (intro less_mult_imp_div_less) simp
  then show ?thesis by simp
qed

lemma unescape_plain: "a \<noteq> CHR 0x5C \<Longrightarrow> unescape (a # x) = (a, x)"
  by (cases x) simp_all

lemma unescape_hex:
  "unescape (CHR 0x5C # CHR ''u'' # CHR ''0'' # CHR ''0'' # h # k # x) =
     (char_of (unhex h * 16 + unhex k), x)"
  by simp

definition short_escaped :: "char list" where
  "short_escaped = [CHR 0x5C, CHR 0x22, CHR 8, CHR 12, CHR 10, CHR 13, CHR 9]"

lemma escape_char_long:
  "c \<notin> set short_escaped \<Longrightarrow> escape_char c =
     (let n = of_char c :: nat in if 32 \<le> n \<and> n \<le> 126 then [c]
      else [CHR 0x5C, CHR ''u'', CHR ''0'', CHR ''0'', hex_digit (n div 16), hex_digit (n mod 16)])"
  by (simp add: escape_char_def short_escaped_def)

lemma unescape_short: "c \<in> set short_escaped \<Longrightarrow> unescape (escape_char c @ x) = (c, x)"
  by (auto simp: short_escaped_def escape_char_def)

lemma unescape_long:
  assumes "c \<notin> set short_escaped"
  shows "unescape (escape_char c @ x) = (c, x)"
proof (cases "32 \<le> (of_char c :: nat) \<and> (of_char c :: nat) \<le> 126")
  case True
  then have e: "escape_char c = [c]" using assms by (simp add: escape_char_long)
  have "c \<noteq> CHR 0x5C" using assms by (auto simp: short_escaped_def)
  then show ?thesis by (simp add: e unescape_plain)
next
  case False
  then have e: "escape_char c = [CHR 0x5C, CHR ''u'', CHR ''0'', CHR ''0'',
      hex_digit ((of_char c :: nat) div 16), hex_digit ((of_char c :: nat) mod 16)]"
    unfolding escape_char_long [OF assms] Let_def by (rule if_not_P)
  show ?thesis by (simp only: e append_Cons append_Nil unescape_hex unhex_char)
qed

lemma unescape_escape_char: "unescape (escape_char c @ x) = (c, x)"
  using unescape_short unescape_long by blast

lemma escape_char_prefix_free:
  "escape_char c @ x = escape_char d @ y \<Longrightarrow> c = d \<and> x = y"
  using unescape_escape_char [of c x] unescape_escape_char [of d y] by (metis prod.inject)

lemma escape_char_head:
  "\<exists>a u. escape_char c = a # u \<and> a \<noteq> CHR 0x22"
proof (cases "c \<in> set short_escaped")
  case True
  then show ?thesis by (auto simp: short_escaped_def escape_char_def)
next
  case False
  then have "c \<noteq> CHR 0x22" by (auto simp: short_escaped_def)
  then show ?thesis unfolding escape_char_long [OF False] by (simp add: Let_def)
qed

lemma escape_char_not_quote: "escape_char c @ x \<noteq> CHR 0x22 # y"
  using escape_char_head [of c] by auto

lemma string_body_prefix_free:
  "concat (map escape_char s) @ CHR 0x22 # x = concat (map escape_char t) @ CHR 0x22 # y \<Longrightarrow>
     s = t \<and> x = y"
proof (induction s arbitrary: t)
  case Nil
  show ?case
  proof (cases t)
    case (Cons d t')
    with Nil have "escape_char d @ (concat (map escape_char t') @ CHR 0x22 # y) = CHR 0x22 # x"
      by simp
    then show ?thesis using escape_char_not_quote by blast
  qed (use Nil in simp)
next
  case (Cons c s)
  show ?case
  proof (cases t)
    case Nil
    with Cons.prems have "escape_char c @ (concat (map escape_char s) @ CHR 0x22 # x) = CHR 0x22 # y"
      by simp
    then show ?thesis using escape_char_not_quote by blast
  next
    case t: (Cons d t')
    have "c = d \<and> concat (map escape_char s) @ CHR 0x22 # x = concat (map escape_char t') @ CHR 0x22 # y"
      using Cons.prems by (intro escape_char_prefix_free) (simp add: t)
    then show ?thesis using Cons.IH t by blast
  qed
qed

lemma string_token_prefix_free: "string_token s @ x = string_token t @ y \<Longrightarrow> s = t \<and> x = y"
  using string_body_prefix_free [of s x t y] by (simp add: string_token_def)

definition is_digit :: "char \<Rightarrow> bool" where
  "is_digit c = (let n = of_char c :: nat in 48 \<le> n \<and> n \<le> 57)"

lemma decimal_digits_lt: "d \<in> set (decimal_digits n) \<Longrightarrow> d < 10"
proof (induction n rule: decimal_digits.induct)
  case (1 n)
  then show ?case
    by (cases "n < 10") (auto simp: decimal_digits.simps [of n])
qed

lemma decimal_digits_nonempty [simp]: "decimal_digits n \<noteq> []"
  by (subst decimal_digits.simps) simp

lemma of_char_digit: "d < 10 \<Longrightarrow> (of_char (digit_char d) :: nat) = d + 48"
  by (simp add: digit_char_def)

lemma show_nat_digits: "c \<in> set (show_nat n) \<Longrightarrow> is_digit c"
  by (auto simp: show_nat_def is_digit_def of_char_digit dest!: decimal_digits_lt)

lemma digit_char_inj_on: "inj_on digit_char {d. d < 10}"
  by (intro inj_onI) (metis mem_Collect_eq of_char_digit add_right_cancel)

lemma show_nat_inj: "show_nat m = show_nat n \<Longrightarrow> m = n"
proof -
  assume "show_nat m = show_nat n"
  then have "decimal_digits m = decimal_digits n"
    unfolding show_nat_def
    by (rule map_inj_on) (rule inj_on_subset [OF digit_char_inj_on], auto dest: decimal_digits_lt)
  then show "m = n" by (metis coefficient_decimal_digits)
qed

lemma digit_run_unique:
  assumes "\<forall>c \<in> set s. is_digit c" "\<forall>c \<in> set t. is_digit c"
    and "\<not> is_digit c" "\<not> is_digit d" "s @ c # x = t @ d # y"
  shows "s = t \<and> c # x = d # y"
  using assms
proof (induction s arbitrary: t)
  case Nil
  then show ?case by (cases t) auto
next
  case (Cons a s)
  then show ?case by (cases t) auto
qed

lemma show_int_prefix_free:
  assumes "\<not> is_digit c" "\<not> is_digit d" "show_int i @ c # x = show_int j @ d # y"
  shows "i = j \<and> c # x = d # y"
proof -
  have digits: "\<forall>a \<in> set (show_nat n). is_digit a" for n by (blast dest: show_nat_digits)
  have ne: "show_nat n \<noteq> []" for n by (simp add: show_nat_def)
  have minus: "CHR ''-'' # u \<noteq> show_nat n @ v" for u v n
  proof
    assume "CHR ''-'' # u = show_nat n @ v"
    then have "CHR ''-'' = hd (show_nat n)" using ne by (metis hd_append2 list.sel(1))
    then have "is_digit CHR ''-''" using digits ne by (metis hd_in_set)
    then show False by (simp add: is_digit_def)
  qed
  consider "i < 0" "j < 0" | "0 \<le> i" "0 \<le> j" | "i < 0" "0 \<le> j" | "0 \<le> i" "j < 0" by linarith
  then show ?thesis
  proof cases
    case 1
    then have "show_nat (nat (- i)) = show_nat (nat (- j)) \<and> c # x = d # y"
      using assms digits by (intro digit_run_unique) (auto simp: show_int_def)
    with 1 show ?thesis by (auto dest: show_nat_inj)
  next
    case 2
    then have "show_nat (nat i) = show_nat (nat j) \<and> c # x = d # y"
      using assms digits by (intro digit_run_unique) (auto simp: show_int_def)
    with 2 show ?thesis by (auto dest: show_nat_inj)
  next
    case 3
    then show ?thesis using assms(3) minus by (simp add: show_int_def)
  next
    case 4
    then show ?thesis using assms(3) minus by (simp add: show_int_def) metis
  qed
qed

lemma show_int_head:
  "\<exists>a u. show_int i = a # u \<and> (is_digit a \<or> a = CHR ''-'')"
  by (cases "show_nat (nat \<bar>i\<bar>)")
     (use show_nat_digits [of _ "nat \<bar>i\<bar>"] in \<open>auto simp: show_int_def show_nat_def abs_if split: if_splits\<close>)

lemma scalar_token_prefix_free:
  assumes "c \<in> {CHR '','', CHR '']''}" "d \<in> {CHR '','', CHR '']''}"
    and "scalar_token v @ c # x = scalar_token w @ d # y"
  shows "v = w \<and> c # x = d # y"
proof -
  have nd: "\<not> is_digit c" "\<not> is_digit d" using assms by (auto simp: is_digit_def)
  show ?thesis
  proof (cases v; cases w)
    fix s t assume "v = SStr s" "w = SStr t"
    with assms(3) have "string_token s @ c # x = string_token t @ d # y" by simp
    then show ?thesis using \<open>v = SStr s\<close> \<open>w = SStr t\<close> by (auto dest!: string_token_prefix_free)
  next
    fix i j assume "v = SInt i" "w = SInt j"
    then show ?thesis using assms(3) show_int_prefix_free [OF nd] by auto
  next
    fix s i assume "v = SStr s" "w = SInt i"
    then show ?thesis using assms(3) show_int_head [of i] by (auto simp: string_token_def is_digit_def)
  next
    fix i s assume "v = SInt i" "w = SStr s"
    then show ?thesis using assms(3) show_int_head [of i] by (auto simp: string_token_def is_digit_def)
  next
    fix i assume "v = SNull" "w = SInt i"
    then show ?thesis using assms(3) show_int_head [of i] by (auto simp: is_digit_def)
  next
    fix i assume "v = SInt i" "w = SNull"
    then show ?thesis using assms(3) show_int_head [of i] by (auto simp: is_digit_def)
  next
    fix i b assume "v = SInt i" "w = SBool b"
    then show ?thesis using assms(3) show_int_head [of i] by (cases b) (auto simp: is_digit_def)
  next
    fix i b assume "v = SBool b" "w = SInt i"
    then show ?thesis using assms(3) show_int_head [of i] by (cases b) (auto simp: is_digit_def)
  next
    fix a b assume "v = SBool a" "w = SBool b"
    then show ?thesis using assms(3) by (cases a; cases b) auto
  next
    fix a s assume "v = SBool a" "w = SStr s"
    then show ?thesis using assms(3) by (cases a) (auto simp: string_token_def)
  next
    fix a s assume "v = SStr s" "w = SBool a"
    then show ?thesis using assms(3) by (cases a) (auto simp: string_token_def)
  next
    fix a assume "v = SBool a" "w = SNull"
    then show ?thesis using assms(3) by (cases a) auto
  next
    fix a assume "v = SNull" "w = SBool a"
    then show ?thesis using assms(3) by (cases a) auto
  qed (use assms(3) in \<open>auto simp: string_token_def\<close>)
qed

lemma scalar_token_no_bracket: "scalar_token v @ x \<noteq> CHR '']'' # y"
proof (cases v)
  case (SInt i)
  then show ?thesis using show_int_head [of i] by (auto simp: is_digit_def)
next
  case (SBool b)
  then show ?thesis by (cases b) simp_all
qed (simp_all add: string_token_def)

lemma join_comma_Cons:
  "join_comma (t # ts) @ [CHR '']''] =
     t @ (if ts = [] then [CHR '']''] else CHR '','' # join_comma ts @ [CHR '']''])"
  by (cases ts) auto

definition token_tail :: "scalar list \<Rightarrow> string" where
  "token_tail us = (if us = [] then [CHR '']'']
     else CHR '','' # join_comma (map scalar_token us) @ [CHR '']''])"

lemma join_tokens_Cons:
  "join_comma (map scalar_token (v # vs)) @ [CHR '']''] = scalar_token v @ token_tail vs"
  by (simp only: list.map join_comma_Cons token_tail_def map_is_Nil_conv)

lemma token_tail_head: "\<exists>c x. token_tail us = c # x \<and> c \<in> {CHR '','', CHR '']''}"
  by (auto simp: token_tail_def)

lemma token_tail_eqD:
  "token_tail us = token_tail ws \<Longrightarrow>
     join_comma (map scalar_token us) @ [CHR '']''] = join_comma (map scalar_token ws) @ [CHR '']'']"
  by (simp add: token_tail_def split: if_splits)

lemma join_tokens_inj:
  "join_comma (map scalar_token vs) @ [CHR '']''] = join_comma (map scalar_token ws) @ [CHR '']''] \<Longrightarrow>
     vs = ws"
proof (induction vs arbitrary: ws)
  case Nil
  show ?case
  proof (cases ws)
    case (Cons w ws')
    with Nil have "scalar_token w @ token_tail ws' = CHR '']'' # []"
      unfolding Cons join_tokens_Cons by simp
    then show ?thesis using scalar_token_no_bracket by blast
  qed simp
next
  case (Cons v vs)
  show ?case
  proof (cases ws)
    case Nil
    with Cons.prems have "scalar_token v @ token_tail vs = CHR '']'' # []"
      unfolding Nil join_tokens_Cons by simp
    then show ?thesis using scalar_token_no_bracket by blast
  next
    case w: (Cons w ws')
    have e: "scalar_token v @ token_tail vs = scalar_token w @ token_tail ws'"
      using Cons.prems unfolding w join_tokens_Cons .
    obtain c x where c: "token_tail vs = c # x" "c \<in> {CHR '','', CHR '']''}"
      using token_tail_head by blast
    obtain d y where d: "token_tail ws' = d # y" "d \<in> {CHR '','', CHR '']''}"
      using token_tail_head by blast
    have vw: "v = w \<and> c # x = d # y"
      using e unfolding c(1) d(1) by (rule scalar_token_prefix_free [OF c(2) d(2)])
    then have "token_tail vs = token_tail ws'" by (simp only: c(1) d(1))
    then have "vs = ws'" by (intro Cons.IH token_tail_eqD)
    with vw w show ?thesis by simp
  qed
qed

text \<open>
  the flat encoding behind every identifier is injective: different sequences of
  strings, integers, booleans and nulls never share their bytes.
\<close>

theorem flat_sequence_bytes_inject: "flat_sequence_bytes vs = flat_sequence_bytes ws \<longleftrightarrow> vs = ws"
proof
  assume "flat_sequence_bytes vs = flat_sequence_bytes ws"
  then have "join_comma (map scalar_token vs) @ [CHR '']''] = join_comma (map scalar_token ws) @ [CHR '']'']"
    by (simp add: flat_sequence_bytes_def)
  then show "vs = ws" by (rule join_tokens_inj)
qed simp

end
