(* ===== verification/Contracts.thy ===== *)
theory Contracts
  imports Tokens "HOL-Library.List_Lexorder" "HOL-Library.Char_ord" "HOL-Library.Product_Lexorder"
begin

text \<open>
  \<open>contracts.py\<close>: the frozen execution, fill, ledger and risk contracts.  Each dataclass is a
  record; its \<open>__post_init__\<close> is a function \<open>mk_<name>\<close> from the raw field values to the
  validated record or the raised \<open>ValidationError\<close>.  The \<open>isinstance\<close> checks of the source
  are the types of the fields.  The theorems show what the constructors guarantee, above all
  that a ledger transaction is accepted only if every currency nets to exactly zero.
\<close>

section \<open>Enumerations\<close>

datatype side = BUY | SELL
datatype order_type = MARKET | LIMIT | STOP | STOP_LIMIT
datatype time_in_force = DAY | GTC | IOC | FOK
datatype order_status =
  CREATED | ACCEPTED | PARTIALLY_FILLED | FILLED | CANCELLED | REJECTED | EXPIRED
datatype liquidity_role = MAKER | TAKER | UNKNOWN
datatype ledger_event_type =
  EV_FILL | EV_FEE | EV_FUNDING | EV_SETTLEMENT | EV_CORPORATE_ACTION | EV_FX_CONVERSION

fun ORDER_STATUS_TRANSITIONS :: "order_status \<Rightarrow> order_status list" where
  "ORDER_STATUS_TRANSITIONS CREATED = [ACCEPTED, REJECTED]"
| "ORDER_STATUS_TRANSITIONS ACCEPTED = [PARTIALLY_FILLED, FILLED, CANCELLED, EXPIRED]"
| "ORDER_STATUS_TRANSITIONS PARTIALLY_FILLED = [PARTIALLY_FILLED, FILLED, CANCELLED, EXPIRED]"
| "ORDER_STATUS_TRANSITIONS FILLED = []"
| "ORDER_STATUS_TRANSITIONS CANCELLED = []"
| "ORDER_STATUS_TRANSITIONS REJECTED = []"
| "ORDER_STATUS_TRANSITIONS EXPIRED = []"

fun status_value :: "order_status \<Rightarrow> string" where
  "status_value CREATED = ''created''"
| "status_value ACCEPTED = ''accepted''"
| "status_value PARTIALLY_FILLED = ''partially_filled''"
| "status_value FILLED = ''filled''"
| "status_value CANCELLED = ''cancelled''"
| "status_value REJECTED = ''rejected''"
| "status_value EXPIRED = ''expired''"

fun side_value :: "side \<Rightarrow> string" where
  "side_value BUY = ''buy''"
| "side_value SELL = ''sell''"

fun order_type_value :: "order_type \<Rightarrow> string" where
  "order_type_value MARKET = ''market''"
| "order_type_value LIMIT = ''limit''"
| "order_type_value STOP = ''stop''"
| "order_type_value STOP_LIMIT = ''stop_limit''"

fun tif_value :: "time_in_force \<Rightarrow> string" where
  "tif_value DAY = ''day''"
| "tif_value GTC = ''gtc''"
| "tif_value IOC = ''ioc''"
| "tif_value FOK = ''fok''"

fun event_type_value :: "ledger_event_type \<Rightarrow> string" where
  "event_type_value EV_FILL = ''fill''"
| "event_type_value EV_FEE = ''fee''"
| "event_type_value EV_FUNDING = ''funding''"
| "event_type_value EV_SETTLEMENT = ''settlement''"
| "event_type_value EV_CORPORATE_ACTION = ''corporate_action''"
| "event_type_value EV_FX_CONVERSION = ''fx_conversion''"

section \<open>Field validation\<close>

definition required_text :: "string \<Rightarrow> string res" where
  "required_text s = (if py_strip s = '''' then raise ''must be a non-empty string'' else Inr (py_strip s))"

definition positive :: "env \<Rightarrow> fixed_point \<Rightarrow> unit res" where
  "positive E f = (if fp_is_positive E f then Inr () else raise ''must be a positive FixedPoint'')"

definition currency_char :: "char \<Rightarrow> bool" where
  "currency_char c = (let n = of_char c :: nat in (65 \<le> n \<and> n \<le> 90) \<or> (48 \<le> n \<and> n \<le> 57))"

definition currency_code :: "string \<Rightarrow> string res" where
  "currency_code s = and_then (required_text s) (\<lambda>v.
     if 3 \<le> length v \<and> length v \<le> 12 \<and> list_all currency_char v then Inr v
     else raise ''must be an uppercase currency code'')"

definition immutable_fixed_point_map :: "(string, fixed_point) dict \<Rightarrow> (string, fixed_point) dict res" where
  "immutable_fixed_point_map d =
     fold_res (\<lambda>r (k, v). and_then (required_text k) (\<lambda>k'. Inr (dset k' v r))) [] d"

fun positive_opt :: "env \<Rightarrow> fixed_point option \<Rightarrow> unit res" where
  "positive_opt E None = Inr ()"
| "positive_opt E (Some f) = positive E f"

fun required_text_opt :: "string option \<Rightarrow> string option res" where
  "required_text_opt None = Inr None"
| "required_text_opt (Some s) = and_then (required_text s) (\<lambda>v. Inr (Some v))"

section \<open>Orders\<close>

record order_intent =
  oi_idempotency_key :: string
  oi_account_id :: string
  oi_strategy_id :: string
  oi_instrument_id :: string
  oi_side :: side
  oi_quantity :: fixed_point
  oi_order_type :: order_type
  oi_time_in_force :: time_in_force
  oi_created_at :: instant
  oi_limit_price :: "fixed_point option"
  oi_stop_price :: "fixed_point option"
  oi_reduce_only :: bool

record order =
  ord_order_id :: string
  ord_intent :: order_intent
  ord_status :: order_status
  ord_filled_quantity :: fixed_point
  ord_version :: int

record order_event =
  oe_event_id :: string
  oe_order_id :: string
  oe_event_time :: instant
  oe_sequence :: int
  oe_from_status :: order_status
  oe_to_status :: order_status
  oe_fill_quantity :: "fixed_point option"
  oe_reason :: string

definition mk_order_intent :: "env \<Rightarrow> order_intent \<Rightarrow> order_intent res" where
  "mk_order_intent E i =
     and_then (required_text (oi_idempotency_key i)) (\<lambda>key.
     and_then (required_text (oi_account_id i)) (\<lambda>account.
     and_then (required_text (oi_strategy_id i)) (\<lambda>strategy.
     and_then (required_text (oi_instrument_id i)) (\<lambda>instrument.
     and_then (positive E (oi_quantity i)) (\<lambda>_.
     and_then (utc E (oi_created_at i)) (\<lambda>created.
     and_then (positive_opt E (oi_limit_price i)) (\<lambda>_.
     and_then (positive_opt E (oi_stop_price i)) (\<lambda>_.
       let requires_limit = oi_order_type i \<in> {LIMIT, STOP_LIMIT};
           requires_stop = oi_order_type i \<in> {STOP, STOP_LIMIT} in
       if (oi_limit_price i \<noteq> None) \<noteq> requires_limit then raise ''limit_price requirement violated''
       else if (oi_stop_price i \<noteq> None) \<noteq> requires_stop then raise ''stop_price requirement violated''
       else Inr (i\<lparr>oi_idempotency_key := key, oi_account_id := account, oi_strategy_id := strategy,
                   oi_instrument_id := instrument, oi_created_at := created\<rparr>)))))))))"

fun minimum_version :: "order_status \<Rightarrow> int" where
  "minimum_version CREATED = 0"
| "minimum_version ACCEPTED = 1"
| "minimum_version REJECTED = 1"
| "minimum_version PARTIALLY_FILLED = 2"
| "minimum_version FILLED = 2"
| "minimum_version CANCELLED = 2"
| "minimum_version EXPIRED = 2"

definition mk_order ::
  "env \<Rightarrow> string \<Rightarrow> order_intent \<Rightarrow> order_status \<Rightarrow> fixed_point option \<Rightarrow> int \<Rightarrow> order res" where
  "mk_order E order_id intent status filled_quantity version =
     and_then (required_text order_id) (\<lambda>oid.
       if version < 0 then raise ''version must be a non-negative integer'' else
     and_then (case filled_quantity of
                 Some f \<Rightarrow> if fp_truthy E f then Inr f else new_fixed E 0 (scale (oi_quantity intent))
               | None \<Rightarrow> new_fixed E 0 (scale (oi_quantity intent))) (\<lambda>filled.
       if scale filled \<noteq> scale (oi_quantity intent)
       then raise ''filled_quantity must use the order quantity scale''
       else if units filled < 0 \<or> units filled > units (oi_quantity intent)
       then raise ''filled_quantity must be within the order quantity''
       else if status = FILLED \<and> units filled \<noteq> units (oi_quantity intent)
       then raise ''filled order must have the complete quantity''
       else if status = PARTIALLY_FILLED \<and>
               \<not> (0 < units filled \<and> units filled < units (oi_quantity intent))
       then raise ''partially filled order must have an intermediate quantity''
       else if status = CREATED \<and> version \<noteq> 0 then raise ''created order must have version zero''
       else if status \<noteq> CREATED \<and> version < minimum_version status
       then raise ''order version is inconsistent''
       else Inr \<lparr>ord_order_id = oid, ord_intent = intent, ord_status = status,
                 ord_filled_quantity = filled, ord_version = version\<rparr>))"

definition mk_order_event :: "env \<Rightarrow> order_event \<Rightarrow> order_event res" where
  "mk_order_event E e =
     and_then (required_text (oe_event_id e)) (\<lambda>eid.
     and_then (required_text (oe_order_id e)) (\<lambda>oid.
     and_then (utc E (oe_event_time e)) (\<lambda>t.
       if oe_sequence e < 1 then raise ''sequence must be a positive integer''
       else if oe_to_status e \<notin> set (ORDER_STATUS_TRANSITIONS (oe_from_status e))
       then raise ''Illegal order transition''
       else let is_fill = oe_to_status e \<in> {PARTIALLY_FILLED, FILLED} in
       if is_fill \<noteq> (oe_fill_quantity e \<noteq> None)
       then raise ''fill_quantity is required exactly for fill order events''
       else and_then (positive_opt E (oe_fill_quantity e)) (\<lambda>_.
       if oe_to_status e \<in> {CANCELLED, REJECTED, EXPIRED} \<and> py_strip (oe_reason e) = ''''
       then raise ''order event requires a reason''
       else Inr (e\<lparr>oe_event_id := eid, oe_order_id := oid, oe_event_time := t\<rparr>)))))"

section \<open>Fills, fees, funding and settlement\<close>

record fill =
  fl_fill_id :: string
  fl_order_id :: string
  fl_account_id :: string
  fl_strategy_id :: string
  fl_instrument_id :: string
  fl_side :: side
  fl_quantity :: fixed_point
  fl_price :: fixed_point
  fl_event_time :: instant
  fl_liquidity_role :: liquidity_role
  fl_venue_trade_id :: "string option"

record fee =
  fee_fee_id :: string
  fee_fill_id :: string
  fee_account_id :: string
  fee_amount :: fixed_point
  fee_currency :: string
  fee_event_time :: instant
  fee_fee_type :: string

record funding =
  fu_funding_id :: string
  fu_account_id :: string
  fu_instrument_id :: string
  fu_amount :: fixed_point
  fu_currency :: string
  fu_event_time :: instant

record settlement =
  st_settlement_id :: string
  st_account_id :: string
  st_instrument_id :: string
  st_amount :: fixed_point
  st_currency :: string
  st_event_time :: instant
  st_settlement_type :: string
  st_settlement_price :: "fixed_point option"

definition mk_fill :: "env \<Rightarrow> fill \<Rightarrow> fill res" where
  "mk_fill E f =
     and_then (required_text (fl_fill_id f)) (\<lambda>fid.
     and_then (required_text (fl_order_id f)) (\<lambda>oid.
     and_then (required_text (fl_account_id f)) (\<lambda>account.
     and_then (required_text (fl_strategy_id f)) (\<lambda>strategy.
     and_then (required_text (fl_instrument_id f)) (\<lambda>instrument.
     and_then (positive E (fl_quantity f)) (\<lambda>_.
     and_then (positive E (fl_price f)) (\<lambda>_.
     and_then (utc E (fl_event_time f)) (\<lambda>t.
     and_then (required_text_opt (fl_venue_trade_id f)) (\<lambda>venue.
       Inr (f\<lparr>fl_fill_id := fid, fl_order_id := oid, fl_account_id := account,
              fl_strategy_id := strategy, fl_instrument_id := instrument,
              fl_event_time := t, fl_venue_trade_id := venue\<rparr>))))))))))"

definition mk_fee :: "env \<Rightarrow> fee \<Rightarrow> fee res" where
  "mk_fee E f =
     and_then (required_text (fee_fee_id f)) (\<lambda>fid.
     and_then (required_text (fee_fill_id f)) (\<lambda>fill_id.
     and_then (required_text (fee_account_id f)) (\<lambda>account.
     and_then (required_text (fee_fee_type f)) (\<lambda>kind.
     and_then (currency_code (fee_currency f)) (\<lambda>c.
     and_then (utc E (fee_event_time f)) (\<lambda>t.
       Inr (f\<lparr>fee_fee_id := fid, fee_fill_id := fill_id, fee_account_id := account,
              fee_fee_type := kind, fee_currency := c, fee_event_time := t\<rparr>)))))))"

definition mk_funding :: "env \<Rightarrow> funding \<Rightarrow> funding res" where
  "mk_funding E f =
     and_then (required_text (fu_funding_id f)) (\<lambda>fid.
     and_then (required_text (fu_account_id f)) (\<lambda>account.
     and_then (required_text (fu_instrument_id f)) (\<lambda>instrument.
     and_then (currency_code (fu_currency f)) (\<lambda>c.
     and_then (utc E (fu_event_time f)) (\<lambda>t.
       Inr (f\<lparr>fu_funding_id := fid, fu_account_id := account, fu_instrument_id := instrument,
              fu_currency := c, fu_event_time := t\<rparr>))))))"

definition mk_settlement :: "env \<Rightarrow> settlement \<Rightarrow> settlement res" where
  "mk_settlement E s =
     and_then (required_text (st_settlement_id s)) (\<lambda>sid.
     and_then (required_text (st_account_id s)) (\<lambda>account.
     and_then (required_text (st_instrument_id s)) (\<lambda>instrument.
     and_then (required_text (st_settlement_type s)) (\<lambda>kind.
     and_then (positive_opt E (st_settlement_price s)) (\<lambda>_.
     and_then (currency_code (st_currency s)) (\<lambda>c.
     and_then (utc E (st_event_time s)) (\<lambda>t.
       Inr (s\<lparr>st_settlement_id := sid, st_account_id := account, st_instrument_id := instrument,
              st_settlement_type := kind, st_currency := c, st_event_time := t\<rparr>))))))))"

section \<open>Ledger transactions\<close>

record posting =
  po_ledger_account :: string
  po_currency :: string
  po_amount :: fixed_point
  po_instrument_id :: "string option"
  po_quantity_delta :: "fixed_point option"

record ledger_transaction =
  tx_transaction_id :: string
  tx_idempotency_key :: string
  tx_event_time :: instant
  tx_event_type :: ledger_event_type
  tx_reference_id :: string
  tx_postings :: "posting list"

definition mk_posting :: "env \<Rightarrow> posting \<Rightarrow> posting res" where
  "mk_posting E p =
     and_then (required_text (po_ledger_account p)) (\<lambda>account.
     and_then (currency_code (po_currency p)) (\<lambda>c.
     and_then (required_text_opt (po_instrument_id p)) (\<lambda>instrument.
       Inr (p\<lparr>po_ledger_account := account, po_currency := c, po_instrument_id := instrument\<rparr>))))"

text \<open>
  The balance check: when all postings share currency and scale, one integer sum; otherwise
  a running (units, scale) pair per currency, brought to the larger scale at every posting.
\<close>

definition same_scale_currency :: "posting list \<Rightarrow> bool" where
  "same_scale_currency ps = (case ps of [] \<Rightarrow> True | first # rest \<Rightarrow>
     list_all (\<lambda>p. po_currency p = po_currency first
                   \<and> scale (po_amount p) = scale (po_amount first)) rest)"

definition add_balance :: "posting \<Rightarrow> (string, int \<times> nat) dict \<Rightarrow> (string, int \<times> nat) dict" where
  "add_balance p balances =
     (let (prior_units, prior_scale) = dget_or balances (po_currency p) (0, scale (po_amount p));
          s = max prior_scale (scale (po_amount p))
      in dset (po_currency p)
           (prior_units * 10 ^ (s - prior_scale)
             + units (po_amount p) * 10 ^ (s - scale (po_amount p)), s) balances)"

definition transaction_balances :: "posting list \<Rightarrow> (string, int \<times> nat) dict" where
  "transaction_balances ps =
     (if same_scale_currency ps
      then (case ps of [] \<Rightarrow> [] | first # rest \<Rightarrow>
        [(po_currency first, (sum_list (map (\<lambda>p. units (po_amount p)) ps), scale (po_amount first)))])
      else fold add_balance ps [])"

definition mk_ledger_transaction :: "env \<Rightarrow> ledger_transaction \<Rightarrow> ledger_transaction res" where
  "mk_ledger_transaction E t =
     and_then (required_text (tx_transaction_id t)) (\<lambda>tid.
     and_then (required_text (tx_idempotency_key t)) (\<lambda>key.
     and_then (required_text (tx_reference_id t)) (\<lambda>reference.
     and_then (utc E (tx_event_time t)) (\<lambda>time.
       if length (tx_postings t) < 2
       then raise ''ledger transaction requires an immutable tuple of postings''
       else if list_ex (\<lambda>(c, (u, s)). u \<noteq> 0) (transaction_balances (tx_postings t))
       then raise ''ledger transaction is unbalanced''
       else Inr (t\<lparr>tx_transaction_id := tid, tx_idempotency_key := key,
                   tx_reference_id := reference, tx_event_time := time\<rparr>)))))"

section \<open>Account and risk views\<close>

text \<open>What the code reads of the external \<open>AssetClass\<close> and \<open>InstrumentSpec\<close>.\<close>

datatype asset_class = EQUITY | ETF | FUTURE | OPTION | CRYPTO | BOND | OTHER_ASSET string

record instrument_spec =
  sp_instrument_id :: string
  sp_asset_class :: asset_class
  sp_product_type :: string
  sp_venue :: string
  sp_settlement_currency :: string
  sp_quote_currency :: "string option"
  sp_price_tick :: fixed_point
  sp_quantity_step :: fixed_point
  sp_contract_multiplier :: fixed_point
  sp_metadata :: "(string, string) dict"
  sp_available_at :: instant
  sp_effective_from :: instant
  sp_effective_to :: "instant option"
  sp_expiry_date :: "day option"

record account_snapshot =
  as_account_id :: string
  as_event_time :: instant
  as_base_currency :: string
  as_cash_balances :: "(string, fixed_point) dict"
  as_positions :: "(string, fixed_point) dict"
  as_nav :: fixed_point
  as_cost_basis :: "(string, fixed_point) dict"
  as_realized_pnl :: "(string, fixed_point) dict"
  as_unrealized_pnl :: "(string, fixed_point) dict"
  as_initial_margin :: fixed_point
  as_maintenance_margin :: fixed_point
  as_liquidation_required :: bool

record position_risk_snapshot =
  pr_instrument_id :: string
  pr_asset_class :: asset_class
  pr_venue :: string
  pr_settlement_currency :: string
  pr_quantity :: fixed_point
  pr_mark_price :: fixed_point
  pr_base_notional :: fixed_point
  pr_initial_margin :: fixed_point
  pr_maintenance_margin :: fixed_point

record portfolio_risk_snapshot =
  pf_account_id :: string
  pf_event_time :: instant
  pf_base_currency :: string
  pf_nav :: fixed_point
  pf_cash_value :: fixed_point
  pf_gross_exposure :: fixed_point
  pf_net_exposure :: fixed_point
  pf_initial_margin :: fixed_point
  pf_maintenance_margin :: fixed_point
  pf_positions :: "position_risk_snapshot list"

record risk_check_context =
  rc_account_snapshot :: account_snapshot
  rc_portfolio_snapshot :: portfolio_risk_snapshot
  rc_instrument_spec :: "instrument_spec option"
  rc_reference_price :: "fixed_point option"
  rc_projected_notional_base :: "fixed_point option"

record risk_decision =
  rd_accepted :: bool
  rd_code :: string
  rd_message :: string

definition mk_account_snapshot :: "env \<Rightarrow> account_snapshot \<Rightarrow> account_snapshot res" where
  "mk_account_snapshot E a =
     and_then (required_text (as_account_id a)) (\<lambda>account.
     and_then (currency_code (as_base_currency a)) (\<lambda>base.
     and_then (utc E (as_event_time a)) (\<lambda>time.
     and_then (immutable_fixed_point_map (as_cash_balances a)) (\<lambda>cash.
     and_then (map_res currency_code (dkeys cash)) (\<lambda>_.
     and_then (immutable_fixed_point_map (as_positions a)) (\<lambda>positions.
     and_then (immutable_fixed_point_map (as_cost_basis a)) (\<lambda>costs.
     and_then (immutable_fixed_point_map (as_realized_pnl a)) (\<lambda>realized.
     and_then (immutable_fixed_point_map (as_unrealized_pnl a)) (\<lambda>unrealized.
       Inr (a\<lparr>as_account_id := account, as_base_currency := base, as_event_time := time,
              as_cash_balances := cash, as_positions := positions, as_cost_basis := costs,
              as_realized_pnl := realized, as_unrealized_pnl := unrealized\<rparr>))))))))))"

definition mk_position_risk_snapshot ::
  "env \<Rightarrow> position_risk_snapshot \<Rightarrow> position_risk_snapshot res" where
  "mk_position_risk_snapshot E p =
     and_then (required_text (pr_instrument_id p)) (\<lambda>instrument.
     and_then (required_text (pr_venue p)) (\<lambda>venue.
     and_then (currency_code (pr_settlement_currency p)) (\<lambda>c.
       if units (pr_mark_price p) \<le> 0 then raise ''mark_price must be positive''
       else if units (pr_initial_margin p) < 0 \<or> units (pr_maintenance_margin p) < 0
       then raise ''position margin must be non-negative''
       else Inr (p\<lparr>pr_instrument_id := instrument, pr_venue := venue,
                   pr_settlement_currency := c\<rparr>))))"

definition mk_portfolio_risk_snapshot ::
  "env \<Rightarrow> portfolio_risk_snapshot \<Rightarrow> portfolio_risk_snapshot res" where
  "mk_portfolio_risk_snapshot E p =
     and_then (required_text (pf_account_id p)) (\<lambda>account.
     and_then (utc E (pf_event_time p)) (\<lambda>time.
     and_then (currency_code (pf_base_currency p)) (\<lambda>base.
       if units (pf_gross_exposure p) < 0 then raise ''gross_exposure must be non-negative''
       else if units (pf_initial_margin p) < 0 \<or> units (pf_maintenance_margin p) < 0
       then raise ''portfolio margin must be non-negative''
       else let ids = map pr_instrument_id (pf_positions p) in
       if ids \<noteq> sort ids \<or> length ids \<noteq> length (remdups ids)
       then raise ''positions must be unique and sorted by instrument_id''
       else Inr (p\<lparr>pf_account_id := account, pf_event_time := time, pf_base_currency := base\<rparr>))))"

definition mk_risk_check_context :: "env \<Rightarrow> risk_check_context \<Rightarrow> risk_check_context res" where
  "mk_risk_check_context E r =
     (let account = rc_account_snapshot r; portfolio = rc_portfolio_snapshot r;
          absent = [rc_instrument_spec r = None, rc_reference_price r = None,
                    rc_projected_notional_base r = None] in
      if as_account_id account \<noteq> pf_account_id portfolio
         \<or> as_event_time account \<noteq> pf_event_time portfolio
         \<or> as_base_currency account \<noteq> pf_base_currency portfolio
      then raise ''risk context snapshots must describe the same account and time''
      else if list_ex id absent \<and> list_ex Not absent
      then raise ''order risk context fields must be all present or all absent''
      else if (case rc_reference_price r of None \<Rightarrow> False | Some p \<Rightarrow> units p \<le> 0)
      then raise ''reference_price must be a positive FixedPoint''
      else Inr r)"

definition mk_risk_decision :: "bool \<Rightarrow> string \<Rightarrow> string \<Rightarrow> risk_decision res" where
  "mk_risk_decision accepted code message =
     and_then (required_text code) (\<lambda>c.
       Inr \<lparr>rd_accepted = accepted, rd_code = c, rd_message = message\<rparr>)"

section \<open>What the constructors guarantee\<close>

lemma required_text_Inr [res_simps]:
  "required_text s = Inr v \<longleftrightarrow> v = py_strip s \<and> v \<noteq> ''''"
  by (auto simp: required_text_def)

lemma required_text_opt_Inr [res_simps]:
  "required_text_opt s = Inr v \<longleftrightarrow> v = map_option py_strip s \<and> v \<noteq> Some ''''"
  by (cases s) (auto simp: required_text_Inr)

lemma currency_code_Inr [res_simps]:
  "currency_code s = Inr v \<longleftrightarrow>
     v = py_strip s \<and> 3 \<le> length v \<and> length v \<le> 12 \<and> list_all currency_char v"
  by (auto simp: currency_code_def required_text_Inr)

lemma utc_Inr [res_simps]: "utc E t = Inr u \<longleftrightarrow> ensure_utc E t = Some u"
  by (simp add: utc_def)

lemma positive_Inr [res_simps]: "positive E f = Inr u \<longleftrightarrow> fp_is_positive E f"
  by (simp add: positive_def)

lemma positive_opt_Inr [res_simps]:
  "positive_opt E v = Inr u \<longleftrightarrow> (\<forall>f. v = Some f \<longrightarrow> fp_is_positive E f)"
  by (cases v) (auto simp: positive_Inr)

text \<open>The exact net amount of a currency over a list of postings.\<close>

definition posting_value :: "posting \<Rightarrow> rat" where
  "posting_value p = of_int (units (po_amount p)) / 10 ^ scale (po_amount p)"

definition net_amount :: "posting list \<Rightarrow> string \<Rightarrow> rat" where
  "net_amount ps c = sum_list (map posting_value (filter (\<lambda>p. po_currency p = c) ps))"

lemma net_amount_simps [simp]:
  "net_amount [] c = 0"
  "net_amount (p # ps) c = (if po_currency p = c then posting_value p else 0) + net_amount ps c"
  "net_amount (ps @ qs) c = net_amount ps c + net_amount qs c"
  by (simp_all add: net_amount_def)

definition balances_track :: "(string, int \<times> nat) dict \<Rightarrow> posting list \<Rightarrow> bool" where
  "balances_track d ps \<longleftrightarrow> distinct (map fst d) \<and>
     (\<forall>c. net_amount ps c = (case dget d c of None \<Rightarrow> 0 | Some (u, s) \<Rightarrow> of_int u / 10 ^ s))"

lemma rescale: "a \<le> s \<Longrightarrow> (of_int (u * 10 ^ (s - a)) :: rat) / 10 ^ s = of_int u / 10 ^ a"
  by (auto simp: le_iff_add power_add)

lemma add_balance_track:
  assumes "balances_track d ps"
  shows "balances_track (add_balance p d) (ps @ [p])"
proof -
  obtain u a where ua: "dget_or d (po_currency p) (0, scale (po_amount p)) = (u, a)"
    by (cases "dget_or d (po_currency p) (0, scale (po_amount p))")
  define s where "s = max a (scale (po_amount p))"
  have prior: "net_amount ps (po_currency p) = of_int u / 10 ^ a"
  proof (cases "dget d (po_currency p)")
    case None
    then have "net_amount ps (po_currency p) = 0" using assms by (simp add: balances_track_def)
    then show ?thesis using ua None by (auto simp: dget_or_def)
  next
    case (Some us)
    then have "net_amount ps (po_currency p) = (case us of (u, s) \<Rightarrow> of_int u / 10 ^ s)"
      using assms by (auto simp: balances_track_def simp del: map_of_eq_Some_iff)
    then show ?thesis using ua Some by (simp add: dget_or_def)
  qed
  have "(of_int (u * 10 ^ (s - a) + units (po_amount p) * 10 ^ (s - scale (po_amount p))) :: rat) / 10 ^ s
      = of_int u / 10 ^ a + posting_value p"
    unfolding of_int_add add_divide_distrib posting_value_def
    by (subst (1 2) rescale) (simp_all add: s_def)
  with prior assms ua show ?thesis
    by (auto simp: balances_track_def add_balance_def Let_def s_def simp del: of_int_add)
qed

lemma fold_add_balance_track: "balances_track d ps \<Longrightarrow> balances_track (fold add_balance qs d) (ps @ qs)"
proof (induction qs arbitrary: d ps)
  case Nil
  then show ?case by simp
next
  case (Cons q qs)
  from Cons.IH [OF add_balance_track [OF Cons.prems]] show ?case by simp
qed

lemma same_scale_net:
  assumes "list_all (\<lambda>p. po_currency p = k \<and> scale (po_amount p) = s) ps"
  shows "net_amount ps c =
    (if c = k then of_int (sum_list (map (\<lambda>p. units (po_amount p)) ps)) / 10 ^ s else 0)"
  using assms by (induction ps) (auto simp: posting_value_def add_divide_distrib)

lemma transaction_balances_track: "balances_track (transaction_balances ps) ps"
proof (cases "same_scale_currency ps")
  case False
  have "balances_track [] []" by (simp add: balances_track_def)
  from fold_add_balance_track [OF this, of ps] False show ?thesis
    by (simp add: transaction_balances_def)
next
  case True
  show ?thesis
  proof (cases ps)
    case Nil
    then show ?thesis by (simp add: balances_track_def transaction_balances_def same_scale_currency_def)
  next
    case (Cons p qs)
    with True have "list_all (\<lambda>q. po_currency q = po_currency p
        \<and> scale (po_amount q) = scale (po_amount p)) ps"
      by (simp add: same_scale_currency_def)
    from same_scale_net [OF this] True Cons show ?thesis
      by (auto simp: balances_track_def transaction_balances_def)
  qed
qed

lemma unbalanced_iff:
  assumes "balances_track d ps"
  shows "list_ex (\<lambda>(c, (u, s)). u \<noteq> 0) d \<longleftrightarrow> (\<exists>c. net_amount ps c \<noteq> 0)"
proof
  assume "list_ex (\<lambda>(c, (u, s)). u \<noteq> 0) d"
  then obtain c u s where "(c, (u, s)) \<in> set d" "u \<noteq> 0" by (auto simp: list_ex_iff)
  then have "dget d c = Some (u, s)" using assms by (simp add: balances_track_def)
  with assms \<open>u \<noteq> 0\<close> have "net_amount ps c \<noteq> 0" by (simp add: balances_track_def)
  then show "\<exists>c. net_amount ps c \<noteq> 0" ..
next
  assume "\<exists>c. net_amount ps c \<noteq> 0"
  then obtain c where "net_amount ps c \<noteq> 0" ..
  with assms obtain u s where "dget d c = Some (u, s)" "u \<noteq> 0"
    by (fastforce simp: balances_track_def split: option.splits)
  then show "list_ex (\<lambda>(c, (u, s)). u \<noteq> 0) d"
    by (auto simp: list_ex_iff dest: map_of_SomeD)
qed

text \<open>
  a ledger transaction is accepted exactly when its identifiers and time are valid, it
  has two postings or more, and the exact amounts of every currency add up to zero, however
  the postings mix currencies and scales.
\<close>

theorem ledger_transaction_accepted_iff_balanced:
  "returns (mk_ledger_transaction E t) \<longleftrightarrow>
     py_strip (tx_transaction_id t) \<noteq> '''' \<and> py_strip (tx_idempotency_key t) \<noteq> ''''
     \<and> py_strip (tx_reference_id t) \<noteq> '''' \<and> (\<exists>u. ensure_utc E (tx_event_time t) = Some u)
     \<and> 2 \<le> length (tx_postings t) \<and> (\<forall>c. net_amount (tx_postings t) c = 0)"
  using unbalanced_iff [OF transaction_balances_track [of "tx_postings t"]]
  by (auto simp: returns_iff mk_ledger_transaction_def required_text_Inr utc_Inr)

end
