(* ===== verification/Lifecycle.thy ===== *)
theory Lifecycle
  imports Contracts
begin

text \<open>
  \<open>state_machine.py\<close>: \<open>transition_order\<close>, the only way an order changes its status outside the
  broker's fill path.  The order life cycle is then the step relation that the function
  induces; \<open>order_inv\<close> is the well-formedness of an order (what \<open>Order.__post_init__\<close> checks),
  and every reachable order has it.
\<close>

definition transition_order ::
  "env \<Rightarrow> order \<Rightarrow> order_status \<Rightarrow> string \<Rightarrow> instant \<Rightarrow> fixed_point option \<Rightarrow> string
     \<Rightarrow> (order \<times> order_event) res" where
  "transition_order E order to_status event_id event_time fill_quantity reason =
     (if to_status \<notin> set (ORDER_STATUS_TRANSITIONS (ord_status order))
      then raise ''Illegal order transition'' else
      and_then (utc E event_time) (\<lambda>time.
        if time < oi_created_at (ord_intent order)
        then raise ''order event_time cannot precede intent created_at'' else
        let is_fill = to_status \<in> {PARTIALLY_FILLED, FILLED};
            quantity = oi_quantity (ord_intent order) in
        if is_fill \<noteq> (fill_quantity \<noteq> None)
        then raise ''fill_quantity is required exactly for fill transitions''
        else if to_status \<in> {REJECTED, CANCELLED, EXPIRED} \<and> py_strip reason = ''''
        then raise ''transition requires a reason''
        else if py_strip event_id = '''' then raise ''event_id is required''
        else and_then
          (case fill_quantity of None \<Rightarrow> Inr (ord_filled_quantity order)
           | Some f \<Rightarrow>
              if \<not> fp_is_positive E f then raise ''fill_quantity must be positive''
              else if scale f \<noteq> scale quantity
              then raise ''fill_quantity must use the order quantity scale''
              else and_then (new_fixed E (units (ord_filled_quantity order) + units f)
                               (scale (ord_filled_quantity order))) (\<lambda>filled.
                if units filled > units quantity
                then raise ''fill transition would overfill the order''
                else if to_status = PARTIALLY_FILLED \<and> units filled \<ge> units quantity
                then raise ''partial fill must leave an open quantity''
                else if to_status = FILLED \<and> units filled \<noteq> units quantity
                then raise ''filled transition must complete the order quantity''
                else Inr filled)) (\<lambda>filled.
          let next_version = ord_version order + 1 in
          Inr (\<lparr>ord_order_id = ord_order_id order, ord_intent = ord_intent order,
                ord_status = to_status, ord_filled_quantity = filled, ord_version = next_version\<rparr>,
               \<lparr>oe_event_id = py_strip event_id, oe_order_id = ord_order_id order,
                oe_event_time = time, oe_sequence = next_version,
                oe_from_status = ord_status order, oe_to_status = to_status,
                oe_fill_quantity = fill_quantity, oe_reason = reason\<rparr>))))"

section \<open>The well-formedness of an order\<close>

definition terminal_status :: "order_status \<Rightarrow> bool" where
  "terminal_status s \<longleftrightarrow> s \<in> {FILLED, CANCELLED, REJECTED, EXPIRED}"

definition open_status :: "order_status \<Rightarrow> bool" where
  "open_status s \<longleftrightarrow> s \<in> {ACCEPTED, PARTIALLY_FILLED}"

text \<open>
  The conditions of \<open>Order.__post_init__\<close>, with the stronger facts the life cycle keeps:
  nothing is filled before a fill transition, and every version beyond the first is paid for
  by a filled unit or by the one cancelling or expiring transition.
\<close>

definition order_inv :: "order \<Rightarrow> bool" where
  "order_inv ord \<longleftrightarrow>
     (let q = oi_quantity (ord_intent ord); f = ord_filled_quantity ord; s = ord_status ord in
      0 < units q \<and> scale f = scale q \<and> 0 \<le> units f \<and> units f \<le> units q
      \<and> (s \<in> {CREATED, ACCEPTED, REJECTED} \<longrightarrow> units f = 0)
      \<and> (s = PARTIALLY_FILLED \<longrightarrow> 0 < units f \<and> units f < units q)
      \<and> (s = FILLED \<longrightarrow> units f = units q)
      \<and> (s \<in> {CANCELLED, EXPIRED} \<longrightarrow> units f < units q)
      \<and> (if s = CREATED then ord_version ord = 0 else minimum_version s \<le> ord_version ord)
      \<and> ord_version ord \<le> 1 + units f + (if s \<in> {CANCELLED, EXPIRED} then 1 else 0))"

lemma transitions_terminal [simp]:
  "ORDER_STATUS_TRANSITIONS s = [] \<longleftrightarrow> terminal_status s"
  by (cases s) (simp_all add: terminal_status_def)

lemma transition_orderD:
  assumes "transition_order E ord st eid time fq reason = Inr (ord', ev)"
  shows "st \<in> set (ORDER_STATUS_TRANSITIONS (ord_status ord))"
    and "\<exists>t. ensure_utc E time = Some t \<and> oi_created_at (ord_intent ord) \<le> t \<and>
      ev = \<lparr>oe_event_id = py_strip eid, oe_order_id = ord_order_id ord, oe_event_time = t,
            oe_sequence = ord_version ord + 1, oe_from_status = ord_status ord, oe_to_status = st,
            oe_fill_quantity = fq, oe_reason = reason\<rparr>"
    and "(st \<in> {PARTIALLY_FILLED, FILLED}) = (fq \<noteq> None)"
    and "st \<in> {REJECTED, CANCELLED, EXPIRED} \<Longrightarrow> py_strip reason \<noteq> ''''"
    and "py_strip eid \<noteq> ''''"
    and "fq = Some f \<Longrightarrow> fp_is_positive E f"
    and "\<exists>filled. ord' = \<lparr>ord_order_id = ord_order_id ord, ord_intent = ord_intent ord,
            ord_status = st, ord_filled_quantity = filled, ord_version = ord_version ord + 1\<rparr>"
  using assms by (simp_all add: transition_order_def Let_def utc_Inr) (auto simp: utc_Inr)

lemma transition_order_filled:
  assumes "transition_order E ord st eid time fq reason = Inr (ord', ev)"
  shows "fq = None \<Longrightarrow> ord_filled_quantity ord' = ord_filled_quantity ord"
    and "fq = Some f \<Longrightarrow> scale f = scale (oi_quantity (ord_intent ord)) \<and>
      new_fixed E (units (ord_filled_quantity ord) + units f) (scale (ord_filled_quantity ord))
        = Inr (ord_filled_quantity ord') \<and>
      units (ord_filled_quantity ord') \<le> units (oi_quantity (ord_intent ord)) \<and>
      (st = PARTIALLY_FILLED \<longrightarrow> units (ord_filled_quantity ord') < units (oi_quantity (ord_intent ord))) \<and>
      (st = FILLED \<longrightarrow> units (ord_filled_quantity ord') = units (oi_quantity (ord_intent ord)))"
proof -
  assume "fq = None"
  with assms show "ord_filled_quantity ord' = ord_filled_quantity ord"
    by (auto simp: transition_order_def Let_def)
next
  assume f: "fq = Some f"
  with assms obtain filled where
    "new_fixed E (units (ord_filled_quantity ord) + units f) (scale (ord_filled_quantity ord)) = Inr filled"
    "scale f = scale (oi_quantity (ord_intent ord))"
    "\<not> units filled > units (oi_quantity (ord_intent ord))"
    "\<not> (st = PARTIALLY_FILLED \<and> units filled \<ge> units (oi_quantity (ord_intent ord)))"
    "\<not> (st = FILLED \<and> units filled \<noteq> units (oi_quantity (ord_intent ord)))"
    "ord_filled_quantity ord' = filled"
    unfolding transition_order_def Let_def f by (auto simp del: de_Morgan_conj)
  then show "scale f = scale (oi_quantity (ord_intent ord)) \<and>
      new_fixed E (units (ord_filled_quantity ord) + units f) (scale (ord_filled_quantity ord))
        = Inr (ord_filled_quantity ord') \<and>
      units (ord_filled_quantity ord') \<le> units (oi_quantity (ord_intent ord)) \<and>
      (st = PARTIALLY_FILLED \<longrightarrow> units (ord_filled_quantity ord') < units (oi_quantity (ord_intent ord))) \<and>
      (st = FILLED \<longrightarrow> units (ord_filled_quantity ord') = units (oi_quantity (ord_intent ord)))"
    by auto
qed

context fixed_env
begin

lemma transition_order_units:
  assumes "transition_order E ord st eid time fq reason = Inr (ord', ev)"
  shows "units (ord_filled_quantity ord')
      = units (ord_filled_quantity ord) + (case fq of None \<Rightarrow> 0 | Some f \<Rightarrow> units f)"
    "scale (ord_filled_quantity ord') = scale (ord_filled_quantity ord)"
proof -
  have "ord_filled_quantity ord' = (case fq of None \<Rightarrow> ord_filled_quantity ord | Some f \<Rightarrow>
      \<lparr>units = units (ord_filled_quantity ord) + units f, scale = scale (ord_filled_quantity ord)\<rparr>)"
  proof (cases fq)
    case (Some f)
    with transition_order_filled(2) [OF assms Some] new_fixed_Inr show ?thesis by simp
  qed (simp add: transition_order_filled(1) [OF assms])
  then show "units (ord_filled_quantity ord')
      = units (ord_filled_quantity ord) + (case fq of None \<Rightarrow> 0 | Some f \<Rightarrow> units f)"
    "scale (ord_filled_quantity ord') = scale (ord_filled_quantity ord)"
    by (simp_all split: option.splits)
qed

lemma transition_order_inv:
  assumes inv: "order_inv ord"
    and tr: "transition_order E ord st eid time fq reason = Inr (ord', ev)"
  shows "order_inv ord'"
proof -
  note D = transition_orderD [OF tr] and F = transition_order_filled [OF tr]
    and U = transition_order_units [OF tr]
  have same: "ord_intent ord' = ord_intent ord" "ord_status ord' = st"
    "ord_version ord' = ord_version ord + 1" using D(7) by auto
  show ?thesis
  proof (cases fq)
    case None
    then have "st \<notin> {PARTIALLY_FILLED, FILLED}" using D(3) by simp
    with None inv same U D(1) show ?thesis
      by (cases "ord_status ord"; cases st) (auto simp: order_inv_def Let_def)
  next
    case (Some f)
    then have st: "st = PARTIALLY_FILLED \<or> st = FILLED" using D(3) by simp
    have "0 < units f" using D(6) Some is_positive_units by simp
    with st Some inv same U D(1) F(2) [OF Some] show ?thesis
      by (cases "ord_status ord") (auto simp: order_inv_def Let_def)
  qed
qed

end

section \<open>Histories\<close>

text \<open>One transition with its event, and the histories that transitions build up.\<close>

inductive order_step :: "env \<Rightarrow> order \<Rightarrow> order_event \<Rightarrow> order \<Rightarrow> bool" where
  "transition_order E ord to_status eid t fq reason = Inr (ord', ev) \<Longrightarrow> order_step E ord ev ord'"

inductive_cases order_stepE: "order_step E ord ev ord'"

inductive order_run :: "env \<Rightarrow> order \<Rightarrow> order_event list \<Rightarrow> order \<Rightarrow> bool" for E :: env where
  run_nil: "order_run E ord [] ord"
| run_snoc: "order_run E ord evs ord' \<Longrightarrow> order_step E ord' ev ord'' \<Longrightarrow> order_run E ord (evs @ [ev]) ord''"

definition event_units :: "order_event \<Rightarrow> int" where
  "event_units ev = (case oe_fill_quantity ev of None \<Rightarrow> 0 | Some f \<Rightarrow> units f)"

context fixed_env
begin

lemma order_step_facts:
  assumes "order_step E ord ev ord'"
  shows "order_inv ord \<Longrightarrow> order_inv ord'"
    "ord_intent ord' = ord_intent ord" "ord_order_id ord' = ord_order_id ord"
    "ord_version ord' = ord_version ord + 1" "oe_sequence ev = ord_version ord'"
    "oe_from_status ev = ord_status ord" "oe_to_status ev = ord_status ord'"
    "oe_to_status ev \<in> set (ORDER_STATUS_TRANSITIONS (oe_from_status ev))"
    "units (ord_filled_quantity ord') = units (ord_filled_quantity ord) + event_units ev"
proof -
  from assms obtain st eid t fq reason
    where tr: "transition_order E ord st eid t fq reason = Inr (ord', ev)"
    by (rule order_stepE)
  note D = transition_orderD [OF tr]
  show "order_inv ord \<Longrightarrow> order_inv ord'" using tr by (rule transition_order_inv [rotated])
  show "ord_intent ord' = ord_intent ord" "ord_order_id ord' = ord_order_id ord"
    "ord_version ord' = ord_version ord + 1" "oe_sequence ev = ord_version ord'"
    "oe_from_status ev = ord_status ord" "oe_to_status ev = ord_status ord'"
    "oe_to_status ev \<in> set (ORDER_STATUS_TRANSITIONS (oe_from_status ev))"
    using D(1,2,7) by auto
  have "oe_fill_quantity ev = fq" using D(2) by auto
  then show "units (ord_filled_quantity ord') = units (ord_filled_quantity ord) + event_units ev"
    using transition_order_units(1) [OF tr] by (simp add: event_units_def)
qed

lemma order_run_inv: "order_run E ord evs ord' \<Longrightarrow> order_inv ord \<Longrightarrow> order_inv ord'"
  by (induction rule: order_run.induct) (auto dest: order_step_facts(1))

lemma order_run_identity:
  "order_run E ord evs ord' \<Longrightarrow> ord_intent ord' = ord_intent ord \<and> ord_order_id ord' = ord_order_id ord"
  by (induction rule: order_run.induct) (auto dest: order_step_facts(2,3))

lemma order_run_version:
  "order_run E ord evs ord' \<Longrightarrow> ord_version ord' = ord_version ord + int (length evs)
     \<and> map oe_sequence evs = map (\<lambda>k. ord_version ord + 1 + int k) [0..<length evs]"
proof (induction rule: order_run.induct)
  case (run_nil ord)
  then show ?case by simp
next
  case (run_snoc ord evs ord' ev ord'')
  then show ?case using order_step_facts(4,5) [OF run_snoc.hyps(2)] by simp
qed

lemma order_run_conservation:
  "order_run E ord evs ord' \<Longrightarrow>
     units (ord_filled_quantity ord') = units (ord_filled_quantity ord) + sum_list (map event_units evs)"
  by (induction rule: order_run.induct) (auto dest: order_step_facts(9))

lemma order_run_terminal:
  "order_run E ord evs ord' \<Longrightarrow> terminal_status (ord_status ord) \<Longrightarrow> evs = [] \<and> ord' = ord"
proof (induction rule: order_run.induct)
  case (run_nil ord)
  then show ?case by simp
next
  case (run_snoc ord evs ord' ev ord'')
  then have "ord' = ord" "terminal_status (ord_status ord')" by auto
  with order_step_facts(6,8) [OF run_snoc.hyps(2)] show ?case
    by (cases "ord_status ord'") (auto simp: terminal_status_def)
qed

end

text \<open>
  C5: over any history of transitions an order stays well-formed and keeps its identity, its
  events are numbered without gaps, the filled quantity is exactly the sum of the fill
  quantities of the events, and the history ends: an order of \<open>n\<close> units sees at most
  \<open>n + 1\<close> events.
\<close>

theorem order_history_conserves_quantity:
  assumes "fixed_env E" and "order_inv ord" and "order_run E ord evs ord'"
  shows "order_inv ord' \<and> ord_intent ord' = ord_intent ord \<and> ord_order_id ord' = ord_order_id ord
     \<and> map oe_sequence evs = map (\<lambda>k. ord_version ord + 1 + int k) [0..<length evs]
     \<and> units (ord_filled_quantity ord')
         = units (ord_filled_quantity ord) + sum_list (map event_units evs)
     \<and> int (length evs) \<le> units (oi_quantity (ord_intent ord)) + 1"
proof -
  have inv: "order_inv ord'" using assms fixed_env.order_run_inv by blast
  then have "ord_version ord' \<le> units (oi_quantity (ord_intent ord')) + 1"
    by (auto simp: order_inv_def Let_def split: if_splits)
  moreover have "0 \<le> ord_version ord"
    using assms(2) by (cases "ord_status ord") (auto simp: order_inv_def Let_def)
  ultimately show ?thesis
    using inv fixed_env.order_run_identity [OF assms(1,3)] fixed_env.order_run_version [OF assms(1,3)]
      fixed_env.order_run_conservation [OF assms(1,3)] by simp
qed

text \<open>
  a terminal order is final: no transition leaves \<open>filled\<close>, \<open>cancelled\<close>, \<open>rejected\<close> or
  \<open>expired\<close>, and a history that starts there is empty.
\<close>

theorem terminal_order_is_final:
  assumes "fixed_env E" and "terminal_status (ord_status ord)"
  shows "\<not> returns (transition_order E ord st eid t fq reason)
    \<and> (\<forall>evs ord'. order_run E ord evs ord' \<longrightarrow> evs = [] \<and> ord' = ord)"
  using assms fixed_env.order_run_terminal [OF assms(1)]
  by (auto simp: returns_iff transition_order_def terminal_status_def)

section \<open>The unchecked construction\<close>

text \<open>
  \<open>transition_order\<close> builds its results with \<open>object.__new__\<close>, past the validation of the
  dataclasses.  The guards it has made are enough: both results pass that validation.
\<close>

lemma mk_order_event_accepts:
  assumes "py_strip (oe_event_id e) = oe_event_id e" "oe_event_id e \<noteq> ''''"
    and "py_strip (oe_order_id e) = oe_order_id e" "oe_order_id e \<noteq> ''''"
    and "ensure_utc E (oe_event_time e) = Some (oe_event_time e)" "1 \<le> oe_sequence e"
    and "oe_to_status e \<in> set (ORDER_STATUS_TRANSITIONS (oe_from_status e))"
    and "(oe_to_status e \<in> {PARTIALLY_FILLED, FILLED}) = (oe_fill_quantity e \<noteq> None)"
    and "\<And>f. oe_fill_quantity e = Some f \<Longrightarrow> fp_is_positive E f"
    and "oe_to_status e \<in> {CANCELLED, REJECTED, EXPIRED} \<Longrightarrow> py_strip (oe_reason e) \<noteq> ''''"
  shows "mk_order_event E e = Inr e"
proof -
  have "required_text (oe_event_id e) = Inr (oe_event_id e)"
    "required_text (oe_order_id e) = Inr (oe_order_id e)"
    "utc E (oe_event_time e) = Inr (oe_event_time e)"
    "positive_opt E (oe_fill_quantity e) = Inr ()"
    using assms(1-5,9) by (simp_all add: required_text_Inr utc_Inr positive_opt_Inr)
  moreover have "\<not> oe_sequence e < 1" using assms(6) by simp
  ultimately show ?thesis
    using assms(7,8,10) unfolding mk_order_event_def Let_def by (auto split: if_splits)
qed

text \<open>
  C6: the event that \<open>transition_order\<close> builds past the dataclass validation is one that
  \<open>OrderEvent\<close> would have accepted unchanged, and the order it builds is one that \<open>Order\<close>
  would have accepted unchanged.
\<close>

theorem transition_results_are_valid:
  assumes env: "fixed_env E" and inv: "order_inv ord"
    and tr: "transition_order E ord st eid time fq reason = Inr (ord', ev)"
    and utc_stable: "\<And>t u. ensure_utc E t = Some u \<Longrightarrow> ensure_utc E u = Some u"
    and id: "py_strip (ord_order_id ord) = ord_order_id ord" "ord_order_id ord \<noteq> ''''"
    and truthy: "fp_truthy E (ord_filled_quantity ord')"
  shows "mk_order_event E ev = Inr ev
    \<and> mk_order E (ord_order_id ord') (ord_intent ord') (ord_status ord')
        (Some (ord_filled_quantity ord')) (ord_version ord') = Inr ord'"
proof
  note D = transition_orderD [OF tr]
  have v: "0 \<le> ord_version ord"
    using inv by (cases "ord_status ord") (auto simp: order_inv_def Let_def)
  show "mk_order_event E ev = Inr ev"
  proof (rule mk_order_event_accepts)
    show "ensure_utc E (oe_event_time ev) = Some (oe_event_time ev)"
      using D(2) utc_stable by auto
    show "\<And>f. oe_fill_quantity ev = Some f \<Longrightarrow> fp_is_positive E f" using D(2,6) by auto
    show "oe_to_status ev \<in> {CANCELLED, REJECTED, EXPIRED} \<Longrightarrow> py_strip (oe_reason ev) \<noteq> ''''"
      using D(2,4) by auto
    show "(oe_to_status ev \<in> {PARTIALLY_FILLED, FILLED}) = (oe_fill_quantity ev \<noteq> None)"
      using D(2,3) by auto
  qed (use D(1,2,5) v id in auto)
  have inv': "order_inv ord'" using fixed_env.transition_order_inv [OF env inv tr] .
  have "required_text (ord_order_id ord') = Inr (ord_order_id ord')"
    using D(7) id by (auto simp: required_text_Inr)
  moreover have "minimum_version (ord_status ord') \<le> ord_version ord'" "0 \<le> ord_version ord'"
    using inv' by (cases "ord_status ord'"; auto simp: order_inv_def Let_def)+
  ultimately show "mk_order E (ord_order_id ord') (ord_intent ord') (ord_status ord')
        (Some (ord_filled_quantity ord')) (ord_version ord') = Inr ord'"
    using inv' truthy unfolding mk_order_def by (simp add: order_inv_def Let_def)
qed

section \<open>Witnesses\<close>

text \<open>A market order for ten units, accepted at time 5 and filled at time 7.\<close>

definition demo_intent :: order_intent where
  "demo_intent = \<lparr>oi_idempotency_key = ''k'', oi_account_id = ''acc'', oi_strategy_id = ''s'',
     oi_instrument_id = ''X'', oi_side = BUY, oi_quantity = \<lparr>units = 10, scale = 0\<rparr>,
     oi_order_type = MARKET, oi_time_in_force = DAY, oi_created_at = 5, oi_limit_price = None,
     oi_stop_price = None, oi_reduce_only = False\<rparr>"

definition demo_order :: order where
  "demo_order = \<lparr>ord_order_id = ''o'', ord_intent = demo_intent, ord_status = CREATED,
     ord_filled_quantity = \<lparr>units = 0, scale = 0\<rparr>, ord_version = 0\<rparr>"

definition demo_event :: "order_status \<Rightarrow> order_status \<Rightarrow> int \<Rightarrow> fixed_point option \<Rightarrow> order_event" where
  "demo_event s t n fq = \<lparr>oe_event_id = ''e'', oe_order_id = ''o'', oe_event_time = 7, oe_sequence = n,
     oe_from_status = s, oe_to_status = t, oe_fill_quantity = fq, oe_reason = ''''\<rparr>"

abbreviation demo_accepted :: order where
  "demo_accepted \<equiv> demo_order\<lparr>ord_status := ACCEPTED, ord_version := 1\<rparr>"

abbreviation demo_filled :: order where
  "demo_filled \<equiv> demo_order\<lparr>ord_status := FILLED, ord_version := 2,
     ord_filled_quantity := \<lparr>units = 10, scale = 0\<rparr>\<rparr>"

abbreviation demo_fill_event :: order_event where
  "demo_fill_event \<equiv> demo_event ACCEPTED FILLED 2 (Some \<lparr>units = 10, scale = 0\<rparr>)"

lemma demo_accept:
  "transition_order std_env demo_order ACCEPTED ''e'' 7 None '''' =
     Inr (demo_accepted, demo_event CREATED ACCEPTED 1 None)"
  by code_simp

lemma demo_fill:
  "transition_order std_env demo_accepted FILLED ''e'' 7 (Some \<lparr>units = 10, scale = 0\<rparr>) '''' =
     Inr (demo_filled, demo_fill_event)"
  by code_simp

lemma demo_order_inv: "order_inv demo_order" "order_inv demo_accepted"
  by (simp_all add: order_inv_def demo_order_def demo_intent_def)

lemma demo_run:
  "order_run std_env demo_order [demo_event CREATED ACCEPTED 1 None, demo_fill_event] demo_filled"
proof -
  have "order_run std_env demo_order ([] @ [demo_event CREATED ACCEPTED 1 None]) demo_accepted"
    by (rule run_snoc [OF run_nil order_step.intros [OF demo_accept]])
  then have "order_run std_env demo_order
      (([] @ [demo_event CREATED ACCEPTED 1 None]) @ [demo_fill_event]) demo_filled"
    by (rule run_snoc [OF _ order_step.intros [OF demo_fill]])
  then show ?thesis by simp
qed

theorem order_history_conserves_quantity_witness:
  "order_inv demo_filled \<and> units (ord_filled_quantity demo_filled) = 10
     \<and> map oe_sequence [demo_event CREATED ACCEPTED 1 None, demo_fill_event] = [1, 2]"
  using order_history_conserves_quantity [OF std.fixed_env_axioms demo_order_inv(1) demo_run]
  by (simp add: demo_order_def demo_event_def)

theorem terminal_order_is_final_witness:
  "terminal_status (ord_status demo_filled)
     \<and> \<not> returns (transition_order std_env demo_filled CANCELLED ''e'' 7 None ''late'')"
proof -
  have t: "terminal_status (ord_status demo_filled)"
    by (simp add: demo_order_def terminal_status_def)
  from terminal_order_is_final [OF std.fixed_env_axioms t] t show ?thesis by blast
qed

theorem transition_results_are_valid_witness:
  "mk_order_event std_env demo_fill_event = Inr demo_fill_event
     \<and> mk_order std_env ''o'' demo_intent FILLED (Some \<lparr>units = 10, scale = 0\<rparr>) 2 = Inr demo_filled"
proof -
  have "mk_order_event std_env demo_fill_event = Inr demo_fill_event
    \<and> mk_order std_env (ord_order_id demo_filled) (ord_intent demo_filled) (ord_status demo_filled)
        (Some (ord_filled_quantity demo_filled)) (ord_version demo_filled) = Inr demo_filled"
    by (rule transition_results_are_valid [OF std.fixed_env_axioms demo_order_inv(2) demo_fill])
       (auto simp: std_env_def demo_order_def py_strip_def py_space_def)
  then show ?thesis by (simp add: demo_order_def)
qed

end
