(* ===== verification/Broker.thy ===== *)
theory Broker
  imports Lifecycle
begin

text \<open>
  \<open>broker.py\<close>: the deterministic in-memory broker.  Its state is the record \<open>broker_state\<close>; an
  order that has been moved to an artifact sink is kept as its serialised payload, whose JSON
  fields are the fields of the order (\<open>Sealed\<close>), and is rebuilt through the validating
  constructors.  A sink is the list of the payloads appended to it.  Python sets are lists
  without duplicates; the code only iterates them sorted.
\<close>

section \<open>State\<close>

datatype stored_order = Live order | Sealed order

datatype artifact = OrderArtifact order | OrderEventArtifact order_event

datatype fill_key = FillFact fill order_event | FillDigest string order_event

record broker_state =
  br_orders :: "(string, stored_order) dict"
  br_order_count :: nat
  br_open_order_ids :: "string list"
  br_day_order_ids :: "string list"
  br_immediate_order_ids :: "string list"
  br_submit_keys :: "(string, string \<times> string) dict"
  br_cancel_keys :: "(string, string \<times> order_event) dict"
  br_fill_keys :: "(string, fill_key) dict"
  br_events :: "order_event list"
  br_accepted_day :: "(string, day) dict"
  br_artifact_sink :: "artifact list option"
  br_artifact_stream_closed :: bool

definition broker_reset :: broker_state where
  "broker_reset = \<lparr>br_orders = [], br_order_count = 0, br_open_order_ids = [], br_day_order_ids = [],
     br_immediate_order_ids = [], br_submit_keys = [], br_cancel_keys = [], br_fill_keys = [],
     br_events = [], br_accepted_day = [], br_artifact_sink = None, br_artifact_stream_closed = False\<rparr>"

definition set_discard :: "string \<Rightarrow> string list \<Rightarrow> string list" where
  "set_discard x xs = removeAll x xs"

definition set_remove :: "string \<Rightarrow> string list \<Rightarrow> string list res" where
  "set_remove x xs = (if x \<in> set xs then Inr (removeAll x xs) else Inl (KeyError x))"

section \<open>Serialisation\<close>

definition quoted :: "string \<Rightarrow> string" where
  "quoted s = CHR 0x22 # s @ [CHR 0x22]"

definition json_object :: "(string \<times> string) list \<Rightarrow> string" where
  "json_object kvs = CHR 0x7B # join_comma (map (\<lambda>(k, v). quoted k @ CHR '':'' # v) kvs) @ [CHR 0x7D]"

fun role_value :: "liquidity_role \<Rightarrow> string" where
  "role_value MAKER = ''maker''"
| "role_value TAKER = ''taker''"
| "role_value UNKNOWN = ''unknown''"

definition intent_bytes :: "env \<Rightarrow> order_intent \<Rightarrow> string" where
  "intent_bytes E i = json_object
     [(''account_id'', string_token (oi_account_id i)),
      (''created_at'', string_token (iso_utc E (oi_created_at i))),
      (''idempotency_key'', string_token (oi_idempotency_key i)),
      (''instrument_id'', string_token (oi_instrument_id i)),
      (''limit_price'', fixed_token (oi_limit_price i)),
      (''order_type'', string_token (order_type_value (oi_order_type i))),
      (''quantity'', fixed_token (Some (oi_quantity i))),
      (''reduce_only'', if oi_reduce_only i then ''true'' else ''false''),
      (''side'', string_token (side_value (oi_side i))),
      (''stop_price'', fixed_token (oi_stop_price i)),
      (''strategy_id'', string_token (oi_strategy_id i)),
      (''time_in_force'', string_token (tif_value (oi_time_in_force i)))]"

definition fill_bytes :: "env \<Rightarrow> fill \<Rightarrow> string" where
  "fill_bytes E f = json_object
     [(''account_id'', string_token (fl_account_id f)),
      (''event_time'', string_token (iso_utc E (fl_event_time f))),
      (''fill_id'', string_token (fl_fill_id f)),
      (''instrument_id'', string_token (fl_instrument_id f)),
      (''liquidity_role'', string_token (role_value (fl_liquidity_role f))),
      (''order_id'', string_token (fl_order_id f)),
      (''price'', fixed_token (Some (fl_price f))),
      (''quantity'', fixed_token (Some (fl_quantity f))),
      (''side'', string_token (side_value (fl_side f))),
      (''strategy_id'', string_token (fl_strategy_id f)),
      (''venue_trade_id'', case fl_venue_trade_id f of None \<Rightarrow> ''null'' | Some v \<Rightarrow> string_token v)]"

definition order_from_payload :: "env \<Rightarrow> order \<Rightarrow> order res" where
  "order_from_payload E p =
     and_then (mk_order_intent E (ord_intent p)) (\<lambda>i.
       mk_order E (ord_order_id p) i (ord_status p) (Some (ord_filled_quantity p)) (ord_version p))"

definition event_from_payload :: "env \<Rightarrow> order_event \<Rightarrow> order_event res" where
  "event_from_payload E p = mk_order_event E p"

definition intent_hash :: "env \<Rightarrow> order_intent \<Rightarrow> string" where
  "intent_hash E i = sha256_hex E (intent_bytes E i)"

section \<open>Lookup and recording\<close>

definition require_mutable :: "broker_state \<Rightarrow> unit res" where
  "require_mutable b = (if br_artifact_stream_closed b
     then raise ''broker artifact stream is closed; reset is required'' else Inr ())"

definition require_order :: "env \<Rightarrow> broker_state \<Rightarrow> string \<Rightarrow> order res" where
  "require_order E b oid = (case dget (br_orders b) oid of
       None \<Rightarrow> raise ''unknown order_id''
     | Some (Live ord) \<Rightarrow> Inr ord
     | Some (Sealed p) \<Rightarrow> order_from_payload E p)"

definition live_order :: "broker_state \<Rightarrow> string \<Rightarrow> order res" where
  "live_order b oid = (case dget (br_orders b) oid of
       None \<Rightarrow> Inl (KeyError oid)
     | Some (Sealed p) \<Rightarrow> Inl (TypeError ''terminal order appeared in a live-order index'')
     | Some (Live ord) \<Rightarrow> Inr ord)"

definition order_sort_key :: "order \<Rightarrow> instant \<times> string" where
  "order_sort_key ord = (oi_created_at (ord_intent ord), ord_order_id ord)"

definition all_orders :: "env \<Rightarrow> broker_state \<Rightarrow> order list res" where
  "all_orders E b = and_then
     (map_res (\<lambda>(k, v). case v of Sealed p \<Rightarrow> order_from_payload E p | Live ord \<Rightarrow> Inr ord) (br_orders b))
     (\<lambda>ords. Inr (sort_key order_sort_key ords))"

definition open_orders :: "broker_state \<Rightarrow> order list res" where
  "open_orders b = (case br_open_order_ids b of
       [] \<Rightarrow> Inr []
     | [oid] \<Rightarrow> (case dget (br_orders b) oid of
           None \<Rightarrow> Inl (KeyError oid)
         | Some (Sealed p) \<Rightarrow> Inl (RuntimeError ''terminal order appeared in the open-order index'')
         | Some (Live ord) \<Rightarrow> Inr [ord])
     | ids \<Rightarrow> and_then (map_res (live_order b) ids) (\<lambda>ords. Inr (sort_key order_sort_key ords)))"

definition immediate_orders :: "broker_state \<Rightarrow> order list res" where
  "immediate_orders b = (if br_immediate_order_ids b = [] then Inr []
     else and_then (map_res (live_order b) (br_immediate_order_ids b))
            (\<lambda>ords. Inr (sort_key order_sort_key ords)))"

definition order_fact :: "string \<Rightarrow> order_intent \<Rightarrow> order_status \<Rightarrow> fixed_point \<Rightarrow> int \<Rightarrow> order" where
  "order_fact oid intent status filled version =
     \<lparr>ord_order_id = oid, ord_intent = intent, ord_status = status,
      ord_filled_quantity = filled, ord_version = version\<rparr>"

definition event_fact ::
  "string \<Rightarrow> order \<Rightarrow> order_status \<Rightarrow> fixed_point option \<Rightarrow> instant option \<Rightarrow> order_event" where
  "event_fact eid ord from_status fq time =
     \<lparr>oe_event_id = eid, oe_order_id = ord_order_id ord,
      oe_event_time = (case time of None \<Rightarrow> oi_created_at (ord_intent ord) | Some t \<Rightarrow> t),
      oe_sequence = ord_version ord, oe_from_status = from_status, oe_to_status = ord_status ord,
      oe_fill_quantity = fq, oe_reason = ''''\<rparr>"

definition record_event :: "order_event \<Rightarrow> order \<Rightarrow> broker_state \<Rightarrow> broker_state" where
  "record_event ev ord b = (case br_artifact_sink b of
       None \<Rightarrow> b\<lparr>br_events := br_events b @ [ev]\<rparr>
     | Some out \<Rightarrow>
         if ord_status ord \<notin> {ACCEPTED, PARTIALLY_FILLED}
         then b\<lparr>br_artifact_sink := Some (out @ [OrderEventArtifact ev, OrderArtifact ord]),
                br_orders := dset (ord_order_id ord) (Sealed ord) (br_orders b)\<rparr>
         else b\<lparr>br_artifact_sink := Some (out @ [OrderEventArtifact ev])\<rparr>)"

section \<open>Artifact streaming\<close>

definition start_artifact_stream :: "broker_state \<Rightarrow> broker_state res" where
  "start_artifact_stream b = and_then (require_mutable b) (\<lambda>_.
     if br_orders b \<noteq> [] \<or> br_events b \<noteq> [] \<or> br_artifact_sink b \<noteq> None
     then raise ''broker artifact streaming must start immediately after reset''
     else Inr (b\<lparr>br_artifact_sink := Some []\<rparr>))"

text \<open>Returns the final content of the sink next to the state, which no longer refers to it.\<close>

definition finish_artifact_stream :: "broker_state \<Rightarrow> (broker_state \<times> artifact list option) res" where
  "finish_artifact_stream b = (case br_artifact_sink b of
       None \<Rightarrow> Inr (b, None)
     | Some out \<Rightarrow> and_then (open_orders b) (\<lambda>ords.
         Inr (b\<lparr>br_artifact_sink := None, br_artifact_stream_closed := True\<rparr>,
              Some (out @ map OrderArtifact ords))))"

definition abort_artifact_stream :: "broker_state \<Rightarrow> broker_state" where
  "abort_artifact_stream b = (if br_artifact_sink b = None then b
     else b\<lparr>br_artifact_sink := None, br_artifact_stream_closed := True\<rparr>)"

text \<open>A checkpoint holds everything but the sink, and restoring leaves the sink of the running broker.\<close>

record broker_checkpoint =
  bc_orders :: "(string, stored_order) dict"
  bc_order_count :: nat
  bc_open_order_ids :: "string list"
  bc_day_order_ids :: "string list"
  bc_immediate_order_ids :: "string list"
  bc_submit_keys :: "(string, string \<times> string) dict"
  bc_cancel_keys :: "(string, string \<times> order_event) dict"
  bc_fill_keys :: "(string, fill_key) dict"
  bc_events :: "order_event list"
  bc_accepted_day :: "(string, day) dict"
  bc_artifact_stream_closed :: bool

definition capture_state :: "broker_state \<Rightarrow> broker_checkpoint" where
  "capture_state b = \<lparr>bc_orders = br_orders b, bc_order_count = br_order_count b, bc_open_order_ids = br_open_order_ids b,
     bc_day_order_ids = br_day_order_ids b, bc_immediate_order_ids = br_immediate_order_ids b,
     bc_submit_keys = br_submit_keys b, bc_cancel_keys = br_cancel_keys b, bc_fill_keys = br_fill_keys b,
     bc_events = br_events b, bc_accepted_day = br_accepted_day b, bc_artifact_stream_closed = br_artifact_stream_closed b\<rparr>"

definition restore_captured :: "broker_checkpoint \<Rightarrow> broker_state \<Rightarrow> broker_state" where
  "restore_captured saved b = b\<lparr>br_orders := bc_orders saved, br_order_count := bc_order_count saved,
     br_open_order_ids := bc_open_order_ids saved, br_day_order_ids := bc_day_order_ids saved,
     br_immediate_order_ids := bc_immediate_order_ids saved, br_submit_keys := bc_submit_keys saved,
     br_cancel_keys := bc_cancel_keys saved, br_fill_keys := bc_fill_keys saved, br_events := bc_events saved,
     br_accepted_day := bc_accepted_day saved, br_artifact_stream_closed := bc_artifact_stream_closed saved\<rparr>"

definition restore_state :: "broker_state \<Rightarrow> broker_checkpoint \<Rightarrow> broker_state res" where
  "restore_state b saved = and_then (require_mutable b) (\<lambda>_. Inr (restore_captured saved b))"

section \<open>Order operations\<close>

definition submit :: "env \<Rightarrow> broker_state \<Rightarrow> order_intent \<Rightarrow> (broker_state \<times> order) res" where
  "submit E b intent = and_then (require_mutable b) (\<lambda>_.
     let h = intent_hash E intent; key = oi_idempotency_key intent in
     case dget (br_submit_keys b) key of
       Some (oid, prior_hash) \<Rightarrow>
         if prior_hash \<noteq> h then raise ''submit idempotency key reused with different intent''
         else and_then (require_order E b oid) (\<lambda>ord. Inr (b, ord))
     | None \<Rightarrow>
         let oid = mint_id E ''ord'' [SStr key, SStr h] in
         and_then (new_fixed E 0 (scale (oi_quantity intent))) (\<lambda>filled.
         let accepted = order_fact oid intent ACCEPTED filled 1;
             ev = event_fact (mint_id E ''oev'' [SStr oid, SInt 1, SStr ''accepted'']) accepted CREATED None None;
             b1 = b\<lparr>br_orders := dset oid (Live accepted) (br_orders b),
                    br_order_count := br_order_count b + 1,
                    br_open_order_ids := List.insert oid (br_open_order_ids b),
                    br_immediate_order_ids :=
                      (if oi_time_in_force intent \<in> {IOC, FOK}
                       then List.insert oid (br_immediate_order_ids b) else br_immediate_order_ids b),
                    br_submit_keys := dset key (oid, h) (br_submit_keys b)\<rparr>
         in Inr (record_event ev accepted b1, accepted)))"

definition reject :: "env \<Rightarrow> broker_state \<Rightarrow> order_intent \<Rightarrow> string \<Rightarrow> string \<Rightarrow> (broker_state \<times> order) res" where
  "reject E b intent code message = and_then (require_mutable b) (\<lambda>_.
     if py_strip code = '''' then raise ''rejection code is required'' else
     let h = intent_hash E intent; key = oi_idempotency_key intent in
     case dget (br_submit_keys b) key of
       Some (oid, prior_hash) \<Rightarrow>
         if prior_hash \<noteq> h then raise ''submit idempotency key reused with different intent''
         else and_then (require_order E b oid) (\<lambda>ord. Inr (b, ord))
     | None \<Rightarrow>
         let oid = mint_id E ''ord'' [SStr key, SStr h];
             reason = (if message = '''' then code else code @ '': '' @ message) in
         and_then (mk_order E oid intent CREATED None 0) (\<lambda>ord.
         and_then (transition_order E ord REJECTED
                    (mint_id E ''oev'' [SStr oid, SInt 1, SStr ''rejected'', SStr reason])
                    (oi_created_at intent) None reason) (\<lambda>(rejected, ev).
         let b1 = b\<lparr>br_orders := dset oid (Live rejected) (br_orders b),
                    br_order_count := br_order_count b + 1,
                    br_submit_keys := dset key (oid, h) (br_submit_keys b)\<rparr>
         in Inr (record_event ev rejected b1, rejected))))"

text \<open>The shared tail of \<open>cancel\<close> and \<open>expire\<close>: store the closed order and drop it from the indexes.\<close>

definition close_order :: "broker_state \<Rightarrow> string \<Rightarrow> order \<Rightarrow> broker_state res" where
  "close_order b oid updated = and_then (set_remove oid (br_open_order_ids b)) (\<lambda>opened.
     Inr (b\<lparr>br_orders := dset oid (Live updated) (br_orders b),
            br_open_order_ids := opened,
            br_day_order_ids := set_discard oid (br_day_order_ids b),
            br_immediate_order_ids := set_discard oid (br_immediate_order_ids b)\<rparr>))"

definition cancel ::
  "env \<Rightarrow> broker_state \<Rightarrow> string \<Rightarrow> string \<Rightarrow> instant \<Rightarrow> (broker_state \<times> order_event) res" where
  "cancel E b oid key created_at = and_then (require_mutable b) (\<lambda>_.
     if py_strip key = '''' then raise ''cancel idempotency_key is required'' else
     case dget (br_cancel_keys b) key of
       Some (prior_oid, ev) \<Rightarrow>
         if prior_oid \<noteq> oid then raise ''cancel idempotency key reused for another order'' else Inr (b, ev)
     | None \<Rightarrow>
         and_then (require_order E b oid) (\<lambda>ord.
         if \<not> open_status (ord_status ord) then raise ''cannot cancel terminal order'' else
         and_then (transition_order E ord CANCELLED
                    (mint_id E ''oev'' [SStr oid, SInt (ord_version ord + 1), SStr ''cancelled''])
                    created_at None ''cancel requested'') (\<lambda>(updated, ev).
         and_then (close_order b oid updated) (\<lambda>b1.
           Inr (record_event ev updated (b1\<lparr>br_cancel_keys := dset key (oid, ev) (br_cancel_keys b1)\<rparr>), ev)))))"

definition expire ::
  "env \<Rightarrow> broker_state \<Rightarrow> string \<Rightarrow> instant \<Rightarrow> string \<Rightarrow> (broker_state \<times> order_event) res" where
  "expire E b oid time reason = and_then (require_mutable b) (\<lambda>_.
     and_then (require_order E b oid) (\<lambda>ord.
     if \<not> open_status (ord_status ord) then raise ''only open orders can expire'' else
     and_then (transition_order E ord EXPIRED
                (mint_id E ''oev'' [SStr (ord_order_id ord), SInt (ord_version ord + 1),
                                    SStr ''expired'', SStr reason]) time None reason) (\<lambda>(updated, ev).
     and_then (close_order b oid updated) (\<lambda>b1. Inr (record_event ev updated b1, ev)))))"

definition fill_guards :: "env \<Rightarrow> fill \<Rightarrow> order \<Rightarrow> unit res" where
  "fill_guards E f ord =
     (let i = ord_intent ord; remaining = units (oi_quantity i) - units (ord_filled_quantity ord) in
      if \<not> open_status (ord_status ord) then raise ''fill references an order that is not open''
      else if fl_account_id f \<noteq> oi_account_id i then raise ''fill account differs from order intent''
      else if fl_strategy_id f \<noteq> oi_strategy_id i then raise ''fill strategy differs from order intent''
      else if fl_instrument_id f \<noteq> oi_instrument_id i then raise ''fill instrument differs from order intent''
      else if fl_side f \<noteq> oi_side i then raise ''fill side differs from order intent''
      else if scale (fl_quantity f) \<noteq> scale (oi_quantity i)
      then raise ''fill quantity scale differs from order intent''
      else if \<not> fp_is_positive E (fl_quantity f) then raise ''fill quantity must be positive''
      else if units (fl_quantity f) > remaining
      then raise ''fill would violate order quantity conservation''
      else if fl_event_time f < oi_created_at i
      then raise ''order event_time cannot precede intent created_at'' else Inr ())"

text \<open>The next order and event of a fill, its storage, and its entry in the fill table.\<close>

definition fill_target :: "fill \<Rightarrow> order \<Rightarrow> order_status" where
  "fill_target f ord =
     (if units (fl_quantity f) = units (oi_quantity (ord_intent ord)) - units (ord_filled_quantity ord)
      then FILLED else PARTIALLY_FILLED)"

definition filled_order :: "fill \<Rightarrow> order \<Rightarrow> fixed_point \<Rightarrow> order" where
  "filled_order f ord filled =
     order_fact (ord_order_id ord) (ord_intent ord) (fill_target f ord) filled (ord_version ord + 1)"

definition filled_event :: "env \<Rightarrow> fill \<Rightarrow> order \<Rightarrow> order \<Rightarrow> order_event" where
  "filled_event E f ord updated =
     event_fact (mint_id E ''oev'' [SStr (ord_order_id ord), SInt (ord_version ord + 1),
                   SStr (status_value (fill_target f ord)), SStr (fl_fill_id f)]) updated (ord_status ord)
       (Some (fl_quantity f)) (Some (fl_event_time f))"

definition store_filled :: "broker_state \<Rightarrow> fill \<Rightarrow> order \<Rightarrow> order \<Rightarrow> broker_state res" where
  "store_filled b f ord updated = (if fill_target f ord = FILLED then close_order b (ord_order_id ord) updated
     else Inr (b\<lparr>br_orders := dset (ord_order_id ord) (Live updated) (br_orders b)\<rparr>))"

definition fill_entry :: "env \<Rightarrow> broker_state \<Rightarrow> fill \<Rightarrow> order_event \<Rightarrow> fill_key" where
  "fill_entry E b f ev = (if br_artifact_sink b = None then FillFact f ev
     else FillDigest (sha256_hex E (fill_bytes E f)) ev)"

definition apply_fill ::
  "env \<Rightarrow> broker_state \<Rightarrow> fill \<Rightarrow> bool \<Rightarrow> (broker_state \<times> order_event) res" where
  "apply_fill E b f trusted_unique = and_then (require_mutable b) (\<lambda>_.
     case (if trusted_unique then None else dget (br_fill_keys b) (fl_fill_id f)) of
       Some (FillDigest d ev) \<Rightarrow>
         if d \<noteq> sha256_hex E (fill_bytes E f) then raise ''fill_id reused with different fill content''
         else and_then (event_from_payload E ev) (\<lambda>e. Inr (b, e))
     | Some (FillFact g ev) \<Rightarrow>
         if g \<noteq> f then raise ''fill_id reused with different fill content'' else Inr (b, ev)
     | None \<Rightarrow>
         and_then (require_order E b (fl_order_id f)) (\<lambda>ord.
         and_then (fill_guards E f ord) (\<lambda>_.
         and_then (new_fixed E (units (ord_filled_quantity ord) + units (fl_quantity f))
                    (scale (ord_filled_quantity ord))) (\<lambda>filled.
         let updated = filled_order f ord filled; ev = filled_event E f ord updated in
         and_then (store_filled b f ord updated) (\<lambda>b1.
         let b2 = record_event ev updated b1 in
         Inr (if trusted_unique then b2
              else b2\<lparr>br_fill_keys := dset (fl_fill_id f) (fill_entry E b2 f ev) (br_fill_keys b2)\<rparr>, ev))))))"

section \<open>Trading days\<close>

definition note_trading_day :: "broker_state \<Rightarrow> string \<Rightarrow> day \<Rightarrow> broker_state res" where
  "note_trading_day b oid d = and_then (require_mutable b) (\<lambda>_.
     case dget (br_orders b) oid of
       None \<Rightarrow> Inr b
     | Some (Sealed p) \<Rightarrow> Inl (AttributeError ''intent'')
     | Some (Live ord) \<Rightarrow>
         if oi_time_in_force (ord_intent ord) = DAY
         then Inr (b\<lparr>br_accepted_day := (if dget (br_accepted_day b) oid = None
                        then dset oid d (br_accepted_day b) else br_accepted_day b),
                     br_day_order_ids := List.insert oid (br_day_order_ids b)\<rparr>)
         else Inr b)"

definition day_order :: "broker_state \<Rightarrow> string \<Rightarrow> order res" where
  "day_order b oid = (case dget (br_orders b) oid of
       None \<Rightarrow> Inl (KeyError oid)
     | Some (Sealed p) \<Rightarrow> Inl (AttributeError ''intent'')
     | Some (Live ord) \<Rightarrow> Inr ord)"

definition expire_if_due ::
  "env \<Rightarrow> day \<Rightarrow> instant \<Rightarrow> broker_state \<times> order_event list \<Rightarrow> order \<Rightarrow> (broker_state \<times> order_event list) res" where
  "expire_if_due E d time acc ord = (case acc of (b, evs) \<Rightarrow>
     if oi_time_in_force (ord_intent ord) = DAY
        \<and> (case dget (br_accepted_day b) (ord_order_id ord) of None \<Rightarrow> False | Some a \<Rightarrow> d > a)
     then and_then (expire E b (ord_order_id ord) time ''DAY session expired'')
            (\<lambda>(b', ev). Inr (b', evs @ [ev]))
     else Inr acc)"

definition expire_day_orders ::
  "env \<Rightarrow> broker_state \<Rightarrow> day \<Rightarrow> instant \<Rightarrow> (broker_state \<times> order_event list) res" where
  "expire_day_orders E b d time = and_then (require_mutable b) (\<lambda>_.
     if br_day_order_ids b = [] then Inr (b, []) else
     and_then (map_res (day_order b) (br_day_order_ids b)) (\<lambda>ords.
       fold_res (expire_if_due E d time) (b, []) (sort_key order_sort_key ords)))"

definition remaining_quantity :: "env \<Rightarrow> order \<Rightarrow> fixed_point res" where
  "remaining_quantity E ord =
     new_fixed E (units (oi_quantity (ord_intent ord)) - units (ord_filled_quantity ord))
       (scale (oi_quantity (ord_intent ord)))"

end
