(* ===== verification/Broker_Inv.thy ===== *)
theory Broker_Inv
  imports Broker
begin

text \<open>
  The broker's invariant and its preservation.  The invariant ties the order store to the
  indexes (open, immediate, day) and to the event history: replaying the recorded events of
  an order from \<open>created\<close> gives exactly its status, version and filled quantity.
\<close>

section \<open>One order advances by one event\<close>

definition order_advance :: "order \<Rightarrow> order_event \<Rightarrow> order \<Rightarrow> bool" where
  "order_advance ord ev ord' \<longleftrightarrow> order_inv ord'
     \<and> ord_order_id ord' = ord_order_id ord \<and> ord_intent ord' = ord_intent ord
     \<and> ord_version ord' = ord_version ord + 1
     \<and> units (ord_filled_quantity ord') = units (ord_filled_quantity ord) + event_units ev
     \<and> oe_order_id ev = ord_order_id ord \<and> oe_sequence ev = ord_version ord'
     \<and> oe_from_status ev = ord_status ord \<and> oe_to_status ev = ord_status ord'
     \<and> oe_to_status ev \<in> set (ORDER_STATUS_TRANSITIONS (oe_from_status ev))"

text \<open>Replaying events from a (status, version, filled units) triple.\<close>

fun replay_events :: "order_status \<times> int \<times> int \<Rightarrow> order_event list \<Rightarrow> (order_status \<times> int \<times> int) option" where
  "replay_events st [] = Some st"
| "replay_events (s, v, u) (ev # evs) =
     (if oe_from_status ev = s \<and> oe_sequence ev = v + 1
         \<and> oe_to_status ev \<in> set (ORDER_STATUS_TRANSITIONS s)
      then replay_events (oe_to_status ev, v + 1, u + event_units ev) evs else None)"

lemma replay_events_snoc:
  "replay_events st (evs @ [ev]) = Option.bind (replay_events st evs) (\<lambda>st'. replay_events st' [ev])"
  by (induction st evs rule: replay_events.induct) auto

fun stored_fact :: "stored_order \<Rightarrow> order" where
  "stored_fact (Live ord) = ord"
| "stored_fact (Sealed ord) = ord"

definition entry_ok :: "string \<Rightarrow> stored_order \<Rightarrow> bool" where
  "entry_ok oid s \<longleftrightarrow> order_inv (stored_fact s) \<and> ord_order_id (stored_fact s) = oid
     \<and> ord_status (stored_fact s) \<noteq> CREATED
     \<and> (s = Sealed (stored_fact s) \<longrightarrow> terminal_status (ord_status (stored_fact s)))"

definition is_open :: "broker_state \<Rightarrow> string \<Rightarrow> bool" where
  "is_open b oid \<longleftrightarrow> (\<exists>ord. dget (br_orders b) oid = Some (Live ord) \<and> open_status (ord_status ord))"

definition is_immediate :: "broker_state \<Rightarrow> string \<Rightarrow> bool" where
  "is_immediate b oid \<longleftrightarrow> (\<exists>ord. dget (br_orders b) oid = Some (Live ord) \<and> open_status (ord_status ord)
     \<and> oi_time_in_force (ord_intent ord) \<in> {IOC, FOK})"

definition is_day :: "broker_state \<Rightarrow> string \<Rightarrow> bool" where
  "is_day b oid \<longleftrightarrow> (\<exists>s. dget (br_orders b) oid = Some s
     \<and> oi_time_in_force (ord_intent (stored_fact s)) = DAY)"

definition index_ok :: "broker_state \<Rightarrow> bool" where
  "index_ok b \<longleftrightarrow> (\<forall>oid. (oid \<in> set (br_open_order_ids b) \<longleftrightarrow> is_open b oid)
     \<and> (oid \<in> set (br_immediate_order_ids b) \<longleftrightarrow> is_immediate b oid)
     \<and> (oid \<in> set (br_day_order_ids b) \<longrightarrow> is_day b oid))
     \<and> distinct (br_open_order_ids b) \<and> distinct (br_immediate_order_ids b) \<and> distinct (br_day_order_ids b)"

definition sink_events :: "artifact list option \<Rightarrow> order_event list" where
  "sink_events out = (case out of None \<Rightarrow> []
     | Some xs \<Rightarrow> concat (map (\<lambda>a. case a of OrderEventArtifact ev \<Rightarrow> [ev] | OrderArtifact ord \<Rightarrow> []) xs))"

definition history_of :: "broker_state \<Rightarrow> string \<Rightarrow> order_event list" where
  "history_of b oid = filter (\<lambda>ev. oe_order_id ev = oid) (br_events b @ sink_events (br_artifact_sink b))"

definition history_matches :: "order_event list \<Rightarrow> stored_order option \<Rightarrow> bool" where
  "history_matches evs s \<longleftrightarrow> (case s of None \<Rightarrow> evs = []
     | Some x \<Rightarrow> replay_events (CREATED, 0, 0) evs =
         Some (ord_status (stored_fact x), ord_version (stored_fact x),
               units (ord_filled_quantity (stored_fact x))))"

definition broker_inv :: "broker_state \<Rightarrow> bool" where
  "broker_inv b \<longleftrightarrow> (\<forall>oid s. dget (br_orders b) oid = Some s \<longrightarrow> entry_ok oid s)
     \<and> index_ok b
     \<and> br_order_count b = length (br_orders b)
     \<and> (br_artifact_sink b \<noteq> None \<longrightarrow> br_events b = [])
     \<and> (\<not> br_artifact_stream_closed b \<longrightarrow>
          (\<forall>oid. history_matches (history_of b oid) (dget (br_orders b) oid)))"

lemma broker_inv_reset: "broker_inv broker_reset"
  by (simp add: broker_inv_def broker_reset_def index_ok_def is_open_def is_immediate_def
      history_of_def sink_events_def history_matches_def)

lemma length_dset: "length (dset k v d) = length d + (if dget d k = None then 1 else 0)"
  by (induction d) auto

section \<open>Recording a step\<close>

text \<open>
  The state \<open>b1\<close> in which the handlers call \<open>record_event\<close>: the order is stored, the indexes
  are adjusted for this order only, and the history is untouched.
\<close>

definition staged :: "broker_state \<Rightarrow> string \<Rightarrow> order \<Rightarrow> broker_state \<Rightarrow> bool" where
  "staged b oid ord' b1 \<longleftrightarrow>
     br_orders b1 = dset oid (Live ord') (br_orders b)
     \<and> br_order_count b1 = br_order_count b + (if dget (br_orders b) oid = None then 1 else 0)
     \<and> br_events b1 = br_events b \<and> br_artifact_sink b1 = br_artifact_sink b
     \<and> br_artifact_stream_closed b1 = br_artifact_stream_closed b
     \<and> (\<forall>x. x \<noteq> oid \<longrightarrow> (x \<in> set (br_open_order_ids b1) \<longleftrightarrow> x \<in> set (br_open_order_ids b))
           \<and> (x \<in> set (br_immediate_order_ids b1) \<longleftrightarrow> x \<in> set (br_immediate_order_ids b))
           \<and> (x \<in> set (br_day_order_ids b1) \<longrightarrow> x \<in> set (br_day_order_ids b)))
     \<and> (oid \<in> set (br_open_order_ids b1) \<longleftrightarrow> open_status (ord_status ord'))
     \<and> (oid \<in> set (br_immediate_order_ids b1) \<longleftrightarrow> open_status (ord_status ord')
            \<and> oi_time_in_force (ord_intent ord') \<in> {IOC, FOK})
     \<and> (oid \<in> set (br_day_order_ids b1) \<longrightarrow> oi_time_in_force (ord_intent ord') = DAY)
     \<and> distinct (br_open_order_ids b1) \<and> distinct (br_immediate_order_ids b1)
     \<and> distinct (br_day_order_ids b1)"

text \<open>The order before the step: the stored one, or a fresh \<open>created\<close> one with no history.\<close>

definition before_step :: "broker_state \<Rightarrow> string \<Rightarrow> order \<Rightarrow> bool" where
  "before_step b oid ord \<longleftrightarrow> ord_order_id ord = oid \<and>
     (dget (br_orders b) oid = Some (Live ord)
      \<or> dget (br_orders b) oid = None \<and> ord_status ord = CREATED \<and> ord_version ord = 0
         \<and> units (ord_filled_quantity ord) = 0)"

lemma sink_events_append [simp]:
  "sink_events (Some (xs @ ys)) = sink_events (Some xs) @ sink_events (Some ys)"
  by (simp add: sink_events_def)

lemma open_status_simp: "ord_status ord \<in> {ACCEPTED, PARTIALLY_FILLED} \<longleftrightarrow> open_status (ord_status ord)"
  by (simp add: open_status_def)

lemma record_event_fields [simp]:
  "br_open_order_ids (record_event ev ord b) = br_open_order_ids b"
  "br_immediate_order_ids (record_event ev ord b) = br_immediate_order_ids b"
  "br_day_order_ids (record_event ev ord b) = br_day_order_ids b"
  "br_order_count (record_event ev ord b) = br_order_count b"
  "br_artifact_stream_closed (record_event ev ord b) = br_artifact_stream_closed b"
  "br_submit_keys (record_event ev ord b) = br_submit_keys b"
  "br_cancel_keys (record_event ev ord b) = br_cancel_keys b"
  "br_fill_keys (record_event ev ord b) = br_fill_keys b"
  "br_accepted_day (record_event ev ord b) = br_accepted_day b"
  "(br_artifact_sink (record_event ev ord b) = None) = (br_artifact_sink b = None)"
  by (simp_all add: record_event_def split: option.splits)

lemma record_event_orders:
  assumes "dget (br_orders b) (ord_order_id ord) = Some (Live ord)"
  shows "dget (br_orders (record_event ev ord b)) oid =
     (if oid = ord_order_id ord then Some (if br_artifact_sink b \<noteq> None \<and> \<not> open_status (ord_status ord)
        then Sealed ord else Live ord) else dget (br_orders b) oid)"
    and "length (br_orders (record_event ev ord b)) = length (br_orders b)"
  using assms by (auto simp: record_event_def open_status_def length_dset split: option.splits)

lemma record_event_history:
  assumes "br_artifact_sink b \<noteq> None \<longrightarrow> br_events b = []"
  shows "history_of (record_event ev ord b) oid =
     history_of b oid @ (if oe_order_id ev = oid then [ev] else [])"
    and "br_artifact_sink (record_event ev ord b) \<noteq> None \<longrightarrow> br_events (record_event ev ord b) = []"
  using assms by (auto simp: record_event_def history_of_def sink_events_def split: option.splits)

lemma not_open_terminal: "s \<noteq> CREATED \<Longrightarrow> terminal_status s \<longleftrightarrow> \<not> open_status s"
  by (cases s) (auto simp: terminal_status_def open_status_def)

lemma transition_target_not_created: "t \<in> set (ORDER_STATUS_TRANSITIONS s) \<Longrightarrow> t \<noteq> CREATED"
  by (cases s) auto

lemma record_step_inv:
  assumes inv: "broker_inv b" and bef: "before_step b oid ord"
    and adv: "order_advance ord ev ord'" and st: "staged b oid ord' b1"
  shows "broker_inv (record_event ev ord' b1)"
proof -
  let ?b = "record_event ev ord' b1"
  have id: "ord_order_id ord' = oid" "oe_order_id ev = oid"
    using bef adv by (auto simp: before_step_def order_advance_def)
  have nc: "ord_status ord' \<noteq> CREATED"
    using adv by (auto simp: order_advance_def dest: transition_target_not_created)
  have stored: "dget (br_orders b1) (ord_order_id ord') = Some (Live ord')"
    using st id by (simp add: staged_def)
  have get: "dget (br_orders ?b) x = (if x = oid then
      Some (if br_artifact_sink b \<noteq> None \<and> \<not> open_status (ord_status ord') then Sealed ord' else Live ord')
      else dget (br_orders b) x)" for x
    using record_event_orders(1) [OF stored] st id by (simp add: staged_def)
  have entries: "\<forall>x s. dget (br_orders ?b) x = Some s \<longrightarrow> entry_ok x s"
  proof (intro allI impI)
    fix x s assume s: "dget (br_orders ?b) x = Some s"
    show "entry_ok x s"
    proof (cases "x = oid")
      case True
      then show ?thesis using s adv id nc not_open_terminal [OF nc]
        by (auto simp: get entry_ok_def order_advance_def split: if_splits)
    next
      case False
      then have "dget (br_orders b) x = Some s" using s by (simp only: get if_False)
      then show ?thesis using inv by (simp add: broker_inv_def)
    qed
  qed
  have "is_open ?b x \<longleftrightarrow> (if x = oid then open_status (ord_status ord') else is_open b x)"
    "is_immediate ?b x \<longleftrightarrow> (if x = oid then open_status (ord_status ord')
        \<and> oi_time_in_force (ord_intent ord') \<in> {IOC, FOK} else is_immediate b x)"
    "is_day ?b x \<longleftrightarrow> (if x = oid then oi_time_in_force (ord_intent ord') = DAY else is_day b x)" for x
    by (auto simp: is_open_def is_immediate_def is_day_def get)
  then have index: "index_ok ?b"
    using inv st by (auto simp: broker_inv_def index_ok_def staged_def)
  have count: "br_order_count ?b = length (br_orders ?b)"
    using inv st record_event_orders(2) [OF stored]
    by (simp add: broker_inv_def staged_def length_dset)
  have ev0: "br_artifact_sink b1 \<noteq> None \<longrightarrow> br_events b1 = []"
    using inv st by (simp add: broker_inv_def staged_def)
  have hist: "history_of ?b x = history_of b x @ (if x = oid then [ev] else [])" for x
    using record_event_history(1) [OF ev0] st id by (auto simp: staged_def history_of_def)
  have log: "history_matches (history_of ?b x) (dget (br_orders ?b) x)"
    if "\<not> br_artifact_stream_closed ?b" for x
  proof -
    have old: "history_matches (history_of b x) (dget (br_orders b) x)"
      using that inv st by (simp add: broker_inv_def staged_def)
    show ?thesis
    proof (cases "x = oid")
      case False
      then show ?thesis using old by (simp only: hist get if_False append_Nil2)
    next
      case True
      have "replay_events (CREATED, 0, 0) (history_of b oid)
          = Some (ord_status ord, ord_version ord, units (ord_filled_quantity ord))"
        using old bef True by (auto simp: history_matches_def before_step_def)
      moreover have "ord_status ord' \<in> set (ORDER_STATUS_TRANSITIONS (ord_status ord))"
        using adv by (auto simp: order_advance_def)
      ultimately have "replay_events (CREATED, 0, 0) (history_of b oid @ [ev])
          = Some (ord_status ord', ord_version ord', units (ord_filled_quantity ord'))"
        using adv by (simp add: replay_events_snoc order_advance_def)
      then show ?thesis using True by (simp add: hist get history_matches_def)
    qed
  qed
  show ?thesis
    using entries index count record_event_history(2) [OF ev0] log
    unfolding broker_inv_def by blast
qed

section \<open>The operations keep the invariant\<close>

text \<open>
  The client's obligation is that a new submission does not mint the identifier of a stored
  order: identifiers are 96-bit prefixes of a digest, and the code does not check for a clash.
\<close>

definition fresh_id :: "env \<Rightarrow> broker_state \<Rightarrow> order_intent \<Rightarrow> bool" where
  "fresh_id E b i \<longleftrightarrow> (dget (br_submit_keys b) (oi_idempotency_key i) = None \<longrightarrow>
     dget (br_orders b) (mint_id E ''ord'' [SStr (oi_idempotency_key i), SStr (intent_hash E i)]) = None)"

text \<open>The intents that reach the broker were accepted by \<open>OrderIntent\<close>.\<close>

definition positive_intent :: "order_intent \<Rightarrow> bool" where
  "positive_intent i \<longleftrightarrow> 0 < units (oi_quantity i)"

lemma broker_invD:
  assumes "broker_inv b"
  shows "dget (br_orders b) oid = Some (Live ord) \<Longrightarrow> order_inv ord \<and> ord_order_id ord = oid \<and> ord_status ord \<noteq> CREATED"
    "dget (br_orders b) oid = Some (Sealed ord) \<Longrightarrow> order_inv ord \<and> ord_order_id ord = oid \<and> terminal_status (ord_status ord)"
    "oid \<in> set (br_open_order_ids b) \<longleftrightarrow> is_open b oid"
    "oid \<in> set (br_immediate_order_ids b) \<longleftrightarrow> is_immediate b oid"
    "oid \<in> set (br_day_order_ids b) \<Longrightarrow> is_day b oid"
    "distinct (br_open_order_ids b)" "distinct (br_immediate_order_ids b)" "distinct (br_day_order_ids b)"
  using assms by (force simp: broker_inv_def index_ok_def entry_ok_def)+

text \<open>The invariant does not look at the idempotency tables or the accepted days.\<close>

lemma broker_inv_tables:
  "broker_inv (b\<lparr>br_submit_keys := x\<rparr>) = broker_inv b"
  "broker_inv (b\<lparr>br_cancel_keys := y\<rparr>) = broker_inv b"
  "broker_inv (b\<lparr>br_fill_keys := z\<rparr>) = broker_inv b"
  "broker_inv (b\<lparr>br_accepted_day := w\<rparr>) = broker_inv b"
  by (simp_all add: broker_inv_def index_ok_def is_open_def is_immediate_def is_day_def history_of_def)

lemma record_event_tables:
  "record_event ev ord (b\<lparr>br_submit_keys := x\<rparr>) = (record_event ev ord b)\<lparr>br_submit_keys := x\<rparr>"
  "record_event ev ord (b\<lparr>br_cancel_keys := y\<rparr>) = (record_event ev ord b)\<lparr>br_cancel_keys := y\<rparr>"
  "record_event ev ord (b\<lparr>br_fill_keys := z\<rparr>) = (record_event ev ord b)\<lparr>br_fill_keys := z\<rparr>"
  by (simp_all add: record_event_def split: option.splits)

lemma open_not_terminal: "open_status s \<Longrightarrow> \<not> terminal_status s"
  by (auto simp: open_status_def terminal_status_def)

context fixed_env
begin

lemma require_order_live:
  assumes "broker_inv b" "require_order E b oid = Inr ord" "open_status (ord_status ord)"
  shows "dget (br_orders b) oid = Some (Live ord)"
proof (cases "dget (br_orders b) oid")
  case None
  then show ?thesis using assms(2) by (simp add: require_order_def)
next
  case (Some s)
  show ?thesis
  proof (cases s)
    case (Live x)
    then show ?thesis using assms(2) Some by (simp add: require_order_def)
  next
    case (Sealed p)
    then have "order_from_payload E p = Inr ord" using assms(2) Some by (simp add: require_order_def)
    then have "ord_status ord = ord_status p"
      by (auto simp: order_from_payload_def mk_order_def Let_def split: if_splits)
    then show ?thesis
      using broker_invD(2) [OF assms(1)] Some Sealed assms(3) open_not_terminal by metis
  qed
qed

lemma transition_advance:
  assumes "transition_order E ord st eid t fq reason = Inr (ord', ev)" "order_inv ord"
  shows "order_advance ord ev ord'"
proof -
  have "order_step E ord ev ord'" using assms(1) by (rule order_step.intros)
  note F = order_step_facts [OF this]
  have "oe_order_id ev = ord_order_id ord" using transition_orderD(2) [OF assms(1)] by auto
  then show ?thesis using F assms(2) by (simp add: order_advance_def)
qed

lemma close_order_inv:
  assumes inv: "broker_inv b" and live: "dget (br_orders b) oid = Some (Live ord)"
    and adv: "order_advance ord ev ord'" and closed: "terminal_status (ord_status ord')"
    and c: "close_order b oid ord' = Inr b1"
  shows "broker_inv (record_event ev ord' b1)"
proof -
  note D = broker_invD [OF inv]
  have id: "ord_order_id ord = oid" using D(1) [OF live] by simp
  have "oid \<in> set (br_day_order_ids b1) \<Longrightarrow> False"
    using c by (auto simp: close_order_def set_discard_def)
  moreover have "\<not> open_status (ord_status ord')" using closed open_not_terminal by blast
  ultimately have "staged b oid ord' b1"
    using c live D(6,7,8)
    by (auto simp: staged_def close_order_def set_remove_def set_discard_def distinct_removeAll)
  moreover have "before_step b oid ord" using live id by (simp add: before_step_def)
  ultimately show ?thesis using record_step_inv [OF inv _ adv] by blast
qed

lemma fresh_step_inv:
  assumes inv: "broker_inv b" and fresh: "dget (br_orders b) oid = None"
    and adv: "order_advance ord ev ord'" and ord: "ord_order_id ord = oid" "ord_status ord = CREATED"
      "ord_version ord = 0" "units (ord_filled_quantity ord) = 0"
    and b1: "b1 = b\<lparr>br_orders := dset oid (Live ord') (br_orders b), br_order_count := br_order_count b + 1,
       br_open_order_ids := (if open_status (ord_status ord') then List.insert oid (br_open_order_ids b)
                             else br_open_order_ids b),
       br_immediate_order_ids := (if open_status (ord_status ord')
           \<and> oi_time_in_force (ord_intent ord') \<in> {IOC, FOK} then List.insert oid (br_immediate_order_ids b)
         else br_immediate_order_ids b),
       br_submit_keys := keys\<rparr>"
  shows "broker_inv (record_event ev ord' b1)"
proof -
  note D = broker_invD [OF inv]
  have "oid \<notin> set (br_open_order_ids b)" "oid \<notin> set (br_immediate_order_ids b)" "oid \<notin> set (br_day_order_ids b)"
    using fresh D(3,4) D(5) [of oid] by (auto simp: is_open_def is_immediate_def is_day_def)
  then have "staged b oid ord' b1"
    using fresh D(6,7,8) by (simp add: staged_def b1 in_set_insert distinct_insert)
  moreover have "before_step b oid ord" using fresh ord by (simp add: before_step_def)
  ultimately show ?thesis using record_step_inv [OF inv _ adv] by blast
qed

lemma submit_inv:
  assumes inv: "broker_inv b" and fresh: "fresh_id E b i" and pos: "positive_intent i"
    and s: "submit E b i = Inr (b', ord)"
  shows "broker_inv b'"
proof (cases "dget (br_submit_keys b) (oi_idempotency_key i)")
  case (Some v)
  then have "b' = b" using s by (auto simp: submit_def Let_def split: prod.splits)
  then show ?thesis using inv by simp
next
  case None
  let ?oid = "mint_id E ''ord'' [SStr (oi_idempotency_key i), SStr (intent_hash E i)]"
  from s None obtain filled where f: "new_fixed E 0 (scale (oi_quantity i)) = Inr filled"
    and o': "ord = order_fact ?oid i ACCEPTED filled 1"
    by (auto simp: submit_def Let_def)
  define ev where "ev = event_fact (mint_id E ''oev'' [SStr ?oid, SInt 1, SStr ''accepted'']) ord CREATED None None"
  have b': "b' = record_event ev ord (b\<lparr>br_orders := dset ?oid (Live ord) (br_orders b),
         br_order_count := br_order_count b + 1,
         br_open_order_ids := (if open_status (ord_status ord) then List.insert ?oid (br_open_order_ids b)
                             else br_open_order_ids b),
         br_immediate_order_ids := (if open_status (ord_status ord)
            \<and> oi_time_in_force (ord_intent ord) \<in> {IOC, FOK} then List.insert ?oid (br_immediate_order_ids b)
           else br_immediate_order_ids b),
         br_submit_keys := dset (oi_idempotency_key i) (?oid, intent_hash E i) (br_submit_keys b)\<rparr>)"
    using s None f unfolding ev_def o' by (auto simp: submit_def Let_def order_fact_def open_status_def)
  have "order_advance (order_fact ?oid i CREATED filled 0) ev ord"
    using new_fixed_Inr [OF f] pos
    by (simp add: order_advance_def ev_def o' order_fact_def event_fact_def event_units_def
        order_inv_def positive_intent_def Let_def)
  moreover have "dget (br_orders b) ?oid = None" using fresh None by (simp add: fresh_id_def)
  ultimately show ?thesis
    unfolding b' using new_fixed_Inr [OF f] fresh_step_inv [OF inv _ _ _ _ _ _ refl]
    by (simp add: order_fact_def)
qed

lemma mk_created_order:
  assumes "mk_order E oid i CREATED None 0 = Inr ord" "positive_intent i"
  shows "order_inv ord" "ord_order_id ord = py_strip oid" "ord_status ord = CREATED" "ord_intent ord = i"
    "ord_version ord = 0" "units (ord_filled_quantity ord) = 0"
proof -
  obtain filled where f: "new_fixed E 0 (scale (oi_quantity i)) = Inr filled"
    and o': "ord = \<lparr>ord_order_id = py_strip oid, ord_intent = i, ord_status = CREATED,
                 ord_filled_quantity = filled, ord_version = 0\<rparr>"
    using assms(1) by (auto simp: mk_order_def res_simps)
  then show "order_inv ord" "ord_order_id ord = py_strip oid" "ord_status ord = CREATED" "ord_intent ord = i"
    "ord_version ord = 0" "units (ord_filled_quantity ord) = 0"
    using new_fixed_Inr [OF f] assms(2) by (simp_all add: order_inv_def positive_intent_def Let_def)
qed

lemma reject_inv:
  assumes inv: "broker_inv b" and fresh: "fresh_id E b i" and pos: "positive_intent i"
    and s: "reject E b i code message = Inr (b', ord)"
  shows "broker_inv b'"
proof (cases "dget (br_submit_keys b) (oi_idempotency_key i)")
  case (Some v)
  then have "b' = b" using s by (auto simp: reject_def Let_def split: prod.splits)
  then show ?thesis using inv by simp
next
  case None
  let ?oid = "mint_id E ''ord'' [SStr (oi_idempotency_key i), SStr (intent_hash E i)]"
  from s None obtain created ev eid t reason where
    c: "mk_order E ?oid i CREATED None 0 = Inr created"
    and tr: "transition_order E created REJECTED eid t None reason = Inr (ord, ev)"
    and b': "b' = record_event ev ord (b\<lparr>br_orders := dset ?oid (Live ord) (br_orders b),
         br_order_count := br_order_count b + 1,
         br_submit_keys := dset (oi_idempotency_key i) (?oid, intent_hash E i) (br_submit_keys b)\<rparr>)"
    by (auto simp: reject_def Let_def)
  note C = mk_created_order [OF c pos]
  have id: "ord_order_id created = ?oid"
    using C(2) mint_id_strip by (simp add: py_space_def)
  have "ord_status ord = REJECTED" using transition_orderD(7) [OF tr] by auto
  then have shape: "b\<lparr>br_orders := dset ?oid (Live ord) (br_orders b), br_order_count := br_order_count b + 1,
         br_submit_keys := dset (oi_idempotency_key i) (?oid, intent_hash E i) (br_submit_keys b)\<rparr>
    = b\<lparr>br_orders := dset ?oid (Live ord) (br_orders b), br_order_count := br_order_count b + 1,
         br_open_order_ids := (if open_status (ord_status ord) then List.insert ?oid (br_open_order_ids b)
                             else br_open_order_ids b),
         br_immediate_order_ids := (if open_status (ord_status ord)
            \<and> oi_time_in_force (ord_intent ord) \<in> {IOC, FOK} then List.insert ?oid (br_immediate_order_ids b)
           else br_immediate_order_ids b),
         br_submit_keys := dset (oi_idempotency_key i) (?oid, intent_hash E i) (br_submit_keys b)\<rparr>"
    by (simp add: open_status_def)
  have "dget (br_orders b) ?oid = None" using fresh None by (simp add: fresh_id_def)
  then show ?thesis unfolding b' shape
    by (rule fresh_step_inv [OF inv _ transition_advance [OF tr C(1)] id C(3,5,6) refl])
qed

lemma require_order_inv:
  assumes "broker_inv b" "require_order E b oid = Inr ord" "open_status (ord_status ord)"
  shows "order_inv ord" "ord_order_id ord = oid"
  using broker_invD(1) [OF assms(1) require_order_live [OF assms]] by auto

lemma close_step_inv:
  assumes inv: "broker_inv b" and r: "require_order E b oid = Inr ord" "open_status (ord_status ord)"
    and tr: "transition_order E ord st eid t None reason = Inr (ord', ev)" and st: "terminal_status st"
    and c: "close_order b oid ord' = Inr b1"
  shows "broker_inv (record_event ev ord' b1)"
proof (rule close_order_inv [OF inv require_order_live [OF inv r] _ _ c])
  show "order_advance ord ev ord'" using tr require_order_inv(1) [OF inv r] by (rule transition_advance)
  have "ord_status ord' = st" using transition_orderD(7) [OF tr] by auto
  then show "terminal_status (ord_status ord')" using st by simp
qed

lemma cancel_inv:
  assumes inv: "broker_inv b" and s: "cancel E b oid key t = Inr (b', ev)"
  shows "broker_inv b'"
proof (cases "dget (br_cancel_keys b) key")
  case (Some v)
  then have "b' = b" using s by (auto simp: cancel_def split: prod.splits)
  then show ?thesis using inv by simp
next
  case None
  from s None obtain ord ord' b1 where r: "require_order E b oid = Inr ord" "open_status (ord_status ord)"
    and tr: "transition_order E ord CANCELLED
       (mint_id E ''oev'' [SStr oid, SInt (ord_version ord + 1), SStr ''cancelled'']) t None
       ''cancel requested'' = Inr (ord', ev)"
    and c: "close_order b oid ord' = Inr b1"
    and b': "b' = record_event ev ord' (b1\<lparr>br_cancel_keys := dset key (oid, ev) (br_cancel_keys b1)\<rparr>)"
    by (auto simp: cancel_def)
  show ?thesis unfolding b' record_event_tables broker_inv_tables
    by (rule close_step_inv [OF inv r tr _ c]) (simp add: terminal_status_def)
qed

lemma expire_inv:
  assumes inv: "broker_inv b" and s: "expire E b oid t reason = Inr (b', ev)"
  shows "broker_inv b'"
proof -
  from s obtain ord ord' b1 eid where r: "require_order E b oid = Inr ord" "open_status (ord_status ord)"
    and tr: "transition_order E ord EXPIRED eid t None reason = Inr (ord', ev)"
    and c: "close_order b oid ord' = Inr b1" and b': "b' = record_event ev ord' b1"
    by (auto simp: expire_def)
  show ?thesis unfolding b' by (rule close_step_inv [OF inv r tr _ c]) (simp add: terminal_status_def)
qed

text \<open>The fill path builds the next order itself; it advances the order like a transition.\<close>

lemma fill_guards_Inr:
  "fill_guards E f ord = Inr u \<longleftrightarrow> open_status (ord_status ord)
     \<and> fl_account_id f = oi_account_id (ord_intent ord) \<and> fl_strategy_id f = oi_strategy_id (ord_intent ord)
     \<and> fl_instrument_id f = oi_instrument_id (ord_intent ord) \<and> fl_side f = oi_side (ord_intent ord)
     \<and> scale (fl_quantity f) = scale (oi_quantity (ord_intent ord)) \<and> 0 < units (fl_quantity f)
     \<and> units (fl_quantity f) \<le> units (oi_quantity (ord_intent ord)) - units (ord_filled_quantity ord)
     \<and> oi_created_at (ord_intent ord) \<le> fl_event_time f"
  by (auto simp: fill_guards_def Let_def is_positive_units)

lemma fill_advance:
  assumes inv: "order_inv ord" and g: "fill_guards E f ord = Inr u"
    and n: "new_fixed E (units (ord_filled_quantity ord) + units (fl_quantity f))
       (scale (ord_filled_quantity ord)) = Inr filled"
  shows "order_advance ord (filled_event E f ord (filled_order f ord filled)) (filled_order f ord filled)"
proof -
  note G = g [unfolded fill_guards_Inr] and N = new_fixed_Inr [OF n]
  have s: "ord_status ord = ACCEPTED \<or> ord_status ord = PARTIALLY_FILLED"
    using G by (simp add: open_status_def)
  then have "order_inv (filled_order f ord filled)"
    using inv G N unfolding filled_order_def order_fact_def order_inv_def Let_def
    by (auto simp: fill_target_def)
  then show ?thesis
    using s N by (auto simp: order_advance_def filled_order_def filled_event_def order_fact_def
        event_fact_def event_units_def fill_target_def)
qed

lemma store_filled_inv:
  assumes inv: "broker_inv b" and live: "dget (br_orders b) oid = Some (Live ord)" and op: "open_status (ord_status ord)"
    and adv: "order_advance ord ev (filled_order f ord filled)"
    and c: "store_filled b f ord (filled_order f ord filled) = Inr b1"
  shows "broker_inv (record_event ev (filled_order f ord filled) b1)"
proof (cases "fill_target f ord = FILLED")
  case True
  have "ord_order_id ord = oid" using broker_invD(1) [OF inv live] by simp
  then show ?thesis
    using True close_order_inv [OF inv live adv] c
    by (simp add: store_filled_def filled_order_def order_fact_def terminal_status_def)
next
  case False
  note D = broker_invD [OF inv]
  have id: "ord_order_id ord = oid" using D(1) [OF live] by simp
  have "open_status (ord_status (filled_order f ord filled))"
    "b1 = b\<lparr>br_orders := dset oid (Live (filled_order f ord filled)) (br_orders b)\<rparr>"
    using False c id
    by (simp_all add: store_filled_def filled_order_def order_fact_def open_status_def fill_target_def
        split: if_splits)
  moreover have "ord_intent (filled_order f ord filled) = ord_intent ord"
    by (simp add: filled_order_def order_fact_def)
  ultimately have "staged b oid (filled_order f ord filled) b1"
    using live op D(3) [of oid] D(4) [of oid] D(5) [of oid] D(6,7,8)
    by (auto simp: staged_def is_open_def is_immediate_def is_day_def)
  moreover have "before_step b oid ord" using live id by (simp add: before_step_def)
  ultimately show ?thesis using record_step_inv [OF inv _ adv] by blast
qed

lemma apply_fillD:
  assumes "apply_fill E b f tu = Inr (b', ev)" "(if tu then None else dget (br_fill_keys b) (fl_fill_id f)) = None"
  obtains ord filled b1 where "require_order E b (fl_order_id f) = Inr ord" "fill_guards E f ord = Inr ()"
    "new_fixed E (units (ord_filled_quantity ord) + units (fl_quantity f)) (scale (ord_filled_quantity ord)) = Inr filled"
    "store_filled b f ord (filled_order f ord filled) = Inr b1"
    "ev = filled_event E f ord (filled_order f ord filled)"
    "b' = (let b2 = record_event ev (filled_order f ord filled) b1 in if tu then b2
       else b2\<lparr>br_fill_keys := dset (fl_fill_id f) (fill_entry E b2 f ev) (br_fill_keys b2)\<rparr>)"
  using assms unfolding apply_fill_def Let_def
  by (fastforce split del: if_split)

lemma apply_fill_inv:
  assumes inv: "broker_inv b" and s: "apply_fill E b f tu = Inr (b', ev)"
  shows "broker_inv b'"
proof (cases "if tu then None else dget (br_fill_keys b) (fl_fill_id f)")
  case (Some v)
  then have "b' = b" using s unfolding apply_fill_def by (cases v) auto
  then show ?thesis using inv by simp
next
  case None
  from s None obtain ord filled b1 where r: "require_order E b (fl_order_id f) = Inr ord"
    and g: "fill_guards E f ord = Inr ()"
    and n: "new_fixed E (units (ord_filled_quantity ord) + units (fl_quantity f)) (scale (ord_filled_quantity ord)) = Inr filled"
    and c: "store_filled b f ord (filled_order f ord filled) = Inr b1"
    and ev: "ev = filled_event E f ord (filled_order f ord filled)"
    and b': "b' = (let b2 = record_event ev (filled_order f ord filled) b1 in if tu then b2
       else b2\<lparr>br_fill_keys := dset (fl_fill_id f) (fill_entry E b2 f ev) (br_fill_keys b2)\<rparr>)"
    by (rule apply_fillD)
  have op: "open_status (ord_status ord)" using g by (simp add: fill_guards_Inr)
  have "order_advance ord ev (filled_order f ord filled)"
    unfolding ev by (rule fill_advance [OF require_order_inv(1) [OF inv r op] g n])
  then have "broker_inv (record_event ev (filled_order f ord filled) b1)"
    by (rule store_filled_inv [OF inv require_order_live [OF inv r op] op _ c])
  then show ?thesis by (simp add: b' Let_def broker_inv_tables)
qed

lemma note_trading_day_inv:
  assumes inv: "broker_inv b" and s: "note_trading_day b oid d = Inr b'"
  shows "broker_inv b'"
proof (cases "dget (br_orders b) oid")
  case None
  then show ?thesis using s inv by (simp add: note_trading_day_def)
next
  case (Some st)
  then obtain ord where live: "st = Live ord" using s by (cases st) (auto simp: note_trading_day_def)
  have index: "broker_inv (b\<lparr>br_accepted_day := a, br_day_order_ids := List.insert oid (br_day_order_ids b)\<rparr>)"
    if "oi_time_in_force (ord_intent ord) = DAY" for a
    using inv that Some live
    by (auto simp: broker_inv_def index_ok_def is_open_def is_immediate_def is_day_def history_of_def
        distinct_insert)
  show ?thesis
    using s index index [of "br_accepted_day b"] inv Some live
    by (auto simp: note_trading_day_def split: if_splits)
qed

lemma expire_if_due_inv:
  assumes "broker_inv (fst acc)" "expire_if_due E d t acc ord = Inr acc'"
  shows "broker_inv (fst acc')"
  using assms by (auto simp: expire_if_due_def split: prod.splits if_splits intro: expire_inv)

lemma expire_day_orders_inv:
  assumes inv: "broker_inv b" and s: "expire_day_orders E b d t = Inr (b', evs)"
  shows "broker_inv b'"
proof (cases "br_day_order_ids b = []")
  case True
  then show ?thesis using s inv by (auto simp: expire_day_orders_def)
next
  case False
  then obtain ords where f: "fold_res (expire_if_due E d t) (b, []) (sort_key order_sort_key ords) = Inr (b', evs)"
    using s by (auto simp: expire_day_orders_def)
  have "broker_inv (fst (b', evs))"
    by (rule fold_res_invariant [OF f, where P = "\<lambda>acc. broker_inv (fst acc)"])
      (simp_all add: inv expire_if_due_inv)
  then show ?thesis by simp
qed

end

lemma start_artifact_stream_inv: "start_artifact_stream b = Inr b' \<Longrightarrow> broker_inv b \<Longrightarrow> broker_inv b'"
  by (auto simp: start_artifact_stream_def broker_inv_def index_ok_def is_open_def is_immediate_def
      is_day_def history_of_def sink_events_def)

lemma closed_stream_inv:
  "broker_inv b \<Longrightarrow> broker_inv (b\<lparr>br_artifact_sink := None, br_artifact_stream_closed := True\<rparr>)"
  by (simp add: broker_inv_def index_ok_def is_open_def is_immediate_def is_day_def)

lemma finish_artifact_stream_inv:
  "finish_artifact_stream b = Inr (b', out) \<Longrightarrow> broker_inv b \<Longrightarrow> broker_inv b'"
  by (auto simp: finish_artifact_stream_def closed_stream_inv split: option.splits)

lemma abort_artifact_stream_inv: "broker_inv b \<Longrightarrow> broker_inv (abort_artifact_stream b)"
  by (simp add: abort_artifact_stream_def closed_stream_inv)

section \<open>The broker as a machine\<close>

datatype broker_op =
    SubmitOp order_intent
  | RejectOp order_intent string string
  | CancelOp string string instant
  | ExpireOp string instant string
  | ApplyFillOp fill bool
  | NoteTradingDayOp string day
  | ExpireDayOrdersOp day instant
  | StartStreamOp
  | FinishStreamOp
  | AbortStreamOp

definition fst_res :: "('a \<times> 'b) res \<Rightarrow> 'a res" where
  "fst_res m = and_then m (\<lambda>(x, y). Inr x)"

lemma fst_res_Inr [simp]: "fst_res m = Inr x \<longleftrightarrow> (\<exists>y. m = Inr (x, y))"
  by (auto simp: fst_res_def)

fun broker_step :: "env \<Rightarrow> broker_state \<Rightarrow> broker_op \<Rightarrow> broker_state res" where
  "broker_step E b (SubmitOp i) = fst_res (submit E b i)"
| "broker_step E b (RejectOp i code message) = fst_res (reject E b i code message)"
| "broker_step E b (CancelOp oid key t) = fst_res (cancel E b oid key t)"
| "broker_step E b (ExpireOp oid t reason) = fst_res (expire E b oid t reason)"
| "broker_step E b (ApplyFillOp f trusted) = fst_res (apply_fill E b f trusted)"
| "broker_step E b (NoteTradingDayOp oid d) = note_trading_day b oid d"
| "broker_step E b (ExpireDayOrdersOp d t) = fst_res (expire_day_orders E b d t)"
| "broker_step E b StartStreamOp = start_artifact_stream b"
| "broker_step E b FinishStreamOp = fst_res (finish_artifact_stream b)"
| "broker_step E b AbortStreamOp = Inr (abort_artifact_stream b)"

text \<open>What a client must respect: submitted intents are accepted ones with a fresh identifier.\<close>

fun broker_op_ok :: "env \<Rightarrow> broker_state \<Rightarrow> broker_op \<Rightarrow> bool" where
  "broker_op_ok E b (SubmitOp i) = (fresh_id E b i \<and> positive_intent i)"
| "broker_op_ok E b (RejectOp i code message) = (fresh_id E b i \<and> positive_intent i)"
| "broker_op_ok E b op = True"

context fixed_env
begin

lemma broker_step_inv:
  "broker_inv b \<Longrightarrow> broker_op_ok E b op \<Longrightarrow> broker_step E b op = Inr b' \<Longrightarrow> broker_inv b'"
  by (cases op) (auto intro: submit_inv reject_inv cancel_inv expire_inv apply_fill_inv note_trading_day_inv
      expire_day_orders_inv start_artifact_stream_inv finish_artifact_stream_inv abort_artifact_stream_inv)

end

sublocale fixed_env \<subseteq> br: fallible_machine "broker_step E" "broker_op_ok E" broker_inv
  by unfold_locales (rule broker_step_inv)

context fixed_env
begin

lemma broker_run_inv:
  "admissible (broker_step E) (broker_op_ok E) broker_reset ops \<Longrightarrow>
     fold_res (broker_step E) broker_reset ops = Inr b \<Longrightarrow> broker_inv b"
  by (rule br.run_inv [OF broker_inv_reset])

end

end
