(* ===== verification/Broker_Props.thy ===== *)
theory Broker_Props
  imports Broker_Inv
begin

text \<open>
  What the broker promises its callers: every reachable state is explained by its event
  history, submission and cancellation are idempotent, fills conserve quantity, and the DAY
  sweep expires exactly the due orders; and where the last promise breaks.
\<close>

section \<open>Reachable states\<close>

text \<open>
  C1: In every state reached from \<open>reset\<close> the recorded events of each order replay from \<open>created\<close>
  to exactly its status, version and filled quantity, the order is well-formed, and the open
  and immediate indexes hold exactly the orders they should.
\<close>

theorem reachable_broker_matches_its_history:
  assumes "fixed_env E" "admissible (broker_step E) (broker_op_ok E) broker_reset ops"
    "fold_res (broker_step E) broker_reset ops = Inr b"
    "dget (br_orders b) oid = Some s"
  shows "order_inv (stored_fact s) \<and> ord_order_id (stored_fact s) = oid
     \<and> (oid \<in> set (br_open_order_ids b) \<longleftrightarrow> open_status (ord_status (stored_fact s)))
     \<and> (oid \<in> set (br_immediate_order_ids b) \<longleftrightarrow> open_status (ord_status (stored_fact s))
            \<and> oi_time_in_force (ord_intent (stored_fact s)) \<in> {IOC, FOK})
     \<and> (br_artifact_stream_closed b \<or> replay_events (CREATED, 0, 0) (history_of b oid)
          = Some (ord_status (stored_fact s), ord_version (stored_fact s),
                  units (ord_filled_quantity (stored_fact s))))"
proof -
  have inv: "broker_inv b" using fixed_env.broker_run_inv [OF assms(1-3)] .
  note D = broker_invD [OF inv]
  have "history_matches (history_of b oid) (Some s)" if "\<not> br_artifact_stream_closed b"
    using inv that assms(4) by (metis broker_inv_def)
  moreover have "is_open b oid \<longleftrightarrow> open_status (ord_status (stored_fact s))"
    using D(2) assms(4) open_not_terminal by (cases s) (auto simp: is_open_def)
  moreover have "is_immediate b oid \<longleftrightarrow> open_status (ord_status (stored_fact s))
            \<and> oi_time_in_force (ord_intent (stored_fact s)) \<in> {IOC, FOK}"
    using D(2) assms(4) open_not_terminal by (cases s) (auto simp: is_immediate_def)
  ultimately show ?thesis
    using D(1,2) D(3) [of oid] D(4) [of oid] assms(4) by (cases s) (auto simp: history_matches_def)
qed

section \<open>Submission\<close>

lemma require_mutable_Inr [simp]: "require_mutable b = Inr u \<longleftrightarrow> \<not> br_artifact_stream_closed b"
  by (simp add: require_mutable_def)

lemma require_mutable_open: "\<not> br_artifact_stream_closed b \<Longrightarrow> require_mutable b = Inr ()"
  by simp

text \<open>
  C3: Submitting is idempotent: the same intent again returns the same order and changes
  nothing, and another intent under the same idempotency key is refused.
\<close>

theorem submit_is_idempotent:
  assumes "dget (br_submit_keys b) (oi_idempotency_key i) = None"
    and "submit E b i = Inr (b', ord)"
  shows "ord_intent ord = i \<and> ord_status ord = ACCEPTED \<and> br_order_count b' = br_order_count b + 1
     \<and> dget (br_orders b') (ord_order_id ord) = Some (Live ord)
     \<and> submit E b' i = Inr (b', ord)
     \<and> (\<forall>j. oi_idempotency_key j = oi_idempotency_key i \<and> intent_hash E j \<noteq> intent_hash E i \<longrightarrow>
          submit E b' j = raise ''submit idempotency key reused with different intent'')"
proof -
  let ?oid = "mint_id E ''ord'' [SStr (oi_idempotency_key i), SStr (intent_hash E i)]"
  obtain filled ev b1 where o': "ord = order_fact ?oid i ACCEPTED filled 1"
    and b': "b' = record_event ev ord b1"
    and b1: "br_orders b1 = dset ?oid (Live ord) (br_orders b)" "br_order_count b1 = br_order_count b + 1"
      "br_submit_keys b1 = dset (oi_idempotency_key i) (?oid, intent_hash E i) (br_submit_keys b)"
      "br_artifact_stream_closed b1 = br_artifact_stream_closed b"
    and mut: "\<not> br_artifact_stream_closed b"
    using assms by (auto simp: submit_def Let_def)
  have stored: "dget (br_orders b') ?oid = Some (Live ord)"
    using b1(1) unfolding b' by (auto simp: record_event_def o' order_fact_def split: option.splits)
  have keys: "dget (br_submit_keys b') (oi_idempotency_key i) = Some (?oid, intent_hash E i)"
    "br_artifact_stream_closed b' = False" "br_order_count b' = br_order_count b + 1"
    using b1 mut by (simp_all add: b')
  have "require_order E b' ?oid = Inr ord" using stored by (simp add: require_order_def)
  then have "submit E b' i = Inr (b', ord)"
    using keys by (simp add: submit_def require_mutable_def Let_def)
  moreover have "submit E b' j = raise ''submit idempotency key reused with different intent''"
    if "oi_idempotency_key j = oi_idempotency_key i" "intent_hash E j \<noteq> intent_hash E i" for j
    using that keys by (auto simp: submit_def require_mutable_def Let_def)
  ultimately show ?thesis using stored keys by (simp add: o' order_fact_def)
qed

section \<open>Fills\<close>

lemma stored_is_open: "broker_inv b \<Longrightarrow> dget (br_orders b) oid = Some (Live ord) \<Longrightarrow>
    open_status (ord_status ord) \<Longrightarrow> oid \<in> set (br_open_order_ids b)"
  using broker_invD(3) by (auto simp: is_open_def)

lemma fill_guards_returns: "returns (fill_guards E f ord) \<longleftrightarrow> fill_guards E f ord = Inr ()"
  by (simp add: returns_iff)

text \<open>
  A fill with a new identifier is booked exactly when it belongs to an open order, names the
  order's account, strategy, instrument and side, uses its scale, is positive, does not
  exceed what is left and is not earlier than the order.  Nothing else can fail.
\<close>

theorem fill_is_booked_iff:
  assumes "fixed_env E" "broker_inv b" "\<not> br_artifact_stream_closed b"
    and "dget (br_fill_keys b) (fl_fill_id f) = None"
    and "dget (br_orders b) (fl_order_id f) = Some (Live ord)"
    and "returns (new_fixed E (units (ord_filled_quantity ord) + units (fl_quantity f))
                   (scale (ord_filled_quantity ord)))"
  shows "returns (apply_fill E b f False) \<longleftrightarrow> open_status (ord_status ord)
     \<and> fl_account_id f = oi_account_id (ord_intent ord) \<and> fl_strategy_id f = oi_strategy_id (ord_intent ord)
     \<and> fl_instrument_id f = oi_instrument_id (ord_intent ord) \<and> fl_side f = oi_side (ord_intent ord)
     \<and> scale (fl_quantity f) = scale (oi_quantity (ord_intent ord)) \<and> 0 < units (fl_quantity f)
     \<and> units (ord_filled_quantity ord) + units (fl_quantity f) \<le> units (oi_quantity (ord_intent ord))
     \<and> oi_created_at (ord_intent ord) \<le> fl_event_time f"
proof -
  obtain filled where n: "new_fixed E (units (ord_filled_quantity ord) + units (fl_quantity f))
                   (scale (ord_filled_quantity ord)) = Inr filled"
    using assms(6) by (auto simp: returns_iff)
  have r: "require_order E b (fl_order_id f) = Inr ord" using assms(5) by (simp add: require_order_def)
  have id: "ord_order_id ord = fl_order_id f" using broker_invD(1) [OF assms(2,5)] by simp
  have "returns (apply_fill E b f False) \<longleftrightarrow> fill_guards E f ord = Inr ()"
  proof
    assume "returns (apply_fill E b f False)"
    then obtain z where "apply_fill E b f False = Inr z" by (auto simp: returns_iff)
    then show "fill_guards E f ord = Inr ()"
      using assms(4) r by (auto simp: apply_fill_def Let_def)
  next
    assume g: "fill_guards E f ord = Inr ()"
    then have "open_status (ord_status ord)" by (simp add: fixed_env.fill_guards_Inr [OF assms(1)])
    then have "fl_order_id f \<in> set (br_open_order_ids b)" by (rule stored_is_open [OF assms(2,5)])
    then obtain b1 where c: "store_filled b f ord (filled_order f ord filled) = Inr b1"
      using id by (cases "fill_target f ord = FILLED")
        (auto simp: store_filled_def close_order_def set_remove_def)
    show "returns (apply_fill E b f False)"
      using assms(3,4) r g n c
      by (auto simp: returns_iff apply_fill_def Let_def require_mutable_def)
  qed
  then show ?thesis by (auto simp: fixed_env.fill_guards_Inr [OF assms(1)])
qed

text \<open>
  C2: A booked fill moves exactly its quantity, closes the order exactly when nothing is left,
  leaves every other order alone, and presenting it again changes nothing.
\<close>

theorem fill_conserves_quantity:
  assumes "fixed_env E" "broker_inv b" "br_artifact_sink b = None"
    and "dget (br_fill_keys b) (fl_fill_id f) = None"
    and "apply_fill E b f False = Inr (b', ev)"
  shows "\<exists>ord ord'. dget (br_orders b) (fl_order_id f) = Some (Live ord)
     \<and> dget (br_orders b') (fl_order_id f) = Some (Live ord') \<and> order_inv ord'
     \<and> ord_intent ord' = ord_intent ord
     \<and> units (ord_filled_quantity ord') = units (ord_filled_quantity ord) + units (fl_quantity f)
     \<and> (ord_status ord' = FILLED \<longleftrightarrow> units (ord_filled_quantity ord') = units (oi_quantity (ord_intent ord)))
     \<and> (\<forall>x. x \<noteq> fl_order_id f \<longrightarrow> dget (br_orders b') x = dget (br_orders b) x)
     \<and> br_events b' = br_events b @ [ev]
     \<and> apply_fill E b' f False = Inr (b', ev)
     \<and> (\<forall>g. fl_fill_id g = fl_fill_id f \<and> g \<noteq> f \<longrightarrow>
          apply_fill E b' g False = raise ''fill_id reused with different fill content'')"
proof -
  have "(if False then None else dget (br_fill_keys b) (fl_fill_id f)) = None" using assms(4) by simp
  from fixed_env.apply_fillD [OF assms(1) assms(5) this] obtain ord filled b1
    where r: "require_order E b (fl_order_id f) = Inr ord" and g: "fill_guards E f ord = Inr ()"
    and n: "new_fixed E (units (ord_filled_quantity ord) + units (fl_quantity f)) (scale (ord_filled_quantity ord)) = Inr filled"
    and c: "store_filled b f ord (filled_order f ord filled) = Inr b1"
    and ev: "ev = filled_event E f ord (filled_order f ord filled)"
    and b': "b' = (record_event ev (filled_order f ord filled) b1)\<lparr>br_fill_keys := dset (fl_fill_id f)
       (fill_entry E (record_event ev (filled_order f ord filled) b1) f ev)
       (br_fill_keys (record_event ev (filled_order f ord filled) b1))\<rparr>"
    by (auto simp: Let_def)
  let ?o = "filled_order f ord filled"
  have op: "open_status (ord_status ord)" using g by (simp add: fixed_env.fill_guards_Inr [OF assms(1)])
  note live = fixed_env.require_order_live [OF assms(1) assms(2) r op] and id = fixed_env.require_order_inv(2) [OF assms(1) assms(2) r op]
  have b1: "br_orders b1 = dset (fl_order_id f) (Live ?o) (br_orders b)" "br_events b1 = br_events b"
    "br_artifact_sink b1 = None" "br_artifact_stream_closed b1 = br_artifact_stream_closed b"
    using c id assms(3) by (auto simp: store_filled_def close_order_def split: if_splits)
  have rec: "record_event ev ?o b1 = b1\<lparr>br_events := br_events b @ [ev]\<rparr>"
    using b1 by (simp add: record_event_def)
  have mut: "\<not> br_artifact_stream_closed b" using assms(5) by (auto simp: apply_fill_def)
  have "units filled = units (ord_filled_quantity ord) + units (fl_quantity f)"
    using fixed_env.new_fixed_Inr [OF assms(1) n] by simp
  moreover have "order_inv ?o"
    using fixed_env.fill_advance [OF assms(1) fixed_env.require_order_inv(1) [OF assms(1) assms(2) r op] g n] by (simp add: order_advance_def)
  moreover have key: "dget (br_fill_keys b') (fl_fill_id f) = Some (FillFact f ev)"
    "br_artifact_stream_closed b' = False"
    using mut b1 by (simp_all add: b' rec fill_entry_def)
  moreover have "apply_fill E b' f False = Inr (b', ev)"
    using key by (simp add: apply_fill_def require_mutable_def)
  moreover have "apply_fill E b' k False = raise ''fill_id reused with different fill content''"
    if "fl_fill_id k = fl_fill_id f \<and> k \<noteq> f" for k
    using that key by (auto simp: apply_fill_def require_mutable_def)
  moreover have "dget (br_orders b') x = (if x = fl_order_id f then Some (Live ?o) else dget (br_orders b) x)"
    "br_events b' = br_events b @ [ev]" for x
    using b1 by (simp_all add: b' rec)
  moreover have "ord_intent ?o = ord_intent ord" "ord_filled_quantity ?o = filled"
    "ord_status ?o = FILLED \<longleftrightarrow> units (ord_filled_quantity ord) + units (fl_quantity f) = units (oi_quantity (ord_intent ord))"
    by (auto simp: filled_order_def order_fact_def fill_target_def)
  ultimately show ?thesis
    by (intro exI [of _ ord] exI [of _ ?o]) (simp add: live)
qed

section \<open>Cancellation\<close>

lemma transition_order_close:
  assumes "open_status (ord_status ord)" "st \<in> {CANCELLED, EXPIRED}" "ensure_utc E t = Some u"
    "oi_created_at (ord_intent ord) \<le> u" "py_strip eid \<noteq> ''''" "py_strip reason \<noteq> ''''"
  shows "transition_order E ord st eid t None reason = Inr
     (\<lparr>ord_order_id = ord_order_id ord, ord_intent = ord_intent ord, ord_status = st,
       ord_filled_quantity = ord_filled_quantity ord, ord_version = ord_version ord + 1\<rparr>,
      \<lparr>oe_event_id = py_strip eid, oe_order_id = ord_order_id ord, oe_event_time = u,
       oe_sequence = ord_version ord + 1, oe_from_status = ord_status ord, oe_to_status = st,
       oe_fill_quantity = None, oe_reason = reason\<rparr>)"
proof -
  have "utc E t = Inr u" using assms(3) by (simp add: utc_def)
  moreover have "st \<in> set (ORDER_STATUS_TRANSITIONS (ord_status ord))"
    using assms(1,2) by (auto simp: open_status_def)
  ultimately show ?thesis using assms by (auto simp: transition_order_def Let_def)
qed

definition closed_order :: "order \<Rightarrow> order_status \<Rightarrow> order" where
  "closed_order ord st = \<lparr>ord_order_id = ord_order_id ord, ord_intent = ord_intent ord, ord_status = st,
     ord_filled_quantity = ord_filled_quantity ord, ord_version = ord_version ord + 1\<rparr>"

lemma closed_order_simps [simp]:
  "ord_order_id (closed_order ord st) = ord_order_id ord"
  "ord_intent (closed_order ord st) = ord_intent ord"
  "ord_status (closed_order ord st) = st"
  "ord_filled_quantity (closed_order ord st) = ord_filled_quantity ord"
  by (simp_all add: closed_order_def)

lemma event_id_nonempty: "fixed_env E \<Longrightarrow> py_strip (mint_id E ''oev'' parts) \<noteq> []"
  by (subst fixed_env.mint_id_strip) (simp_all add: mint_id_def py_space_def)

lemma close_order_open:
  assumes "broker_inv b" "dget (br_orders b) oid = Some (Live ord)" "open_status (ord_status ord)"
  obtains b1 where "close_order b oid ord' = Inr b1"
    "br_orders b1 = dset oid (Live ord') (br_orders b)" "br_cancel_keys b1 = br_cancel_keys b"
    "br_accepted_day b1 = br_accepted_day b" "br_artifact_stream_closed b1 = br_artifact_stream_closed b"
    "br_artifact_sink b1 = br_artifact_sink b"
    "set (br_open_order_ids b1) = set (br_open_order_ids b) - {oid}"
  using stored_is_open [OF assms] by (auto simp: close_order_def set_remove_def)

lemma record_event_get:
  assumes "ord_order_id ord = oid" "br_orders b1 = dset oid (Live ord) d"
  shows "dget (br_orders (record_event ev ord b1)) x =
     (if x = oid then Some (if br_artifact_sink b1 \<noteq> None \<and> \<not> open_status (ord_status ord) then Sealed ord else Live ord)
      else dget d x)"
  using assms by (auto simp: record_event_def open_status_def split: option.splits)

text \<open>
  Every open order can be cancelled with a fresh key at any time from its creation on; the
  cancellation keeps the filled quantity, repeating the request returns the same event, and
  the key cannot be used for another order.
\<close>

theorem cancel_is_total_and_idempotent:
  assumes "fixed_env E" "broker_inv b" "\<not> br_artifact_stream_closed b"
    and "dget (br_orders b) oid = Some (Live ord)" "open_status (ord_status ord)"
    and "py_strip key \<noteq> ''''" "dget (br_cancel_keys b) key = None"
    and "ensure_utc E t = Some u" "oi_created_at (ord_intent ord) \<le> u"
  shows "\<exists>b' ev s. cancel E b oid key t = Inr (b', ev)
     \<and> dget (br_orders b') oid = Some s \<and> ord_status (stored_fact s) = CANCELLED
     \<and> ord_filled_quantity (stored_fact s) = ord_filled_quantity ord
     \<and> oid \<notin> set (br_open_order_ids b')
     \<and> (\<forall>t'. cancel E b' oid key t' = Inr (b', ev))
     \<and> (\<forall>x t'. x \<noteq> oid \<longrightarrow> cancel E b' x key t' = raise ''cancel idempotency key reused for another order'')"
proof -
  let ?eid = "mint_id E ''oev'' [SStr oid, SInt (ord_version ord + 1), SStr ''cancelled'']"
  let ?o = "closed_order ord CANCELLED"
  have eid: "py_strip ?eid \<noteq> ''''" by (rule event_id_nonempty [OF assms(1)])
  have reason: "py_strip ''cancel requested'' \<noteq> ''''" by (simp add: py_strip_def py_space_def)
  obtain ev where tr: "transition_order E ord CANCELLED ?eid t None ''cancel requested'' = Inr (?o, ev)"
    using transition_order_close [OF assms(5) _ assms(8,9) eid reason, of CANCELLED]
    by (simp add: closed_order_def)
  have id: "ord_order_id ord = oid" using broker_invD(1) [OF assms(2,4)] by simp
  obtain b1 where c: "close_order b oid ?o = Inr b1"
    and b1: "br_orders b1 = dset oid (Live ?o) (br_orders b)" "br_artifact_stream_closed b1 = br_artifact_stream_closed b"
      "set (br_open_order_ids b1) = set (br_open_order_ids b) - {oid}"
    using close_order_open [OF assms(2,4,5)] by metis
  define b' where "b' = record_event ev ?o (b1\<lparr>br_cancel_keys := dset key (oid, ev) (br_cancel_keys b1)\<rparr>)"
  have "cancel E b oid key t = Inr (b', ev)"
    using assms(3-7) tr c by (simp add: cancel_def require_mutable_def require_order_def b'_def)
  moreover have key: "dget (br_cancel_keys b') key = Some (oid, ev)" "\<not> br_artifact_stream_closed b'"
    "oid \<notin> set (br_open_order_ids b')"
    using assms(3) b1 by (simp_all add: b'_def)
  moreover obtain s where "dget (br_orders b') oid = Some s" "stored_fact s = ?o"
    using record_event_get [of ?o oid "b1\<lparr>br_cancel_keys := dset key (oid, ev) (br_cancel_keys b1)\<rparr>"
        "br_orders b" ev oid] b1(1) id
    by (auto simp: b'_def)
  moreover have "cancel E b' oid key t' = Inr (b', ev)" for t'
    using key assms(6) by (simp add: cancel_def require_mutable_def)
  moreover have "cancel E b' x key t' = raise ''cancel idempotency key reused for another order''"
    if "x \<noteq> oid" for x t'
    using key assms(6) that by (simp add: cancel_def require_mutable_def)
  ultimately show ?thesis by auto
qed

section \<open>The DAY sweep\<close>

text \<open>An order is due on a day when it is a DAY order accepted on an earlier one.\<close>

definition due :: "broker_state \<Rightarrow> day \<Rightarrow> order \<Rightarrow> bool" where
  "due b d ord \<longleftrightarrow> oi_time_in_force (ord_intent ord) = DAY
     \<and> (\<exists>a. dget (br_accepted_day b) (ord_order_id ord) = Some a \<and> a < d)"

text \<open>The sweep's effect on the store: the orders in \<open>P\<close> are expired, the others untouched.\<close>

definition swept :: "broker_state \<Rightarrow> broker_state \<Rightarrow> (string \<Rightarrow> bool) \<Rightarrow> bool" where
  "swept b b' P \<longleftrightarrow> (\<forall>x. if P x
     then \<exists>s ord. dget (br_orders b') x = Some s \<and> dget (br_orders b) x = Some (Live ord)
            \<and> stored_fact s = closed_order ord EXPIRED
     else dget (br_orders b') x = dget (br_orders b) x)"

lemma swept_none [simp]: "swept b b (\<lambda>x. False)"
  by (simp add: swept_def)

lemma swept_cong: "swept b b' P \<Longrightarrow> (\<And>x. P x = Q x) \<Longrightarrow> swept b b' Q"
  by (simp add: swept_def)

lemma swept_step:
  assumes "swept b1 b2 P" "dget (br_orders b) y = Some (Live ord)" "stored_fact s = closed_order ord EXPIRED"
    and "\<And>x. dget (br_orders b1) x = (if x = y then Some s else dget (br_orders b) x)" "\<not> P y"
  shows "swept b b2 (\<lambda>x. x = y \<or> P x)"
  unfolding swept_def
proof
  fix x
  note x = assms(1) [unfolded swept_def, rule_format, of x]
  show "if x = y \<or> P x then \<exists>s ord. dget (br_orders b2) x = Some s \<and> dget (br_orders b) x = Some (Live ord)
            \<and> stored_fact s = closed_order ord EXPIRED
     else dget (br_orders b2) x = dget (br_orders b) x"
    using x assms(2,3,5) assms(4) [of x] by (cases "x = y"; cases "P x") auto
qed

lemma expire_open:
  assumes "fixed_env E" "broker_inv b" "\<not> br_artifact_stream_closed b"
    and "dget (br_orders b) oid = Some (Live ord)" "open_status (ord_status ord)"
    and "ensure_utc E t = Some u" "oi_created_at (ord_intent ord) \<le> u" "py_strip reason \<noteq> ''''"
  obtains b' ev s where "expire E b oid t reason = Inr (b', ev)" "broker_inv b'"
    "\<not> br_artifact_stream_closed b'" "br_accepted_day b' = br_accepted_day b"
    "stored_fact s = closed_order ord EXPIRED"
    "\<And>x. dget (br_orders b') x = (if x = oid then Some s else dget (br_orders b) x)"
proof -
  let ?eid = "mint_id E ''oev'' [SStr (ord_order_id ord), SInt (ord_version ord + 1), SStr ''expired'', SStr reason]"
  let ?o = "closed_order ord EXPIRED"
  have eid: "py_strip ?eid \<noteq> ''''" by (rule event_id_nonempty [OF assms(1)])
  obtain ev where tr: "transition_order E ord EXPIRED ?eid t None reason = Inr (?o, ev)"
    using transition_order_close [OF assms(5) _ assms(6,7) eid assms(8), of EXPIRED]
    by (simp add: closed_order_def)
  have id: "ord_order_id ord = oid" using broker_invD(1) [OF assms(2,4)] by simp
  obtain b1 where c: "close_order b oid ?o = Inr b1"
    and b1: "br_orders b1 = dset oid (Live ?o) (br_orders b)" "br_artifact_stream_closed b1 = br_artifact_stream_closed b"
      "br_accepted_day b1 = br_accepted_day b"
    using close_order_open [OF assms(2,4,5)] by metis
  have e: "expire E b oid t reason = Inr (record_event ev ?o b1, ev)"
    using assms(3-5) tr c by (simp add: expire_def require_mutable_def require_order_def)
  show ?thesis
    by (rule that [OF e fixed_env.expire_inv [OF assms(1) assms(2) e],
          where s = "if br_artifact_sink b1 \<noteq> None \<and> \<not> open_status (ord_status ?o) then Sealed ?o else Live ?o"])
      (use assms(3) b1 record_event_get [OF _ b1(1), of ev] id in \<open>simp_all\<close>)
qed

lemma sweep_orders:
  assumes "fixed_env E" "ensure_utc E t = Some u"
    and "broker_inv b" "\<not> br_artifact_stream_closed b" "distinct (map ord_order_id ords)"
    and "\<And>ord. ord \<in> set ords \<Longrightarrow> dget (br_orders b) (ord_order_id ord) = Some (Live ord)
          \<and> open_status (ord_status ord) \<and> oi_created_at (ord_intent ord) \<le> u"
  shows "\<exists>b' evs'. fold_res (expire_if_due E d t) (b, evs) ords = Inr (b', evs')
     \<and> swept b b' (\<lambda>x. \<exists>ord \<in> set ords. ord_order_id ord = x \<and> due b d ord)"
  using assms(3-6)
proof (induction ords arbitrary: b evs)
  case Nil
  then show ?case by simp
next
  case (Cons o1 ords)
  have o1: "dget (br_orders b) (ord_order_id o1) = Some (Live o1)" "open_status (ord_status o1)"
    "oi_created_at (ord_intent o1) \<le> u" using Cons.prems(4) [of o1] by simp_all
  show ?case
  proof (cases "due b d o1")
    case False
    then have "expire_if_due E d t (b, evs) o1 = Inr (b, evs)"
      by (auto simp: expire_if_due_def due_def split: option.splits)
    moreover have "(\<exists>ord \<in> set (o1 # ords). ord_order_id ord = x \<and> due b d ord)
      \<longleftrightarrow> (\<exists>ord \<in> set ords. ord_order_id ord = x \<and> due b d ord)" for x
      using False by simp
    moreover have "\<exists>b' evs'. fold_res (expire_if_due E d t) (b, evs) ords = Inr (b', evs')
     \<and> swept b b' (\<lambda>x. \<exists>ord \<in> set ords. ord_order_id ord = x \<and> due b d ord)"
      by (rule Cons.IH [OF Cons.prems(1,2)]) (use Cons.prems(3,4) in simp_all)
    ultimately show ?thesis by simp
  next
    case True
    have "py_strip ''DAY session expired'' \<noteq> ''''" by (simp add: py_strip_def py_space_def)
    from expire_open [OF assms(1) Cons.prems(1,2) o1(1,2) assms(2) o1(3) this] obtain b' ev s
      where e: "expire E b (ord_order_id o1) t ''DAY session expired'' = Inr (b', ev)"
        and b': "broker_inv b'" "\<not> br_artifact_stream_closed b'" "br_accepted_day b' = br_accepted_day b"
        and s: "stored_fact s = closed_order o1 EXPIRED"
        and get: "\<And>x. dget (br_orders b') x = (if x = ord_order_id o1 then Some s else dget (br_orders b) x)"
      by metis
    have ne: "ord_order_id ord \<noteq> ord_order_id o1" if "ord \<in> set ords" for ord
    proof -
      have "ord_order_id ord \<in> ord_order_id ` set ords" "ord_order_id o1 \<notin> ord_order_id ` set ords"
        using that Cons.prems(3) by simp_all
      then show ?thesis by metis
    qed
    have step: "expire_if_due E d t (b, evs) o1 = Inr (b', evs @ [ev])"
      using True e by (auto simp: expire_if_due_def due_def)
    have "dget (br_orders b') (ord_order_id ord) = Some (Live ord)
          \<and> open_status (ord_status ord) \<and> oi_created_at (ord_intent ord) \<le> u" if "ord \<in> set ords" for ord
      using ne [OF that] Cons.prems(4) [of ord] get [of "ord_order_id ord"] that by simp
    from Cons.IH [OF b'(1,2) _ this, of "evs @ [ev]"] Cons.prems(3) obtain b2 evs2
      where f: "fold_res (expire_if_due E d t) (b', evs @ [ev]) ords = Inr (b2, evs2)"
        and P: "swept b' b2 (\<lambda>x. \<exists>ord \<in> set ords. ord_order_id ord = x \<and> due b d ord)"
      by (auto simp: due_def b'(3))
    have "swept b b2 (\<lambda>x. x = ord_order_id o1 \<or> (\<exists>ord \<in> set ords. ord_order_id ord = x \<and> due b d ord))"
      by (intro swept_step [OF P o1(1) s get]) (use ne in blast)
    then have "swept b b2 (\<lambda>x. \<exists>ord \<in> set (o1 # ords). ord_order_id ord = x \<and> due b d ord)"
      by (rule swept_cong) (use True in auto)
    then show ?thesis using step f by auto
  qed
qed

lemma map_res_all: "(\<And>x. x \<in> set xs \<Longrightarrow> f x = Inr (g x)) \<Longrightarrow> map_res f xs = Inr (map g xs)"
  by (induction xs) auto

lemma map_res_image: "map_res f xs = Inr ys \<Longrightarrow> x \<in> set xs \<Longrightarrow> f x = Inr y \<Longrightarrow> y \<in> set ys"
  by (induction xs arbitrary: ys) auto

text \<open>
  When the day index holds open orders only, the sweep never fails: it expires exactly the
  due orders, keeps what they had filled, and leaves all other orders as they are.
\<close>

theorem day_sweep_expires_exactly_the_due_orders:
  assumes "fixed_env E" "broker_inv b" "\<not> br_artifact_stream_closed b" "ensure_utc E t = Some u"
    and "\<forall>oid \<in> set (br_day_order_ids b). \<exists>ord. dget (br_orders b) oid = Some (Live ord)
          \<and> open_status (ord_status ord) \<and> oi_created_at (ord_intent ord) \<le> u"
  shows "\<exists>b' evs. expire_day_orders E b d t = Inr (b', evs)
     \<and> swept b b' (\<lambda>oid. oid \<in> set (br_day_order_ids b)
          \<and> (\<exists>ord. dget (br_orders b) oid = Some (Live ord) \<and> due b d ord))"
proof (cases "br_day_order_ids b = []")
  case True
  then show ?thesis using assms(3)
    by (auto simp: expire_day_orders_def require_mutable_def intro: swept_cong [OF swept_none])
next
  case False
  define fact where "fact = (\<lambda>oid. stored_fact (the (dget (br_orders b) oid)))"
  have fact: "dget (br_orders b) oid = Some (Live (fact oid))" "open_status (ord_status (fact oid))"
    "oi_created_at (ord_intent (fact oid)) \<le> u" "ord_order_id (fact oid) = oid"
    if "oid \<in> set (br_day_order_ids b)" for oid
    using assms(5) that broker_invD(1) [OF assms(2)] by (auto simp: fact_def)
  let ?ords = "map fact (br_day_order_ids b)"
  let ?sorted = "sort_key order_sort_key ?ords"
  have "map_res (day_order b) (br_day_order_ids b) = Inr ?ords"
    by (rule map_res_all) (simp add: day_order_def fact(1))
  then have e: "expire_day_orders E b d t = fold_res (expire_if_due E d t) (b, []) ?sorted"
    using False assms(3) by (simp add: expire_day_orders_def require_mutable_def)
  have "inj_on fact (set (br_day_order_ids b))" by (rule inj_onI) (metis fact(4))
  then have "distinct ?sorted" using broker_invD(8) [OF assms(2)] by (simp add: distinct_map)
  moreover have "inj_on ord_order_id (set ?sorted)" using fact(4) by (auto intro!: inj_onI)
  ultimately have ids: "distinct (map ord_order_id ?sorted)" by (simp only: distinct_map)
  have live: "dget (br_orders b) (ord_order_id ord) = Some (Live ord) \<and> open_status (ord_status ord)
      \<and> oi_created_at (ord_intent ord) \<le> u" if "ord \<in> set ?sorted" for ord
    using that fact by auto
  from sweep_orders [OF assms(1,4,2,3) ids live] obtain b' evs'
    where f: "fold_res (expire_if_due E d t) (b, []) ?sorted = Inr (b', evs')"
      and P: "swept b b' (\<lambda>x. \<exists>ord \<in> set ?sorted. ord_order_id ord = x \<and> due b d ord)" by blast
  have "swept b b' (\<lambda>oid. oid \<in> set (br_day_order_ids b)
          \<and> (\<exists>ord. dget (br_orders b) oid = Some (Live ord) \<and> due b d ord))"
    by (rule swept_cong [OF P]) (use fact(1,4) in auto)
  then show ?thesis using f e by auto
qed

lemma expire_keeps:
  assumes "fixed_env E" "broker_inv b" "expire E b oid t reason = Inr (b', ev)"
  shows "x \<noteq> oid \<Longrightarrow> dget (br_orders b') x = dget (br_orders b) x" "br_accepted_day b' = br_accepted_day b"
    "br_artifact_stream_closed b' = br_artifact_stream_closed b"
    "dget (br_orders b) oid = Some (Live ord) \<Longrightarrow> open_status (ord_status ord)"
proof -
  from assms(3) obtain ord' ord'' b1 eid where r: "require_order E b oid = Inr ord'" "open_status (ord_status ord')"
    and tr: "transition_order E ord' EXPIRED eid t None reason = Inr (ord'', ev)"
    and c: "close_order b oid ord'' = Inr b1" and b': "b' = record_event ev ord'' b1"
    by (auto simp: expire_def)
  have "ord_order_id ord'' = oid"
    using transition_orderD(7) [OF tr] fixed_env.require_order_inv(2) [OF assms(1) assms(2) r] by auto
  moreover have b1: "br_orders b1 = dset oid (Live ord'') (br_orders b)" "br_accepted_day b1 = br_accepted_day b"
    "br_artifact_stream_closed b1 = br_artifact_stream_closed b"
    using c by (auto simp: close_order_def)
  ultimately show "x \<noteq> oid \<Longrightarrow> dget (br_orders b') x = dget (br_orders b) x"
    using record_event_get [OF _ b1(1)] by (simp add: b')
  show "br_accepted_day b' = br_accepted_day b" "br_artifact_stream_closed b' = br_artifact_stream_closed b"
    using b1 by (simp_all add: b')
  show "dget (br_orders b) oid = Some (Live ord) \<Longrightarrow> open_status (ord_status ord)"
    using r by (simp add: require_order_def)
qed

text \<open>
  C4: The index can lose that property: \<open>note_trading_day\<close> also indexes a terminal DAY order,
  which is what the engine passes when an intent is submitted again after its order was
  closed.  Every sweep of a later day then raises.
\<close>

theorem terminal_day_order_breaks_later_sweeps:
  assumes "fixed_env E" "broker_inv b" "dget (br_orders b) oid = Some (Live ord)"
    and "oi_time_in_force (ord_intent ord) = DAY" "terminal_status (ord_status ord)"
    and "note_trading_day b oid d = Inr b'" "due b' d' ord"
  shows "\<not> returns (expire_day_orders E b' d' t)"
proof
  assume "returns (expire_day_orders E b' d' t)"
  then obtain res where res: "expire_day_orders E b' d' t = Inr res" by (auto simp: returns_iff)
  have inv: "broker_inv b'" using fixed_env.note_trading_day_inv [OF assms(1) assms(2,6)] .
  have b': "oid \<in> set (br_day_order_ids b')" "dget (br_orders b') oid = Some (Live ord)"
    using assms(3,4,6) by (auto simp: note_trading_day_def split: if_splits)
  have id: "ord_order_id ord = oid" using broker_invD(1) [OF assms(2,3)] by simp
  have closed: "\<not> open_status (ord_status ord)" using assms(5) open_not_terminal by blast
  obtain ords where m: "map_res (day_order b') (br_day_order_ids b') = Inr ords"
    and f: "fold_res (expire_if_due E d' t) (b', []) (sort_key order_sort_key ords) = Inr res"
    using res b'(1) by (auto simp: expire_day_orders_def split: if_splits)
  have "day_order b' oid = Inr ord" by (simp add: day_order_def b'(2))
  with m b'(1) have "ord \<in> set (sort_key order_sort_key ords)" by (simp add: map_res_image)
  from split_list [OF this] obtain xs ys where split: "sort_key order_sort_key ords = xs @ ord # ys" by blast
  from f obtain acc acc2 where fx: "fold_res (expire_if_due E d' t) (b', []) xs = Inr acc"
    and last: "expire_if_due E d' t acc ord = Inr acc2"
    by (auto simp: split fold_res_append)
  let ?P = "\<lambda>acc. broker_inv (fst acc) \<and> dget (br_orders (fst acc)) oid = Some (Live ord)
    \<and> br_accepted_day (fst acc) = br_accepted_day b'"
  have P: "?P acc"
  proof (rule fold_res_invariant [OF fx, where P = ?P])
    show "?P (b', [])" using inv b'(2) by simp
  next
    fix s x s' assume s: "?P s" and e: "expire_if_due E d' t s x = Inr s'"
    show "?P s'"
    proof (cases "s' = s")
      case True
      then show ?thesis using s by simp
    next
      case False
      then obtain ev where ex: "expire E (fst s) (ord_order_id x) t ''DAY session expired'' = Inr (fst s', ev)"
        using e by (auto simp: expire_if_due_def split: prod.splits if_splits)
      have "broker_inv (fst s)" using s by simp
      note K = expire_keeps [OF assms(1) this ex]
      have "ord_order_id x \<noteq> oid" using K(4) s closed by auto
      then show ?thesis using s K(1) [of oid] K(2) fixed_env.expire_inv [OF assms(1) _ ex] by simp
    qed
  qed
  then have "due (fst acc) d' ord" using assms(7) by (simp add: due_def)
  then obtain b2 ev where "expire E (fst acc) oid t ''DAY session expired'' = Inr (b2, ev)"
    using last id by (auto simp: expire_if_due_def due_def split: prod.splits)
  then show False
    using expire_keeps(4) [OF assms(1)] P closed by blast
qed

section \<open>Witnesses\<close>

text \<open>The book after the demo order was submitted, and after it was cancelled.\<close>

definition demo_oid :: string where
  "demo_oid = mint_id std_env ''ord'' [SStr ''k'', SStr (intent_hash std_env demo_intent)]"

definition demo_live :: order where
  "demo_live = order_fact demo_oid demo_intent ACCEPTED \<lparr>units = 0, scale = 0\<rparr> 1"

definition demo_book :: broker_state where
  "demo_book = broker_reset\<lparr>br_orders := [(demo_oid, Live demo_live)], br_order_count := 1,
     br_open_order_ids := [demo_oid], br_submit_keys := [(''k'', demo_oid, intent_hash std_env demo_intent)],
     br_events := [event_fact (mint_id std_env ''oev'' [SStr demo_oid, SInt 1, SStr ''accepted''])
        demo_live CREATED None None]\<rparr>"

definition demo_fill :: fill where
  "demo_fill = \<lparr>fl_fill_id = ''f1'', fl_order_id = demo_oid, fl_account_id = ''acc'', fl_strategy_id = ''s'',
     fl_instrument_id = ''X'', fl_side = BUY, fl_quantity = \<lparr>units = 4, scale = 0\<rparr>,
     fl_price = \<lparr>units = 100, scale = 0\<rparr>, fl_event_time = 7, fl_liquidity_role = TAKER, fl_venue_trade_id = None\<rparr>"

lemma std_fixed: "s \<le> 18 \<Longrightarrow> new_fixed std_env u s = Inr \<lparr>units = u, scale = s\<rparr>"
  by (simp add: new_fixed_def std_env_def of_option_def)

lemma std_utc: "ensure_utc std_env t = Some t"
  by (simp add: std_env_def)

lemma demo_submit: "submit std_env broker_reset demo_intent = Inr (demo_book, demo_live)"
  by (simp add: submit_def require_mutable_def broker_reset_def std_fixed demo_book_def demo_live_def
      demo_oid_def demo_intent_def Let_def record_event_def)

lemma demo_admissible: "admissible (broker_step std_env) (broker_op_ok std_env) broker_reset [SubmitOp demo_intent]"
  by (simp add: demo_submit fst_res_def)
     (simp add: fresh_id_def positive_intent_def broker_reset_def demo_intent_def)

lemma demo_step: "fold_res (broker_step std_env) broker_reset [SubmitOp demo_intent] = Inr demo_book"
  by (simp add: demo_submit)

lemma demo_book_inv: "broker_inv demo_book"
  using std.br.run_inv [OF broker_inv_reset demo_admissible demo_step] .

lemma demo_book_get:
  "dget (br_orders demo_book) demo_oid = Some (Live demo_live)" "\<not> br_artifact_stream_closed demo_book"
  "br_fill_keys demo_book = []" "br_cancel_keys demo_book = []" "br_artifact_sink demo_book = None"
  "br_accepted_day demo_book = []" "br_day_order_ids demo_book = []"
  by (simp_all add: demo_book_def broker_reset_def)

lemma demo_live_simps [simp]:
  "ord_order_id demo_live = demo_oid" "ord_intent demo_live = demo_intent" "ord_status demo_live = ACCEPTED"
  "ord_filled_quantity demo_live = \<lparr>units = 0, scale = 0\<rparr>" "ord_version demo_live = 1"
  by (simp_all add: demo_live_def order_fact_def)

theorem reachable_broker_matches_its_history_witness:
  "demo_oid \<in> set (br_open_order_ids demo_book)
     \<and> replay_events (CREATED, 0, 0) (history_of demo_book demo_oid) = Some (ACCEPTED, 1, 0)"
  using reachable_broker_matches_its_history
    [OF std.fixed_env_axioms demo_admissible demo_step demo_book_get(1)] demo_book_get(2)
  by (simp add: open_status_def)

theorem submit_is_idempotent_witness:
  "submit std_env demo_book demo_intent = Inr (demo_book, demo_live)"
proof -
  have "dget (br_submit_keys broker_reset) (oi_idempotency_key demo_intent) = None"
    by (simp add: broker_reset_def)
  from submit_is_idempotent [OF this demo_submit] show ?thesis by blast
qed

theorem fill_is_booked_iff_witness:
  "returns (apply_fill std_env demo_book demo_fill False)
     \<and> \<not> returns (apply_fill std_env demo_book (demo_fill\<lparr>fl_quantity := \<lparr>units = 11, scale = 0\<rparr>\<rparr>) False)"
  by (simp add: fill_is_booked_iff [OF std.fixed_env_axioms demo_book_inv demo_book_get(2) _ _, of _ demo_live]
      demo_book_get demo_fill_def std_fixed open_status_def demo_intent_def)

definition demo_filled_book :: "broker_state \<times> order_event" where
  "demo_filled_book = (let o2 = filled_order demo_fill demo_live \<lparr>units = 4, scale = 0\<rparr>;
       ev = filled_event std_env demo_fill demo_live o2 in
     (demo_book\<lparr>br_orders := [(demo_oid, Live o2)], br_events := br_events demo_book @ [ev],
        br_fill_keys := [(''f1'', FillFact demo_fill ev)]\<rparr>, ev))"

lemma demo_filled_book: "apply_fill std_env demo_book demo_fill False = Inr demo_filled_book"
proof -
  have "fill_guards std_env demo_fill demo_live = Inr ()"
    by (simp add: std.fill_guards_Inr demo_fill_def open_status_def demo_intent_def)
  moreover have "require_order std_env demo_book (fl_order_id demo_fill) = Inr demo_live"
    by (simp add: require_order_def demo_book_get demo_fill_def)
  ultimately show ?thesis
    by (simp add: apply_fill_def require_mutable_def demo_book_get std_fixed)
      (simp add: demo_filled_book_def store_filled_def fill_target_def demo_fill_def demo_intent_def
        record_event_def fill_entry_def Let_def demo_book_def broker_reset_def)
qed

theorem fill_conserves_quantity_witness:
  "apply_fill std_env (fst demo_filled_book) demo_fill False = Inr demo_filled_book"
proof -
  have "dget (br_fill_keys demo_book) (fl_fill_id demo_fill) = None" by (simp add: demo_book_get)
  from fill_conserves_quantity [OF std.fixed_env_axioms demo_book_inv demo_book_get(5) this,
      of "fst demo_filled_book" "snd demo_filled_book"] demo_filled_book
  show ?thesis by auto
qed

theorem cancel_is_total_and_idempotent_witness:
  "returns (cancel std_env demo_book demo_oid ''c1'' 9)"
proof -
  have "py_strip ''c1'' \<noteq> ''''" by (simp add: py_strip_def py_space_def)
  moreover have "open_status (ord_status demo_live)" by (simp add: open_status_def)
  ultimately show ?thesis
    using cancel_is_total_and_idempotent [OF std.fixed_env_axioms demo_book_inv demo_book_get(2,1), of "''c1''" 9 9]
    by (auto simp: demo_book_get std_utc demo_intent_def returns_iff)
qed

text \<open>The demo order noted on day 1, and swept on day 2.\<close>

definition demo_noted :: broker_state where
  "demo_noted = demo_book\<lparr>br_accepted_day := [(demo_oid, 1)], br_day_order_ids := [demo_oid]\<rparr>"

lemma demo_note: "note_trading_day demo_book demo_oid 1 = Inr demo_noted"
  by (simp add: note_trading_day_def require_mutable_def demo_book_get demo_noted_def)
     (simp add: demo_intent_def)

lemma demo_noted_inv: "broker_inv demo_noted"
  using std.note_trading_day_inv [OF demo_book_inv demo_note] .

theorem day_sweep_expires_exactly_the_due_orders_witness:
  "\<exists>b' evs s. expire_day_orders std_env demo_noted 2 30 = Inr (b', evs)
     \<and> dget (br_orders b') demo_oid = Some s \<and> ord_status (stored_fact s) = EXPIRED"
proof -
  have n: "dget (br_orders demo_noted) demo_oid = Some (Live demo_live)" "br_day_order_ids demo_noted = [demo_oid]"
    "\<not> br_artifact_stream_closed demo_noted"
    using demo_book_get by (simp_all add: demo_noted_def)
  have "\<forall>oid \<in> set (br_day_order_ids demo_noted). \<exists>ord. dget (br_orders demo_noted) oid = Some (Live ord)
          \<and> open_status (ord_status ord) \<and> oi_created_at (ord_intent ord) \<le> 30"
    using n by (simp add: open_status_def demo_intent_def)
  from day_sweep_expires_exactly_the_due_orders [OF std.fixed_env_axioms demo_noted_inv n(3) std_utc this, of 2]
  obtain b' evs where e: "expire_day_orders std_env demo_noted 2 30 = Inr (b', evs)"
    and "swept demo_noted b' (\<lambda>oid. oid \<in> set (br_day_order_ids demo_noted)
          \<and> (\<exists>ord. dget (br_orders demo_noted) oid = Some (Live ord) \<and> due demo_noted 2 ord))"
    by auto
  moreover have "due demo_noted 2 demo_live"
    by (simp add: due_def demo_noted_def demo_intent_def)
  ultimately show ?thesis using n by (auto simp: swept_def dest!: spec [of _ demo_oid])
qed

text \<open>
  The divergence on a run: submit, note the day, cancel, submit the same intent again (which
  returns the cancelled order), note the day again; the sweep of the next day raises.
\<close>

definition demo_cancelled :: "broker_state \<times> order_event" where
  "demo_cancelled = (case cancel std_env demo_noted demo_oid ''c1'' 9 of Inr r \<Rightarrow> r | Inl e \<Rightarrow> undefined)"

lemma demo_cancelled:
  "cancel std_env demo_noted demo_oid ''c1'' 9 = Inr demo_cancelled"
  "dget (br_orders (fst demo_cancelled)) demo_oid = Some (Live (closed_order demo_live CANCELLED))"
  "br_accepted_day (fst demo_cancelled) = [(demo_oid, 1)]" "\<not> br_artifact_stream_closed (fst demo_cancelled)"
proof -
  have r: "require_order std_env demo_noted demo_oid = Inr demo_live"
    by (simp add: require_order_def demo_noted_def demo_book_get)
  obtain ev where tr: "transition_order std_env demo_live CANCELLED
      (mint_id std_env ''oev'' [SStr demo_oid, SInt (ord_version demo_live + 1), SStr ''cancelled'']) 9 None
      ''cancel requested'' = Inr (closed_order demo_live CANCELLED, ev)"
    using transition_order_close [OF _ _ std_utc _ event_id_nonempty [OF std.fixed_env_axioms], of demo_live CANCELLED 9]
    by (simp add: closed_order_def open_status_def demo_intent_def py_strip_def py_space_def)
  have c: "cancel std_env demo_noted demo_oid ''c1'' 9 = Inr (demo_noted\<lparr>
      br_orders := [(demo_oid, Live (closed_order demo_live CANCELLED))], br_open_order_ids := [],
      br_day_order_ids := [], br_immediate_order_ids := [], br_cancel_keys := [(''c1'', demo_oid, ev)],
      br_events := br_events demo_noted @ [ev]\<rparr>, ev)"
    using r tr
    by (simp add: cancel_def require_mutable_def demo_noted_def demo_book_def broker_reset_def open_status_def
        close_order_def set_remove_def set_discard_def record_event_def py_strip_def py_space_def)
  then show "cancel std_env demo_noted demo_oid ''c1'' 9 = Inr demo_cancelled"
    "dget (br_orders (fst demo_cancelled)) demo_oid = Some (Live (closed_order demo_live CANCELLED))"
    "br_accepted_day (fst demo_cancelled) = [(demo_oid, 1)]" "\<not> br_artifact_stream_closed (fst demo_cancelled)"
    by (simp_all add: demo_cancelled_def demo_noted_def demo_book_def broker_reset_def)
qed

definition demo_renoted :: broker_state where
  "demo_renoted = (fst demo_cancelled)\<lparr>br_day_order_ids := List.insert demo_oid (br_day_order_ids (fst demo_cancelled))\<rparr>"

theorem terminal_day_order_breaks_later_sweeps_witness:
  "note_trading_day (fst demo_cancelled) demo_oid 1 = Inr demo_renoted
     \<and> \<not> returns (expire_day_orders std_env demo_renoted 2 30)"
proof -
  have n: "note_trading_day (fst demo_cancelled) demo_oid 1 = Inr demo_renoted"
    using demo_cancelled(2-4)
    by (simp add: note_trading_day_def require_mutable_def demo_renoted_def demo_intent_def)
  have "broker_inv (fst demo_cancelled)"
    using std.cancel_inv [OF demo_noted_inv, of demo_oid "''c1''" 9 "fst demo_cancelled" "snd demo_cancelled"]
      demo_cancelled(1) by simp
  moreover have "due demo_renoted 2 (closed_order demo_live CANCELLED)"
    using demo_cancelled(3) by (simp add: due_def demo_renoted_def demo_intent_def)
  ultimately have "\<not> returns (expire_day_orders std_env demo_renoted 2 30)"
    by (intro terminal_day_order_breaks_later_sweeps
        [OF std.fixed_env_axioms _ demo_cancelled(2) _ _ n])
      (simp_all add: terminal_status_def demo_intent_def)
  then show ?thesis using n by blast
qed

end
