(* ===== verification/Market.thy ===== *)
theory Market
  imports Broker "HOL-Library.Multiset"
begin

text \<open>
  What the engine reads of the market events of \<open>quant_data_kit\<close>, and the shared part of
  \<open>matching.py\<close> (lines 31 to 147): order priorities, the quantity an order can take, eligibility
  and the construction of a fill.
\<close>

section \<open>Market events\<close>

datatype aggressor_side = AGGRESSOR_BUY | AGGRESSOR_SELL | AGGRESSOR_UNKNOWN
datatype book_side = BID | ASK
datatype book_action = INSERT_LEVEL | UPDATE_LEVEL | DELETE_LEVEL

record bar =
  bar_open_price :: fixed_point
  bar_high_price :: fixed_point
  bar_low_price :: fixed_point
  bar_close_price :: fixed_point
  bar_volume :: fixed_point
  bar_is_complete :: bool

record quote =
  qt_bid_price :: fixed_point
  qt_ask_price :: fixed_point
  qt_bid_quantity :: fixed_point
  qt_ask_quantity :: fixed_point

record trade =
  tr_price :: fixed_point
  tr_quantity :: fixed_point
  tr_aggressor_side :: aggressor_side

record level =
  lv_price :: fixed_point
  lv_quantity :: fixed_point

record book_snapshot =
  sn_bids :: "level list"
  sn_asks :: "level list"
  sn_sequence :: int

record book_delta =
  de_action :: book_action
  de_side :: book_side
  de_price :: fixed_point
  de_quantity :: fixed_point
  de_sequence :: int
  de_previous_sequence :: int

text \<open>A funding rate is kept as the number \<open>Decimal(str(event.rate))\<close>, the only way it is read.\<close>

datatype event_body =
    BarEvent bar
  | QuoteEvent quote
  | TradeEvent trade
  | BookSnapshotEvent book_snapshot
  | BookDeltaEvent book_delta
  | MarkPriceEvent fixed_point
  | StatusEvent string
  | FundingRateEvent rat
  | OtherEvent

record market_event =
  me_event_id :: string
  me_instrument_id :: string
  me_event_time :: instant
  me_received_at :: instant
  me_available_at :: instant
  me_source :: string
  me_trading_day :: day
  me_session_id :: string
  me_sequence :: int
  me_body :: event_body

section \<open>Priorities\<close>

definition sort_orders :: "order list \<Rightarrow> order list" where
  "sort_orders orders = sort_key order_sort_key orders"

definition side_rank :: "order \<Rightarrow> int" where
  "side_rank ord = (if oi_side (ord_intent ord) = BUY then 0 else 1)"

definition price_rank :: "env \<Rightarrow> order \<Rightarrow> (int \<times> rat) res" where
  "price_rank E ord = (let i = ord_intent ord in
     if oi_order_type i \<in> {MARKET, STOP} then Inr (0, 0)
     else case oi_limit_price i of
            None \<Rightarrow> raise ''value must be a FixedPoint''
          | Some p \<Rightarrow> Inr (1, if oi_side i = BUY then dneg E (decimal E p) else decimal E p))"

text \<open>\<open>sorted\<close> computes all keys first, so an error in a key is an error of the sort.\<close>

definition sort_by_res :: "('a \<Rightarrow> ('k :: linorder) res) \<Rightarrow> 'a list \<Rightarrow> 'a list res" where
  "sort_by_res key xs = and_then (map_res (\<lambda>x. and_then (key x) (\<lambda>k. Inr (k, x))) xs)
     (\<lambda>kxs. Inr (map snd (sort_key fst kxs)))"

definition price_time_orders :: "env \<Rightarrow> order list \<Rightarrow> order list res" where
  "price_time_orders E orders = sort_by_res (\<lambda>ord. and_then (price_rank E ord) (\<lambda>(r, p).
     Inr (side_rank ord, r, p, oi_created_at (ord_intent ord), ord_order_id ord))) orders"

section \<open>Quantities\<close>

definition quantity_from_available :: "env \<Rightarrow> order \<Rightarrow> rat \<Rightarrow> fixed_point res" where
  "quantity_from_available E ord available =
     (let q = oi_quantity (ord_intent ord);
          left = units q - units (ord_filled_quantity ord) in
      and_then (if left = units q then Inr q else new_fixed E left (scale q)) (\<lambda>remaining_fp.
      let remaining = decimal E remaining_fp in
      if available \<ge> remaining then Inr remaining_fp
      else let amount = min remaining available in
           if amount \<le> 0 then new_fixed E 0 (scale q)
           else fixed E amount (scale q) (Some ROUND_DOWN)))"

definition dscaleb :: "env \<Rightarrow> rat \<Rightarrow> int \<Rightarrow> rat" where
  "dscaleb E x n = ctx_round (prec E) (x * 10 powi n)"

definition exact_units :: "env \<Rightarrow> fixed_point \<Rightarrow> nat \<Rightarrow> int res" where
  "exact_units E v s = (let scaled = dscaleb E (decimal E v) (int s) in
     if scaled \<noteq> of_int \<lfloor>scaled\<rfloor> then raise ''value cannot be represented at L2 book price scale''
     else Inr \<lfloor>scaled\<rfloor>)"

section \<open>The base model\<close>

record model_config =
  mc_instruments :: "(string, instrument_spec) dict"
  mc_latency :: int

definition mk_model_config :: "(string, instrument_spec) dict \<Rightarrow> int \<Rightarrow> model_config res" where
  "mk_model_config instruments latency = (if latency < 0 then raise ''latency cannot be negative''
     else Inr \<lparr>mc_instruments = instruments, mc_latency = latency\<rparr>)"

definition eligible :: "model_config \<Rightarrow> order \<Rightarrow> market_event \<Rightarrow> bool" where
  "eligible c ord ev \<longleftrightarrow> oi_instrument_id (ord_intent ord) = me_instrument_id ev
     \<and> me_available_at ev \<ge> oi_created_at (ord_intent ord) + mc_latency c"

definition price_tick :: "env \<Rightarrow> model_config \<Rightarrow> string \<Rightarrow> rat res" where
  "price_tick E c iid = (case dget (mc_instruments c) iid of
       None \<Rightarrow> raise ''missing InstrumentSpec''
     | Some sp \<Rightarrow> Inr (decimal E (sp_price_tick sp)))"

definition fill_id :: "env \<Rightarrow> string \<Rightarrow> string \<Rightarrow> string \<Rightarrow> nat \<Rightarrow> fixed_point \<Rightarrow> string" where
  "fill_id E model event_id order_id index price = mint_id E ''fill''
     [SStr model, SStr event_id, SStr order_id, SInt (int index), SInt (units price), SInt (int (scale price))]"

definition model_fill :: "env \<Rightarrow> string \<Rightarrow> market_event \<Rightarrow> order \<Rightarrow> fixed_point \<Rightarrow> fixed_point
     \<Rightarrow> liquidity_role \<Rightarrow> nat \<Rightarrow> fill res" where
  "model_fill E model ev ord quantity price role index =
     (if units quantity \<le> 0 then raise ''fill quantity must be a positive FixedPoint''
      else if units price \<le> 0 then raise ''fill price must be a positive FixedPoint''
      else let i = ord_intent ord in
        Inr \<lparr>fl_fill_id = fill_id E model (me_event_id ev) (ord_order_id ord) index price,
             fl_order_id = ord_order_id ord, fl_account_id = oi_account_id i,
             fl_strategy_id = oi_strategy_id i, fl_instrument_id = oi_instrument_id i,
             fl_side = oi_side i, fl_quantity = quantity, fl_price = price,
             fl_event_time = me_available_at ev, fl_liquidity_role = role,
             fl_venue_trade_id = Some (me_event_id ev)\<rparr>)"

definition order_remaining :: "order \<Rightarrow> int" where
  "order_remaining ord = units (oi_quantity (ord_intent ord)) - units (ord_filled_quantity ord)"

definition need_price :: "fixed_point option \<Rightarrow> fixed_point res" where
  "need_price p = of_option ''value must be a FixedPoint'' p"

section \<open>Facts shared by the models\<close>

lemma sort_orders_set [simp]: "set (sort_orders orders) = set orders"
  by (simp add: sort_orders_def)

lemma map_res_mset:
  "map_res (\<lambda>x. and_then (key x) (\<lambda>k. Inr (k, x))) xs = Inr kxs \<Longrightarrow> map snd kxs = xs"
  by (induction xs arbitrary: kxs) auto

lemma sort_by_res_mset: "sort_by_res key xs = Inr ys \<Longrightarrow> mset ys = mset xs"
  by (auto simp: sort_by_res_def dest: map_res_mset)

lemma sort_by_res_set: "sort_by_res key xs = Inr ys \<Longrightarrow> set ys = set xs"
  by (metis sort_by_res_mset set_mset_mset)

lemma price_time_orders_set: "price_time_orders E orders = Inr ords \<Longrightarrow> set ords = set orders"
  by (auto simp: price_time_orders_def dest: sort_by_res_set)

text \<open>What the model promises of one fill of an open order.\<close>

definition fill_for :: "market_event \<Rightarrow> model_config \<Rightarrow> order \<Rightarrow> fill \<Rightarrow> bool" where
  "fill_for ev c ord f \<longleftrightarrow> eligible c ord ev \<and> fl_order_id f = ord_order_id ord
     \<and> fl_account_id f = oi_account_id (ord_intent ord) \<and> fl_strategy_id f = oi_strategy_id (ord_intent ord)
     \<and> fl_instrument_id f = oi_instrument_id (ord_intent ord) \<and> fl_side f = oi_side (ord_intent ord)
     \<and> scale (fl_quantity f) = scale (oi_quantity (ord_intent ord)) \<and> 0 < units (fl_quantity f)
     \<and> units (fl_quantity f) \<le> order_remaining ord \<and> 0 < units (fl_price f)
     \<and> fl_event_time f = me_available_at ev"

lemma model_fill_for:
  assumes "model_fill E model ev ord q p role n = Inr f" "eligible c ord ev"
    "scale q = scale (oi_quantity (ord_intent ord))" "units q \<le> order_remaining ord"
  shows "fill_for ev c ord f" "fl_quantity f = q" "fl_price f = p"
  using assms by (auto simp: model_fill_def Let_def fill_for_def)

context fixed_env
begin

lemma remaining_quantity_Inr:
  "remaining_quantity E ord = Inr q \<Longrightarrow> q = \<lparr>units = order_remaining ord, scale = scale (oi_quantity (ord_intent ord))\<rparr>"
  by (auto simp: remaining_quantity_def order_remaining_def dest: new_fixed_Inr)

lemma quantity_from_available_facts:
  assumes "quantity_from_available E ord available = Inr q" "0 < units q"
  shows "scale q = scale (oi_quantity (ord_intent ord))" "units q \<le> order_remaining ord"
    "decimal E q \<le> available"
    "available \<ge> of_int (order_remaining ord) / 10 ^ scale (oi_quantity (ord_intent ord)) \<Longrightarrow>
       units q = order_remaining ord"
proof -
  let ?s = "scale (oi_quantity (ord_intent ord))"
  let ?q = "oi_quantity (ord_intent ord)"
  obtain r where left: "(if order_remaining ord = units ?q then Inr ?q else new_fixed E (order_remaining ord) ?s) = Inr r"
    and q: "(if available \<ge> decimal E r then Inr r
      else if min (decimal E r) available \<le> 0 then new_fixed E 0 ?s
      else fixed E (min (decimal E r) available) ?s (Some ROUND_DOWN)) = Inr q"
    using assms(1) unfolding quantity_from_available_def Let_def order_remaining_def by (simp split del: if_split) blast
  have r: "r = \<lparr>units = order_remaining ord, scale = ?s\<rparr>"
    using left new_fixed_Inr by (cases "order_remaining ord = units ?q") auto
  have dr: "decimal E r = of_int (order_remaining ord) / 10 ^ ?s" by (simp add: r decimal_value)
  have "scale q = ?s \<and> units q \<le> order_remaining ord \<and> decimal E q \<le> available
      \<and> (available \<ge> of_int (order_remaining ord) / 10 ^ ?s \<longrightarrow> units q = order_remaining ord)"
  proof (cases "available \<ge> decimal E r")
    case True
    then have "q = r" using q by simp
    then show "scale q = ?s \<and> units q \<le> order_remaining ord \<and> decimal E q \<le> available
      \<and> (available \<ge> of_int (order_remaining ord) / 10 ^ ?s \<longrightarrow> units q = order_remaining ord)"
      using True r by simp
  next
    case False
    then have "\<not> available \<le> 0"
    proof (intro notI)
      assume "available \<le> 0"
      with False have "min (decimal E r) available \<le> 0" by simp
      with q False have "new_fixed E 0 ?s = Inr q" by simp
      then show False using new_fixed_Inr assms(2) by force
    qed
    with q False have down: "fixed E available ?s (Some ROUND_DOWN) = Inr q"
      by (auto simp: min_def split: if_splits)
    have d: "q = \<lparr>units = round_down (available * 10 ^ ?s), scale = ?s\<rparr>"
      using fixed_down [OF down] by (cases q) simp
    have up: "of_int (units q) \<le> available * 10 ^ ?s"
      using \<open>\<not> available \<le> 0\<close> round_down_le [of "available * 10 ^ ?s"] d by simp
    also have "\<dots> < of_int (order_remaining ord)"
      using False by (simp add: dr not_le field_simps)
    finally have "units q < order_remaining ord" by simp
    moreover have "decimal E q \<le> available" using up d by (simp add: decimal_value field_simps)
    ultimately show "scale q = ?s \<and> units q \<le> order_remaining ord \<and> decimal E q \<le> available
      \<and> (available \<ge> of_int (order_remaining ord) / 10 ^ ?s \<longrightarrow> units q = order_remaining ord)"
      using d False dr by simp
  qed
  then show "scale q = ?s" "units q \<le> order_remaining ord" "decimal E q \<le> available"
    "available \<ge> of_int (order_remaining ord) / 10 ^ ?s \<Longrightarrow> units q = order_remaining ord"
    by simp_all
qed

end

end
