(* ===== verification/Matching_Bar.thy ===== *)
theory Matching_Bar
  imports Market
begin

text \<open>
  \<open>BarMatchingModel\<close> and \<open>TradeBBOModel\<close> of \<open>matching.py\<close> (lines 150 to 362): the conservative
  OHLC matcher and the top-of-book matcher.  Both walk the sorted open orders once, with what
  is left of the available quantity, and at most one fill per order.
\<close>

section \<open>Bars\<close>

record bar_model =
  bm_config :: model_config
  bm_participation_rate :: rat
  bm_slippage_ticks :: int
  bm_activated_stop_limits :: "string list"

definition mk_bar_model ::
  "(string, instrument_spec) dict \<Rightarrow> rat \<Rightarrow> int \<Rightarrow> int \<Rightarrow> bar_model res" where
  "mk_bar_model instruments rate slippage latency =
     and_then (mk_model_config instruments latency) (\<lambda>c.
       if \<not> (0 < rate \<and> rate \<le> 1) then raise ''participation_rate must be in (0, 1]''
       else if slippage < 0 then raise ''slippage_ticks must be a non-negative integer''
       else Inr \<lparr>bm_config = c, bm_participation_rate = rate, bm_slippage_ticks = slippage,
                 bm_activated_stop_limits = []\<rparr>)"

definition bar_reset :: "bar_model \<Rightarrow> bar_model" where
  "bar_reset m = m\<lparr>bm_activated_stop_limits := []\<rparr>"

definition bar_checkpoint_required :: "order list \<Rightarrow> bool" where
  "bar_checkpoint_required orders = list_ex (\<lambda>ord. oi_order_type (ord_intent ord) = STOP_LIMIT) orders"

text \<open>Direction-dependent comparisons: a buy stop is reached from below, a buy limit bounds from above.\<close>

definition reaches :: "side \<Rightarrow> rat \<Rightarrow> rat \<Rightarrow> bool" where
  "reaches sd price stop = (if sd = BUY then price \<ge> stop else price \<le> stop)"

definition no_worse :: "side \<Rightarrow> rat \<Rightarrow> rat \<Rightarrow> bool" where
  "no_worse sd price limit = (if sd = BUY then price \<le> limit else price \<ge> limit)"

definition touched_limit :: "env \<Rightarrow> order_intent \<Rightarrow> bar \<Rightarrow> fixed_point option res" where
  "touched_limit E i br = and_then (need_price (oi_limit_price i)) (\<lambda>p.
     Inr (if no_worse (oi_side i) (if oi_side i = BUY then decimal E (bar_low_price br)
                                   else decimal E (bar_high_price br)) (decimal E p) then Some p else None))"

definition slipped_price :: "env \<Rightarrow> bar_model \<Rightarrow> bar \<Rightarrow> side \<Rightarrow> rat \<Rightarrow> rat \<Rightarrow> fixed_point res" where
  "slipped_price E m br sd pt price =
     (let tick = dmul E pt (of_int (bm_slippage_ticks m)); direction = (if sd = BUY then 1 else -1) in
      fixed E (dadd E price (dmul E direction tick)) (scale (bar_open_price br)) (Some ROUND_HALF_EVEN))"

definition bar_triggered :: "env \<Rightarrow> bar \<Rightarrow> side \<Rightarrow> rat \<Rightarrow> bool" where
  "bar_triggered E br sd stop =
     reaches sd (if sd = BUY then decimal E (bar_high_price br) else decimal E (bar_low_price br)) stop"

text \<open>A stop-limit order not yet activated: it fills on its trigger bar only at an open through the stop.\<close>

definition bar_stop_limit_price ::
  "env \<Rightarrow> bar_model \<Rightarrow> order \<Rightarrow> bar \<Rightarrow> rat \<Rightarrow> (bar_model \<times> fixed_point option) res" where
  "bar_stop_limit_price E m ord br stop =
     (let i = ord_intent ord; open_price = decimal E (bar_open_price br) in
      if \<not> bar_triggered E br (oi_side i) stop then Inr (m, None)
      else and_then (need_price (oi_limit_price i)) (\<lambda>lp.
        Inr (m\<lparr>bm_activated_stop_limits := List.insert (ord_order_id ord) (bm_activated_stop_limits m)\<rparr>,
             if reaches (oi_side i) open_price stop \<and> no_worse (oi_side i) open_price (decimal E lp)
             then Some lp else None)))"

definition bar_execution_price ::
  "env \<Rightarrow> bar_model \<Rightarrow> order \<Rightarrow> bar \<Rightarrow> (bar_model \<times> fixed_point option) res" where
  "bar_execution_price E m ord br =
     (let i = ord_intent ord; open_price = decimal E (bar_open_price br); keep = (\<lambda>p. Inr (m, Some p)) in
      and_then (price_tick E (bm_config m) (oi_instrument_id i)) (\<lambda>pt.
      case oi_order_type i of
        MARKET \<Rightarrow> and_then (slipped_price E m br (oi_side i) pt open_price) keep
      | LIMIT \<Rightarrow> and_then (touched_limit E i br) (\<lambda>p. Inr (m, p))
      | STOP \<Rightarrow> and_then (need_price (oi_stop_price i)) (\<lambda>sp. let stop = decimal E sp in
          if \<not> bar_triggered E br (oi_side i) stop then Inr (m, None)
          else and_then (slipped_price E m br (oi_side i) pt
                 (if oi_side i = BUY then max open_price stop else min open_price stop)) keep)
      | STOP_LIMIT \<Rightarrow> and_then (need_price (oi_stop_price i)) (\<lambda>sp.
          if ord_order_id ord \<in> set (bm_activated_stop_limits m)
          then and_then (touched_limit E i br) (\<lambda>p. Inr (m, p))
          else bar_stop_limit_price E m ord br (decimal E sp))))"

text \<open>
  The part of the loop body that both matchers share: a FOK order needs all that is left of
  it, and the fill takes what is available.
\<close>

definition take_fill :: "env \<Rightarrow> string \<Rightarrow> market_event \<Rightarrow> fixed_point \<Rightarrow> liquidity_role \<Rightarrow> nat
     \<Rightarrow> order \<Rightarrow> rat \<Rightarrow> fill option res" where
  "take_fill E model ev price role n ord available =
     and_then (remaining_quantity E ord) (\<lambda>rem.
       if oi_time_in_force (ord_intent ord) = FOK \<and> decimal E rem > available then Inr None
       else and_then (quantity_from_available E ord available) (\<lambda>q.
         if units q \<le> 0 then Inr None
         else and_then (model_fill E model ev ord q price role n) (\<lambda>f. Inr (Some f))))"

fun bar_match_order ::
  "env \<Rightarrow> market_event \<Rightarrow> bar \<Rightarrow> bar_model \<times> rat \<times> fill list \<Rightarrow> order \<Rightarrow> (bar_model \<times> rat \<times> fill list) res" where
  "bar_match_order E ev br (m, capacity, fills) ord =
     (if capacity \<le> 0 \<or> \<not> eligible (bm_config m) ord ev then Inr (m, capacity, fills)
      else and_then (bar_execution_price E m ord br) (\<lambda>(m', price).
        case price of
          None \<Rightarrow> Inr (m', capacity, fills)
        | Some p \<Rightarrow> and_then (take_fill E ''bar'' ev p TAKER (length fills) ord capacity) (\<lambda>r.
            case r of
              None \<Rightarrow> Inr (m', capacity, fills)
            | Some f \<Rightarrow> Inr (m', dsub E capacity (decimal E (fl_quantity f)), fills @ [f]))))"

definition bar_match :: "env \<Rightarrow> bar_model \<Rightarrow> market_event \<Rightarrow> order list \<Rightarrow> (bar_model \<times> fill list) res" where
  "bar_match E m ev orders = (case me_body ev of
       BarEvent br \<Rightarrow>
         if \<not> bar_is_complete br \<or> orders = [] then Inr (m, [])
         else and_then (fold_res (bar_match_order E ev br)
                (m, dmul E (decimal E (bar_volume br)) (bm_participation_rate m), []) (sort_orders orders))
              (\<lambda>(m', capacity, fills). Inr (m', fills))
     | _ \<Rightarrow> Inr (m, []))"

section \<open>Trades and quotes\<close>

record bbo_model =
  bbo_config :: model_config
  bbo_quotes :: "(string, quote) dict"
  bbo_triggered_stops :: "string list"

definition mk_bbo_model :: "(string, instrument_spec) dict \<Rightarrow> int \<Rightarrow> bbo_model res" where
  "mk_bbo_model instruments latency = and_then (mk_model_config instruments latency) (\<lambda>c.
     Inr \<lparr>bbo_config = c, bbo_quotes = [], bbo_triggered_stops = []\<rparr>)"

definition bbo_reset :: "bbo_model \<Rightarrow> bbo_model" where
  "bbo_reset m = m\<lparr>bbo_quotes := [], bbo_triggered_stops := []\<rparr>"

text \<open>
  \<open>_marketable\<close> and \<open>_passive_executable\<close> differ only in the market order and in what a
  triggered stop order does.
\<close>

definition stop_or_limit :: "env \<Rightarrow> bool \<Rightarrow> bbo_model \<Rightarrow> order \<Rightarrow> rat \<Rightarrow> (bbo_model \<times> bool) res" where
  "stop_or_limit E stop_result m ord price =
     (let i = ord_intent ord; oid = ord_order_id ord;
          limit_check = (\<lambda>m. and_then (need_price (oi_limit_price i)) (\<lambda>lp.
            Inr (m, no_worse (oi_side i) price (decimal E lp)))) in
      if oi_order_type i \<in> {STOP, STOP_LIMIT}
      then and_then (need_price (oi_stop_price i)) (\<lambda>sp.
        let stop = decimal E sp;
            triggered = reaches (oi_side i) price stop;
            m' = (if triggered then m\<lparr>bbo_triggered_stops := List.insert oid (bbo_triggered_stops m)\<rparr> else m) in
        if oid \<notin> set (bbo_triggered_stops m') then Inr (m', False)
        else if oi_order_type i = STOP then Inr (m', stop_result)
        else limit_check m')
      else limit_check m)"

definition bbo_marketable :: "env \<Rightarrow> bbo_model \<Rightarrow> order \<Rightarrow> rat \<Rightarrow> (bbo_model \<times> bool) res" where
  "bbo_marketable E m ord price = (if oi_order_type (ord_intent ord) = MARKET then Inr (m, True)
     else stop_or_limit E True m ord price)"

definition bbo_passive_executable :: "env \<Rightarrow> bbo_model \<Rightarrow> order \<Rightarrow> rat \<Rightarrow> (bbo_model \<times> bool) res" where
  "bbo_passive_executable E m ord price = stop_or_limit E False m ord price"

text \<open>The loop state of \<open>_match_quote\<close>: the model, what is left at the bid and the ask, the fills.\<close>

fun quote_match_order ::
  "env \<Rightarrow> market_event \<Rightarrow> quote \<Rightarrow> bbo_model \<times> (rat \<times> rat) \<times> fill list \<Rightarrow> order
     \<Rightarrow> (bbo_model \<times> (rat \<times> rat) \<times> fill list) res" where
  "quote_match_order E ev q (m, (bid_available, ask_available), fills) ord =
     (if \<not> eligible (bbo_config m) ord ev then Inr (m, (bid_available, ask_available), fills)
      else let buy = oi_side (ord_intent ord) = BUY;
               price = (if buy then qt_ask_price q else qt_bid_price q);
               available = (if buy then ask_available else bid_available) in
        and_then (bbo_marketable E m ord (decimal E price)) (\<lambda>(m', ok).
        if \<not> ok then Inr (m', (bid_available, ask_available), fills)
        else and_then (take_fill E ''bbo'' ev price TAKER (length fills) ord available) (\<lambda>r.
          case r of
            None \<Rightarrow> Inr (m', (bid_available, ask_available), fills)
          | Some f \<Rightarrow> let left = dsub E available (decimal E (fl_quantity f)) in
              Inr (m', if buy then (bid_available, left) else (left, ask_available), fills @ [f]))))"

definition match_quote :: "env \<Rightarrow> bbo_model \<Rightarrow> market_event \<Rightarrow> quote \<Rightarrow> order list \<Rightarrow> (bbo_model \<times> fill list) res" where
  "match_quote E m ev q orders = and_then (price_time_orders E orders) (\<lambda>ords.
     and_then (fold_res (quote_match_order E ev q)
       (m, (decimal E (qt_bid_quantity q), decimal E (qt_ask_quantity q)), []) ords)
     (\<lambda>(m', left, fills). Inr (m', fills)))"

text \<open>A resting order meets only an aggressor of the other side, and not across the visible quote.\<close>

definition meets_aggressor :: "order_intent \<Rightarrow> trade \<Rightarrow> bool" where
  "meets_aggressor i t \<longleftrightarrow> \<not> (oi_side i = BUY \<and> tr_aggressor_side t \<noteq> AGGRESSOR_SELL)
     \<and> \<not> (oi_side i = SELL \<and> tr_aggressor_side t \<noteq> AGGRESSOR_BUY)"

definition check_visible :: "env \<Rightarrow> order_intent \<Rightarrow> trade \<Rightarrow> quote option \<Rightarrow> unit res" where
  "check_visible E i t visible = (case visible of None \<Rightarrow> Inr ()
     | Some q \<Rightarrow>
         if oi_side i = BUY \<and> decimal E (tr_price t) > decimal E (qt_ask_price q)
         then raise ''trade fill would cross the visible ask''
         else if oi_side i = SELL \<and> decimal E (tr_price t) < decimal E (qt_bid_price q)
         then raise ''trade fill would cross the visible bid'' else Inr ())"

fun trade_match_order ::
  "env \<Rightarrow> market_event \<Rightarrow> trade \<Rightarrow> quote option \<Rightarrow> bbo_model \<times> rat \<times> fill list \<Rightarrow> order
     \<Rightarrow> (bbo_model \<times> rat \<times> fill list) res" where
  "trade_match_order E ev t visible (m, available, fills) ord =
     (if available \<le> 0 \<or> \<not> eligible (bbo_config m) ord ev then Inr (m, available, fills)
      else if oi_order_type (ord_intent ord) = MARKET then Inr (m, available, fills)
      else if \<not> meets_aggressor (ord_intent ord) t then Inr (m, available, fills)
      else and_then (bbo_passive_executable E m ord (decimal E (tr_price t))) (\<lambda>(m', ok).
        if \<not> ok then Inr (m', available, fills)
        else and_then (check_visible E (ord_intent ord) t visible) (\<lambda>_.
          and_then (take_fill E ''trade'' ev (tr_price t) MAKER (length fills) ord available) (\<lambda>r.
          case r of
            None \<Rightarrow> Inr (m', available, fills)
          | Some f \<Rightarrow> Inr (m', dsub E available (decimal E (fl_quantity f)), fills @ [f])))))"

definition match_trade :: "env \<Rightarrow> bbo_model \<Rightarrow> market_event \<Rightarrow> trade \<Rightarrow> order list \<Rightarrow> (bbo_model \<times> fill list) res" where
  "match_trade E m ev t orders = and_then (price_time_orders E orders) (\<lambda>ords.
     and_then (fold_res (trade_match_order E ev t (dget (bbo_quotes m) (me_instrument_id ev)))
       (m, decimal E (tr_quantity t), []) ords)
     (\<lambda>(m', left, fills). Inr (m', fills)))"

definition bbo_match :: "env \<Rightarrow> bbo_model \<Rightarrow> market_event \<Rightarrow> order list \<Rightarrow> (bbo_model \<times> fill list) res" where
  "bbo_match E m ev orders = (case me_body ev of
       QuoteEvent q \<Rightarrow>
         match_quote E (m\<lparr>bbo_quotes := dset (me_instrument_id ev) q (bbo_quotes m)\<rparr>) ev q orders
     | TradeEvent t \<Rightarrow> match_trade E m ev t orders
     | _ \<Rightarrow> Inr (m, []))"

end
