(* ===== verification/Matching_Bar_Props.thy ===== *)
theory Matching_Bar_Props
  imports Matching_Bar Broker_Props
begin

text \<open>
  The contract of a matching model towards the broker as a locale, and its interpretation on
  the bar and the top-of-book model: the fills belong to eligible open orders, repeat their
  identity fields, and together never exceed what is left of an order.  The client lemma says
  that the broker books such fills without an error.
\<close>

section \<open>One fill\<close>

context fixed_env
begin

lemma take_fill_facts:
  assumes "take_fill E model ev price role n ord available = Inr (Some f)" "eligible c ord ev"
  shows "fill_for ev c ord f" "fl_price f = price" "decimal E (fl_quantity f) \<le> available"
    "oi_time_in_force (ord_intent ord) = FOK \<Longrightarrow> units (fl_quantity f) = order_remaining ord"
proof -
  from assms(1) obtain rem q where r: "remaining_quantity E ord = Inr rem"
    and fok: "\<not> (oi_time_in_force (ord_intent ord) = FOK \<and> decimal E rem > available)"
    and q: "quantity_from_available E ord available = Inr q" "\<not> units q \<le> 0"
    and f: "model_fill E model ev ord q price role n = Inr f"
    by (auto simp: take_fill_def split: if_splits)
  have pos: "0 < units q" using q(2) by simp
  note Q = quantity_from_available_facts [OF q(1) pos]
  note F = model_fill_for [OF f assms(2) Q(1,2)]
  show "fill_for ev c ord f" "fl_price f = price" by (rule F(1), rule F(3))
  show "decimal E (fl_quantity f) \<le> available" using F(2) Q(3) by simp
  have "decimal E rem = of_int (order_remaining ord) / 10 ^ scale (oi_quantity (ord_intent ord))"
    using remaining_quantity_Inr [OF r] by (simp add: decimal_value)
  then show "oi_time_in_force (ord_intent ord) = FOK \<Longrightarrow> units (fl_quantity f) = order_remaining ord"
    using fok Q(4) F(2) by simp
qed

end

section \<open>The contract\<close>

definition filled_units :: "fill list \<Rightarrow> string \<Rightarrow> int" where
  "filled_units fills oid = sum_list (map (\<lambda>f. units (fl_quantity f)) (filter (\<lambda>f. fl_order_id f = oid) fills))"

lemma filled_units_simps [simp]:
  "filled_units [] oid = 0"
  "filled_units (f # fills) oid = (if fl_order_id f = oid then units (fl_quantity f) else 0) + filled_units fills oid"
  "filled_units (fs @ gs) oid = filled_units fs oid + filled_units gs oid"
  by (simp_all add: filled_units_def)

text \<open>
  The orders a model is given are the broker's: well-formed, open, with distinct identifiers.
  A model may restrict the orders it handles exactly (\<open>accepts\<close>).
\<close>

definition offered :: "order list \<Rightarrow> bool" where
  "offered orders \<longleftrightarrow> distinct (map ord_order_id orders)
     \<and> (\<forall>ord \<in> set orders. order_inv ord \<and> open_status (ord_status ord))"

locale matching_model =
  fixes match :: "'m \<Rightarrow> market_event \<Rightarrow> order list \<Rightarrow> ('m \<times> fill list) res"
    and config :: "'m \<Rightarrow> model_config"
    and accepts :: "order \<Rightarrow> bool"
  assumes config_kept: "match m ev orders = Inr (m', fills) \<Longrightarrow> offered orders \<Longrightarrow> Ball (set orders) accepts \<Longrightarrow> config m' = config m"
    and fills_sound: "match m ev orders = Inr (m', fills) \<Longrightarrow> offered orders \<Longrightarrow> Ball (set orders) accepts \<Longrightarrow> f \<in> set fills \<Longrightarrow>
           \<exists>ord \<in> set orders. fill_for ev (config m) ord f"
    and fills_within: "match m ev orders = Inr (m', fills) \<Longrightarrow> offered orders \<Longrightarrow> Ball (set orders) accepts \<Longrightarrow> ord \<in> set orders \<Longrightarrow>
           filled_units fills (ord_order_id ord) \<le> order_remaining ord"

section \<open>The client: booking the fills\<close>

definition book_fill :: "env \<Rightarrow> broker_state \<Rightarrow> fill \<Rightarrow> broker_state res" where
  "book_fill E b f = and_then (apply_fill E b f True) (\<lambda>(b', ev). Inr b')"

definition fill_matches :: "fill \<Rightarrow> order_intent \<Rightarrow> bool" where
  "fill_matches f i \<longleftrightarrow> fl_account_id f = oi_account_id i \<and> fl_strategy_id f = oi_strategy_id i
     \<and> fl_instrument_id f = oi_instrument_id i \<and> fl_side f = oi_side i
     \<and> scale (fl_quantity f) = scale (oi_quantity i) \<and> 0 < units (fl_quantity f)
     \<and> oi_created_at i \<le> fl_event_time f"

text \<open>Every fill still to be booked belongs to an open order that has enough left for all of them.\<close>

definition bookable :: "broker_state \<Rightarrow> fill list \<Rightarrow> bool" where
  "bookable b fills \<longleftrightarrow> (\<forall>f \<in> set fills. \<exists>ord. dget (br_orders b) (fl_order_id f) = Some (Live ord)
     \<and> open_status (ord_status ord) \<and> fill_matches f (ord_intent ord)
     \<and> filled_units fills (fl_order_id f) \<le> order_remaining ord)"

lemma filled_units_nonneg: "(\<And>f. f \<in> set fills \<Longrightarrow> 0 < units (fl_quantity f)) \<Longrightarrow> 0 \<le> filled_units fills oid"
  by (induction fills) (auto simp: less_imp_le intro!: add_nonneg_nonneg)

lemma filled_units_member:
  "f \<in> set fills \<Longrightarrow> (\<And>f. f \<in> set fills \<Longrightarrow> 0 < units (fl_quantity f)) \<Longrightarrow>
     units (fl_quantity f) \<le> filled_units fills (fl_order_id f)"
proof (induction fills)
  case Nil
  then show ?case by simp
next
  case (Cons g fills)
  have "0 \<le> filled_units fills (fl_order_id f)" using Cons.prems(2) by (intro filled_units_nonneg) simp
  then show ?case using Cons.IH Cons.prems by (fastforce simp: less_imp_le)
qed

lemma bookable_pos: "bookable b fills \<Longrightarrow> f \<in> set fills \<Longrightarrow> 0 < units (fl_quantity f)"
  by (auto simp: bookable_def fill_matches_def)

context fixed_env
begin

lemma apply_fill_effect:
  assumes inv: "broker_inv b" and mut: "\<not> br_artifact_stream_closed b"
    and live: "dget (br_orders b) (fl_order_id f) = Some (Live ord)" and g: "fill_guards E f ord = Inr ()"
    and n: "new_fixed E (units (ord_filled_quantity ord) + units (fl_quantity f)) (scale (ord_filled_quantity ord)) = Inr filled"
  obtains b' ev s where "apply_fill E b f True = Inr (b', ev)" "broker_inv b'" "\<not> br_artifact_stream_closed b'"
    "\<And>x. dget (br_orders b') x = (if x = fl_order_id f then Some s else dget (br_orders b) x)"
    "stored_fact s = filled_order f ord filled" "fill_target f ord \<noteq> FILLED \<Longrightarrow> s = Live (filled_order f ord filled)"
proof -
  let ?o = "filled_order f ord filled" and ?ev = "filled_event E f ord (filled_order f ord filled)"
  have op: "open_status (ord_status ord)" using g by (simp add: fill_guards_Inr)
  have id: "ord_order_id ord = fl_order_id f" using broker_invD(1) [OF inv live] by simp
  obtain b1 where c: "store_filled b f ord ?o = Inr b1"
    and b1: "br_orders b1 = dset (fl_order_id f) (Live ?o) (br_orders b)"
      "br_artifact_stream_closed b1 = br_artifact_stream_closed b"
  proof (cases "fill_target f ord = FILLED")
    case True
    then show ?thesis using close_order_open [OF inv live op] that id by (metis store_filled_def)
  next
    case False
    then show ?thesis using that [OF _ _ _] id by (simp add: store_filled_def)
  qed
  have a: "apply_fill E b f True = Inr (record_event ?ev ?o b1, ?ev)"
    using mut live g n c by (simp add: apply_fill_def require_mutable_def require_order_def Let_def)
  show ?thesis
  proof (rule that [OF a apply_fill_inv [OF inv a],
      where s = "if br_artifact_sink b1 \<noteq> None \<and> \<not> open_status (ord_status ?o) then Sealed ?o else Live ?o"])
    show "\<not> br_artifact_stream_closed (record_event ?ev ?o b1)" using mut b1 by simp
    have "ord_order_id ?o = fl_order_id f" using id by (simp add: filled_order_def order_fact_def)
    from record_event_get [OF this b1(1)]
    show "dget (br_orders (record_event ?ev ?o b1)) x = (if x = fl_order_id f
        then Some (if br_artifact_sink b1 \<noteq> None \<and> \<not> open_status (ord_status ?o) then Sealed ?o else Live ?o)
        else dget (br_orders b) x)" for x .
    show "fill_target f ord \<noteq> FILLED \<Longrightarrow> (if br_artifact_sink b1 \<noteq> None \<and> \<not> open_status (ord_status ?o)
        then Sealed ?o else Live ?o) = Live ?o"
      by (auto simp: filled_order_def order_fact_def fill_target_def open_status_def split: if_splits)
  qed simp
qed

lemma bookable_step:
  assumes inv: "broker_inv b" and mut: "\<not> br_artifact_stream_closed b" and bk: "bookable b (f # fills)"
    and room: "\<forall>u s. s = scale (fl_quantity f) \<longrightarrow> returns (new_fixed E u s)"
  obtains b' where "book_fill E b f = Inr b'" "broker_inv b'" "\<not> br_artifact_stream_closed b'" "bookable b' fills"
proof -
  from bk obtain ord where live: "dget (br_orders b) (fl_order_id f) = Some (Live ord)"
    and op: "open_status (ord_status ord)" and m: "fill_matches f (ord_intent ord)"
    and w: "filled_units (f # fills) (fl_order_id f) \<le> order_remaining ord"
    by (auto simp: bookable_def)
  have pos: "\<And>g. g \<in> set fills \<Longrightarrow> 0 < units (fl_quantity g)" using bookable_pos [OF bk] by simp
  have rest: "units (fl_quantity f) + filled_units fills (fl_order_id f) \<le> order_remaining ord" using w by simp
  have nn: "0 \<le> filled_units fills (fl_order_id f)" using pos by (rule filled_units_nonneg)
  have g: "fill_guards E f ord = Inr ()"
    using op m rest nn by (simp add: fill_guards_Inr fill_matches_def order_remaining_def)
  have oi: "order_inv ord" using broker_invD(1) [OF inv live] by simp
  then have "scale (ord_filled_quantity ord) = scale (fl_quantity f)"
    using m by (simp add: order_inv_def Let_def fill_matches_def)
  then obtain filled where n: "new_fixed E (units (ord_filled_quantity ord) + units (fl_quantity f))
      (scale (ord_filled_quantity ord)) = Inr filled"
    using room by (metis returns_iff)
  from apply_fill_effect [OF inv mut live g n] obtain b' ev s
    where a: "apply_fill E b f True = Inr (b', ev)" and b': "broker_inv b'" "\<not> br_artifact_stream_closed b'"
    and get: "\<And>x. dget (br_orders b') x = (if x = fl_order_id f then Some s else dget (br_orders b) x)"
    and s: "fill_target f ord \<noteq> FILLED \<Longrightarrow> s = Live (filled_order f ord filled)"
    by metis
  have u: "order_remaining (filled_order f ord filled) = order_remaining ord - units (fl_quantity f)"
    "ord_intent (filled_order f ord filled) = ord_intent ord"
    "ord_status (filled_order f ord filled) = fill_target f ord"
    using new_fixed_Inr [OF n] by (simp_all add: filled_order_def order_fact_def order_remaining_def)
  have "bookable b' fills"
    unfolding bookable_def
  proof
    fix h assume h: "h \<in> set fills"
    from bk h obtain o2 where o2: "dget (br_orders b) (fl_order_id h) = Some (Live o2)"
      "open_status (ord_status o2)" "fill_matches h (ord_intent o2)"
      "filled_units (f # fills) (fl_order_id h) \<le> order_remaining o2"
      unfolding bookable_def by (metis list.set_intros(2))
    show "\<exists>ord. dget (br_orders b') (fl_order_id h) = Some (Live ord) \<and> open_status (ord_status ord)
        \<and> fill_matches h (ord_intent ord) \<and> filled_units fills (fl_order_id h) \<le> order_remaining ord"
    proof (cases "fl_order_id h = fl_order_id f")
      case False
      then show ?thesis using o2 get by auto
    next
      case True
      then have same: "o2 = ord" using o2(1) live by simp
      have "0 < units (fl_quantity h)" "units (fl_quantity h) \<le> filled_units fills (fl_order_id h)"
        using pos h by (auto intro: filled_units_member)
      then have "fill_target f ord = PARTIALLY_FILLED"
        using rest True by (simp add: fill_target_def order_remaining_def)
      then have "dget (br_orders b') (fl_order_id h) = Some (Live (filled_order f ord filled))"
        "open_status (ord_status (filled_order f ord filled))"
        using get True s u(3) by (simp_all add: open_status_def)
      then show ?thesis using u rest True o2(3) same by auto
    qed
  qed
  moreover have "book_fill E b f = Inr b'" using a by (simp add: book_fill_def)
  ultimately show ?thesis using b' that by blast
qed

lemma bookable_fills_are_booked:
  assumes "broker_inv b" "\<not> br_artifact_stream_closed b" "bookable b fills"
    and "\<forall>f \<in> set fills. \<forall>u. returns (new_fixed E u (scale (fl_quantity f)))"
  shows "\<exists>b'. fold_res (book_fill E) b fills = Inr b' \<and> broker_inv b'"
  using assms
proof (induction fills arbitrary: b)
  case Nil
  then show ?case by simp
next
  case (Cons f fills)
  from bookable_step [OF Cons.prems(1-3)] Cons.prems(4) obtain b'
    where "book_fill E b f = Inr b'" "broker_inv b'" "\<not> br_artifact_stream_closed b'" "bookable b' fills"
    by auto
  then show ?case using Cons.IH [of b'] Cons.prems(4) by auto
qed

end

locale broker_matching = fixed_env E + matching_model match config accepts
  for E :: env and match :: "'m \<Rightarrow> market_event \<Rightarrow> order list \<Rightarrow> ('m \<times> fill list) res"
    and config :: "'m \<Rightarrow> model_config" and accepts :: "order \<Rightarrow> bool"
begin

lemma matched_fills_are_booked:
  assumes inv: "broker_inv b" "\<not> br_artifact_stream_closed b"
    and live: "\<forall>ord \<in> set orders. dget (br_orders b) (ord_order_id ord) = Some (Live ord)
         \<and> open_status (ord_status ord)"
    and d: "distinct (map ord_order_id orders)" and lat: "0 \<le> mc_latency (config m)"
    and room: "\<forall>ord \<in> set orders. \<forall>u. returns (new_fixed E u (scale (oi_quantity (ord_intent ord))))"
    and acc: "Ball (set orders) accepts"
    and run: "match m ev orders = Inr (m', fills)"
  shows "\<exists>b'. fold_res (book_fill E) b fills = Inr b' \<and> broker_inv b'"
proof -
  have off: "offered orders" using live d broker_invD(1) [OF inv(1)] by (auto simp: offered_def)
  have each: "\<exists>ord \<in> set orders. fl_order_id f = ord_order_id ord \<and> fill_matches f (ord_intent ord)"
    if "f \<in> set fills" for f
    using fills_sound [OF run off acc that] lat by (fastforce simp: fill_for_def fill_matches_def eligible_def)
  have "bookable b fills"
    unfolding bookable_def
  proof
    fix f assume "f \<in> set fills"
    from each [OF this] obtain ord where ord: "ord \<in> set orders" "fl_order_id f = ord_order_id ord"
      "fill_matches f (ord_intent ord)" by blast
    show "\<exists>ord. dget (br_orders b) (fl_order_id f) = Some (Live ord) \<and> open_status (ord_status ord)
        \<and> fill_matches f (ord_intent ord) \<and> filled_units fills (fl_order_id f) \<le> order_remaining ord"
      using ord live fills_within [OF run off acc ord(1)] by auto
  qed
  moreover have "\<forall>f \<in> set fills. \<forall>u. returns (new_fixed E u (scale (fl_quantity f)))"
    using each room by (fastforce simp: fill_matches_def)
  ultimately show ?thesis by (rule bookable_fills_are_booked [OF inv])
qed

end

section \<open>At most one fill per order\<close>

text \<open>
  The state of a walk over the sorted orders: the fills so far belong to different orders
  already visited, and \<open>ok\<close> holds of each of them.
\<close>

definition walked :: "market_event \<Rightarrow> model_config \<Rightarrow> (order \<Rightarrow> fill \<Rightarrow> bool) \<Rightarrow> order list \<Rightarrow> fill list \<Rightarrow> bool" where
  "walked ev c ok seen fills \<longleftrightarrow> distinct (map fl_order_id fills)
     \<and> (\<forall>f \<in> set fills. \<exists>ord \<in> set seen. fill_for ev c ord f \<and> ok ord f)"

lemma walked_nil [simp]: "walked ev c ok seen []"
  by (simp add: walked_def)

lemma walked_skip: "walked ev c ok seen fills \<Longrightarrow> walked ev c ok (seen @ [ord]) fills"
  by (auto simp: walked_def)

lemma walked_fill:
  assumes "walked ev c ok seen fills" "fill_for ev c ord f" "ok ord f"
    and "ord_order_id ord \<notin> ord_order_id ` set seen"
  shows "walked ev c ok (seen @ [ord]) (fills @ [f])"
proof -
  have "fl_order_id f \<notin> fl_order_id ` set fills"
  proof
    assume "fl_order_id f \<in> fl_order_id ` set fills"
    then obtain g where g: "g \<in> set fills" "fl_order_id f = fl_order_id g" by blast
    then obtain o2 where o2: "o2 \<in> set seen" "fl_order_id g = ord_order_id o2"
      using assms(1) by (auto simp: walked_def fill_for_def)
    then have "ord_order_id o2 = ord_order_id ord"
      using g(2) assms(2) by (simp add: fill_for_def)
    then show False using assms(4) o2(1) by (metis imageI)
  qed
  then show ?thesis using assms by (auto simp: walked_def)
qed

lemma walked_within:
  assumes "walked ev c ok orders fills" "distinct (map ord_order_id orders)" "ord \<in> set orders"
    and "0 \<le> order_remaining ord"
  shows "filled_units fills (ord_order_id ord) \<le> order_remaining ord"
proof (cases "\<exists>f \<in> set fills. fl_order_id f = ord_order_id ord")
  case False
  then have "filled_units fills (ord_order_id ord) = 0" by (simp add: filled_units_def filter_False)
  then show ?thesis using assms(4) by simp
next
  case True
  then obtain f where f: "f \<in> set fills" "fl_order_id f = ord_order_id ord" by blast
  from split_list [OF f(1)] obtain xs ys where split: "fills = xs @ f # ys" by blast
  have "fl_order_id f \<notin> fl_order_id ` set xs" "fl_order_id f \<notin> fl_order_id ` set ys"
    using assms(1) by (simp_all add: walked_def split)
  then have "\<forall>g \<in> set xs. fl_order_id g \<noteq> fl_order_id f" "\<forall>g \<in> set ys. fl_order_id g \<noteq> fl_order_id f"
    by (metis imageI)+
  then have "filled_units xs (fl_order_id f) = 0" "filled_units ys (fl_order_id f) = 0"
    by (simp_all add: filled_units_def filter_False)
  then have u: "filled_units fills (ord_order_id ord) = units (fl_quantity f)"
    using f(2) by (simp add: split)
  from assms(1) f(1) obtain o2 where o2: "o2 \<in> set orders" "fill_for ev c o2 f" by (auto simp: walked_def)
  then have "ord_order_id o2 = ord_order_id ord" using f(2) by (simp add: fill_for_def)
  then have "o2 = ord" using o2(1) assms(2,3) by (metis distinct_map inj_onD)
  then show ?thesis using u o2(2) by (simp add: fill_for_def)
qed

lemma order_inv_remaining: "order_inv ord \<Longrightarrow> 0 \<le> order_remaining ord"
  by (simp add: order_inv_def Let_def order_remaining_def)

lemma distinct_ids_sort: "distinct (map ord_order_id orders) \<Longrightarrow> mset ords = mset orders \<Longrightarrow> distinct (map ord_order_id ords)"
  using mset_eq_imp_distinct_iff [of "map ord_order_id ords" "map ord_order_id orders"] by simp

lemma fresh_in_walk:
  "distinct (map ord_order_id (ys @ x # zs)) \<Longrightarrow> ord_order_id x \<notin> ord_order_id ` set ys"
  by simp

section \<open>The bar model\<close>

text \<open>What a bar must show for an order to fill at its price.\<close>

definition bar_fill_ok :: "env \<Rightarrow> string list \<Rightarrow> bar \<Rightarrow> order \<Rightarrow> fill \<Rightarrow> bool" where
  "bar_fill_ok E activated br ord f \<longleftrightarrow>
     (let i = ord_intent ord; sd = oi_side i; early = ord_order_id ord \<notin> set activated in
      (oi_time_in_force i = FOK \<longrightarrow> units (fl_quantity f) = order_remaining ord)
      \<and> (oi_order_type i \<in> {LIMIT, STOP_LIMIT} \<longrightarrow> oi_limit_price i = Some (fl_price f))
      \<and> (oi_order_type i = LIMIT \<longrightarrow> touched_limit E i br = Inr (Some (fl_price f)))
      \<and> (oi_order_type i = STOP \<or> oi_order_type i = STOP_LIMIT \<and> early \<longrightarrow>
           (\<exists>sp. oi_stop_price i = Some sp \<and> bar_triggered E br sd (decimal E sp)))
      \<and> (oi_order_type i = STOP_LIMIT \<and> early \<longrightarrow>
           (\<exists>sp. oi_stop_price i = Some sp \<and> reaches sd (decimal E (bar_open_price br)) (decimal E sp)
              \<and> no_worse sd (decimal E (bar_open_price br)) (decimal E (fl_price f)))))"

lemma touched_limit_Some: "touched_limit E i br = Inr (Some p) \<Longrightarrow> oi_limit_price i = Some p"
  by (auto simp: touched_limit_def need_price_def split: if_splits)

lemma bar_stop_limit_keeps:
  assumes "bar_stop_limit_price E m ord br stop = Inr (m', p)"
  shows "bm_config m' = bm_config m \<and> set (bm_activated_stop_limits m) \<subseteq> set (bm_activated_stop_limits m')
    \<and> set (bm_activated_stop_limits m') \<subseteq> insert (ord_order_id ord) (set (bm_activated_stop_limits m))"
  using assms by (auto simp: bar_stop_limit_price_def Let_def split: if_splits)

lemma bar_execution_price_keeps:
  assumes "bar_execution_price E m ord br = Inr (m', p)"
  shows "bm_config m' = bm_config m \<and> set (bm_activated_stop_limits m) \<subseteq> set (bm_activated_stop_limits m')
    \<and> set (bm_activated_stop_limits m') \<subseteq> insert (ord_order_id ord) (set (bm_activated_stop_limits m))"
  using assms by (cases "oi_order_type (ord_intent ord)")
    (auto simp: bar_execution_price_def Let_def split: if_splits dest: bar_stop_limit_keeps)

lemma bar_execution_price_ok:
  assumes "bar_execution_price E m ord br = Inr (m', Some p)" "fl_price f = p"
    and fok: "oi_time_in_force (ord_intent ord) = FOK \<longrightarrow> units (fl_quantity f) = order_remaining ord"
  shows "bar_fill_ok E (bm_activated_stop_limits m) br ord f"
proof (cases "oi_order_type (ord_intent ord)")
  case LIMIT
  then have "touched_limit E (ord_intent ord) br = Inr (Some p)"
    using assms(1) by (auto simp: bar_execution_price_def Let_def)
  then show ?thesis using touched_limit_Some LIMIT assms(2) fok by (simp add: bar_fill_ok_def)
next
  case STOP_LIMIT
  then obtain sp where sp: "oi_stop_price (ord_intent ord) = Some sp"
    and r: "(if ord_order_id ord \<in> set (bm_activated_stop_limits m)
       then and_then (touched_limit E (ord_intent ord) br) (\<lambda>p. Inr (m, p))
       else bar_stop_limit_price E m ord br (decimal E sp)) = Inr (m', Some p)"
    using assms(1) by (auto simp: bar_execution_price_def Let_def need_price_def split del: if_split)
  show ?thesis
  proof (cases "ord_order_id ord \<in> set (bm_activated_stop_limits m)")
    case True
    then have "touched_limit E (ord_intent ord) br = Inr (Some p)" using r by auto
    then show ?thesis using touched_limit_Some STOP_LIMIT True assms(2) fok by (simp add: bar_fill_ok_def)
  next
    case False
    then have "bar_stop_limit_price E m ord br (decimal E sp) = Inr (m', Some p)" using r by simp
    then show ?thesis using STOP_LIMIT sp False assms(2) fok
      by (auto simp: bar_fill_ok_def bar_stop_limit_price_def Let_def need_price_def split: if_splits)
  qed
next
  case MARKET
  then show ?thesis using fok by (simp add: bar_fill_ok_def Let_def)
next
  case STOP
  then show ?thesis using assms(1) fok
    by (auto simp: bar_execution_price_def Let_def need_price_def bar_fill_ok_def split: if_splits)
qed

lemma bar_fill_ok_activated:
  "bar_fill_ok E act' br ord f \<Longrightarrow> (ord_order_id ord \<in> set act' \<longleftrightarrow> ord_order_id ord \<in> set act) \<Longrightarrow>
     bar_fill_ok E act br ord f"
  by (simp add: bar_fill_ok_def)

definition bar_walk :: "env \<Rightarrow> market_event \<Rightarrow> bar \<Rightarrow> bar_model \<Rightarrow> order list \<Rightarrow> bar_model \<times> rat \<times> fill list \<Rightarrow> bool" where
  "bar_walk E ev br m seen s \<longleftrightarrow> (case s of (m', capacity, fills) \<Rightarrow>
     bm_config m' = bm_config m
     \<and> set (bm_activated_stop_limits m) \<subseteq> set (bm_activated_stop_limits m')
     \<and> set (bm_activated_stop_limits m') \<subseteq> set (bm_activated_stop_limits m) \<union> ord_order_id ` set seen
     \<and> walked ev (bm_config m) (bar_fill_ok E (bm_activated_stop_limits m) br) seen fills)"

context fixed_env
begin

lemma bar_match_order_cases:
  assumes "bar_match_order E ev br (m, capacity, fills) ord = Inr (m', capacity', fills')"
  shows "(m', capacity', fills') = (m, capacity, fills)
    \<or> 0 < capacity \<and> eligible (bm_config m) ord ev \<and>
       (\<exists>price. bar_execution_price E m ord br = Inr (m', price) \<and>
         (capacity' = capacity \<and> fills' = fills
          \<or> (\<exists>p f. price = Some p \<and> take_fill E ''bar'' ev p TAKER (length fills) ord capacity = Inr (Some f)
               \<and> capacity' = dsub E capacity (decimal E (fl_quantity f)) \<and> fills' = fills @ [f])))"
  using assms by (auto split: if_splits option.splits)

lemma bar_walk_step:
  assumes d: "distinct (map ord_order_id (seen @ ord # rest))"
    and w: "bar_walk E ev br m seen s" and st: "bar_match_order E ev br s ord = Inr s'"
  shows "bar_walk E ev br m (seen @ [ord]) s'"
proof -
  obtain m1 c1 f1 m2 c2 f2 where s: "s = (m1, c1, f1)" "s' = (m2, c2, f2)" by (metis prod_cases3)
  note W = w [unfolded bar_walk_def s prod.case]
  note fresh = fresh_in_walk [OF d]
  from bar_match_order_cases [OF st [unfolded s]]
  consider "(m2, c2, f2) = (m1, c1, f1)"
    | price where "bar_execution_price E m1 ord br = Inr (m2, price)" "f2 = f1"
    | p f where "eligible (bm_config m1) ord ev" "bar_execution_price E m1 ord br = Inr (m2, Some p)"
        "take_fill E ''bar'' ev p TAKER (length f1) ord c1 = Inr (Some f)" "f2 = f1 @ [f]"
    by blast
  then show ?thesis
  proof cases
    case 1
    then show ?thesis using W walked_skip by (auto simp: bar_walk_def s)
  next
    case 2
    then show ?thesis using W walked_skip bar_execution_price_keeps [OF 2(1)] by (auto simp: bar_walk_def s)
  next
    case 3
    have el: "eligible (bm_config m) ord ev" using 3(1) W by simp
    note T = take_fill_facts [OF 3(3) el]
    have "ord_order_id ord \<in> set (bm_activated_stop_limits m1) \<longleftrightarrow> ord_order_id ord \<in> set (bm_activated_stop_limits m)"
      using W fresh by blast
    then have "bar_fill_ok E (bm_activated_stop_limits m) br ord f"
      using bar_execution_price_ok [OF 3(2) T(2)] T(4) bar_fill_ok_activated by blast
    then have "walked ev (bm_config m) (bar_fill_ok E (bm_activated_stop_limits m) br) (seen @ [ord]) (f1 @ [f])"
      using W by (intro walked_fill [OF _ T(1) _ fresh]) auto
    then show ?thesis using W bar_execution_price_keeps [OF 3(2)] 3(4) by (auto simp: bar_walk_def s)
  qed
qed

lemma bar_match_fold:
  assumes "bar_match E m ev orders = Inr (m', fills)"
  obtains "m' = m" "fills = []"
    | br capacity where "me_body ev = BarEvent br" "fold_res (bar_match_order E ev br)
      (m, dmul E (decimal E (bar_volume br)) (bm_participation_rate m), []) (sort_orders orders) = Inr (m', capacity, fills)"
proof (cases "\<exists>br. me_body ev = BarEvent br \<and> bar_is_complete br \<and> orders \<noteq> []")
  case False
  then show ?thesis using assms that(1) by (auto simp: bar_match_def split: event_body.splits if_splits)
next
  case True
  then show ?thesis using assms that(2) by (auto simp: bar_match_def)
qed

lemma bar_match_walk:
  assumes "bar_match E m ev orders = Inr (m', fills)" "distinct (map ord_order_id orders)"
  shows "me_body ev = BarEvent br \<Longrightarrow> bar_walk E ev br m orders (m', 0, fills)"
    "(\<And>br. me_body ev \<noteq> BarEvent br) \<Longrightarrow> fills = []"
proof -
  have d: "distinct (map ord_order_id (sort_orders orders))"
    by (rule distinct_ids_sort [OF assms(2)]) (simp add: sort_orders_def)
  show "me_body ev = BarEvent br \<Longrightarrow> bar_walk E ev br m orders (m', 0, fills)"
  proof (rule bar_match_fold [OF assms(1)])
    fix br' capacity assume br: "me_body ev = BarEvent br" "me_body ev = BarEvent br'"
      and f: "fold_res (bar_match_order E ev br')
      (m, dmul E (decimal E (bar_volume br')) (bm_participation_rate m), []) (sort_orders orders) = Inr (m', capacity, fills)"
    have "bar_walk E ev br m (sort_orders orders) (m', capacity, fills)"
      by (rule fold_res_prefix_invariant [OF f, where P = "bar_walk E ev br m"])
        (simp add: bar_walk_def, rule bar_walk_step, use d br in auto)
    then show ?thesis by (simp add: bar_walk_def walked_def)
  qed (simp add: bar_walk_def)
  show "(\<And>br. me_body ev \<noteq> BarEvent br) \<Longrightarrow> fills = []"
    using assms(1) by (auto simp: bar_match_def split: event_body.splits)
qed

text \<open>
  What is left of a capacity that is a multiple of \<open>10 ^ - k\<close> and fits the context stays one:
  the subtractions of the walk are exact.
\<close>

definition capacity_left :: "nat \<Rightarrow> int \<Rightarrow> rat \<Rightarrow> fill list \<Rightarrow> bool" where
  "capacity_left k n capacity fills \<longleftrightarrow> (\<exists>j. 0 \<le> j \<and> j \<le> n \<and> capacity = of_int j / 10 ^ k
     \<and> capacity + sum_list (map (\<lambda>f. decimal E (fl_quantity f)) fills) = of_int n / 10 ^ k)"

lemma capacity_left_step:
  assumes c: "capacity_left k n capacity fills" and n: "n < 10 ^ prec E"
    and q: "0 < units q" "decimal E q \<le> capacity" "scale q \<le> k" and f: "fl_quantity f = q"
  shows "capacity_left k n (dsub E capacity (decimal E q)) (fills @ [f])"
proof -
  from c obtain j where j: "0 \<le> j" "j \<le> n" "capacity = of_int j / 10 ^ k"
    and sum: "capacity + sum_list (map (\<lambda>f. decimal E (fl_quantity f)) fills) = of_int n / 10 ^ k"
    by (auto simp: capacity_left_def)
  define u where "u = units q * 10 ^ (k - scale q)"
  have dq: "decimal E q = of_int u / 10 ^ k"
    using rescale [OF q(3), of "units q"] by (simp only: u_def decimal_value)
  have "(of_int u :: rat) \<le> of_int j" using q(2) by (simp add: dq j(3) divide_le_cancel)
  then have le: "u \<le> j" by (simp only: of_int_le_iff)
  have u0: "0 \<le> u" using q(1) by (simp add: u_def)
  have "dsub E capacity (decimal E q) = ctx_round (prec E) (of_int (j - u) / 10 ^ k)"
    by (simp add: dsub_def j(3) dq diff_divide_distrib)
  also have "\<dots> = of_int (j - u) / 10 ^ k"
    using le u0 j n by (intro ctx_round_exact_div) auto
  finally have "dsub E capacity (decimal E q) = of_int (j - u) / 10 ^ k" .
  then show ?thesis
    unfolding capacity_left_def
    using le u0 j sum f by (intro exI [of _ "j - u"]) (simp add: dq diff_divide_distrib)
qed

lemma bar_capacity:
  assumes "bar_match E m ev orders = Inr (m', fills)" "me_body ev = BarEvent br"
    and vol: "decimal E (bar_volume br) * bm_participation_rate m = of_int n / 10 ^ k" "0 \<le> n" "n < 10 ^ prec E"
    and sc: "\<forall>ord \<in> set orders. scale (oi_quantity (ord_intent ord)) \<le> k"
  shows "sum_list (map (\<lambda>f. decimal E (fl_quantity f)) fills) \<le> of_int n / 10 ^ k"
proof (rule bar_match_fold [OF assms(1)])
  assume "fills = []"
  then show ?thesis using vol(2) by simp
next
  fix br' capacity assume br: "me_body ev = BarEvent br'"
    and f: "fold_res (bar_match_order E ev br')
      (m, dmul E (decimal E (bar_volume br')) (bm_participation_rate m), []) (sort_orders orders) = Inr (m', capacity, fills)"
  have start: "dmul E (decimal E (bar_volume br')) (bm_participation_rate m) = of_int n / 10 ^ k"
    using br assms(2) vol ctx_round_exact_div [of n "prec E" k] by (simp add: dmul_def)
  let ?P = "\<lambda>(m, capacity, fills). capacity_left k n capacity fills"
  have "?P (m', capacity, fills)"
  proof (rule fold_res_invariant [OF f, where P = ?P])
    show "?P (m, dmul E (decimal E (bar_volume br')) (bm_participation_rate m), [])"
      using vol(2) by (auto simp: start capacity_left_def)
  next
    fix s ord s' assume P: "?P s" and o: "ord \<in> set (sort_orders orders)"
      and st: "bar_match_order E ev br' s ord = Inr s'"
    obtain m1 c1 f1 m2 c2 f2 where s: "s = (m1, c1, f1)" "s' = (m2, c2, f2)" by (metis prod_cases3)
    have k: "scale (oi_quantity (ord_intent ord)) \<le> k" using o sc by simp
    from bar_match_order_cases [OF st [unfolded s]]
    consider "c2 = c1" "f2 = f1"
      | p f where "eligible (bm_config m1) ord ev" "take_fill E ''bar'' ev p TAKER (length f1) ord c1 = Inr (Some f)"
          "c2 = dsub E c1 (decimal E (fl_quantity f))" "f2 = f1 @ [f]"
      by blast
    then show "?P s'"
    proof cases
      case 1
      then show ?thesis using P by (simp add: s)
    next
      case 2
      note T = take_fill_facts [OF 2(2,1)]
      have "capacity_left k n (dsub E c1 (decimal E (fl_quantity f))) (f1 @ [f])"
        by (rule capacity_left_step [OF _ vol(3) _ T(3) _ refl])
          (use P T(1) k in \<open>simp_all add: s fill_for_def\<close>)
      then show ?thesis using 2(3,4) by (simp add: s)
    qed
  qed
  then show ?thesis by (auto simp: capacity_left_def field_simps)
qed

end

sublocale fixed_env \<subseteq> bar: broker_matching E "bar_match E" bm_config "\<lambda>_. True"
proof unfold_locales
  fix m ev orders m' fills
  assume run: "bar_match E m ev orders = Inr (m', fills)" and "offered orders"
  then have d: "distinct (map ord_order_id orders)" by (simp add: offered_def)
  show "bm_config m' = bm_config m"
    by (rule bar_match_fold [OF run]) (use bar_match_walk(1) [OF run d] in \<open>auto simp: bar_walk_def\<close>)
next
  fix m ev orders m' fills f
  assume run: "bar_match E m ev orders = Inr (m', fills)" and off: "offered orders" and f: "f \<in> set fills"
  have d: "distinct (map ord_order_id orders)" using off by (simp add: offered_def)
  show "\<exists>ord \<in> set orders. fill_for ev (bm_config m) ord f"
    using f bar_match_walk [OF run d] by (cases "me_body ev") (auto simp: bar_walk_def walked_def)
next
  fix m ev orders m' fills ord
  assume run: "bar_match E m ev orders = Inr (m', fills)" and off: "offered orders" and o: "ord \<in> set orders"
  have d: "distinct (map ord_order_id orders)" and r: "0 \<le> order_remaining ord"
    using off o order_inv_remaining by (auto simp: offered_def)
  show "filled_units fills (ord_order_id ord) \<le> order_remaining ord"
  proof (cases "\<exists>br. me_body ev = BarEvent br")
    case True
    then show ?thesis using bar_match_walk(1) [OF run d] walked_within [OF _ d o r] by (auto simp: bar_walk_def)
  next
    case False
    then show ?thesis using bar_match_walk(2) [OF run d] r by simp
  qed
qed

section \<open>The top-of-book model\<close>

text \<open>The price condition of a fill against a visible price, given the stops triggered before.\<close>

definition stop_and_limit_ok :: "env \<Rightarrow> string list \<Rightarrow> order \<Rightarrow> rat \<Rightarrow> bool" where
  "stop_and_limit_ok E triggered ord price \<longleftrightarrow> (let i = ord_intent ord in
     (oi_order_type i \<in> {STOP, STOP_LIMIT} \<and> ord_order_id ord \<notin> set triggered \<longrightarrow>
        (\<exists>sp. oi_stop_price i = Some sp \<and> reaches (oi_side i) price (decimal E sp)))
     \<and> (oi_order_type i \<in> {LIMIT, STOP_LIMIT} \<longrightarrow>
        (\<exists>lp. oi_limit_price i = Some lp \<and> no_worse (oi_side i) price (decimal E lp))))"

definition quote_fill_ok :: "env \<Rightarrow> string list \<Rightarrow> quote \<Rightarrow> order \<Rightarrow> fill \<Rightarrow> bool" where
  "quote_fill_ok E triggered q ord f \<longleftrightarrow> (let i = ord_intent ord in
     (oi_time_in_force i = FOK \<longrightarrow> units (fl_quantity f) = order_remaining ord)
     \<and> fl_price f = (if oi_side i = BUY then qt_ask_price q else qt_bid_price q)
     \<and> stop_and_limit_ok E triggered ord (decimal E (fl_price f)))"

definition trade_fill_ok :: "env \<Rightarrow> string list \<Rightarrow> trade \<Rightarrow> quote option \<Rightarrow> order \<Rightarrow> fill \<Rightarrow> bool" where
  "trade_fill_ok E triggered t visible ord f \<longleftrightarrow> (let i = ord_intent ord in
     (oi_time_in_force i = FOK \<longrightarrow> units (fl_quantity f) = order_remaining ord)
     \<and> fl_price f = tr_price t
     \<and> meets_aggressor i t
     \<and> oi_order_type i \<in> {LIMIT, STOP_LIMIT}
     \<and> stop_and_limit_ok E triggered ord (decimal E (fl_price f))
     \<and> check_visible E i t visible = Inr ())"

definition stops_grow :: "bbo_model \<Rightarrow> order \<Rightarrow> bbo_model \<Rightarrow> bool" where
  "stops_grow m ord m' \<longleftrightarrow> bbo_config m' = bbo_config m \<and> bbo_quotes m' = bbo_quotes m
     \<and> set (bbo_triggered_stops m) \<subseteq> set (bbo_triggered_stops m')
     \<and> set (bbo_triggered_stops m') \<subseteq> insert (ord_order_id ord) (set (bbo_triggered_stops m))"

lemma stops_grow_refl [simp]: "stops_grow m ord m"
  by (auto simp: stops_grow_def)

lemma stop_or_limit_grows: "stop_or_limit E r m ord price = Inr (m', ok) \<Longrightarrow> stops_grow m ord m'"
  by (auto simp: stop_or_limit_def Let_def stops_grow_def split: if_splits)

lemma stop_or_limit_ok:
  assumes "stop_or_limit E r m ord price = Inr (m', True)" "oi_order_type (ord_intent ord) \<noteq> MARKET"
  shows "stop_and_limit_ok E (bbo_triggered_stops m) ord price"
    "oi_order_type (ord_intent ord) = STOP \<Longrightarrow> r"
  using assms by (cases "oi_order_type (ord_intent ord)";
      auto simp: stop_or_limit_def Let_def stop_and_limit_ok_def need_price_def split: if_splits)+

lemma marketable_facts:
  assumes "bbo_marketable E m ord price = Inr (m', ok)"
  shows "stops_grow m ord m'" "ok \<Longrightarrow> stop_and_limit_ok E (bbo_triggered_stops m) ord price"
proof -
  show "stops_grow m ord m'"
    using assms by (auto simp: bbo_marketable_def split: if_splits intro: stop_or_limit_grows)
  show "ok \<Longrightarrow> stop_and_limit_ok E (bbo_triggered_stops m) ord price"
    using assms stop_or_limit_ok(1) [of E True m ord price m']
    by (cases "oi_order_type (ord_intent ord) = MARKET") (auto simp: bbo_marketable_def stop_and_limit_ok_def)
qed

lemma stop_and_limit_ok_triggered:
  "stop_and_limit_ok E t' ord price \<Longrightarrow> (ord_order_id ord \<in> set t' \<longleftrightarrow> ord_order_id ord \<in> set t) \<Longrightarrow>
     stop_and_limit_ok E t ord price"
  by (simp add: stop_and_limit_ok_def Let_def)

text \<open>The walk of both event kinds: \<open>ok\<close> is one of the two conditions above.\<close>

definition bbo_walk :: "market_event \<Rightarrow> bbo_model \<Rightarrow> (order \<Rightarrow> fill \<Rightarrow> bool) \<Rightarrow> order list
     \<Rightarrow> bbo_model \<times> 'a \<times> fill list \<Rightarrow> bool" where
  "bbo_walk ev m ok seen s \<longleftrightarrow> (case s of (m', left, fills) \<Rightarrow>
     bbo_config m' = bbo_config m
     \<and> set (bbo_triggered_stops m) \<subseteq> set (bbo_triggered_stops m')
     \<and> set (bbo_triggered_stops m') \<subseteq> set (bbo_triggered_stops m) \<union> ord_order_id ` set seen
     \<and> walked ev (bbo_config m) ok seen fills)"

lemma bbo_walk_skip:
  assumes "bbo_walk ev m ok seen (m1, left, fills)" "stops_grow m1 ord m2"
  shows "bbo_walk ev m ok (seen @ [ord]) (m2, left', fills)"
  using assms walked_skip by (auto simp: bbo_walk_def stops_grow_def)

lemma bbo_walk_fill:
  assumes "bbo_walk ev m ok seen (m1, left, fills)" "stops_grow m1 ord m2"
    and "fill_for ev (bbo_config m) ord f" "ok ord f" "ord_order_id ord \<notin> ord_order_id ` set seen"
  shows "bbo_walk ev m ok (seen @ [ord]) (m2, left', fills @ [f])"
  using assms walked_fill [of ev "bbo_config m" ok seen fills ord f] by (auto simp: bbo_walk_def stops_grow_def)

context fixed_env
begin

lemma quote_walk_step:
  assumes d: "distinct (map ord_order_id (seen @ ord # rest))"
    and w: "bbo_walk ev m (quote_fill_ok E (bbo_triggered_stops m) q) seen s"
    and st: "quote_match_order E ev q s ord = Inr s'"
  shows "bbo_walk ev m (quote_fill_ok E (bbo_triggered_stops m) q) (seen @ [ord]) s'"
proof -
  obtain m1 b1 a1 f1 m2 l2 f2 where s: "s = (m1, (b1, a1), f1)" "s' = (m2, l2, f2)" by (metis prod_cases3 surj_pair)
  let ?price = "if oi_side (ord_intent ord) = BUY then qt_ask_price q else qt_bid_price q"
  let ?left = "if oi_side (ord_intent ord) = BUY then a1 else b1"
  note fresh = fresh_in_walk [OF d]
  consider "m2 = m1" "f2 = f1"
    | ok where "bbo_marketable E m1 ord (decimal E ?price) = Inr (m2, ok)" "f2 = f1"
    | f where "eligible (bbo_config m1) ord ev" "bbo_marketable E m1 ord (decimal E ?price) = Inr (m2, True)"
        "take_fill E ''bbo'' ev ?price TAKER (length f1) ord ?left = Inr (Some f)" "f2 = f1 @ [f]"
    using st by (auto simp: s Let_def split: if_splits option.splits)
  then show ?thesis
  proof cases
    case 1
    then show ?thesis using bbo_walk_skip [OF w [unfolded s], of ord m1] by (simp add: s)
  next
    case 2
    then show ?thesis using bbo_walk_skip [OF w [unfolded s] marketable_facts(1) [OF 2(1)]] by (simp add: s)
  next
    case 3
    have el: "eligible (bbo_config m) ord ev" using 3(1) w by (simp add: bbo_walk_def s)
    note T = take_fill_facts [OF 3(3) el]
    have "ord_order_id ord \<in> set (bbo_triggered_stops m1) \<longleftrightarrow> ord_order_id ord \<in> set (bbo_triggered_stops m)"
      using w fresh by (auto simp: bbo_walk_def s)
    then have "stop_and_limit_ok E (bbo_triggered_stops m) ord (decimal E ?price)"
      using marketable_facts(2) [OF 3(2)] stop_and_limit_ok_triggered by blast
    then have "quote_fill_ok E (bbo_triggered_stops m) q ord f"
      using T(2,4) unfolding quote_fill_ok_def Let_def by simp
    then show ?thesis
      using bbo_walk_fill [OF _ marketable_facts(1) [OF 3(2)] T(1) _ fresh] w 3(4) by (simp add: s)
  qed
qed

lemma trade_match_order_cases:
  assumes st: "trade_match_order E ev t visible (m1, a1, f1) ord = Inr (m2, a2, f2)"
  shows "m2 = m1 \<and> f2 = f1
    \<or> (\<exists>ok. bbo_passive_executable E m1 ord (decimal E (tr_price t)) = Inr (m2, ok) \<and> f2 = f1)
    \<or> (\<exists>f. eligible (bbo_config m1) ord ev \<and> oi_order_type (ord_intent ord) \<noteq> MARKET
        \<and> meets_aggressor (ord_intent ord) t
        \<and> bbo_passive_executable E m1 ord (decimal E (tr_price t)) = Inr (m2, True)
        \<and> check_visible E (ord_intent ord) t visible = Inr ()
        \<and> take_fill E ''trade'' ev (tr_price t) MAKER (length f1) ord a1 = Inr (Some f) \<and> f2 = f1 @ [f])"
proof (cases "a1 \<le> 0 \<or> \<not> eligible (bbo_config m1) ord ev \<or> oi_order_type (ord_intent ord) = MARKET
    \<or> \<not> meets_aggressor (ord_intent ord) t")
  case True
  then show ?thesis using st by (auto split: if_splits)
next
  case False
  then obtain m' ok where exe: "bbo_passive_executable E m1 ord (decimal E (tr_price t)) = Inr (m', ok)"
    and rest: "(if \<not> ok then Inr (m', a1, f1)
        else and_then (check_visible E (ord_intent ord) t visible) (\<lambda>_.
          and_then (take_fill E ''trade'' ev (tr_price t) MAKER (length f1) ord a1) (\<lambda>r.
          case r of
            None \<Rightarrow> Inr (m', a1, f1)
          | Some f \<Rightarrow> Inr (m', dsub E a1 (decimal E (fl_quantity f)), f1 @ [f])))) = Inr (m2, a2, f2)"
    using st by (simp split del: if_split) blast
  show ?thesis
  proof (cases ok)
    case ok: False
    then show ?thesis using exe rest by auto
  next
    case ok: True
    then have "and_then (check_visible E (ord_intent ord) t visible) (\<lambda>_.
          and_then (take_fill E ''trade'' ev (tr_price t) MAKER (length f1) ord a1) (\<lambda>r.
          case r of
            None \<Rightarrow> Inr (m', a1, f1)
          | Some f \<Rightarrow> Inr (m', dsub E a1 (decimal E (fl_quantity f)), f1 @ [f]))) = Inr (m2, a2, f2)"
      using rest by (simp only: not_True_eq_False if_False)
    then show ?thesis
    proof (elim and_thenE)
      fix u r assume "check_visible E (ord_intent ord) t visible = Inr u"
        "take_fill E ''trade'' ev (tr_price t) MAKER (length f1) ord a1 = Inr r"
        "(case r of None \<Rightarrow> Inr (m', a1, f1)
          | Some f \<Rightarrow> Inr (m', dsub E a1 (decimal E (fl_quantity f)), f1 @ [f])) = Inr (m2, a2, f2)"
      then show ?thesis using exe ok False by (cases r) auto
    qed
  qed
qed

lemma trade_walk_step:
  assumes d: "distinct (map ord_order_id (seen @ ord # rest))"
    and w: "bbo_walk ev m (trade_fill_ok E (bbo_triggered_stops m) t visible) seen s"
    and st: "trade_match_order E ev t visible s ord = Inr s'"
  shows "bbo_walk ev m (trade_fill_ok E (bbo_triggered_stops m) t visible) (seen @ [ord]) s'"
proof -
  obtain m1 a1 f1 m2 a2 f2 where s: "s = (m1, a1, f1)" "s' = (m2, a2, f2)" by (metis prod_cases3)
  let ?i = "ord_intent ord"
  note fresh = fresh_in_walk [OF d]
  from trade_match_order_cases [OF st [unfolded s]]
  consider "m2 = m1" "f2 = f1"
    | ok where "bbo_passive_executable E m1 ord (decimal E (tr_price t)) = Inr (m2, ok)" "f2 = f1"
    | f where "eligible (bbo_config m1) ord ev" "oi_order_type ?i \<noteq> MARKET" "meets_aggressor ?i t"
        "bbo_passive_executable E m1 ord (decimal E (tr_price t)) = Inr (m2, True)"
        "check_visible E ?i t visible = Inr ()"
        "take_fill E ''trade'' ev (tr_price t) MAKER (length f1) ord a1 = Inr (Some f)" "f2 = f1 @ [f]"
    by blast
  then show ?thesis
  proof cases
    case 1
    then show ?thesis using bbo_walk_skip [OF w [unfolded s], of ord m1] by (simp add: s)
  next
    case 2
    then show ?thesis
      using bbo_walk_skip [OF w [unfolded s] stop_or_limit_grows [OF 2(1) [unfolded bbo_passive_executable_def]]]
      by (simp add: s)
  next
    case 3
    have el: "eligible (bbo_config m) ord ev" using 3(1) w by (simp add: bbo_walk_def s)
    note T = take_fill_facts [OF 3(6) el]
    note exe = 3(4) [unfolded bbo_passive_executable_def]
    have "ord_order_id ord \<in> set (bbo_triggered_stops m1) \<longleftrightarrow> ord_order_id ord \<in> set (bbo_triggered_stops m)"
      using w fresh by (auto simp: bbo_walk_def s)
    then have "stop_and_limit_ok E (bbo_triggered_stops m) ord (decimal E (tr_price t))"
      using stop_or_limit_ok(1) [OF exe 3(2)] stop_and_limit_ok_triggered by blast
    moreover have "oi_order_type ?i \<in> {LIMIT, STOP_LIMIT}"
      using stop_or_limit_ok(2) [OF exe 3(2)] 3(2) by (cases "oi_order_type ?i") auto
    ultimately have "trade_fill_ok E (bbo_triggered_stops m) t visible ord f"
      using T(2,4) 3(3,5) unfolding trade_fill_ok_def Let_def by simp
    then show ?thesis
      using bbo_walk_fill [OF _ stop_or_limit_grows [OF exe] T(1) _ fresh] w 3(7) by (simp add: s)
  qed
qed

lemma price_time_distinct:
  "price_time_orders E orders = Inr ords \<Longrightarrow> distinct (map ord_order_id orders) \<Longrightarrow> distinct (map ord_order_id ords)"
  by (auto simp: price_time_orders_def intro: distinct_ids_sort dest: sort_by_res_mset)

lemma bbo_walk_order_set: "bbo_walk ev m ok ords s \<Longrightarrow> set ords = set orders \<Longrightarrow> bbo_walk ev m ok orders s"
  by (auto simp: bbo_walk_def walked_def)

lemma match_quote_walk:
  assumes "match_quote E m ev q orders = Inr (m', fills)" "distinct (map ord_order_id orders)"
  shows "bbo_walk ev m (quote_fill_ok E (bbo_triggered_stops m) q) orders (m', (), fills)"
proof -
  from assms(1) obtain ords left where p: "price_time_orders E orders = Inr ords"
    and f: "fold_res (quote_match_order E ev q)
       (m, (decimal E (qt_bid_quantity q), decimal E (qt_ask_quantity q)), []) ords = Inr (m', left, fills)"
    by (auto simp: match_quote_def)
  note d = price_time_distinct [OF p assms(2)]
  have "bbo_walk ev m (quote_fill_ok E (bbo_triggered_stops m) q) ords (m', left, fills)"
    by (rule fold_res_prefix_invariant [OF f, where P = "bbo_walk ev m (quote_fill_ok E (bbo_triggered_stops m) q)"])
      (simp add: bbo_walk_def, rule quote_walk_step, use d in auto)
  then have "bbo_walk ev m (quote_fill_ok E (bbo_triggered_stops m) q) ords (m', (), fills)"
    by (simp add: bbo_walk_def)
  then show ?thesis by (rule bbo_walk_order_set) (rule price_time_orders_set [OF p])
qed

lemma match_trade_walk:
  assumes "match_trade E m ev t orders = Inr (m', fills)" "distinct (map ord_order_id orders)"
  shows "bbo_walk ev m (trade_fill_ok E (bbo_triggered_stops m) t (dget (bbo_quotes m) (me_instrument_id ev)))
    orders (m', (), fills)"
proof -
  let ?v = "dget (bbo_quotes m) (me_instrument_id ev)"
  from assms(1) obtain ords left where p: "price_time_orders E orders = Inr ords"
    and f: "fold_res (trade_match_order E ev t ?v) (m, decimal E (tr_quantity t), []) ords = Inr (m', left, fills)"
    by (auto simp: match_trade_def)
  note d = price_time_distinct [OF p assms(2)]
  have "bbo_walk ev m (trade_fill_ok E (bbo_triggered_stops m) t ?v) ords (m', left, fills)"
    by (rule fold_res_prefix_invariant [OF f, where P = "bbo_walk ev m (trade_fill_ok E (bbo_triggered_stops m) t ?v)"])
      (simp add: bbo_walk_def, rule trade_walk_step, use d in auto)
  then have "bbo_walk ev m (trade_fill_ok E (bbo_triggered_stops m) t ?v) ords (m', (), fills)"
    by (simp add: bbo_walk_def)
  then show ?thesis by (rule bbo_walk_order_set) (rule price_time_orders_set [OF p])
qed

lemma bbo_match_walk:
  assumes "bbo_match E m ev orders = Inr (m', fills)" "distinct (map ord_order_id orders)"
  shows "\<exists>m0 ok. bbo_config m0 = bbo_config m \<and> bbo_walk ev m0 ok orders (m', (), fills)"
proof (cases "me_body ev")
  case (QuoteEvent q)
  then have "match_quote E (m\<lparr>bbo_quotes := dset (me_instrument_id ev) q (bbo_quotes m)\<rparr>) ev q orders = Inr (m', fills)"
    using assms(1) by (simp add: bbo_match_def)
  from match_quote_walk [OF this assms(2)] show ?thesis by (intro exI conjI) auto
next
  case (TradeEvent t)
  then have "match_trade E m ev t orders = Inr (m', fills)" using assms(1) by (simp add: bbo_match_def)
  from match_trade_walk [OF this assms(2)] show ?thesis by (intro exI conjI) auto
qed (use assms(1) in \<open>auto simp: bbo_match_def bbo_walk_def intro!: exI [of _ m]\<close>)

end

sublocale fixed_env \<subseteq> bbo: broker_matching E "bbo_match E" bbo_config "\<lambda>_. True"
proof unfold_locales
  fix m ev orders m' fills
  assume run: "bbo_match E m ev orders = Inr (m', fills)" and "offered orders"
  then have "distinct (map ord_order_id orders)" by (simp add: offered_def)
  from bbo_match_walk [OF run this] show "bbo_config m' = bbo_config m" by (auto simp: bbo_walk_def)
next
  fix m ev orders m' fills f
  assume run: "bbo_match E m ev orders = Inr (m', fills)" and "offered orders" and f: "f \<in> set fills"
  then have "distinct (map ord_order_id orders)" by (simp add: offered_def)
  from bbo_match_walk [OF run this] show "\<exists>ord \<in> set orders. fill_for ev (bbo_config m) ord f"
    using f by (fastforce simp: bbo_walk_def walked_def)
next
  fix m ev orders m' fills ord
  assume run: "bbo_match E m ev orders = Inr (m', fills)" and off: "offered orders" and o: "ord \<in> set orders"
  have d: "distinct (map ord_order_id orders)" and r: "0 \<le> order_remaining ord"
    using off o order_inv_remaining by (auto simp: offered_def)
  from bbo_match_walk [OF run d] walked_within [OF _ d o r]
  show "filled_units fills (ord_order_id ord) \<le> order_remaining ord" by (auto simp: bbo_walk_def)
qed

context fixed_env
begin

lemmas bar_fills_booked = bar.matched_fills_are_booked
lemmas bbo_fills_booked = bbo.matched_fills_are_booked

end

section \<open>Properties\<close>

text \<open>
  C7: Bar fills: at most one per order, each for an eligible open order and within what is left;
  a FOK order fills completely or not at all; a limit fill is at the limit price and the bar
  traded there; a stop fills only on a bar that reached it, and a stop-limit order fills on
  its trigger bar only if the bar opened through the stop at an executable price.
\<close>

theorem bar_fills_obey_the_bar:
  assumes "fixed_env E" "offered orders" "me_body ev = BarEvent br"
    and "bar_match E m ev orders = Inr (m', fills)"
  shows "distinct (map fl_order_id fills)
     \<and> (\<forall>f \<in> set fills. \<exists>ord \<in> set orders. fill_for ev (bm_config m) ord f
          \<and> bar_fill_ok E (bm_activated_stop_limits m) br ord f)"
  using fixed_env.bar_match_walk(1) [OF assms(1,4) _ assms(3)] assms(2)
  by (simp add: offered_def bar_walk_def walked_def)

text \<open>
  C8: The fills of a bar never take more than the participation rate of its volume, as long as
  that amount fits the digits of the decimal context at the scale of the orders.
\<close>

theorem bar_fills_within_participation:
  assumes "fixed_env E" "me_body ev = BarEvent br" "bar_match E m ev orders = Inr (m', fills)"
    and "decimal E (bar_volume br) * bm_participation_rate m = of_int n / 10 ^ k" "0 \<le> n" "n < 10 ^ prec E"
    and "\<forall>ord \<in> set orders. scale (oi_quantity (ord_intent ord)) \<le> k"
  shows "sum_list (map (\<lambda>f. decimal E (fl_quantity f)) fills)
     \<le> decimal E (bar_volume br) * bm_participation_rate m"
  using fixed_env.bar_capacity [OF assms(1,3,2,4-7)] assms(4) by simp

text \<open>
  Top-of-book fills: a quote fills takers at the visible price of the other side, a trade
  fills makers at the trade price against an aggressor of the other side and never across
  the visible quote; limits and stops hold in both cases, and there is one fill per order.
\<close>

theorem bbo_fills_obey_the_book:
  assumes "fixed_env E" "offered orders" "bbo_match E m ev orders = Inr (m', fills)"
  shows "distinct (map fl_order_id fills)
     \<and> (\<forall>q. me_body ev = QuoteEvent q \<longrightarrow> (\<forall>f \<in> set fills. \<exists>ord \<in> set orders.
          fill_for ev (bbo_config m) ord f \<and> quote_fill_ok E (bbo_triggered_stops m) q ord f))
     \<and> (\<forall>t. me_body ev = TradeEvent t \<longrightarrow> (\<forall>f \<in> set fills. \<exists>ord \<in> set orders.
          fill_for ev (bbo_config m) ord f
          \<and> trade_fill_ok E (bbo_triggered_stops m) t (dget (bbo_quotes m) (me_instrument_id ev)) ord f))"
proof -
  have d: "distinct (map ord_order_id orders)" using assms(2) by (simp add: offered_def)
  show ?thesis
  proof (cases "me_body ev")
    case (QuoteEvent q)
    then have "match_quote E (m\<lparr>bbo_quotes := dset (me_instrument_id ev) q (bbo_quotes m)\<rparr>) ev q orders
        = Inr (m', fills)" using assms(3) by (simp add: bbo_match_def)
    from fixed_env.match_quote_walk [OF assms(1) this d] QuoteEvent show ?thesis
      by (simp add: bbo_walk_def walked_def)
  next
    case (TradeEvent t)
    then have "match_trade E m ev t orders = Inr (m', fills)" using assms(3) by (simp add: bbo_match_def)
    from fixed_env.match_trade_walk [OF assms(1) this d] TradeEvent show ?thesis
      by (simp add: bbo_walk_def walked_def)
  qed (use assms(3) in \<open>simp_all add: bbo_match_def\<close>)
qed

text \<open>
  C9: Both models keep their contract with the broker: whatever they fill of the broker's open
  orders, the broker books every fill, in the order given, without an error.
\<close>

theorem matched_fills_are_always_booked:
  assumes "fixed_env E" "broker_inv b" "\<not> br_artifact_stream_closed b"
    and "\<forall>ord \<in> set orders. dget (br_orders b) (ord_order_id ord) = Some (Live ord)
         \<and> open_status (ord_status ord)"
    and "distinct (map ord_order_id orders)"
    and "\<forall>ord \<in> set orders. \<forall>u. returns (new_fixed E u (scale (oi_quantity (ord_intent ord))))"
    and "bar_match E m ev orders = Inr (m', fills) \<and> 0 \<le> mc_latency (bm_config m)
       \<or> bbo_match E n ev orders = Inr (n', fills) \<and> 0 \<le> mc_latency (bbo_config n)"
  shows "\<exists>b'. fold_res (book_fill E) b fills = Inr b' \<and> broker_inv b'"
  using assms(7)
proof
  assume "bar_match E m ev orders = Inr (m', fills) \<and> 0 \<le> mc_latency (bm_config m)"
  then show ?thesis using fixed_env.bar_fills_booked [OF assms(1-5) _ assms(6)] by simp blast
next
  assume "bbo_match E n ev orders = Inr (n', fills) \<and> 0 \<le> mc_latency (bbo_config n)"
  then show ?thesis using fixed_env.bbo_fills_booked [OF assms(1-5) _ assms(6)] by simp blast
qed

section \<open>Witnesses\<close>

text \<open>A bar of volume 100 at price 100, a participation rate of one tenth, and the demo order.\<close>

definition demo_spec :: instrument_spec where
  "demo_spec = \<lparr>sp_instrument_id = ''X'', sp_asset_class = EQUITY, sp_product_type = ''spot'', sp_venue = ''V'',
     sp_settlement_currency = ''USD'', sp_quote_currency = None, sp_price_tick = \<lparr>units = 1, scale = 2\<rparr>,
     sp_quantity_step = \<lparr>units = 1, scale = 0\<rparr>, sp_contract_multiplier = \<lparr>units = 1, scale = 0\<rparr>,
     sp_metadata = [], sp_available_at = 0, sp_effective_from = 0, sp_effective_to = None, sp_expiry_date = None\<rparr>"

definition demo_bar :: bar where
  "demo_bar = (let p = \<lparr>units = 10000, scale = 2\<rparr> in \<lparr>bar_open_price = p, bar_high_price = p, bar_low_price = p,
     bar_close_price = p, bar_volume = \<lparr>units = 100, scale = 0\<rparr>, bar_is_complete = True\<rparr>)"

definition demo_market_event :: "event_body \<Rightarrow> market_event" where
  "demo_market_event body = \<lparr>me_event_id = ''e'', me_instrument_id = ''X'', me_event_time = 8, me_received_at = 8, me_available_at = 8,
     me_source = ''v'', me_trading_day = 1, me_session_id = ''s'', me_sequence = 1, me_body = body\<rparr>"

definition demo_bar_model :: bar_model where
  "demo_bar_model = \<lparr>bm_config = \<lparr>mc_instruments = [(''X'', demo_spec)], mc_latency = 0\<rparr>,
     bm_participation_rate = 1 / 20, bm_slippage_ticks = 1, bm_activated_stop_limits = []\<rparr>"

definition demo_bar_fill :: "order \<Rightarrow> fill" where
  "demo_bar_fill ord = (case model_fill std_env ''bar'' (demo_market_event (BarEvent demo_bar)) ord
      \<lparr>units = 5, scale = 0\<rparr> \<lparr>units = 10001, scale = 2\<rparr> TAKER 0 of Inr f \<Rightarrow> f | Inl e \<Rightarrow> undefined)"

definition demo_quote :: quote where
  "demo_quote = \<lparr>qt_bid_price = \<lparr>units = 9999, scale = 2\<rparr>, qt_ask_price = \<lparr>units = 10001, scale = 2\<rparr>,
     qt_bid_quantity = \<lparr>units = 50, scale = 0\<rparr>, qt_ask_quantity = \<lparr>units = 4, scale = 0\<rparr>\<rparr>"

definition demo_bbo_model :: bbo_model where
  "demo_bbo_model = \<lparr>bbo_config = \<lparr>mc_instruments = [], mc_latency = 0\<rparr>, bbo_quotes = [], bbo_triggered_stops = []\<rparr>"

text \<open>An order for the demo intent, whatever its identifier.\<close>

definition demo_resting :: "string \<Rightarrow> order" where
  "demo_resting oid = order_fact oid demo_intent ACCEPTED \<lparr>units = 0, scale = 0\<rparr> 1"

lemma std_decimal [simp]: "decimal std_env f = of_int (units f) / 10 ^ scale f"
  by (rule std.decimal_value)

lemma std_exact: "x = of_int n / 10 ^ k \<Longrightarrow> \<bar>n\<bar> < 10 ^ 28 \<Longrightarrow> ctx_round (prec std_env) x = x"
  using ctx_round_exact_div [of n 28 k] by (simp add: std_env_def)

lemma demo_bar_match:
  "bar_match std_env demo_bar_model (demo_market_event (BarEvent demo_bar)) [demo_resting oid]
     = Inr (demo_bar_model, [demo_bar_fill (demo_resting oid)])"
proof -
  have cap: "dmul std_env 100 (1 / 20) = 5" "dmul std_env (1 / 100) 1 = 1 / 100" "dmul std_env 1 (1 / 100) = 1 / 100"
    "dadd std_env 100 (1 / 100) = 10001 / 100"
    by (simp_all add: dmul_def dadd_def std_exact [of 5 5 0] std_exact [of "1 / 100" 1 2] std_exact [of "10001 / 100" 10001 2])
  have "10001 / 100 * 100 = (of_int 10001 :: rat)" by simp
  then have "round_half_even (10001 / 100 * 100) = 10001" by (simp only: round_half_even_of_int)
  then have px: "fixed std_env (10001 / 100) 2 (Some ROUND_HALF_EVEN) = Inr \<lparr>units = 10001, scale = 2\<rparr>"
    by (simp add: fixed_def std_env_def of_option_def)
  have pos: "price_tick std_env (bm_config demo_bar_model) ''X'' = Inr (1 / 100)"
    by (simp add: price_tick_def demo_bar_model_def demo_spec_def)
  have q: "quantity_from_available std_env (demo_resting oid) 5 = Inr \<lparr>units = 5, scale = 0\<rparr>"
    by (simp add: quantity_from_available_def demo_resting_def order_fact_def demo_intent_def Let_def fixed_def
        of_option_def) (simp add: std_env_def round_down_def)
  have r: "remaining_quantity std_env (demo_resting oid) = Inr \<lparr>units = 10, scale = 0\<rparr>"
    by (simp add: remaining_quantity_def demo_resting_def order_fact_def demo_intent_def std_fixed)
  have "bar_execution_price std_env demo_bar_model (demo_resting oid) demo_bar
      = Inr (demo_bar_model, Some \<lparr>units = 10001, scale = 2\<rparr>)"
    using pos
    by (simp add: bar_execution_price_def demo_resting_def order_fact_def demo_intent_def slipped_price_def
        demo_bar_def Let_def) (simp add: demo_bar_model_def cap px)
  moreover have "take_fill std_env ''bar'' (demo_market_event (BarEvent demo_bar)) \<lparr>units = 10001, scale = 2\<rparr> TAKER 0
      (demo_resting oid) 5 = Inr (Some (demo_bar_fill (demo_resting oid)))"
    using q r by (simp add: take_fill_def demo_bar_fill_def model_fill_def Let_def)
      (simp add: demo_resting_def order_fact_def demo_intent_def)
  moreover have "eligible (bm_config demo_bar_model) (demo_resting oid) (demo_market_event (BarEvent demo_bar))"
    by (simp add: eligible_def demo_bar_model_def demo_resting_def order_fact_def demo_intent_def demo_market_event_def)
  moreover have "dmul std_env (decimal std_env (bar_volume demo_bar)) (bm_participation_rate demo_bar_model) = 5"
    by (simp add: demo_bar_def demo_bar_model_def Let_def cap)
  ultimately show ?thesis
    by (simp add: bar_match_def demo_market_event_def sort_orders_def) (simp add: demo_bar_def Let_def)
qed

lemma demo_offered: "offered [demo_resting oid]"
  by (simp add: offered_def demo_resting_def order_fact_def order_inv_def demo_intent_def open_status_def)

theorem bar_fills_obey_the_bar_witness:
  "fill_for (demo_market_event (BarEvent demo_bar)) (bm_config demo_bar_model) (demo_resting ''o'')
     (demo_bar_fill (demo_resting ''o''))"
  using bar_fills_obey_the_bar [OF std.fixed_env_axioms demo_offered _ demo_bar_match, of demo_bar]
  by (simp add: demo_market_event_def)

theorem bar_fills_within_participation_witness:
  "decimal std_env (fl_quantity (demo_bar_fill (demo_resting ''o''))) \<le> 100 * (1 / 20)"
proof -
  have n: "decimal std_env (bar_volume demo_bar) * bm_participation_rate demo_bar_model = of_int 5 / 10 ^ 0"
    by (simp add: demo_bar_def demo_bar_model_def Let_def)
  have "\<forall>ord \<in> set [demo_resting ''o'']. scale (oi_quantity (ord_intent ord)) \<le> 0"
    by (simp add: demo_resting_def order_fact_def demo_intent_def)
  from bar_fills_within_participation [OF std.fixed_env_axioms _ demo_bar_match n _ _ this]
  have "sum_list (map (\<lambda>f. decimal std_env (fl_quantity f)) [demo_bar_fill (demo_resting ''o'')])
      \<le> decimal std_env (bar_volume demo_bar) * bm_participation_rate demo_bar_model"
    by (simp add: demo_market_event_def std_env_def)
  then show ?thesis unfolding n by simp
qed

lemma demo_live_resting: "demo_live = demo_resting demo_oid"
  by (simp add: demo_live_def demo_resting_def)

theorem matched_fills_are_always_booked_witness:
  "\<exists>b'. fold_res (book_fill std_env) demo_book [demo_bar_fill demo_live] = Inr b' \<and> broker_inv b'"
proof (rule matched_fills_are_always_booked
    [OF std.fixed_env_axioms demo_book_inv demo_book_get(2), where orders = "[demo_live]" and m = demo_bar_model])
  show "bar_match std_env demo_bar_model (demo_market_event (BarEvent demo_bar)) [demo_live]
      = Inr (demo_bar_model, [demo_bar_fill demo_live]) \<and> 0 \<le> mc_latency (bm_config demo_bar_model)
    \<or> bbo_match std_env demo_bbo_model (demo_market_event (BarEvent demo_bar)) [demo_live]
      = Inr (demo_bbo_model, [demo_bar_fill demo_live]) \<and> 0 \<le> mc_latency (bbo_config demo_bbo_model)"
    using demo_bar_match [of demo_oid] by (simp add: demo_live_resting demo_bar_model_def)
qed (simp_all add: demo_book_get open_status_def std_fixed returns_iff demo_intent_def)

lemma demo_quote_match:
  "\<exists>f. bbo_match std_env demo_bbo_model (demo_market_event (QuoteEvent demo_quote)) [demo_resting oid]
     = Inr (demo_bbo_model\<lparr>bbo_quotes := [(''X'', demo_quote)]\<rparr>, [f])"
proof -
  have q: "quantity_from_available std_env (demo_resting oid) 4 = Inr \<lparr>units = 4, scale = 0\<rparr>"
    by (simp add: quantity_from_available_def demo_resting_def order_fact_def demo_intent_def Let_def fixed_def
        of_option_def) (simp add: std_env_def round_down_def)
  have r: "remaining_quantity std_env (demo_resting oid) = Inr \<lparr>units = 10, scale = 0\<rparr>"
    by (simp add: remaining_quantity_def demo_resting_def order_fact_def demo_intent_def std_fixed)
  have "oi_time_in_force (ord_intent (demo_resting oid)) = DAY"
    by (simp add: demo_resting_def order_fact_def demo_intent_def)
  then obtain f where t: "take_fill std_env ''bbo'' (demo_market_event (QuoteEvent demo_quote)) \<lparr>units = 10001, scale = 2\<rparr>
      TAKER 0 (demo_resting oid) 4 = Inr (Some f)"
    using q r by (simp add: take_fill_def model_fill_def Let_def)
  have i: "ord_intent (demo_resting oid) = demo_intent" "ord_order_id (demo_resting oid) = oid"
    by (simp_all add: demo_resting_def order_fact_def)
  have p: "price_time_orders std_env [demo_resting oid] = Inr [demo_resting oid]"
    by (simp add: price_time_orders_def sort_by_res_def price_rank_def i) (simp add: demo_intent_def)
  have s: "quote_match_order std_env (demo_market_event (QuoteEvent demo_quote)) demo_quote
     (demo_bbo_model\<lparr>bbo_quotes := [(''X'', demo_quote)]\<rparr>, (50, 4), []) (demo_resting oid)
     = Inr (demo_bbo_model\<lparr>bbo_quotes := [(''X'', demo_quote)]\<rparr>, (50, dsub std_env 4 (decimal std_env (fl_quantity f))), [f])"
    using t by (simp add: i eligible_def demo_bbo_model_def demo_market_event_def bbo_marketable_def demo_quote_def Let_def
        demo_intent_def)
  have d: "decimal std_env (qt_bid_quantity demo_quote) = 50" "decimal std_env (qt_ask_quantity demo_quote) = 4"
    by (simp_all add: demo_quote_def)
  have "match_quote std_env (demo_bbo_model\<lparr>bbo_quotes := [(''X'', demo_quote)]\<rparr>)
      (demo_market_event (QuoteEvent demo_quote)) demo_quote [demo_resting oid]
    = Inr (demo_bbo_model\<lparr>bbo_quotes := [(''X'', demo_quote)]\<rparr>, [f])"
    by (simp add: match_quote_def p d s del: quote_match_order.simps std_decimal)
  then show ?thesis
    by (auto simp: bbo_match_def demo_market_event_def demo_bbo_model_def)
qed

theorem bbo_fills_obey_the_book_witness:
  "\<exists>f. bbo_match std_env demo_bbo_model (demo_market_event (QuoteEvent demo_quote)) [demo_resting ''o'']
     = Inr (demo_bbo_model\<lparr>bbo_quotes := [(''X'', demo_quote)]\<rparr>, [f])
   \<and> quote_fill_ok std_env [] demo_quote (demo_resting ''o'') f"
proof -
  obtain f where f: "bbo_match std_env demo_bbo_model (demo_market_event (QuoteEvent demo_quote)) [demo_resting ''o'']
     = Inr (demo_bbo_model\<lparr>bbo_quotes := [(''X'', demo_quote)]\<rparr>, [f])"
    using demo_quote_match by blast
  with bbo_fills_obey_the_book [OF std.fixed_env_axioms demo_offered f] show ?thesis
    by (auto simp: demo_market_event_def demo_bbo_model_def)
qed

end
