(* ===== verification/Matching_L2.thy ===== *)
theory Matching_L2
  imports Matching_Bar
begin

text \<open>
  \<open>L2MatchingModel\<close> of \<open>matching.py\<close> (lines 365 to 982).  The vendor books and the consumable
  view of them are dictionaries from price units to quantities; the simulated maker queues
  are four dictionaries keyed by order.  The code stages every event on copies and commits
  them at the end: here a state is a value, so an event that raises leaves no trace.
\<close>

section \<open>State\<close>

record book =
  bk_bids :: "(int, fixed_point) dict"
  bk_asks :: "(int, fixed_point) dict"
  bk_price_scale :: nat
  bk_sequence :: int

type_synonym queue_key = "string \<times> side \<times> int \<times> nat"
type_synonym queue_rank = "instant \<times> instant \<times> string"

record l2_model =
  l2_config :: model_config
  l2_books :: "(string, book) dict"
  l2_liquidity_books :: "(string, book) dict"
  l2_queue_ahead :: "(string, rat) dict"
  l2_queue_keys :: "(string, queue_key) dict"
  l2_queue_priority :: "(string, queue_rank) dict"
  l2_queue_remaining :: "(string, rat) dict"
  l2_triggered_stops :: "string list"
  l2_stop_triggered_at :: "(string, instant) dict"

definition l2_reset :: "model_config \<Rightarrow> l2_model" where
  "l2_reset c = \<lparr>l2_config = c, l2_books = [], l2_liquidity_books = [], l2_queue_ahead = [], l2_queue_keys = [],
     l2_queue_priority = [], l2_queue_remaining = [], l2_triggered_stops = [], l2_stop_triggered_at = []\<rparr>"

definition mk_l2_model :: "(string, instrument_spec) dict \<Rightarrow> int \<Rightarrow> l2_model res" where
  "mk_l2_model instruments latency =
     and_then (mk_model_config instruments latency) (\<lambda>c. Inr (l2_reset c))"

definition dneed :: "(string, 'v) dict \<Rightarrow> string \<Rightarrow> 'v res" where
  "dneed d k = (case dget d k of None \<Rightarrow> Inl (KeyError k) | Some v \<Rightarrow> Inr v)"

fun filter_res :: "('a \<Rightarrow> bool res) \<Rightarrow> 'a list \<Rightarrow> 'a list res" where
  "filter_res p [] = Inr []"
| "filter_res p (x # xs) = and_then (p x) (\<lambda>b. and_then (filter_res p xs) (\<lambda>ys. Inr (if b then x # ys else ys)))"

fun any_res :: "('a \<Rightarrow> bool res) \<Rightarrow> 'a list \<Rightarrow> bool res" where
  "any_res p [] = Inr False"
| "any_res p (x # xs) = and_then (p x) (\<lambda>b. if b then Inr True else any_res p xs)"

section \<open>Order priority and marketability\<close>

definition l2_price_time_orders :: "env \<Rightarrow> l2_model \<Rightarrow> order list \<Rightarrow> order list res" where
  "l2_price_time_orders E m orders = sort_by_res (\<lambda>ord. and_then (price_rank E ord) (\<lambda>(r, p).
     Inr (side_rank ord, r, p, dget_or (l2_stop_triggered_at m) (ord_order_id ord) (oi_created_at (ord_intent ord)),
          oi_created_at (ord_intent ord), ord_order_id ord))) orders"

definition book_marketable :: "env \<Rightarrow> l2_model \<Rightarrow> order \<Rightarrow> nat \<Rightarrow> int \<Rightarrow> bool res" where
  "book_marketable E m ord price_scale price_units =
     (let i = ord_intent ord; price = dscaleb E (of_int price_units) (- int price_scale);
          limit_check = and_then (need_price (oi_limit_price i)) (\<lambda>lp. Inr (no_worse (oi_side i) price (decimal E lp))) in
      if oi_order_type i = MARKET then Inr True
      else if oi_order_type i \<in> {STOP, STOP_LIMIT}
      then if ord_order_id ord \<notin> set (l2_triggered_stops m) then Inr False
           else if oi_order_type i = STOP then Inr True else limit_check
      else limit_check)"

section \<open>Queues\<close>

definition drop_queue :: "string \<Rightarrow> l2_model \<Rightarrow> l2_model" where
  "drop_queue oid m = m\<lparr>l2_queue_ahead := ddel oid (l2_queue_ahead m), l2_queue_keys := ddel oid (l2_queue_keys m),
     l2_queue_priority := ddel oid (l2_queue_priority m), l2_queue_remaining := ddel oid (l2_queue_remaining m)\<rparr>"

definition clear_instrument_queues :: "string \<Rightarrow> l2_model \<Rightarrow> l2_model" where
  "clear_instrument_queues iid m =
     fold drop_queue (map fst (filter (\<lambda>(oid, key). fst key = iid) (l2_queue_keys m))) m"

text \<open>One order behind in the same queue moves up by the released quantity.\<close>

definition release_one :: "env \<Rightarrow> queue_key \<Rightarrow> queue_rank \<Rightarrow> rat \<Rightarrow> string list \<Rightarrow> l2_model \<Rightarrow> string \<times> queue_key
     \<Rightarrow> l2_model res" where
  "release_one E key rank released skip m later = (case later of (later_id, later_key) \<Rightarrow>
     if later_id \<in> set skip \<or> later_key \<noteq> key then Inr m
     else and_then (dneed (l2_queue_priority m) later_id) (\<lambda>later_rank.
       if \<not> rank < later_rank then Inr m
       else and_then (dneed (l2_queue_ahead m) later_id) (\<lambda>ahead.
         Inr (m\<lparr>l2_queue_ahead := dset later_id (max 0 (dsub E ahead released)) (l2_queue_ahead m)\<rparr>))))"

definition release_later :: "env \<Rightarrow> queue_key \<Rightarrow> queue_rank \<Rightarrow> rat \<Rightarrow> string list \<Rightarrow> l2_model \<Rightarrow> l2_model res" where
  "release_later E key rank released skip m = fold_res (release_one E key rank released skip) m (l2_queue_keys m)"

definition reduce_queue_remaining :: "env \<Rightarrow> string \<Rightarrow> rat \<Rightarrow> l2_model \<Rightarrow> l2_model res" where
  "reduce_queue_remaining E oid remaining m =
     and_then (dneed (l2_queue_remaining m) oid) (\<lambda>previous.
     let current = min previous remaining; released = dsub E previous current;
         m1 = m\<lparr>l2_queue_remaining := dset oid current (l2_queue_remaining m)\<rparr> in
     if released \<le> 0 then Inr m1
     else and_then (dneed (l2_queue_keys m1) oid) (\<lambda>key.
          and_then (dneed (l2_queue_priority m1) oid) (\<lambda>rank. release_later E key rank released [] m1)))"

definition drop_removed :: "env \<Rightarrow> string list \<Rightarrow> l2_model \<Rightarrow> string \<Rightarrow> l2_model res" where
  "drop_removed E removed m oid =
     and_then (dneed (l2_queue_keys m) oid) (\<lambda>key.
     and_then (dneed (l2_queue_priority m) oid) (\<lambda>rank.
     and_then (dneed (l2_queue_remaining m) oid) (\<lambda>released.
     and_then (if released \<noteq> 0 then release_later E key rank released removed m else Inr m) (\<lambda>m1.
       Inr (drop_queue oid m1)))))"

definition earlier_own :: "env \<Rightarrow> l2_model \<Rightarrow> queue_key \<Rightarrow> queue_rank \<Rightarrow> rat res" where
  "earlier_own E m key rank = fold_res (\<lambda>total (oid, remaining).
     and_then (dneed (l2_queue_keys m) oid) (\<lambda>k.
       if k \<noteq> key then Inr total
       else and_then (dneed (l2_queue_priority m) oid) (\<lambda>r.
         Inr (if r < rank then dadd E total remaining else total)))) 0 (l2_queue_remaining m)"

definition may_rest :: "l2_model \<Rightarrow> order \<Rightarrow> bool" where
  "may_rest m ord \<longleftrightarrow> (let i = ord_intent ord in
     oi_order_type i \<in> {LIMIT, STOP_LIMIT} \<and> oi_time_in_force i \<notin> {IOC, FOK}
     \<and> \<not> (oi_order_type i = STOP_LIMIT \<and> ord_order_id ord \<notin> set (l2_triggered_stops m)))"

definition enqueue :: "string \<Rightarrow> rat \<Rightarrow> queue_key \<Rightarrow> queue_rank \<Rightarrow> rat \<Rightarrow> l2_model \<Rightarrow> l2_model" where
  "enqueue oid ahead key rank left m = m\<lparr>l2_queue_ahead := dset oid ahead (l2_queue_ahead m),
     l2_queue_keys := dset oid key (l2_queue_keys m), l2_queue_priority := dset oid rank (l2_queue_priority m),
     l2_queue_remaining := dset oid left (l2_queue_remaining m)\<rparr>"

definition queue_passive_order :: "env \<Rightarrow> order \<Rightarrow> book \<Rightarrow> rat option \<Rightarrow> l2_model \<Rightarrow> l2_model res" where
  "queue_passive_order E ord bk given m =
     (let i = ord_intent ord; oid = ord_order_id ord; buy = oi_side i = BUY in
      if \<not> may_rest m ord then Inr m
      else and_then (case given of Some r \<Rightarrow> Inr r
                     | None \<Rightarrow> and_then (remaining_quantity E ord) (\<lambda>q. Inr (decimal E q))) (\<lambda>left.
      if left \<le> 0 then Inr m
      else let opposite = (if buy then bk_asks bk else bk_bids bk);
               same = (if buy then bk_bids bk else bk_asks bk) in
      and_then (any_res (book_marketable E m ord (bk_price_scale bk)) (dkeys opposite)) (\<lambda>marketable.
      if marketable then Inr m
      else and_then (need_price (oi_limit_price i)) (\<lambda>lp.
      and_then (exact_units E lp (bk_price_scale bk)) (\<lambda>price_units.
      let market_ahead = (case dget same price_units of None \<Rightarrow> 0 | Some q \<Rightarrow> decimal E q);
          key = (oi_instrument_id i, oi_side i, price_units, bk_price_scale bk);
          rank = (dget_or (l2_stop_triggered_at m) oid (oi_created_at i), oi_created_at i, oid) in
      and_then (earlier_own E m key rank) (\<lambda>own.
        Inr (enqueue oid (dadd E market_ahead own) key rank left m)))))))"

definition queue_if_new :: "env \<Rightarrow> market_event \<Rightarrow> l2_model \<Rightarrow> order \<Rightarrow> l2_model res" where
  "queue_if_new E ev m ord =
     (if dget (l2_queue_keys m) (ord_order_id ord) \<noteq> None \<or> \<not> eligible (l2_config m) ord ev then Inr m
      else case dget (l2_liquidity_books m) (oi_instrument_id (ord_intent ord)) of
             None \<Rightarrow> Inr m
           | Some bk \<Rightarrow> queue_passive_order E ord bk None m)"

definition reduce_active :: "env \<Rightarrow> l2_model \<Rightarrow> string \<times> order \<Rightarrow> l2_model res" where
  "reduce_active E m entry = (case entry of (oid, ord) \<Rightarrow>
     if dget (l2_queue_remaining m) oid = None then Inr m
     else and_then (remaining_quantity E ord) (\<lambda>q. reduce_queue_remaining E oid (decimal E q) m))"

definition reconcile_queues :: "env \<Rightarrow> market_event \<Rightarrow> order list \<Rightarrow> l2_model \<Rightarrow> l2_model res" where
  "reconcile_queues E ev orders m =
     (let active = fold (\<lambda>ord d. dset (ord_order_id ord) ord d) orders [];
          removed = filter (\<lambda>oid. dget active oid = None) (dkeys (l2_queue_keys m)) in
      and_then (sort_by_res (dneed (l2_queue_priority m)) removed) (\<lambda>sorted_removed.
      and_then (fold_res (drop_removed E removed) m sorted_removed) (\<lambda>m1.
      and_then (fold_res (reduce_active E) m1 active) (\<lambda>m2.
      and_then (l2_price_time_orders E m2 orders) (\<lambda>ords.
        fold_res (queue_if_new E ev) m2 ords)))))"

definition advance_one :: "env \<Rightarrow> queue_key \<Rightarrow> rat \<Rightarrow> string \<Rightarrow> l2_model \<Rightarrow> l2_model" where
  "advance_one E key quantity oid m =
     (if dget (l2_queue_keys m) oid = Some key
      then m\<lparr>l2_queue_ahead := dset oid (max 0 (dsub E (dget_or (l2_queue_ahead m) oid 0) quantity)) (l2_queue_ahead m)\<rparr>
      else m)"

text \<open>\<open>_advance_queues\<close> reads \<open>_queue_ahead\<close> only at keys it iterates, so the lookup cannot miss.\<close>

definition advance_queues :: "env \<Rightarrow> queue_key \<Rightarrow> rat \<Rightarrow> l2_model \<Rightarrow> l2_model" where
  "advance_queues E key quantity m = fold (advance_one E key quantity) (dkeys (l2_queue_ahead m)) m"

section \<open>Stops\<close>

definition stop_reached :: "env \<Rightarrow> order \<Rightarrow> rat \<Rightarrow> bool res" where
  "stop_reached E ord visible = and_then (need_price (oi_stop_price (ord_intent ord))) (\<lambda>sp.
     Inr (reaches (oi_side (ord_intent ord)) visible (decimal E sp)))"

definition activate_stop :: "order \<Rightarrow> instant \<Rightarrow> l2_model \<Rightarrow> l2_model" where
  "activate_stop ord t m = m\<lparr>l2_triggered_stops := List.insert (ord_order_id ord) (l2_triggered_stops m),
     l2_stop_triggered_at := dset (ord_order_id ord) t (l2_stop_triggered_at m)\<rparr>"

definition trigger_one :: "env \<Rightarrow> market_event \<Rightarrow> (order \<Rightarrow> rat option) \<Rightarrow> l2_model \<Rightarrow> order \<Rightarrow> l2_model res" where
  "trigger_one E ev visible m ord =
     (if \<not> eligible (l2_config m) ord ev \<or> ord_order_id ord \<in> set (l2_triggered_stops m)
         \<or> oi_order_type (ord_intent ord) \<notin> {STOP, STOP_LIMIT} then Inr m
      else case visible ord of
             None \<Rightarrow> Inr m
           | Some price \<Rightarrow> and_then (stop_reached E ord price) (\<lambda>hit.
               Inr (if hit then activate_stop ord (me_available_at ev) m else m)))"

definition best_prices :: "env \<Rightarrow> book \<Rightarrow> rat option \<times> rat option" where
  "best_prices E bk = (let s = - int (bk_price_scale bk) in
     (if bk_bids bk = [] then None else Some (dscaleb E (of_int (Max (set (dkeys (bk_bids bk))))) s),
      if bk_asks bk = [] then None else Some (dscaleb E (of_int (Min (set (dkeys (bk_asks bk))))) s)))"

definition trigger_stops_from_book :: "env \<Rightarrow> market_event \<Rightarrow> order list \<Rightarrow> l2_model \<Rightarrow> l2_model res" where
  "trigger_stops_from_book E ev orders m =
     and_then (dneed (l2_books m) (me_instrument_id ev)) (\<lambda>bk.
     let (best_bid, best_ask) = best_prices E bk in
     fold_res (trigger_one E ev (\<lambda>ord. if oi_side (ord_intent ord) = BUY then best_ask else best_bid))
       m (sort_orders orders))"

definition trigger_stops_from_trade :: "env \<Rightarrow> market_event \<Rightarrow> trade \<Rightarrow> order list \<Rightarrow> l2_model \<Rightarrow> l2_model res" where
  "trigger_stops_from_trade E ev t orders m =
     fold_res (trigger_one E ev (\<lambda>ord. Some (decimal E (tr_price t)))) m (sort_orders orders)"

section \<open>Books\<close>

definition levels_dict :: "level list \<Rightarrow> (int, fixed_point) dict" where
  "levels_dict lvs = fold (\<lambda>lv d. dset (units (lv_price lv)) (lv_quantity lv) d) lvs []"

definition stage_snapshot :: "book_snapshot \<Rightarrow> book res" where
  "stage_snapshot sn =
     (if sn_bids sn = [] \<or> sn_asks sn = [] then raise ''L2 snapshot must contain bids and asks''
      else if \<exists>lv \<in> set (sn_bids sn @ sn_asks sn). scale (lv_price lv) \<noteq> scale (lv_price (hd (sn_bids sn)))
      then raise ''L2 snapshot price levels must use one price scale''
      else Inr \<lparr>bk_bids = levels_dict (sn_bids sn), bk_asks = levels_dict (sn_asks sn),
                bk_price_scale = scale (lv_price (hd (sn_bids sn))), bk_sequence = sn_sequence sn\<rparr>)"

definition apply_snapshot :: "string \<Rightarrow> book \<Rightarrow> l2_model \<Rightarrow> l2_model" where
  "apply_snapshot iid bk m = clear_instrument_queues iid
     (m\<lparr>l2_books := dset iid bk (l2_books m), l2_liquidity_books := dset iid bk (l2_liquidity_books m)\<rparr>)"

definition book_side_of :: "book_side \<Rightarrow> book \<Rightarrow> (int, fixed_point) dict" where
  "book_side_of sd bk = (if sd = BID then bk_bids bk else bk_asks bk)"

definition set_book_side :: "book_side \<Rightarrow> (int, fixed_point) dict \<Rightarrow> book \<Rightarrow> book" where
  "set_book_side sd d bk = (if sd = BID then bk\<lparr>bk_bids := d\<rparr> else bk\<lparr>bk_asks := d\<rparr>)"

definition level_quantity :: "env \<Rightarrow> fixed_point option \<Rightarrow> rat" where
  "level_quantity E q = (case q of None \<Rightarrow> 0 | Some f \<Rightarrow> decimal E f)"

definition level_scale :: "fixed_point option \<Rightarrow> nat" where
  "level_scale q = (case q of None \<Rightarrow> 0 | Some f \<Rightarrow> scale f)"

text \<open>
  A delta replaces the vendor quantity; the consumable view keeps the part of the level that
  simulated takers already used.
\<close>

definition stage_delta :: "env \<Rightarrow> string \<Rightarrow> book_delta \<Rightarrow> l2_model \<Rightarrow> (fixed_point option \<times> rat) res" where
  "stage_delta E iid d m = (case (dget (l2_books m) iid, dget (l2_liquidity_books m) iid) of
       (Some bk, Some liquid) \<Rightarrow>
         if bk_sequence bk \<noteq> de_previous_sequence d then raise ''L2 matching sequence gap''
         else if scale (de_price d) \<noteq> bk_price_scale bk
         then raise ''L2 delta price scale differs from snapshot price scale''
         else let p = units (de_price d); sd = book_side_of (de_side d) bk;
                  previous = dget sd p; previous_liquidity = dget (book_side_of (de_side d) liquid) p in
         if de_action d = DELETE_LEVEL \<and> previous = None then raise ''L2 delete references an absent price level''
         else let consumed_gap = max 0 (dsub E (level_quantity E previous) (level_quantity E previous_liquidity));
                  current = (if de_action d = DELETE_LEVEL then 0 else decimal E (de_quantity d));
                  current_liquidity = max 0 (dsub E current consumed_gap);
                  decrease = max 0 (dsub E (level_quantity E previous) current) in
         if current_liquidity = 0 then Inr (None, decrease)
         else and_then (fixed E current_liquidity
                (max (scale (de_quantity d)) (max (level_scale previous) (level_scale previous_liquidity))) None)
              (\<lambda>q. Inr (Some q, decrease))
     | _ \<Rightarrow> raise ''L2 matching requires a BookSnapshot before deltas'')"

definition put_level :: "int \<Rightarrow> fixed_point option \<Rightarrow> (int, fixed_point) dict \<Rightarrow> (int, fixed_point) dict" where
  "put_level p q d = (case q of None \<Rightarrow> ddel p d | Some f \<Rightarrow> dset p f d)"

definition apply_delta :: "env \<Rightarrow> string \<Rightarrow> book_delta \<Rightarrow> fixed_point option \<times> rat \<Rightarrow> l2_model \<Rightarrow> l2_model" where
  "apply_delta E iid d staged m = (case (dget (l2_books m) iid, dget (l2_liquidity_books m) iid) of
       (Some bk, Some liquid) \<Rightarrow>
         let (staged_liquidity, decrease) = staged; p = units (de_price d); sd = de_side d;
             bk' = (set_book_side sd (put_level p (if de_action d = DELETE_LEVEL then None else Some (de_quantity d))
                      (book_side_of sd bk)) bk)\<lparr>bk_sequence := de_sequence d\<rparr>;
             liquid' = (set_book_side sd (put_level p staged_liquidity (book_side_of sd liquid)) liquid)
                         \<lparr>bk_sequence := de_sequence d\<rparr>;
             m1 = m\<lparr>l2_books := dset iid bk' (l2_books m),
                    l2_liquidity_books := dset iid liquid' (l2_liquidity_books m)\<rparr> in
         if decrease \<noteq> 0
         then advance_queues E (iid, if sd = BID then BUY else SELL, p, scale (de_price d)) decrease m1
         else m1
     | _ \<Rightarrow> m)"

definition validate_trade :: "string \<Rightarrow> trade \<Rightarrow> l2_model \<Rightarrow> unit res" where
  "validate_trade iid t m = (case dget (l2_books m) iid of
       None \<Rightarrow> Inr ()
     | Some bk \<Rightarrow> if scale (tr_price t) \<noteq> bk_price_scale bk
                  then raise ''L2 trade price scale differs from snapshot price scale'' else Inr ())"

section \<open>Taking visible liquidity\<close>

type_synonym plan_step = "int \<times> fixed_point \<times> fixed_point option"

fun build_plan :: "env \<Rightarrow> order \<Rightarrow> (int, fixed_point) dict \<Rightarrow> rat \<Rightarrow> int list \<Rightarrow> plan_step list \<times> rat
     \<Rightarrow> (plan_step list \<times> rat) res" where
  "build_plan E ord opposite remaining [] (plan, planned) = Inr (plan, planned)"
| "build_plan E ord opposite remaining (p # ps) (plan, planned) =
     (let still_needed = dsub E remaining planned in
      if still_needed \<le> 0 then Inr (plan, planned)
      else case dget opposite p of
        None \<Rightarrow> Inl (KeyError ''price level'')
      | Some lv \<Rightarrow>
          and_then (fixed E (min still_needed (decimal E lv)) (scale (oi_quantity (ord_intent ord))) (Some ROUND_DOWN))
            (\<lambda>q. if units q \<le> 0 then build_plan E ord opposite remaining ps (plan, planned)
             else let level_after = dsub E (decimal E lv) (decimal E q) in
               and_then (if level_after = 0 then Inr None
                         else and_then (fixed E level_after (max (scale lv) (scale q)) None) (\<lambda>l. Inr (Some l)))
                 (\<lambda>left. build_plan E ord opposite remaining ps
                    (plan @ [(p, q, left)], dadd E planned (decimal E q)))))"

record taking =
  tk_model :: l2_model
  tk_bids :: "(int, fixed_point) dict"
  tk_asks :: "(int, fixed_point) dict"
  tk_fills :: "fill list"

definition tk_opposite :: "side \<Rightarrow> taking \<Rightarrow> (int, fixed_point) dict" where
  "tk_opposite sd s = (if sd = BUY then tk_asks s else tk_bids s)"

definition set_opposite :: "side \<Rightarrow> (int, fixed_point) dict \<Rightarrow> taking \<Rightarrow> taking" where
  "set_opposite sd d s = (if sd = BUY then s\<lparr>tk_asks := d\<rparr> else s\<lparr>tk_bids := d\<rparr>)"

text \<open>One planned level: the fill, the makers queued there move up, the level shrinks.\<close>

definition take_level :: "env \<Rightarrow> market_event \<Rightarrow> nat \<Rightarrow> order \<Rightarrow> taking \<times> rat \<Rightarrow> plan_step \<Rightarrow> (taking \<times> rat) res" where
  "take_level E ev price_scale ord acc step = (case (acc, step) of ((s, filled), (p, q, left)) \<Rightarrow>
     and_then (new_fixed E p price_scale) (\<lambda>price.
     and_then (model_fill E ''l2-taker'' ev ord q price TAKER (length (tk_fills s))) (\<lambda>f.
     let sd = oi_side (ord_intent ord); resting = (if sd = BUY then SELL else BUY);
         s1 = s\<lparr>tk_fills := tk_fills s @ [f],
                tk_model := advance_queues E (me_instrument_id ev, resting, p, price_scale) (decimal E q) (tk_model s)\<rparr> in
     Inr (set_opposite sd (put_level p left (tk_opposite sd s1)) s1, dadd E filled (decimal E q)))))"

definition requeue_taker :: "env \<Rightarrow> book \<Rightarrow> order \<Rightarrow> rat \<Rightarrow> taking \<Rightarrow> taking res" where
  "requeue_taker E bk ord left s = (let oid = ord_order_id ord in
     and_then (if dget (l2_queue_remaining (tk_model s)) oid = None then Inr (tk_model s)
               else reduce_queue_remaining E oid left (tk_model s)) (\<lambda>m1.
     and_then (if dget (l2_queue_keys m1) oid \<noteq> None then Inr m1
               else queue_passive_order E ord (bk\<lparr>bk_bids := tk_bids s, bk_asks := tk_asks s\<rparr>) (Some left) m1) (\<lambda>m2.
       Inr (s\<lparr>tk_model := m2\<rparr>))))"

definition take_visible :: "env \<Rightarrow> market_event \<Rightarrow> bool \<Rightarrow> book \<Rightarrow> taking \<Rightarrow> order \<Rightarrow> taking res" where
  "take_visible E ev skip_queued bk s ord =
     (let m = tk_model s; i = ord_intent ord; oid = ord_order_id ord; sd = oi_side i in
      if \<not> eligible (l2_config m) ord ev \<or> skip_queued \<and> dget (l2_queue_keys m) oid \<noteq> None
         \<or> oi_order_type i \<in> {STOP, STOP_LIMIT} \<and> oid \<notin> set (l2_triggered_stops m) then Inr s
      else
        let opposite = tk_opposite sd s;
            prices = (if sd = BUY then sort (dkeys opposite) else rev (sort (dkeys opposite))) in
        and_then (filter_res (book_marketable E m ord (bk_price_scale bk)) prices) (\<lambda>executable.
        and_then (remaining_quantity E ord) (\<lambda>rem.
        let remaining = decimal E rem in
        and_then (build_plan E ord opposite remaining executable ([], 0)) (\<lambda>(plan, planned).
        if oi_time_in_force i = FOK \<and> planned \<noteq> remaining then Inr s
        else and_then (fold_res (take_level E ev (bk_price_scale bk) ord) (s, 0) plan) (\<lambda>(s1, filled).
          requeue_taker E bk ord (dsub E remaining filled) s1)))))"

definition consume_visible_book :: "env \<Rightarrow> market_event \<Rightarrow> order list \<Rightarrow> bool \<Rightarrow> l2_model \<Rightarrow> (l2_model \<times> fill list) res" where
  "consume_visible_book E ev orders skip_queued m =
     and_then (dneed (l2_liquidity_books m) (me_instrument_id ev)) (\<lambda>bk.
     and_then (l2_price_time_orders E m orders) (\<lambda>ords.
     and_then (fold_res (take_visible E ev skip_queued bk)
                \<lparr>tk_model = m, tk_bids = bk_bids bk, tk_asks = bk_asks bk, tk_fills = []\<rparr> ords) (\<lambda>s.
       Inr ((tk_model s)\<lparr>l2_liquidity_books := dset (me_instrument_id ev)
              (bk\<lparr>bk_bids := tk_bids s, bk_asks := tk_asks s\<rparr>) (l2_liquidity_books (tk_model s))\<rparr>, tk_fills s))))"

definition consume_saved_book :: "env \<Rightarrow> market_event \<Rightarrow> order list \<Rightarrow> l2_model \<Rightarrow> (l2_model \<times> fill list) res" where
  "consume_saved_book E ev orders m =
     (if dget (l2_liquidity_books m) (me_instrument_id ev) = None then Inr (m, [])
      else consume_visible_book E ev orders True m)"

section \<open>Resting in the queues\<close>

text \<open>
  A trade consumes the level once: every order keeps its absolute position, so the traded
  quantity is compared with what stood ahead of it and never shared between orders.
\<close>

definition queue_fill :: "env \<Rightarrow> market_event \<Rightarrow> trade \<Rightarrow> order \<Rightarrow> rat \<Rightarrow> l2_model \<Rightarrow> fill list \<Rightarrow> (l2_model \<times> fill list) res" where
  "queue_fill E ev t ord executable m fills = (let oid = ord_order_id ord in
     if executable \<le> 0 then Inr (m, fills)
     else and_then (remaining_quantity E ord) (\<lambda>q.
       and_then (dneed (l2_queue_remaining m) oid) (\<lambda>queued.
       let remaining = min (decimal E q) queued in
       if oi_time_in_force (ord_intent ord) = FOK \<and> remaining > executable then Inr (m, fills)
       else and_then (quantity_from_available E ord (min remaining executable)) (\<lambda>take.
         if units take \<le> 0 then Inr (m, fills)
         else and_then (model_fill E ''l2-maker'' ev ord take (tr_price t) MAKER (length fills)) (\<lambda>f.
           Inr (m\<lparr>l2_queue_remaining := dset oid (dsub E remaining (decimal E take)) (l2_queue_remaining m)\<rparr>,
                fills @ [f]))))))"

definition consume_queue :: "env \<Rightarrow> market_event \<Rightarrow> trade \<Rightarrow> l2_model \<times> fill list \<Rightarrow> order \<Rightarrow> (l2_model \<times> fill list) res" where
  "consume_queue E ev t acc ord = (case acc of (m, fills) \<Rightarrow>
     let i = ord_intent ord; oid = ord_order_id ord; traded = decimal E (tr_quantity t) in
     if traded \<le> 0 \<or> \<not> eligible (l2_config m) ord ev then Inr (m, fills)
     else case dget (l2_queue_ahead m) oid of
       None \<Rightarrow> Inr (m, fills)
     | Some ahead \<Rightarrow>
         if \<not> meets_aggressor i t then Inr (m, fills)
         else and_then (dneed (l2_queue_keys m) oid) (\<lambda>key.
           if key \<noteq> (me_instrument_id ev, oi_side i, units (tr_price t), scale (tr_price t)) then Inr (m, fills)
           else queue_fill E ev t ord (max 0 (dsub E traded ahead))
                  (m\<lparr>l2_queue_ahead := dset oid (max 0 (dsub E ahead traded)) (l2_queue_ahead m)\<rparr>) fills))"

definition consume_queues :: "env \<Rightarrow> market_event \<Rightarrow> trade \<Rightarrow> order list \<Rightarrow> l2_model \<Rightarrow> (l2_model \<times> fill list) res" where
  "consume_queues E ev t orders m =
     and_then (l2_price_time_orders E m orders) (\<lambda>ords. fold_res (consume_queue E ev t) (m, []) ords)"

section \<open>Matching one event\<close>

definition after_book :: "env \<Rightarrow> market_event \<Rightarrow> order list \<Rightarrow> l2_model \<Rightarrow> (l2_model \<times> fill list) res" where
  "after_book E ev orders m =
     and_then (reconcile_queues E ev orders m) (\<lambda>m1.
     and_then (trigger_stops_from_book E ev orders m1) (\<lambda>m2.
       consume_visible_book E ev orders False m2))"

definition l2_match :: "env \<Rightarrow> l2_model \<Rightarrow> market_event \<Rightarrow> order list \<Rightarrow> (l2_model \<times> fill list) res" where
  "l2_match E m ev orders = (let iid = me_instrument_id ev in
     case me_body ev of
       BookSnapshotEvent sn \<Rightarrow> and_then (stage_snapshot sn) (\<lambda>bk. after_book E ev orders (apply_snapshot iid bk m))
     | BookDeltaEvent d \<Rightarrow> and_then (stage_delta E iid d m) (\<lambda>staged.
         after_book E ev orders (apply_delta E iid d staged m))
     | TradeEvent t \<Rightarrow>
         and_then (validate_trade iid t m) (\<lambda>_.
         and_then (reconcile_queues E ev orders m) (\<lambda>m1.
         and_then (consume_saved_book E ev orders m1) (\<lambda>(m2, takers).
         and_then (trigger_stops_from_trade E ev t orders m2) (\<lambda>m3.
         and_then (consume_queues E ev t orders m3) (\<lambda>(m4, makers). Inr (m4, takers @ makers))))))
     | _ \<Rightarrow> and_then (reconcile_queues E ev orders m) (\<lambda>m1. Inr (m1, [])))"

end
