(* ===== verification/Matching_L2_Props.thy ===== *)
theory Matching_L2_Props
  imports Matching_L2 Matching_Bar_Props
begin

text \<open>
  The L2 model: an execution plan never oversells a visible level nor overfills the order,
  taker and maker fills of one event together stay within what is left of each order, and
  the model therefore meets the contract that the broker relies on.
\<close>

section \<open>Operations that only move queue positions\<close>

definition ahead_only :: "l2_model \<Rightarrow> l2_model \<Rightarrow> bool" where
  "ahead_only m m' \<longleftrightarrow> (\<exists>a. m' = m\<lparr>l2_queue_ahead := a\<rparr>)"

lemma ahead_only_refl [simp]: "ahead_only m m"
  unfolding ahead_only_def by (rule exI [of _ "l2_queue_ahead m"]) simp

lemma ahead_only_update [simp]: "ahead_only m (m\<lparr>l2_queue_ahead := a\<rparr>)"
  by (auto simp: ahead_only_def)

lemma ahead_only_trans: "ahead_only m m' \<Longrightarrow> ahead_only m' m'' \<Longrightarrow> ahead_only m m''"
  by (auto simp: ahead_only_def)

lemma ahead_onlyD:
  assumes "ahead_only m m'"
  shows "l2_config m' = l2_config m" "l2_queue_remaining m' = l2_queue_remaining m"
    "l2_queue_keys m' = l2_queue_keys m" "l2_queue_priority m' = l2_queue_priority m"
    "l2_triggered_stops m' = l2_triggered_stops m" "l2_books m' = l2_books m"
    "l2_liquidity_books m' = l2_liquidity_books m" "l2_stop_triggered_at m' = l2_stop_triggered_at m"
  using assms by (auto simp: ahead_only_def)

lemma release_one_ahead: "release_one E key rank r skip m later = Inr m' \<Longrightarrow> ahead_only m m'"
  by (cases later) (auto simp: release_one_def split: if_splits)

lemma release_later_ahead:
  assumes "release_later E key rank r skip m = Inr m'"
  shows "ahead_only m m'"
  by (rule fold_res_invariant [OF assms [unfolded release_later_def], where P = "ahead_only m"])
    (auto intro: ahead_only_trans release_one_ahead)

lemma advance_one_ahead: "ahead_only m (advance_one E key q oid m)"
  by (simp add: advance_one_def)

lemma advance_queues_ahead: "ahead_only m (advance_queues E key q m)"
proof -
  have "ahead_only m0 (fold (advance_one E key q) xs m)" if "ahead_only m0 m" for xs m0
    using that
  proof (induction xs arbitrary: m)
    case (Cons x xs)
    then show ?case using ahead_only_trans [OF Cons.prems advance_one_ahead] by simp
  qed simp
  then show ?thesis by (simp add: advance_queues_def)
qed

section \<open>What is left in the queues\<close>

definition left_in_queue :: "l2_model \<Rightarrow> string \<Rightarrow> rat option" where
  "left_in_queue m oid = dget (l2_queue_remaining m) oid"

lemma reduce_queue_remaining_effect:
  assumes "reduce_queue_remaining E oid r m = Inr m'"
  shows "l2_config m' = l2_config m" "l2_queue_keys m' = l2_queue_keys m"
    "l2_triggered_stops m' = l2_triggered_stops m"
    "x \<noteq> oid \<Longrightarrow> left_in_queue m' x = left_in_queue m x"
    "left_in_queue m' oid = Some q \<Longrightarrow> q \<le> r"
proof -
  from assms obtain previous m1 where
    p: "dget (l2_queue_remaining m) oid = Some previous"
    and m1: "m1 = m\<lparr>l2_queue_remaining := dset oid (min previous r) (l2_queue_remaining m)\<rparr>"
    and a: "ahead_only m1 m'"
    by (auto simp: reduce_queue_remaining_def dneed_def Let_def split: option.splits if_splits
        intro: release_later_ahead)
  note A = ahead_onlyD [OF a]
  show "l2_config m' = l2_config m" "l2_queue_keys m' = l2_queue_keys m"
    "l2_triggered_stops m' = l2_triggered_stops m"
    "x \<noteq> oid \<Longrightarrow> left_in_queue m' x = left_in_queue m x"
    "left_in_queue m' oid = Some q \<Longrightarrow> q \<le> r"
    using A by (auto simp: m1 left_in_queue_def)
qed

lemma queue_passive_order_effect:
  assumes "queue_passive_order E ord bk given m = Inr m'"
  shows "l2_config m' = l2_config m" "l2_triggered_stops m' = l2_triggered_stops m"
    "x \<noteq> ord_order_id ord \<Longrightarrow> left_in_queue m' x = left_in_queue m x"
    "given = Some r \<Longrightarrow> left_in_queue m' (ord_order_id ord) \<in> {left_in_queue m (ord_order_id ord), Some r}"
proof -
  have "m' = m \<or> (\<exists>ahead key rank left. m' = enqueue (ord_order_id ord) ahead key rank left m
      \<and> (given = Some r \<longrightarrow> left = r))"
    using assms unfolding queue_passive_order_def Let_def
    by (elim and_thenE if_InrE)
      (simp, simp, simp, intro disjI2 exI conjI,
        rule sum.inject(2) [THEN iffD1, THEN sym], assumption, auto split: option.splits)
  then show "l2_config m' = l2_config m" "l2_triggered_stops m' = l2_triggered_stops m"
    "x \<noteq> ord_order_id ord \<Longrightarrow> left_in_queue m' x = left_in_queue m x"
    "given = Some r \<Longrightarrow> left_in_queue m' (ord_order_id ord) \<in> {left_in_queue m (ord_order_id ord), Some r}"
    by (auto simp: left_in_queue_def enqueue_def)
qed

section \<open>Execution plans\<close>

text \<open>Order quantities that fit the digits of the decimal context are subtracted exactly.\<close>

definition exact_order :: "env \<Rightarrow> order \<Rightarrow> bool" where
  "exact_order E ord \<longleftrightarrow> units (oi_quantity (ord_intent ord)) < 10 ^ prec E"

definition in_units :: "order \<Rightarrow> int \<Rightarrow> rat" where
  "in_units ord u = of_int u / 10 ^ scale (oi_quantity (ord_intent ord))"

definition step_ok :: "env \<Rightarrow> order \<Rightarrow> (int, fixed_point) dict \<Rightarrow> int list \<Rightarrow> plan_step \<Rightarrow> bool" where
  "step_ok E ord opposite prices st \<longleftrightarrow> (case st of (p, q, left) \<Rightarrow>
     p \<in> set prices \<and> scale q = scale (oi_quantity (ord_intent ord)) \<and> 0 < units q
     \<and> (\<exists>lv. dget opposite p = Some lv \<and> decimal E q \<le> decimal E lv
          \<and> (case left of None \<Rightarrow> dsub E (decimal E lv) (decimal E q) = 0
             | Some l \<Rightarrow> decimal E l = dsub E (decimal E lv) (decimal E q))))"

definition plan_units :: "plan_step list \<Rightarrow> int" where
  "plan_units plan = sum_list (map (\<lambda>(p, q, left). units q) plan)"

lemma plan_units_simps [simp]:
  "plan_units [] = 0"
  "plan_units ((p, q, left) # plan) = units q + plan_units plan"
  "plan_units (xs @ ys) = plan_units xs + plan_units ys"
  by (simp_all add: plan_units_def)

lemma step_ok_mono: "step_ok E ord opp ps st \<Longrightarrow> set ps \<subseteq> set qs \<Longrightarrow> step_ok E ord opp qs st"
  by (auto simp: step_ok_def)

lemma step_ok_Cons: "step_ok E ord opp ps st \<Longrightarrow> step_ok E ord opp (p # ps) st"
  by (erule step_ok_mono) auto

context fixed_env
begin

lemma in_units_sub:
  assumes "0 \<le> v" "v \<le> u" "u < 10 ^ prec E"
  shows "dsub E (in_units ord u) (in_units ord v) = in_units ord (u - v)"
proof -
  have "dsub E (in_units ord u) (in_units ord v)
      = ctx_round (prec E) (of_int (u - v) / 10 ^ scale (oi_quantity (ord_intent ord)))"
    by (simp add: dsub_def in_units_def diff_divide_distrib)
  also have "\<dots> = of_int (u - v) / 10 ^ scale (oi_quantity (ord_intent ord))"
    using assms by (intro ctx_round_exact_div) auto
  finally show ?thesis by (simp add: in_units_def)
qed

lemma in_units_add:
  assumes "0 \<le> u" "0 \<le> v" "u + v < 10 ^ prec E"
  shows "dadd E (in_units ord u) (in_units ord v) = in_units ord (u + v)"
proof -
  have "dadd E (in_units ord u) (in_units ord v)
      = ctx_round (prec E) (of_int (u + v) / 10 ^ scale (oi_quantity (ord_intent ord)))"
    by (simp add: dadd_def in_units_def add_divide_distrib)
  also have "\<dots> = of_int (u + v) / 10 ^ scale (oi_quantity (ord_intent ord))"
    using assms by (intro ctx_round_exact_div) auto
  finally show ?thesis by (simp add: in_units_def)
qed

lemma in_units_le_iff [simp]: "in_units ord u \<le> in_units ord v \<longleftrightarrow> u \<le> v"
  by (simp add: in_units_def divide_le_cancel)

lemma in_units_nonpos_iff [simp]: "in_units ord u \<le> 0 \<longleftrightarrow> u \<le> 0"
  using in_units_le_iff [of ord u 0] by (simp add: in_units_def)

lemma in_units_decimal: "scale q = scale (oi_quantity (ord_intent ord)) \<Longrightarrow> decimal E q = in_units ord (units q)"
  by (simp add: decimal_value in_units_def)

lemma in_units_remaining:
  "remaining_quantity E ord = Inr q \<Longrightarrow> decimal E q = in_units ord (order_remaining ord)"
  by (drule remaining_quantity_Inr) (simp add: in_units_decimal)

lemma fixed_down_le:
  assumes "fixed E x s (Some ROUND_DOWN) = Inr q" "0 < units q"
  shows "decimal E q \<le> x" "scale q = s"
proof -
  note F = fixed_down [OF assms(1)]
  show "scale q = s" using F by simp
  have "0 \<le> x * 10 ^ s"
  proof (rule ccontr)
    assume "\<not> 0 \<le> x * 10 ^ s"
    then have "0 \<le> - (x * 10 ^ s)" by simp
    from round_down_le [OF this] have "round_down (x * 10 ^ s) \<le> 0" by (simp add: round_down_minus)
    then show False using F assms(2) by simp
  qed
  from round_down_le [OF this] show "decimal E q \<le> x" using F by (simp add: decimal_value field_simps)
qed

lemma build_plan_step:
  assumes b: "build_plan E ord opp (in_units ord R) (p # ps) (plan, in_units ord u) = Inr res"
    and u: "0 \<le> u" "u \<le> R" "R < 10 ^ prec E"
  obtains "res = (plan, in_units ord u)"
    | "build_plan E ord opp (in_units ord R) ps (plan, in_units ord u) = Inr res"
    | q left where "step_ok E ord opp [p] (p, q, left)" "units q \<le> R - u"
        "build_plan E ord opp (in_units ord R) ps (plan @ [(p, q, left)], in_units ord (u + units q)) = Inr res"
proof (cases "R - u \<le> 0")
  case True
  then show ?thesis using b that(1) u by (simp add: Let_def in_units_sub)
next
  case False
  then obtain lv where lv: "dget opp p = Some lv"
    using b u by (cases "dget opp p") (simp_all add: Let_def in_units_sub)
  from b False u lv have "and_then (fixed E (min (in_units ord (R - u)) (decimal E lv))
        (scale (oi_quantity (ord_intent ord))) (Some ROUND_DOWN))
      (\<lambda>q. if units q \<le> 0 then build_plan E ord opp (in_units ord R) ps (plan, in_units ord u)
             else let level_after = dsub E (decimal E lv) (decimal E q) in
               and_then (if level_after = 0 then Inr None
                         else and_then (fixed E level_after (max (scale lv) (scale q)) None) (\<lambda>l. Inr (Some l)))
                 (\<lambda>left. build_plan E ord opp (in_units ord R) ps
                    (plan @ [(p, q, left)], dadd E (in_units ord u) (decimal E q)))) = Inr res"
    by (simp add: Let_def in_units_sub del: and_then_Inr)
  then show ?thesis
  proof (elim and_thenE)
    fix q assume q: "fixed E (min (in_units ord (R - u)) (decimal E lv))
        (scale (oi_quantity (ord_intent ord))) (Some ROUND_DOWN) = Inr q"
      and k: "(if units q \<le> 0 then build_plan E ord opp (in_units ord R) ps (plan, in_units ord u)
             else let level_after = dsub E (decimal E lv) (decimal E q) in
               and_then (if level_after = 0 then Inr None
                         else and_then (fixed E level_after (max (scale lv) (scale q)) None) (\<lambda>l. Inr (Some l)))
                 (\<lambda>left. build_plan E ord opp (in_units ord R) ps
                    (plan @ [(p, q, left)], dadd E (in_units ord u) (decimal E q)))) = Inr res"
    show ?thesis
    proof (cases "units q \<le> 0")
      case True
      then show ?thesis using k that(2) by simp
    next
      case pos: False
      then have F: "decimal E q \<le> min (in_units ord (R - u)) (decimal E lv)"
        "scale q = scale (oi_quantity (ord_intent ord))"
        using fixed_down_le [OF q] by simp_all
      have le: "units q \<le> R - u" using F in_units_decimal [OF F(2)] by simp
      from k pos obtain left where l: "(if dsub E (decimal E lv) (decimal E q) = 0 then Inr None
            else and_then (fixed E (dsub E (decimal E lv) (decimal E q)) (max (scale lv) (scale q)) None)
                   (\<lambda>l. Inr (Some l))) = Inr left"
        and rest: "build_plan E ord opp (in_units ord R) ps
            (plan @ [(p, q, left)], dadd E (in_units ord u) (decimal E q)) = Inr res"
        by (auto simp: Let_def split del: if_split)
      have "step_ok E ord opp [p] (p, q, left)"
        using l F lv pos fixed_exact
        by (auto simp: step_ok_def decimal_value split: if_splits)
      moreover have "dadd E (in_units ord u) (decimal E q) = in_units ord (u + units q)"
        using in_units_decimal [OF F(2)] u pos le by (simp add: in_units_add)
      ultimately show ?thesis using that(3) le rest by simp
    qed
  qed
qed

lemma build_plan_ok:
  assumes "build_plan E ord opp (in_units ord R) ps (plan, in_units ord u) = Inr (plan', planned)"
    "0 \<le> u" "u \<le> R" "R < 10 ^ prec E"
  shows "\<exists>new. plan' = plan @ new \<and> planned = in_units ord (u + plan_units new) \<and> u + plan_units new \<le> R
     \<and> (\<forall>st \<in> set new. step_ok E ord opp ps st)"
  using assms
proof (induction ps arbitrary: plan u)
  case Nil
  then show ?case by simp
next
  case (Cons p ps)
  from Cons.prems(1) show ?case
  proof (rule build_plan_step [OF _ Cons.prems(2-4)])
    assume "(plan', planned) = (plan, in_units ord u)"
    then show ?thesis using Cons.prems(2,3) by (intro exI [of _ "[]"]) simp
  next
    assume "build_plan E ord opp (in_units ord R) ps (plan, in_units ord u) = Inr (plan', planned)"
    from Cons.IH [OF this Cons.prems(2-4)] show ?thesis by (auto intro: step_ok_Cons)
  next
    fix q left assume q: "step_ok E ord opp [p] (p, q, left)" "units q \<le> R - u"
      and r: "build_plan E ord opp (in_units ord R) ps (plan @ [(p, q, left)], in_units ord (u + units q))
        = Inr (plan', planned)"
    have pos: "0 < units q" using q(1) by (simp add: step_ok_def)
    from Cons.IH [OF r _ _ Cons.prems(4)] Cons.prems(2) q(2) pos obtain new
      where "plan' = plan @ (p, q, left) # new" "planned = in_units ord (u + (units q + plan_units new))"
        "u + (units q + plan_units new) \<le> R" "\<forall>st \<in> set new. step_ok E ord opp ps st"
      by (auto simp: add.assoc)
    then show ?thesis using q(1)
      by (intro exI [of _ "(p, q, left) # new"]) (auto intro: step_ok_mono)
  qed
qed

end

section \<open>Taking visible liquidity\<close>

text \<open>The fills that one order added: they belong to it, and what it still queues is what they leave.\<close>

definition added_fills :: "market_event \<Rightarrow> model_config \<Rightarrow> order \<Rightarrow> fill list \<Rightarrow> bool" where
  "added_fills ev c ord fs \<longleftrightarrow> (\<forall>f \<in> set fs. fill_for ev c ord f)
     \<and> filled_units fs (ord_order_id ord) \<le> order_remaining ord"

definition queue_leaves :: "l2_model \<Rightarrow> order \<Rightarrow> fill list \<Rightarrow> bool" where
  "queue_leaves m ord fs \<longleftrightarrow> (fs \<noteq> [] \<longrightarrow> (\<forall>r. left_in_queue m (ord_order_id ord) = Some r \<longrightarrow>
     r \<le> in_units ord (order_remaining ord - filled_units fs (ord_order_id ord))))"

lemma set_opposite_simps [simp]:
  "tk_model (set_opposite sd d s) = tk_model s" "tk_fills (set_opposite sd d s) = tk_fills s"
  by (simp_all add: set_opposite_def)

lemma plan_units_nonneg: "(\<And>st. st \<in> set plan \<Longrightarrow> step_ok E ord opp ps st) \<Longrightarrow> 0 \<le> plan_units plan"
proof (induction plan)
  case Nil
  then show ?case by simp
next
  case (Cons st plan)
  obtain p q left where st: "st = (p, q, left)" by (metis prod_cases3)
  have "0 < units q" using Cons.prems [of st] by (simp add: step_ok_def st)
  moreover have "0 \<le> plan_units plan" using Cons.IH Cons.prems by simp
  ultimately show ?case by (simp add: st)
qed

context fixed_env
begin

lemma take_plan:
  assumes "fold_res (take_level E ev s0 ord) (s, in_units ord u) plan = Inr (s', filled)"
    and "\<And>st. st \<in> set plan \<Longrightarrow> step_ok E ord opp ps st"
    and "0 \<le> u" "u + plan_units plan \<le> order_remaining ord" "order_remaining ord < 10 ^ prec E"
    and "eligible c ord ev"
  shows "\<exists>fs. tk_fills s' = tk_fills s @ fs \<and> ahead_only (tk_model s) (tk_model s')
     \<and> filled = in_units ord (u + plan_units plan) \<and> (\<forall>f \<in> set fs. fill_for ev c ord f)
     \<and> filled_units fs (ord_order_id ord) = plan_units plan"
  using assms(1-4)
proof (induction plan arbitrary: s u)
  case Nil
  then show ?case by simp
next
  case (Cons st plan)
  obtain p q left where st: "st = (p, q, left)" by (metis prod_cases3)
  have ok: "scale q = scale (oi_quantity (ord_intent ord))" "0 < units q"
    using Cons.prems(2) [of st] by (auto simp: step_ok_def st)
  have rest: "0 \<le> plan_units plan" by (rule plan_units_nonneg [of plan E ord opp ps]) (simp add: Cons.prems(2))
  have le: "units q \<le> order_remaining ord" "u + units q \<le> order_remaining ord"
    using Cons.prems(3,4) rest by (simp_all add: st)
  from Cons.prems(1) obtain acc1 where step: "take_level E ev s0 ord (s, in_units ord u) st = Inr acc1"
    and more: "fold_res (take_level E ev s0 ord) acc1 plan = Inr (s', filled)"
    by auto
  have "\<exists>price f. model_fill E ''l2-taker'' ev ord q price TAKER (length (tk_fills s)) = Inr f
      \<and> tk_fills (fst acc1) = tk_fills s @ [f] \<and> ahead_only (tk_model s) (tk_model (fst acc1))
      \<and> snd acc1 = dadd E (in_units ord u) (decimal E q)"
    using step unfolding take_level_def st prod.case Let_def
    by (elim and_thenE) (rule exI, rule exI, rule conjI, assumption, auto simp: advance_queues_ahead)
  then obtain price f where f: "model_fill E ''l2-taker'' ev ord q price TAKER (length (tk_fills s)) = Inr f"
    and acc1: "tk_fills (fst acc1) = tk_fills s @ [f]" "ahead_only (tk_model s) (tk_model (fst acc1))"
      "snd acc1 = dadd E (in_units ord u) (decimal E q)" by blast
  have "snd acc1 = in_units ord (u + units q)"
    using acc1(3) in_units_decimal [OF ok(1)] Cons.prems(3) ok(2) le assms(5) by (simp add: in_units_add)
  with more have more': "fold_res (take_level E ev s0 ord) (fst acc1, in_units ord (u + units q)) plan = Inr (s', filled)"
    by (metis prod.collapse)
  note F = model_fill_for [OF f assms(6) ok(1) le(1)]
  from Cons.IH [OF more'] Cons.prems(2-4) ok(2) obtain fs where
    "tk_fills s' = tk_fills (fst acc1) @ fs" "ahead_only (tk_model (fst acc1)) (tk_model s')"
    "filled = in_units ord (u + units q + plan_units plan)" "\<forall>f \<in> set fs. fill_for ev c ord f"
    "filled_units fs (ord_order_id ord) = plan_units plan"
    by (auto simp: st)
  then show ?case
    using F acc1(1,2) by (intro exI [of _ "f # fs"])
      (auto simp: st fill_for_def add.assoc intro: ahead_only_trans)
qed

lemma requeue_taker_effect:
  assumes "requeue_taker E bk ord r s = Inr s'"
  shows "tk_fills s' = tk_fills s" "l2_config (tk_model s') = l2_config (tk_model s)"
    "x \<noteq> ord_order_id ord \<Longrightarrow> left_in_queue (tk_model s') x = left_in_queue (tk_model s) x"
    "left_in_queue (tk_model s') (ord_order_id ord) = Some q \<Longrightarrow> q \<le> r"
proof -
  let ?oid = "ord_order_id ord"
  from assms obtain m1 m2 where
    m1: "(if dget (l2_queue_remaining (tk_model s)) ?oid = None then Inr (tk_model s)
          else reduce_queue_remaining E ?oid r (tk_model s)) = Inr m1"
    and m2: "(if dget (l2_queue_keys m1) ?oid \<noteq> None then Inr m1
          else queue_passive_order E ord (bk\<lparr>bk_bids := tk_bids s, bk_asks := tk_asks s\<rparr>) (Some r) m1) = Inr m2"
    and s': "s' = s\<lparr>tk_model := m2\<rparr>"
    by (auto simp: requeue_taker_def Let_def split del: if_split)
  have 1: "l2_config m1 = l2_config (tk_model s)"
    "x \<noteq> ?oid \<Longrightarrow> left_in_queue m1 x = left_in_queue (tk_model s) x"
    "left_in_queue m1 ?oid = Some q \<Longrightarrow> q \<le> r" for x q
    using m1 reduce_queue_remaining_effect by (auto simp: left_in_queue_def split: if_splits)
  have 2: "l2_config m2 = l2_config m1" "x \<noteq> ?oid \<Longrightarrow> left_in_queue m2 x = left_in_queue m1 x"
    "left_in_queue m2 ?oid \<in> {left_in_queue m1 ?oid, Some r}" for x
    using m2 queue_passive_order_effect by (auto split: if_splits)
  show "tk_fills s' = tk_fills s" "l2_config (tk_model s') = l2_config (tk_model s)"
    "x \<noteq> ord_order_id ord \<Longrightarrow> left_in_queue (tk_model s') x = left_in_queue (tk_model s) x"
    "left_in_queue (tk_model s') (ord_order_id ord) = Some q \<Longrightarrow> q \<le> r"
    using 1 2 by (auto simp: s')
qed

lemma take_visible_effect:
  assumes t: "take_visible E ev skip bk s ord = Inr s'" and oi: "order_inv ord" and ex: "exact_order E ord"
  shows "\<exists>fs. tk_fills s' = tk_fills s @ fs \<and> added_fills ev (l2_config (tk_model s)) ord fs
     \<and> queue_leaves (tk_model s') ord fs \<and> l2_config (tk_model s') = l2_config (tk_model s)
     \<and> (\<forall>x. x \<noteq> ord_order_id ord \<longrightarrow> left_in_queue (tk_model s') x = left_in_queue (tk_model s) x)"
proof -
  let ?R = "order_remaining ord"
  have R: "0 \<le> ?R" "?R < 10 ^ prec E"
    using oi ex order_inv_remaining by (auto simp: exact_order_def order_inv_def Let_def order_remaining_def)
  have nil: ?thesis if "s' = s"
    using that R(1) by (intro exI [of _ "[]"]) (simp add: added_fills_def queue_leaves_def)
  show ?thesis
  proof (cases "eligible (l2_config (tk_model s)) ord ev \<and> s' \<noteq> s")
    case False
    then show ?thesis using nil t by (auto simp: take_visible_def Let_def)
  next
    case True
    then obtain ps rem plan planned s1 filled opp where
      rem: "remaining_quantity E ord = Inr rem"
      and plan: "build_plan E ord opp (decimal E rem) ps ([], 0) = Inr (plan, planned)"
      and fills: "fold_res (take_level E ev (bk_price_scale bk) ord) (s, 0) plan = Inr (s1, filled)"
      and req: "requeue_taker E bk ord (dsub E (decimal E rem) filled) s1 = Inr s'"
      using t by (auto simp: take_visible_def Let_def split: if_splits prod.splits)
    have z: "(0 :: rat) = in_units ord 0" by (simp add: in_units_def)
    note Q = requeue_taker_effect [OF req]
    from build_plan_ok [OF plan [unfolded in_units_remaining [OF rem] z] _ R] obtain new
      where new: "plan = new" "plan_units new \<le> ?R" "\<forall>st \<in> set new. step_ok E ord opp ps st" by auto
    have el: "eligible (l2_config (tk_model s)) ord ev" using True by simp
    from take_plan [OF fills [unfolded z] _ _ _ R(2) el, of opp ps] new obtain fs where
      fs: "tk_fills s1 = tk_fills s @ fs" "ahead_only (tk_model s) (tk_model s1)" "filled = in_units ord (plan_units plan)"
        "\<forall>f \<in> set fs. fill_for ev (l2_config (tk_model s)) ord f"
        "filled_units fs (ord_order_id ord) = plan_units plan"
      by auto
    have "0 \<le> plan_units plan" using new by (metis plan_units_nonneg)
    then have "dsub E (decimal E rem) filled = in_units ord (?R - filled_units fs (ord_order_id ord))"
      using new R fs(3,5) by (simp add: in_units_remaining [OF rem] in_units_sub)
    then show ?thesis
      using Q fs new ahead_onlyD(1,2) [OF fs(2)]
      by (intro exI [of _ fs]) (auto simp: added_fills_def queue_leaves_def left_in_queue_def)
  qed
qed

end

section \<open>The taker walk\<close>

definition taken :: "market_event \<Rightarrow> model_config \<Rightarrow> order list \<Rightarrow> l2_model \<Rightarrow> fill list \<Rightarrow> bool" where
  "taken ev c seen m fills \<longleftrightarrow> l2_config m = c
     \<and> (\<forall>f \<in> set fills. \<exists>ord \<in> set seen. fill_for ev c ord f)
     \<and> (\<forall>ord \<in> set seen. filled_units fills (ord_order_id ord) \<le> order_remaining ord
          \<and> queue_leaves m ord (filter (\<lambda>f. fl_order_id f = ord_order_id ord) fills))"

lemma filled_units_filter [simp]:
  "filled_units (filter (\<lambda>f. fl_order_id f = oid) fills) oid = filled_units fills oid"
  by (simp add: filled_units_def)

lemma filled_units_0: "(\<And>f. f \<in> set fills \<Longrightarrow> fl_order_id f \<noteq> oid) \<Longrightarrow> filled_units fills oid = 0"
  by (induction fills) auto

lemma fills_of_others:
  assumes "\<forall>f \<in> set fills. \<exists>o2 \<in> set seen. fill_for ev c o2 f" "ord_order_id ord \<notin> ord_order_id ` set seen"
    and "f \<in> set fills"
  shows "fl_order_id f \<noteq> ord_order_id ord"
proof -
  from assms(1,3) obtain o2 where "o2 \<in> set seen" "fl_order_id f = ord_order_id o2" by (auto simp: fill_for_def)
  then show ?thesis using assms(2) by (metis imageI)
qed

lemma taken_step:
  assumes t: "taken ev c seen m fills" and fresh: "ord_order_id ord \<notin> ord_order_id ` set seen"
    and fs: "added_fills ev c ord fs" "queue_leaves m' ord fs" "l2_config m' = l2_config m"
    and others: "\<forall>x. x \<noteq> ord_order_id ord \<longrightarrow> left_in_queue m' x = left_in_queue m x"
  shows "taken ev c (seen @ [ord]) m' (fills @ fs)"
proof -
  let ?oid = "ord_order_id ord"
  have ids: "fl_order_id f = ?oid" if "f \<in> set fs" for f
    using fs(1) that by (auto simp: added_fills_def fill_for_def)
  have old: "fl_order_id f \<noteq> ?oid" if "f \<in> set fills" for f
    using t that by (intro fills_of_others [OF _ fresh]) (auto simp: taken_def)
  have self: "filter (\<lambda>f. fl_order_id f = ?oid) (fills @ fs) = fs"
    using ids old by (simp add: filter_False)
  have "filled_units (fills @ fs) (ord_order_id o2) \<le> order_remaining o2
      \<and> queue_leaves m' o2 (filter (\<lambda>f. fl_order_id f = ord_order_id o2) (fills @ fs))" if o2: "o2 \<in> set seen" for o2
  proof -
    have ne: "ord_order_id o2 \<noteq> ?oid" using o2 fresh by (metis imageI)
    then have f0: "filter (\<lambda>f. fl_order_id f = ord_order_id o2) (fills @ fs)
        = filter (\<lambda>f. fl_order_id f = ord_order_id o2) fills"
      using ids by (auto simp: filter_empty_conv)
    have "filled_units (fills @ fs) (ord_order_id o2) = filled_units fills (ord_order_id o2)"
      using ids ne filled_units_0 [of fs "ord_order_id o2"] by auto
    then show ?thesis using t o2 ne others unfolding f0 by (simp add: taken_def queue_leaves_def)
  qed
  moreover have "filled_units (fills @ fs) ?oid \<le> order_remaining ord"
    using fs(1) old filled_units_0 [of fills ?oid] by (simp add: added_fills_def)
  ultimately show ?thesis
    using t fs self unfolding taken_def by (auto simp: added_fills_def simp del: filter_append)
qed

lemma l2_orders_perm: "l2_price_time_orders E m orders = Inr ords \<Longrightarrow> mset ords = mset orders"
  by (auto simp: l2_price_time_orders_def dest: sort_by_res_mset)

lemma taken_set: "taken ev c ords m fills \<Longrightarrow> set ords = set orders \<Longrightarrow> taken ev c orders m fills"
  by (simp add: taken_def)

context fixed_env
begin

lemma consume_visible_taken:
  assumes c: "consume_visible_book E ev orders skip m = Inr (m', fills)"
    and off: "offered orders" "Ball (set orders) (exact_order E)"
  shows "taken ev (l2_config m) orders m' fills"
proof -
  from c obtain bk ords s where p: "l2_price_time_orders E m orders = Inr ords"
    and f: "fold_res (take_visible E ev skip bk)
        \<lparr>tk_model = m, tk_bids = bk_bids bk, tk_asks = bk_asks bk, tk_fills = []\<rparr> ords = Inr s"
    and m': "m' = (tk_model s)\<lparr>l2_liquidity_books := dset (me_instrument_id ev)
              (bk\<lparr>bk_bids := tk_bids s, bk_asks := tk_asks s\<rparr>) (l2_liquidity_books (tk_model s))\<rparr>"
    and fills: "fills = tk_fills s"
    by (auto simp: consume_visible_book_def)
  note perm = l2_orders_perm [OF p]
  have set: "set ords = set orders" using perm by (rule mset_eq_setD)
  have d: "distinct (map ord_order_id ords)"
    by (rule distinct_ids_sort [OF _ perm]) (use off in \<open>simp add: offered_def\<close>)
  let ?P = "\<lambda>seen s. taken ev (l2_config m) seen (tk_model s) (tk_fills s)"
  have "?P ords s"
  proof (rule fold_res_prefix_invariant [OF f, where P = ?P])
    show "?P [] \<lparr>tk_model = m, tk_bids = bk_bids bk, tk_asks = bk_asks bk, tk_fills = []\<rparr>"
      by (simp add: taken_def)
  next
    fix seen ord rest s1 s2
    assume split: "ords = seen @ ord # rest" and P: "?P seen s1" and st: "take_visible E ev skip bk s1 ord = Inr s2"
    have "ord \<in> set orders" using set split by auto
    then have "order_inv ord" "exact_order E ord" using off by (auto simp: offered_def)
    from take_visible_effect [OF st this] obtain fs where "tk_fills s2 = tk_fills s1 @ fs"
      "added_fills ev (l2_config (tk_model s1)) ord fs" "queue_leaves (tk_model s2) ord fs"
      "l2_config (tk_model s2) = l2_config (tk_model s1)"
      "\<forall>x. x \<noteq> ord_order_id ord \<longrightarrow> left_in_queue (tk_model s2) x = left_in_queue (tk_model s1) x" by blast
    moreover have "ord_order_id ord \<notin> ord_order_id ` set seen" using d split by simp
    ultimately show "?P (seen @ [ord]) s2"
      using taken_step [OF P] P by (simp add: taken_def [of ev "l2_config m" seen])
  qed
  then have "taken ev (l2_config m) ords m' fills"
    by (simp add: m' fills taken_def queue_leaves_def left_in_queue_def)
  then show ?thesis by (rule taken_set) (rule set)
qed

end

section \<open>The maker walk\<close>

text \<open>What one resting order adds: nothing, or one fill within what it queues.\<close>

definition maker_step :: "market_event \<Rightarrow> l2_model \<times> fill list \<Rightarrow> order \<Rightarrow> l2_model \<times> fill list \<Rightarrow> bool" where
  "maker_step ev s ord s' \<longleftrightarrow> (case (s, s') of ((m, fills), (m', fills')) \<Rightarrow>
     l2_config m' = l2_config m
     \<and> (\<forall>x. x \<noteq> ord_order_id ord \<longrightarrow> left_in_queue m' x = left_in_queue m x)
     \<and> (fills' = fills \<or> (\<exists>f r. fills' = fills @ [f] \<and> fill_for ev (l2_config m) ord f
          \<and> left_in_queue m (ord_order_id ord) = Some r \<and> in_units ord (units (fl_quantity f)) \<le> r)))"

context fixed_env
begin

lemma queue_fill_step:
  assumes k: "queue_fill E ev t ord executable m fills = Inr s'" and el: "eligible (l2_config m) ord ev"
  shows "maker_step ev (m, fills) ord s'"
  using k unfolding queue_fill_def Let_def
proof (elim if_InrE and_thenE)
  fix q queued take f
  assume q: "remaining_quantity E ord = Inr q" and
    queued: "dneed (l2_queue_remaining m) (ord_order_id ord) = Inr queued" and
    tk: "quantity_from_available E ord (min (min (decimal E q) queued) executable) = Inr take" and
    pos: "\<not> units take \<le> 0" and
    f: "model_fill E ''l2-maker'' ev ord take (tr_price t) MAKER (length fills) = Inr f" and
    s': "Inr (m\<lparr>l2_queue_remaining := dset (ord_order_id ord) (dsub E (min (decimal E q) queued)
        (decimal E take)) (l2_queue_remaining m)\<rparr>, fills @ [f]) = Inr s'"
  have pos': "0 < units take" using pos by simp
  note Q = quantity_from_available_facts [OF tk pos']
  note F = model_fill_for [OF f el Q(1,2)]
  have "in_units ord (units take) \<le> queued"
    using Q(3) in_units_decimal [OF Q(1)] by simp
  moreover have "left_in_queue m (ord_order_id ord) = Some queued"
    using queued by (auto simp: dneed_def left_in_queue_def split: option.splits)
  ultimately show ?thesis using F s' by (auto simp: maker_step_def left_in_queue_def)
qed (auto simp: maker_step_def left_in_queue_def)

lemma consume_queue_step:
  assumes st: "consume_queue E ev t (m, fills) ord = Inr s'"
  shows "maker_step ev (m, fills) ord s'"
proof -
  have "s' = (m, fills) \<or> (\<exists>a executable. eligible (l2_config m) ord ev
      \<and> queue_fill E ev t ord executable (m\<lparr>l2_queue_ahead := a\<rparr>) fills = Inr s')"
    using st unfolding consume_queue_def Let_def prod.case
    by (auto split: option.split_asm if_split_asm elim!: and_thenE simp del: and_then_Inr)
  then show ?thesis
  proof
    assume "\<exists>a executable. eligible (l2_config m) ord ev
      \<and> queue_fill E ev t ord executable (m\<lparr>l2_queue_ahead := a\<rparr>) fills = Inr s'"
    then obtain a executable where "maker_step ev (m\<lparr>l2_queue_ahead := a\<rparr>, fills) ord s'"
      using queue_fill_step by fastforce
    then show ?thesis by (auto simp: maker_step_def left_in_queue_def)
  qed (simp add: maker_step_def)
qed

text \<open>The makers of a trade, after its takers, stay within every order together with them.\<close>

lemma consume_queues_within:
  assumes c: "consume_queues E ev t orders m = Inr (m', makers)"
    and tk: "taken ev cfg orders m takers" and off: "offered orders"
  shows "l2_config m' = cfg"
    "f \<in> set makers \<Longrightarrow> \<exists>ord \<in> set orders. fill_for ev cfg ord f"
    "ord \<in> set orders \<Longrightarrow> filled_units (takers @ makers) (ord_order_id ord) \<le> order_remaining ord"
proof -
  from c obtain ords where p: "l2_price_time_orders E m orders = Inr ords"
    and f: "fold_res (consume_queue E ev t) (m, []) ords = Inr (m', makers)"
    by (auto simp: consume_queues_def)
  note perm = l2_orders_perm [OF p]
  have set: "set ords = set orders" using perm by (rule mset_eq_setD)
  have d: "distinct (map ord_order_id ords)"
    by (rule distinct_ids_sort [OF _ perm]) (use off in \<open>simp add: offered_def\<close>)
  let ?P = "\<lambda>seen (m1, makers). l2_config m1 = cfg \<and> (\<forall>f \<in> set makers. \<exists>ord \<in> set seen. fill_for ev cfg ord f)
    \<and> (\<forall>x. x \<notin> ord_order_id ` set seen \<longrightarrow> left_in_queue m1 x = left_in_queue m x)
    \<and> (\<forall>ord \<in> set orders. filled_units (takers @ makers) (ord_order_id ord) \<le> order_remaining ord)"
  have "?P ords (m', makers)"
  proof (rule fold_res_prefix_invariant [OF f, where P = ?P])
    show "?P [] (m, [])" using tk by (auto simp: taken_def)
  next
    fix seen ord rest s1 s2
    assume split: "ords = seen @ ord # rest" and P: "?P seen s1" and st: "consume_queue E ev t s1 ord = Inr s2"
    obtain m1 f1 m2 f2 where s: "s1 = (m1, f1)" "s2 = (m2, f2)" by (metis surj_pair)
    note M = consume_queue_step [OF st [unfolded s(1)], unfolded s(2) maker_step_def prod.case]
    have o: "ord \<in> set orders" using set split by auto
    have fresh: "ord_order_id ord \<notin> ord_order_id ` set seen" using d split by simp
    have base: "l2_config m2 = cfg" "\<forall>x. x \<notin> ord_order_id ` set (seen @ [ord]) \<longrightarrow> left_in_queue m2 x = left_in_queue m x"
      using M P by (auto simp: s)
    show "?P (seen @ [ord]) s2"
    proof (cases "f2 = f1")
      case True
      then show ?thesis using base P by (auto simp: s)
    next
      case False
      then obtain f r where f2: "f2 = f1 @ [f]" and ff: "fill_for ev cfg ord f"
        and r: "left_in_queue m1 (ord_order_id ord) = Some r" "in_units ord (units (fl_quantity f)) \<le> r"
        using M P by (auto simp: s)
      have f1: "filled_units f1 (ord_order_id ord) = 0"
        using P by (intro filled_units_0 fills_of_others [OF _ fresh]) (auto simp: s)
      have "left_in_queue m (ord_order_id ord) = Some r" using r(1) P fresh by (simp add: s)
      then have q: "filter (\<lambda>f. fl_order_id f = ord_order_id ord) takers \<noteq> [] \<longrightarrow>
          r \<le> in_units ord (order_remaining ord - filled_units takers (ord_order_id ord))"
        using tk o by (auto simp: taken_def queue_leaves_def)
      have "units (fl_quantity f) + filled_units takers (ord_order_id ord) \<le> order_remaining ord"
      proof (cases "filter (\<lambda>f. fl_order_id f = ord_order_id ord) takers = []")
        case True
        then have "filled_units takers (ord_order_id ord) = 0" by (simp add: filled_units_def)
        then show ?thesis using ff by (simp add: fill_for_def)
      next
        case False
        then have "in_units ord (units (fl_quantity f))
            \<le> in_units ord (order_remaining ord - filled_units takers (ord_order_id ord))"
          using q r(2) by linarith
        then show ?thesis by simp
      qed
      then have "filled_units (takers @ f2) (ord_order_id o2) \<le> order_remaining o2" if "o2 \<in> set orders" for o2
      proof (cases "o2 = ord")
        case True
        then show ?thesis using \<open>units (fl_quantity f) + filled_units takers (ord_order_id ord) \<le> order_remaining ord\<close>
            f1 ff by (simp add: f2 fill_for_def)
      next
        case False
        then have "ord_order_id o2 \<noteq> ord_order_id ord"
          using that o off by (metis offered_def distinct_map inj_onD)
        then have "filled_units (takers @ f2) (ord_order_id o2) = filled_units (takers @ f1) (ord_order_id o2)"
          using ff by (simp add: f2 fill_for_def)
        then show ?thesis using P that by (simp add: s)
      qed
      then show ?thesis using base ff P by (auto simp: s f2)
    qed
  qed
  then show "l2_config m' = cfg"
    "f \<in> set makers \<Longrightarrow> \<exists>ord \<in> set orders. fill_for ev cfg ord f"
    "ord \<in> set orders \<Longrightarrow> filled_units (takers @ makers) (ord_order_id ord) \<le> order_remaining ord"
    by (simp_all add: set)
qed

end

section \<open>The other steps keep the configuration\<close>

lemma drop_queue_config [simp]: "l2_config (drop_queue oid m) = l2_config m"
  by (simp add: drop_queue_def)

lemma clear_instrument_queues_config [simp]: "l2_config (clear_instrument_queues iid m) = l2_config m"
proof -
  have "l2_config (fold drop_queue xs m) = l2_config m" for xs
    by (induction xs arbitrary: m) simp_all
  then show ?thesis by (simp add: clear_instrument_queues_def)
qed

lemma apply_snapshot_config [simp]: "l2_config (apply_snapshot iid bk m) = l2_config m"
  by (simp add: apply_snapshot_def)

lemma apply_delta_config [simp]: "l2_config (apply_delta E iid d st m) = l2_config m"
  using ahead_onlyD(1) [OF advance_queues_ahead]
  by (simp add: apply_delta_def Let_def split: option.splits prod.splits)

lemma drop_removed_config: "drop_removed E removed m oid = Inr m' \<Longrightarrow> l2_config m' = l2_config m"
  unfolding drop_removed_def
  by (elim and_thenE) (auto dest!: ahead_onlyD(1) [OF release_later_ahead] split: if_splits)

lemma reduce_active_config: "reduce_active E m x = Inr m' \<Longrightarrow> l2_config m' = l2_config m"
  by (cases x) (auto simp: reduce_active_def split: if_splits dest: reduce_queue_remaining_effect(1))

lemma queue_if_new_config: "queue_if_new E ev m ord = Inr m' \<Longrightarrow> l2_config m' = l2_config m"
  by (auto simp: queue_if_new_def split: if_splits option.splits dest: queue_passive_order_effect(1))

lemma reconcile_queues_config:
  assumes "reconcile_queues E ev orders m = Inr m'"
  shows "l2_config m' = l2_config m"
proof -
  from assms obtain removed rs m1 active m2 ords where
    1: "fold_res (drop_removed E removed) m rs = Inr m1"
    and 2: "fold_res (reduce_active E) m1 active = Inr m2"
    and 3: "fold_res (queue_if_new E ev) m2 ords = Inr m'"
    by (auto simp: reconcile_queues_def Let_def)
  have "l2_config m1 = l2_config m"
    by (rule fold_res_invariant [OF 1, where P = "\<lambda>x. l2_config x = l2_config m"]) (auto dest: drop_removed_config)
  moreover have "l2_config m2 = l2_config m1"
    by (rule fold_res_invariant [OF 2, where P = "\<lambda>x. l2_config x = l2_config m1"]) (auto dest: reduce_active_config)
  moreover have "l2_config m' = l2_config m2"
    by (rule fold_res_invariant [OF 3, where P = "\<lambda>x. l2_config x = l2_config m2"]) (auto dest: queue_if_new_config)
  ultimately show ?thesis by simp
qed

definition stops_only :: "l2_model \<Rightarrow> l2_model \<Rightarrow> bool" where
  "stops_only m m' \<longleftrightarrow> l2_config m' = l2_config m \<and> l2_queue_remaining m' = l2_queue_remaining m"

lemma trigger_one_stops: "trigger_one E ev visible m ord = Inr m' \<Longrightarrow> stops_only m m'"
  by (auto simp: trigger_one_def stops_only_def activate_stop_def split: if_splits option.splits)

lemma trigger_fold_stops:
  assumes "fold_res (trigger_one E ev visible) m ords = Inr m'"
  shows "stops_only m m'"
  by (rule fold_res_invariant [OF assms, where P = "stops_only m"])
    (auto simp: stops_only_def dest: trigger_one_stops [unfolded stops_only_def])

lemma trigger_stops_keep:
  "trigger_stops_from_book E ev orders m = Inr m' \<Longrightarrow> stops_only m m'"
  "trigger_stops_from_trade E ev t orders m = Inr m' \<Longrightarrow> stops_only m m'"
  by (auto simp: trigger_stops_from_book_def trigger_stops_from_trade_def case_prod_unfold Let_def
      intro: trigger_fold_stops)

lemma taken_stops: "taken ev c orders m fills \<Longrightarrow> stops_only m m' \<Longrightarrow> taken ev c orders m' fills"
  by (simp add: taken_def stops_only_def queue_leaves_def left_in_queue_def)

section \<open>The contract\<close>

context fixed_env
begin

lemma after_book_taken:
  assumes "after_book E ev orders m = Inr (m', fills)" "offered orders" "Ball (set orders) (exact_order E)"
  shows "taken ev (l2_config m) orders m' fills"
proof -
  from assms(1) obtain m1 m2 where "reconcile_queues E ev orders m = Inr m1"
    "trigger_stops_from_book E ev orders m1 = Inr m2" "consume_visible_book E ev orders False m2 = Inr (m', fills)"
    by (auto simp: after_book_def)
  moreover from this have "l2_config m2 = l2_config m"
    using reconcile_queues_config trigger_stops_keep(1) by (metis stops_only_def)
  ultimately show ?thesis using consume_visible_taken assms(2,3) by metis
qed

lemma l2_match_contract:
  assumes run: "l2_match E m ev orders = Inr (m', fills)"
    and off: "offered orders" "Ball (set orders) (exact_order E)"
  shows "l2_config m' = l2_config m"
    "f \<in> set fills \<Longrightarrow> \<exists>ord \<in> set orders. fill_for ev (l2_config m) ord f"
    "ord \<in> set orders \<Longrightarrow> filled_units fills (ord_order_id ord) \<le> order_remaining ord"
proof -
  let ?c = "l2_config m"
  have r: "0 \<le> order_remaining ord" if "ord \<in> set orders" for ord
    using off(1) that order_inv_remaining by (simp add: offered_def)
  have "l2_config m' = ?c \<and> (\<forall>f \<in> set fills. \<exists>ord \<in> set orders. fill_for ev ?c ord f)
    \<and> (\<forall>ord \<in> set orders. filled_units fills (ord_order_id ord) \<le> order_remaining ord)"
  proof (cases "me_body ev")
    case (BookSnapshotEvent sn)
    then obtain bk where "after_book E ev orders (apply_snapshot (me_instrument_id ev) bk m) = Inr (m', fills)"
      using run by (auto simp: l2_match_def Let_def)
    from after_book_taken [OF this off] show ?thesis by (simp add: taken_def)
  next
    case (BookDeltaEvent d)
    then obtain st where "after_book E ev orders (apply_delta E (me_instrument_id ev) d st m) = Inr (m', fills)"
      using run unfolding l2_match_def Let_def by (simp del: split_paired_Ex) blast
    from after_book_taken [OF this off] show ?thesis by (simp add: taken_def)
  next
    case (TradeEvent t)
    then obtain m1 m2 takers m3 makers where rec: "reconcile_queues E ev orders m = Inr m1"
      and saved: "consume_saved_book E ev orders m1 = Inr (m2, takers)"
      and trig: "trigger_stops_from_trade E ev t orders m2 = Inr m3"
      and mk: "consume_queues E ev t orders m3 = Inr (m', makers)" and fills: "fills = takers @ makers"
      using run by (auto simp: l2_match_def Let_def)
    have "taken ev ?c orders m2 takers"
    proof (cases "dget (l2_liquidity_books m1) (me_instrument_id ev) = None")
      case True
      then show ?thesis
        using saved reconcile_queues_config [OF rec] r by (auto simp: consume_saved_book_def taken_def queue_leaves_def)
    next
      case False
      then show ?thesis
        using saved reconcile_queues_config [OF rec] consume_visible_taken off
        by (metis consume_saved_book_def)
    qed
    then have tk: "taken ev ?c orders m3 takers" by (rule taken_stops [OF _ trigger_stops_keep(2) [OF trig]])
    note M = consume_queues_within [OF mk tk off(1)]
    then show ?thesis using tk by (auto simp: fills taken_def)
  qed (use run r reconcile_queues_config in \<open>auto simp: l2_match_def Let_def\<close>)
  then show "l2_config m' = l2_config m"
    "f \<in> set fills \<Longrightarrow> \<exists>ord \<in> set orders. fill_for ev (l2_config m) ord f"
    "ord \<in> set orders \<Longrightarrow> filled_units fills (ord_order_id ord) \<le> order_remaining ord"
    by simp_all
qed

end

sublocale fixed_env \<subseteq> l2: broker_matching E "l2_match E" l2_config "exact_order E"
  by unfold_locales (rule l2_match_contract; assumption)+

context fixed_env
begin

lemmas l2_fills_booked = l2.matched_fills_are_booked

end

section \<open>The vendor book is authoritative\<close>

text \<open>Only snapshots and deltas write the vendor books; simulated fills use the consumable view.\<close>

lemma ahead_only_books: "ahead_only m m' \<Longrightarrow> l2_books m' = l2_books m"
  by (rule ahead_onlyD(6))

lemma reduce_queue_remaining_books: "reduce_queue_remaining E oid r m = Inr m' \<Longrightarrow> l2_books m' = l2_books m"
  by (auto simp: reduce_queue_remaining_def Let_def split: if_splits dest!: release_later_ahead ahead_only_books)

lemma queue_passive_order_books:
  assumes "queue_passive_order E ord bk given m = Inr m'"
  shows "l2_books m' = l2_books m"
  using assms unfolding queue_passive_order_def Let_def
  by (elim and_thenE if_InrE) (auto simp: enqueue_def)

lemma reconcile_queues_books:
  assumes "reconcile_queues E ev orders m = Inr m'"
  shows "l2_books m' = l2_books m"
proof -
  from assms obtain removed rs m1 active m2 ords where
    1: "fold_res (drop_removed E removed) m rs = Inr m1"
    and 2: "fold_res (reduce_active E) m1 active = Inr m2"
    and 3: "fold_res (queue_if_new E ev) m2 ords = Inr m'"
    by (auto simp: reconcile_queues_def Let_def)
  have drop: "l2_books x' = l2_books x" if "drop_removed E removed x oid = Inr x'" for x oid x'
    using that unfolding drop_removed_def
    by (elim and_thenE) (auto simp: drop_queue_def dest!: release_later_ahead ahead_only_books split: if_splits)
  have "l2_books m1 = l2_books m"
    by (rule fold_res_invariant [OF 1, where P = "\<lambda>x. l2_books x = l2_books m"]) (auto dest: drop)
  moreover have "l2_books m2 = l2_books m1"
    by (rule fold_res_invariant [OF 2, where P = "\<lambda>x. l2_books x = l2_books m1"])
      (auto simp: reduce_active_def split: if_splits prod.splits dest: reduce_queue_remaining_books)
  moreover have "l2_books m' = l2_books m2"
    by (rule fold_res_invariant [OF 3, where P = "\<lambda>x. l2_books x = l2_books m2"])
      (auto simp: queue_if_new_def split: if_splits option.splits dest: queue_passive_order_books)
  ultimately show ?thesis by simp
qed

lemma trigger_fold_books:
  assumes "fold_res (trigger_one E ev visible) m ords = Inr m'"
  shows "l2_books m' = l2_books m"
  by (rule fold_res_invariant [OF assms, where P = "\<lambda>x. l2_books x = l2_books m"])
    (auto simp: trigger_one_def activate_stop_def split: if_splits option.splits)

lemma take_level_books:
  "take_level E ev s0 ord acc step = Inr acc' \<Longrightarrow> l2_books (tk_model (fst acc')) = l2_books (tk_model (fst acc))"
  by (cases acc; cases step)
    (auto simp: take_level_def Let_def ahead_only_books [OF advance_queues_ahead])

lemma take_visible_books:
  assumes "take_visible E ev skip bk s ord = Inr s'"
  shows "l2_books (tk_model s') = l2_books (tk_model s)"
proof (cases "s' = s")
  case False
  with assms obtain plan s1 filled r where
    f: "fold_res (take_level E ev (bk_price_scale bk) ord) (s, 0) plan = Inr (s1, filled)"
    and q: "requeue_taker E bk ord r s1 = Inr s'"
    by (auto simp: take_visible_def Let_def split: if_splits prod.splits)
  have "l2_books (tk_model (fst (s1, filled))) = l2_books (tk_model s)"
    by (rule fold_res_invariant [OF f, where P = "\<lambda>acc. l2_books (tk_model (fst acc)) = l2_books (tk_model s)"])
      (auto dest: take_level_books)
  moreover have "l2_books (tk_model s') = l2_books (tk_model s1)"
    using q by (auto simp: requeue_taker_def Let_def split: if_splits
        dest!: reduce_queue_remaining_books queue_passive_order_books)
  ultimately show ?thesis by simp
qed simp

lemma after_book_books:
  assumes "after_book E ev orders m = Inr (m', fills)"
  shows "l2_books m' = l2_books m"
proof -
  from assms obtain m1 m2 bk ords s where
    "reconcile_queues E ev orders m = Inr m1" "trigger_stops_from_book E ev orders m1 = Inr m2"
    and f: "fold_res (take_visible E ev False bk)
        \<lparr>tk_model = m2, tk_bids = bk_bids bk, tk_asks = bk_asks bk, tk_fills = []\<rparr> ords = Inr s"
    and m': "l2_books m' = l2_books (tk_model s)"
    by (auto simp: after_book_def consume_visible_book_def)
  then have "l2_books m2 = l2_books m"
    by (auto simp: trigger_stops_from_book_def case_prod_unfold Let_def dest!: trigger_fold_books reconcile_queues_books)
  moreover have "l2_books (tk_model s) = l2_books m2"
    by (rule fold_res_invariant [OF f, where P = "\<lambda>s. l2_books (tk_model s) = l2_books m2"])
      (auto dest: take_visible_books)
  ultimately show ?thesis using m' by simp
qed

section \<open>Properties\<close>

text \<open>
  Every event's fills, takers and makers together, belong to eligible open orders and stay
  within what is left of each order, for quantities that fit the digits of the context.
\<close>

theorem l2_fills_stay_within_the_orders:
  assumes "fixed_env E" "offered orders" "Ball (set orders) (exact_order E)"
    and "l2_match E m ev orders = Inr (m', fills)"
  shows "(\<forall>f \<in> set fills. \<exists>ord \<in> set orders. fill_for ev (l2_config m) ord f)
     \<and> (\<forall>ord \<in> set orders. filled_units fills (ord_order_id ord) \<le> order_remaining ord)"
  using fixed_env.l2_match_contract(2,3) [OF assms(1,4,2,3)] by blast

text \<open>
  C10: Therefore the broker books all fills of an L2 event, takers and makers, in the order given.
\<close>

theorem l2_fills_are_always_booked:
  assumes "fixed_env E" "broker_inv b" "\<not> br_artifact_stream_closed b"
    and "\<forall>ord \<in> set orders. dget (br_orders b) (ord_order_id ord) = Some (Live ord)
         \<and> open_status (ord_status ord)"
    and "distinct (map ord_order_id orders)" "0 \<le> mc_latency (l2_config m)"
    and "\<forall>ord \<in> set orders. \<forall>u. returns (new_fixed E u (scale (oi_quantity (ord_intent ord))))"
    and "Ball (set orders) (exact_order E)" "l2_match E m ev orders = Inr (m', fills)"
  shows "\<exists>b'. fold_res (book_fill E) b fills = Inr b' \<and> broker_inv b'"
  using fixed_env.l2_fills_booked [OF assms] .

text \<open>
  C11: An execution plan takes every level at most up to its visible quantity and leaves exactly
  the rest, uses each step of the price list only, and never plans more than what is needed.
\<close>

theorem execution_plan_never_oversells:
  assumes "fixed_env E" "0 \<le> R" "R < 10 ^ prec E"
    and "build_plan E ord opposite (in_units ord R) prices ([], 0) = Inr (plan, planned)"
  shows "planned = in_units ord (plan_units plan) \<and> plan_units plan \<le> R
     \<and> (\<forall>st \<in> set plan. step_ok E ord opposite prices st)"
proof -
  have "build_plan E ord opposite (in_units ord R) prices ([], in_units ord 0) = Inr (plan, planned)"
    using assms(4) by (simp add: in_units_def)
  from fixed_env.build_plan_ok [OF assms(1) this _ assms(2,3)] show ?thesis by auto
qed

text \<open>
  C12: A delta is applied only on a known book, in sequence and at the book's price scale, and
  afterwards the vendor book differs from before in that one level and its sequence number,
  whatever the simulation took.
\<close>

theorem delta_updates_exactly_one_vendor_level:
  assumes "me_body ev = BookDeltaEvent d" "l2_match E m ev orders = Inr (m', fills)"
  shows "\<exists>bk bk'. dget (l2_books m) (me_instrument_id ev) = Some bk
     \<and> bk_sequence bk = de_previous_sequence d \<and> scale (de_price d) = bk_price_scale bk
     \<and> l2_books m' = dset (me_instrument_id ev) bk' (l2_books m)
     \<and> bk_sequence bk' = de_sequence d
     \<and> (\<forall>sd p. dget (book_side_of sd bk') p =
          (if sd = de_side d \<and> p = units (de_price d)
           then (if de_action d = DELETE_LEVEL then None else Some (de_quantity d))
           else dget (book_side_of sd bk) p))"
proof -
  let ?iid = "me_instrument_id ev"
  from assms obtain st where stage: "stage_delta E ?iid d m = Inr st"
    and after: "after_book E ev orders (apply_delta E ?iid d st m) = Inr (m', fills)"
    unfolding l2_match_def Let_def by (auto simp del: split_paired_Ex)
  from stage obtain bk liquid where b: "dget (l2_books m) ?iid = Some bk" "dget (l2_liquidity_books m) ?iid = Some liquid"
    "bk_sequence bk = de_previous_sequence d" "scale (de_price d) = bk_price_scale bk"
    by (auto simp: stage_delta_def Let_def split: option.splits if_splits)
  define bk' where "bk' = (set_book_side (de_side d) (put_level (units (de_price d))
      (if de_action d = DELETE_LEVEL then None else Some (de_quantity d)) (book_side_of (de_side d) bk)) bk)
      \<lparr>bk_sequence := de_sequence d\<rparr>"
  have "l2_books (apply_delta E ?iid d st m) = dset ?iid bk' (l2_books m)"
    using b ahead_only_books [OF advance_queues_ahead]
    by (cases st) (auto simp: apply_delta_def Let_def bk'_def)
  then have "l2_books m' = dset ?iid bk' (l2_books m)" using after_book_books [OF after] by simp
  moreover have "dget (book_side_of sd bk') p =
          (if sd = de_side d \<and> p = units (de_price d)
           then (if de_action d = DELETE_LEVEL then None else Some (de_quantity d))
           else dget (book_side_of sd bk) p)" for sd p
    by (cases sd; cases "de_side d") (simp_all add: bk'_def set_book_side_def book_side_of_def put_level_def)
  moreover have "bk_sequence bk' = de_sequence d" by (simp add: bk'_def)
  ultimately show ?thesis using b by blast
qed

section \<open>Witnesses\<close>

text \<open>A first snapshot shows four units at 100.01; the demo order, to buy ten, takes them.\<close>

definition demo_vendor_book :: book where
  "demo_vendor_book = \<lparr>bk_bids = [(9999, \<lparr>units = 50, scale = 0\<rparr>)], bk_asks = [(10001, \<lparr>units = 4, scale = 0\<rparr>)],
     bk_price_scale = 2, bk_sequence = 1\<rparr>"

definition demo_snapshot :: book_snapshot where
  "demo_snapshot = \<lparr>sn_bids = [\<lparr>lv_price = \<lparr>units = 9999, scale = 2\<rparr>, lv_quantity = \<lparr>units = 50, scale = 0\<rparr>\<rparr>],
     sn_asks = [\<lparr>lv_price = \<lparr>units = 10001, scale = 2\<rparr>, lv_quantity = \<lparr>units = 4, scale = 0\<rparr>\<rparr>], sn_sequence = 1\<rparr>"

definition demo_l2 :: l2_model where
  "demo_l2 = l2_reset \<lparr>mc_instruments = [], mc_latency = 0\<rparr>"

definition demo_seen :: l2_model where
  "demo_seen = demo_l2\<lparr>l2_books := [(''X'', demo_vendor_book)], l2_liquidity_books := [(''X'', demo_vendor_book)]\<rparr>"

lemma demo_seen_fields:
  "l2_queue_keys demo_seen = []" "l2_queue_remaining demo_seen = []" "l2_queue_ahead demo_seen = []"
  "l2_config demo_seen = \<lparr>mc_instruments = [], mc_latency = 0\<rparr>"
  "l2_books demo_seen = [(''X'', demo_vendor_book)]" "l2_liquidity_books demo_seen = [(''X'', demo_vendor_book)]"
  by (simp_all add: demo_seen_def demo_l2_def l2_reset_def)

lemma demo_resting_fields:
  "ord_intent (demo_resting oid) = demo_intent" "ord_order_id (demo_resting oid) = oid"
  "ord_filled_quantity (demo_resting oid) = \<lparr>units = 0, scale = 0\<rparr>"
  by (simp_all add: demo_resting_def order_fact_def)

lemma std_small: "\<bar>n\<bar> < 10 ^ 28 \<Longrightarrow> ctx_round (prec std_env) (of_int n) = of_int n"
  using std_exact [of "of_int n" n 0] by simp

lemma demo_remaining: "remaining_quantity std_env (demo_resting oid) = Inr \<lparr>units = 10, scale = 0\<rparr>"
  by (simp add: remaining_quantity_def demo_resting_fields demo_intent_def std_fixed)

lemma demo_plan_dec: "dsub std_env 10 0 = 10" "dsub std_env 4 4 = 0" "dadd std_env 0 4 = 4"
  using std_small [of 10] std_small [of 0] std_small [of 4] by (simp_all add: dsub_def dadd_def)

lemma demo_plan:
  "build_plan std_env (demo_resting oid) [(10001, \<lparr>units = 4, scale = 0\<rparr>)] (in_units (demo_resting oid) 10) [10001] ([], 0)
     = Inr ([(10001, \<lparr>units = 4, scale = 0\<rparr>, None)], 4)"
proof -
  have f: "fixed std_env 4 0 (Some ROUND_DOWN) = Inr \<lparr>units = 4, scale = 0\<rparr>"
    by (simp add: fixed_def of_option_def) (simp add: std_env_def round_down_def)
  show ?thesis by (simp add: in_units_def demo_resting_fields demo_intent_def demo_plan_dec Let_def f)
qed

lemma demo_l2_orders: "l2_price_time_orders std_env m [demo_resting oid] = Inr [demo_resting oid]"
  by (simp add: l2_price_time_orders_def sort_by_res_def price_rank_def demo_resting_fields) (simp add: demo_intent_def)

lemma demo_snapshot_match:
  "\<exists>m' f. l2_match std_env demo_l2 (demo_market_event (BookSnapshotEvent demo_snapshot)) [demo_resting oid]
     = Inr (m', [f])"
proof -
  let ?ev = "demo_market_event (BookSnapshotEvent demo_snapshot)" and ?o = "demo_resting oid"
  have st: "stage_snapshot demo_snapshot = Inr demo_vendor_book"
    by (simp add: stage_snapshot_def demo_snapshot_def levels_dict_def demo_vendor_book_def)
  have ap: "apply_snapshot ''X'' demo_vendor_book demo_l2 = demo_seen"
    by (simp add: apply_snapshot_def clear_instrument_queues_def demo_l2_def l2_reset_def demo_seen_def)
  have el: "eligible \<lparr>mc_instruments = [], mc_latency = 0\<rparr> ?o ?ev"
    by (simp add: eligible_def demo_resting_fields) (simp add: demo_intent_def demo_market_event_def)
  have rc: "reconcile_queues std_env ?ev [?o] demo_seen = Inr demo_seen"
    by (simp add: reconcile_queues_def demo_l2_orders demo_seen_fields dkeys_def sort_by_res_def reduce_active_def
        queue_if_new_def queue_passive_order_def may_rest_def demo_resting_fields Let_def)
      (simp add: demo_intent_def)
  have tr: "trigger_stops_from_book std_env ?ev [?o] demo_seen = Inr demo_seen"
    by (simp add: trigger_stops_from_book_def dneed_def demo_seen_fields demo_market_event_def
        case_prod_unfold sort_orders_def trigger_one_def demo_resting_fields) (simp add: demo_intent_def)
  obtain f where f: "model_fill std_env ''l2-taker'' ?ev ?o \<lparr>units = 4, scale = 0\<rparr> \<lparr>units = 10001, scale = 2\<rparr> TAKER 0 = Inr f"
    by (simp add: model_fill_def Let_def)
  let ?s = "\<lparr>tk_model = demo_seen, tk_bids = bk_bids demo_vendor_book, tk_asks = bk_asks demo_vendor_book, tk_fills = []\<rparr>"
  have bp: "build_plan std_env ?o [(10001, \<lparr>units = 4, scale = 0\<rparr>)] 10 [10001] ([], 0)
     = Inr ([(10001, \<lparr>units = 4, scale = 0\<rparr>, None)], 4)"
    using demo_plan by (simp add: in_units_def demo_resting_fields demo_intent_def)
  have tl: "take_level std_env ?ev 2 ?o (?s, 0) (10001, \<lparr>units = 4, scale = 0\<rparr>, None)
      = Inr (?s\<lparr>tk_asks := [], tk_fills := [f]\<rparr>, 4)"
    by (simp add: take_level_def std_fixed f Let_def demo_resting_fields set_opposite_def tk_opposite_def put_level_def
        advance_queues_def demo_seen_fields dkeys_def demo_plan_dec)
      (simp add: demo_intent_def demo_vendor_book_def)
  have i: "oi_side demo_intent = BUY" "oi_order_type demo_intent = MARKET" "oi_time_in_force demo_intent = DAY"
    by (simp_all add: demo_intent_def)
  have bm: "book_marketable std_env demo_seen ?o 2 p = Inr True" for p
    by (simp add: book_marketable_def demo_resting_fields i)
  have rq: "requeue_taker std_env demo_vendor_book ?o l (?s\<lparr>tk_asks := [], tk_fills := [f]\<rparr>)
      = Inr (?s\<lparr>tk_asks := [], tk_fills := [f]\<rparr>)" for l
    by (simp add: requeue_taker_def demo_resting_fields demo_seen_fields queue_passive_order_def may_rest_def i)
  have v: "bk_asks demo_vendor_book = [(10001, \<lparr>units = 4, scale = 0\<rparr>)]" "bk_price_scale demo_vendor_book = 2"
    by (simp_all add: demo_vendor_book_def)
  have "\<exists>s'. take_visible std_env ?ev False demo_vendor_book ?s ?o = Inr s' \<and> tk_fills s' = [f]"
    using tl el bp rq
    by (simp add: take_visible_def demo_resting_fields tk_opposite_def i bm v dkeys_def demo_remaining demo_seen_fields
        Let_def)
  then obtain s' where "take_visible std_env ?ev False demo_vendor_book ?s ?o = Inr s'" "tk_fills s' = [f]" by blast
  then have "\<exists>m'. consume_visible_book std_env ?ev [?o] False demo_seen = Inr (m', [f])"
    by (simp add: consume_visible_book_def demo_l2_orders dneed_def) (simp add: demo_seen_def demo_market_event_def)
  moreover have "me_body ?ev = BookSnapshotEvent demo_snapshot" "me_instrument_id ?ev = ''X''"
    by (simp_all add: demo_market_event_def)
  ultimately show ?thesis by (auto simp: l2_match_def after_book_def ap rc tr st)
qed

theorem l2_fills_stay_within_the_orders_witness:
  "\<exists>m' f. l2_match std_env demo_l2 (demo_market_event (BookSnapshotEvent demo_snapshot)) [demo_resting ''o''] = Inr (m', [f])
     \<and> fill_for (demo_market_event (BookSnapshotEvent demo_snapshot)) (l2_config demo_l2) (demo_resting ''o'') f"
proof -
  obtain m' f where run: "l2_match std_env demo_l2 (demo_market_event (BookSnapshotEvent demo_snapshot)) [demo_resting ''o'']
     = Inr (m', [f])" using demo_snapshot_match by blast
  have "Ball (set [demo_resting ''o'']) (exact_order std_env)"
    by (simp add: exact_order_def demo_resting_fields) (simp add: demo_intent_def std_env_def)
  from l2_fills_stay_within_the_orders [OF std.fixed_env_axioms demo_offered this run] run show ?thesis by simp
qed

theorem l2_fills_are_always_booked_witness:
  "\<exists>m' fills b'. l2_match std_env demo_l2 (demo_market_event (BookSnapshotEvent demo_snapshot)) [demo_live] = Inr (m', fills)
     \<and> fold_res (book_fill std_env) demo_book fills = Inr b' \<and> broker_inv b'"
proof -
  obtain m' f where run: "l2_match std_env demo_l2 (demo_market_event (BookSnapshotEvent demo_snapshot)) [demo_live]
     = Inr (m', [f])" using demo_snapshot_match [of demo_oid] by (auto simp: demo_live_resting)
  have "Ball (set [demo_live]) (exact_order std_env)"
    by (simp add: exact_order_def demo_live_resting demo_resting_fields) (simp add: demo_intent_def std_env_def)
  from l2_fills_are_always_booked [OF std.fixed_env_axioms demo_book_inv demo_book_get(2) _ _ _ _ this run] run show ?thesis
    by (simp add: demo_book_get open_status_def std_fixed returns_iff demo_intent_def demo_l2_def l2_reset_def)
qed

theorem execution_plan_never_oversells_witness:
  "step_ok std_env (demo_resting ''o'') [(10001, \<lparr>units = 4, scale = 0\<rparr>)] [10001]
     (10001, \<lparr>units = 4, scale = 0\<rparr>, None)"
  using execution_plan_never_oversells [OF std.fixed_env_axioms _ _ demo_plan, of "''o''"]
  by (simp add: std_env_def)

text \<open>On an empty set of orders, a delta sets the bid at 99.98.\<close>

definition demo_delta :: book_delta where
  "demo_delta = \<lparr>de_action = INSERT_LEVEL, de_side = BID, de_price = \<lparr>units = 9998, scale = 2\<rparr>,
     de_quantity = \<lparr>units = 7, scale = 0\<rparr>, de_sequence = 2, de_previous_sequence = 1\<rparr>"

lemma demo_delta_match:
  "\<exists>m'. l2_match std_env demo_seen (demo_market_event (BookDeltaEvent demo_delta)) [] = Inr (m', [])"
proof -
  let ?ev = "demo_market_event (BookDeltaEvent demo_delta)"
  have d: "dsub std_env 0 0 = 0" "dsub std_env 7 0 = 7" "dsub std_env 0 7 = - 7"
    using std_small [of 0] std_small [of 7] std_small [of "- 7"] by (simp_all add: dsub_def)
  have f: "fixed std_env 7 0 None = Inr \<lparr>units = 7, scale = 0\<rparr>"
    by (simp add: fixed_def of_option_def) (simp add: std_env_def)
  have st: "stage_delta std_env ''X'' demo_delta demo_seen = Inr (Some \<lparr>units = 7, scale = 0\<rparr>, 0)"
    by (simp add: stage_delta_def demo_seen_fields) (simp add: demo_vendor_book_def demo_delta_def book_side_of_def
        level_quantity_def level_scale_def d f Let_def)
  define m1 where "m1 = apply_delta std_env ''X'' demo_delta (Some \<lparr>units = 7, scale = 0\<rparr>, 0) demo_seen"
  obtain bk1 bk2 where m1: "l2_queue_keys m1 = []" "dget (l2_books m1) ''X'' = Some bk1"
      "dget (l2_liquidity_books m1) ''X'' = Some bk2"
    by (simp add: m1_def apply_delta_def demo_seen_fields Let_def)
  have rc: "reconcile_queues std_env ?ev [] m1 = Inr m1"
    by (simp add: reconcile_queues_def dkeys_def m1 sort_by_res_def l2_price_time_orders_def)
  have i: "me_instrument_id ?ev = ''X''" "me_body ?ev = BookDeltaEvent demo_delta"
    by (simp_all add: demo_market_event_def)
  have tr: "trigger_stops_from_book std_env ?ev [] m1 = Inr m1"
    by (simp add: trigger_stops_from_book_def dneed_def m1 i case_prod_unfold sort_orders_def)
  have "\<exists>m'. consume_visible_book std_env ?ev [] False m1 = Inr (m', [])"
    by (simp add: consume_visible_book_def dneed_def m1 i l2_price_time_orders_def sort_by_res_def)
  then show ?thesis by (simp add: l2_match_def i st after_book_def rc tr flip: m1_def)
qed

theorem delta_updates_exactly_one_vendor_level_witness:
  "\<exists>m' bk'. l2_match std_env demo_seen (demo_market_event (BookDeltaEvent demo_delta)) [] = Inr (m', [])
     \<and> l2_books m' = [(''X'', bk')] \<and> dget (bk_bids bk') 9998 = Some \<lparr>units = 7, scale = 0\<rparr>
     \<and> dget (bk_bids bk') 9999 = Some \<lparr>units = 50, scale = 0\<rparr>"
proof -
  let ?ev = "demo_market_event (BookDeltaEvent demo_delta)"
  obtain m' where run: "l2_match std_env demo_seen ?ev [] = Inr (m', [])" using demo_delta_match by blast
  have i: "me_instrument_id ?ev = ''X''" "me_body ?ev = BookDeltaEvent demo_delta"
    by (simp_all add: demo_market_event_def)
  have d: "units (de_price demo_delta) = 9998" "de_side demo_delta = BID" "de_action demo_delta = INSERT_LEVEL"
    "de_quantity demo_delta = \<lparr>units = 7, scale = 0\<rparr>"
    by (simp_all add: demo_delta_def)
  from delta_updates_exactly_one_vendor_level [OF i(2) run]
  obtain bk' where bk': "l2_books m' = [(''X'', bk')]"
    "\<forall>sd p. dget (book_side_of sd bk') p = (if sd = BID \<and> p = 9998 then Some \<lparr>units = 7, scale = 0\<rparr>
        else dget (book_side_of sd demo_vendor_book) p)"
    by (auto simp: i demo_seen_fields d)
  have "dget (book_side_of BID bk') 9998 = Some \<lparr>units = 7, scale = 0\<rparr>"
    "dget (book_side_of BID bk') 9999 = Some \<lparr>units = 50, scale = 0\<rparr>"
    using bk'(2) [rule_format, of BID] by (simp_all add: book_side_of_def demo_vendor_book_def)
  with run bk'(1) show ?thesis by (auto simp: book_side_of_def)
qed

end
