(* ===== verification/Text.thy ===== *)
theory Text
  imports Tokens
begin

text \<open>
  The parts of Python's standard library that the ledger and the rules use on text and
  dates: \<open>Decimal(text)\<close>, \<open>str.lower\<close>, the substring test, \<open>datetime.date()\<close> and
  \<open>date.isoformat()\<close>.
\<close>

section \<open>Text\<close>

definition lower_char :: "char \<Rightarrow> char" where
  "lower_char c = (let n = of_char c :: nat in
     if 65 \<le> n \<and> n \<le> 90 \<or> 192 \<le> n \<and> n \<le> 222 \<and> n \<noteq> 215 then char_of (n + 32) else c)"

definition py_lower :: "string \<Rightarrow> string" where
  "py_lower s = map lower_char s"

text \<open>\<open>needle in text\<close>.\<close>

fun py_in :: "string \<Rightarrow> string \<Rightarrow> bool" where
  "py_in needle [] \<longleftrightarrow> needle = []"
| "py_in needle (c # cs) \<longleftrightarrow> take (length needle) (c # cs) = needle \<or> py_in needle cs"

lemma py_in_iff: "py_in needle s \<longleftrightarrow> (\<exists>us vs. s = us @ needle @ vs)"
proof (induction s)
  case (Cons c cs)
  show ?case
  proof
    assume "py_in needle (c # cs)"
    then consider "take (length needle) (c # cs) = needle" | "py_in needle cs" by auto
    then show "\<exists>us vs. c # cs = us @ needle @ vs"
    proof cases
      case 1
      then have "c # cs = [] @ needle @ drop (length needle) (c # cs)"
        by (metis append_Nil append_take_drop_id)
      then show ?thesis by blast
    next
      case 2
      then obtain us vs where "cs = us @ needle @ vs" using Cons.IH by blast
      then have "c # cs = (c # us) @ needle @ vs" by simp
      then show ?thesis by blast
    qed
  next
    assume "\<exists>us vs. c # cs = us @ needle @ vs"
    then obtain us vs where s: "c # cs = us @ needle @ vs" by blast
    show "py_in needle (c # cs)"
    proof (cases us)
      case Nil
      then have "take (length needle) (c # cs) = needle" using s by simp
      then show ?thesis by simp
    next
      case (Cons u us')
      then have "cs = us' @ needle @ vs" using s by simp
      then show ?thesis using \<open>py_in needle cs = (\<exists>us vs. cs = us @ needle @ vs)\<close> by auto
    qed
  qed
qed simp

section \<open>Decimal numerals\<close>

text \<open>
  \<open>Decimal(text)\<close>: surrounding white space and underscores are ignored; then a sign, digits
  with at most one point and at least one digit, and an optional exponent, or one of the
  words for infinity and not-a-number.
\<close>

definition split_sign :: "string \<Rightarrow> bool \<times> string" where
  "split_sign s = (case s of
       [] \<Rightarrow> (False, s)
     | c # cs \<Rightarrow> if c = CHR ''-'' then (True, cs) else if c = CHR ''+'' then (False, cs) else (False, s))"

definition digit_value :: "char \<Rightarrow> nat" where
  "digit_value c = of_char c - 48"

definition digits_value :: "string \<Rightarrow> int" where
  "digits_value s = int (coefficient (map digit_value s))"

definition parse_exponent :: "string \<Rightarrow> int option" where
  "parse_exponent s = (let (neg, ds) = split_sign s in
     if ds = [] \<or> \<not> list_all is_digit ds then None
     else Some (if neg then - digits_value ds else digits_value ds))"

definition parse_special :: "string \<Rightarrow> pydecimal option" where
  "parse_special s = (let t = py_lower s; payload = (\<lambda>n. list_all is_digit (drop n t)) in
     if t = ''inf'' \<or> t = ''infinity'' \<or> take 3 t = ''nan'' \<and> payload 3 \<or> take 4 t = ''snan'' \<and> payload 4
     then Some NonFinite else None)"

definition parse_number :: "bool \<Rightarrow> string \<Rightarrow> pydecimal option" where
  "parse_number neg s = (let whole = takeWhile is_digit s; rest = dropWhile is_digit s;
       point = rest \<noteq> [] \<and> hd rest = CHR ''.'';
       frac = (if point then takeWhile is_digit (tl rest) else []);
       rest' = (if point then dropWhile is_digit (tl rest) else rest);
       ds = map digit_value (whole @ frac) in
     if whole @ frac = [] then None
     else if rest' = [] then Some (Finite neg ds (- int (length frac)))
     else if hd rest' \<in> {CHR ''e'', CHR ''E''}
     then map_option (\<lambda>e. Finite neg ds (e - int (length frac))) (parse_exponent (tl rest'))
     else None)"

definition py_decimal :: "string \<Rightarrow> pydecimal option" where
  "py_decimal raw = (let (neg, s) = split_sign (filter (\<lambda>c. c \<noteq> CHR ''_'') (py_strip raw)) in
     case parse_special s of Some d \<Rightarrow> Some d | None \<Rightarrow> parse_number neg s)"

lemma py_decimal_examples:
  "py_decimal ''0.15'' = Some (Finite False [0, 1, 5] (- 2))"
  "py_decimal '' -1_0e-1 '' = Some (Finite True [1, 0] (- 1))"
  "py_decimal ''1.2.3'' = None" "py_decimal ''Inf'' = Some NonFinite"
  by code_simp+

section \<open>Dates\<close>

text \<open>\<open>date()\<close> of a timestamp and \<open>isoformat()\<close> of a date, which is its proleptic Gregorian ordinal.\<close>

definition utc_date :: "instant \<Rightarrow> day" where
  "utc_date t = 719163 + t div 86400000000000"

definition civil_date :: "day \<Rightarrow> int \<times> int \<times> int" where
  "civil_date d =
     (let z = d + 305; era = z div 146097; doe = z mod 146097;
          yoe = (doe - doe div 1460 + doe div 36524 - doe div 146096) div 365;
          doy = doe - (365 * yoe + yoe div 4 - yoe div 100); mp = (5 * doy + 2) div 153;
          dd = doy - (153 * mp + 2) div 5 + 1; m = (if mp < 10 then mp + 3 else mp - 9) in
      (yoe + 400 * era + (if m \<le> 2 then 1 else 0), m, dd))"

definition pad_left :: "nat \<Rightarrow> string \<Rightarrow> string" where
  "pad_left n s = replicate (n - length s) CHR ''0'' @ s"

definition iso_date :: "day \<Rightarrow> string" where
  "iso_date d = (let (y, m, dd) = civil_date d in
     pad_left 4 (show_int y) @ CHR ''-'' # pad_left 2 (show_int m) @ CHR ''-'' # pad_left 2 (show_int dd))"

lemma civil_date_examples:
  "civil_date 719163 = (1970, 1, 1)" "civil_date 738945 = (2024, 2, 29)" "civil_date 1 = (1, 1, 1)"
  by code_simp+

end
