(* ===== verification/Effects.thy ===== *)
theory Effects
  imports Prelude
begin

text \<open>
  Operations that change a component's state and may raise half way: a Python exception does
  not undo what was assigned before it.  An effect returns its result together with the state
  it leaves, also when the result is an exception; \<open>on_error\<close> is \<open>try: ... except: ...; raise\<close>.
\<close>

type_synonym ('s, 'a) effect = "'s \<Rightarrow> 'a res \<times> 's"

definition ret :: "'a \<Rightarrow> ('s, 'a) effect" where
  "ret x s = (Inr x, s)"

definition ask :: "('s \<Rightarrow> 'a res) \<Rightarrow> ('s, 'a) effect" where
  "ask f s = (f s, s)"

definition put :: "('s \<Rightarrow> 's) \<Rightarrow> ('s, unit) effect" where
  "put u s = (Inr (), u s)"

definition bind :: "('s, 'a) effect \<Rightarrow> ('a \<Rightarrow> ('s, 'b) effect) \<Rightarrow> ('s, 'b) effect" where
  "bind p f s = (case p s of (Inl e, s') \<Rightarrow> (Inl e, s') | (Inr x, s') \<Rightarrow> f x s')"

definition andalso :: "('s, 'a) effect \<Rightarrow> ('s, 'b) effect \<Rightarrow> ('s, 'b) effect" where
  "andalso p q = bind p (\<lambda>_. q)"

definition on_error :: "('s \<Rightarrow> 's) \<Rightarrow> ('s, 'a) effect \<Rightarrow> ('s, 'a) effect" where
  "on_error undo p s = (case p s of (Inl e, s') \<Rightarrow> (Inl e, undo s') | (Inr x, s') \<Rightarrow> (Inr x, s'))"

text \<open>The value and state of an effect that returned.\<close>

definition outcome :: "('s, 'a) effect \<Rightarrow> 's \<Rightarrow> ('a \<times> 's) res" where
  "outcome p s = (case p s of (Inl e, s') \<Rightarrow> Inl e | (Inr x, s') \<Rightarrow> Inr (x, s'))"

lemma bind_Inr [res_simps]:
  "bind p f s = (Inr y, t) \<longleftrightarrow> (\<exists>x u. p s = (Inr x, u) \<and> f x u = (Inr y, t))"
  by (cases "p s"; cases "fst (p s)") (auto simp: bind_def)

lemma bind_Inl [res_simps]:
  "bind p f s = (Inl e, t) \<longleftrightarrow> p s = (Inl e, t) \<or> (\<exists>x u. p s = (Inr x, u) \<and> f x u = (Inl e, t))"
  by (cases "p s"; cases "fst (p s)") (auto simp: bind_def)

lemma andalso_Inr [res_simps]:
  "andalso p q s = (Inr y, t) \<longleftrightarrow> (\<exists>x u. p s = (Inr x, u) \<and> q u = (Inr y, t))"
  by (simp add: andalso_def bind_Inr)

lemma andalso_Inl [res_simps]:
  "andalso p q s = (Inl e, t) \<longleftrightarrow> p s = (Inl e, t) \<or> (\<exists>x u. p s = (Inr x, u) \<and> q u = (Inl e, t))"
  by (simp add: andalso_def bind_Inl)

lemma ret_iff [res_simps, simp]: "ret x s = (r, t) \<longleftrightarrow> r = Inr x \<and> t = s"
  by (auto simp: ret_def)

lemma ask_iff [res_simps, simp]: "ask f s = (r, t) \<longleftrightarrow> f s = r \<and> t = s"
  by (auto simp: ask_def)

lemma put_iff [res_simps, simp]: "put u s = (r, t) \<longleftrightarrow> r = Inr () \<and> t = u s"
  by (auto simp: put_def)

lemma on_error_Inr [res_simps]: "on_error undo p s = (Inr x, t) \<longleftrightarrow> p s = (Inr x, t)"
  by (cases "p s"; cases "fst (p s)") (auto simp: on_error_def)

lemma on_error_Inl [res_simps]:
  "on_error undo p s = (Inl e, t) \<longleftrightarrow> (\<exists>u. p s = (Inl e, u) \<and> t = undo u)"
  by (cases "p s"; cases "fst (p s)") (auto simp: on_error_def)

lemma outcome_Inr [res_simps]: "outcome p s = Inr (x, t) \<longleftrightarrow> p s = (Inr x, t)"
  by (cases "p s"; cases "fst (p s)") (auto simp: outcome_def)

lemma bind_ret [simp]: "bind (ret x) f = f x" "bind p ret = p"
  by (auto simp: bind_def ret_def fun_eq_iff split: sum.splits prod.splits)

lemma bind_assoc: "bind (bind p f) g = bind p (\<lambda>x. bind (f x) g)"
  by (auto simp: bind_def fun_eq_iff split: sum.splits prod.splits)

text \<open>
  The contract of a guarded operation: if what follows the first change raises, the undo
  step leads back to a state that looks like the one before.
\<close>

locale guarded_update =
  fixes same :: "'s \<Rightarrow> 's \<Rightarrow> bool"
  assumes same_refl: "same s s"
    and same_trans: "same s t \<Longrightarrow> same t u \<Longrightarrow> same s u"
begin

definition atomic :: "('s, 'a) effect \<Rightarrow> 's \<Rightarrow> bool" where
  "atomic p s \<longleftrightarrow> (\<forall>e t. p s = (Inl e, t) \<longrightarrow> same s t)"

lemma atomic_ask: "atomic (ask f) s"
  by (simp add: atomic_def same_refl)

lemma atomic_ask_bind: "(\<And>x. f s = Inr x \<Longrightarrow> atomic (g x) s) \<Longrightarrow> atomic (bind (ask f) g) s"
  unfolding atomic_def bind_Inl by (metis ask_iff same_refl)

lemma atomic_on_error:
  "(\<And>e t. p s = (Inl e, t) \<Longrightarrow> same s (undo t)) \<Longrightarrow> atomic (on_error undo p) s"
  by (auto simp: atomic_def on_error_Inl)

end

end
