(* ===== verification/Artifacts.thy ===== *)
theory Artifacts
  imports Broker
begin

text \<open>
  The canonical byte encodings of \<open>artifacts.py\<close> (lines 86 to 212): orders, order events,
  fees, settlements and ledger transactions, and the incremental digest of a stream of them.
\<close>

section \<open>Encodings\<close>

definition order_event_bytes :: "env \<Rightarrow> order_event \<Rightarrow> string" where
  "order_event_bytes E ev = json_object
     [(''event_id'', string_token (oe_event_id ev)),
      (''event_time'', string_token (iso_utc E (oe_event_time ev))),
      (''fill_quantity'', fixed_token (oe_fill_quantity ev)),
      (''from_status'', string_token (status_value (oe_from_status ev))),
      (''order_id'', string_token (oe_order_id ev)),
      (''reason'', string_token (oe_reason ev)),
      (''sequence'', show_int (oe_sequence ev)),
      (''to_status'', string_token (status_value (oe_to_status ev)))]"


definition order_bytes :: "env \<Rightarrow> order \<Rightarrow> string" where
  "order_bytes E ord = json_object
     [(''filled_quantity'', fixed_token (Some (ord_filled_quantity ord))),
      (''intent'', intent_bytes E (ord_intent ord)),
      (''order_id'', string_token (ord_order_id ord)),
      (''status'', string_token (status_value (ord_status ord))),
      (''version'', show_int (ord_version ord))]"

definition fee_bytes :: "env \<Rightarrow> fee \<Rightarrow> string" where
  "fee_bytes E f = json_object
     [(''account_id'', string_token (fee_account_id f)),
      (''amount'', fixed_token (Some (fee_amount f))),
      (''currency'', string_token (fee_currency f)),
      (''event_time'', string_token (iso_utc E (fee_event_time f))),
      (''fee_id'', string_token (fee_fee_id f)),
      (''fee_type'', string_token (fee_fee_type f)),
      (''fill_id'', string_token (fee_fill_id f))]"

definition settlement_bytes :: "env \<Rightarrow> settlement \<Rightarrow> string" where
  "settlement_bytes E s = json_object
     [(''account_id'', string_token (st_account_id s)),
      (''amount'', fixed_token (Some (st_amount s))),
      (''currency'', string_token (st_currency s)),
      (''event_time'', string_token (iso_utc E (st_event_time s))),
      (''instrument_id'', string_token (st_instrument_id s)),
      (''settlement_id'', string_token (st_settlement_id s)),
      (''settlement_price'', fixed_token (st_settlement_price s)),
      (''settlement_type'', string_token (st_settlement_type s))]"

definition optional_string_token :: "string option \<Rightarrow> string" where
  "optional_string_token v = (case v of None \<Rightarrow> ''null'' | Some s \<Rightarrow> string_token s)"

definition posting_bytes :: "posting \<Rightarrow> string" where
  "posting_bytes p = json_object
     [(''amount'', fixed_token (Some (po_amount p))),
      (''currency'', string_token (po_currency p)),
      (''instrument_id'', optional_string_token (po_instrument_id p)),
      (''ledger_account'', string_token (po_ledger_account p)),
      (''quantity_delta'', fixed_token (po_quantity_delta p))]"

definition json_array :: "string list \<Rightarrow> string" where
  "json_array ts = CHR ''['' # join_comma ts @ [CHR '']'']"

definition ledger_transaction_bytes :: "env \<Rightarrow> ledger_transaction \<Rightarrow> string" where
  "ledger_transaction_bytes E t = json_object
     [(''event_time'', string_token (iso_utc E (tx_event_time t))),
      (''event_type'', string_token (event_type_value (tx_event_type t))),
      (''idempotency_key'', string_token (tx_idempotency_key t)),
      (''postings'', json_array (map posting_bytes (tx_postings t))),
      (''reference_id'', string_token (tx_reference_id t)),
      (''transaction_id'', string_token (tx_transaction_id t))]"

section \<open>The digest of a stream\<close>

text \<open>\<open>_SequenceDigest\<close>: what was fed to SHA-256 so far, the number of payloads, and the flag.\<close>

record sequence_digest =
  sd_fed :: string
  sd_count :: nat
  sd_closed :: bool

definition sequence_digest_init :: sequence_digest where
  "sequence_digest_init = \<lparr>sd_fed = ''['', sd_count = 0, sd_closed = False\<rparr>"

definition sequence_digest_append :: "sequence_digest \<Rightarrow> string \<Rightarrow> sequence_digest res" where
  "sequence_digest_append d payload =
     (if sd_closed d then Inl (RuntimeError ''artifact digest is already closed'')
      else Inr (d\<lparr>sd_fed := sd_fed d @ (if sd_count d \<noteq> 0 then [CHR '',''] else []) @ payload,
                  sd_count := Suc (sd_count d)\<rparr>))"

definition sequence_digest_close :: "env \<Rightarrow> sequence_digest \<Rightarrow> string \<times> sequence_digest" where
  "sequence_digest_close E d =
     (let d' = (if sd_closed d then d else d\<lparr>sd_fed := sd_fed d @ '']'', sd_closed := True\<rparr>) in
      (sha256_hex E (sd_fed d'), d'))"

section \<open>Encodings that end by themselves\<close>

text \<open>
  The interface of the tokens: an encoding that can be told from whatever follows it.  Its
  client encodes a list between brackets.
\<close>

locale self_delimiting =
  fixes enc :: "'a \<Rightarrow> string"
  assumes enc_prefix_free: "enc x @ u = enc y @ v \<Longrightarrow> x = y \<and> u = v"
    and enc_no_bracket: "enc x @ u \<noteq> CHR '']'' # v"
begin

lemma enc_iff [simp]: "enc x @ u = enc y @ v \<longleftrightarrow> x = y \<and> u = v"
  using enc_prefix_free by blast

lemma array_inj:
  "join_comma (map enc xs) @ CHR '']'' # u = join_comma (map enc ys) @ CHR '']'' # v \<Longrightarrow> xs = ys \<and> u = v"
proof (induction xs arbitrary: ys)
  case Nil
  then show ?case
  proof (cases ys)
    case (Cons y ys')
    obtain w where "join_comma (map enc ys) = enc y @ w" by (cases ys') (auto simp: Cons)
    with Nil have "enc y @ (w @ CHR '']'' # v) = CHR '']'' # u" by simp
    then show ?thesis using enc_no_bracket by blast
  qed simp
next
  case (Cons x xs)
  show ?case
  proof (cases ys)
    case Nil
    obtain w where "join_comma (map enc (x # xs)) = enc x @ w" by (cases xs) auto
    with Cons.prems Nil have "enc x @ (w @ CHR '']'' # u) = CHR '']'' # v" by simp
    then show ?thesis using enc_no_bracket by blast
  next
    case ys: (Cons y ys')
    show ?thesis using Cons.prems Cons.IH [of ys'] by (cases xs; cases ys') (auto simp: ys)
  qed
qed

lemma json_array_inj: "json_array (map enc xs) @ u = json_array (map enc ys) @ v \<longleftrightarrow> xs = ys \<and> u = v"
  using array_inj by (auto simp: json_array_def)

end

lemma string_token_iff: "string_token s @ x = string_token t @ y \<longleftrightarrow> s = t \<and> x = y"
  using string_token_prefix_free by blast

lemma show_int_iff: "show_int i @ CHR 0x7D # x = show_int j @ CHR 0x7D # y \<longleftrightarrow> i = j \<and> x = y"
  using show_int_prefix_free [of "CHR 0x7D" "CHR 0x7D" i x j y] by (auto simp: is_digit_def)

lemma show_nat_iff: "show_nat i @ CHR '','' # x = show_nat j @ CHR '','' # y \<longleftrightarrow> i = j \<and> x = y"
  using show_int_prefix_free [of "CHR '',''" "CHR '',''" "int i" x "int j" y] by (auto simp: is_digit_def show_int_def)

lemma fixed_token_iff: "fixed_token f @ x = fixed_token g @ y \<longleftrightarrow> f = g \<and> x = y"
proof (cases f; cases g)
  fix a b assume "f = Some a" "g = Some b"
  then show ?thesis by (cases a; cases b) (auto simp: show_nat_iff show_int_iff)
qed simp_all

lemma optional_string_token_iff:
  "optional_string_token s @ x = optional_string_token t @ y \<longleftrightarrow> s = t \<and> x = y"
  by (cases s; cases t) (auto simp: optional_string_token_def string_token_iff, auto simp: string_token_def)

lemma string_token_inj: "string_token s = string_token t \<longleftrightarrow> s = t"
  using string_token_iff [of s "[]" t "[]"] by simp

lemma fixed_token_inj: "fixed_token f = fixed_token g \<longleftrightarrow> f = g"
  using fixed_token_iff [of f "[]" g "[]"] by simp

lemma optional_string_token_inj: "optional_string_token s = optional_string_token t \<longleftrightarrow> s = t"
  using optional_string_token_iff [of s "[]" t "[]"] by simp

lemma posting_bytes_iff: "posting_bytes p @ x = posting_bytes q @ y \<longleftrightarrow> p = q \<and> x = y"
  by (cases p; cases q)
    (auto simp: posting_bytes_def json_object_def quoted_def string_token_iff fixed_token_iff optional_string_token_iff
      simp del: fixed_token.simps)

interpretation postings: self_delimiting posting_bytes
  by unfold_locales (auto simp: posting_bytes_iff, simp add: posting_bytes_def json_object_def)

lemma role_value_inj: "role_value r = role_value r' \<longleftrightarrow> r = r'"
  by (cases r; cases r') simp_all

lemma side_value_inj: "side_value s = side_value s' \<longleftrightarrow> s = s'"
  by (cases s; cases s') simp_all

lemma event_type_value_inj: "event_type_value t = event_type_value t' \<longleftrightarrow> t = t'"
  by (cases t; cases t') simp_all

lemmas token_iffs = string_token_iff fixed_token_iff optional_string_token_iff postings.json_array_inj
  optional_string_token_inj string_token_inj fixed_token_inj role_value_inj side_value_inj event_type_value_inj json_object_def quoted_def

lemma sequence_digest_feed:
  "sd_count d \<noteq> 0 \<Longrightarrow> \<not> sd_closed d \<Longrightarrow>
     fold_res sequence_digest_append d ps = Inr (d\<lparr>sd_fed := sd_fed d @ concat (map ((#) CHR 0x2C) ps),
       sd_count := sd_count d + length ps\<rparr>)"
proof (induction ps arbitrary: d)
  case (Cons p ps)
  then have "sequence_digest_append d p
      = Inr (d\<lparr>sd_fed := sd_fed d @ CHR 0x2C # p, sd_count := Suc (sd_count d)\<rparr>)"
    by (simp add: sequence_digest_append_def)
  then show ?case using Cons.prems Cons.IH [of "d\<lparr>sd_fed := sd_fed d @ CHR 0x2C # p, sd_count := Suc (sd_count d)\<rparr>"]
    by simp
qed simp

lemma join_comma_concat: "join_comma (t # ts) = t @ concat (map ((#) CHR '','') ts)"
  by (induction ts arbitrary: t) simp_all

section \<open>Properties\<close>

text \<open>
  C21: The canonical bytes identify what they encode: two fills, fees, settlements or ledger
  transactions with the same bytes are the same, given that timestamps are rendered
  injectively.  This is what the digests kept during streaming and the journal rest on.
\<close>

theorem canonical_bytes_identify:
  assumes "inj (iso_utc E)"
  shows "(fill_bytes E f = fill_bytes E f' \<longleftrightarrow> f = f') \<and> (fee_bytes E e = fee_bytes E e' \<longleftrightarrow> e = e')
     \<and> (settlement_bytes E s = settlement_bytes E s' \<longleftrightarrow> s = s')
     \<and> (ledger_transaction_bytes E t = ledger_transaction_bytes E t' \<longleftrightarrow> t = t')"
proof (intro conjI)
  note utc = inj_eq [OF assms]
  show "fill_bytes E f = fill_bytes E f' \<longleftrightarrow> f = f'"
    by (cases f; cases f') (auto simp: fill_bytes_def token_iffs utc simp flip: optional_string_token_def
        simp del: fixed_token.simps)
  show "fee_bytes E e = fee_bytes E e' \<longleftrightarrow> e = e'"
    by (cases e; cases e') (auto simp: fee_bytes_def token_iffs utc simp del: fixed_token.simps)
  show "settlement_bytes E s = settlement_bytes E s' \<longleftrightarrow> s = s'"
    by (cases s; cases s') (auto simp: settlement_bytes_def token_iffs utc simp del: fixed_token.simps)
  show "ledger_transaction_bytes E t = ledger_transaction_bytes E t' \<longleftrightarrow> t = t'"
    by (cases t; cases t') (auto simp: ledger_transaction_bytes_def token_iffs utc)
qed

lemma show_int_inj: "inj show_int"
  using show_int_prefix_free [of "CHR 0x7D" "CHR 0x7D" _ "[]" _ "[]"] by (intro injI) (simp add: is_digit_def)

text \<open>
  C22: The incremental digest never refuses a payload before it is closed, and its result is the
  hash of the JSON array of all payloads; closing again changes nothing, and a closed digest
  refuses every payload.
\<close>

theorem sequence_digest_hashes_the_array:
  "\<exists>d. fold_res sequence_digest_append sequence_digest_init ps = Inr d
     \<and> fst (sequence_digest_close E d) = sha256_hex E (json_array ps)
     \<and> sequence_digest_close E (snd (sequence_digest_close E d)) = sequence_digest_close E d
     \<and> \<not> returns (sequence_digest_append (snd (sequence_digest_close E d)) p)"
proof (cases ps)
  case Nil
  then show ?thesis
    by (simp add: sequence_digest_init_def sequence_digest_close_def json_array_def sequence_digest_append_def)
next
  case (Cons q qs)
  show ?thesis
    unfolding Cons json_array_def join_comma_concat
    by (simp add: sequence_digest_init_def sequence_digest_append_def sequence_digest_feed sequence_digest_close_def)
qed

text \<open>With timestamps rendered as decimal numbers, two fees that differ in their amount have different bytes.\<close>

definition demo_fee :: "int \<Rightarrow> fee" where
  "demo_fee u = \<lparr>fee_fee_id = [], fee_fill_id = [], fee_account_id = [], fee_amount = \<lparr>units = u, scale = 2\<rparr>,
     fee_currency = [], fee_event_time = 0, fee_fee_type = []\<rparr>"

theorem canonical_bytes_identify_witness:
  "fee_bytes (std_env\<lparr>iso_utc := show_int\<rparr>) (demo_fee 1) \<noteq> fee_bytes (std_env\<lparr>iso_utc := show_int\<rparr>) (demo_fee 2)"
  using canonical_bytes_identify [of "std_env\<lparr>iso_utc := show_int\<rparr>" _ _ "demo_fee 1" "demo_fee 2"] show_int_inj
  by (auto simp: demo_fee_def)

end
