(* ===== verification/Ledger.thy ===== *)
theory Ledger
  imports Matching_L2 Text Effects Artifacts
begin

text \<open>
  \<open>ExactAccountLedger\<close> of \<open>ledger.py\<close>, first part: construction data and state, exchange
  rates, position values, and the views of the account (snapshot, risk balances, liquidation
  boundary).  An amount is the number a \<open>Decimal\<close> stands for; the exact helpers of
  \<open>_fixed.py\<close> are then plain sums and products (theory \<open>Fixed\<close>), the operators round to the
  ambient context.  The posting cache returns equal values and is left out.
\<close>

section \<open>Construction data and state\<close>

datatype fx_valuation_mode = LEGACY | EVIDENCED_PIT
datatype dividend_execution_mode = SCENARIO_ONLY | PRODUCTION_CERTIFIED

text \<open>What the ledger reads of the external corporate actions and exchange-rate evidence.\<close>

record share_entitlement =
  se_account_id :: string
  se_eligible_quantity :: fixed_point
  se_resolved_quantity :: rat
  se_sellable_date :: day
  se_reference_price :: "fixed_point option"

record corporate_action =
  ca_event_id :: string
  ca_instrument_id :: string
  ca_action_type :: string
  ca_effective_date :: day
  ca_available_at :: instant
  ca_ratio :: "fixed_point option"
  ca_cash_amount :: "fixed_point option"
  ca_currency :: "string option"
  ca_share_entitlement :: "share_entitlement option"

record pit_fx_rate =
  px_event_id :: string
  px_rate :: decimal_like
  px_fingerprint :: string

datatype ledger_event =
    FillEvent fill
  | FeeEvent fee
  | FundingEvent funding
  | SettlementEvent settlement
  | ActionEvent corporate_action

text \<open>
  The construction arguments.  The last three fields are code outside the repository: the
  digest of a canonical payload, the selection of a point-in-time rate (observations, base
  and quote currency, cutoff), and whether the artifact sink accepts a transaction.
\<close>

record ledger_config =
  lc_account_id :: string
  lc_base_currency :: string
  lc_instruments :: "(string, instrument_spec) dict"
  lc_money_scale :: nat
  lc_dividend_mode :: "dividend_execution_mode option"
  lc_fx_mode :: fx_valuation_mode
  lc_initial_cash :: "(string, fixed_point) dict"
  lc_initial_fx :: "(string, fixed_point) dict"
  lc_default_opened_at :: instant
  lc_payload_digest :: "ledger_event \<Rightarrow> string"
  lc_select_pit_fx :: "pit_fx_rate list \<Rightarrow> string \<Rightarrow> string \<Rightarrow> instant \<Rightarrow> pit_fx_rate option"
  lc_sink_accepts :: "ledger_transaction \<Rightarrow> bool"

type_synonym account_key = "string \<times> string \<times> string option"
type_synonym lot = "day \<times> rat"
type_synonym entitlement_key = "string \<times> string \<times> day"

datatype fingerprint = Whole ledger_event | Digest string

datatype replay_payload =
    ExternalCash string fixed_point string instant
  | OpeningPosition string fixed_point fixed_point day
  | MarkFact market_event string fixed_point
  | LedgerFact ledger_event "day option"

record replay_fact =
  rf_operation_sequence :: nat
  rf_payload :: replay_payload
  rf_count_before :: nat
  rf_count_after :: nat

record pit_fx_record =
  pr_observation_sequence :: nat
  pr_rate :: pit_fx_rate
  pr_operation_sequence :: nat
  pr_transaction_count :: nat

record ledger =
  lg_transactions :: "ledger_transaction list"
  lg_transaction_count :: nat
  lg_artifact_sink :: "ledger_transaction list option"
  lg_artifact_stream_closed :: bool
  lg_finalized_journal :: "string option"
  lg_transaction_keys :: "string list"
  lg_event_fingerprints :: "(string, fingerprint) dict"
  lg_fills :: "(string, fill) dict"
  lg_accounts :: "(account_key, rat) dict"
  lg_positions :: "(string, rat) dict"
  lg_marks :: "(string, rat \<times> instant \<times> string) dict"
  lg_mark_fingerprints :: "(string, market_event) dict"
  lg_fill_trading_days :: "(string, day) dict"
  lg_position_lots :: "(string, lot list) dict"
  lg_fill_close_allocations :: "(string, rat \<times> rat) dict"
  lg_dividend_entitlements :: "(entitlement_key, rat \<times> rat) dict"
  lg_pit_fx_records :: "pit_fx_record list"
  lg_replay_facts :: "replay_fact list"
  lg_replay_sequence :: nat
  lg_fx :: "(string, rat \<times> instant) dict"
  lg_fx_history :: "(string \<times> rat \<times> instant) list"
  lg_event_time :: instant

definition pit :: "ledger_config \<Rightarrow> bool" where
  "pit c \<longleftrightarrow> lc_fx_mode c = EVIDENCED_PIT"

definition ledger_require_mutable :: "ledger \<Rightarrow> unit res" where
  "ledger_require_mutable l = (if lg_artifact_stream_closed l
     then raise ''ledger artifact stream is closed; reset is required'' else Inr ())"

section \<open>Instruments\<close>

definition meta_decimal :: "instrument_spec \<Rightarrow> string \<Rightarrow> rat res" where
  "meta_decimal sp key = (case py_decimal (dget_or (sp_metadata sp) key ''0'') of
       None \<Rightarrow> raise ''InstrumentSpec metadata must be decimal''
     | Some NonFinite \<Rightarrow> raise ''InstrumentSpec metadata must be finite''
     | Some d \<Rightarrow> Inr (dval d))"

definition spec_of :: "ledger_config \<Rightarrow> string \<Rightarrow> instrument_spec res" where
  "spec_of c iid = of_option ''missing InstrumentSpec'' (dget (lc_instruments c) iid)"

definition is_derivative :: "instrument_spec \<Rightarrow> bool" where
  "is_derivative sp \<longleftrightarrow> (let product = py_lower (sp_product_type sp) in
     sp_asset_class sp = FUTURE \<or> py_in ''perpetual'' product \<or> py_in ''perp'' product)"

definition derivative_instrument :: "ledger_config \<Rightarrow> string \<Rightarrow> bool" where
  "derivative_instrument c iid \<longleftrightarrow> (case dget (lc_instruments c) iid of None \<Rightarrow> False | Some sp \<Rightarrow> is_derivative sp)"

section \<open>Arithmetic for valuation\<close>

definition sum_for_valuation :: "env \<Rightarrow> ledger_config \<Rightarrow> rat list \<Rightarrow> rat" where
  "sum_for_valuation E c vs = (if pit c then sum_list vs else dsum E vs)"

definition product_for_valuation :: "env \<Rightarrow> ledger_config \<Rightarrow> rat list \<Rightarrow> rat" where
  "product_for_valuation E c vs = (if pit c then prod_list vs else fold (\<lambda>v r. dmul E r v) vs 1)"

definition difference_for_valuation :: "env \<Rightarrow> ledger_config \<Rightarrow> rat \<Rightarrow> rat \<Rightarrow> rat" where
  "difference_for_valuation E c x y = (if pit c then x - y else dsub E x y)"

definition fixed_for_valuation :: "env \<Rightarrow> ledger_config \<Rightarrow> rat \<Rightarrow> nat \<Rightarrow> fixed_point res" where
  "fixed_for_valuation E c x s = fixed E x s (if pit c then None else Some ROUND_HALF_EVEN)"

definition require_valuation_time :: "ledger_config \<Rightarrow> ledger \<Rightarrow> instant \<Rightarrow> unit res" where
  "require_valuation_time c l t = (if pit c \<and> t < lg_event_time l
     then raise ''HISTORICAL_LEDGER_STATE_UNAVAILABLE'' else Inr ())"

section \<open>Exchange rates\<close>

definition set_fx_rate :: "env \<Rightarrow> ledger_config \<Rightarrow> string \<Rightarrow> fixed_point \<Rightarrow> instant \<Rightarrow> ledger \<Rightarrow> ledger res" where
  "set_fx_rate E c currency rate event_time l =
     and_then (ledger_require_mutable l) (\<lambda>_.
     if pit c then raise ''EVIDENCED_PIT_REJECTS_LEGACY_FX''
     else and_then (currency_code currency) (\<lambda>cur.
     and_then (utc E event_time) (\<lambda>t.
     let v = decimal E rate;
         stored = l\<lparr>lg_fx := dset cur (v, t) (lg_fx l), lg_fx_history := lg_fx_history l @ [(cur, v, t)]\<rparr> in
     if v \<le> 0 then raise ''FX rate must be positive''
     else if cur = lc_base_currency c
     then (if v \<noteq> 1 then raise ''base currency FX rate must remain exactly one'' else Inr l)
     else case dget (lg_fx l) cur of
       None \<Rightarrow> Inr stored
     | Some (prior, prior_time) \<Rightarrow>
         if t < prior_time then raise ''FX snapshot time moved backwards''
         else if t = prior_time
         then (if v \<noteq> prior then raise ''FX snapshot conflicts at the same event_time'' else Inr l)
         else Inr stored)))"

definition to_base :: "env \<Rightarrow> ledger_config \<Rightarrow> ledger \<Rightarrow> rat \<Rightarrow> string \<Rightarrow> instant \<Rightarrow> rat res" where
  "to_base E c l v currency t =
     (if v = 0 then Inr 0
      else case dget (lg_fx l) currency of
        None \<Rightarrow> raise ''missing FX snapshot''
      | Some (rate, available_at) \<Rightarrow>
          if available_at > t
          then (case find (\<lambda>(cur, _, time). cur = currency \<and> time \<le> t) (rev (lg_fx_history l)) of
                  None \<Rightarrow> raise ''FX snapshot was not available at valuation time''
                | Some (_, r, _) \<Rightarrow> Inr (dmul E v r))
          else Inr (dmul E v rate))"

definition select_valuation_rate :: "ledger_config \<Rightarrow> ledger \<Rightarrow> string \<Rightarrow> instant \<Rightarrow> pit_fx_rate res" where
  "select_valuation_rate c l currency t = of_option ''PIT_FX_UNAVAILABLE''
     (lc_select_pit_fx c (map pr_rate (lg_pit_fx_records l)) currency (lc_base_currency c) t)"

text \<open>The point-in-time branch of \<open>convert_for_valuation\<close>: a finite amount times a finite rate is exact.\<close>

definition convert_pit :: "ledger_config \<Rightarrow> ledger \<Rightarrow> rat \<Rightarrow> string \<Rightarrow> instant \<Rightarrow> rat res" where
  "convert_pit c l v currency t =
     (if v = 0 then Inr 0
      else and_then (select_valuation_rate c l currency t) (\<lambda>selected.
        case decimal_fraction (px_rate selected) of
          Inl e \<Rightarrow> raise ''PIT_VALUATION_RESULT_NOT_EXACT''
        | Inr r \<Rightarrow> Inr (v * r)))"

definition convert_for_valuation :: "env \<Rightarrow> ledger_config \<Rightarrow> ledger \<Rightarrow> rat \<Rightarrow> string \<Rightarrow> instant \<Rightarrow> rat res" where
  "convert_for_valuation E c l v currency t =
     (if pit c then and_then (require_valuation_time c l t) (\<lambda>_. convert_pit c l v currency t)
      else to_base E c l v currency t)"

definition convert_to_base :: "env \<Rightarrow> ledger_config \<Rightarrow> ledger \<Rightarrow> rat \<Rightarrow> string \<Rightarrow> instant \<Rightarrow> rat res" where
  "convert_to_base E c l v currency event_time =
     and_then (currency_code currency) (\<lambda>cur. and_then (utc E event_time) (\<lambda>t.
       convert_for_valuation E c l v cur t))"

definition next_replay_sequence :: "ledger \<Rightarrow> nat \<times> ledger" where
  "next_replay_sequence l = (lg_replay_sequence l, l\<lparr>lg_replay_sequence := Suc (lg_replay_sequence l)\<rparr>)"

definition observe_pit_fx :: "ledger_config \<Rightarrow> pit_fx_rate \<Rightarrow> ledger \<Rightarrow> (pit_fx_record \<times> ledger) res" where
  "observe_pit_fx c rate l =
     (if \<not> pit c then raise ''EVIDENCED_PIT_REQUIRED''
      else and_then (ledger_require_mutable l) (\<lambda>_.
      case find (\<lambda>r. px_event_id (pr_rate r) = px_event_id rate) (lg_pit_fx_records l) of
        Some prior \<Rightarrow> if px_fingerprint (pr_rate prior) \<noteq> px_fingerprint rate then raise ''PIT_FX_EVENT_ID_CONFLICT''
                      else Inr (prior, l)
      | None \<Rightarrow>
          let (operation_sequence, l1) = next_replay_sequence l;
              r = \<lparr>pr_observation_sequence = length (lg_pit_fx_records l), pr_rate = rate,
                   pr_operation_sequence = operation_sequence, pr_transaction_count = length (lg_transactions l)\<rparr> in
          Inr (r, l1\<lparr>lg_pit_fx_records := lg_pit_fx_records l @ [r]\<rparr>)))"

section \<open>Positions\<close>

definition account_balance :: "ledger \<Rightarrow> string \<Rightarrow> string \<Rightarrow> string option \<Rightarrow> rat" where
  "account_balance l account currency iid = dget_or (lg_accounts l) (account, currency, iid) 0"

definition cash_balance :: "ledger \<Rightarrow> string \<Rightarrow> rat" where
  "cash_balance l currency = account_balance l ''assets:cash'' currency None"

definition held :: "ledger \<Rightarrow> string \<Rightarrow> rat" where
  "held l iid = dget_or (lg_positions l) iid 0"

definition has_open_derivative_position :: "ledger_config \<Rightarrow> ledger \<Rightarrow> bool" where
  "has_open_derivative_position c l \<longleftrightarrow>
     list_ex (\<lambda>(iid, q). q \<noteq> 0 \<and> derivative_instrument c iid) (lg_positions l)"

definition position_cost :: "ledger_config \<Rightarrow> ledger \<Rightarrow> string \<Rightarrow> bool \<Rightarrow> rat res" where
  "position_cost c l iid derivative = and_then (spec_of c iid) (\<lambda>sp.
     Inr (account_balance l (if derivative then ''memo:position_cost'' else ''assets:position_cost'')
            (sp_settlement_currency sp) (Some iid)))"

definition average_cost :: "env \<Rightarrow> ledger_config \<Rightarrow> ledger \<Rightarrow> string \<Rightarrow> rat res" where
  "average_cost E c l iid = (let q = held l iid in
     if q = 0 then Inr 0
     else and_then (spec_of c iid) (\<lambda>sp.
       and_then (position_cost c l iid (is_derivative sp)) (\<lambda>cost.
       let m = decimal E (sp_contract_multiplier sp) in
       if pit c
       then (if m = 0 then Inl (ArithmeticError ''division by zero'')
             else and_then (fixed_fraction_half_even E (\<bar>cost\<bar> / \<bar>q\<bar> / m) (scale (sp_price_tick sp)))
                    (\<lambda>f. Inr (decimal E f)))
       else ddiv E (dabs E cost) (dmul E (dabs E q) m))))"

definition mark_price :: "ledger \<Rightarrow> string \<Rightarrow> rat option \<Rightarrow> rat res" where
  "mark_price l iid fallback = (case dget (lg_marks l) iid of
       Some (price, _, _) \<Rightarrow> Inr price
     | None \<Rightarrow> (case fallback of Some p \<Rightarrow> Inr p | None \<Rightarrow> raise ''missing mark price''))"

text \<open>Signed notional and profit of a quantity; without a mark the book cost is the value.\<close>

definition position_valuation ::
  "env \<Rightarrow> ledger_config \<Rightarrow> ledger \<Rightarrow> string \<Rightarrow> rat \<Rightarrow> rat option \<Rightarrow> (rat \<times> rat) res" where
  "position_valuation E c l iid q mark = and_then (spec_of c iid) (\<lambda>sp.
     let m = decimal E (sp_contract_multiplier sp) in
     if pit c
     then and_then (position_cost c l iid (is_derivative sp)) (\<lambda>cost.
       let seen = (case mark of Some p \<Rightarrow> Some p | None \<Rightarrow> map_option fst (dget (lg_marks l) iid));
           notional = (case seen of None \<Rightarrow> cost | Some p \<Rightarrow> p * q * m) in
       Inr (notional, notional - cost))
     else and_then (average_cost E c l iid) (\<lambda>average.
       and_then (case mark of Some p \<Rightarrow> Inr p | None \<Rightarrow> mark_price l iid (Some average)) (\<lambda>p.
       Inr (dmul E (dmul E p q) m, dmul E (dmul E (dsub E p average) q) m))))"

definition allocated_position_cost :: "env \<Rightarrow> ledger_config \<Rightarrow> ledger \<Rightarrow> string \<Rightarrow> rat \<Rightarrow> rat res" where
  "allocated_position_cost E c l iid q = and_then (spec_of c iid) (\<lambda>sp.
     and_then (position_cost c l iid (is_derivative sp)) (\<lambda>cost.
     case dget (lg_positions l) iid of
       None \<Rightarrow> Inl (KeyError iid)
     | Some h \<Rightarrow> if h = 0 then Inl (ArithmeticError ''division by zero'')
                 else and_then (fixed_fraction_half_even E (cost * q / \<bar>h\<bar>) (lc_money_scale c))
                        (\<lambda>f. Inr (decimal E f))))"

definition realized_of :: "env \<Rightarrow> ledger_config \<Rightarrow> ledger \<Rightarrow> string \<Rightarrow> rat res" where
  "realized_of E c l iid = and_then (spec_of c iid) (\<lambda>sp.
     let credit = account_balance l ''income:realized_pnl'' (sp_settlement_currency sp) (Some iid) in
     Inr (if pit c then - credit else dneg E credit))"

definition acquired_today :: "env \<Rightarrow> ledger \<Rightarrow> string \<Rightarrow> day \<Rightarrow> rat" where
  "acquired_today E l iid trading_day =
     dsum E (map (\<lambda>(_, q). dabs E q) (filter (\<lambda>(d, _). d \<ge> trading_day) (dget_or (lg_position_lots l) iid [])))"

definition close_allocation :: "ledger \<Rightarrow> string \<Rightarrow> (rat \<times> rat) res" where
  "close_allocation l fid = of_option ''missing close allocation'' (dget (lg_fill_close_allocations l) fid)"

end
