(* ===== verification/Ledger_Views.thy ===== *)
theory Ledger_Views
  imports Ledger
begin

text \<open>
  The read-only views of the ledger: \<open>snapshot\<close> with its net-asset-value check, the balances
  the risk gate reads, the maintenance boundary and the portfolio exposure.  Every sum over
  the positions is a fold of one step per position, as the loops of the code are.
\<close>

section \<open>Cash and receivables\<close>

definition cash_entries :: "ledger \<Rightarrow> (string \<times> rat) list" where
  "cash_entries l = map (\<lambda>((_, currency, _), amount). (currency, amount))
     (filter (\<lambda>((account, _, iid), _). account = ''assets:cash'' \<and> iid = None) (lg_accounts l))"

definition convert_entries ::
  "env \<Rightarrow> ledger_config \<Rightarrow> ledger \<Rightarrow> instant \<Rightarrow> (string \<times> rat) list \<Rightarrow> rat list res" where
  "convert_entries E c l t entries = map_res (\<lambda>(currency, amount). convert_for_valuation E c l amount currency t) entries"

definition dividend_receivable_value :: "env \<Rightarrow> ledger_config \<Rightarrow> ledger \<Rightarrow> instant \<Rightarrow> rat res" where
  "dividend_receivable_value E c l t = and_then (convert_entries E c l t
     (map (\<lambda>((_, currency, _), amount). (currency, amount))
       (filter (\<lambda>((account, _, _), _). account = ''assets:dividend_receivable'') (lg_accounts l))))
     (\<lambda>vs. Inr (sum_for_valuation E c vs))"

definition cash_and_receivables :: "env \<Rightarrow> ledger_config \<Rightarrow> ledger \<Rightarrow> instant \<Rightarrow> (string \<times> rat) list \<Rightarrow> rat res" where
  "cash_and_receivables E c l t cash =
     and_then (convert_entries E c l t cash) (\<lambda>vs.
     and_then (dividend_receivable_value E c l t) (\<lambda>receivable.
       Inr (sum_for_valuation E c vs + receivable)))"

text \<open>The cash map of a snapshot, at money scale.\<close>

definition cash_map :: "env \<Rightarrow> ledger_config \<Rightarrow> ledger \<Rightarrow> (string, fixed_point) dict res" where
  "cash_map E c l = fold_res (\<lambda>d (currency, amount).
     and_then (case dget d currency of Some f \<Rightarrow> Inr f | None \<Rightarrow> new_fixed E 0 (lc_money_scale c)) (\<lambda>f.
     and_then (fixed_for_valuation E c (decimal E f + amount) (lc_money_scale c)) (\<lambda>v.
       Inr (dset currency v d)))) [] (cash_entries l)"

section \<open>Margins\<close>

text \<open>The margin of one derivative position: its absolute notional times a declared rate, in base currency.\<close>

definition rate_margin ::
  "env \<Rightarrow> ledger_config \<Rightarrow> ledger \<Rightarrow> instant \<Rightarrow> instrument_spec \<Rightarrow> rat \<Rightarrow> string \<Rightarrow> rat res" where
  "rate_margin E c l t sp notional key = and_then (meta_decimal sp key) (\<lambda>rate.
     convert_for_valuation E c l (product_for_valuation E c [\<bar>notional\<bar>, rate]) (sp_settlement_currency sp) t)"

definition contract_margin ::
  "env \<Rightarrow> ledger_config \<Rightarrow> ledger \<Rightarrow> instant \<Rightarrow> instrument_spec \<Rightarrow> rat \<Rightarrow> string \<Rightarrow> rat res" where
  "contract_margin E c l t sp q key = and_then (meta_decimal sp key) (\<lambda>per_contract.
     convert_for_valuation E c l (product_for_valuation E c [\<bar>q\<bar>, per_contract]) (sp_settlement_currency sp) t)"

definition has_contract_margin :: "instrument_spec \<Rightarrow> bool" where
  "has_contract_margin sp \<longleftrightarrow> dget (sp_metadata sp) ''initial_margin_per_contract'' \<noteq> None"

section \<open>Snapshot\<close>

record tally =
  ta_positions :: "(string, fixed_point) dict"
  ta_costs :: "(string, fixed_point) dict"
  ta_realized :: "(string, fixed_point) dict"
  ta_unrealized :: "(string, fixed_point) dict"
  ta_nav :: rat
  ta_initial :: rat
  ta_maintenance :: rat

text \<open>The report columns of one position.\<close>

definition tally_columns ::
  "env \<Rightarrow> ledger_config \<Rightarrow> ledger \<Rightarrow> instant \<Rightarrow> instrument_spec \<Rightarrow> string \<Rightarrow> rat \<Rightarrow> tally \<Rightarrow> (tally \<times> rat \<times> rat) res" where
  "tally_columns E c l t sp iid q s =
     and_then (fixed_for_valuation E c q (scale (sp_quantity_step sp))) (\<lambda>qf.
     and_then (average_cost E c l iid) (\<lambda>average.
     and_then (fixed_for_valuation E c average (scale (sp_price_tick sp))) (\<lambda>af.
     and_then (realized_of E c l iid) (\<lambda>realized.
     and_then (convert_for_valuation E c l realized (sp_settlement_currency sp) t) (\<lambda>rb.
     and_then (fixed_for_valuation E c rb (lc_money_scale c)) (\<lambda>rf.
     and_then (position_valuation E c l iid q None) (\<lambda>(notional, pnl).
     and_then (convert_for_valuation E c l pnl (sp_settlement_currency sp) t) (\<lambda>ub.
     and_then (fixed_for_valuation E c ub (lc_money_scale c)) (\<lambda>uf.
       Inr (s\<lparr>ta_positions := dset iid qf (ta_positions s), ta_costs := dset iid af (ta_costs s),
              ta_realized := dset iid rf (ta_realized s), ta_unrealized := dset iid uf (ta_unrealized s)\<rparr>,
            notional, pnl))))))))))"

text \<open>Its part of the net asset value and of the margins.\<close>

definition tally_value ::
  "env \<Rightarrow> ledger_config \<Rightarrow> ledger \<Rightarrow> instant \<Rightarrow> instrument_spec \<Rightarrow> rat \<times> rat \<Rightarrow> tally \<Rightarrow> tally res" where
  "tally_value E c l t sp v s = (case v of (notional, pnl) \<Rightarrow>
     if is_derivative sp
     then and_then (convert_for_valuation E c l pnl (sp_settlement_currency sp) t) (\<lambda>p.
          and_then (rate_margin E c l t sp notional ''initial_margin_rate'') (\<lambda>im.
          and_then (rate_margin E c l t sp notional ''maintenance_margin_rate'') (\<lambda>mm.
            Inr (s\<lparr>ta_nav := ta_nav s + p, ta_initial := ta_initial s + im,
                   ta_maintenance := ta_maintenance s + mm\<rparr>))))
     else and_then (convert_for_valuation E c l notional (sp_settlement_currency sp) t) (\<lambda>v.
            Inr (s\<lparr>ta_nav := ta_nav s + v\<rparr>)))"

definition tally_contract_margin ::
  "env \<Rightarrow> ledger_config \<Rightarrow> ledger \<Rightarrow> instant \<Rightarrow> instrument_spec \<Rightarrow> rat \<Rightarrow> tally \<Rightarrow> tally res" where
  "tally_contract_margin E c l t sp q s =
     (if has_contract_margin sp \<and> (is_derivative sp \<or> sp_asset_class sp = OPTION \<and> q < 0)
      then and_then (contract_margin E c l t sp q ''initial_margin_per_contract'') (\<lambda>im.
           and_then (contract_margin E c l t sp q ''maintenance_margin_per_contract'') (\<lambda>mm.
             Inr (s\<lparr>ta_initial := ta_initial s + im, ta_maintenance := ta_maintenance s + mm\<rparr>)))
      else Inr s)"

definition tally_position ::
  "env \<Rightarrow> ledger_config \<Rightarrow> ledger \<Rightarrow> instant \<Rightarrow> tally \<Rightarrow> string \<times> rat \<Rightarrow> tally res" where
  "tally_position E c l t s entry = (case entry of (iid, q) \<Rightarrow>
     and_then (spec_of c iid) (\<lambda>sp.
     and_then (tally_columns E c l t sp iid q s) (\<lambda>(s1, v).
     and_then (tally_value E c l t sp v s1) (\<lambda>s2.
       tally_contract_margin E c l t sp q s2))))"

definition nav_tolerance :: "env \<Rightarrow> ledger_config \<Rightarrow> rat \<Rightarrow> rat" where
  "nav_tolerance E c nav = max (product_for_valuation E c [\<bar>nav\<bar>, 1 / 100000000]) (1 / 100)"

definition assert_nav_residual :: "env \<Rightarrow> ledger_config \<Rightarrow> ledger \<Rightarrow> account_snapshot \<Rightarrow> unit res" where
  "assert_nav_residual E c l snap = (let t = as_event_time snap; nav = decimal E (as_nav snap) in
     and_then (require_valuation_time c l t) (\<lambda>_.
     and_then (map_res (\<lambda>(currency, f). convert_for_valuation E c l (decimal E f) currency t)
                 (as_cash_balances snap)) (\<lambda>cash.
     and_then (dividend_receivable_value E c l t) (\<lambda>receivable.
     and_then (fold_res (\<lambda>expected (iid, qf).
         and_then (spec_of c iid) (\<lambda>sp.
         and_then (position_valuation E c l iid (decimal E qf) None) (\<lambda>(notional, pnl).
         and_then (convert_for_valuation E c l (if is_derivative sp then pnl else notional)
                     (sp_settlement_currency sp) t) (\<lambda>v. Inr (expected + v)))))
       (sum_list cash + receivable) (as_positions snap)) (\<lambda>expected.
     if \<bar>difference_for_valuation E c nav expected\<bar> > nav_tolerance E c nav
     then raise ''NAV residual exceeds tolerance'' else Inr ())))))"

definition liquidation_flag :: "fixed_point \<Rightarrow> fixed_point \<Rightarrow> bool" where
  "liquidation_flag maintenance nav \<longleftrightarrow> units maintenance > 0 \<and> units nav \<le> units maintenance"

definition valuation_instant :: "env \<Rightarrow> ledger \<Rightarrow> instant option \<Rightarrow> instant res" where
  "valuation_instant E l event_time = (case event_time of Some t \<Rightarrow> utc E t | None \<Rightarrow> Inr (lg_event_time l))"

definition snapshot :: "env \<Rightarrow> ledger_config \<Rightarrow> ledger \<Rightarrow> instant option \<Rightarrow> account_snapshot res" where
  "snapshot E c l event_time =
     and_then (valuation_instant E l event_time) (\<lambda>t.
     and_then (require_valuation_time c l t) (\<lambda>_.
     and_then (cash_map E c l) (\<lambda>cash.
     and_then (cash_and_receivables E c l t (map (\<lambda>(currency, f). (currency, decimal E f)) cash)) (\<lambda>opening.
     and_then (fold_res (tally_position E c l t)
         \<lparr>ta_positions = [], ta_costs = [], ta_realized = [], ta_unrealized = [],
          ta_nav = opening, ta_initial = 0, ta_maintenance = 0\<rparr>
         (sort_key fst (lg_positions l))) (\<lambda>s.
     and_then (fixed_for_valuation E c (ta_nav s) (lc_money_scale c)) (\<lambda>nav.
     and_then (fixed_for_valuation E c (ta_maintenance s) (lc_money_scale c)) (\<lambda>maintenance.
     and_then (fixed_for_valuation E c (ta_initial s) (lc_money_scale c)) (\<lambda>initial.
     and_then (mk_account_snapshot E \<lparr>as_account_id = lc_account_id c, as_event_time = t,
         as_base_currency = lc_base_currency c, as_cash_balances = cash, as_positions = ta_positions s,
         as_nav = nav, as_cost_basis = ta_costs s, as_realized_pnl = ta_realized s,
         as_unrealized_pnl = ta_unrealized s, as_initial_margin = initial, as_maintenance_margin = maintenance,
         as_liquidation_required = liquidation_flag maintenance nav\<rparr>) (\<lambda>snap.
     and_then (assert_nav_residual E c l snap) (\<lambda>_. Inr snap))))))))))"

section \<open>Risk views\<close>

text \<open>The value and one kind of margin, added up over the positions in the order they are held.\<close>

definition value_and_margin ::
  "env \<Rightarrow> ledger_config \<Rightarrow> ledger \<Rightarrow> instant \<Rightarrow> string \<Rightarrow> rat \<times> rat \<Rightarrow> string \<times> rat \<Rightarrow> (rat \<times> rat) res" where
  "value_and_margin E c l t key acc entry = (case (acc, entry) of ((nav, margin), (iid, q)) \<Rightarrow>
     and_then (spec_of c iid) (\<lambda>sp.
     and_then (position_valuation E c l iid q None) (\<lambda>(notional, pnl).
     if is_derivative sp
     then and_then (convert_for_valuation E c l pnl (sp_settlement_currency sp) t) (\<lambda>p.
          and_then (rate_margin E c l t sp notional key) (\<lambda>m. Inr (nav + p, margin + m)))
     else and_then (convert_for_valuation E c l notional (sp_settlement_currency sp) t) (\<lambda>v.
          Inr (nav + v, margin)))))"

definition risk_balances ::
  "env \<Rightarrow> ledger_config \<Rightarrow> ledger \<Rightarrow> instant \<Rightarrow> ((string, rat) dict \<times> (string, rat) dict \<times> rat \<times> rat) res" where
  "risk_balances E c l event_time =
     and_then (utc E event_time) (\<lambda>t.
     and_then (require_valuation_time c l t) (\<lambda>_.
     let cash = fold (\<lambda>(currency, amount) d. dset currency amount d) (cash_entries l) [] in
     and_then (cash_and_receivables E c l t cash) (\<lambda>opening.
     and_then (fold_res (value_and_margin E c l t ''initial_margin_rate'') (opening, 0) (lg_positions l)) (\<lambda>(nav, margin).
       Inr (cash, lg_positions l, nav, margin)))))"

definition liquidation_required :: "env \<Rightarrow> ledger_config \<Rightarrow> ledger \<Rightarrow> instant option \<Rightarrow> bool res" where
  "liquidation_required E c l event_time =
     and_then (any_res (\<lambda>(iid, _). and_then (spec_of c iid) (\<lambda>sp. Inr (has_contract_margin sp))) (lg_positions l))
       (\<lambda>declared.
     if declared then and_then (snapshot E c l event_time) (\<lambda>snap. Inr (as_liquidation_required snap))
     else
     and_then (valuation_instant E l event_time) (\<lambda>t.
     and_then (require_valuation_time c l t) (\<lambda>_.
     if \<not> has_open_derivative_position c l \<and> \<not> pit c then Inr False
     else
     and_then (cash_and_receivables E c l t (cash_entries l)) (\<lambda>opening.
     and_then (fold_res (value_and_margin E c l t ''maintenance_margin_rate'') (opening, 0) (lg_positions l))
       (\<lambda>(nav, margin).
     and_then (fixed_for_valuation E c nav (lc_money_scale c)) (\<lambda>nav_value.
     and_then (fixed_for_valuation E c margin (lc_money_scale c)) (\<lambda>maintenance.
       Inr (liquidation_flag maintenance nav_value))))))))"

record exposure =
  ex_gross :: rat
  ex_net :: rat
  ex_initial :: rat
  ex_maintenance :: rat
  ex_positions :: "position_risk_snapshot list"

definition position_margins ::
  "env \<Rightarrow> ledger_config \<Rightarrow> ledger \<Rightarrow> instant \<Rightarrow> instrument_spec \<Rightarrow> rat \<Rightarrow> (rat \<times> rat) res" where
  "position_margins E c l t sp local_notional =
     (if \<not> is_derivative sp then Inr (0, 0)
      else if dget (sp_metadata sp) ''initial_margin_rate'' = None \<or> dget (sp_metadata sp) ''maintenance_margin_rate'' = None
      then raise ''InstrumentSpec metadata is required for risk snapshot''
      else and_then (rate_margin E c l t sp local_notional ''initial_margin_rate'') (\<lambda>im.
           and_then (rate_margin E c l t sp local_notional ''maintenance_margin_rate'') (\<lambda>mm. Inr (im, mm))))"

definition expose_position ::
  "env \<Rightarrow> ledger_config \<Rightarrow> ledger \<Rightarrow> instant \<Rightarrow> exposure \<Rightarrow> string \<times> fixed_point \<Rightarrow> exposure res" where
  "expose_position E c l t s entry = (case entry of (iid, qf) \<Rightarrow> let q = decimal E qf; money = lc_money_scale c in
     if q = 0 then Inr s
     else and_then (spec_of c iid) (\<lambda>sp.
     and_then (mark_price l iid None) (\<lambda>mark.
     let local_notional = product_for_valuation E c [mark, q, decimal E (sp_contract_multiplier sp)] in
     and_then (convert_for_valuation E c l local_notional (sp_settlement_currency sp) t) (\<lambda>base_notional.
     and_then (position_margins E c l t sp local_notional) (\<lambda>(im, mm).
     and_then (fixed_for_valuation E c mark (scale (sp_price_tick sp))) (\<lambda>mark_f.
     and_then (fixed_for_valuation E c base_notional money) (\<lambda>base_f.
     and_then (fixed_for_valuation E c im money) (\<lambda>im_f.
     and_then (fixed_for_valuation E c mm money) (\<lambda>mm_f.
     and_then (mk_position_risk_snapshot E \<lparr>pr_instrument_id = iid, pr_asset_class = sp_asset_class sp,
         pr_venue = sp_venue sp, pr_settlement_currency = sp_settlement_currency sp, pr_quantity = qf,
         pr_mark_price = mark_f, pr_base_notional = base_f, pr_initial_margin = im_f,
         pr_maintenance_margin = mm_f\<rparr>) (\<lambda>row.
       Inr \<lparr>ex_gross = ex_gross s + \<bar>base_notional\<bar>, ex_net = ex_net s + base_notional,
            ex_initial = ex_initial s + im, ex_maintenance = ex_maintenance s + mm,
            ex_positions = ex_positions s @ [row]\<rparr>))))))))))"

definition portfolio_risk_snapshot_of ::
  "env \<Rightarrow> ledger_config \<Rightarrow> ledger \<Rightarrow> instant \<Rightarrow> portfolio_risk_snapshot res" where
  "portfolio_risk_snapshot_of E c l event_time = (let money = lc_money_scale c in
     and_then (utc E event_time) (\<lambda>t.
     and_then (require_valuation_time c l t) (\<lambda>_.
     and_then (snapshot E c l (Some t)) (\<lambda>account.
     and_then (convert_entries E c l t (map (\<lambda>(currency, f). (currency, decimal E f)) (as_cash_balances account))) (\<lambda>vs.
     and_then (fold_res (expose_position E c l t)
         \<lparr>ex_gross = 0, ex_net = 0, ex_initial = 0, ex_maintenance = 0, ex_positions = []\<rparr>
         (sort_key fst (as_positions account))) (\<lambda>s.
     and_then (fixed_for_valuation E c (sum_for_valuation E c vs) money) (\<lambda>cash_value.
     and_then (fixed_for_valuation E c (ex_gross s) money) (\<lambda>gross.
     and_then (fixed_for_valuation E c (ex_net s) money) (\<lambda>net.
     and_then (fixed_for_valuation E c (ex_initial s) money) (\<lambda>im.
     and_then (fixed_for_valuation E c (ex_maintenance s) money) (\<lambda>mm.
       mk_portfolio_risk_snapshot E \<lparr>pf_account_id = as_account_id account, pf_event_time = t,
         pf_base_currency = as_base_currency account, pf_nav = as_nav account, pf_cash_value = cash_value,
         pf_gross_exposure = gross, pf_net_exposure = net, pf_initial_margin = im,
         pf_maintenance_margin = mm, pf_positions = ex_positions s\<rparr>)))))))))))"

end
