(* ===== verification/Ledger_Post.thy ===== *)
theory Ledger_Post
  imports Ledger_Views
begin

text \<open>
  How the ledger turns an event into a balanced transaction: the postings of fills, fees,
  funding, settlements and corporate actions, and their validation.  Nothing here changes
  the state; posting and rollback are in \<open>Ledger_Apply\<close>.
\<close>

section \<open>Postings and transactions\<close>

definition new_posting ::
  "env \<Rightarrow> ledger_config \<Rightarrow> string \<Rightarrow> string \<Rightarrow> rat \<Rightarrow> string option \<Rightarrow> (rat \<times> nat) option \<Rightarrow> posting res" where
  "new_posting E c account currency amount iid quantity =
     and_then (fixed E amount (lc_money_scale c) (Some ROUND_HALF_EVEN)) (\<lambda>a.
     and_then (case quantity of None \<Rightarrow> Inr None
               | Some (q, s) \<Rightarrow> and_then (fixed E q s (Some ROUND_HALF_EVEN)) (\<lambda>d. Inr (Some d))) (\<lambda>d.
       Inr \<lparr>po_ledger_account = account, po_currency = currency, po_amount = a, po_instrument_id = iid,
            po_quantity_delta = d\<rparr>))"

definition cash_posting :: "env \<Rightarrow> ledger_config \<Rightarrow> string \<Rightarrow> rat \<Rightarrow> posting res" where
  "cash_posting E c currency amount = new_posting E c ''assets:cash'' currency amount None None"

definition instrument_posting ::
  "env \<Rightarrow> ledger_config \<Rightarrow> string \<Rightarrow> string \<Rightarrow> rat \<Rightarrow> string \<Rightarrow> posting res" where
  "instrument_posting E c account currency amount iid = new_posting E c account currency amount (Some iid) None"

text \<open>The pair of postings that moves a quantity of an instrument.\<close>

definition quantity_postings ::
  "env \<Rightarrow> ledger_config \<Rightarrow> string \<Rightarrow> string \<Rightarrow> rat \<Rightarrow> rat \<Rightarrow> nat \<Rightarrow> posting res list" where
  "quantity_postings E c currency iid q counter s =
     [new_posting E c ''assets:position'' currency 0 (Some iid) (Some (q, s)),
      new_posting E c ''memo:position_counter'' currency 0 (Some iid) (Some (counter, s))]"


definition make_transaction ::
  "env \<Rightarrow> ledger_config \<Rightarrow> ledger_event_type \<Rightarrow> string \<Rightarrow> string \<Rightarrow> instant \<Rightarrow> posting res list \<Rightarrow> ledger_transaction res" where
  "make_transaction E c event_type reference_id key event_time postings =
     and_then (map_res id postings) (\<lambda>ps.
       Inr \<lparr>tx_transaction_id = mint_id E ''tx'' [SStr (lc_account_id c), SStr (event_type_value event_type), SStr reference_id],
            tx_idempotency_key = key, tx_event_time = event_time, tx_event_type = event_type,
            tx_reference_id = reference_id, tx_postings = ps\<rparr>)"

section \<open>Fills\<close>

definition signed_quantity :: "env \<Rightarrow> fill \<Rightarrow> rat" where
  "signed_quantity E f = (if fl_side f = BUY then decimal E (fl_quantity f) else - decimal E (fl_quantity f))"

definition closing_quantity :: "rat \<Rightarrow> rat \<Rightarrow> rat \<Rightarrow> rat" where
  "closing_quantity old signed quantity =
     (if old \<noteq> 0 \<and> (old > 0) \<noteq> (signed > 0) then min \<bar>old\<bar> quantity else 0)"

definition fill_realized ::
  "env \<Rightarrow> ledger_config \<Rightarrow> rat \<Rightarrow> rat \<Rightarrow> rat \<Rightarrow> rat \<Rightarrow> rat \<Rightarrow> rat \<Rightarrow> rat res" where
  "fill_realized E c price m old close average allocated =
     (if close = 0 then Inr 0
      else if pit c
      then and_then (fixed E (price * close * m) (lc_money_scale c) (Some ROUND_HALF_EVEN)) (\<lambda>f.
             let close_notional = decimal E f in
             Inr ((if old > 0 then close_notional else - close_notional) + - allocated))
      else Inr (dmul E (dmul E (if old > 0 then dsub E price average else dsub E average price) close) m))"

definition derivative_cost ::
  "env \<Rightarrow> ledger_config \<Rightarrow> rat \<Rightarrow> rat \<Rightarrow> rat \<Rightarrow> rat \<Rightarrow> rat \<Rightarrow> rat \<Rightarrow> rat \<Rightarrow> rat" where
  "derivative_cost E c price m old signed old_cost average allocated =
     (let new = difference_for_valuation E c old (- signed) in
      if old = 0 \<or> (old > 0) = (signed > 0)
      then difference_for_valuation E c old_cost (- product_for_valuation E c [signed, price, m])
      else if new = 0 then 0
      else if (old > 0) = (new > 0)
      then (if pit c then old_cost + - allocated
            else dmul E (dmul E (dmul E average (dabs E new)) m) (if new > 0 then 1 else -1))
      else product_for_valuation E c [new, price, m])"

definition derivative_postings ::
  "env \<Rightarrow> ledger_config \<Rightarrow> string \<Rightarrow> string \<Rightarrow> rat \<Rightarrow> rat \<Rightarrow> posting res list" where
  "derivative_postings E c currency iid realized cost_delta =
     (if realized = 0 then []
      else [cash_posting E c currency realized,
            instrument_posting E c ''income:realized_pnl'' currency (- realized) iid])
     @ [instrument_posting E c ''memo:position_cost'' currency cost_delta iid,
        instrument_posting E c ''memo:position_cost_counter'' currency (- cost_delta) iid]"

text \<open>Options and research deliveries: premium-funded signed positions.\<close>

definition premium_postings ::
  "env \<Rightarrow> ledger_config \<Rightarrow> ledger \<Rightarrow> string \<Rightarrow> string \<Rightarrow> rat \<Rightarrow> rat \<Rightarrow> rat \<Rightarrow> rat \<Rightarrow> rat \<Rightarrow> posting res list res" where
  "premium_postings E c l currency iid price m quantity signed close =
     and_then (position_cost c l iid False) (\<lambda>_.
     and_then (if close = 0 then Inr 0 else allocated_position_cost E c l iid close) (\<lambda>closed_cost.
     let opening = dsub E quantity close in
     and_then (fixed E (product_for_valuation E c [if signed > 0 then opening else dneg E opening, price, m])
                 (lc_money_scale c) (Some ROUND_HALF_EVEN)) (\<lambda>open_f.
     let cost_delta = decimal E open_f + dneg E closed_cost in
     and_then (fixed E (product_for_valuation E c [dneg E signed, price, m]) (lc_money_scale c) (Some ROUND_HALF_EVEN))
       (\<lambda>cash_f.
     let cash_delta = decimal E cash_f in
       Inr [cash_posting E c currency cash_delta,
            instrument_posting E c ''assets:position_cost'' currency cost_delta iid,
            instrument_posting E c ''income:realized_pnl'' currency (dneg E (cash_delta + cost_delta)) iid]))))"

text \<open>Cash assets: no short position and no negative cash; P\&L is the residual of the posted amounts.\<close>

definition cash_asset_postings ::
  "env \<Rightarrow> ledger_config \<Rightarrow> ledger \<Rightarrow> string \<Rightarrow> string \<Rightarrow> side \<Rightarrow> rat \<Rightarrow> rat \<Rightarrow> rat \<Rightarrow> rat \<Rightarrow> rat \<Rightarrow> rat
     \<Rightarrow> posting res list res" where
  "cash_asset_postings E c l currency iid sd quantity m notional old average allocated =
     (if old < quantity \<and> sd = SELL then raise ''cash asset fill would create a short position''
      else if sd = BUY
      then (if cash_balance l currency < notional then raise ''cash asset fill would create negative cash''
            else Inr [cash_posting E c currency (- notional),
                      instrument_posting E c ''assets:position_cost'' currency notional iid])
      else and_then (fixed E notional (lc_money_scale c) (Some ROUND_HALF_EVEN)) (\<lambda>nf.
           and_then (if pit c then Inr allocated
                     else and_then (fixed E (dmul E (dmul E average quantity) m) (lc_money_scale c) (Some ROUND_HALF_EVEN))
                            (\<lambda>f. Inr (decimal E f))) (\<lambda>cost_removed.
           let proceeds = decimal E nf in
           Inr [cash_posting E c currency proceeds,
                instrument_posting E c ''assets:position_cost'' currency (- cost_removed) iid,
                instrument_posting E c ''income:realized_pnl'' currency
                  (- difference_for_valuation E c proceeds cost_removed) iid])))"

definition is_premium_asset :: "instrument_spec \<Rightarrow> bool" where
  "is_premium_asset sp \<longleftrightarrow> sp_asset_class sp = OPTION
     \<or> dget (sp_metadata sp) ''research_delivery'' = Some ''true''"

definition fill_postings :: "env \<Rightarrow> ledger_config \<Rightarrow> ledger \<Rightarrow> instrument_spec \<Rightarrow> fill \<Rightarrow> posting res list res" where
  "fill_postings E c l sp f =
     (let iid = fl_instrument_id f; currency = sp_settlement_currency sp; quantity = decimal E (fl_quantity f);
          signed = signed_quantity E f; old = held l iid; m = decimal E (sp_contract_multiplier sp);
          price = decimal E (fl_price f); notional = product_for_valuation E c [quantity, price, m];
          close = closing_quantity old signed quantity;
          derivative = derivative_instrument c iid in
      and_then (if \<not> pit c \<and> (close \<noteq> 0 \<or> \<not> derivative \<and> fl_side f = SELL)
                then average_cost E c l iid else Inr 0) (\<lambda>average.
      and_then (if pit c \<and> close \<noteq> 0 then allocated_position_cost E c l iid close else Inr 0) (\<lambda>allocated.
      and_then (fill_realized E c price m old close average allocated) (\<lambda>realized.
      if derivative
      then and_then (position_cost c l iid True) (\<lambda>old_cost.
        Inr (derivative_postings E c currency iid realized
          (difference_for_valuation E c (derivative_cost E c price m old signed old_cost average allocated) old_cost)))
      else if is_premium_asset sp then premium_postings E c l currency iid price m quantity signed close
      else cash_asset_postings E c l currency iid (fl_side f) quantity m notional old average allocated))))"

definition fill_transaction :: "env \<Rightarrow> ledger_config \<Rightarrow> ledger \<Rightarrow> fill \<Rightarrow> ledger_transaction res" where
  "fill_transaction E c l f =
     (if fl_account_id f \<noteq> lc_account_id c then raise ''fill account differs from ledger account''
      else and_then (spec_of c (fl_instrument_id f)) (\<lambda>sp.
      and_then (fill_postings E c l sp f) (\<lambda>ps.
        make_transaction E c EV_FILL (fl_fill_id f) (''fill:'' @ fl_fill_id f) (fl_event_time f)
          (ps @ quantity_postings E c (sp_settlement_currency sp) (fl_instrument_id f) (signed_quantity E f)
                  (- signed_quantity E f) (scale (fl_quantity f))))))"

section \<open>Cash income and settlements\<close>

definition cash_income_transaction ::
  "env \<Rightarrow> ledger_config \<Rightarrow> ledger_event_type \<Rightarrow> string \<Rightarrow> instant \<Rightarrow> string \<Rightarrow> rat \<Rightarrow> string \<Rightarrow> string option
     \<Rightarrow> ledger_transaction res" where
  "cash_income_transaction E c event_type reference_id event_time currency cash_delta counterpart iid =
     make_transaction E c event_type reference_id (event_type_value event_type @ CHR '':'' # reference_id) event_time
       [cash_posting E c currency cash_delta,
        new_posting E c counterpart currency (dneg E cash_delta) iid None]"

definition settlement_price_of :: "env \<Rightarrow> ledger \<Rightarrow> settlement \<Rightarrow> rat res" where
  "settlement_price_of E l s = (case st_settlement_price s of
       Some p \<Rightarrow> Inr (decimal E p) | None \<Rightarrow> mark_price l (st_instrument_id s) None)"

definition daily_mark_transaction :: "env \<Rightarrow> ledger_config \<Rightarrow> ledger \<Rightarrow> settlement \<Rightarrow> ledger_transaction res" where
  "daily_mark_transaction E c l s =
     and_then (spec_of c (st_instrument_id s)) (\<lambda>sp.
     if \<not> is_derivative sp then raise ''daily_mark settlement requires a derivative instrument''
     else let iid = st_instrument_id s; q = held l iid; m = decimal E (sp_contract_multiplier sp);
              amount = decimal E (st_amount s) in
     and_then (settlement_price_of E l s) (\<lambda>price.
     and_then (position_valuation E c l iid q (Some price)) (\<lambda>(_, expected).
     and_then (fixed E expected (lc_money_scale c) (Some ROUND_HALF_EVEN)) (\<lambda>rounded.
     if amount \<noteq> decimal E rounded
     then raise ''daily_mark amount differs from mark-to-market PnL at settlement_price''
     else and_then (position_cost c l iid True) (\<lambda>old_cost.
       let cost_delta = difference_for_valuation E c (product_for_valuation E c [q, price, m]) old_cost in
       make_transaction E c EV_SETTLEMENT (st_settlement_id s) (''settlement:'' @ st_settlement_id s) (st_event_time s)
         [cash_posting E c (st_currency s) amount,
          instrument_posting E c ''income:settlement:daily_mark'' (st_currency s) (- amount) iid,
          instrument_posting E c ''memo:position_cost'' (st_currency s) cost_delta iid,
          instrument_posting E c ''memo:position_cost_counter'' (st_currency s) (- cost_delta) iid])))))"

definition settlement_transaction :: "env \<Rightarrow> ledger_config \<Rightarrow> ledger \<Rightarrow> settlement \<Rightarrow> ledger_transaction res" where
  "settlement_transaction E c l s =
     (if st_settlement_type s \<noteq> ''daily_mark''
      then cash_income_transaction E c EV_SETTLEMENT (st_settlement_id s) (st_event_time s) (st_currency s)
             (decimal E (st_amount s)) (''income:settlement:'' @ st_settlement_type s) (Some (st_instrument_id s))
      else daily_mark_transaction E c l s)"

section \<open>Corporate actions\<close>

definition py_str_opt :: "string option \<Rightarrow> string" where
  "py_str_opt s = (case s of None \<Rightarrow> ''None'' | Some t \<Rightarrow> t)"

definition entitlement_key :: "corporate_action \<Rightarrow> entitlement_key" where
  "entitlement_key a = (ca_instrument_id a, py_str_opt (ca_currency a), ca_effective_date a)"

definition receivable_instrument :: "entitlement_key \<Rightarrow> string" where
  "receivable_instrument k = (case k of (iid, _, d) \<Rightarrow> iid @ CHR ''@'' # iso_date d)"

definition is_dividend_action :: "corporate_action \<Rightarrow> bool" where
  "is_dividend_action a \<longleftrightarrow> ca_action_type a \<in> {''cash_dividend_entitlement'', ''cash_dividend_payment''}"

definition terminal_cash_transaction ::
  "env \<Rightarrow> ledger_config \<Rightarrow> ledger \<Rightarrow> instrument_spec \<Rightarrow> corporate_action \<Rightarrow> fixed_point \<Rightarrow> ledger_transaction res" where
  "terminal_cash_transaction E c l sp a cash_amount =
     (let iid = ca_instrument_id a; q = held l iid; currency = sp_settlement_currency sp in
      and_then (fixed E (dmul E q (decimal E cash_amount)) (lc_money_scale c) (Some ROUND_HALF_EVEN)) (\<lambda>cf.
      and_then (position_cost c l iid False) (\<lambda>cost.
      let cash = decimal E cf in
      make_transaction E c EV_CORPORATE_ACTION (ca_event_id a) (''corporate_action:'' @ ca_event_id a) (ca_available_at a)
        ([cash_posting E c currency cash,
          instrument_posting E c ''assets:position_cost'' currency (dneg E cost) iid,
          instrument_posting E c ''income:realized_pnl'' currency (dsub E cost cash) iid]
         @ quantity_postings E c currency iid (dneg E q) q (scale (sp_quantity_step sp))))))"

definition dividend_postings ::
  "env \<Rightarrow> ledger_config \<Rightarrow> ledger \<Rightarrow> instrument_spec \<Rightarrow> corporate_action \<Rightarrow> fixed_point \<Rightarrow> posting res list res" where
  "dividend_postings E c l sp a cash_amount =
     (let iid = ca_instrument_id a; currency = py_str_opt (ca_currency a);
          receivable = receivable_instrument (entitlement_key a) in
      if ca_action_type a = ''cash_dividend_payment''
      then case dget (lg_dividend_entitlements l) (entitlement_key a) of
          None \<Rightarrow> Inl (KeyError ''dividend entitlement'')
        | Some (_, cash_delta) \<Rightarrow>
            Inr [cash_posting E c currency cash_delta,
                 instrument_posting E c ''assets:dividend_receivable'' currency (dneg E cash_delta) receivable]
      else let entitled = (case ca_share_entitlement a of
                   Some terms \<Rightarrow> decimal E (se_eligible_quantity terms) | None \<Rightarrow> held l iid);
               cash_delta = dmul E (dmul E entitled (decimal E cash_amount)) (decimal E (sp_contract_multiplier sp)) in
        Inr [(if ca_action_type a = ''cash_dividend_entitlement''
              then instrument_posting E c ''assets:dividend_receivable'' currency cash_delta receivable
              else cash_posting E c currency cash_delta),
             instrument_posting E c ''income:corporate_action'' currency (dneg E cash_delta) iid])"

definition share_postings ::
  "env \<Rightarrow> ledger_config \<Rightarrow> ledger \<Rightarrow> instrument_spec \<Rightarrow> corporate_action \<Rightarrow> posting res list" where
  "share_postings E c l sp a =
     (let move = (\<lambda>delta. quantity_postings E c (sp_settlement_currency sp) (ca_instrument_id a) delta (dneg E delta)
                            (scale (sp_quantity_step sp))) in
      case (ca_share_entitlement a, ca_ratio a) of
        (Some terms, _) \<Rightarrow> move (se_resolved_quantity terms)
      | (None, Some ratio) \<Rightarrow> move (dmul E (held l (ca_instrument_id a)) (dsub E (decimal E ratio) 1))
      | (None, None) \<Rightarrow> [])"

definition corporate_action_transaction ::
  "env \<Rightarrow> ledger_config \<Rightarrow> ledger \<Rightarrow> corporate_action \<Rightarrow> ledger_transaction res" where
  "corporate_action_transaction E c l a =
     and_then (spec_of c (ca_instrument_id a)) (\<lambda>sp.
     case (ca_action_type a = ''terminal_cash'', ca_cash_amount a) of
       (True, Some cash_amount) \<Rightarrow> terminal_cash_transaction E c l sp a cash_amount
     | (True, None) \<Rightarrow> Inl (AttributeError ''cash_amount'')
     | (False, cash_amount) \<Rightarrow>
         and_then (case cash_amount of None \<Rightarrow> Inr [] | Some amount \<Rightarrow> dividend_postings E c l sp a amount) (\<lambda>ps.
           make_transaction E c EV_CORPORATE_ACTION (ca_event_id a) (''corporate_action:'' @ ca_event_id a)
             (ca_available_at a) (ps @ share_postings E c l sp a)))"

definition validate_share_entitlement ::
  "env \<Rightarrow> ledger_config \<Rightarrow> instrument_spec \<Rightarrow> share_entitlement \<Rightarrow> unit res" where
  "validate_share_entitlement E c sp terms =
     (if se_account_id terms \<noteq> lc_account_id c then raise ''share entitlement belongs to a different account''
      else if sp_asset_class sp \<notin> {EQUITY, ETF} then raise ''share entitlement requires a cash equity instrument''
      else and_then (dmod E (se_resolved_quantity terms) (decimal E (sp_quantity_step sp))) (\<lambda>r.
        if r \<noteq> 0 then raise ''credited entitlement violates the instrument quantity step'' else Inr ()))"

definition validate_dividend :: "env \<Rightarrow> ledger \<Rightarrow> corporate_action \<Rightarrow> unit res" where
  "validate_dividend E l a = (case (ca_cash_amount a, ca_currency a) of
       (Some cash_amount, Some currency) \<Rightarrow>
         let declared = dget (lg_dividend_entitlements l) (entitlement_key a) in
         if decimal E cash_amount < 0 then raise ''cash dividend amount must be non-negative''
         else if ca_action_type a = ''cash_dividend_entitlement''
         then (if declared \<noteq> None then raise ''cash dividend entitlement is already registered'' else Inr ())
         else if ca_ratio a \<noteq> None then raise ''cash dividend payment cannot carry a share ratio''
         else (case declared of
             None \<Rightarrow> raise ''cash dividend payment has no registered entitlement''
           | Some (declared_amount, declared_total) \<Rightarrow>
               if decimal E cash_amount \<noteq> declared_amount
               then raise ''cash dividend payment amount does not match the registered entitlement''
               else if account_balance l ''assets:dividend_receivable'' currency
                         (Some (receivable_instrument (entitlement_key a))) \<noteq> declared_total
               then raise ''cash dividend receivable does not match the registered entitlement''
               else Inr ())
     | _ \<Rightarrow> raise ''dividend requires cash_amount and currency'')"

definition validate_ratio :: "env \<Rightarrow> ledger \<Rightarrow> instrument_spec \<Rightarrow> string \<Rightarrow> fixed_point \<Rightarrow> unit res" where
  "validate_ratio E l sp iid ratio =
     (if decimal E ratio \<le> 0 then raise ''corporate action ratio must be positive''
      else and_then (dmod E (dmul E (held l iid) (decimal E ratio)) (decimal E (sp_quantity_step sp))) (\<lambda>r.
        if r \<noteq> 0 then raise ''corporate action quantity is not aligned to instrument quantity_step'' else Inr ()))"

definition terminal_cash_ok :: "instrument_spec \<Rightarrow> corporate_action \<Rightarrow> bool" where
  "terminal_cash_ok sp a \<longleftrightarrow> sp_asset_class sp \<in> {EQUITY, ETF, OPTION, BOND}
     \<and> (case ca_ratio a of None \<Rightarrow> False | Some r \<Rightarrow> units r = 0)
     \<and> (case ca_cash_amount a of None \<Rightarrow> False | Some f \<Rightarrow> units f \<ge> 0)
     \<and> ca_currency a = Some (sp_settlement_currency sp)"

definition validate_corporate_action :: "env \<Rightarrow> ledger_config \<Rightarrow> ledger \<Rightarrow> corporate_action \<Rightarrow> unit res" where
  "validate_corporate_action E c l a =
     and_then (spec_of c (ca_instrument_id a)) (\<lambda>sp.
     and_then (case ca_share_entitlement a of None \<Rightarrow> Inr () | Some terms \<Rightarrow> validate_share_entitlement E c sp terms) (\<lambda>_.
     if ca_action_type a = ''terminal_cash''
     then (if terminal_cash_ok sp a then Inr ()
           else raise ''terminal_cash requires a zero share ratio and nonnegative settlement cash'')
     else and_then (if is_dividend_action a then validate_dividend E l a else Inr ()) (\<lambda>_.
       case ca_ratio a of None \<Rightarrow> Inr () | Some ratio \<Rightarrow> validate_ratio E l sp (ca_instrument_id a) ratio)))"

section \<open>Translation of events\<close>

definition translate :: "env \<Rightarrow> ledger_config \<Rightarrow> ledger \<Rightarrow> ledger_event \<Rightarrow> ledger_transaction res" where
  "translate E c l ev = (case ev of
       FillEvent f \<Rightarrow> fill_transaction E c l f
     | FeeEvent fee \<Rightarrow> cash_income_transaction E c EV_FEE (fee_fee_id fee) (fee_event_time fee) (fee_currency fee)
         (dneg E (decimal E (fee_amount fee))) ''expenses:fees'' None
     | FundingEvent fu \<Rightarrow> cash_income_transaction E c EV_FUNDING (fu_funding_id fu) (fu_event_time fu) (fu_currency fu)
         (decimal E (fu_amount fu)) ''income:funding'' (Some (fu_instrument_id fu))
     | SettlementEvent s \<Rightarrow> settlement_transaction E c l s
     | ActionEvent a \<Rightarrow> corporate_action_transaction E c l a)"

section \<open>Lots\<close>

text \<open>One older lot against what a fill still has to close.\<close>

definition close_lot ::
  "env \<Rightarrow> day \<Rightarrow> lot list \<times> rat \<times> rat \<times> rat \<Rightarrow> lot \<Rightarrow> lot list \<times> rat \<times> rat \<times> rat" where
  "close_lot E trading_day s lt = (case (s, lt) of ((updated, left, prior_close, today_close), (d, q)) \<Rightarrow>
     if left = 0 then (updated @ [(d, q)], left, prior_close, today_close)
     else let closed = min (dabs E q) left; residual = dsub E (dabs E q) closed in
       (if residual = 0 then updated else updated @ [(d, if q > 0 then residual else dneg E residual)],
        dsub E left closed,
        if d = trading_day then prior_close else dadd E prior_close closed,
        if d = trading_day then dadd E today_close closed else today_close))"

text \<open>The rest opens a lot of the trading day, merged with one of the same day and sign.\<close>

fun open_lot :: "env \<Rightarrow> day \<Rightarrow> rat \<Rightarrow> lot list \<Rightarrow> lot list" where
  "open_lot E trading_day opening [] = [(trading_day, opening)]"
| "open_lot E trading_day opening ((d, q) # lots) =
     (if d = trading_day \<and> dmul E q opening > 0 then (d, dadd E q opening) # lots
      else (d, q) # open_lot E trading_day opening lots)"

definition prepare_lot_update :: "env \<Rightarrow> ledger \<Rightarrow> fill \<Rightarrow> day \<Rightarrow> lot list \<times> rat \<times> rat" where
  "prepare_lot_update E l f trading_day =
     (let q = decimal E (fl_quantity f); signed = (if fl_side f = BUY then q else dneg E q);
          lots = dget_or (lg_position_lots l) (fl_instrument_id f) [];
          (lots1, left, prior_close, today_close) =
            (if lots \<noteq> [] \<and> dmul E (snd (hd lots)) signed < 0
             then fold (\<lambda>lt s. close_lot E trading_day s lt) (sort_key fst lots) ([], dabs E signed, 0, 0)
             else (lots, dabs E signed, 0, 0)) in
      (if left = 0 then lots1 else open_lot E trading_day (if signed > 0 then left else dneg E left) lots1,
       prior_close, today_close))"

section \<open>Events the market causes\<close>

definition funding_from_market ::
  "env \<Rightarrow> ledger_config \<Rightarrow> ledger \<Rightarrow> market_event \<Rightarrow> rat \<Rightarrow> funding option res" where
  "funding_from_market E c l ev rate = (let iid = me_instrument_id ev in
     and_then (spec_of c iid) (\<lambda>sp.
     if held l iid = 0 then Inr None
     else and_then (mark_price l iid None) (\<lambda>mark.
     let amount = dneg E (dmul E (dmul E (dmul E (held l iid) mark) (decimal E (sp_contract_multiplier sp))) rate) in
     and_then (fixed E amount (lc_money_scale c) (Some ROUND_HALF_EVEN)) (\<lambda>f.
     and_then (mk_funding E \<lparr>fu_funding_id = mint_id E ''funding'' [SStr (me_event_id ev), SStr (lc_account_id c)],
         fu_account_id = lc_account_id c, fu_instrument_id = iid, fu_amount = f,
         fu_currency = sp_settlement_currency sp, fu_event_time = me_available_at ev\<rparr>) (\<lambda>fu. Inr (Some fu))))))"

definition settlement_from_market ::
  "env \<Rightarrow> ledger_config \<Rightarrow> ledger \<Rightarrow> market_event \<Rightarrow> string \<Rightarrow> settlement option res" where
  "settlement_from_market E c l ev status = (let iid = me_instrument_id ev in
     if py_lower status \<noteq> ''daily_settlement'' then Inr None
     else and_then (spec_of c iid) (\<lambda>sp.
     if \<not> is_derivative sp then raise ''daily_settlement status requires a derivative instrument''
     else if held l iid = 0 then Inr None
     else and_then (mark_price l iid None) (\<lambda>price.
     and_then (position_valuation E c l iid (held l iid) (Some price)) (\<lambda>(_, amount).
     and_then (fixed E amount (lc_money_scale c) (Some ROUND_HALF_EVEN)) (\<lambda>af.
     and_then (fixed E price (scale (sp_price_tick sp)) (Some ROUND_HALF_EVEN)) (\<lambda>pf.
     and_then (mk_settlement E \<lparr>st_settlement_id = mint_id E ''settlement'' [SStr (me_event_id ev), SStr (lc_account_id c)],
         st_account_id = lc_account_id c, st_instrument_id = iid, st_amount = af,
         st_currency = sp_settlement_currency sp, st_event_time = me_available_at ev,
         st_settlement_type = ''daily_mark'', st_settlement_price = Some pf\<rparr>) (\<lambda>st. Inr (Some st))))))))"

end
