(* ===== verification/Ledger_Apply.thy ===== *)
theory Ledger_Apply
  imports Ledger_Post
begin

text \<open>
  The state-changing operations of the ledger: posting, applying an event with its undo
  record, marks, imports of opening balances, artifact streaming, construction and reset.
  Operations that may fail after their first assignment are effects; the rollback code is
  part of the model.
\<close>

section \<open>Replay facts\<close>

definition record_replay_fact :: "ledger_config \<Rightarrow> replay_payload \<Rightarrow> nat \<Rightarrow> ledger \<Rightarrow> ledger" where
  "record_replay_fact c payload count_before l =
     (if lc_dividend_mode c = None then l
      else let (n, l1) = next_replay_sequence l in
        l1\<lparr>lg_replay_facts := lg_replay_facts l1 @
          [\<lparr>rf_operation_sequence = n, rf_payload = payload, rf_count_before = count_before,
            rf_count_after = length (lg_transactions l)\<rparr>]\<rparr>)"

section \<open>Posting\<close>

definition post_amount :: "env \<Rightarrow> posting \<Rightarrow> ledger \<Rightarrow> ledger" where
  "post_amount E p l = (let key = (po_ledger_account p, po_currency p, po_instrument_id p) in
     l\<lparr>lg_accounts := dset key (dget_or (lg_accounts l) key 0 + decimal E (po_amount p)) (lg_accounts l)\<rparr>)"

definition post_quantity :: "env \<Rightarrow> posting \<Rightarrow> ledger \<Rightarrow> ledger" where
  "post_quantity E p l = (case (po_instrument_id p, po_quantity_delta p) of
       (Some iid, Some d) \<Rightarrow>
         if po_ledger_account p = ''assets:position''
         then l\<lparr>lg_positions := dset iid (held l iid + decimal E d) (lg_positions l)\<rparr> else l
     | _ \<Rightarrow> l)"

definition post_one :: "env \<Rightarrow> posting \<Rightarrow> ledger \<Rightarrow> ledger" where
  "post_one E p l = post_quantity E p (post_amount E p l)"

text \<open>The journal entry goes to the list of transactions, or to the sink while streaming.\<close>

definition journal :: "ledger_config \<Rightarrow> ledger_transaction \<Rightarrow> (ledger, unit) effect" where
  "journal c t l = (case lg_artifact_sink l of
       None \<Rightarrow> (Inr (), l\<lparr>lg_transactions := lg_transactions l @ [t],
                         lg_transaction_keys := List.insert (tx_idempotency_key t) (lg_transaction_keys l)\<rparr>)
     | Some sent \<Rightarrow> if lc_sink_accepts c t
         then (Inr (), l\<lparr>lg_artifact_sink := Some (sent @ [t]), lg_transaction_count := Suc (lg_transaction_count l)\<rparr>)
         else (Inl (RuntimeError ''artifact sink''), l))"

definition posting_keys :: "ledger_transaction \<Rightarrow> account_key list" where
  "posting_keys t = remdups (map (\<lambda>p. (po_ledger_account p, po_currency p, po_instrument_id p)) (tx_postings t))"

definition position_ids :: "ledger_transaction \<Rightarrow> string list" where
  "position_ids t = remdups (concat (map (\<lambda>p. case (po_instrument_id p, po_quantity_delta p) of
       (Some iid, Some d) \<Rightarrow> if po_ledger_account p = ''assets:position'' then [iid] else []
     | _ \<Rightarrow> []) (tx_postings t)))"

definition restore_value :: "'k \<Rightarrow> 'v option \<Rightarrow> ('k, 'v) dict \<Rightarrow> ('k, 'v) dict" where
  "restore_value k v d = (case v of None \<Rightarrow> ddel k d | Some x \<Rightarrow> dset k x d)"

definition restore_values :: "('k \<times> 'v option) list \<Rightarrow> ('k, 'v) dict \<Rightarrow> ('k, 'v) dict" where
  "restore_values saved d = fold (\<lambda>(k, v). restore_value k v) saved d"

definition saved_values :: "'k list \<Rightarrow> ('k, 'v) dict \<Rightarrow> ('k \<times> 'v option) list" where
  "saved_values ks d = map (\<lambda>k. (k, dget d k)) ks"

definition undo_post :: "ledger_transaction \<Rightarrow> ledger \<Rightarrow> ledger \<Rightarrow> ledger" where
  "undo_post t before l = l\<lparr>
     lg_accounts := restore_values (saved_values (posting_keys t) (lg_accounts before)) (lg_accounts l),
     lg_positions := restore_values (saved_values (position_ids t) (lg_positions before)) (lg_positions l),
     lg_transactions := (if lg_transactions l \<noteq> [] \<and> last (lg_transactions l) = t
        \<and> length (lg_transactions before) < length (lg_transactions l)
        then butlast (lg_transactions l) else lg_transactions l),
     lg_transaction_keys := removeAll (tx_idempotency_key t) (lg_transaction_keys l)\<rparr>"

definition post :: "env \<Rightarrow> ledger_config \<Rightarrow> bool \<Rightarrow> ledger_transaction \<Rightarrow> (ledger, unit) effect" where
  "post E c local_rollback t l =
     (if lg_artifact_sink l = None \<and> tx_idempotency_key t \<in> set (lg_transaction_keys l)
      then (Inl (ValidationError ''duplicate ledger transaction idempotency key''), l)
      else on_error (if local_rollback then undo_post t l else id)
             (bind (put (fold (post_one E) (tx_postings t))) (\<lambda>_. journal c t)) l)"

section \<open>Events\<close>

definition event_identity :: "ledger_event \<Rightarrow> string" where
  "event_identity ev = (case ev of
       FillEvent f \<Rightarrow> ''fill_id:'' @ fl_fill_id f
     | FeeEvent fee \<Rightarrow> ''fee_id:'' @ fee_fee_id fee
     | FundingEvent fu \<Rightarrow> ''funding_id:'' @ fu_funding_id fu
     | SettlementEvent s \<Rightarrow> ''settlement_id:'' @ st_settlement_id s
     | ActionEvent a \<Rightarrow> ca_event_id a)"

definition event_instrument :: "ledger_event \<Rightarrow> string option" where
  "event_instrument ev = (case ev of
       FillEvent f \<Rightarrow> Some (fl_instrument_id f) | FeeEvent fee \<Rightarrow> None
     | FundingEvent fu \<Rightarrow> Some (fu_instrument_id fu) | SettlementEvent s \<Rightarrow> Some (st_instrument_id s)
     | ActionEvent a \<Rightarrow> Some (ca_instrument_id a))"

definition event_instant :: "ledger_event \<Rightarrow> instant" where
  "event_instant ev = (case ev of
       FillEvent f \<Rightarrow> fl_event_time f | FeeEvent fee \<Rightarrow> fee_event_time fee | FundingEvent fu \<Rightarrow> fu_event_time fu
     | SettlementEvent s \<Rightarrow> st_event_time s | ActionEvent a \<Rightarrow> ca_available_at a)"

definition require_account :: "ledger_config \<Rightarrow> string \<Rightarrow> unit res" where
  "require_account c account = (if account \<noteq> lc_account_id c
     then raise ''ledger event account differs from ledger account'' else Inr ())"

definition validate_fee :: "env \<Rightarrow> ledger_config \<Rightarrow> ledger \<Rightarrow> fee \<Rightarrow> unit res" where
  "validate_fee E c l fee = (case dget (lg_fills l) (fee_fill_id fee) of
       None \<Rightarrow> raise ''fee references a fill not yet applied to the ledger''
     | Some f \<Rightarrow> and_then (spec_of c (fl_instrument_id f)) (\<lambda>sp.
         let amount = decimal E (fee_amount fee) in
         if fee_currency fee \<noteq> sp_settlement_currency sp
         then raise ''fee currency differs from instrument settlement currency''
         else if \<not> is_derivative sp \<and> amount > 0 \<and> cash_balance l (fee_currency fee) < amount
         then raise ''cash asset fee would create negative cash'' else Inr ()))"

definition require_currency :: "ledger_config \<Rightarrow> string \<Rightarrow> string \<Rightarrow> unit res" where
  "require_currency c iid currency = and_then (spec_of c iid) (\<lambda>sp.
     if currency \<noteq> sp_settlement_currency sp
     then raise ''ledger event currency differs from instrument settlement currency'' else Inr ())"

definition validate_event :: "env \<Rightarrow> ledger_config \<Rightarrow> ledger \<Rightarrow> ledger_event \<Rightarrow> unit res" where
  "validate_event E c l ev = (case ev of
       ActionEvent a \<Rightarrow> Inr ()
     | FillEvent f \<Rightarrow> require_account c (fl_account_id f)
     | FeeEvent fee \<Rightarrow> and_then (require_account c (fee_account_id fee)) (\<lambda>_. validate_fee E c l fee)
     | FundingEvent fu \<Rightarrow> and_then (require_account c (fu_account_id fu)) (\<lambda>_.
         require_currency c (fu_instrument_id fu) (fu_currency fu))
     | SettlementEvent s \<Rightarrow> and_then (require_account c (st_account_id s)) (\<lambda>_.
         require_currency c (st_instrument_id s) (st_currency s)))"

definition event_fingerprint :: "env \<Rightarrow> ledger_config \<Rightarrow> ledger_event \<Rightarrow> string" where
  "event_fingerprint E c ev = (case ev of
       FillEvent f \<Rightarrow> sha256_hex E (fill_bytes E f)
     | FeeEvent fee \<Rightarrow> sha256_hex E (fee_bytes E fee)
     | SettlementEvent s \<Rightarrow> sha256_hex E (settlement_bytes E s)
     | _ \<Rightarrow> lc_payload_digest c ev)"

definition kept_fingerprint :: "env \<Rightarrow> ledger_config \<Rightarrow> ledger \<Rightarrow> ledger_event \<Rightarrow> fingerprint" where
  "kept_fingerprint E c l ev = (if lg_artifact_sink l = None then Whole ev else Digest (event_fingerprint E c ev))"

definition same_event :: "env \<Rightarrow> ledger_config \<Rightarrow> fingerprint \<Rightarrow> ledger_event \<Rightarrow> bool" where
  "same_event E c fp ev = (case fp of Whole prior \<Rightarrow> prior = ev | Digest d \<Rightarrow> d = event_fingerprint E c ev)"

text \<open>What an event prepares before anything is assigned: a settlement price and a lot update.\<close>

definition prepare_event ::
  "env \<Rightarrow> ledger_config \<Rightarrow> ledger \<Rightarrow> ledger_event \<Rightarrow> day option
     \<Rightarrow> (rat option \<times> (lot list \<times> rat \<times> rat) option) res" where
  "prepare_event E c l ev trading_day = (case ev of
       FillEvent f \<Rightarrow> (case trading_day of
           None \<Rightarrow> raise ''fill application requires a trading_day''
         | Some d \<Rightarrow> Inr (None, Some (prepare_lot_update E l f d)))
     | SettlementEvent s \<Rightarrow> if st_settlement_type s = ''daily_mark''
         then and_then (settlement_price_of E l s) (\<lambda>p. Inr (Some p, None)) else Inr (None, None)
     | ActionEvent a \<Rightarrow> and_then (validate_corporate_action E c l a) (\<lambda>_. Inr (None, None))
     | _ \<Rightarrow> Inr (None, None))"

definition no_effect_action :: "ledger_event \<Rightarrow> ledger_transaction \<Rightarrow> bool" where
  "no_effect_action ev t = (case ev of
       ActionEvent a \<Rightarrow> \<not> list_ex (\<lambda>p. units (po_amount p) \<noteq> 0
           \<or> (case po_quantity_delta p of None \<Rightarrow> False | Some d \<Rightarrow> units d \<noteq> 0)) (tx_postings t)
     | _ \<Rightarrow> False)"

section \<open>The state an event leaves beside the accounts\<close>

definition book_fill_state :: "fill \<Rightarrow> day option \<Rightarrow> lot list \<times> rat \<times> rat \<Rightarrow> ledger \<Rightarrow> ledger" where
  "book_fill_state f trading_day update l = (case update of (lots, prior_close, today_close) \<Rightarrow>
     l\<lparr>lg_fills := dset (fl_fill_id f) f (lg_fills l),
       lg_fill_trading_days := (case trading_day of None \<Rightarrow> lg_fill_trading_days l
          | Some d \<Rightarrow> dset (fl_fill_id f) d (lg_fill_trading_days l)),
       lg_position_lots := dset (fl_instrument_id f) lots (lg_position_lots l),
       lg_fill_close_allocations := dset (fl_fill_id f) (prior_close, today_close) (lg_fill_close_allocations l)\<rparr>)"

definition apply_dividend_state :: "env \<Rightarrow> corporate_action \<Rightarrow> (ledger, unit) effect" where
  "apply_dividend_state E a l = (let key = entitlement_key a in
     if \<not> is_dividend_action a then (Inr (), l)
     else if ca_action_type a = ''cash_dividend_payment''
     then (if dget (lg_dividend_entitlements l) key = None then (Inl (KeyError ''dividend entitlement''), l)
           else (Inr (), l\<lparr>lg_dividend_entitlements := ddel key (lg_dividend_entitlements l)\<rparr>))
     else case ca_cash_amount a of
       None \<Rightarrow> (Inl (TypeError ''assert cash_amount''), l)
     | Some amount \<Rightarrow> (Inr (), l\<lparr>lg_dividend_entitlements := dset key
          (decimal E amount, account_balance l ''assets:dividend_receivable'' (py_str_opt (ca_currency a))
             (Some (receivable_instrument key))) (lg_dividend_entitlements l)\<rparr>))"

definition credit_entitlement :: "env \<Rightarrow> corporate_action \<Rightarrow> share_entitlement \<Rightarrow> ledger \<Rightarrow> ledger" where
  "credit_entitlement E a terms l = (let iid = ca_instrument_id a in
     l\<lparr>lg_position_lots := dset iid (dget_or (lg_position_lots l) iid []
          @ [(se_sellable_date terms - 1, se_resolved_quantity terms)]) (lg_position_lots l),
       lg_marks := (case se_reference_price terms of None \<Rightarrow> lg_marks l
          | Some p \<Rightarrow> dset iid (decimal E p, ca_available_at a, ca_event_id a) (lg_marks l))\<rparr>)"

definition apply_split_state :: "env \<Rightarrow> corporate_action \<Rightarrow> fixed_point \<Rightarrow> (ledger, unit) effect" where
  "apply_split_state E a ratio l = (let iid = ca_instrument_id a; r = decimal E ratio in
     if ca_action_type a = ''terminal_cash''
     then (Inr (), l\<lparr>lg_position_lots := dset iid [] (lg_position_lots l), lg_marks := ddel iid (lg_marks l)\<rparr>)
     else let l1 = l\<lparr>lg_position_lots := dset iid
                 (map (\<lambda>(d, q). (d, dmul E q r)) (dget_or (lg_position_lots l) iid [])) (lg_position_lots l)\<rparr> in
       case dget (lg_marks l1) iid of
         None \<Rightarrow> (Inr (), l1)
       | Some (price, _, _) \<Rightarrow> (case ddiv E price r of
            Inl e \<Rightarrow> (Inl e, l1)
          | Inr p \<Rightarrow> (Inr (), l1\<lparr>lg_marks := dset iid (p, ca_available_at a, ca_event_id a) (lg_marks l1)\<rparr>)))"

definition apply_action_state :: "env \<Rightarrow> corporate_action \<Rightarrow> (ledger, unit) effect" where
  "apply_action_state E a = bind (apply_dividend_state E a) (\<lambda>_.
     case (ca_share_entitlement a, ca_ratio a) of
       (Some terms, _) \<Rightarrow> put (credit_entitlement E a terms)
     | (None, Some ratio) \<Rightarrow> apply_split_state E a ratio
     | (None, None) \<Rightarrow> ret ())"

definition event_state ::
  "env \<Rightarrow> ledger_event \<Rightarrow> day option \<Rightarrow> rat option \<times> (lot list \<times> rat \<times> rat) option \<Rightarrow> (ledger, unit) effect" where
  "event_state E ev trading_day prepared = (case ev of
       FillEvent f \<Rightarrow> (case snd prepared of
           None \<Rightarrow> ask (\<lambda>_. Inl (TypeError ''assert lot_update''))
         | Some update \<Rightarrow> put (book_fill_state f trading_day update))
     | SettlementEvent s \<Rightarrow> (case fst prepared of
           None \<Rightarrow> ret ()
         | Some price \<Rightarrow> put (\<lambda>l. l\<lparr>lg_marks :=
             dset (st_instrument_id s) (price, st_event_time s, st_settlement_id s) (lg_marks l)\<rparr>))
     | ActionEvent a \<Rightarrow> apply_action_state E a
     | _ \<Rightarrow> ret ())"

text \<open>While streaming, the fee of a fill is the last use of the fill.\<close>

definition release_fill :: "ledger_config \<Rightarrow> ledger_event \<Rightarrow> (ledger, unit) effect" where
  "release_fill c ev l = (case ev of
       FeeEvent fee \<Rightarrow>
         if lg_artifact_sink l = None then (Inr (), l)
         else (case dget (lg_fills l) (fee_fill_id fee) of
             None \<Rightarrow> (Inr (), l)
           | Some f \<Rightarrow> let l1 = l\<lparr>lg_fills := ddel (fee_fill_id fee) (lg_fills l)\<rparr> in
               (case spec_of c (fl_instrument_id f) of
                  Inl e \<Rightarrow> (Inl e, l1)
                | Inr sp \<Rightarrow> (Inr (), if sp_asset_class sp = FUTURE then l1
                    else l1\<lparr>lg_fill_close_allocations := ddel (fee_fill_id fee) (lg_fill_close_allocations l1)\<rparr>)))
     | _ \<Rightarrow> (Inr (), l))"

section \<open>Undo\<close>

record undo =
  un_transaction_count :: nat
  un_transaction_key :: bool
  un_accounts :: "(account_key \<times> rat option) list"
  un_positions :: "(string \<times> rat option) list"
  un_event_fingerprint :: "fingerprint option"
  un_fill :: "fill option"
  un_fill_trading_day :: "day option"
  un_fill_close_allocation :: "(rat \<times> rat) option"
  un_position_lots :: "lot list option"
  un_mark :: "(rat \<times> instant \<times> string) option"
  un_entitlement_key :: "entitlement_key option"
  un_entitlement :: "(rat \<times> rat) option"
  un_event_time :: instant

definition event_fill_id :: "ledger_event \<Rightarrow> string option" where
  "event_fill_id ev = (case ev of FillEvent f \<Rightarrow> Some (fl_fill_id f) | _ \<Rightarrow> None)"

definition event_entitlement :: "ledger_event \<Rightarrow> entitlement_key option" where
  "event_entitlement ev = (case ev of
     ActionEvent a \<Rightarrow> if is_dividend_action a then Some (entitlement_key a) else None | _ \<Rightarrow> None)"

definition capture_apply_undo :: "ledger_event \<Rightarrow> ledger_transaction \<Rightarrow> ledger \<Rightarrow> undo" where
  "capture_apply_undo ev t l =
     \<lparr>un_transaction_count = length (lg_transactions l),
      un_transaction_key = (tx_idempotency_key t \<in> set (lg_transaction_keys l)),
      un_accounts = saved_values (posting_keys t) (lg_accounts l),
      un_positions = saved_values (position_ids t) (lg_positions l),
      un_event_fingerprint = dget (lg_event_fingerprints l) (event_identity ev),
      un_fill = Option.bind (event_fill_id ev) (dget (lg_fills l)),
      un_fill_trading_day = Option.bind (event_fill_id ev) (dget (lg_fill_trading_days l)),
      un_fill_close_allocation = Option.bind (event_fill_id ev) (dget (lg_fill_close_allocations l)),
      un_position_lots = Option.bind (event_instrument ev) (dget (lg_position_lots l)),
      un_mark = Option.bind (event_instrument ev) (dget (lg_marks l)),
      un_entitlement_key = event_entitlement ev,
      un_entitlement = Option.bind (event_entitlement ev) (dget (lg_dividend_entitlements l)),
      un_event_time = lg_event_time l\<rparr>"

definition restore_at :: "'k option \<Rightarrow> 'v option \<Rightarrow> ('k, 'v) dict \<Rightarrow> ('k, 'v) dict" where
  "restore_at k v d = (case k of None \<Rightarrow> d | Some key \<Rightarrow> restore_value key v d)"

definition rollback_apply :: "ledger_event \<Rightarrow> ledger_transaction \<Rightarrow> undo \<Rightarrow> ledger \<Rightarrow> ledger" where
  "rollback_apply ev t u l = l\<lparr>
     lg_transactions := take (un_transaction_count u) (lg_transactions l),
     lg_transaction_keys := (if un_transaction_key u then lg_transaction_keys l
        else removeAll (tx_idempotency_key t) (lg_transaction_keys l)),
     lg_accounts := restore_values (un_accounts u) (lg_accounts l),
     lg_positions := restore_values (un_positions u) (lg_positions l),
     lg_event_fingerprints := restore_value (event_identity ev) (un_event_fingerprint u) (lg_event_fingerprints l),
     lg_fills := restore_at (event_fill_id ev) (un_fill u) (lg_fills l),
     lg_fill_trading_days := restore_at (event_fill_id ev) (un_fill_trading_day u) (lg_fill_trading_days l),
     lg_fill_close_allocations :=
       restore_at (event_fill_id ev) (un_fill_close_allocation u) (lg_fill_close_allocations l),
     lg_position_lots := restore_at (event_instrument ev) (un_position_lots u) (lg_position_lots l),
     lg_marks := restore_at (event_instrument ev) (un_mark u) (lg_marks l),
     lg_dividend_entitlements := restore_at (un_entitlement_key u) (un_entitlement u) (lg_dividend_entitlements l),
     lg_event_time := un_event_time u\<rparr>"

section \<open>Applying an event\<close>

definition optional_snapshot ::
  "env \<Rightarrow> ledger_config \<Rightarrow> bool \<Rightarrow> instant \<Rightarrow> ledger \<Rightarrow> account_snapshot option res" where
  "optional_snapshot E c create t l = (if create then and_then (snapshot E c l (Some t)) (\<lambda>s. Inr (Some s)) else Inr None)"

definition commit_event ::
  "env \<Rightarrow> ledger_config \<Rightarrow> ledger_event \<Rightarrow> day option \<Rightarrow> bool \<Rightarrow> bool \<Rightarrow> bool \<Rightarrow> ledger_transaction
     \<Rightarrow> rat option \<times> (lot list \<times> rat \<times> rat) option \<Rightarrow> (ledger, account_snapshot option) effect" where
  "commit_event E c ev trading_day create local_rollback trusted t prepared =
     bind (if no_effect_action ev t then ret () else post E c local_rollback t) (\<lambda>_.
     bind (event_state E ev trading_day prepared) (\<lambda>_.
     bind (put (\<lambda>l. (if trusted then l else l\<lparr>lg_event_fingerprints :=
         dset (event_identity ev) (kept_fingerprint E c l ev) (lg_event_fingerprints l)\<rparr>)\<lparr>lg_event_time := tx_event_time t\<rparr>)) (\<lambda>_.
     bind (release_fill c ev) (\<lambda>_.
       ask (optional_snapshot E c create (tx_event_time t))))))"

definition replayed_event ::
  "env \<Rightarrow> ledger_config \<Rightarrow> ledger_event \<Rightarrow> day option \<Rightarrow> bool \<Rightarrow> fingerprint \<Rightarrow> ledger \<Rightarrow> account_snapshot option res" where
  "replayed_event E c ev trading_day create prior l =
     (if \<not> same_event E c prior ev then raise ''ledger event id reused with different content''
      else and_then (case ev of
          FillEvent f \<Rightarrow> (case dget (lg_fill_trading_days l) (fl_fill_id f) of
              None \<Rightarrow> Inl (KeyError (fl_fill_id f))
            | Some d \<Rightarrow> if trading_day \<noteq> Some d
                then raise ''fill trading_day changed across idempotent application'' else Inr ())
        | _ \<Rightarrow> Inr ()) (\<lambda>_. optional_snapshot E c create (lg_event_time l) l))"

definition apply_event ::
  "env \<Rightarrow> ledger_config \<Rightarrow> ledger_event \<Rightarrow> day option \<Rightarrow> bool \<Rightarrow> bool \<Rightarrow> bool
     \<Rightarrow> (ledger, account_snapshot option) effect" where
  "apply_event E c ev trading_day create local_rollback trusted =
     bind (ask ledger_require_mutable) (\<lambda>_.
     bind (ask (\<lambda>l. validate_event E c l ev)) (\<lambda>_.
     bind (ask (\<lambda>l. Inr (if trusted then None else dget (lg_event_fingerprints l) (event_identity ev)))) (\<lambda>prior.
     case prior of
       Some fp \<Rightarrow> ask (replayed_event E c ev trading_day create fp)
     | None \<Rightarrow>
         bind (ask (\<lambda>l. if event_instant ev < lg_event_time l then raise ''ledger event time moved backwards'' else Inr ())) (\<lambda>_.
         bind (ask (\<lambda>l. prepare_event E c l ev trading_day)) (\<lambda>prepared.
         bind (ask (\<lambda>l. translate E c l ev)) (\<lambda>t l.
           on_error (if local_rollback then rollback_apply ev t (capture_apply_undo ev t l) else id)
             (commit_event E c ev trading_day create local_rollback trusted t prepared) l))))))"

definition is_fill :: "ledger_event \<Rightarrow> bool" where
  "is_fill ev \<longleftrightarrow> (case ev of FillEvent f \<Rightarrow> True | _ \<Rightarrow> False)"

text \<open>\<open>apply\<close> takes the UTC date of a fill as its trading day, \<open>apply_with_trading_day\<close> the given one.\<close>

definition record_new_event ::
  "ledger_config \<Rightarrow> ledger_event \<Rightarrow> day option \<Rightarrow> ledger \<Rightarrow> ledger \<Rightarrow> ledger" where
  "record_new_event c ev trading_day before l =
     (if dget (lg_event_fingerprints before) (event_identity ev) = None
      then record_replay_fact c (LedgerFact ev trading_day) (length (lg_transactions before)) l else l)"

definition apply_on_day ::
  "env \<Rightarrow> ledger_config \<Rightarrow> ledger_event \<Rightarrow> day option \<Rightarrow> bool \<Rightarrow> (ledger, account_snapshot option) effect" where
  "apply_on_day E c ev trading_day create l =
     bind (apply_event E c ev trading_day create True False) (\<lambda>snap.
     bind (put (record_new_event c ev trading_day l)) (\<lambda>_. ret snap)) l"

definition apply_ledger :: "env \<Rightarrow> ledger_config \<Rightarrow> ledger_event \<Rightarrow> bool \<Rightarrow> (ledger, account_snapshot option) effect" where
  "apply_ledger E c ev create = apply_on_day E c ev
     (case ev of FillEvent f \<Rightarrow> Some (utc_date (fl_event_time f)) | _ \<Rightarrow> None) create"

definition apply_with_trading_day ::
  "env \<Rightarrow> ledger_config \<Rightarrow> ledger_event \<Rightarrow> day \<Rightarrow> bool \<Rightarrow> (ledger, account_snapshot option) effect" where
  "apply_with_trading_day E c ev trading_day create =
     apply_on_day E c ev (if is_fill ev then Some trading_day else None) create"

definition apply_replay_event :: "env \<Rightarrow> ledger_config \<Rightarrow> ledger_event \<Rightarrow> day option \<Rightarrow> (ledger, unit) effect" where
  "apply_replay_event E c ev trading_day l =
     (if is_fill ev \<and> trading_day = None
      then (Inl (ValidationError ''fill replay application requires a trading_day date''), l)
      else if \<not> is_fill ev \<and> trading_day \<noteq> None
      then (Inl (ValidationError ''trading_day is only valid for fill replay application''), l)
      else bind (apply_event E c ev trading_day False False True) (\<lambda>_.
           put (record_replay_fact c (LedgerFact ev trading_day) (length (lg_transactions l)))) l)"

section \<open>Marks\<close>

definition undo_mark :: "string \<Rightarrow> string option \<Rightarrow> ledger \<Rightarrow> ledger \<Rightarrow> ledger" where
  "undo_mark iid fingerprint before l = l\<lparr>
     lg_marks := restore_value iid (dget (lg_marks before) iid) (lg_marks l),
     lg_mark_fingerprints := (case fingerprint of None \<Rightarrow> lg_mark_fingerprints l
        | Some k \<Rightarrow> ddel k (lg_mark_fingerprints l)),
     lg_event_time := lg_event_time before\<rparr>"

definition check_mark_time :: "market_event \<Rightarrow> ledger \<Rightarrow> unit res" where
  "check_mark_time ev l =
     (if (case dget (lg_marks l) (me_instrument_id ev) of None \<Rightarrow> False | Some (_, t, _) \<Rightarrow> me_available_at ev < t)
      then raise ''mark price time moved backwards''
      else if me_available_at ev < lg_event_time l then raise ''ledger event time moved backwards'' else Inr ())"

definition set_mark ::
  "env \<Rightarrow> ledger_config \<Rightarrow> market_event \<Rightarrow> string \<Rightarrow> fixed_point \<Rightarrow> bool \<Rightarrow> bool \<Rightarrow> (ledger, account_snapshot option) effect" where
  "set_mark E c ev mark_id price fingerprinted create l =
     on_error (undo_mark (me_instrument_id ev) (if fingerprinted then Some mark_id else None) l)
       (bind (put (\<lambda>l. l\<lparr>lg_marks := dset (me_instrument_id ev) (decimal E price, me_available_at ev, mark_id) (lg_marks l),
            lg_mark_fingerprints := (if fingerprinted then dset mark_id ev (lg_mark_fingerprints l) else lg_mark_fingerprints l),
            lg_event_time := max (lg_event_time l) (me_available_at ev)\<rparr>)) (\<lambda>_.
        bind (ask (optional_snapshot E c create (me_available_at ev))) (\<lambda>snap.
        bind (put (record_replay_fact c (MarkFact ev mark_id price) (length (lg_transactions l)))) (\<lambda>_.
          ret snap)))) l"

text \<open>A mark under an identifier already seen must be the same event, and then changes nothing.\<close>

definition mark_once ::
  "env \<Rightarrow> ledger_config \<Rightarrow> market_event \<Rightarrow> string \<Rightarrow> fixed_point \<Rightarrow> bool \<Rightarrow> bool \<Rightarrow> (ledger, account_snapshot option) effect" where
  "mark_once E c ev mark_id price fingerprinted create =
     bind (ask (\<lambda>l. Inr (if fingerprinted then dget (lg_mark_fingerprints l) mark_id else None))) (\<lambda>prior.
     case prior of
       Some seen \<Rightarrow> ask (\<lambda>l. if seen \<noteq> ev then raise ''mark event_id reused with different content''
          else optional_snapshot E c create (lg_event_time l) l)
     | None \<Rightarrow> bind (ask (check_mark_time ev)) (\<lambda>_. set_mark E c ev mark_id price fingerprinted create))"

definition mark ::
  "env \<Rightarrow> ledger_config \<Rightarrow> market_event \<Rightarrow> fixed_point \<Rightarrow> bool \<Rightarrow> (ledger, account_snapshot option) effect" where
  "mark E c ev price create =
     bind (ask ledger_require_mutable) (\<lambda>_.
     bind (ask (\<lambda>_. if dget (lc_instruments c) (me_instrument_id ev) = None then raise ''missing InstrumentSpec'' else Inr ())) (\<lambda>_.
       mark_once E c ev (me_event_id ev) price True create))"

definition midpoint :: "env \<Rightarrow> fixed_point \<Rightarrow> fixed_point \<Rightarrow> fixed_point res" where
  "midpoint E bid ask_price = and_then (ddiv E (dadd E (decimal E bid) (decimal E ask_price)) 2) (\<lambda>m.
     fixed E m (scale bid) (Some ROUND_HALF_EVEN))"

definition observed_price :: "env \<Rightarrow> market_event \<Rightarrow> fixed_point option res" where
  "observed_price E ev = (case me_body ev of
       TradeEvent t \<Rightarrow> Inr (Some (tr_price t))
     | BarEvent b \<Rightarrow> Inr (Some (bar_close_price b))
     | QuoteEvent q \<Rightarrow> and_then (midpoint E (qt_bid_price q) (qt_ask_price q)) (\<lambda>f. Inr (Some f))
     | BookSnapshotEvent sn \<Rightarrow> (case (sn_bids sn, sn_asks sn) of
           (b # _, a # _) \<Rightarrow> and_then (midpoint E (lv_price b) (lv_price a)) (\<lambda>f. Inr (Some f))
         | _ \<Rightarrow> Inl (IndexError ''book side''))
     | _ \<Rightarrow> Inr None)"

definition observe_market ::
  "env \<Rightarrow> ledger_config \<Rightarrow> market_event \<Rightarrow> bool \<Rightarrow> bool \<Rightarrow> (ledger, account_snapshot option) effect" where
  "observe_market E c ev create trusted_unique =
     bind (ask ledger_require_mutable) (\<lambda>_.
     case me_body ev of
       MarkPriceEvent price \<Rightarrow> mark E c ev price create
     | _ \<Rightarrow> bind (ask (\<lambda>_. observed_price E ev)) (\<lambda>price.
         case price of
           None \<Rightarrow> ask (optional_snapshot E c create (me_available_at ev))
         | Some p \<Rightarrow> mark_once E c ev (''mark:'' @ me_event_id ev) p (\<not> trusted_unique) create))"

section \<open>Imports of opening balances and cash transfers\<close>

definition import_seen :: "ledger_transaction \<Rightarrow> ledger \<Rightarrow> bool res" where
  "import_seen t l =
     (if lg_artifact_sink l \<noteq> None then raise ''manual imports are unavailable during artifact streaming''
      else if tx_idempotency_key t \<notin> set (lg_transaction_keys l) then Inr False
      else case find (\<lambda>p. tx_idempotency_key p = tx_idempotency_key t) (lg_transactions l) of
        None \<Rightarrow> Inl (RuntimeError ''StopIteration'')
      | Some previous \<Rightarrow> if previous \<noteq> t then raise ''import ID reused with different content'' else Inr True)"

definition current_snapshot :: "env \<Rightarrow> ledger_config \<Rightarrow> (ledger, account_snapshot) effect" where
  "current_snapshot E c = ask (\<lambda>l. snapshot E c l (Some (lg_event_time l)))"

definition book_external_cash ::
  "env \<Rightarrow> ledger_config \<Rightarrow> string \<Rightarrow> fixed_point \<Rightarrow> string \<Rightarrow> instant \<Rightarrow> (ledger, account_snapshot) effect" where
  "book_external_cash E c transfer_id amount currency event_time =
     bind (ask ledger_require_mutable) (\<lambda>_.
     bind (ask (\<lambda>_. utc E event_time)) (\<lambda>t.
     bind (ask (\<lambda>_. currency_code currency)) (\<lambda>cur.
     bind (ask (\<lambda>_.
        if cur \<noteq> lc_base_currency c then raise ''statement cash transfers currently require the base currency''
        else if py_strip transfer_id = '''' then raise ''transfer ID and fixed-point amount are required''
        else if scale amount > lc_money_scale c then raise ''transfer precision exceeds ledger money scale''
        else make_transaction E c EV_SETTLEMENT (''external:'' @ transfer_id) (''external:'' @ transfer_id) t
               [cash_posting E c cur (decimal E amount),
                new_posting E c ''equity:external_flows'' cur (dneg E (decimal E amount)) None None])) (\<lambda>tx.
     bind (ask (import_seen tx)) (\<lambda>seen.
     if seen then current_snapshot E c
     else
     bind (ask (\<lambda>l. if t < lg_event_time l \<or> cash_balance l cur + decimal E amount < 0
        then raise ''external cash would reverse time or overdraw account'' else Inr (length (lg_transactions l)))) (\<lambda>count_before.
     bind (post E c True tx) (\<lambda>_.
     bind (put (\<lambda>l. record_replay_fact c (ExternalCash transfer_id amount cur t) count_before (l\<lparr>lg_event_time := t\<rparr>))) (\<lambda>_.
       ask (\<lambda>l. snapshot E c l (Some t))))))))))"

definition opening_position_transaction ::
  "env \<Rightarrow> ledger_config \<Rightarrow> instrument_spec \<Rightarrow> string \<Rightarrow> fixed_point \<Rightarrow> fixed_point \<Rightarrow> ledger_transaction res" where
  "opening_position_transaction E c sp iid quantity average_price =
     (let cost = product_for_valuation E c [decimal E quantity, decimal E average_price, decimal E (sp_contract_multiplier sp)];
          currency = sp_settlement_currency sp; key = ''opening-position:'' @ iid in
      make_transaction E c EV_SETTLEMENT key key (lc_default_opened_at c)
        ([instrument_posting E c ''assets:position_cost'' currency cost iid,
          new_posting E c ''equity:opening'' currency (- cost) None None]
         @ quantity_postings E c currency iid (decimal E quantity) (- decimal E quantity) (scale quantity)))"

definition check_opening_position ::
  "env \<Rightarrow> ledger_config \<Rightarrow> string \<Rightarrow> fixed_point \<Rightarrow> fixed_point \<Rightarrow> day \<Rightarrow> ledger \<Rightarrow> ledger_transaction res" where
  "check_opening_position E c iid quantity average_price acquired_on l =
     and_then (spec_of c iid) (\<lambda>sp.
     if is_derivative sp \<or> decimal E quantity \<le> 0 \<or> decimal E average_price \<le> 0
     then raise ''opening position requires positive cash-asset quantity and cost''
     else and_then (dmod E (decimal E quantity) (decimal E (sp_quantity_step sp))) (\<lambda>r.
     if r \<noteq> 0 \<or> acquired_on > utc_date (lg_event_time l) then raise ''invalid opening quantity step or acquisition date''
     else opening_position_transaction E c sp iid quantity average_price))"

definition book_opening_position ::
  "env \<Rightarrow> ledger_config \<Rightarrow> string \<Rightarrow> fixed_point \<Rightarrow> fixed_point \<Rightarrow> day \<Rightarrow> (ledger, account_snapshot) effect" where
  "book_opening_position E c iid quantity average_price acquired_on =
     bind (ask ledger_require_mutable) (\<lambda>_.
     bind (ask (check_opening_position E c iid quantity average_price acquired_on)) (\<lambda>tx.
     bind (ask (import_seen tx)) (\<lambda>seen.
     if seen
     then bind (ask (\<lambda>l. if dget (lg_position_lots l) iid \<noteq> Some [(acquired_on, decimal E quantity)]
            then raise ''opening acquisition date changed'' else Inr ())) (\<lambda>_. current_snapshot E c)
     else
     bind (ask (\<lambda>l. if lg_event_time l \<noteq> lc_default_opened_at c \<or> held l iid \<noteq> 0
        then raise ''positions may only be imported before account activity'' else Inr (length (lg_transactions l)))) (\<lambda>count_before.
     bind (post E c True tx) (\<lambda>_.
     bind (put (\<lambda>l. record_replay_fact c (OpeningPosition iid quantity average_price acquired_on) count_before
        (l\<lparr>lg_position_lots := dset iid [(acquired_on, decimal E quantity)] (lg_position_lots l),
           lg_marks := dset iid (decimal E average_price, lc_default_opened_at c, tx_reference_id tx) (lg_marks l)\<rparr>))) (\<lambda>_.
       ask (\<lambda>l. snapshot E c l (Some (lc_default_opened_at c)))))))))"

section \<open>Artifact streaming\<close>

definition start_ledger_stream :: "ledger_config \<Rightarrow> (ledger, unit) effect" where
  "start_ledger_stream c =
     bind (ask ledger_require_mutable) (\<lambda>_.
     bind (ask (\<lambda>l. if lg_artifact_sink l \<noteq> None then raise ''ledger artifact stream is already active''
        else Inr (lg_transactions l))) (\<lambda>pending.
     bind (put (\<lambda>l. l\<lparr>lg_artifact_sink := Some (takeWhile (lc_sink_accepts c) pending)\<rparr>)) (\<lambda>_.
     bind (ask (\<lambda>_. if list_all (lc_sink_accepts c) pending then Inr () else Inl (RuntimeError ''artifact sink''))) (\<lambda>_.
       put (\<lambda>l. l\<lparr>lg_transaction_count := length (lg_transactions l), lg_transactions := []\<rparr>)))))"

definition is_sha256_text :: "string \<Rightarrow> bool" where
  "is_sha256_text s \<longleftrightarrow> length s = 64 \<and> list_all (\<lambda>ch. ch \<in> set ''0123456789abcdef'') s"

text \<open>Without a given digest the sink computes it, if it can, from the rates and marks.\<close>

definition finish_ledger_stream :: "string option \<Rightarrow> (ledger \<Rightarrow> string option) \<Rightarrow> ledger \<Rightarrow> (string option \<times> ledger) res" where
  "finish_ledger_stream given calculate l =
     (if lg_artifact_sink l = None then Inr (lg_finalized_journal l, l)
      else and_then (case given of Some h \<Rightarrow> Inr h
                     | None \<Rightarrow> of_option ''artifact sink cannot finalize the ledger journal hash'' (calculate l)) (\<lambda>h.
        if \<not> is_sha256_text h then raise ''finalized ledger journal hash must be lowercase SHA-256''
        else Inr (Some h, l\<lparr>lg_finalized_journal := Some h, lg_artifact_sink := None, lg_artifact_stream_closed := True\<rparr>)))"

definition abort_ledger_stream :: "ledger \<Rightarrow> ledger" where
  "abort_ledger_stream l = (if lg_artifact_sink l \<noteq> None
     then l\<lparr>lg_artifact_sink := None, lg_artifact_stream_closed := True\<rparr> else l)"

definition transaction_count :: "ledger \<Rightarrow> nat" where
  "transaction_count l = (if lg_artifact_sink l \<noteq> None \<or> lg_artifact_stream_closed l
     then lg_transaction_count l else length (lg_transactions l))"

text \<open>
  \<open>capture_state\<close> and \<open>_restore_captured_state\<close>: everything but the sink, which stays the one of
  the running ledger.
\<close>

record ledger_checkpoint =
  lk_transactions :: "ledger_transaction list"
  lk_transaction_count :: nat
  lk_artifact_stream_closed :: bool
  lk_finalized_journal :: "string option"
  lk_transaction_keys :: "string list"
  lk_event_fingerprints :: "(string, fingerprint) dict"
  lk_fills :: "(string, fill) dict"
  lk_accounts :: "(account_key, rat) dict"
  lk_positions :: "(string, rat) dict"
  lk_marks :: "(string, rat \<times> instant \<times> string) dict"
  lk_mark_fingerprints :: "(string, market_event) dict"
  lk_fill_trading_days :: "(string, day) dict"
  lk_position_lots :: "(string, lot list) dict"
  lk_fill_close_allocations :: "(string, rat \<times> rat) dict"
  lk_dividend_entitlements :: "(entitlement_key, rat \<times> rat) dict"
  lk_pit_fx_records :: "pit_fx_record list"
  lk_replay_facts :: "replay_fact list"
  lk_replay_sequence :: nat
  lk_fx :: "(string, rat \<times> instant) dict"
  lk_fx_history :: "(string \<times> rat \<times> instant) list"
  lk_event_time :: instant

definition capture_ledger_state :: "ledger \<Rightarrow> ledger_checkpoint" where
  "capture_ledger_state l = \<lparr>lk_transactions = lg_transactions l, lk_transaction_count = lg_transaction_count l,
     lk_artifact_stream_closed = lg_artifact_stream_closed l, lk_finalized_journal = lg_finalized_journal l,
     lk_transaction_keys = lg_transaction_keys l, lk_event_fingerprints = lg_event_fingerprints l, lk_fills = lg_fills l,
     lk_accounts = lg_accounts l, lk_positions = lg_positions l, lk_marks = lg_marks l,
     lk_mark_fingerprints = lg_mark_fingerprints l, lk_fill_trading_days = lg_fill_trading_days l,
     lk_position_lots = lg_position_lots l, lk_fill_close_allocations = lg_fill_close_allocations l,
     lk_dividend_entitlements = lg_dividend_entitlements l, lk_pit_fx_records = lg_pit_fx_records l,
     lk_replay_facts = lg_replay_facts l, lk_replay_sequence = lg_replay_sequence l, lk_fx = lg_fx l,
     lk_fx_history = lg_fx_history l, lk_event_time = lg_event_time l\<rparr>"

definition restore_captured_state :: "ledger_checkpoint \<Rightarrow> ledger \<Rightarrow> ledger" where
  "restore_captured_state saved l = l\<lparr>lg_transactions := lk_transactions saved, lg_transaction_count := lk_transaction_count saved,
     lg_artifact_stream_closed := lk_artifact_stream_closed saved, lg_finalized_journal := lk_finalized_journal saved,
     lg_transaction_keys := lk_transaction_keys saved, lg_event_fingerprints := lk_event_fingerprints saved,
     lg_fills := lk_fills saved, lg_accounts := lk_accounts saved, lg_positions := lk_positions saved, lg_marks := lk_marks saved,
     lg_mark_fingerprints := lk_mark_fingerprints saved, lg_fill_trading_days := lk_fill_trading_days saved,
     lg_position_lots := lk_position_lots saved, lg_fill_close_allocations := lk_fill_close_allocations saved,
     lg_dividend_entitlements := lk_dividend_entitlements saved, lg_pit_fx_records := lk_pit_fx_records saved,
     lg_replay_facts := lk_replay_facts saved, lg_replay_sequence := lk_replay_sequence saved, lg_fx := lk_fx saved,
     lg_fx_history := lk_fx_history saved, lg_event_time := lk_event_time saved\<rparr>"

definition restore_ledger_state :: "ledger_checkpoint \<Rightarrow> ledger \<Rightarrow> ledger res" where
  "restore_ledger_state saved l = and_then (ledger_require_mutable l) (\<lambda>_. Inr (restore_captured_state saved l))"

lemma restore_captured_ledger:
  "restore_captured_state (capture_ledger_state l) l' = l\<lparr>lg_artifact_sink := lg_artifact_sink l'\<rparr>"
  by (simp add: restore_captured_state_def capture_ledger_state_def)

section \<open>Construction and reset\<close>

definition blank_ledger :: "ledger_config \<Rightarrow> instant \<Rightarrow> ledger" where
  "blank_ledger c t = \<lparr>lg_transactions = [], lg_transaction_count = 0, lg_artifact_sink = None,
     lg_artifact_stream_closed = False, lg_finalized_journal = None, lg_transaction_keys = [],
     lg_event_fingerprints = [], lg_fills = [], lg_accounts = [], lg_positions = [], lg_marks = [],
     lg_mark_fingerprints = [], lg_fill_trading_days = [], lg_position_lots = [], lg_fill_close_allocations = [],
     lg_dividend_entitlements = [], lg_pit_fx_records = [], lg_replay_facts = [], lg_replay_sequence = 0,
     lg_fx = [(lc_base_currency c, 1, t)], lg_fx_history = [(lc_base_currency c, 1, t)], lg_event_time = t\<rparr>"

definition opening_cash ::
  "env \<Rightarrow> ledger_config \<Rightarrow> instant \<Rightarrow> ledger \<Rightarrow> string \<times> fixed_point \<Rightarrow> ledger res" where
  "opening_cash E c t l entry = (case entry of (currency, amount) \<Rightarrow>
     and_then (make_transaction E c EV_FX_CONVERSION (''opening:'' @ currency)
       (''opening:'' @ lc_account_id c @ CHR '':'' # currency) t
       [cash_posting E c currency (decimal E amount),
        new_posting E c ''equity:opening'' currency (- decimal E amount) None None]) (\<lambda>tx.
     and_then (outcome (post E c True tx) l) (\<lambda>(_, l'). Inr l')))"

definition ledger_reset :: "env \<Rightarrow> ledger_config \<Rightarrow> instant option \<Rightarrow> ledger res" where
  "ledger_reset E c opened_at =
     and_then (case opened_at of Some t \<Rightarrow> utc E t | None \<Rightarrow> Inr (lc_default_opened_at c)) (\<lambda>t.
     and_then (fold_res (\<lambda>l (currency, rate). set_fx_rate E c currency rate t l) (blank_ledger c t)
                 (sort_key fst (lc_initial_fx c))) (\<lambda>l.
       fold_res (opening_cash E c t) l (sort_key fst (lc_initial_cash c))))"

definition check_dividend_modes ::
  "dividend_execution_mode option \<Rightarrow> fx_valuation_mode \<Rightarrow> bool \<Rightarrow> bool \<Rightarrow> unit res" where
  "check_dividend_modes mode fx_mode has_verifier has_initial_fx =
     (if mode \<noteq> None \<and> fx_mode \<noteq> EVIDENCED_PIT then raise ''new dividend lifecycle execution requires EVIDENCED_PIT''
      else if fx_mode = EVIDENCED_PIT \<and> mode = None then raise ''EVIDENCED_PIT requires an explicit dividend execution mode''
      else if mode = Some PRODUCTION_CERTIFIED \<and> \<not> has_verifier
      then raise ''production dividend execution requires a trusted verifier''
      else if fx_mode = EVIDENCED_PIT \<and> has_initial_fx then raise ''EVIDENCED_PIT does not accept legacy initial FX snapshots''
      else Inr ())"

definition mk_ledger :: "env \<Rightarrow> ledger_config \<Rightarrow> instant option \<Rightarrow> bool \<Rightarrow> (ledger_config \<times> ledger) res" where
  "mk_ledger E given opened_at has_verifier =
     (if py_strip (lc_account_id given) = '''' \<or> py_strip (lc_base_currency given) = ''''
      then raise ''account_id and base_currency are required''
      else if 18 < lc_money_scale given then raise ''money_scale must be in [0, 18]''
      else and_then (check_dividend_modes (lc_dividend_mode given) (lc_fx_mode given) has_verifier (lc_initial_fx given \<noteq> [])) (\<lambda>_.
      and_then (currency_code (lc_base_currency given)) (\<lambda>base.
      and_then (case opened_at of Some t \<Rightarrow> utc E t | None \<Rightarrow> Inr 0) (\<lambda>t.
      let c = given\<lparr>lc_base_currency := base, lc_default_opened_at := t\<rparr> in
      and_then (ledger_reset E c None) (\<lambda>l. Inr (c, l))))))"

end
