(* ===== verification/Ledger_Inv.thy ===== *)
theory Ledger_Inv
  imports Ledger_Apply
begin

text \<open>
  The invariant of the ledger: accounts and positions are what the journal says, every
  transaction in it balances per currency, and its amounts are at money scale.
\<close>

section \<open>Posting\<close>

definition account_add :: "env \<Rightarrow> posting \<Rightarrow> (account_key, rat) dict \<Rightarrow> (account_key, rat) dict" where
  "account_add E p d = (let key = (po_ledger_account p, po_currency p, po_instrument_id p) in
     dset key (dget_or d key 0 + decimal E (po_amount p)) d)"

definition position_add :: "env \<Rightarrow> posting \<Rightarrow> (string, rat) dict \<Rightarrow> (string, rat) dict" where
  "position_add E p d = (case (po_instrument_id p, po_quantity_delta p) of
       (Some iid, Some q) \<Rightarrow> if po_ledger_account p = ''assets:position''
         then dset iid (dget_or d iid 0 + decimal E q) d else d
     | _ \<Rightarrow> d)"

lemma post_one_fields:
  "post_one E p l = l\<lparr>lg_accounts := account_add E p (lg_accounts l), lg_positions := position_add E p (lg_positions l)\<rparr>"
  by (simp add: post_one_def post_quantity_def post_amount_def account_add_def position_add_def held_def Let_def
      split: option.splits)

lemma fold_post_one:
  "fold (post_one E) ps l = l\<lparr>lg_accounts := fold (account_add E) ps (lg_accounts l),
     lg_positions := fold (position_add E) ps (lg_positions l)\<rparr>"
  by (induction ps arbitrary: l) (simp_all add: post_one_fields)

text \<open>The postings of the journal, whether it is kept or streamed.\<close>

definition journal_of :: "ledger \<Rightarrow> ledger_transaction list" where
  "journal_of l = (case lg_artifact_sink l of None \<Rightarrow> lg_transactions l | Some sent \<Rightarrow> sent)"

definition journal_accounts :: "env \<Rightarrow> ledger_transaction list \<Rightarrow> (account_key, rat) dict" where
  "journal_accounts E ts = fold (account_add E) (concat (map tx_postings ts)) []"

definition journal_positions :: "env \<Rightarrow> ledger_transaction list \<Rightarrow> (string, rat) dict" where
  "journal_positions E ts = fold (position_add E) (concat (map tx_postings ts)) []"

lemma journal_snoc:
  "journal_accounts E (ts @ [t]) = fold (account_add E) (tx_postings t) (journal_accounts E ts)"
  "journal_positions E (ts @ [t]) = fold (position_add E) (tx_postings t) (journal_positions E ts)"
  by (simp_all add: journal_accounts_def journal_positions_def)

definition balanced :: "ledger_config \<Rightarrow> ledger_transaction \<Rightarrow> bool" where
  "balanced c t \<longleftrightarrow> (\<forall>cur. net_amount (tx_postings t) cur = 0)
     \<and> (\<forall>p \<in> set (tx_postings t). scale (po_amount p) = lc_money_scale c)"

definition ledger_inv :: "env \<Rightarrow> ledger_config \<Rightarrow> ledger \<Rightarrow> bool" where
  "ledger_inv E c l \<longleftrightarrow>
     (\<exists>ts. lg_accounts l = journal_accounts E ts \<and> lg_positions l = journal_positions E ts
        \<and> Ball (set ts) (balanced c) \<and> (\<not> lg_artifact_stream_closed l \<longrightarrow> ts = journal_of l))
     \<and> (lg_artifact_sink l = None \<and> \<not> lg_artifact_stream_closed l \<longrightarrow>
          distinct (map tx_idempotency_key (lg_transactions l))
          \<and> set (lg_transaction_keys l) = tx_idempotency_key ` set (lg_transactions l))
     \<and> (lg_artifact_sink l \<noteq> None \<longrightarrow> \<not> lg_artifact_stream_closed l)"

text \<open>Only accounts, positions and the journal matter for the invariant.\<close>

definition same_books :: "ledger \<Rightarrow> ledger \<Rightarrow> bool" where
  "same_books l l' \<longleftrightarrow> lg_accounts l' = lg_accounts l \<and> lg_positions l' = lg_positions l
     \<and> lg_transactions l' = lg_transactions l \<and> lg_transaction_keys l' = lg_transaction_keys l
     \<and> lg_artifact_sink l' = lg_artifact_sink l \<and> lg_artifact_stream_closed l' = lg_artifact_stream_closed l"

lemma same_books_refl [simp]: "same_books l l"
  by (simp add: same_books_def)

lemma same_books_trans: "same_books l l' \<Longrightarrow> same_books l' l'' \<Longrightarrow> same_books l l''"
  by (simp add: same_books_def)

lemma same_books_inv: "same_books l l' \<Longrightarrow> ledger_inv E c l \<Longrightarrow> ledger_inv E c l'"
  unfolding same_books_def ledger_inv_def journal_of_def
  by (elim conjE) (simp cong del: option.case_cong_weak)

lemma same_books_updates [simp]:
  "same_books l (l\<lparr>lg_event_fingerprints := a\<rparr>)" "same_books l (l\<lparr>lg_event_time := t\<rparr>)"
  "same_books l (l\<lparr>lg_replay_sequence := n\<rparr>)" "same_books l (l\<lparr>lg_replay_facts := fs\<rparr>)"
  "same_books l (l\<lparr>lg_marks := m\<rparr>)" "same_books l (l\<lparr>lg_position_lots := p\<rparr>)"
  "same_books l (l\<lparr>lg_dividend_entitlements := d\<rparr>)" "same_books l (l\<lparr>lg_fills := f\<rparr>)"
  "same_books l (l\<lparr>lg_fill_close_allocations := fc\<rparr>)"
  by (simp_all add: same_books_def)

lemma record_replay_fact_books [simp]: "same_books l (record_replay_fact c p n l)"
  by (simp add: record_replay_fact_def next_replay_sequence_def same_books_def)

section \<open>Sums over an account table\<close>

definition currency_total :: "(account_key, rat) dict \<Rightarrow> string \<Rightarrow> rat" where
  "currency_total d cur = sum_list (map snd (filter (\<lambda>((_, k, _), _). k = cur) d))"

lemma currency_total_dset:
  assumes "distinct (map fst d)"
  shows "currency_total (dset (a, k, i) v d) cur = currency_total d cur
    + (if k = cur then v - dget_or d (a, k, i) 0 else 0)"
  using assms
proof (induction d)
  case (Cons e d)
  obtain a' k' i' w where e: "e = ((a', k', i'), w)" by (cases e) auto
  show ?case
  proof (cases "(a', k', i') = (a, k, i)")
    case True
    then show ?thesis by (simp add: e currency_total_def dget_or_def)
  next
    case False
    with Cons show ?thesis by (auto simp: e currency_total_def dget_or_def)
  qed
qed (simp add: currency_total_def dget_or_def)

lemma account_add_distinct: "distinct (map fst d) \<Longrightarrow> distinct (map fst (account_add E p d))"
  by (simp add: account_add_def Let_def)

lemma fold_account_add_distinct: "distinct (map fst d) \<Longrightarrow> distinct (map fst (fold (account_add E) ps d))"
  by (induction ps arbitrary: d) (simp_all add: account_add_distinct)

lemma position_add_distinct: "distinct (map fst d) \<Longrightarrow> distinct (map fst (position_add E p d))"
  by (simp add: position_add_def split: option.splits)

lemma fold_position_add_distinct: "distinct (map fst d) \<Longrightarrow> distinct (map fst (fold (position_add E) ps d))"
  by (induction ps arbitrary: d) (simp_all add: position_add_distinct)

context fixed_env
begin

lemma posting_value_decimal: "posting_value p = decimal E (po_amount p)"
  by (simp add: posting_value_def decimal_value)

lemma account_add_total:
  "distinct (map fst d) \<Longrightarrow> currency_total (account_add E p d) cur
     = currency_total d cur + (if po_currency p = cur then posting_value p else 0)"
  by (simp add: account_add_def Let_def currency_total_dset posting_value_decimal)

lemma fold_account_add_total:
  "distinct (map fst d) \<Longrightarrow> currency_total (fold (account_add E) ps d) cur = currency_total d cur + net_amount ps cur"
  by (induction ps arbitrary: d) (simp_all add: account_add_distinct account_add_total)

lemma journal_total:
  assumes "Ball (set ts) (balanced c)"
  shows "currency_total (journal_accounts E ts) cur = 0"
proof -
  have "net_amount (concat (map tx_postings ts)) cur = 0" if "Ball (set ts) (balanced c)" for ts
    using that by (induction ts) (simp_all add: balanced_def)
  with assms show ?thesis
    by (simp add: journal_accounts_def fold_account_add_total) (simp add: currency_total_def)
qed

end

lemma ledger_inv_blank: "ledger_inv E c (blank_ledger c t)"
  by (simp add: ledger_inv_def blank_ledger_def journal_accounts_def journal_positions_def journal_of_def)

lemma ledger_inv_distinct:
  "ledger_inv E c l \<Longrightarrow> distinct (map fst (lg_accounts l)) \<and> distinct (map fst (lg_positions l))"
  by (auto simp: ledger_inv_def journal_accounts_def journal_positions_def fold_account_add_distinct fold_position_add_distinct)

end
