(* ===== verification/Ledger_Balance.thy ===== *)
theory Ledger_Balance
  imports Ledger_Inv
begin

text \<open>
  Every transaction the ledger translates an event into balances: its amounts, quantised to
  money scale, add up to zero in its one currency.  The operators that round to the ambient
  context are harmless as long as no posted amount reaches half of its range.
\<close>

section \<open>Quantised amounts\<close>

definition posted :: "ledger_config \<Rightarrow> rat \<Rightarrow> rat" where
  "posted c x = of_int (round_half_even (x * 10 ^ lc_money_scale c)) / 10 ^ lc_money_scale c"

definition money_grid :: "ledger_config \<Rightarrow> rat \<Rightarrow> bool" where
  "money_grid c x \<longleftrightarrow> (\<exists>n. x = of_int n / 10 ^ lc_money_scale c)"

definition fits_money :: "env \<Rightarrow> ledger_config \<Rightarrow> rat \<Rightarrow> bool" where
  "fits_money E c x \<longleftrightarrow> 2 * \<bar>round_half_even (x * 10 ^ lc_money_scale c)\<bar> < 10 ^ prec E"

lemma posted_0 [simp]: "posted c 0 = 0"
  by (simp add: posted_def)

lemma posted_minus [simp]: "posted c (- x) = - posted c x"
  by (simp add: posted_def round_half_even_minus)

lemma posted_grid [simp]: "money_grid c (posted c x)"
  by (auto simp: money_grid_def posted_def)

lemma posted_id: "money_grid c x \<Longrightarrow> posted c x = x"
  by (auto simp: money_grid_def posted_def)

lemma money_grid_arith [simp]:
  "money_grid c 0" "money_grid c (- x) \<longleftrightarrow> money_grid c x"
proof -
  have m: "money_grid c (- x)" if "money_grid c x" for x
    using that unfolding money_grid_def by (metis minus_divide_left of_int_minus)
  show "money_grid c 0" unfolding money_grid_def by (rule exI [of _ 0]) simp
  show "money_grid c (- x) \<longleftrightarrow> money_grid c x" using m [of x] m [of "- x"] by auto
qed

lemma money_grid_add: "money_grid c x \<Longrightarrow> money_grid c y \<Longrightarrow> money_grid c (x + y)"
  unfolding money_grid_def by (metis add_divide_distrib of_int_add)

lemma money_grid_diff: "money_grid c x \<Longrightarrow> money_grid c y \<Longrightarrow> money_grid c (x - y)"
  using money_grid_add [of c x "- y"] by simp

lemma dneg_grid: "money_grid c x \<Longrightarrow> money_grid c (dneg E x)"
  using ctx_round_grid [of "prec E"] unfolding money_grid_def dneg_def
  by (metis minus_divide_left of_int_minus)

context fixed_env
begin

lemma fixed_money_value:
  "fixed E x (lc_money_scale c) (Some ROUND_HALF_EVEN) = Inr f \<Longrightarrow> decimal E f = posted c x"
  using fixed_half_even by (auto simp: decimal_value posted_def)

lemma fits_units:
  "money_grid c x \<Longrightarrow> fits_money E c x \<Longrightarrow> \<exists>n. x = of_int n / 10 ^ lc_money_scale c \<and> 2 * \<bar>n\<bar> < 10 ^ prec E"
  by (auto simp: money_grid_def fits_money_def)

text \<open>Context operators on small amounts of the grid are exact.\<close>

lemma dsub_money:
  assumes "money_grid c x" "money_grid c y" "fits_money E c x" "fits_money E c y"
  shows "dsub E x y = x - y"
proof -
  obtain n m where n: "x = of_int n / 10 ^ lc_money_scale c" "2 * \<bar>n\<bar> < 10 ^ prec E"
    and m: "y = of_int m / 10 ^ lc_money_scale c" "2 * \<bar>m\<bar> < 10 ^ prec E"
    using fits_units assms by blast
  have "\<bar>n - m\<bar> < 10 ^ prec E" using n(2) m(2) by linarith
  from ctx_round_exact_div [OF this] show ?thesis by (simp add: dsub_def n(1) m(1) flip: diff_divide_distrib)
qed

lemma dneg_add_money:
  assumes "money_grid c x" "money_grid c y" "fits_money E c x" "fits_money E c y"
  shows "dneg E (x + y) = - (x + y)"
proof -
  obtain n m where n: "x = of_int n / 10 ^ lc_money_scale c" "2 * \<bar>n\<bar> < 10 ^ prec E"
    and m: "y = of_int m / 10 ^ lc_money_scale c" "2 * \<bar>m\<bar> < 10 ^ prec E"
    using fits_units assms by blast
  have s: "x + y = of_int (n + m) / 10 ^ lc_money_scale c" by (simp add: n(1) m(1) add_divide_distrib)
  have "\<bar>n + m\<bar> < 10 ^ prec E" using n(2) m(2) by linarith
  from ctx_round_exact_div [OF this] show ?thesis by (simp add: dneg_def s ctx_round_minus del: of_int_add)
qed

lemma dneg_money: "money_grid c x \<Longrightarrow> fits_money E c x \<Longrightarrow> dneg E x = - x"
  using dneg_add_money [of c x 0] by (simp add: fits_money_def)

text \<open>A negated cost that is posted small was not rounded.\<close>

lemma dneg_money_back:
  assumes "money_grid c x" "fits_money E c (dneg E x)"
  shows "dneg E x = - x" "fits_money E c x"
proof -
  obtain n where n: "x = of_int n / 10 ^ lc_money_scale c" using assms(1) by (auto simp: money_grid_def)
  obtain m where m: "dneg E x = of_int m / 10 ^ lc_money_scale c" using dneg_grid [OF assms(1)] by (auto simp: money_grid_def)
  have small: "2 * \<bar>m\<bar> < 10 ^ prec E" using assms(2) by (simp add: m fits_money_def)
  have "ctx_round (prec E) (of_int (- n) / 10 ^ lc_money_scale c) = of_int m / 10 ^ lc_money_scale c"
    using m by (simp add: dneg_def n)
  from ctx_round_small [OF prec_pos this small] have mn: "m = - n" .
  show "dneg E x = - x" unfolding m mn using n by simp
  show "fits_money E c x" using small mn by (simp add: fits_money_def n)
qed

lemma dneg_idem: "dneg E (dneg E x) = - dneg E x" "dneg E (dmul E x y) = - dmul E x y"
  using ctx_round_idem [OF prec_pos] by (simp_all add: dneg_def dmul_def ctx_round_minus)

end

section \<open>Lists of postings\<close>

definition is_posting :: "env \<Rightarrow> ledger_config \<Rightarrow> string \<Rightarrow> rat \<Rightarrow> posting res \<Rightarrow> bool" where
  "is_posting E c cur x r \<longleftrightarrow> (\<exists>account iid q. r = new_posting E c account cur x iid q)"

definition small_postings :: "env \<Rightarrow> ledger_transaction \<Rightarrow> bool" where
  "small_postings E t \<longleftrightarrow> (\<forall>p \<in> set (tx_postings t). 2 * \<bar>units (po_amount p)\<bar> < 10 ^ prec E)"

lemma is_posting_intros [intro, simp]:
  "is_posting E c cur x (new_posting E c account cur x iid q)"
  "is_posting E c cur x (cash_posting E c cur x)"
  "is_posting E c cur x (instrument_posting E c account cur x i)"
  by (auto simp: is_posting_def cash_posting_def instrument_posting_def)

lemma quantity_are_postings [simp]:
  "list_all2 (is_posting E c cur) [0, 0] (quantity_postings E c cur iid q k s)"
  by (simp add: quantity_postings_def)

context fixed_env
begin

lemma new_posting_facts:
  assumes "new_posting E c account cur x iid q = Inr p"
  shows "po_currency p = cur" "posting_value p = posted c x" "scale (po_amount p) = lc_money_scale c"
    "units (po_amount p) = round_half_even (x * 10 ^ lc_money_scale c)"
proof -
  from assms obtain a where a: "fixed E x (lc_money_scale c) (Some ROUND_HALF_EVEN) = Inr a"
      "po_amount p = a" "po_currency p = cur"
    by (auto simp: new_posting_def)
  note f = fixed_half_even [OF a(1)]
  show "po_currency p = cur" "scale (po_amount p) = lc_money_scale c"
    "units (po_amount p) = round_half_even (x * 10 ^ lc_money_scale c)"
    using f a by simp_all
  then show "posting_value p = posted c x" by (simp add: posting_value_def posted_def)
qed

lemma is_posting_facts:
  assumes "is_posting E c cur x r" "r = Inr p"
  shows "po_currency p = cur" "posting_value p = posted c x" "scale (po_amount p) = lc_money_scale c"
    "units (po_amount p) = round_half_even (x * 10 ^ lc_money_scale c)"
proof -
  from assms obtain account iid q where "new_posting E c account cur x iid q = Inr p"
    by (auto simp: is_posting_def)
  note facts = new_posting_facts [OF this]
  show "po_currency p = cur" "posting_value p = posted c x" "scale (po_amount p) = lc_money_scale c"
    "units (po_amount p) = round_half_even (x * 10 ^ lc_money_scale c)"
    by (rule facts)+
qed

text \<open>Amounts and postings of one currency, side by side.\<close>

lemma postings_net:
  assumes "list_all2 (is_posting E c cur) xs rs" "map_res id rs = Inr ps"
  shows "net_amount ps k = (if k = cur then sum_list (map (posted c) xs) else 0)"
    and "Ball (set ps) (\<lambda>p. scale (po_amount p) = lc_money_scale c)"
    and "(\<forall>p \<in> set ps. 2 * \<bar>units (po_amount p)\<bar> < 10 ^ prec E) \<longleftrightarrow> (\<forall>x \<in> set xs. fits_money E c x)"
  using assms
proof (induction arbitrary: ps rule: list_all2_induct)
  case (Cons x xs r rs)
  { case 1
    from 1 Cons.hyps is_posting_facts [OF Cons.hyps(1)] Cons.IH(1) show ?case by auto
  next
    case 2
    from 2 Cons.hyps is_posting_facts [OF Cons.hyps(1)] Cons.IH(2) show ?case by auto
  next
    case 3
    from 3 Cons.hyps is_posting_facts [OF Cons.hyps(1)] Cons.IH(3) show ?case by (auto simp: fits_money_def)
  }
qed simp_all

lemma make_transaction_balanced:
  assumes "make_transaction E c ty ref key t rs = Inr tx" "list_all2 (is_posting E c cur) xs rs"
    and "(\<forall>x \<in> set xs. fits_money E c x) \<Longrightarrow> sum_list (map (posted c) xs) = 0" "small_postings E tx"
  shows "balanced c tx"
proof -
  from assms(1) have ps: "map_res id rs = Inr (tx_postings tx)" by (auto simp: make_transaction_def)
  note net = postings_net [OF assms(2) ps]
  from net(3) assms(4) have "\<forall>x \<in> set xs. fits_money E c x" by (simp add: small_postings_def)
  from assms(3) [OF this] net(1,2) show ?thesis by (simp add: balanced_def)
qed

end

section \<open>Translated events balance\<close>

definition sums_to_zero :: "env \<Rightarrow> ledger_config \<Rightarrow> string \<Rightarrow> posting res list \<Rightarrow> bool" where
  "sums_to_zero E c cur rs \<longleftrightarrow> (\<exists>xs. list_all2 (is_posting E c cur) xs rs
     \<and> ((\<forall>x \<in> set xs. fits_money E c x) \<longrightarrow> sum_list (map (posted c) xs) = 0))"

lemma sums_to_zeroI:
  "list_all2 (is_posting E c cur) xs rs \<Longrightarrow> ((\<And>x. x \<in> set xs \<Longrightarrow> fits_money E c x) \<Longrightarrow> sum_list (map (posted c) xs) = 0)
     \<Longrightarrow> sums_to_zero E c cur rs"
  by (auto simp: sums_to_zero_def)

lemma sums_to_zero_Nil [simp]: "sums_to_zero E c cur []"
  by (rule sums_to_zeroI [where xs = "[]"]) simp_all

lemma sums_to_zero_append:
  assumes "sums_to_zero E c cur rs" "sums_to_zero E c cur qs"
  shows "sums_to_zero E c cur (rs @ qs)"
proof -
  from assms obtain xs ys where x: "list_all2 (is_posting E c cur) xs rs"
      "(\<forall>x \<in> set xs. fits_money E c x) \<longrightarrow> sum_list (map (posted c) xs) = 0"
    and y: "list_all2 (is_posting E c cur) ys qs"
      "(\<forall>x \<in> set ys. fits_money E c x) \<longrightarrow> sum_list (map (posted c) ys) = 0"
    by (auto simp: sums_to_zero_def)
  show ?thesis
    by (rule sums_to_zeroI [where xs = "xs @ ys"]) (use x y in \<open>auto intro: list_all2_appendI\<close>)
qed

lemma sums_to_zero_quantities [simp]: "sums_to_zero E c cur (quantity_postings E c cur iid q k s)"
  by (rule sums_to_zeroI [where xs = "[0, 0]"]) simp_all

lemma sums_to_zero_pair:
  assumes "is_posting E c cur x r" "is_posting E c cur y q"
    and "fits_money E c x \<Longrightarrow> fits_money E c y \<Longrightarrow> posted c x + posted c y = 0"
  shows "sums_to_zero E c cur [r, q]"
  by (rule sums_to_zeroI [where xs = "[x, y]"]) (use assms in auto)

lemma sums_to_zero_triple:
  assumes "is_posting E c cur x r" "is_posting E c cur y q" "is_posting E c cur z p"
    and "fits_money E c x \<Longrightarrow> fits_money E c y \<Longrightarrow> fits_money E c z \<Longrightarrow> posted c x + posted c y + posted c z = 0"
  shows "sums_to_zero E c cur [r, q, p]"
  by (rule sums_to_zeroI [where xs = "[x, y, z]"]) (use assms in \<open>auto simp: add.assoc\<close>)

lemma derivative_postings_zero: "sums_to_zero E c cur (derivative_postings E c cur iid realized cost_delta)"
proof -
  have opposite: "sums_to_zero E c cur [r, q]"
    if "is_posting E c cur x r" "is_posting E c cur (- x) q" for x r q
    using that by (intro sums_to_zero_pair) auto
  have "sums_to_zero E c cur (if realized = 0 then []
      else [cash_posting E c cur realized, instrument_posting E c ''income:realized_pnl'' cur (- realized) iid])"
    by (auto intro!: opposite [where x = realized])
  moreover have "sums_to_zero E c cur [instrument_posting E c ''memo:position_cost'' cur cost_delta iid,
        instrument_posting E c ''memo:position_cost_counter'' cur (- cost_delta) iid]"
    by (intro opposite [where x = cost_delta]) auto
  ultimately show ?thesis unfolding derivative_postings_def by (rule sums_to_zero_append)
qed

context fixed_env
begin

lemma make_transaction_zero:
  assumes "make_transaction E c ty ref key t rs = Inr tx" "sums_to_zero E c cur rs" "small_postings E tx"
  shows "balanced c tx"
  using assms(2) make_transaction_balanced [OF assms(1) _ _ assms(3)] by (auto simp: sums_to_zero_def)

lemma fraction_grid:
  "fixed_fraction_half_even E x (lc_money_scale c) = Inr f \<Longrightarrow> money_grid c (decimal E f)"
  by (auto simp: fixed_fraction_half_even_def Let_def decimal_value money_grid_def split: prod.splits
      dest!: new_fixed_Inr)

lemma allocated_cost_grid: "allocated_position_cost E c l iid q = Inr v \<Longrightarrow> money_grid c v"
  by (auto simp: allocated_position_cost_def fraction_grid split: option.splits if_splits)

lemma premium_postings_zero:
  assumes "premium_postings E c l cur iid price m quantity signed close = Inr rs"
  shows "sums_to_zero E c cur rs"
proof -
  from assms obtain closed_cost open_f cash_f where
    c: "(if close = 0 then Inr 0 else allocated_position_cost E c l iid close) = Inr closed_cost"
    and o: "\<exists>x. fixed E x (lc_money_scale c) (Some ROUND_HALF_EVEN) = Inr open_f"
    and f: "\<exists>x. fixed E x (lc_money_scale c) (Some ROUND_HALF_EVEN) = Inr cash_f"
    and rs: "rs = [cash_posting E c cur (decimal E cash_f),
        instrument_posting E c ''assets:position_cost'' cur (decimal E open_f + dneg E closed_cost) iid,
        instrument_posting E c ''income:realized_pnl'' cur
          (dneg E (decimal E cash_f + (decimal E open_f + dneg E closed_cost))) iid]"
    unfolding premium_postings_def Let_def by (elim and_thenE) auto
  have g: "money_grid c (decimal E cash_f)" "money_grid c (decimal E open_f)" "money_grid c closed_cost"
    using o f c fixed_money_value allocated_cost_grid by (auto split: if_splits)
  then have k: "money_grid c (decimal E open_f + dneg E closed_cost)" by (intro money_grid_add dneg_grid)
  have "posted c (decimal E cash_f) + posted c (decimal E open_f + dneg E closed_cost)
      + posted c (dneg E (decimal E cash_f + (decimal E open_f + dneg E closed_cost))) = 0"
    if "fits_money E c (decimal E cash_f)" "fits_money E c (decimal E open_f + dneg E closed_cost)"
    using dneg_add_money [OF g(1) k that] posted_id [OF g(1)] posted_id [OF k]
      posted_id [OF money_grid_add [OF g(1) k]] by (simp only: posted_minus)
  then show ?thesis unfolding rs by (intro sums_to_zero_triple) auto
qed

lemma cash_asset_postings_zero:
  assumes "cash_asset_postings E c l cur iid sd quantity m notional old average allocated = Inr rs"
    and "money_grid c allocated"
  shows "sums_to_zero E c cur rs"
proof (cases "sd = BUY")
  case True
  with assms(1) have rs: "rs = [cash_posting E c cur (- notional),
      instrument_posting E c ''assets:position_cost'' cur notional iid]"
    by (auto simp: cash_asset_postings_def)
  show ?thesis unfolding rs by (rule sums_to_zero_pair) auto
next
  case False
  with assms(1) obtain nf cost where
    n: "fixed E notional (lc_money_scale c) (Some ROUND_HALF_EVEN) = Inr nf"
    and k: "(if pit c then Inr allocated
        else and_then (fixed E (dmul E (dmul E average quantity) m) (lc_money_scale c) (Some ROUND_HALF_EVEN))
               (\<lambda>f. Inr (decimal E f))) = Inr cost"
    and rs: "rs = [cash_posting E c cur (decimal E nf),
        instrument_posting E c ''assets:position_cost'' cur (- cost) iid,
        instrument_posting E c ''income:realized_pnl'' cur
          (- difference_for_valuation E c (decimal E nf) cost) iid]"
    unfolding cash_asset_postings_def Let_def by (elim if_raiseE) auto
  have g: "money_grid c (decimal E nf)" "money_grid c cost"
    using n k assms(2) fixed_money_value by (auto split: if_splits)
  have "posted c (decimal E nf) + posted c (- cost)
      + posted c (- difference_for_valuation E c (decimal E nf) cost) = 0"
    if "fits_money E c (decimal E nf)" "fits_money E c (- cost)"
  proof -
    have "fits_money E c cost" using that(2) by (simp add: fits_money_def round_half_even_minus)
    then have d: "difference_for_valuation E c (decimal E nf) cost = decimal E nf - cost"
      using dsub_money [OF g that(1)] by (simp add: difference_for_valuation_def)
    show ?thesis using posted_id [OF g(1)] posted_id [OF g(2)] posted_id [OF money_grid_diff [OF g]]
      by (simp only: d posted_minus)
  qed
  then show ?thesis unfolding rs by (intro sums_to_zero_triple) auto
qed

lemma fill_transaction_balanced:
  assumes "fill_transaction E c l f = Inr tx" "small_postings E tx"
  shows "balanced c tx"
proof -
  from assms(1) obtain sp rs where sp: "spec_of c (fl_instrument_id f) = Inr sp" and rs: "fill_postings E c l sp f = Inr rs"
    and tx: "make_transaction E c EV_FILL (fl_fill_id f) (''fill:'' @ fl_fill_id f) (fl_event_time f)
          (rs @ quantity_postings E c (sp_settlement_currency sp) (fl_instrument_id f) (signed_quantity E f)
                  (- signed_quantity E f) (scale (fl_quantity f))) = Inr tx"
    unfolding fill_transaction_def by (elim if_raiseE and_thenE) auto
  have "sums_to_zero E c (sp_settlement_currency sp) rs"
    using rs unfolding fill_postings_def Let_def
    by (elim and_thenE if_InrE)
      (auto simp: derivative_postings_zero dest!: premium_postings_zero cash_asset_postings_zero allocated_cost_grid
        split: if_splits)
  then have "sums_to_zero E c (sp_settlement_currency sp)
      (rs @ quantity_postings E c (sp_settlement_currency sp) (fl_instrument_id f) (signed_quantity E f)
                  (- signed_quantity E f) (scale (fl_quantity f)))"
    by (intro sums_to_zero_append) auto
  from make_transaction_zero [OF tx this assms(2)] show ?thesis .
qed

end

text \<open>The amounts that funding and settlement bring in have no more digits than the context.\<close>

definition amount_fits :: "env \<Rightarrow> ledger_event \<Rightarrow> bool" where
  "amount_fits E ev \<longleftrightarrow> (case ev of
       FundingEvent fu \<Rightarrow> \<bar>units (fu_amount fu)\<bar> < 10 ^ prec E
     | SettlementEvent s \<Rightarrow> \<bar>units (st_amount s)\<bar> < 10 ^ prec E
     | _ \<Rightarrow> True)"

definition money_accounts :: "ledger_config \<Rightarrow> ledger \<Rightarrow> bool" where
  "money_accounts c l \<longleftrightarrow> (\<forall>account cur iid. money_grid c (account_balance l account cur iid))"

context fixed_env
begin

lemma cash_income_balanced:
  assumes "cash_income_transaction E c ty ref t cur x counterpart iid = Inr tx" "small_postings E tx"
    and "dneg E x = - x"
  shows "balanced c tx"
proof -
  from assms(1) have tx: "make_transaction E c ty ref (event_type_value ty @ CHR '':'' # ref) t
      [cash_posting E c cur x, new_posting E c counterpart cur (dneg E x) iid None] = Inr tx"
    by (simp add: cash_income_transaction_def)
  show ?thesis
    by (rule make_transaction_zero [OF tx _ assms(2)], rule sums_to_zero_pair) (use assms(3) in auto)
qed

lemma dneg_decimal: "\<bar>units f\<bar> < 10 ^ prec E \<Longrightarrow> dneg E (decimal E f) = - decimal E f"
  using ctx_round_exact_div [of "units f" "prec E" "scale f"] by (simp add: dneg_def decimal_value ctx_round_minus)

lemma settlement_balanced:
  assumes "settlement_transaction E c l s = Inr tx" "small_postings E tx" "\<bar>units (st_amount s)\<bar> < 10 ^ prec E"
  shows "balanced c tx"
proof (cases "st_settlement_type s = ''daily_mark''")
  case False
  then show ?thesis using assms cash_income_balanced dneg_decimal by (simp add: settlement_transaction_def)
next
  case True
  with assms(1) obtain key x y iid where
    tx: "make_transaction E c EV_SETTLEMENT (st_settlement_id s) key (st_event_time s)
         ([cash_posting E c (st_currency s) x,
           instrument_posting E c ''income:settlement:daily_mark'' (st_currency s) (- x) iid]
        @ [instrument_posting E c ''memo:position_cost'' (st_currency s) y iid,
           instrument_posting E c ''memo:position_cost_counter'' (st_currency s) (- y) iid]) = Inr tx"
    unfolding settlement_transaction_def daily_mark_transaction_def Let_def case_prod_unfold append.simps
    by (simp del: and_then_Inr) (elim and_thenE if_raiseE, blast)
  show ?thesis
    by (rule make_transaction_zero [OF tx _ assms(2)], intro sums_to_zero_append sums_to_zero_pair) auto
qed

lemma terminal_cash_balanced:
  assumes "terminal_cash_transaction E c l sp a amount = Inr tx" "small_postings E tx" "money_accounts c l"
  shows "balanced c tx"
proof -
  let ?iid = "ca_instrument_id a" and ?cur = "sp_settlement_currency sp"
  from assms(1) obtain cf cost key q k s where
    cf: "\<exists>x. fixed E x (lc_money_scale c) (Some ROUND_HALF_EVEN) = Inr cf"
    and cost: "position_cost c l ?iid False = Inr cost"
    and tx: "make_transaction E c EV_CORPORATE_ACTION (ca_event_id a) key (ca_available_at a)
        ([cash_posting E c ?cur (decimal E cf),
          instrument_posting E c ''assets:position_cost'' ?cur (dneg E cost) ?iid,
          instrument_posting E c ''income:realized_pnl'' ?cur (dsub E cost (decimal E cf)) ?iid]
         @ quantity_postings E c ?cur ?iid q k s) = Inr tx"
    unfolding terminal_cash_transaction_def Let_def by (elim and_thenE) blast
  have g: "money_grid c (decimal E cf)" "money_grid c cost"
    using cf cost fixed_money_value assms(3) by (auto simp: position_cost_def money_accounts_def)
  have "posted c (decimal E cf) + posted c (dneg E cost) + posted c (dsub E cost (decimal E cf)) = 0"
    if "fits_money E c (decimal E cf)" "fits_money E c (dneg E cost)"
    using dneg_money_back [OF g(2) that(2)] dsub_money [OF g(2,1) _ that(1)]
      posted_id [OF g(1)] posted_id [OF g(2)] posted_id [OF money_grid_diff [OF g(2,1)]] by simp
  then show ?thesis
    by (intro make_transaction_zero [OF tx _ assms(2)] sums_to_zero_append sums_to_zero_triple) auto
qed

lemma declared_total_grid:
  assumes "validate_corporate_action E c l a = Inr ()" "money_accounts c l"
    and "ca_action_type a = ''cash_dividend_payment''" "dget (lg_dividend_entitlements l) (entitlement_key a) = Some (x, v)"
  shows "money_grid c v"
proof -
  from assms(1,3) have "validate_dividend E l a = Inr ()"
    unfolding validate_corporate_action_def by (auto simp: is_dividend_action_def)
  with assms(3,4) have "\<exists>cur iid. account_balance l ''assets:dividend_receivable'' cur iid = v"
    by (auto simp: validate_dividend_def Let_def split: option.splits)
  with assms(2) show ?thesis by (auto simp: money_accounts_def)
qed

lemma dividend_postings_zero:
  assumes "dividend_postings E c l sp a amount = Inr rs" "validate_corporate_action E c l a = Inr ()" "money_accounts c l"
  shows "sums_to_zero E c (py_str_opt (ca_currency a)) rs"
proof (cases "ca_action_type a = ''cash_dividend_payment''")
  case True
  with assms(1) obtain x v where v: "dget (lg_dividend_entitlements l) (entitlement_key a) = Some (x, v)"
    and rs: "rs = [cash_posting E c (py_str_opt (ca_currency a)) v,
      instrument_posting E c ''assets:dividend_receivable'' (py_str_opt (ca_currency a)) (dneg E v)
        (receivable_instrument (entitlement_key a))]"
    by (auto simp: dividend_postings_def Let_def split: option.splits)
  have "posted c v + posted c (dneg E v) = 0" if "fits_money E c v"
    using dneg_money [OF declared_total_grid [OF assms(2,3) True v] that] by simp
  then show ?thesis unfolding rs by (intro sums_to_zero_pair) auto
next
  case False
  define x where "x = dmul E (dmul E (case ca_share_entitlement a of
      Some terms \<Rightarrow> decimal E (se_eligible_quantity terms) | None \<Rightarrow> held l (ca_instrument_id a)) (decimal E amount))
      (decimal E (sp_contract_multiplier sp))"
  have x: "dneg E x = - x" by (simp add: x_def dneg_def dmul_def ctx_round_minus ctx_round_idem [OF prec_pos])
  obtain r where r: "is_posting E c (py_str_opt (ca_currency a)) x r"
    and rs: "rs = [r, instrument_posting E c ''income:corporate_action'' (py_str_opt (ca_currency a)) (dneg E x) (ca_instrument_id a)]"
    using assms(1) False by (cases "ca_action_type a = ''cash_dividend_entitlement''")
      (auto simp: dividend_postings_def Let_def simp flip: x_def)
  show ?thesis unfolding rs by (rule sums_to_zero_pair [OF r]) (auto simp: x)
qed

text \<open>Lists in several currencies.\<close>

definition zero_net :: "ledger_config \<Rightarrow> posting res list \<Rightarrow> bool" where
  "zero_net c rs \<longleftrightarrow> (\<forall>ps. map_res id rs = Inr ps \<longrightarrow> (\<forall>p \<in> set ps. 2 * \<bar>units (po_amount p)\<bar> < 10 ^ prec E) \<longrightarrow>
     (\<forall>k. net_amount ps k = 0) \<and> (\<forall>p \<in> set ps. scale (po_amount p) = lc_money_scale c))"

lemma sums_to_zero_net: "sums_to_zero E c cur rs \<Longrightarrow> zero_net c rs"
proof -
  assume "sums_to_zero E c cur rs"
  then obtain xs where xs: "list_all2 (is_posting E c cur) xs rs"
      "(\<forall>x \<in> set xs. fits_money E c x) \<longrightarrow> sum_list (map (posted c) xs) = 0"
    by (auto simp: sums_to_zero_def)
  show ?thesis using postings_net [OF xs(1)] xs(2) by (simp add: zero_net_def)
qed

lemma map_res_append: "map_res g (xs @ ys) = Inr zs \<longleftrightarrow>
    (\<exists>us vs. map_res g xs = Inr us \<and> map_res g ys = Inr vs \<and> zs = us @ vs)"
  by (induction xs arbitrary: zs) force+

lemma zero_net_append: "zero_net c rs \<Longrightarrow> zero_net c qs \<Longrightarrow> zero_net c (rs @ qs)"
proof -
  assume z: "zero_net c rs" "zero_net c qs"
  show ?thesis unfolding zero_net_def
  proof (intro allI impI)
    fix ps assume "map_res id (rs @ qs) = Inr ps" and small: "\<forall>p \<in> set ps. 2 * \<bar>units (po_amount p)\<bar> < 10 ^ prec E"
    then obtain us vs where "map_res id rs = Inr us" "map_res id qs = Inr vs" "ps = us @ vs"
      by (auto simp: map_res_append)
    with z small show "(\<forall>k. net_amount ps k = 0) \<and> (\<forall>p \<in> set ps. scale (po_amount p) = lc_money_scale c)"
      unfolding zero_net_def by (simp add: ball_Un)
  qed
qed

lemma make_transaction_net:
  assumes "make_transaction E c ty ref key t rs = Inr tx" "zero_net c rs" "small_postings E tx"
  shows "balanced c tx"
  using assms by (auto simp: make_transaction_def zero_net_def balanced_def small_postings_def)

lemma share_postings_net: "zero_net c (share_postings E c l sp a)"
  by (auto simp: share_postings_def Let_def zero_net_def [of c "[]"] split: option.splits
      intro!: sums_to_zero_net [of c "sp_settlement_currency sp"])

lemma corporate_action_balanced:
  assumes "corporate_action_transaction E c l a = Inr tx" "small_postings E tx"
    and "validate_corporate_action E c l a = Inr ()" "money_accounts c l"
  shows "balanced c tx"
proof -
  from assms(1) obtain sp where
    k: "(case (ca_action_type a = ''terminal_cash'', ca_cash_amount a) of
       (True, Some cash_amount) \<Rightarrow> terminal_cash_transaction E c l sp a cash_amount
     | (True, None) \<Rightarrow> Inl (AttributeError ''cash_amount'')
     | (False, cash_amount) \<Rightarrow>
         and_then (case cash_amount of None \<Rightarrow> Inr [] | Some amount \<Rightarrow> dividend_postings E c l sp a amount) (\<lambda>ps.
           make_transaction E c EV_CORPORATE_ACTION (ca_event_id a) (''corporate_action:'' @ ca_event_id a)
             (ca_available_at a) (ps @ share_postings E c l sp a))) = Inr tx"
    unfolding corporate_action_transaction_def by (elim and_thenE)
  show ?thesis
  proof (cases "ca_action_type a = ''terminal_cash''")
    case True
    with k terminal_cash_balanced [OF _ assms(2,4)] show ?thesis by (auto split: option.splits)
  next
    case False
    with k obtain ps where ps: "(case ca_cash_amount a of None \<Rightarrow> Inr [] | Some amount \<Rightarrow> dividend_postings E c l sp a amount) = Inr ps"
      and tx: "make_transaction E c EV_CORPORATE_ACTION (ca_event_id a) (''corporate_action:'' @ ca_event_id a)
             (ca_available_at a) (ps @ share_postings E c l sp a) = Inr tx"
      by auto
    have "zero_net c ps"
    proof (cases "ca_cash_amount a")
      case None
      with ps show ?thesis by (simp add: zero_net_def)
    next
      case (Some amount)
      with ps dividend_postings_zero [OF _ assms(3,4)] sums_to_zero_net show ?thesis by simp blast
    qed
    then show ?thesis
      by (intro make_transaction_net [OF tx _ assms(2)] zero_net_append share_postings_net)
  qed
qed

text \<open>The translation of every event that passed its validation balances.\<close>

lemma translate_balanced:
  assumes "translate E c l ev = Inr tx" "prepare_event E c l ev d = Inr prepared" "money_accounts c l"
    and "amount_fits E ev" "small_postings E tx"
  shows "balanced c tx"
proof (cases ev)
  case (FillEvent f)
  with assms fill_transaction_balanced show ?thesis by (simp add: translate_def)
next
  case (FeeEvent fee)
  with assms show ?thesis
    by (auto simp: translate_def dneg_idem intro: cash_income_balanced)
next
  case (FundingEvent fu)
  with assms show ?thesis
    by (auto simp: translate_def amount_fits_def intro: cash_income_balanced dneg_decimal)
next
  case (SettlementEvent s)
  with assms settlement_balanced show ?thesis by (simp add: translate_def amount_fits_def)
next
  case (ActionEvent a)
  with assms corporate_action_balanced show ?thesis by (auto simp: translate_def prepare_event_def)
qed

end

end
