(* ===== verification/Ledger_Run.thy ===== *)
theory Ledger_Run
  imports Ledger_Balance
begin

text \<open>
  The operations of the ledger as one machine, and that each of them keeps the invariant of
  \<open>Ledger_Inv\<close>: books equal journal, and the journal balances.
\<close>

section \<open>Balances stay at money scale\<close>

context fixed_env
begin

definition grid_table :: "ledger_config \<Rightarrow> (account_key, rat) dict \<Rightarrow> bool" where
  "grid_table c d \<longleftrightarrow> (\<forall>k v. dget d k = Some v \<longrightarrow> money_grid c v)"

lemma grid_table_get: "grid_table c d \<Longrightarrow> money_grid c (dget_or d k 0)"
  by (cases "dget d k") (simp_all add: grid_table_def dget_or_def del: split_paired_All)

lemma account_add_grid:
  assumes "grid_table c d" "scale (po_amount p) = lc_money_scale c"
  shows "grid_table c (account_add E p d)"
proof -
  have "money_grid c (decimal E (po_amount p))" using assms(2) by (auto simp: money_grid_def decimal_value)
  with assms(1) grid_table_get [OF assms(1)] show ?thesis
    by (simp add: account_add_def Let_def grid_table_def money_grid_add)
qed

lemma fold_account_add_grid:
  "grid_table c d \<Longrightarrow> \<forall>p \<in> set ps. scale (po_amount p) = lc_money_scale c \<Longrightarrow> grid_table c (fold (account_add E) ps d)"
  by (induction ps arbitrary: d) (simp_all add: account_add_grid)

lemma ledger_inv_money:
  assumes "ledger_inv E c l"
  shows "money_accounts c l"
proof -
  from assms obtain ts where a: "lg_accounts l = journal_accounts E ts" and b: "Ball (set ts) (balanced c)"
    by (auto simp: ledger_inv_def)
  have "grid_table c (journal_accounts E ts)"
    unfolding journal_accounts_def
    by (rule fold_account_add_grid) (use b in \<open>auto simp: grid_table_def balanced_def\<close>)
  then show ?thesis by (simp add: money_accounts_def account_balance_def a grid_table_get)
qed

lemma ledger_inv_total: "ledger_inv E c l \<Longrightarrow> currency_total (lg_accounts l) cur = 0"
  by (auto simp: ledger_inv_def journal_total)

end

section \<open>Posting\<close>

lemma post_Inr:
  assumes "post E c rollback t l = (Inr u, l')"
  obtains "lg_artifact_sink l = None" "tx_idempotency_key t \<notin> set (lg_transaction_keys l)"
      "l' = l\<lparr>lg_accounts := fold (account_add E) (tx_postings t) (lg_accounts l),
        lg_positions := fold (position_add E) (tx_postings t) (lg_positions l),
        lg_transactions := lg_transactions l @ [t],
        lg_transaction_keys := List.insert (tx_idempotency_key t) (lg_transaction_keys l)\<rparr>"
  | sent where "lg_artifact_sink l = Some sent" "lc_sink_accepts c t"
      "l' = l\<lparr>lg_accounts := fold (account_add E) (tx_postings t) (lg_accounts l),
        lg_positions := fold (position_add E) (tx_postings t) (lg_positions l),
        lg_artifact_sink := Some (sent @ [t]), lg_transaction_count := Suc (lg_transaction_count l)\<rparr>"
  using assms
  by (auto simp: post_def on_error_Inr bind_Inr journal_def fold_post_one split: if_splits option.splits)

lemma post_inv:
  assumes "ledger_inv E c l" "post E c rollback t l = (Inr u, l')" "balanced c t" "\<not> lg_artifact_stream_closed l"
  shows "ledger_inv E c l'"
  using assms(2)
proof (cases rule: post_Inr)
  case 1
  with assms(1,3,4) show ?thesis
    by (auto simp: ledger_inv_def journal_of_def journal_snoc intro!: exI [of _ "lg_transactions l @ [t]"])
next
  case (2 sent)
  with assms(1,3,4) show ?thesis
    by (auto simp: ledger_inv_def journal_of_def journal_snoc intro!: exI [of _ "sent @ [t]"])
qed

lemma post_fields:
  assumes "post E c rollback t l = (Inr u, l')"
  shows "lg_artifact_stream_closed l' = lg_artifact_stream_closed l" "lg_event_time l' = lg_event_time l"
    "lg_fills l' = lg_fills l" "lg_event_fingerprints l' = lg_event_fingerprints l"
    "lg_fill_trading_days l' = lg_fill_trading_days l" "lg_marks l' = lg_marks l"
    "lg_accounts l' = fold (account_add E) (tx_postings t) (lg_accounts l)"
    "lg_positions l' = fold (position_add E) (tx_postings t) (lg_positions l)"
    "lg_fx l' = lg_fx l" "lg_fx_history l' = lg_fx_history l"
  by (rule post_Inr [OF assms]; simp)+

section \<open>What surrounds the posting\<close>

lemma apply_dividend_state_books: "apply_dividend_state E a l = (r, l') \<Longrightarrow> same_books l l'"
  by (auto simp: apply_dividend_state_def Let_def split: if_splits option.splits)

lemma apply_split_state_books: "apply_split_state E a ratio l = (r, l') \<Longrightarrow> same_books l l'"
  by (auto simp: apply_split_state_def Let_def same_books_def split: if_splits option.splits sum.splits)

lemma credit_entitlement_books: "same_books l (credit_entitlement E a terms l)"
  by (simp add: credit_entitlement_def Let_def same_books_def)

lemma apply_action_state_books:
  assumes "apply_action_state E a l = (Inr u, l')"
  shows "same_books l l'"
proof -
  from assms obtain l1 where d: "apply_dividend_state E a l = (Inr (), l1)"
    and r: "(case (ca_share_entitlement a, ca_ratio a) of
       (Some terms, _) \<Rightarrow> put (credit_entitlement E a terms)
     | (None, Some ratio) \<Rightarrow> apply_split_state E a ratio
     | (None, None) \<Rightarrow> ret ()) l1 = (Inr u, l')"
    by (auto simp: apply_action_state_def bind_Inr)
  from r have "same_books l1 l'"
    by (auto simp: apply_split_state_books credit_entitlement_books split: option.splits)
  with apply_dividend_state_books [OF d] show ?thesis by (rule same_books_trans)
qed

lemma book_fill_state_books: "same_books l (book_fill_state f d u l)"
  by (simp add: book_fill_state_def same_books_def split: prod.splits)

lemma event_state_books:
  assumes "event_state E ev d prepared l = (Inr u, l')"
  shows "same_books l l'"
  using assms by (cases ev) (auto simp: event_state_def book_fill_state_books dest: apply_action_state_books split: option.splits)

lemma release_fill_books: "release_fill c ev l = (r, l') \<Longrightarrow> same_books l l'"
  by (cases ev) (auto simp: release_fill_def Let_def same_books_def split: if_splits option.splits sum.splits)

section \<open>Applying an event\<close>

definition note_event :: "env \<Rightarrow> ledger_config \<Rightarrow> ledger_event \<Rightarrow> bool \<Rightarrow> ledger_transaction \<Rightarrow> ledger \<Rightarrow> ledger" where
  "note_event E c ev trusted t l = (if trusted then l else l\<lparr>lg_event_fingerprints :=
     dset (event_identity ev) (kept_fingerprint E c l ev) (lg_event_fingerprints l)\<rparr>)\<lparr>lg_event_time := tx_event_time t\<rparr>"

lemma commit_event_InrE:
  assumes "commit_event E c ev d create rollback trusted t prepared l = (Inr snap, l')"
  obtains l1 l2 where "if no_effect_action ev t then l1 = l else post E c rollback t l = (Inr (), l1)"
    "event_state E ev d prepared l1 = (Inr (), l2)" "release_fill c ev (note_event E c ev trusted t l2) = (Inr (), l')"
    "optional_snapshot E c create (tx_event_time t) l' = Inr snap"
  using assms by (auto simp: commit_event_def bind_Inr note_event_def split: if_splits)

lemma apply_event_InrE:
  assumes "apply_event E c ev d create rollback trusted l = (Inr snap, l')"
  obtains (replayed) fp where "\<not> trusted" "dget (lg_event_fingerprints l) (event_identity ev) = Some fp" "l' = l"
      "replayed_event E c ev d create fp l = Inr snap" "\<not> lg_artifact_stream_closed l" "validate_event E c l ev = Inr ()"
  | (new) prepared t where "trusted \<or> dget (lg_event_fingerprints l) (event_identity ev) = None"
      "\<not> lg_artifact_stream_closed l" "validate_event E c l ev = Inr ()" "lg_event_time l \<le> event_instant ev"
      "prepare_event E c l ev d = Inr prepared" "translate E c l ev = Inr t"
      "commit_event E c ev d create rollback trusted t prepared l = (Inr snap, l')"
proof -
  from assms have v: "\<not> lg_artifact_stream_closed l" "validate_event E c l ev = Inr ()"
    and r: "(case (if trusted then None else dget (lg_event_fingerprints l) (event_identity ev)) of
       Some fp \<Rightarrow> ask (replayed_event E c ev d create fp)
     | None \<Rightarrow>
         bind (ask (\<lambda>l. if event_instant ev < lg_event_time l then raise ''ledger event time moved backwards'' else Inr ())) (\<lambda>_.
         bind (ask (\<lambda>l. prepare_event E c l ev d)) (\<lambda>prepared.
         bind (ask (\<lambda>l. translate E c l ev)) (\<lambda>t l.
           on_error (if rollback then rollback_apply ev t (capture_apply_undo ev t l) else id)
             (commit_event E c ev d create rollback trusted t prepared) l)))) l = (Inr snap, l')"
    by (auto simp: apply_event_def bind_Inr ledger_require_mutable_def split: if_splits)
  show thesis
  proof (cases "if trusted then None else dget (lg_event_fingerprints l) (event_identity ev)")
    case (Some fp)
    with r v replayed [of fp] show thesis by (auto split: if_splits)
  next
    case None
    with r v obtain prepared t where "lg_event_time l \<le> event_instant ev" "prepare_event E c l ev d = Inr prepared"
        "translate E c l ev = Inr t" "commit_event E c ev d create rollback trusted t prepared l = (Inr snap, l')"
      by (fastforce simp: bind_Inr on_error_Inr split: if_splits)
    with v None new show thesis by (auto split: if_splits)
  qed
qed

lemma note_event_books: "same_books l (note_event E c ev trusted t l)"
  by (simp add: note_event_def same_books_def)

lemma same_books_closed: "same_books l l' \<Longrightarrow> lg_artifact_stream_closed l' = lg_artifact_stream_closed l"
  by (simp add: same_books_def)

context fixed_env
begin

lemma commit_event_inv:
  assumes "commit_event E c ev d create rollback trusted t prepared l = (Inr snap, l')" "ledger_inv E c l"
    and "\<not> lg_artifact_stream_closed l" "balanced c t"
  shows "ledger_inv E c l'"
proof -
  obtain l1 l2 where p: "if no_effect_action ev t then l1 = l else post E c rollback t l = (Inr (), l1)"
    and s: "event_state E ev d prepared l1 = (Inr (), l2)" and r: "release_fill c ev (note_event E c ev trusted t l2) = (Inr (), l')"
    by (rule commit_event_InrE [OF assms(1)])
  have "ledger_inv E c l1" using p assms(2-4) by (auto intro: post_inv split: if_splits)
  moreover have "same_books l1 l'"
    by (rule same_books_trans [OF event_state_books [OF s] same_books_trans [OF note_event_books release_fill_books [OF r]]])
  ultimately show ?thesis by (rule same_books_inv [rotated])
qed

definition event_ok :: "ledger_config \<Rightarrow> ledger \<Rightarrow> ledger_event \<Rightarrow> bool" where
  "event_ok c l ev \<longleftrightarrow> amount_fits E ev \<and> (\<forall>t. translate E c l ev = Inr t \<longrightarrow> small_postings E t)"

lemma apply_event_inv:
  assumes "apply_event E c ev d create rollback trusted l = (Inr snap, l')" "ledger_inv E c l" "event_ok c l ev"
  shows "ledger_inv E c l'"
  using assms(1)
proof (cases rule: apply_event_InrE)
  case (replayed fp)
  with assms(2) show ?thesis by simp
next
  case (new prepared t)
  have "balanced c t"
    using translate_balanced [OF new(6,5) ledger_inv_money [OF assms(2)]] assms(3) new(6) by (simp add: event_ok_def)
  from commit_event_inv [OF new(7) assms(2) new(2) this] show ?thesis .
qed

end

lemma record_new_event_books: "same_books l (record_new_event c ev d before l)"
  by (simp add: record_new_event_def)

lemma apply_on_day_InrE:
  assumes "apply_on_day E c ev d create l = (Inr snap, l')"
  obtains l1 where "apply_event E c ev d create True False l = (Inr snap, l1)" "l' = record_new_event c ev d l l1"
  using assms by (auto simp: apply_on_day_def bind_Inr)

section \<open>Marks, rates, imports and streaming\<close>

lemma set_mark_books: "set_mark E c ev k p fingerprinted create l = (Inr snap, l') \<Longrightarrow> same_books l l'"
  by (auto simp: set_mark_def on_error_Inr bind_Inr intro!: same_books_trans [OF _ record_replay_fact_books])
    (simp_all add: same_books_def)

lemma mark_once_books: "mark_once E c ev k p fingerprinted create l = (Inr snap, l') \<Longrightarrow> same_books l l'"
  by (auto simp: mark_once_def bind_Inr dest: set_mark_books split: option.splits if_splits)

lemma observe_market_books: "observe_market E c ev create trusted l = (Inr snap, l') \<Longrightarrow> same_books l l'"
  by (auto simp: observe_market_def mark_def bind_Inr dest: mark_once_books split: event_body.splits option.splits)

lemma set_fx_rate_books: "set_fx_rate E c cur rate t l = Inr l' \<Longrightarrow> same_books l l'"
  unfolding set_fx_rate_def Let_def
  by (elim and_thenE if_raiseE) (auto simp: same_books_def split: if_splits option.splits prod.splits)

lemma observe_pit_fx_books: "observe_pit_fx c rate l = Inr (r, l') \<Longrightarrow> same_books l l'"
  by (auto simp: observe_pit_fx_def Let_def next_replay_sequence_def same_books_def split: if_splits option.splits)

lemma same_books_put: "same_books l (l\<lparr>lg_position_lots := a, lg_marks := b\<rparr>)"
  by (simp add: same_books_def)

context fixed_env
begin

lemma opening_position_balanced:
  assumes "opening_position_transaction E c sp iid q p = Inr tx" "small_postings E tx"
  shows "balanced c tx"
proof -
  from assms(1) have tx: "make_transaction E c EV_SETTLEMENT (''opening-position:'' @ iid) (''opening-position:'' @ iid)
      (lc_default_opened_at c)
      ([instrument_posting E c ''assets:position_cost'' (sp_settlement_currency sp)
          (product_for_valuation E c [decimal E q, decimal E p, decimal E (sp_contract_multiplier sp)]) iid,
        new_posting E c ''equity:opening'' (sp_settlement_currency sp)
          (- product_for_valuation E c [decimal E q, decimal E p, decimal E (sp_contract_multiplier sp)]) None None]
       @ quantity_postings E c (sp_settlement_currency sp) iid (decimal E q) (- decimal E q) (scale q)) = Inr tx"
    by (simp add: opening_position_transaction_def Let_def)
  show ?thesis
    by (intro make_transaction_zero [OF tx _ assms(2)] sums_to_zero_append sums_to_zero_pair) auto
qed

lemma book_opening_position_inv:
  assumes "book_opening_position E c iid q p d l = (Inr snap, l')" "ledger_inv E c l"
    and "\<And>tx. check_opening_position E c iid q p d l = Inr tx \<Longrightarrow> small_postings E tx"
  shows "ledger_inv E c l'"
proof -
  from assms(1) obtain tx seen where m: "\<not> lg_artifact_stream_closed l" and tx: "check_opening_position E c iid q p d l = Inr tx"
    and r: "l' = l \<or> (\<exists>l1. post E c True tx l = (Inr (), l1) \<and> same_books l1 l')"
    unfolding book_opening_position_def
    by (auto simp: bind_Inr ledger_require_mutable_def current_snapshot_def split: if_splits
        intro!: same_books_trans [OF same_books_put record_replay_fact_books])
  from tx have "balanced c tx"
    using assms(3) [OF tx] opening_position_balanced by (auto simp: check_opening_position_def)
  with r assms(2) m post_inv same_books_inv show ?thesis by blast
qed

lemma external_cash_balanced:
  assumes "make_transaction E c EV_SETTLEMENT k k t
      [cash_posting E c cur (decimal E amount),
       new_posting E c ''equity:external_flows'' cur (dneg E (decimal E amount)) None None] = Inr tx"
    and "scale amount \<le> lc_money_scale c" "fits_money E c (decimal E amount)"
  shows "balanced c tx"
proof -
  have "decimal E amount = of_int (units amount * 10 ^ (lc_money_scale c - scale amount)) / 10 ^ lc_money_scale c"
    using rescale [OF assms(2), of "units amount"] by (simp only: decimal_value)
  then have g: "money_grid c (decimal E amount)" unfolding money_grid_def by blast
  have n: "dneg E (decimal E amount) = - decimal E amount" by (rule dneg_money [OF g assms(3)])
  have z: "list_all2 (is_posting E c cur) [decimal E amount, - decimal E amount]
      [cash_posting E c cur (decimal E amount),
       new_posting E c ''equity:external_flows'' cur (dneg E (decimal E amount)) None None]"
    by (simp add: n)
  from assms(1) have ps: "map_res id [cash_posting E c cur (decimal E amount),
       new_posting E c ''equity:external_flows'' cur (dneg E (decimal E amount)) None None] = Inr (tx_postings tx)"
    by (auto simp: make_transaction_def)
  from postings_net(1,2) [OF z ps] show ?thesis by (simp add: balanced_def)
qed

lemma book_external_cash_inv:
  assumes "book_external_cash E c tid amount cur t l = (Inr snap, l')" "ledger_inv E c l"
    and "fits_money E c (decimal E amount)"
  shows "ledger_inv E c l'"
proof -
  from assms(1) obtain tx k u cur' where m: "\<not> lg_artifact_stream_closed l" and s: "scale amount \<le> lc_money_scale c"
    and tx: "make_transaction E c EV_SETTLEMENT k k u
      [cash_posting E c cur' (decimal E amount),
       new_posting E c ''equity:external_flows'' cur' (dneg E (decimal E amount)) None None] = Inr tx"
    and r: "l' = l \<or> (\<exists>l1 p n. post E c True tx l = (Inr (), l1) \<and> l' = record_replay_fact c p n (l1\<lparr>lg_event_time := u\<rparr>))"
    unfolding book_external_cash_def
    by (fastforce simp: bind_Inr ledger_require_mutable_def current_snapshot_def split: if_splits)
  have "same_books l1 (record_replay_fact c p n (l1\<lparr>lg_event_time := u\<rparr>))" for l1 p n
    by (rule same_books_trans [OF same_books_updates(2) record_replay_fact_books])
  with r have r: "l' = l \<or> (\<exists>l1. post E c True tx l = (Inr (), l1) \<and> same_books l1 l')" by blast
  from external_cash_balanced [OF tx s assms(3)] r assms(2) m post_inv same_books_inv show ?thesis by blast
qed

end

lemma start_ledger_stream_inv:
  assumes "start_ledger_stream c l = (Inr u, l')" "ledger_inv E c l"
  shows "ledger_inv E c l'"
proof -
  from assms(1) have "\<not> lg_artifact_stream_closed l" "lg_artifact_sink l = None"
    and l': "l' = l\<lparr>lg_artifact_sink := Some (takeWhile (lc_sink_accepts c) (lg_transactions l)),
        lg_transaction_count := length (lg_transactions l), lg_transactions := []\<rparr>"
    and "takeWhile (lc_sink_accepts c) (lg_transactions l) = lg_transactions l"
    by (auto simp: start_ledger_stream_def bind_Inr ledger_require_mutable_def list_all_iff split: if_splits)
  with assms(2) show ?thesis by (auto simp: ledger_inv_def journal_of_def)
qed

lemma finish_ledger_stream_inv: "finish_ledger_stream h calc l = Inr (r, l') \<Longrightarrow> ledger_inv E c l \<Longrightarrow> ledger_inv E c l'"
  by (auto simp: finish_ledger_stream_def ledger_inv_def split: if_splits)

lemma abort_ledger_stream_inv: "ledger_inv E c l \<Longrightarrow> ledger_inv E c (abort_ledger_stream l)"
  by (auto simp: abort_ledger_stream_def ledger_inv_def)

section \<open>The machine\<close>

datatype ledger_op =
    ApplyOp ledger_event bool
  | DayOp ledger_event day bool
  | ReplayOp ledger_event "day option"
  | ObserveOp market_event bool bool
  | FxOp string fixed_point instant
  | PitFxOp pit_fx_rate
  | CashOp string fixed_point string instant
  | PositionOp string fixed_point fixed_point day
  | StreamOp
  | FinishOp "string option" "string option"
  | AbortOp

definition ledger_step :: "env \<Rightarrow> ledger_config \<Rightarrow> ledger \<Rightarrow> ledger_op \<Rightarrow> ledger res" where
  "ledger_step E c l op = (let state = (\<lambda>r. and_then r (\<lambda>(_, l'). Inr l')) in case op of
       ApplyOp ev create \<Rightarrow> state (outcome (apply_ledger E c ev create) l)
     | DayOp ev d create \<Rightarrow> state (outcome (apply_with_trading_day E c ev d create) l)
     | ReplayOp ev d \<Rightarrow> and_then (outcome (apply_replay_event E c ev d) l) (\<lambda>(_, l'). Inr l')
     | ObserveOp ev create trusted \<Rightarrow> state (outcome (observe_market E c ev create trusted) l)
     | FxOp cur rate t \<Rightarrow> set_fx_rate E c cur rate t l
     | PitFxOp rate \<Rightarrow> and_then (observe_pit_fx c rate l) (\<lambda>(_, l'). Inr l')
     | CashOp tid amount cur t \<Rightarrow> and_then (outcome (book_external_cash E c tid amount cur t) l) (\<lambda>(_, l'). Inr l')
     | PositionOp iid q p d \<Rightarrow> and_then (outcome (book_opening_position E c iid q p d) l) (\<lambda>(_, l'). Inr l')
     | StreamOp \<Rightarrow> and_then (outcome (start_ledger_stream c) l) (\<lambda>(_, l'). Inr l')
     | FinishOp given calculated \<Rightarrow> and_then (finish_ledger_stream given (\<lambda>_. calculated) l) (\<lambda>(_, l'). Inr l')
     | AbortOp \<Rightarrow> Inr (abort_ledger_stream l))"

text \<open>Amounts stay below half of what the decimal context can hold.\<close>

definition event_small :: "env \<Rightarrow> ledger_config \<Rightarrow> ledger \<Rightarrow> ledger_event \<Rightarrow> bool" where
  "event_small E c l ev \<longleftrightarrow> amount_fits E ev
     \<and> (case translate E c l ev of Inl e \<Rightarrow> True | Inr t \<Rightarrow> small_postings E t)"

definition ledger_op_ok :: "env \<Rightarrow> ledger_config \<Rightarrow> ledger \<Rightarrow> ledger_op \<Rightarrow> bool" where
  "ledger_op_ok E c l op \<longleftrightarrow> (case op of
       ApplyOp ev create \<Rightarrow> event_small E c l ev
     | DayOp ev d create \<Rightarrow> event_small E c l ev
     | ReplayOp ev d \<Rightarrow> event_small E c l ev
     | CashOp tid amount cur t \<Rightarrow> fits_money E c (decimal E amount)
     | PositionOp iid q p d \<Rightarrow> (case check_opening_position E c iid q p d l of
           Inl e \<Rightarrow> True | Inr t \<Rightarrow> small_postings E t)
     | _ \<Rightarrow> True)"

context fixed_env
begin

lemma event_small_ok: "event_small E c l ev \<Longrightarrow> event_ok c l ev"
  by (auto simp: event_small_def event_ok_def split: sum.splits)

lemma apply_on_day_inv:
  assumes "apply_on_day E c ev d create l = (Inr snap, l')" "ledger_inv E c l" "event_small E c l ev"
  shows "ledger_inv E c l'"
proof -
  obtain l1 where a: "apply_event E c ev d create True False l = (Inr snap, l1)" and l': "l' = record_new_event c ev d l l1"
    by (rule apply_on_day_InrE [OF assms(1)])
  show ?thesis unfolding l'
    by (rule same_books_inv [OF record_new_event_books apply_event_inv [OF a assms(2) event_small_ok [OF assms(3)]]])
qed

lemma ledger_step_inv:
  assumes "ledger_inv E c l" "ledger_op_ok E c l op" "ledger_step E c l op = Inr l'"
  shows "ledger_inv E c l'"
proof (cases op)
  case (ApplyOp ev create)
  with assms apply_on_day_inv show ?thesis
    by (auto simp: ledger_step_def ledger_op_ok_def outcome_Inr apply_ledger_def)
next
  case (DayOp ev d create)
  with assms apply_on_day_inv show ?thesis
    by (auto simp: ledger_step_def ledger_op_ok_def outcome_Inr apply_with_trading_day_def)
next
  case (ReplayOp ev d)
  with assms(3) obtain snap l1 n where a: "apply_event E c ev d False False True l = (Inr snap, l1)"
    and l': "l' = record_replay_fact c (LedgerFact ev d) n l1"
    by (auto simp: ledger_step_def outcome_Inr apply_replay_event_def bind_Inr split: if_splits)
  from assms(2) ReplayOp have "event_ok c l ev" by (simp add: ledger_op_ok_def event_small_ok)
  from same_books_inv [OF record_replay_fact_books apply_event_inv [OF a assms(1) this]] show ?thesis by (simp add: l')
next
  case (ObserveOp ev create trusted)
  with assms show ?thesis
    by (auto simp: ledger_step_def outcome_Inr intro: same_books_inv observe_market_books)
next
  case (FxOp cur rate t)
  with assms show ?thesis by (auto simp: ledger_step_def intro: same_books_inv set_fx_rate_books)
next
  case (PitFxOp rate)
  with assms show ?thesis by (auto simp: ledger_step_def intro: same_books_inv observe_pit_fx_books)
next
  case (CashOp tid amount cur t)
  with assms show ?thesis
    by (auto simp: ledger_step_def ledger_op_ok_def outcome_Inr intro: book_external_cash_inv)
next
  case (PositionOp iid q p d)
  with assms(3) obtain snap where b: "book_opening_position E c iid q p d l = (Inr snap, l')"
    by (auto simp: ledger_step_def outcome_Inr)
  show ?thesis
    by (rule book_opening_position_inv [OF b assms(1)]) (use assms(2) PositionOp in \<open>simp add: ledger_op_ok_def\<close>)
next
  case StreamOp
  with assms show ?thesis by (auto simp: ledger_step_def outcome_Inr intro: start_ledger_stream_inv)
next
  case (FinishOp given calculated)
  with assms show ?thesis by (auto simp: ledger_step_def intro: finish_ledger_stream_inv)
next
  case AbortOp
  with assms show ?thesis by (auto simp: ledger_step_def intro: abort_ledger_stream_inv)
qed

end

sublocale fixed_env \<subseteq> ledger: fallible_machine "ledger_step E c" "ledger_op_ok E c" "ledger_inv E c" for c
  by unfold_locales (rule ledger_step_inv)

end
