(* ===== verification/Ledger_Atomic.thy ===== *)
theory Ledger_Atomic
  imports Ledger_Run
begin

text \<open>
  The rollback of the ledger.  An event, a mark or a market observation that raises leaves
  every table as it was, whatever step raised: the undo record covers exactly what the steps
  can touch.  Two states are compared table by table, not by the order of insertion.
\<close>

section \<open>States that cannot be told apart\<close>

definition same_ledger :: "ledger \<Rightarrow> ledger \<Rightarrow> bool" where
  "same_ledger l l' \<longleftrightarrow> lg_transactions l' = lg_transactions l \<and> lg_transaction_count l' = lg_transaction_count l
     \<and> lg_artifact_sink l' = lg_artifact_sink l \<and> lg_artifact_stream_closed l' = lg_artifact_stream_closed l
     \<and> lg_finalized_journal l' = lg_finalized_journal l \<and> lg_transaction_keys l' = lg_transaction_keys l
     \<and> dget (lg_event_fingerprints l') = dget (lg_event_fingerprints l) \<and> dget (lg_fills l') = dget (lg_fills l)
     \<and> dget (lg_accounts l') = dget (lg_accounts l) \<and> dget (lg_positions l') = dget (lg_positions l)
     \<and> dget (lg_marks l') = dget (lg_marks l) \<and> dget (lg_mark_fingerprints l') = dget (lg_mark_fingerprints l)
     \<and> dget (lg_fill_trading_days l') = dget (lg_fill_trading_days l)
     \<and> dget (lg_position_lots l') = dget (lg_position_lots l)
     \<and> dget (lg_fill_close_allocations l') = dget (lg_fill_close_allocations l)
     \<and> dget (lg_dividend_entitlements l') = dget (lg_dividend_entitlements l)
     \<and> lg_pit_fx_records l' = lg_pit_fx_records l \<and> lg_replay_facts l' = lg_replay_facts l
     \<and> lg_replay_sequence l' = lg_replay_sequence l \<and> lg_fx l' = lg_fx l \<and> lg_fx_history l' = lg_fx_history l
     \<and> lg_event_time l' = lg_event_time l"

lemma same_ledger_refl [simp]: "same_ledger l l"
  by (simp add: same_ledger_def)

interpretation ledger_state: guarded_update same_ledger
  by unfold_locales (simp_all add: same_ledger_def)

section \<open>Tables that differ in known places\<close>

definition agree_off :: "'k set \<Rightarrow> ('k, 'v) dict \<Rightarrow> ('k, 'v) dict \<Rightarrow> bool" where
  "agree_off K d d' \<longleftrightarrow> (\<forall>k. k \<notin> K \<longrightarrow> dget d' k = dget d k)"

lemma agree_off_refl [simp]: "agree_off K d d"
  by (simp add: agree_off_def)

lemma agree_off_trans: "agree_off K d d' \<Longrightarrow> agree_off K d' d'' \<Longrightarrow> agree_off K d d''"
  by (simp add: agree_off_def)

lemma agree_off_dset [simp]: "k \<in> K \<Longrightarrow> agree_off K d (dset k v d)"
  by (auto simp: agree_off_def)

lemma agree_off_ddel [simp]: "k \<in> K \<Longrightarrow> agree_off K d (ddel k d)"
  by (auto simp: agree_off_def)

lemma dget_restore_value: "dget (restore_value k v d) k' = (if k' = k then v else dget d k')"
  by (simp add: restore_value_def split: option.splits)

lemma restore_at_agree:
  "agree_off (set_option k) d d' \<Longrightarrow> dget (restore_at k (Option.bind k (dget d)) d') = dget d"
  by (cases k) (auto simp: restore_at_def agree_off_def dget_restore_value fun_eq_iff)

lemma restore_values_agree:
  assumes "agree_off (set ks) d d'"
  shows "dget (restore_values (saved_values ks d) d') = dget d"
proof -
  have "dget (restore_values (saved_values js d) e) k = (if k \<in> set js then dget d k else dget e k)" for js e k
    unfolding restore_values_def saved_values_def
    by (induction js arbitrary: e) (auto simp: dget_restore_value)
  with assms show ?thesis by (auto simp: agree_off_def fun_eq_iff)
qed

section \<open>What the steps of an event touch\<close>

definition touches :: "ledger_event \<Rightarrow> ledger_transaction \<Rightarrow> ledger \<Rightarrow> ledger \<Rightarrow> bool" where
  "touches ev t l u \<longleftrightarrow>
     agree_off (set (posting_keys t)) (lg_accounts l) (lg_accounts u)
     \<and> agree_off (set (position_ids t)) (lg_positions l) (lg_positions u)
     \<and> agree_off {event_identity ev} (lg_event_fingerprints l) (lg_event_fingerprints u)
     \<and> agree_off (set_option (event_fill_id ev)) (lg_fills l) (lg_fills u)
     \<and> agree_off (set_option (event_fill_id ev)) (lg_fill_trading_days l) (lg_fill_trading_days u)
     \<and> agree_off (set_option (event_fill_id ev)) (lg_fill_close_allocations l) (lg_fill_close_allocations u)
     \<and> agree_off (set_option (event_instrument ev)) (lg_position_lots l) (lg_position_lots u)
     \<and> agree_off (set_option (event_instrument ev)) (lg_marks l) (lg_marks u)
     \<and> agree_off (set_option (event_entitlement ev)) (lg_dividend_entitlements l) (lg_dividend_entitlements u)
     \<and> lg_transaction_count u = lg_transaction_count l \<and> lg_artifact_sink u = lg_artifact_sink l
     \<and> lg_artifact_stream_closed u = lg_artifact_stream_closed l \<and> lg_finalized_journal u = lg_finalized_journal l
     \<and> lg_mark_fingerprints u = lg_mark_fingerprints l \<and> lg_pit_fx_records u = lg_pit_fx_records l
     \<and> lg_replay_facts u = lg_replay_facts l \<and> lg_replay_sequence u = lg_replay_sequence l
     \<and> lg_fx u = lg_fx l \<and> lg_fx_history u = lg_fx_history l"

definition keeps_journal :: "ledger \<Rightarrow> ledger \<Rightarrow> bool" where
  "keeps_journal l u \<longleftrightarrow> lg_transactions u = lg_transactions l \<and> lg_transaction_keys u = lg_transaction_keys l"

lemma touches_refl [simp]: "touches ev t l l"
  by (simp add: touches_def)

lemma touches_trans: "touches ev t l u \<Longrightarrow> touches ev t u v \<Longrightarrow> touches ev t l v"
  unfolding touches_def by (elim conjE, intro conjI; (erule (1) agree_off_trans | simp))

lemma keeps_journal_refl [simp]: "keeps_journal l l"
  by (simp add: keeps_journal_def)

lemma keeps_journal_trans: "keeps_journal l u \<Longrightarrow> keeps_journal u v \<Longrightarrow> keeps_journal l v"
  by (simp add: keeps_journal_def)

lemma fold_account_add_agree:
  "(\<lambda>p. (po_ledger_account p, po_currency p, po_instrument_id p)) ` set ps \<subseteq> K \<Longrightarrow> agree_off K d (fold (account_add E) ps d)"
proof (induction ps arbitrary: d)
  case (Cons p ps)
  have "agree_off K d (account_add E p d)" using Cons.prems by (simp add: account_add_def Let_def)
  with Cons show ?case by (auto intro: agree_off_trans)
qed simp

lemma fold_position_add_agree:
  "(\<forall>p \<in> set ps. \<forall>iid q. po_instrument_id p = Some iid \<and> po_quantity_delta p = Some q
      \<and> po_ledger_account p = ''assets:position'' \<longrightarrow> iid \<in> K) \<Longrightarrow> agree_off K d (fold (position_add E) ps d)"
proof (induction ps arbitrary: d)
  case (Cons p ps)
  have "agree_off K d (position_add E p d)" using Cons.prems by (auto simp: position_add_def split: option.splits)
  with Cons show ?case by (auto intro: agree_off_trans)
qed simp

lemma post_touches:
  assumes "post E c rollback t l = (Inr (), u)" "lg_artifact_sink l = None"
  shows "touches ev t l u" "lg_transactions u = lg_transactions l @ [t]"
    "lg_transaction_keys u = List.insert (tx_idempotency_key t) (lg_transaction_keys l)"
    "tx_idempotency_key t \<notin> set (lg_transaction_keys l)"
proof -
  have a: "agree_off (set (posting_keys t)) d (fold (account_add E) (tx_postings t) d)" for d
    by (rule fold_account_add_agree) (auto simp: posting_keys_def)
  have p: "agree_off (set (position_ids t)) d (fold (position_add E) (tx_postings t) d)" for d
    by (rule fold_position_add_agree) (force simp: position_ids_def)
  from assms show "touches ev t l u" "lg_transactions u = lg_transactions l @ [t]"
    "lg_transaction_keys u = List.insert (tx_idempotency_key t) (lg_transaction_keys l)"
    "tx_idempotency_key t \<notin> set (lg_transaction_keys l)"
    by (auto elim!: post_Inr simp: touches_def a p)
qed

lemma post_fails:
  assumes "post E c rollback t l = (Inl e, u)" "lg_artifact_sink l = None"
  shows "u = l"
  using assms by (auto simp: post_def on_error_Inl bind_Inl journal_def fold_post_one split: if_splits)

lemma event_state_touches:
  assumes "event_state E ev d prepared l = (r, u)"
  shows "touches ev t l u \<and> keeps_journal l u"
proof (cases ev)
  case (FillEvent f)
  with assms show ?thesis
    by (auto simp: event_state_def book_fill_state_def touches_def keeps_journal_def event_fill_id_def event_instrument_def
        split: option.splits prod.splits)
next
  case (SettlementEvent s)
  with assms show ?thesis
    by (auto simp: event_state_def touches_def keeps_journal_def event_instrument_def split: option.splits)
next
  case (ActionEvent a)
  have d: "touches ev t l v \<and> keeps_journal l v" if "apply_dividend_state E a l = (q, v)" for l v q
    using that ActionEvent
    by (auto simp: apply_dividend_state_def Let_def touches_def keeps_journal_def event_entitlement_def
        split: if_splits option.splits)
  have s: "touches ev t l v \<and> keeps_journal l v" if "apply_split_state E a ratio l = (q, v)" for l v q ratio
    using that ActionEvent
    by (auto simp: apply_split_state_def Let_def touches_def keeps_journal_def event_instrument_def
        split: if_splits option.splits sum.splits)
  have c: "touches ev t l (credit_entitlement E a terms l) \<and> keeps_journal l (credit_entitlement E a terms l)" for l terms
    using ActionEvent
    by (auto simp: credit_entitlement_def Let_def touches_def keeps_journal_def event_instrument_def split: option.splits)
  from assms ActionEvent obtain q v where v: "apply_dividend_state E a l = (q, v)" and r: "v = u \<or> (\<exists>w.
      (case (ca_share_entitlement a, ca_ratio a) of
       (Some terms, _) \<Rightarrow> put (credit_entitlement E a terms)
     | (None, Some ratio) \<Rightarrow> apply_split_state E a ratio
     | (None, None) \<Rightarrow> ret ()) v = (w, u))"
    by (cases "apply_dividend_state E a l"; cases "fst (apply_dividend_state E a l)")
      (auto simp: event_state_def apply_action_state_def bind_def)
  have "touches ev t v u \<and> keeps_journal v u"
    using r s c by (auto split: option.splits)
  with d [OF v] show ?thesis using touches_trans keeps_journal_trans by blast
qed (use assms in \<open>auto simp: event_state_def\<close>)

lemma note_event_touches: "touches ev t l (note_event E c ev trusted tx l) \<and> keeps_journal l (note_event E c ev trusted tx l)"
  by (simp add: note_event_def touches_def keeps_journal_def)

lemma release_fill_plain: "lg_artifact_sink l = None \<Longrightarrow> release_fill c ev l = (Inr (), l)"
  by (cases ev) (simp_all add: release_fill_def)

text \<open>The journal has grown by the transaction, or the key was and stays unknown, or it was known.\<close>

definition journaled :: "ledger_transaction \<Rightarrow> ledger \<Rightarrow> ledger \<Rightarrow> bool" where
  "journaled t l u \<longleftrightarrow> keeps_journal l u \<or> lg_transactions u = lg_transactions l @ [t]
     \<and> lg_transaction_keys u = List.insert (tx_idempotency_key t) (lg_transaction_keys l)
     \<and> tx_idempotency_key t \<notin> set (lg_transaction_keys l)"

lemma journaled_keeps: "journaled t l u \<Longrightarrow> keeps_journal u v \<Longrightarrow> journaled t l v"
  by (auto simp: journaled_def keeps_journal_def)

lemma commit_event_fails:
  assumes "commit_event E c ev d create rollback trusted t prepared l = (Inl e, u)" "lg_artifact_sink l = None"
  shows "touches ev t l u \<and> journaled t l u"
proof -
  from assms(1) consider (post) "\<not> no_effect_action ev t" "post E c rollback t l = (Inl e, u)"
    | (later) l1 where "if no_effect_action ev t then l1 = l else post E c rollback t l = (Inr (), l1)"
        "event_state E ev d prepared l1 = (Inl e, u) \<or> (\<exists>l2. event_state E ev d prepared l1 = (Inr (), l2)
           \<and> (release_fill c ev (note_event E c ev trusted t l2) = (Inl e, u)
              \<or> release_fill c ev (note_event E c ev trusted t l2) = (Inr (), u)))"
    by (auto simp: commit_event_def bind_Inl bind_Inr note_event_def split: if_splits)
  then show ?thesis
  proof cases
    case post
    have "u = l" by (rule post_fails [OF post(2) assms(2)])
    then show ?thesis by (simp add: journaled_def)
  next
    case (later l1)
    have j: "touches ev t l l1 \<and> journaled t l l1"
      using later(1) post_touches [OF _ assms(2)] by (auto simp: journaled_def split: if_splits)
    then have sink: "lg_artifact_sink l1 = None" using assms(2) by (simp add: touches_def)
    have "touches ev t l1 u \<and> keeps_journal l1 u"
      using later(2)
    proof
      assume "event_state E ev d prepared l1 = (Inl e, u)"
      then show ?thesis by (rule event_state_touches)
    next
      assume "\<exists>l2. event_state E ev d prepared l1 = (Inr (), l2)
           \<and> (release_fill c ev (note_event E c ev trusted t l2) = (Inl e, u)
              \<or> release_fill c ev (note_event E c ev trusted t l2) = (Inr (), u))"
      then obtain l2 where s: "event_state E ev d prepared l1 = (Inr (), l2)"
        and r: "release_fill c ev (note_event E c ev trusted t l2) \<in> {(Inl e, u), (Inr (), u)}" by blast
      have t2: "touches ev t l1 l2 \<and> keeps_journal l1 l2" using s by (rule event_state_touches)
      have "lg_artifact_sink (note_event E c ev trusted t l2) = None"
        using t2 sink note_event_touches [of ev t l2 E c trusted t] by (simp add: touches_def)
      from release_fill_plain [OF this] r have "u = note_event E c ev trusted t l2" by auto
      then show ?thesis
        using t2 note_event_touches touches_trans keeps_journal_trans by blast
    qed
    with j show ?thesis using touches_trans journaled_keeps by blast
  qed
qed

section \<open>Undo leads back\<close>

lemma removeAll_insert: "x \<notin> set xs \<Longrightarrow> removeAll x (List.insert x xs) = xs"
  by simp

lemma rollback_restores:
  assumes "touches ev t l u" "journaled t l u"
  shows "same_ledger l (rollback_apply ev t (capture_apply_undo ev t l) u)"
proof -
  have keys: "(if tx_idempotency_key t \<in> set (lg_transaction_keys l) then lg_transaction_keys u
        else removeAll (tx_idempotency_key t) (lg_transaction_keys u)) = lg_transaction_keys l"
    and txs: "take (length (lg_transactions l)) (lg_transactions u) = lg_transactions l"
    using assms(2) by (auto simp: journaled_def keeps_journal_def)
  have fp: "dget (restore_value (event_identity ev) (dget (lg_event_fingerprints l) (event_identity ev))
      (lg_event_fingerprints u)) = dget (lg_event_fingerprints l)"
    using assms(1) by (auto simp: touches_def agree_off_def dget_restore_value fun_eq_iff)
  show ?thesis
    using assms(1) keys txs fp
    by (simp add: same_ledger_def rollback_apply_def capture_apply_undo_def touches_def restore_at_agree restore_values_agree)
qed

lemma apply_event_atomic:
  assumes "lg_artifact_sink l = None"
  shows "ledger_state.atomic (apply_event E c ev d create True trusted) l"
  unfolding ledger_state.atomic_def
proof (intro allI impI)
  fix e u
  assume fail: "apply_event E c ev d create True trusted l = (Inl e, u)"
  show "same_ledger l u"
  proof (cases "u = l")
    case False
    with fail obtain t prepared v where "commit_event E c ev d create True trusted t prepared l = (Inl e, v)"
      and u: "u = rollback_apply ev t (capture_apply_undo ev t l) v"
      by (auto simp: apply_event_def bind_Inl on_error_Inl split: option.splits)
    from commit_event_fails [OF this(1) assms] show ?thesis unfolding u by (simp add: rollback_restores)
  qed simp
qed

lemma apply_on_day_atomic:
  assumes "lg_artifact_sink l = None"
  shows "ledger_state.atomic (apply_on_day E c ev d create) l"
  using apply_event_atomic [OF assms, of E c ev d create False]
  by (auto simp: ledger_state.atomic_def apply_on_day_def bind_Inl)

lemma set_mark_atomic:
  assumes "fingerprinted \<longrightarrow> dget (lg_mark_fingerprints l) k = None"
  shows "ledger_state.atomic (set_mark E c ev k p fingerprinted create) l"
proof -
  have "same_ledger l (undo_mark (me_instrument_id ev) (if fingerprinted then Some k else None) l
      (l\<lparr>lg_marks := dset (me_instrument_id ev) m (lg_marks l),
         lg_mark_fingerprints := (if fingerprinted then dset k ev (lg_mark_fingerprints l) else lg_mark_fingerprints l),
         lg_event_time := t\<rparr>))" for m t
    using assms by (auto simp: same_ledger_def undo_mark_def dget_restore_value fun_eq_iff)
  then show ?thesis
    by (auto simp: ledger_state.atomic_def set_mark_def on_error_Inl bind_Inl)
qed

lemma mark_once_atomic: "ledger_state.atomic (mark_once E c ev k p fingerprinted create) l"
  using set_mark_atomic [of fingerprinted l k E c ev p create]
  by (auto simp: ledger_state.atomic_def mark_once_def bind_Inl split: option.splits if_splits)

lemma observe_market_atomic: "ledger_state.atomic (observe_market E c ev create trusted) l"
  using mark_once_atomic [of E c ev]
  by (auto simp: ledger_state.atomic_def observe_market_def mark_def bind_Inl split: event_body.splits option.splits)

end
