(* ===== verification/Ledger_Props.thy ===== *)
theory Ledger_Props
  imports Ledger_Atomic Matching_Bar_Props
begin

text \<open>
  What the ledger promises: books that follow a balanced journal from reset on, events that
  apply wholly or not at all, idempotent application, and funded cash-asset fills.
\<close>

section \<open>From reset on\<close>

context fixed_env
begin

lemmas ledger_run_inv = ledger.run_inv

lemma opening_cash_inv:
  assumes "opening_cash E c t l entry = Inr l'" "ledger_inv E c l" "\<not> lg_artifact_stream_closed l"
  shows "ledger_inv E c l' \<and> \<not> lg_artifact_stream_closed l'"
proof -
  obtain cur amount where entry: "entry = (cur, amount)" by (cases entry)
  from assms(1) obtain tx u where p: "post E c True tx l = (Inr u, l')"
    and ps: "map_res id [cash_posting E c cur (decimal E amount),
        new_posting E c ''equity:opening'' cur (- decimal E amount) None None] = Inr (tx_postings tx)"
    by (auto simp: opening_cash_def entry make_transaction_def outcome_Inr)
  have "list_all2 (is_posting E c cur) [decimal E amount, - decimal E amount]
      [cash_posting E c cur (decimal E amount), new_posting E c ''equity:opening'' cur (- decimal E amount) None None]"
    by simp
  from postings_net(1,2) [OF this ps] have "balanced c tx" by (simp add: balanced_def)
  from post_inv [OF assms(2) p this assms(3)] post_fields(1) [OF p] assms(3) show ?thesis by simp
qed

lemma ledger_reset_inv:
  assumes "ledger_reset E c opened = Inr l"
  shows "ledger_inv E c l"
proof -
  from assms obtain t l1 where fx: "fold_res (\<lambda>l (currency, rate). set_fx_rate E c currency rate t l) (blank_ledger c t)
        (sort_key fst (lc_initial_fx c)) = Inr l1"
    and cash: "fold_res (opening_cash E c t) l1 (sort_key fst (lc_initial_cash c)) = Inr l"
    by (auto simp: ledger_reset_def)
  have "same_books l0 l'" if "fold_res (\<lambda>l (currency, rate). set_fx_rate E c currency rate t l) l0 xs = Inr l'" for l0 xs l'
    using that
  proof (induction xs arbitrary: l0)
    case (Cons x xs)
    from Cons.prems obtain l2 where "same_books l0 l2"
      and r: "fold_res (\<lambda>l (currency, rate). set_fx_rate E c currency rate t l) l2 xs = Inr l'"
      by (auto dest: set_fx_rate_books split: prod.splits)
    from same_books_trans [OF this(1) Cons.IH [OF r]] show ?case .
  qed simp
  from this [OF fx] have l1: "ledger_inv E c l1 \<and> \<not> lg_artifact_stream_closed l1"
    using same_books_inv [OF _ ledger_inv_blank] by (auto simp: same_books_def blank_ledger_def)
  have "ledger_inv E c l' \<and> \<not> lg_artifact_stream_closed l'"
    if "fold_res (opening_cash E c t) l0 xs = Inr l'" "ledger_inv E c l0 \<and> \<not> lg_artifact_stream_closed l0" for l0 xs l'
    using that
  proof (induction xs arbitrary: l0)
    case (Cons x xs)
    from Cons.prems obtain l2 where "opening_cash E c t l0 x = Inr l2" "fold_res (opening_cash E c t) l2 xs = Inr l'"
      by auto
    with Cons opening_cash_inv show ?case by blast
  qed simp
  from this [OF cash l1] show ?thesis by simp
qed

end

text \<open>
  C13: Whatever has been applied, booked, marked or streamed since a reset, in any order, the
  books balance in every currency and are the fold of the journal kept or streamed so far.
\<close>

theorem ledger_books_follow_a_balanced_journal:
  assumes "fixed_env E" "ledger_reset E c opened = Inr l0"
    and "admissible (ledger_step E c) (ledger_op_ok E c) l0 ops" "fold_res (ledger_step E c) l0 ops = Inr l"
  shows "(\<forall>cur. currency_total (lg_accounts l) cur = 0)
     \<and> (\<not> lg_artifact_stream_closed l \<longrightarrow>
          lg_accounts l = journal_accounts E (journal_of l) \<and> lg_positions l = journal_positions E (journal_of l)
          \<and> (\<forall>t \<in> set (journal_of l). \<forall>cur. net_amount (tx_postings t) cur = 0))"
proof -
  have inv: "ledger_inv E c l"
    using fixed_env.ledger_run_inv [OF assms(1) fixed_env.ledger_reset_inv [OF assms(1,2)] assms(3,4)] .
  have "currency_total (lg_accounts l) cur = 0" for cur by (rule fixed_env.ledger_inv_total [OF assms(1) inv])
  moreover from inv have "\<not> lg_artifact_stream_closed l \<longrightarrow>
      lg_accounts l = journal_accounts E (journal_of l) \<and> lg_positions l = journal_positions E (journal_of l)
      \<and> (\<forall>t \<in> set (journal_of l). \<forall>cur. net_amount (tx_postings t) cur = 0)"
    by (auto simp: ledger_inv_def balanced_def)
  ultimately show ?thesis by blast
qed

section \<open>All or nothing\<close>

text \<open>
  C14: While no artifact sink is attached, an event that the ledger refuses, at whatever step and
  with or without the snapshot, leaves every table, the journal, the lots, the marks and the
  clock as they were.  (With a sink attached the journal differs: C20.)
\<close>

theorem refused_event_leaves_no_trace:
  assumes "lg_artifact_sink l = None"
    and "apply_ledger E c ev create l = (Inl e, u) \<or> apply_with_trading_day E c ev d create l = (Inl e, u)"
  shows "same_ledger l u"
  using assms(2) apply_on_day_atomic [OF assms(1), of E c ev _ create]
  by (auto simp: apply_ledger_def apply_with_trading_day_def ledger_state.atomic_def)

text \<open>
  A market observation that the ledger refuses leaves no trace either, even while the
  journal is streamed.
\<close>

theorem refused_observation_leaves_no_trace:
  assumes "observe_market E c ev create trusted l = (Inl e, u)"
  shows "same_ledger l u"
  using observe_market_atomic [of E c ev create trusted l] assms by (simp add: ledger_state.atomic_def)

section \<open>Idempotence\<close>

lemma event_state_fill_day:
  "event_state E ev d prepared l = (Inr u, l') \<Longrightarrow> is_fill ev \<and> d \<noteq> None \<longrightarrow>
     dget (lg_fill_trading_days l') (case ev of FillEvent f \<Rightarrow> fl_fill_id f | _ \<Rightarrow> []) = d"
  by (cases ev) (auto simp: event_state_def book_fill_state_def is_fill_def split: option.splits)

lemma release_fill_keeps:
  "release_fill c ev l = (Inr u, l') \<Longrightarrow> lg_event_fingerprints l' = lg_event_fingerprints l
     \<and> lg_fill_trading_days l' = lg_fill_trading_days l \<and> lg_artifact_sink l' = lg_artifact_sink l
     \<and> lg_artifact_stream_closed l' = lg_artifact_stream_closed l"
  by (cases ev) (auto simp: release_fill_def Let_def split: if_splits option.splits sum.splits)

lemma commit_event_notes:
  assumes "commit_event E c ev d create rollback False t prepared l = (Inr snap, l')"
  obtains w where "dget (lg_event_fingerprints l') (event_identity ev) = Some (kept_fingerprint E c w ev)"
    "lg_artifact_sink l = None \<longleftrightarrow> lg_artifact_sink w = None"
    "is_fill ev \<and> d \<noteq> None \<longrightarrow> dget (lg_fill_trading_days l') (case ev of FillEvent f \<Rightarrow> fl_fill_id f | _ \<Rightarrow> []) = d"
    "lg_artifact_stream_closed l' = lg_artifact_stream_closed l"
proof -
  obtain l1 l2 where p: "if no_effect_action ev t then l1 = l else post E c rollback t l = (Inr (), l1)"
    and s: "event_state E ev d prepared l1 = (Inr (), l2)"
    and r: "release_fill c ev (note_event E c ev False t l2) = (Inr (), l')"
    by (rule commit_event_InrE [OF assms])
  have b: "same_books l1 l2" by (rule event_state_books [OF s])
  have "lg_artifact_sink l = None \<longleftrightarrow> lg_artifact_sink l1 = None"
      "lg_artifact_stream_closed l1 = lg_artifact_stream_closed l"
    using p by (auto elim: post_Inr split: if_splits)
  with b have w: "lg_artifact_sink l = None \<longleftrightarrow> lg_artifact_sink l2 = None"
      "lg_artifact_stream_closed l2 = lg_artifact_stream_closed l"
    by (simp_all add: same_books_def)
  show thesis
    using release_fill_keeps [OF r] w event_state_fill_day [OF s]
    by (intro that [of l2]) (simp_all add: note_event_def)
qed

lemma apply_day_first:
  assumes "apply_with_trading_day E c ev d create l = (Inr snap, l1)"
    and "dget (lg_event_fingerprints l) (event_identity ev) = None"
  obtains w where "dget (lg_event_fingerprints l1) (event_identity ev) = Some (kept_fingerprint E c w ev)"
    "lg_artifact_sink l = None \<longleftrightarrow> lg_artifact_sink w = None"
    "case ev of FillEvent f \<Rightarrow> dget (lg_fill_trading_days l1) (fl_fill_id f) = Some d | _ \<Rightarrow> True"
    "\<not> lg_artifact_stream_closed l1"
proof -
  obtain l' where a: "apply_event E c ev (if is_fill ev then Some d else None) create True False l = (Inr snap, l')"
    and l1: "l1 = record_new_event c ev (if is_fill ev then Some d else None) l l'"
    using assms(1) unfolding apply_with_trading_day_def by (rule apply_on_day_InrE)
  have k: "lg_event_fingerprints l1 = lg_event_fingerprints l' \<and> lg_fill_trading_days l1 = lg_fill_trading_days l'
     \<and> lg_artifact_stream_closed l1 = lg_artifact_stream_closed l'"
    by (simp add: l1 record_new_event_def record_replay_fact_def next_replay_sequence_def)
  from a show thesis
  proof (cases rule: apply_event_InrE)
    case (new prepared t)
    from new(7) obtain w where "dget (lg_event_fingerprints l') (event_identity ev) = Some (kept_fingerprint E c w ev)"
      "lg_artifact_sink l = None \<longleftrightarrow> lg_artifact_sink w = None"
      "is_fill ev \<and> (if is_fill ev then Some d else None) \<noteq> None \<longrightarrow>
         dget (lg_fill_trading_days l') (case ev of FillEvent f \<Rightarrow> fl_fill_id f | _ \<Rightarrow> []) = (if is_fill ev then Some d else None)"
      "lg_artifact_stream_closed l' = lg_artifact_stream_closed l"
      by (rule commit_event_notes)
    with k new(2) show thesis by (intro that [of w]) (auto simp: is_fill_def split: ledger_event.splits)
  qed (use assms(2) in simp)
qed

lemma apply_event_seen:
  assumes "dget (lg_event_fingerprints l) (event_identity ev) = Some fp"
  shows "apply_event E c ev d create rollback False l =
    (and_then (ledger_require_mutable l) (\<lambda>_. and_then (validate_event E c l ev) (\<lambda>_.
       replayed_event E c ev d create fp l)), l)"
  by (auto simp: apply_event_def bind_def ask_def assms and_then_def split: sum.splits)

lemma apply_day_seen:
  assumes "dget (lg_event_fingerprints l) (event_identity ev) = Some fp"
  shows "apply_with_trading_day E c ev d create l =
    (and_then (ledger_require_mutable l) (\<lambda>_. and_then (validate_event E c l ev) (\<lambda>_.
       replayed_event E c ev (if is_fill ev then Some d else None) create fp l)), l)"
  by (auto simp: apply_with_trading_day_def apply_on_day_def apply_event_seen [OF assms] bind_def put_def ret_def
      record_new_event_def assms split: sum.splits)

text \<open>
  C15: Applying an event a second time, with the same trading day, is answered without any
  change, as long as it still passes validation; while nothing is streamed, an event with the
  same identity and another content, or a fill with another trading day, is refused.
\<close>

theorem ledger_application_is_idempotent:
  assumes "apply_with_trading_day E c ev d create l = (Inr snap, l1)"
    and "dget (lg_event_fingerprints l) (event_identity ev) = None"
    and "validate_event E c l1 ev = Inr ()"
  shows "apply_with_trading_day E c ev d False l1 = (Inr None, l1)
     \<and> (lg_artifact_sink l = None \<longrightarrow>
         (\<forall>ev' d' create'. event_identity ev' = event_identity ev \<and> (ev' \<noteq> ev \<or> is_fill ev \<and> d' \<noteq> d) \<longrightarrow>
            (\<exists>e. apply_with_trading_day E c ev' d' create' l1 = (Inl e, l1))))"
proof -
  obtain w where w: "dget (lg_event_fingerprints l1) (event_identity ev) = Some (kept_fingerprint E c w ev)"
    "lg_artifact_sink l = None \<longleftrightarrow> lg_artifact_sink w = None"
    "case ev of FillEvent f \<Rightarrow> dget (lg_fill_trading_days l1) (fl_fill_id f) = Some d | _ \<Rightarrow> True"
    "\<not> lg_artifact_stream_closed l1"
    by (rule apply_day_first [OF assms(1,2)])
  have m: "ledger_require_mutable l1 = Inr ()" using w(4) by (simp add: ledger_require_mutable_def)
  have same: "same_event E c (kept_fingerprint E c w ev) ev" by (simp add: same_event_def kept_fingerprint_def)
  have "apply_with_trading_day E c ev d False l1 = (Inr None, l1)"
    unfolding apply_day_seen [OF w(1)]
    using w(3) assms(3) m same by (cases ev) (simp_all add: replayed_event_def optional_snapshot_def is_fill_def)
  moreover have "\<exists>e. apply_with_trading_day E c ev' d' create' l1 = (Inl e, l1)"
    if "lg_artifact_sink l = None" "event_identity ev' = event_identity ev" "ev' \<noteq> ev \<or> is_fill ev \<and> d' \<noteq> d" for ev' d' create'
  proof -
    have fp: "dget (lg_event_fingerprints l1) (event_identity ev') = Some (Whole ev)"
      using w(1,2) that(1,2) by (simp add: kept_fingerprint_def)
    have "\<exists>e. replayed_event E c ev' (if is_fill ev' then Some d' else None) create' (Whole ev) l1 = Inl e"
      using that(3) w(3) by (cases ev) (auto simp: replayed_event_def same_event_def is_fill_def raise_def)
    then show ?thesis
      by (cases "validate_event E c l1 ev'") (auto simp: apply_day_seen [OF fp] m)
  qed
  ultimately show ?thesis by blast
qed

section \<open>Cash assets are paid for\<close>

lemma fold_account_add_get:
  "dget_or (fold (account_add E) ps d) k 0 = dget_or d k 0
     + sum_list (map (\<lambda>p. if (po_ledger_account p, po_currency p, po_instrument_id p) = k then decimal E (po_amount p) else 0) ps)"
  by (induction ps arbitrary: d) (auto simp: account_add_def dget_or_def Let_def)

lemma fold_position_add_get:
  "dget_or (fold (position_add E) ps d) iid 0 = dget_or d iid 0
     + sum_list (map (\<lambda>p. case po_quantity_delta p of None \<Rightarrow> 0 | Some q \<Rightarrow>
         if po_instrument_id p = Some iid \<and> po_ledger_account p = ''assets:position'' then decimal E q else 0) ps)"
  by (induction ps arbitrary: d) (auto simp: position_add_def dget_or_def split: option.splits)

context fixed_env
begin

lemma posted_mono: "x \<le> y \<Longrightarrow> posted c x \<le> posted c y"
  by (simp add: posted_def round_half_even_mono divide_right_mono mult_right_mono)

lemma posted_nonneg: "0 \<le> x \<Longrightarrow> 0 \<le> posted c x"
  using posted_mono [of 0 x] by simp

lemma product_nonneg: "\<forall>v \<in> set vs. 0 \<le> v \<Longrightarrow> 0 \<le> product_for_valuation E c vs"
proof -
  have "0 \<le> fold (\<lambda>v r. dmul E r v) vs r" if "0 \<le> r" "\<forall>v \<in> set vs. 0 \<le> v" for r
    using that by (induction vs arbitrary: r) (simp_all add: dmul_def ctx_round_nonneg)
  moreover have "\<forall>v \<in> set vs. 0 \<le> v \<Longrightarrow> 0 \<le> prod_list vs" by (induction vs) simp_all
  moreover assume "\<forall>v \<in> set vs. 0 \<le> v"
  ultimately show ?thesis by (simp add: product_for_valuation_def)
qed

lemma new_posting_parts:
  "new_posting E c account cur x iid q = Inr p \<Longrightarrow>
     po_ledger_account p = account \<and> po_currency p = cur \<and> po_instrument_id p = iid
     \<and> decimal E (po_amount p) = posted c x
     \<and> map_option (decimal E) (po_quantity_delta p)
         = map_option (\<lambda>(v, s). of_int (round_half_even (v * 10 ^ s)) / 10 ^ s) q"
  by (auto simp: new_posting_def posted_def decimal_value dest!: fixed_half_even split: option.splits)

text \<open>What one posting adds to an account and to a position.\<close>

definition cash_effect :: "string \<Rightarrow> posting \<Rightarrow> rat" where
  "cash_effect cur p = (if (po_ledger_account p, po_currency p, po_instrument_id p) = (''assets:cash'', cur, None)
     then decimal E (po_amount p) else 0)"

definition position_effect :: "string \<Rightarrow> posting \<Rightarrow> rat" where
  "position_effect iid p = (case po_quantity_delta p of None \<Rightarrow> 0 | Some q \<Rightarrow>
     if po_instrument_id p = Some iid \<and> po_ledger_account p = ''assets:position'' then decimal E q else 0)"

lemma books_effect:
  "cash_balance (l\<lparr>lg_accounts := fold (account_add E) ps (lg_accounts l)\<rparr>) cur
     = cash_balance l cur + sum_list (map (cash_effect cur) ps)"
  "held (l\<lparr>lg_positions := fold (position_add E) ps (lg_positions l)\<rparr>) iid = held l iid + sum_list (map (position_effect iid) ps)"
  by (simp_all add: cash_balance_def account_balance_def held_def fold_account_add_get fold_position_add_get
      cash_effect_def [abs_def] position_effect_def [abs_def])

text \<open>The same for a posting that is still to be built.\<close>

lemma effects [simp]:
  "cash_posting E c cur x = Inr p \<Longrightarrow> cash_effect cur p = posted c x \<and> position_effect iid p = 0"
  "instrument_posting E c account cur x j = Inr p \<Longrightarrow> cash_effect cur p = 0 \<and> position_effect iid p = 0"
  by (auto dest!: new_posting_parts simp: cash_posting_def instrument_posting_def cash_effect_def position_effect_def
      split: option.splits)

lemma quantity_effects:
  assumes "map_res id (quantity_postings E c cur iid (of_int u / 10 ^ s) (- (of_int u / 10 ^ s)) s) = Inr ps"
  shows "sum_list (map (cash_effect cur) ps) = 0" "sum_list (map (position_effect iid) ps) = of_int u / 10 ^ s"
  using assms
  by (auto simp: quantity_postings_def cash_effect_def position_effect_def round_half_even_minus
      dest!: new_posting_parts split: option.splits)

lemma cash_asset_effect:
  assumes "cash_asset_postings E c l cur iid sd quantity m notional old average allocated = Inr rs" "map_res id rs = Inr ps"
    and "0 \<le> notional"
  shows "sum_list (map (position_effect j) ps) = 0"
    and "sd = BUY \<Longrightarrow> notional \<le> cash_balance l cur \<and> sum_list (map (cash_effect cur) ps) = - posted c notional"
    and "sd = SELL \<Longrightarrow> quantity \<le> old \<and> 0 \<le> sum_list (map (cash_effect cur) ps)"
proof -
  have n: "0 \<le> decimal E f" if "fixed E notional (lc_money_scale c) (Some ROUND_HALF_EVEN) = Inr f" for f
    using fixed_half_even [OF that] assms(3) by (simp add: decimal_value round_half_even_nonneg)
  show "sum_list (map (position_effect j) ps) = 0"
    "sd = BUY \<Longrightarrow> notional \<le> cash_balance l cur \<and> sum_list (map (cash_effect cur) ps) = - posted c notional"
    "sd = SELL \<Longrightarrow> quantity \<le> old \<and> 0 \<le> sum_list (map (cash_effect cur) ps)"
    using assms(1,2) n unfolding cash_asset_postings_def
    by (auto simp: posted_nonneg Let_def split: if_splits)
qed

lemma cash_asset_fill_effect:
  assumes "fill_transaction E c l f = Inr tx" "dget (lc_instruments c) (fl_instrument_id f) = Some sp"
    and "\<not> is_derivative sp" "\<not> is_premium_asset sp"
    and "0 \<le> units (fl_price f)" "0 \<le> units (fl_quantity f)" "0 \<le> units (sp_contract_multiplier sp)"
    and "ledger_inv E c l" "0 \<le> held l (fl_instrument_id f)" "0 \<le> cash_balance l (sp_settlement_currency sp)"
  shows "0 \<le> held l (fl_instrument_id f) + sum_list (map (position_effect (fl_instrument_id f)) (tx_postings tx))
    \<and> 0 \<le> cash_balance l (sp_settlement_currency sp)
          + sum_list (map (cash_effect (sp_settlement_currency sp)) (tx_postings tx))"
proof -
  let ?iid = "fl_instrument_id f" and ?cur = "sp_settlement_currency sp" and ?q = "decimal E (fl_quantity f)"
  define n where "n = product_for_valuation E c [?q, decimal E (fl_price f), decimal E (sp_contract_multiplier sp)]"
  have n: "0 \<le> n" unfolding n_def using assms(5-7) by (intro product_nonneg) (simp add: decimal_value)
  from assms(1,2) obtain rs where rs: "fill_postings E c l sp f = Inr rs"
    and ps: "map_res id (rs @ quantity_postings E c ?cur ?iid (signed_quantity E f) (- signed_quantity E f)
        (scale (fl_quantity f))) = Inr (tx_postings tx)"
    by (auto simp: fill_transaction_def spec_of_def of_option_def make_transaction_def split: if_splits)
  from rs assms(2-4) obtain average allocated where
    cash: "cash_asset_postings E c l ?cur ?iid (fl_side f) ?q (decimal E (sp_contract_multiplier sp)) n (held l ?iid) average allocated = Inr rs"
    by (auto simp: fill_postings_def Let_def derivative_instrument_def n_def)
  from ps obtain p1 p2 where p: "map_res id rs = Inr p1" "tx_postings tx = p1 @ p2"
    "map_res id (quantity_postings E c ?cur ?iid (signed_quantity E f) (- signed_quantity E f) (scale (fl_quantity f))) = Inr p2"
    by (auto simp: map_res_append)
  obtain u where u: "signed_quantity E f = of_int u / 10 ^ scale (fl_quantity f)"
    using that [of "units (fl_quantity f)"] that [of "- units (fl_quantity f)"]
    by (cases "fl_side f") (simp_all add: signed_quantity_def decimal_value)
  note q = quantity_effects [OF p(3) [unfolded u], folded u]
  note a = cash_asset_effect [OF cash p(1) n]
  have "money_grid c (cash_balance l ?cur)"
    using ledger_inv_money [OF assms(8)] by (simp add: money_accounts_def cash_balance_def)
  then have "posted c n \<le> cash_balance l ?cur" if "n \<le> cash_balance l ?cur"
    using posted_mono [OF that, of c] by (simp add: posted_id)
  with a q p(2) assms(6,9,10) show ?thesis
    by (cases "fl_side f") (auto simp: signed_quantity_def decimal_value)
qed

end

lemma apply_day_fill_books:
  assumes "apply_with_trading_day E c (FillEvent f) d create l = (Inr snap, l')"
    and "dget (lg_event_fingerprints l) (''fill_id:'' @ fl_fill_id f) = None"
  obtains tx where "fill_transaction E c l f = Inr tx"
    "lg_accounts l' = fold (account_add E) (tx_postings tx) (lg_accounts l)"
    "lg_positions l' = fold (position_add E) (tx_postings tx) (lg_positions l)"
    "lg_position_lots l' = dset (fl_instrument_id f) (fst (prepare_lot_update E l f d)) (lg_position_lots l)"
    "lg_fill_close_allocations l' = dset (fl_fill_id f) (snd (prepare_lot_update E l f d)) (lg_fill_close_allocations l)"
proof -
  obtain l0 where a: "apply_event E c (FillEvent f) (Some d) create True False l = (Inr snap, l0)"
    and l': "l' = record_new_event c (FillEvent f) (Some d) l l0"
    using assms(1) unfolding apply_with_trading_day_def by (rule apply_on_day_InrE) (simp add: is_fill_def)
  from a show thesis
  proof (cases rule: apply_event_InrE)
    case (replayed fp)
    with assms(2) show thesis by (simp add: event_identity_def)
  next
    case (new prepared t)
    from new(5) have p: "snd prepared = Some (prepare_lot_update E l f d)" by (auto simp: prepare_event_def)
    from new(7) obtain l1 l2 where post: "post E c True t l = (Inr (), l1)"
      and st: "event_state E (FillEvent f) (Some d) prepared l1 = (Inr (), l2)"
      and r: "release_fill c (FillEvent f) (note_event E c (FillEvent f) False t l2) = (Inr (), l0)"
      by (rule commit_event_InrE) (simp add: no_effect_action_def)
    have l2: "l2 = book_fill_state f (Some d) (prepare_lot_update E l f d) l1" using st p by (simp add: event_state_def)
    have l0: "l0 = note_event E c (FillEvent f) False t l2" using r by (simp add: release_fill_def)
    have k: "lg_position_lots l1 = lg_position_lots l" "lg_fill_close_allocations l1 = lg_fill_close_allocations l"
      by (rule post_Inr [OF post]; simp)+
    show thesis
      using new(6) post_fields [OF post] k
      by (intro that [of t]) (simp_all add: l' l0 l2 translate_def record_new_event_def record_replay_fact_def
          next_replay_sequence_def note_event_def book_fill_state_def split: prod.splits)
  qed
qed

text \<open>
  C16: A fill of a cash asset that the ledger accepts is paid for: it drives neither the
  position nor the cash of its settlement currency below zero, although the posted notional
  is rounded to money scale.
\<close>

theorem cash_asset_fill_is_funded:
  assumes "fixed_env E" "ledger_inv E c l" "apply_with_trading_day E c (FillEvent f) d create l = (Inr snap, l')"
    and "dget (lg_event_fingerprints l) (''fill_id:'' @ fl_fill_id f) = None"
    and "dget (lc_instruments c) (fl_instrument_id f) = Some sp" "\<not> is_derivative sp" "\<not> is_premium_asset sp"
    and "0 \<le> units (fl_price f)" "0 \<le> units (fl_quantity f)" "0 \<le> units (sp_contract_multiplier sp)"
    and "0 \<le> held l (fl_instrument_id f)" "0 \<le> cash_balance l (sp_settlement_currency sp)"
  shows "0 \<le> held l' (fl_instrument_id f) \<and> 0 \<le> cash_balance l' (sp_settlement_currency sp)"
proof -
  obtain tx where tx: "fill_transaction E c l f = Inr tx"
    and books: "lg_accounts l' = fold (account_add E) (tx_postings tx) (lg_accounts l)"
      "lg_positions l' = fold (position_add E) (tx_postings tx) (lg_positions l)"
    by (rule apply_day_fill_books [OF assms(3,4)])
  note effect = fixed_env.cash_asset_fill_effect [OF assms(1) tx assms(5-10) assms(2,11,12)]
  have "held l' iid = held (l\<lparr>lg_positions := fold (position_add E) (tx_postings tx) (lg_positions l)\<rparr>) iid"
    "cash_balance l' cur = cash_balance (l\<lparr>lg_accounts := fold (account_add E) (tx_postings tx) (lg_accounts l)\<rparr>) cur" for iid cur
    by (simp_all add: held_def cash_balance_def account_balance_def books)
  with effect show ?thesis by (simp add: fixed_env.books_effect [OF assms(1)])
qed

end
