(* ===== verification/Ledger_Lots.thy ===== *)
theory Ledger_Lots
  imports Ledger_Props
begin

text \<open>
  The acquisition lots behind a position.  On quantities that the decimal context holds
  exactly, closing and opening lots conserves quantity, and the lots add up to the position.
\<close>

section \<open>Closing and opening lots\<close>

definition good_lot :: "nat \<Rightarrow> rat \<Rightarrow> rat \<Rightarrow> lot \<Rightarrow> bool" where
  "good_lot k t s lt \<longleftrightarrow> (\<exists>n. snd lt = of_int n / 10 ^ k) \<and> 0 < s * snd lt \<and> \<bar>snd lt\<bar> \<le> t"

definition lots_total :: "lot list \<Rightarrow> rat" where
  "lots_total lots = sum_list (map snd lots)"

lemma lots_total_simps [simp]:
  "lots_total [] = 0" "lots_total (lt # lots) = snd lt + lots_total lots" "lots_total (xs @ ys) = lots_total xs + lots_total ys"
  by (simp_all add: lots_total_def)

lemma grid_min: "x = (of_int a :: rat) / 10 ^ k \<Longrightarrow> y = of_int b / 10 ^ k \<Longrightarrow> \<exists>m. min x y = of_int m / 10 ^ k"
  by (cases "x \<le> y") (auto simp: min_def)

context fixed_env
begin

lemma grid_exact: "x = of_int n / 10 ^ k \<Longrightarrow> \<bar>x\<bar> \<le> t \<Longrightarrow> t * 10 ^ k < 10 ^ prec E \<Longrightarrow> ctx_round (prec E) x = x"
proof -
  assume x: "x = of_int n / 10 ^ k" "\<bar>x\<bar> \<le> t" "t * 10 ^ k < 10 ^ prec E"
  have "\<bar>x\<bar> * 10 ^ k = of_int \<bar>n\<bar>" by (simp add: x(1) abs_divide)
  moreover have "\<bar>x\<bar> * 10 ^ k \<le> t * 10 ^ k" using x(2) by (simp add: mult_right_mono)
  ultimately have "(of_int \<bar>n\<bar> :: rat) < of_int (10 ^ prec E)" using x(3) by simp
  then have "\<bar>n\<bar> < 10 ^ prec E" by (simp only: of_int_less_iff)
  from ctx_round_exact_div [OF this, of k] show ?thesis by (simp add: x(1))
qed

lemma grid_diff_exact:
  assumes "x = of_int a / 10 ^ k" "y = of_int b / 10 ^ k" "\<bar>x - y\<bar> \<le> t" "t * 10 ^ k < 10 ^ prec E"
  shows "dsub E x y = x - y"
  using grid_exact [OF _ assms(3,4), of "a - b"] assms(1,2) by (simp add: dsub_def diff_divide_distrib)

lemma grid_add_exact:
  assumes "x = of_int a / 10 ^ k" "y = of_int b / 10 ^ k" "\<bar>x + y\<bar> \<le> t" "t * 10 ^ k < 10 ^ prec E"
  shows "dadd E x y = x + y"
  using grid_exact [OF _ assms(3,4), of "a + b"] assms(1,2) by (simp add: dadd_def add_divide_distrib)

lemma grid_neg_exact:
  "x = of_int a / 10 ^ k \<Longrightarrow> \<bar>x\<bar> \<le> t \<Longrightarrow> t * 10 ^ k < 10 ^ prec E \<Longrightarrow> dneg E x = - x"
  using grid_exact [of "- x" "- a" k t] by (simp add: dneg_def)

lemma grid_abs_exact:
  "x = of_int a / 10 ^ k \<Longrightarrow> \<bar>x\<bar> \<le> t \<Longrightarrow> t * 10 ^ k < 10 ^ prec E \<Longrightarrow> dabs E x = \<bar>x\<bar>"
  using grid_exact [of "\<bar>x\<bar>" "\<bar>a\<bar>" k t] by (simp add: dabs_def abs_divide)

text \<open>What closing against one lot does, on exact quantities.\<close>

lemma close_lot_exact:
  assumes "good_lot k t s (d, q)" "s = 1 \<or> s = -1" "left = of_int a / 10 ^ k" "pc = of_int b / 10 ^ k" "tc = of_int e / 10 ^ k"
    and "0 \<le> left" "0 \<le> pc" "0 \<le> tc" "left + pc + tc \<le> t" "t * 10 ^ k < 10 ^ prec E"
  shows "close_lot E day (up, left, pc, tc) (d, q) = (let cl = min \<bar>q\<bar> left in
     (if cl = \<bar>q\<bar> then up else up @ [(d, q - s * cl)], left - cl,
      if d = day then pc else pc + cl, if d = day then tc + cl else tc))"
proof -
  obtain n where n: "q = of_int n / 10 ^ k" and sq: "0 < s * q" "\<bar>q\<bar> \<le> t" using assms(1) by (auto simp: good_lot_def)
  have aq: "dabs E q = \<bar>q\<bar>" by (rule grid_abs_exact [OF n sq(2) assms(10)])
  have "\<bar>q\<bar> = of_int \<bar>n\<bar> / 10 ^ k" by (simp add: n abs_divide)
  then obtain m where m: "min \<bar>q\<bar> left = of_int m / 10 ^ k" using grid_min [OF _ assms(3)] by blast
  have le: "left \<le> t" "pc + left \<le> t" "tc + left \<le> t" "0 \<le> t" using assms(6-9) by linarith+
  define r where "r = \<bar>q\<bar> - min \<bar>q\<bar> left"
  have r: "r = of_int (\<bar>n\<bar> - m) / 10 ^ k" "\<bar>r\<bar> \<le> t"
  proof -
    show "r = of_int (\<bar>n\<bar> - m) / 10 ^ k"
      unfolding r_def m by (simp only: \<open>\<bar>q\<bar> = of_int \<bar>n\<bar> / 10 ^ k\<close> of_int_diff diff_divide_distrib)
    show "\<bar>r\<bar> \<le> t" using sq(2) assms(6) by (auto simp: r_def min_def)
  qed
  have mn: "0 \<le> min \<bar>q\<bar> left" "min \<bar>q\<bar> left \<le> left" using assms(6) by auto
  note aq_grid = \<open>\<bar>q\<bar> = of_int \<bar>n\<bar> / 10 ^ k\<close>
  have e1: "dsub E \<bar>q\<bar> (min \<bar>q\<bar> left) = r"
    unfolding r_def by (rule grid_diff_exact [OF aq_grid m _ assms(10)]) (use r(2) in \<open>simp only: r_def\<close>)
  have e2: "dsub E left (min \<bar>q\<bar> left) = left - min \<bar>q\<bar> left"
    by (rule grid_diff_exact [OF assms(3) m _ assms(10)]) (use mn le in linarith)
  have e3: "dadd E pc (min \<bar>q\<bar> left) = pc + min \<bar>q\<bar> left"
    by (rule grid_add_exact [OF assms(4) m _ assms(10)]) (use mn le assms(7) in linarith)
  have e4: "dadd E tc (min \<bar>q\<bar> left) = tc + min \<bar>q\<bar> left"
    by (rule grid_add_exact [OF assms(5) m _ assms(10)]) (use mn le assms(8) in linarith)
  have e5: "dneg E r = - r" by (rule grid_neg_exact [OF r assms(10)])
  note ex = e1 e2 e3 e4 e5
  have sg: "(if q > 0 then r else - r) = q - s * min \<bar>q\<bar> left" using assms(2) sq(1) by (auto simp: r_def)
  have z: "r = 0 \<longleftrightarrow> min \<bar>q\<bar> left = \<bar>q\<bar>" by (auto simp: r_def)
  have nil: "min \<bar>q\<bar> left \<noteq> \<bar>q\<bar> \<and> min \<bar>q\<bar> left = 0" if "left = 0" using sq that by auto
  show ?thesis
  proof (cases "left = 0")
    case True
    then show ?thesis unfolding close_lot_def Let_def prod.case using nil by simp
  next
    case False
    then show ?thesis
      unfolding close_lot_def Let_def prod.case aq ex sg z by simp
  qed
qed

lemma lots_total_sign: "list_all (good_lot k t s) lots \<Longrightarrow> 0 \<le> s * lots_total lots"
  by (induction lots) (auto simp: good_lot_def distrib_left)

lemma close_fold:
  assumes "fold (\<lambda>lt st. close_lot E day st lt) lots (up, left, pc, tc) = (up', left', pc', tc')"
    and "list_all (good_lot k t s) lots" "list_all (good_lot k t s) up" "s = 1 \<or> s = -1"
    and "left = of_int a / 10 ^ k" "pc = of_int b / 10 ^ k" "tc = of_int e / 10 ^ k"
    and "0 \<le> left" "0 \<le> pc" "0 \<le> tc" "left + pc + tc \<le> t" "t * 10 ^ k < 10 ^ prec E"
  shows "list_all (good_lot k t s) up' \<and> left' + pc' + tc' = left + pc + tc
     \<and> lots_total up' = lots_total up + lots_total lots - s * (left - left')
     \<and> left' = max 0 (left - \<bar>lots_total lots\<bar>) \<and> (\<exists>a'. left' = of_int a' / 10 ^ k)
     \<and> (left' \<noteq> 0 \<longrightarrow> up' = up)"
  using assms
proof (induction lots arbitrary: up left pc tc a b e)
  case Nil
  then show ?case by auto
next
  case (Cons lt lots)
  obtain d q where lt: "lt = (d, q)" by (cases lt)
  note good = Cons.prems(2) [unfolded lt, simplified] and sg = Cons.prems(4)
  define cl where "cl = min \<bar>q\<bar> left"
  define up1 where "up1 = (if cl = \<bar>q\<bar> then up else up @ [(d, q - s * cl)])"
  define pc1 where "pc1 = (if d = day then pc else pc + cl)"
  define tc1 where "tc1 = (if d = day then tc + cl else tc)"
  have step: "close_lot E day (up, left, pc, tc) (d, q) = (up1, left - cl, pc1, tc1)"
    using close_lot_exact [OF _ sg Cons.prems(5-12)] good
    by (simp add: Let_def up1_def pc1_def tc1_def cl_def)
  obtain n where n: "q = of_int n / 10 ^ k" and sq: "0 < s * q" "\<bar>q\<bar> \<le> t" using good by (auto simp: good_lot_def)
  have "\<bar>q\<bar> = of_int \<bar>n\<bar> / 10 ^ k" by (simp add: n abs_divide)
  then obtain m where m: "cl = of_int m / 10 ^ k" unfolding cl_def using grid_min [OF _ Cons.prems(5)] by blast
  have cl: "0 \<le> cl" "cl \<le> left" "cl \<le> \<bar>q\<bar>" using Cons.prems(8) by (auto simp: cl_def)
  obtain b1 e1 where g1: "left - cl = of_int (a - m) / 10 ^ k" "pc1 = of_int b1 / 10 ^ k" "tc1 = of_int e1 / 10 ^ k"
  proof (cases "d = day")
    case True
    with that [of b "e + m"] m Cons.prems(5-7) show thesis by (simp add: pc1_def tc1_def diff_divide_distrib add_divide_distrib)
  next
    case False
    with that [of "b + m" e] m Cons.prems(5-7) show thesis by (simp add: pc1_def tc1_def diff_divide_distrib add_divide_distrib)
  qed
  have new: "good_lot k t s (d, q - s * cl)" if "cl \<noteq> \<bar>q\<bar>"
  proof -
    have "q - s * cl = of_int (n - (if s = 1 then m else - m)) / 10 ^ k" using n m sg by (auto simp: diff_divide_distrib)
    moreover have "0 < s * (q - s * cl) \<and> \<bar>q - s * cl\<bar> \<le> t" using sg sq cl that by (auto simp: abs_if)
    ultimately show ?thesis unfolding good_lot_def by (simp only: snd_conv) blast
  qed
  have "left - cl + pc1 + tc1 = left + pc + tc" by (simp add: pc1_def tc1_def)
  note IH = Cons.IH [OF _ _ _ sg g1 _ _ _ _ Cons.prems(12), of up1]
  have rest: "0 \<le> s * lots_total lots" using lots_total_sign good by blast
  have r: "list_all (good_lot k t s) up' \<and> left' + pc' + tc' = (left - cl) + pc1 + tc1
     \<and> lots_total up' = lots_total up1 + lots_total lots - s * ((left - cl) - left')
     \<and> left' = max 0 ((left - cl) - \<bar>lots_total lots\<bar>) \<and> (\<exists>a'. left' = of_int a' / 10 ^ k)
     \<and> (left' \<noteq> 0 \<longrightarrow> up' = up1)"
    using Cons.prems(1) good new Cons.prems(3,8-11) cl
    by (intro IH) (auto simp: lt step up1_def pc1_def tc1_def)
  have t1: "lots_total up1 = lots_total up + q - s * cl" using sg sq by (auto simp: up1_def)
  have abs: "\<bar>q + lots_total lots\<bar> = \<bar>q\<bar> + \<bar>lots_total lots\<bar>" using sg sq rest by auto
  have "max 0 (left - cl - \<bar>lots_total lots\<bar>) = max 0 (left - \<bar>q + lots_total lots\<bar>)"
    unfolding abs cl_def by (cases "\<bar>q\<bar> \<le> left") simp_all
  moreover have "left' \<noteq> 0 \<longrightarrow> up1 = up" using r by (auto simp: up1_def cl_def)
  ultimately show ?case using r t1 by (auto simp: lt pc1_def tc1_def right_diff_distrib)
qed

lemma dmul_sign: "dmul E x y < 0 \<longleftrightarrow> x * y < 0" "0 < dmul E x y \<longleftrightarrow> 0 < x * y"
proof -
  have r: "0 < ctx_round (prec E) z" if "0 < z" for z
    using ctx_round_nonneg [of z "prec E"] ctx_round_eq_0_iff [OF prec_pos, of z] that by simp
  have n: "ctx_round (prec E) z < 0" if "z < 0" for z
    using r [of "- z"] that by (simp add: ctx_round_minus)
  have "(ctx_round (prec E) z < 0 \<longleftrightarrow> z < 0) \<and> (0 < ctx_round (prec E) z \<longleftrightarrow> 0 < z)" for z
    using r [of z] n [of z] by (cases "z = 0") (auto dest: less_asym simp: neq_iff)
  then show "dmul E x y < 0 \<longleftrightarrow> x * y < 0" "0 < dmul E x y \<longleftrightarrow> 0 < x * y"
    by (simp_all add: dmul_def)
qed

lemma open_lot_total:
  assumes "list_all (good_lot k t s) lots" "new = of_int a / 10 ^ k" "0 < s * new" "s = 1 \<or> s = -1"
    and "s * lots_total lots + s * new \<le> t" "t * 10 ^ k < 10 ^ prec E"
  shows "list_all (good_lot k t s) (open_lot E day new lots) \<and> lots_total (open_lot E day new lots) = lots_total lots + new"
  using assms(1,5)
proof (induction lots)
  case Nil
  then show ?case using assms(2-4) by (auto simp: good_lot_def)
next
  case (Cons lt lots)
  obtain d q where lt: "lt = (d, q)" by (cases lt)
  from Cons.prems(1) have good: "list_all (good_lot k t s) lots" and lq: "good_lot k t s (d, q)" by (simp_all add: lt)
  from lq obtain n where n: "q = of_int n / 10 ^ k" and sq: "0 < s * q" "\<bar>q\<bar> \<le> t" by (auto simp: good_lot_def)
  have rest: "0 \<le> s * lots_total lots" using lots_total_sign [OF good] .
  have tot: "s * q + s * lots_total lots + s * new \<le> t" using Cons.prems(2) by (simp add: lt distrib_left)
  have b: "\<bar>q + new\<bar> \<le> t" using rest sq assms(3,4) tot by auto
  have e: "dadd E q new = q + new" by (rule grid_add_exact [OF n assms(2) b assms(6)])
  have g: "good_lot k t s (d, q + new)"
  proof -
    have "q + new = of_int (n + a) / 10 ^ k" using n assms(2) by (simp add: add_divide_distrib)
    then have "\<exists>m. q + new = of_int m / 10 ^ k" by blast
    moreover have "0 < s * (q + new)" using sq(1) assms(3) by (simp add: distrib_left)
    ultimately show ?thesis using b by (simp add: good_lot_def)
  qed
  have IH: "list_all (good_lot k t s) (open_lot E day new lots) \<and> lots_total (open_lot E day new lots) = lots_total lots + new"
    by (rule Cons.IH [OF good]) (use tot sq in linarith)
  show ?case using IH Cons.prems(1) g good by (auto simp: lt e)
qed

lemma same_sign_total:
  "list_all (good_lot k t s) lots \<Longrightarrow> lots \<noteq> [] \<Longrightarrow> 0 < s * lots_total lots"
  using lots_total_sign [of k t s "tl lots"] by (cases lots) (auto simp: good_lot_def distrib_left)

lemma prepare_lot_update_exact:
  assumes "list_all (good_lot k t s) (dget_or (lg_position_lots l) (fl_instrument_id f) [])" "s = 1 \<or> s = -1"
    and "decimal E (fl_quantity f) = of_int a / 10 ^ k" "0 < a"
    and "\<bar>lots_total (dget_or (lg_position_lots l) (fl_instrument_id f) [])\<bar> + decimal E (fl_quantity f) \<le> t"
    and "t * 10 ^ k < 10 ^ prec E" "prepare_lot_update E l f day = (lots', pc, tc)"
  shows "\<exists>s'. (s' = 1 \<or> s' = -1) \<and> list_all (good_lot k t s') lots'"
    and "lots_total lots' = lots_total (dget_or (lg_position_lots l) (fl_instrument_id f) []) + signed_quantity E f"
    and "pc + tc = closing_quantity (lots_total (dget_or (lg_position_lots l) (fl_instrument_id f) []))
           (signed_quantity E f) (decimal E (fl_quantity f))"
proof -
  define lots where "lots = dget_or (lg_position_lots l) (fl_instrument_id f) []"
  define q where "q = decimal E (fl_quantity f)"
  define sg :: rat where "sg = (if fl_side f = BUY then 1 else -1)"
  note A = assms [folded lots_def q_def]
  have q0: "0 < q" using A(3,4) by simp
  have sgd: "sg = 1 \<or> sg = -1" by (simp add: sg_def)
  have qt: "\<bar>q\<bar> \<le> t" using A(5) q0 by linarith
  have sq: "signed_quantity E f = sg * q" by (simp add: signed_quantity_def sg_def q_def)
  have neg: "dneg E q = - q" by (rule grid_neg_exact [OF A(3) qt A(6)])
  have signed: "(if fl_side f = BUY then q else dneg E q) = sg * q" by (simp add: neg sg_def)
  have gsq: "sg * q = of_int (if sg = 1 then a else - a) / 10 ^ k" using A(3) sgd by auto
  have asq: "dabs E (sg * q) = q"
    using grid_abs_exact [OF gsq _ A(6)] qt sgd q0 by auto
  let ?thesis' = "(\<exists>s'. (s' = 1 \<or> s' = -1) \<and> list_all (good_lot k t s') lots')
     \<and> lots_total lots' = lots_total lots + sg * q \<and> pc + tc = closing_quantity (lots_total lots) (sg * q) q"
  have open1: "?thesis'" if same: "lots = [] \<or> s = sg"
  proof -
    have "\<not> (lots \<noteq> [] \<and> dmul E (snd (hd lots)) (sg * q) < 0)"
    proof
      assume opp: "lots \<noteq> [] \<and> dmul E (snd (hd lots)) (sg * q) < 0"
      then have "0 < s * snd (hd lots)" using A(1) by (cases lots) (auto simp: good_lot_def)
      moreover have "s = sg" "snd (hd lots) * (sg * q) < 0" using same opp by (auto simp: dmul_sign)
      ultimately show False using q0 A(2) by (auto simp: mult_less_0_iff zero_less_mult_iff)
    qed
    then have p: "lots' = open_lot E day (if sg * q > 0 then q else dneg E q) lots" "pc = 0" "tc = 0"
      using A(7) q0 by (auto simp: prepare_lot_update_def Let_def asq signed simp flip: lots_def q_def)
    have new: "(if sg * q > 0 then q else dneg E q) = sg * q" using sgd q0 by (auto simp: neg)
    have good: "list_all (good_lot k t sg) lots" using same A(1) by auto
    have "sg * lots_total lots + sg * (sg * q) \<le> t"
      using A(5) lots_total_sign [OF good] sgd by auto
    with open_lot_total [OF good gsq _ sgd _ A(6)] q0 sgd
    have o: "list_all (good_lot k t sg) lots' \<and> lots_total lots' = lots_total lots + sg * q"
      by (auto simp: p new)
    have "closing_quantity (lots_total lots) (sg * q) q = 0"
      using lots_total_sign [OF good] sgd q0 by (auto simp: closing_quantity_def)
    with o sgd p show ?thesis' by auto
  qed
  have "?thesis'"
  proof (cases "lots = [] \<or> s = sg")
    case False
    then have opp: "s = - sg" "lots \<noteq> []" using A(2) sgd by auto
    have hd: "dmul E (snd (hd lots)) (sg * q) < 0"
    proof -
      have "0 < s * snd (hd lots)" using A(1) opp(2) by (cases lots) (auto simp: good_lot_def)
      then show ?thesis using opp(1) sgd q0 by (auto simp: dmul_sign mult_less_0_iff)
    qed
    obtain up left where f: "fold (\<lambda>lt st. close_lot E day st lt) (sort_key fst lots) ([], q, 0, 0) = (up, left, pc, tc)"
      and lots': "lots' = (if left = 0 then up else open_lot E day (if sg * q > 0 then left else dneg E left) up)"
      using A(7) hd opp(2)
      by (auto simp: prepare_lot_update_def Let_def asq signed simp flip: lots_def q_def split: prod.splits)
    have perm: "lots_total (sort_key fst lots) = lots_total lots"
      unfolding lots_total_def by (metis mset_map mset_sort sum_mset_sum_list)
    have "list_all (good_lot k t s) (sort_key fst lots)" using A(1) by (simp add: list_all_iff)
    from close_fold [OF f this _ A(2,3), of 0 0] q0 qt A(6)
    have r: "list_all (good_lot k t s) up" "left + pc + tc = q" "lots_total up = lots_total lots - s * (q - left)"
      "left = max 0 (q - \<bar>lots_total lots\<bar>)" "\<exists>a'. left = of_int a' / 10 ^ k" "left \<noteq> 0 \<longrightarrow> up = []"
      by (auto simp: perm)
    have sgt: "0 < s * lots_total lots" by (rule same_sign_total [OF A(1) opp(2)])
    have c: "pc + tc = closing_quantity (lots_total lots) (sg * q) q"
      using r(2,4) sgt opp(1) sgd q0 by (auto simp: closing_quantity_def)
    show ?thesis'
    proof (cases "left = 0")
      case True
      with r opp(1) c A(2) show ?thesis by (auto simp: lots')
    next
      case left: False
      then have left0: "0 < left" using r(4) by simp
      have lt: "\<bar>left\<bar> \<le> t" using r(4) qt q0 by auto
      obtain a' where a': "left = of_int a' / 10 ^ k" using r(5) by blast
      have "lots' = [(day, sg * left)]"
        using left r(6) sgd q0 grid_neg_exact [OF a' lt A(6)] by (auto simp: lots')
      moreover have "good_lot k t sg (day, sg * left)"
      proof -
        have "sg * left = of_int (if sg = 1 then a' else - a') / 10 ^ k" using a' sgd by auto
        then have "\<exists>m. sg * left = of_int m / 10 ^ k" by blast
        moreover have "0 < sg * (sg * left)" "\<bar>sg * left\<bar> \<le> t" using lt sgd left0 by auto
        ultimately show ?thesis by (simp add: good_lot_def)
      qed
      ultimately show ?thesis using r(3,6) left opp(1) sgd c by (auto simp: algebra_simps)
    qed
  qed (rule open1)
  then show "\<exists>s'. (s' = 1 \<or> s' = -1) \<and> list_all (good_lot k t s') lots'"
    "lots_total lots' = lots_total (dget_or (lg_position_lots l) (fl_instrument_id f) []) + signed_quantity E f"
    "pc + tc = closing_quantity (lots_total (dget_or (lg_position_lots l) (fl_instrument_id f) []))
           (signed_quantity E f) (decimal E (fl_quantity f))"
    by (simp_all add: sq flip: lots_def q_def)
qed

end

context fixed_env
begin

lemma map_res_effects:
  assumes "map_res id rs = Inr ps" "\<And>r p. r \<in> set rs \<Longrightarrow> r = Inr p \<Longrightarrow> g p = (0::rat)"
  shows "sum_list (map g ps) = 0"
  using assms by (induction rs arbitrary: ps) auto

lemma fill_postings_effect:
  assumes "fill_postings E c l sp f = Inr rs" "r \<in> set rs" "r = Inr p"
  shows "position_effect iid p = 0"
  using assms unfolding fill_postings_def Let_def
  by (elim and_thenE if_InrE)
    (auto simp: derivative_postings_def premium_postings_def cash_asset_postings_def Let_def split: if_splits)

lemma fill_moves_the_position:
  assumes "fill_transaction E c l f = Inr tx"
  shows "sum_list (map (position_effect (fl_instrument_id f)) (tx_postings tx)) = signed_quantity E f"
proof -
  let ?q = "\<lambda>sp. quantity_postings E c (sp_settlement_currency sp) (fl_instrument_id f) (signed_quantity E f)
      (- signed_quantity E f) (scale (fl_quantity f))"
  from assms obtain sp rs p1 p2 where rs: "fill_postings E c l sp f = Inr rs" and p1: "map_res id rs = Inr p1"
    and p2: "map_res id (?q sp) = Inr p2" and tx: "tx_postings tx = p1 @ p2"
    by (auto simp: fill_transaction_def make_transaction_def map_res_append split: if_splits)
  obtain u where u: "signed_quantity E f = of_int u / 10 ^ scale (fl_quantity f)"
    using that [of "units (fl_quantity f)"] that [of "- units (fl_quantity f)"]
    by (cases "fl_side f") (simp_all add: signed_quantity_def decimal_value)
  have "sum_list (map (position_effect (fl_instrument_id f)) p1) = 0"
    by (rule map_res_effects [OF p1 fill_postings_effect [OF rs]])
  with quantity_effects(2) [OF p2 [unfolded u], folded u] show ?thesis by (simp add: tx)
qed

end

text \<open>
  C17: The lots of an instrument follow its position through every accepted fill: they keep
  one sign, add up to the quantity held, and what the fill closes from older lots and from
  lots of the day is exactly the quantity it takes off the position.
\<close>

theorem lots_follow_the_position:
  assumes "fixed_env E" "apply_with_trading_day E c (FillEvent f) d create l = (Inr snap, l')"
    and "dget (lg_event_fingerprints l) (''fill_id:'' @ fl_fill_id f) = None"
    and "lots_total (dget_or (lg_position_lots l) (fl_instrument_id f) []) = held l (fl_instrument_id f)"
    and "list_all (good_lot k t s) (dget_or (lg_position_lots l) (fl_instrument_id f) [])" "s = 1 \<or> s = -1"
    and "decimal E (fl_quantity f) = of_int a / 10 ^ k" "0 < a"
    and "\<bar>held l (fl_instrument_id f)\<bar> + decimal E (fl_quantity f) \<le> t" "t * 10 ^ k < 10 ^ prec E"
  shows "lots_total (dget_or (lg_position_lots l') (fl_instrument_id f) []) = held l' (fl_instrument_id f)
     \<and> (\<exists>s'. (s' = 1 \<or> s' = -1) \<and> list_all (good_lot k t s') (dget_or (lg_position_lots l') (fl_instrument_id f) []))
     \<and> (\<exists>prior today. dget (lg_fill_close_allocations l') (fl_fill_id f) = Some (prior, today)
          \<and> prior + today = closing_quantity (held l (fl_instrument_id f)) (signed_quantity E f) (decimal E (fl_quantity f)))"
proof -
  obtain tx where tx: "fill_transaction E c l f = Inr tx"
    and pos: "lg_positions l' = fold (position_add E) (tx_postings tx) (lg_positions l)"
    and lots: "lg_position_lots l' = dset (fl_instrument_id f) (fst (prepare_lot_update E l f d)) (lg_position_lots l)"
      "lg_fill_close_allocations l' = dset (fl_fill_id f) (snd (prepare_lot_update E l f d)) (lg_fill_close_allocations l)"
    by (rule apply_day_fill_books [OF assms(2,3)])
  obtain lots' pc tc where u: "prepare_lot_update E l f d = (lots', pc, tc)" by (cases "prepare_lot_update E l f d")
  have held: "held l' (fl_instrument_id f) = held l (fl_instrument_id f) + signed_quantity E f"
    using fixed_env.fill_moves_the_position [OF assms(1) tx] fixed_env.books_effect(2) [OF assms(1)]
    by (simp add: held_def pos)
  note exact = fixed_env.prepare_lot_update_exact [OF assms(1,5-8) _ assms(10) u, unfolded assms(4), OF assms(9)]
  from exact held show ?thesis by (simp add: lots u dget_or_def)
qed

end
