(* ===== verification/Ledger_Value.thy ===== *)
theory Ledger_Value
  imports Ledger_Lots
begin

text \<open>
  What the ledger's views promise: conversions use the latest known exchange rate, the fast
  maintenance check agrees with the snapshot, and what a refusal leaves behind in the
  artifact sink while the journal is streamed.
\<close>

section \<open>Exchange rates\<close>

text \<open>The table holds the latest entry of the history of each currency, and times never decrease.\<close>

definition history_of_currency :: "ledger \<Rightarrow> string \<Rightarrow> (rat \<times> instant) list" where
  "history_of_currency l cur = map snd (filter (\<lambda>(c, _). c = cur) (lg_fx_history l))"

definition fx_inv :: "ledger \<Rightarrow> bool" where
  "fx_inv l \<longleftrightarrow> (\<forall>cur. (let h = history_of_currency l cur in
     sorted (map snd h) \<and> dget (lg_fx l) cur = (if h = [] then None else Some (last h))))"

definition keeps_fx :: "ledger \<Rightarrow> ledger \<Rightarrow> bool" where
  "keeps_fx l u \<longleftrightarrow> lg_fx u = lg_fx l \<and> lg_fx_history u = lg_fx_history l"

lemma keeps_fx_refl [simp]: "keeps_fx l l"
  by (simp add: keeps_fx_def)

lemma keeps_fx_trans: "keeps_fx l u \<Longrightarrow> keeps_fx u v \<Longrightarrow> keeps_fx l v"
  by (simp add: keeps_fx_def)

lemma keeps_fx_inv: "keeps_fx l u \<Longrightarrow> fx_inv l \<Longrightarrow> fx_inv u"
  by (simp add: keeps_fx_def fx_inv_def history_of_currency_def)

lemma record_replay_fact_fx [simp]: "keeps_fx l (record_replay_fact c p n u) \<longleftrightarrow> keeps_fx l u"
  by (simp add: record_replay_fact_def next_replay_sequence_def keeps_fx_def)

lemma post_fx: "post E c rollback t l = (Inr x, u) \<Longrightarrow> keeps_fx l u"
  by (simp add: keeps_fx_def post_fields)

lemma apply_dividend_state_fx: "apply_dividend_state E a l = (r, u) \<Longrightarrow> keeps_fx l u"
  by (auto simp: apply_dividend_state_def Let_def keeps_fx_def split: if_splits option.splits)

lemma apply_split_state_fx: "apply_split_state E a ratio l = (r, u) \<Longrightarrow> keeps_fx l u"
  by (auto simp: apply_split_state_def Let_def keeps_fx_def split: if_splits option.splits sum.splits)

lemma event_state_fx:
  assumes "event_state E ev d prepared l = (Inr x, u)"
  shows "keeps_fx l u"
proof (cases ev)
  case (ActionEvent a)
  with assms obtain v where v: "apply_dividend_state E a l = (Inr (), v)" and r: "(case (ca_share_entitlement a, ca_ratio a) of
       (Some terms, _) \<Rightarrow> put (credit_entitlement E a terms)
     | (None, Some ratio) \<Rightarrow> apply_split_state E a ratio
     | (None, None) \<Rightarrow> ret ()) v = (Inr x, u)"
    by (auto simp: event_state_def apply_action_state_def bind_Inr)
  have "keeps_fx v u" using r apply_split_state_fx
    by (auto simp: credit_entitlement_def Let_def keeps_fx_def split: option.splits)
  with apply_dividend_state_fx [OF v] show ?thesis by (rule keeps_fx_trans)
qed (use assms in \<open>auto simp: event_state_def book_fill_state_def keeps_fx_def split: option.splits prod.splits\<close>)

lemma release_fill_fx: "release_fill c ev l = (Inr x, u) \<Longrightarrow> keeps_fx l u"
  by (cases ev) (auto simp: release_fill_def Let_def keeps_fx_def split: if_splits option.splits sum.splits)

lemma apply_event_fx:
  assumes "apply_event E c ev d create rollback trusted l = (Inr snap, u)"
  shows "keeps_fx l u"
  using assms
proof (cases rule: apply_event_InrE)
  case (new prepared t)
  from new(7) obtain l1 l2 where p: "if no_effect_action ev t then l1 = l else post E c rollback t l = (Inr (), l1)"
    and s: "event_state E ev d prepared l1 = (Inr (), l2)"
    and r: "release_fill c ev (note_event E c ev trusted t l2) = (Inr (), u)"
    by (rule commit_event_InrE)
  have "keeps_fx l l1" using p by (auto intro: post_fx split: if_splits)
  moreover have "keeps_fx l2 (note_event E c ev trusted t l2)" by (simp add: note_event_def keeps_fx_def)
  ultimately show ?thesis using event_state_fx [OF s] release_fill_fx [OF r] by (metis keeps_fx_trans)
qed simp

lemma apply_on_day_fx: "apply_on_day E c ev d create l = (Inr snap, u) \<Longrightarrow> keeps_fx l u"
  by (erule apply_on_day_InrE) (auto dest: apply_event_fx simp: record_new_event_def)

lemma set_mark_fx: "set_mark E c ev k p fingerprinted create l = (Inr snap, u) \<Longrightarrow> keeps_fx l u"
  by (auto simp: set_mark_def on_error_Inr bind_Inr) (simp_all add: keeps_fx_def)

lemma observe_market_fx:
  assumes "observe_market E c ev create trusted l = (Inr snap, u)"
  shows "keeps_fx l u"
proof -
  have "mark_once E c ev k p fingerprinted create l = (Inr snap, u) \<Longrightarrow> keeps_fx l u" for k p fingerprinted
    by (auto simp: mark_once_def bind_Inr dest: set_mark_fx split: option.splits if_splits)
  with assms show ?thesis
    by (auto simp: observe_market_def mark_def bind_Inr split: event_body.splits option.splits)
qed

lemma imports_fx:
  "book_external_cash E c tid amount cur t l = (Inr snap, u) \<Longrightarrow> keeps_fx l u"
  "book_opening_position E c iid q p d l = (Inr snap, u) \<Longrightarrow> keeps_fx l u"
proof -
  show "keeps_fx l u" if "book_external_cash E c tid amount cur t l = (Inr snap, u)"
    using that unfolding book_external_cash_def
    by (auto simp: bind_Inr current_snapshot_def dest!: post_fx split: if_splits) (simp add: keeps_fx_def)+
  show "keeps_fx l u" if "book_opening_position E c iid q p d l = (Inr snap, u)"
    using that unfolding book_opening_position_def
    by (auto simp: bind_Inr current_snapshot_def dest!: post_fx split: if_splits) (simp add: keeps_fx_def)+
qed

lemma observe_pit_fx_fx: "observe_pit_fx c rate l = Inr (r, u) \<Longrightarrow> keeps_fx l u"
  by (auto simp: observe_pit_fx_def Let_def next_replay_sequence_def keeps_fx_def split: if_splits option.splits)

lemma stream_fx:
  "start_ledger_stream c l = (Inr x, u) \<Longrightarrow> keeps_fx l u"
  "finish_ledger_stream given calc l = Inr (h, u) \<Longrightarrow> keeps_fx l u"
  "keeps_fx l (abort_ledger_stream l)"
  by (auto simp: start_ledger_stream_def finish_ledger_stream_def abort_ledger_stream_def bind_Inr keeps_fx_def split: if_splits)

lemma set_fx_rate_fx:
  assumes "set_fx_rate E c cur rate t l = Inr u" "fx_inv l"
  shows "fx_inv u"
proof -
  obtain code ts v where
    u: "u = l \<or> u = l\<lparr>lg_fx := dset code (v, ts) (lg_fx l), lg_fx_history := lg_fx_history l @ [(code, v, ts)]\<rparr>
        \<and> (case dget (lg_fx l) code of None \<Rightarrow> True | Some (r, s) \<Rightarrow> s \<le> ts)"
  proof -
    from assms(1) obtain code ts where "currency_code cur = Inr code" "utc E t = Inr ts"
      and r: "(let v = decimal E rate; stored = l\<lparr>lg_fx := dset code (v, ts) (lg_fx l), lg_fx_history := lg_fx_history l @ [(code, v, ts)]\<rparr> in
         if v \<le> 0 then raise ''FX rate must be positive''
         else if code = lc_base_currency c
         then (if v \<noteq> 1 then raise ''base currency FX rate must remain exactly one'' else Inr l)
         else case dget (lg_fx l) code of
           None \<Rightarrow> Inr stored
         | Some (prior, prior_time) \<Rightarrow>
             if ts < prior_time then raise ''FX snapshot time moved backwards''
             else if ts = prior_time
             then (if v \<noteq> prior then raise ''FX snapshot conflicts at the same event_time'' else Inr l)
             else Inr stored) = Inr u"
      unfolding set_fx_rate_def by (auto split: if_splits)
    from r show thesis
      by (intro that [of code "decimal E rate" ts]) (auto simp: Let_def split: if_splits option.splits)
  qed
  show ?thesis
  proof (cases "u = l")
    case False
    with u have u: "u = l\<lparr>lg_fx := dset code (v, ts) (lg_fx l), lg_fx_history := lg_fx_history l @ [(code, v, ts)]\<rparr>"
      and later: "case dget (lg_fx l) code of None \<Rightarrow> True | Some (r, s) \<Rightarrow> s \<le> ts" by auto
    have h: "history_of_currency u k = history_of_currency l k @ (if k = code then [(v, ts)] else [])" for k
      by (simp add: u history_of_currency_def)
    have "\<forall>x \<in> set (history_of_currency l code). snd x \<le> ts"
    proof (cases "history_of_currency l code = []")
      case False
      with assms(2) later have "snd (last (history_of_currency l code)) \<le> ts" "sorted (map snd (history_of_currency l code))"
        by (auto simp: fx_inv_def Let_def split: option.splits dest!: spec [of _ code])
      then show ?thesis
        using False by (cases "history_of_currency l code" rule: rev_cases) (auto simp: sorted_append)
    qed simp
    moreover have "lg_fx u = dset code (v, ts) (lg_fx l)" by (simp add: u)
    ultimately show ?thesis using assms(2) by (auto simp: fx_inv_def Let_def h sorted_append)
  qed (use assms(2) in simp)
qed

lemma ledger_step_fx:
  assumes "fx_inv l" "ledger_step E c l op = Inr u"
  shows "fx_inv u"
proof -
  have "keeps_fx l u \<or> (\<exists>cur rate t. set_fx_rate E c cur rate t l = Inr u)"
    using assms(2)
    by (cases op) (auto simp: ledger_step_def outcome_Inr apply_ledger_def apply_with_trading_day_def apply_replay_event_def bind_Inr
        stream_fx dest: apply_on_day_fx apply_event_fx observe_market_fx imports_fx observe_pit_fx_fx stream_fx(1,2) split: if_splits)
  with assms(1) show ?thesis using keeps_fx_inv set_fx_rate_fx by blast
qed

interpretation fx: fallible_machine "ledger_step E c" "\<lambda>l op. True" fx_inv for E c
  by unfold_locales (rule ledger_step_fx)

lemma fx_inv_blank: "fx_inv (blank_ledger c t)"
  by (simp add: fx_inv_def blank_ledger_def history_of_currency_def)

lemma opening_cash_fx: "opening_cash E c t l entry = Inr u \<Longrightarrow> keeps_fx l u"
  by (cases entry) (auto simp: opening_cash_def outcome_Inr dest: post_fx)

lemma ledger_reset_fx:
  assumes "ledger_reset E c opened = Inr l"
  shows "fx_inv l"
proof -
  from assms obtain t l1 where fx: "fold_res (\<lambda>l (currency, rate). set_fx_rate E c currency rate t l) (blank_ledger c t)
        (sort_key fst (lc_initial_fx c)) = Inr l1"
    and cash: "fold_res (opening_cash E c t) l1 (sort_key fst (lc_initial_cash c)) = Inr l"
    by (auto simp: ledger_reset_def)
  have "fx_inv l'" if "fold_res (\<lambda>l (currency, rate). set_fx_rate E c currency rate t l) l0 xs = Inr l'" "fx_inv l0" for l0 xs l'
    using that by (induction xs arbitrary: l0) (auto dest: set_fx_rate_fx split: prod.splits)
  from this [OF fx fx_inv_blank] have l1: "fx_inv l1" .
  have "keeps_fx l0 l'" if "fold_res (opening_cash E c t) l0 xs = Inr l'" for l0 xs l'
    using that by (induction xs arbitrary: l0) (auto dest: opening_cash_fx intro: keeps_fx_trans)
  from this [OF cash] l1 show ?thesis by (rule keeps_fx_inv)
qed

text \<open>The latest entry of a history that is known at an instant.\<close>

definition known_rate :: "(rat \<times> instant) list \<Rightarrow> instant \<Rightarrow> rat option" where
  "known_rate h t = map_option fst (find (\<lambda>(_, s). s \<le> t) (rev h))"

lemma find_filter_map: "find P (rev (filter Q xs)) = find (\<lambda>x. Q x \<and> P x) (rev xs)"
  by (induction xs rule: rev_induct) auto

lemma to_base_known_rate:
  assumes "fx_inv l" "v \<noteq> 0"
  shows "to_base E c l v cur t = (case known_rate (history_of_currency l cur) t of
      Some r \<Rightarrow> Inr (dmul E v r)
    | None \<Rightarrow> raise (if history_of_currency l cur = [] then ''missing FX snapshot''
                    else ''FX snapshot was not available at valuation time''))"
proof -
  let ?h = "history_of_currency l cur"
  from assms(1) have tab: "dget (lg_fx l) cur = (if ?h = [] then None else Some (last ?h))"
    by (simp add: fx_inv_def Let_def)
  have fm: "find P (map snd xs) = map_option snd (find (\<lambda>x. P (snd x)) xs)" for P :: "rat \<times> instant \<Rightarrow> bool" and xs :: "(string \<times> rat \<times> instant) list"
    by (induction xs) auto
  have "find (\<lambda>(_, s). s \<le> t) (rev ?h)
      = map_option snd (find (\<lambda>(k, _, s). k = cur \<and> s \<le> t) (rev (lg_fx_history l)))"
    unfolding history_of_currency_def rev_map fm find_filter_map by (simp add: case_prod_unfold)
  then have k: "known_rate ?h t = map_option (\<lambda>(_, r, _). r) (find (\<lambda>(k, _, s). k = cur \<and> s \<le> t) (rev (lg_fx_history l)))"
    by (simp add: known_rate_def option.map_comp o_def case_prod_unfold)
  show ?thesis
  proof (cases "?h = []")
    case True
    then show ?thesis using assms(2) tab by (simp add: to_base_def known_rate_def)
  next
    case False
    obtain r s where l: "last ?h = (r, s)" by (cases "last ?h")
    show ?thesis
    proof (cases "s \<le> t")
      case True
      obtain h' where "?h = h' @ [(r, s)]" using False l by (metis append_butlast_last_id)
      then have "known_rate ?h t = Some r" using True by (simp add: known_rate_def)
      then show ?thesis using True False l assms(2) tab by (simp add: to_base_def)
    next
      case late: False
      then show ?thesis using False l assms(2) tab
        by (simp add: to_base_def k split: option.splits prod.splits)
    qed
  qed
qed

lemma known_rate_Some:
  assumes "known_rate h t = Some r" "sorted (map snd h)"
  shows "\<exists>s. (r, s) \<in> set h \<and> s \<le> t \<and> (\<forall>(r', s') \<in> set h. s' \<le> t \<longrightarrow> s' \<le> s)"
  using assms
proof (induction h rule: rev_induct)
  case (snoc e h)
  obtain q s where e: "e = (q, s)" by (cases e)
  show ?case
  proof (cases "s \<le> t")
    case True
    with snoc.prems show ?thesis by (intro exI [of _ s]) (auto simp: e known_rate_def sorted_append)
  next
    case False
    with snoc.prems have "known_rate h t = Some r" "sorted (map snd h)" by (auto simp: e known_rate_def sorted_append)
    from snoc.IH [OF this] False show ?thesis by (auto simp: e)
  qed
qed (simp add: known_rate_def)

lemma known_rate_None: "known_rate h t = None \<longleftrightarrow> (\<forall>(r, s) \<in> set h. \<not> s \<le> t)"
  by (auto simp: known_rate_def find_None_iff)

lemma always_admissible: "admissible step (\<lambda>s op. True) s ops"
  by (induction ops arbitrary: s) (auto split: sum.splits)

text \<open>
  C19: In every ledger reached from a reset, a non-zero amount converts at an instant exactly
  when a rate of its currency was known by then, and it converts at the most recent such
  rate: never at a rate from the future, never at a superseded one.
\<close>

theorem conversion_uses_the_latest_known_rate:
  assumes "ledger_reset E c opened = Inr l0" "fold_res (ledger_step E c) l0 ops = Inr l" "v \<noteq> 0"
  shows "(returns (to_base E c l v cur t) \<longleftrightarrow> (\<exists>(k, r, s) \<in> set (lg_fx_history l). k = cur \<and> s \<le> t))
     \<and> (\<forall>x. to_base E c l v cur t = Inr x \<longrightarrow>
          (\<exists>r s. (cur, r, s) \<in> set (lg_fx_history l) \<and> s \<le> t \<and> x = dmul E v r
             \<and> (\<forall>(k, r', s') \<in> set (lg_fx_history l). k = cur \<and> s' \<le> t \<longrightarrow> s' \<le> s)))"
proof -
  have inv: "fx_inv l"
    using fx.run_inv [OF ledger_reset_fx [OF assms(1)] always_admissible assms(2)] .
  then have sorted: "sorted (map snd (history_of_currency l cur))" by (simp add: fx_inv_def Let_def)
  have mem: "(r, s) \<in> set (history_of_currency l cur) \<longleftrightarrow> (cur, r, s) \<in> set (lg_fx_history l)" for r s
    by (force simp: history_of_currency_def)
  note conv = to_base_known_rate [OF inv assms(3), of E c cur t]
  show ?thesis
  proof (cases "known_rate (history_of_currency l cur) t")
    case None
    then have "\<not> returns (to_base E c l v cur t)" by (simp add: conv raise_def)
    then show ?thesis using None mem by (fastforce simp: known_rate_None returns_iff)
  next
    case (Some r)
    then have x: "to_base E c l v cur t = Inr (dmul E v r)" by (simp add: conv)
    from known_rate_Some [OF Some sorted] obtain s where a: "(r, s) \<in> set (history_of_currency l cur)" "s \<le> t"
      and b: "\<forall>(r', s') \<in> set (history_of_currency l cur). s' \<le> t \<longrightarrow> s' \<le> s" by blast
    have "s' \<le> s" if "(cur, r', s') \<in> set (lg_fx_history l)" "s' \<le> t" for r' s'
      using b that mem [of r' s'] by auto
    then have s: "(cur, r, s) \<in> set (lg_fx_history l)" "s \<le> t"
        "\<forall>(k, r', s') \<in> set (lg_fx_history l). k = cur \<and> s' \<le> t \<longrightarrow> s' \<le> s"
      using a mem by auto
    then show ?thesis by (auto simp: x intro: bexI [OF _ s(1)] exI [of _ r] exI [of _ s])
  qed
qed

section \<open>What a refusal leaves behind while streaming\<close>

text \<open>
  C20: While the journal is streamed, refusing a funding event in its snapshot restores the
  accounts, but the transaction stays in the artifact sink and in the transaction count: the
  exported journal then contains an entry the books never had.
\<close>

theorem streamed_refusal_leaves_its_transaction:
  assumes "lg_artifact_sink l = Some sent" "dget (lg_event_fingerprints l) (''funding_id:'' @ fu_funding_id fu) = None"
    and "\<not> lg_artifact_stream_closed l" "validate_event E c l (FundingEvent fu) = Inr ()" "lg_event_time l \<le> fu_event_time fu"
    and "translate E c l (FundingEvent fu) = Inr t" "lc_sink_accepts c t"
    and "apply_ledger E c (FundingEvent fu) True l = (Inl e, u)"
  shows "lg_artifact_sink u = Some (sent @ [t]) \<and> lg_transaction_count u = Suc (lg_transaction_count l)
     \<and> dget (lg_accounts u) = dget (lg_accounts l) \<and> lg_event_time u = lg_event_time l"
proof -
  let ?ev = "FundingEvent fu"
  have "prepare_event E c l ?ev None = Inr (None, None)" by (simp add: prepare_event_def)
  with assms obtain v where commit: "commit_event E c ?ev None True True False t (None, None) l = (Inl e, v)"
    and u: "u = rollback_apply ?ev t (capture_apply_undo ?ev t l) v"
    by (auto simp: apply_ledger_def apply_on_day_def apply_event_def bind_Inl on_error_Inl ledger_require_mutable_def
        event_identity_def event_instant_def put_def ret_def)
  define w where "w = l\<lparr>lg_accounts := fold (account_add E) (tx_postings t) (lg_accounts l),
     lg_positions := fold (position_add E) (tx_postings t) (lg_positions l),
     lg_artifact_sink := Some (sent @ [t]), lg_transaction_count := Suc (lg_transaction_count l)\<rparr>"
  have post: "post E c True t l = (Inr (), w)"
    using assms(1,7) by (simp add: post_def on_error_Inr bind_Inr journal_def fold_post_one w_def)
  with commit have v: "v = note_event E c ?ev False t w"
    by (auto simp: commit_event_def bind_Inl bind_Inr no_effect_action_def event_state_def release_fill_def note_event_def
        ret_def put_def)
  have "agree_off (set (posting_keys t)) (lg_accounts l) (lg_accounts v)"
    unfolding v note_event_def w_def by (simp add: fold_account_add_agree posting_keys_def)
  then show ?thesis
    unfolding u by (simp add: rollback_apply_def capture_apply_undo_def restore_values_agree) (simp add: v note_event_def w_def)
qed

section \<open>The maintenance boundary\<close>

definition no_declared_margin :: "ledger_config \<Rightarrow> (string \<times> rat) list \<Rightarrow> bool" where
  "no_declared_margin c es \<longleftrightarrow> (\<forall>(iid, _) \<in> set es. \<forall>sp. dget (lc_instruments c) iid = Some sp \<longrightarrow> \<not> has_contract_margin sp)"

lemma dset_new: "k \<notin> set (map fst d) \<Longrightarrow> dset k v d = d @ [(k, v)]"
  by (induction d) auto

context fixed_env
begin

lemma fixed_grid_exact:
  assumes "fixed_for_valuation E c x (lc_money_scale c) = Inr f" "money_grid c x"
  shows "decimal E f = x"
proof -
  from assms(2) obtain n where n: "x = of_int n / 10 ^ lc_money_scale c" by (auto simp: money_grid_def)
  show ?thesis
  proof (cases "pit c")
    case True
    then have "from_dec E x (lc_money_scale c) None = Some f"
      using assms(1) by (auto simp: fixed_for_valuation_def fixed_def of_option_def split: option.splits)
    from from_dec_exact [OF this] show ?thesis by (auto simp: decimal_value)
  next
    case False
    with assms(1) have "fixed E x (lc_money_scale c) (Some ROUND_HALF_EVEN) = Inr f" by (simp add: fixed_for_valuation_def)
    from fixed_half_even [OF this] show ?thesis by (simp add: decimal_value n)
  qed
qed

lemma cash_map_entries:
  assumes "cash_map E c l = Inr cash" "\<forall>(k, x) \<in> set (cash_entries l). money_grid c x" "distinct (map fst (cash_entries l))"
  shows "map (\<lambda>(k, f). (k, decimal E f)) cash = cash_entries l"
proof -
  let ?step = "\<lambda>d (currency, amount).
     and_then (case dget d currency of Some f \<Rightarrow> Inr f | None \<Rightarrow> new_fixed E 0 (lc_money_scale c)) (\<lambda>f.
     and_then (fixed_for_valuation E c (decimal E f + amount) (lc_money_scale c)) (\<lambda>v. Inr (dset currency v d)))"
  have "map (\<lambda>(k, f). (k, decimal E f)) d' = map (\<lambda>(k, f). (k, decimal E f)) d @ xs"
    if "fold_res ?step d xs = Inr d'" "\<forall>(k, x) \<in> set xs. money_grid c x" "distinct (map fst d @ map fst xs)" for d d' xs
    using that
  proof (induction xs arbitrary: d)
    case (Cons e xs)
    obtain k x where e: "e = (k, x)" by (cases e)
    have new: "dget d k = None" "k \<notin> set (map fst d)" using Cons.prems(3) by (auto simp: e map_of_eq_None_iff)
    with Cons.prems(1) obtain z f where z: "new_fixed E 0 (lc_money_scale c) = Inr z"
      and f: "fixed_for_valuation E c (decimal E z + x) (lc_money_scale c) = Inr f"
      and r: "fold_res ?step (dset k f d) xs = Inr d'"
      by (auto simp: e)
    from z have "mk_fixed E 0 (lc_money_scale c) = Some z" by (auto simp: new_fixed_def of_option_def split: option.splits)
    from mk_fixed_sound [OF this] have "decimal E z = 0" by (simp add: decimal_value)
    with f fixed_grid_exact [of c x f] Cons.prems(2) have "decimal E f = x" by (auto simp: e)
    moreover have "dset k f d = d @ [(k, f)]" by (rule dset_new [OF new(2)])
    ultimately show ?case using Cons.IH [OF r] Cons.prems(2,3) by (auto simp: e)
  qed simp
  from this [of "[]" "cash_entries l" cash] assms show ?thesis by (simp add: cash_map_def)
qed

text \<open>What one position adds to the value and to the margin.\<close>

lemma value_and_margin_shift:
  "value_and_margin E c l t key (nav, margin) e = and_then (value_and_margin E c l t key (0, 0) e) (\<lambda>(v, m). Inr (nav + v, margin + m))"
  by (cases e) (auto simp: value_and_margin_def and_then_def split: sum.splits)

lemma fold_value_and_margin:
  "fold_res (value_and_margin E c l t key) (nav, margin) es = Inr (nav', margin') \<longleftrightarrow>
     (\<exists>vs. map_res (value_and_margin E c l t key (0, 0)) es = Inr vs
        \<and> nav' = nav + sum_list (map fst vs) \<and> margin' = margin + sum_list (map snd vs))"
proof (induction es arbitrary: nav margin)
  case (Cons e es)
  show ?case
    unfolding fold_res.simps map_res.simps value_and_margin_shift [of c l t key nav margin e]
    by (cases "value_and_margin E c l t key (0, 0) e") (force simp: Cons.IH)+
qed auto

lemma map_res_perm:
  assumes "map_res f xs = Inr ys" "mset xs' = mset xs"
  shows "\<exists>ys'. map_res f xs' = Inr ys' \<and> mset ys' = mset ys"
proof -
  have all: "map_res f zs = Inr (map (\<lambda>z. case f z of Inr y \<Rightarrow> y | Inl e \<Rightarrow> undefined) zs) \<longleftrightarrow> (\<forall>z \<in> set zs. returns (f z))" for zs
    by (induction zs) (auto simp: and_then_def split: sum.splits)
  have r: "\<forall>z \<in> set zs. returns (f z)" if "map_res f zs = Inr vs" for zs vs
    using that by (induction zs arbitrary: vs) auto
  have same: "set xs' = set xs" using assms(2) by (metis set_mset_mset)
  with r [OF assms(1)] all have "map_res f xs' = Inr (map (\<lambda>z. case f z of Inr y \<Rightarrow> y | Inl e \<Rightarrow> undefined) xs')"
    "map_res f xs = Inr (map (\<lambda>z. case f z of Inr y \<Rightarrow> y | Inl e \<Rightarrow> undefined) xs)" by simp_all
  moreover have "mset (map (\<lambda>z. case f z of Inr y \<Rightarrow> y | Inl e \<Rightarrow> undefined) xs')
      = mset (map (\<lambda>z. case f z of Inr y \<Rightarrow> y | Inl e \<Rightarrow> undefined) xs)" using assms(2) by simp
  ultimately show ?thesis using assms(1) by (metis sum.inject(2))
qed

lemma fold_value_perm:
  assumes "fold_res (value_and_margin E c l t key) (nav, margin) es = Inr r" "mset es' = mset es"
  shows "fold_res (value_and_margin E c l t key) (nav, margin) es' = Inr r"
proof -
  obtain nav' margin' where r: "r = (nav', margin')" by (cases r)
  with assms(1) obtain vs where vs: "map_res (value_and_margin E c l t key (0, 0)) es = Inr vs"
    "nav' = nav + sum_list (map fst vs)" "margin' = margin + sum_list (map snd vs)"
    by (auto simp: fold_value_and_margin)
  from map_res_perm [OF vs(1) assms(2)] obtain ws where "map_res (value_and_margin E c l t key (0, 0)) es' = Inr ws"
    "mset ws = mset vs" by blast
  moreover from this(2) have "sum_list (map fst ws) = sum_list (map fst vs)" "sum_list (map snd ws) = sum_list (map snd vs)"
    by (metis mset_map sum_mset_sum_list)+
  ultimately show ?thesis using vs by (auto simp: r fold_value_and_margin)
qed

text \<open>Without declared margins the tally of the snapshot follows the same sums.\<close>

lemma tally_position_value:
  assumes "tally_position E c l t s e = Inr s'" "no_declared_margin c [e]"
  shows "value_and_margin E c l t ''maintenance_margin_rate'' (ta_nav s, ta_maintenance s) e = Inr (ta_nav s', ta_maintenance s')"
proof -
  obtain iid q where e: "e = (iid, q)" by (cases e)
  from assms(1) obtain sp s1 v s2 where sp: "spec_of c iid = Inr sp" and s1: "tally_columns E c l t sp iid q s = Inr (s1, v)"
    and s2: "tally_value E c l t sp v s1 = Inr s2" and s': "tally_contract_margin E c l t sp q s2 = Inr s'"
    by (auto simp: tally_position_def e)
  from sp assms(2) have "\<not> has_contract_margin sp"
    by (auto simp: no_declared_margin_def e spec_of_def of_option_def split: option.splits)
  with s' have s': "s' = s2" by (simp add: tally_contract_margin_def)
  from s1 have v: "position_valuation E c l iid q None = Inr v" and "ta_nav s1 = ta_nav s" "ta_maintenance s1 = ta_maintenance s"
    by (auto simp: tally_columns_def split: prod.splits)
  with s2 sp show ?thesis
    by (auto simp: e s' value_and_margin_def tally_value_def split: if_splits prod.splits)
qed

lemma tally_fold_value:
  assumes "fold_res (tally_position E c l t) s es = Inr s'" "no_declared_margin c es"
  shows "fold_res (value_and_margin E c l t ''maintenance_margin_rate'') (ta_nav s, ta_maintenance s) es = Inr (ta_nav s', ta_maintenance s')"
  using assms
proof (induction es arbitrary: s)
  case (Cons e es)
  from Cons.prems(1) obtain s1 where "tally_position E c l t s e = Inr s1" "fold_res (tally_position E c l t) s1 es = Inr s'" by auto
  with Cons tally_position_value [of c l t s e s1] show ?case by (auto simp: no_declared_margin_def)
qed simp

lemma tally_closed_margin:
  assumes "fold_res (tally_position E c l t) s es = Inr s'" "no_declared_margin c es" "\<not> pit c"
    and "\<forall>(iid, q) \<in> set es. held l iid = q \<and> (q \<noteq> 0 \<longrightarrow> \<not> derivative_instrument c iid)"
  shows "ta_maintenance s' = ta_maintenance s"
  using assms
proof (induction es arbitrary: s)
  case (Cons e es)
  obtain iid q where e: "e = (iid, q)" by (cases e)
  from Cons.prems(1) obtain s1 where s1: "tally_position E c l t s e = Inr s1" and r: "fold_res (tally_position E c l t) s1 es = Inr s'" by auto
  have "value_and_margin E c l t ''maintenance_margin_rate'' (ta_nav s, ta_maintenance s) e = Inr (ta_nav s1, ta_maintenance s1)"
    by (rule tally_position_value [OF s1]) (use Cons.prems(2) in \<open>simp add: no_declared_margin_def\<close>)
  then have "ta_maintenance s1 = ta_maintenance s"
  proof (cases "q = 0")
    case True
    have n: "notional = 0" if "position_valuation E c l iid 0 None = Inr (notional, pnl)" for notional pnl
      using that Cons.prems(3) by (auto simp: position_valuation_def Let_def dmul_def)
    have m: "m = 0" if "rate_margin E c l t sp 0 key = Inr m" for sp key m
      using that Cons.prems(3) by (auto simp: rate_margin_def product_for_valuation_def convert_for_valuation_def to_base_def dmul_def)
    show ?thesis
      using \<open>value_and_margin E c l t _ _ e = _\<close>
      by (auto simp: value_and_margin_def e True dest!: n m split: if_splits prod.splits)
  next
    case False
    with Cons.prems(4) have "\<not> derivative_instrument c iid" by (auto simp: e)
    with \<open>value_and_margin E c l t _ _ e = _\<close> show ?thesis
      by (auto simp: value_and_margin_def e derivative_instrument_def spec_of_def of_option_def split: if_splits prod.splits option.splits)
  qed
  with Cons.IH [OF r] Cons.prems(2-4) show ?case by (auto simp: no_declared_margin_def)
qed simp

lemma tally_specs:
  assumes "fold_res (tally_position E c l t) s es = Inr s'"
  shows "\<forall>(iid, _) \<in> set es. returns (spec_of c iid)"
  using assms by (induction es arbitrary: s) (auto simp: tally_position_def)

end

lemma no_declared_any:
  assumes "any_res (\<lambda>(iid, _). and_then (spec_of c iid) (\<lambda>sp. Inr (has_contract_margin sp))) es = Inr False"
  shows "no_declared_margin c es"
  using assms
proof (induction es)
  case (Cons e es)
  then show ?case
    by (cases e) (auto simp: no_declared_margin_def spec_of_def of_option_def split: if_splits option.splits)
qed (simp add: no_declared_margin_def)

lemma any_res_returns:
  "\<forall>(iid, _) \<in> set es. returns (spec_of c iid) \<Longrightarrow>
     returns (any_res (\<lambda>(iid, _). and_then (spec_of c iid) (\<lambda>sp. Inr (has_contract_margin sp))) es)"
proof (induction es)
  case (Cons e es)
  then obtain sp b where "spec_of c (fst e) = Inr sp"
      "any_res (\<lambda>(iid, _). and_then (spec_of c iid) (\<lambda>sp. Inr (has_contract_margin sp))) es = Inr b"
    by (auto simp: returns_iff)
  then show ?case by (cases e; cases "has_contract_margin sp") simp_all
qed simp

lemma cash_entries_keys:
  assumes "distinct (map fst (lg_accounts l))"
  shows "distinct (map fst (cash_entries l))"
proof -
  define F where "F = filter (\<lambda>((account, _, iid), _). account = ''assets:cash'' \<and> iid = None) (lg_accounts l)"
  have "map fst (cash_entries l) = map (\<lambda>k. fst (snd k)) (map fst F)"
    by (simp add: cash_entries_def F_def case_prod_unfold)
  moreover have "distinct (map fst F)" unfolding F_def by (rule distinct_map_filter [OF assms])
  moreover have "inj_on (\<lambda>k. fst (snd k)) (set (map fst F))" by (auto simp: F_def inj_on_def)
  ultimately show ?thesis by (simp only: distinct_map)
qed

lemma positions_held: "distinct (map fst (lg_positions l)) \<Longrightarrow> \<forall>(iid, q) \<in> set (lg_positions l). held l iid = q"
  by (auto simp: held_def dget_or_def)

text \<open>
  C18: Wherever a snapshot succeeds, the fast maintenance check of the replay loop answers
  exactly the \<open>liquidation_required\<close> flag the snapshot would report, although it reads the
  unrounded balances, skips every other column and takes the positions in another order.
\<close>

theorem liquidation_required_agrees_with_snapshot:
  assumes "fixed_env E" "ledger_inv E c l" "snapshot E c l event_time = Inr snap"
  shows "liquidation_required E c l event_time = Inr (as_liquidation_required snap)"
proof -
  let ?es = "sort_key fst (lg_positions l)"
  from assms(3) obtain t cash start s nav maintenance initial where t: "valuation_instant E l event_time = Inr t"
    "require_valuation_time c l t = Inr ()" and cash: "cash_map E c l = Inr cash"
    and start: "cash_and_receivables E c l t (map (\<lambda>(currency, f). (currency, decimal E f)) cash) = Inr start"
    and s: "fold_res (tally_position E c l t) \<lparr>ta_positions = [], ta_costs = [], ta_realized = [], ta_unrealized = [],
          ta_nav = start, ta_initial = 0, ta_maintenance = 0\<rparr> ?es = Inr s"
    and nav: "fixed_for_valuation E c (ta_nav s) (lc_money_scale c) = Inr nav"
    and maintenance: "fixed_for_valuation E c (ta_maintenance s) (lc_money_scale c) = Inr maintenance"
    and flag: "as_liquidation_required snap = liquidation_flag maintenance nav"
    by (auto simp: snapshot_def mk_account_snapshot_def)
  have dist: "distinct (map fst (lg_accounts l))" "distinct (map fst (lg_positions l))"
    using ledger_inv_distinct [OF assms(2)] by simp_all
  have grid: "\<forall>(k, x) \<in> set (cash_entries l). money_grid c x"
  proof -
    have "money_grid c x" if "((a, k, i), x) \<in> set (lg_accounts l)" for a k i x
    proof -
      have "dget (lg_accounts l) (a, k, i) = Some x" using that dist(1) by simp
      with fixed_env.ledger_inv_money [OF assms(1,2)] show ?thesis
        unfolding money_accounts_def account_balance_def dget_or_def by (metis option.simps(5))
    qed
    then show ?thesis by (auto simp: cash_entries_def)
  qed
  have entries: "map (\<lambda>(k, f). (k, decimal E f)) cash = cash_entries l"
    by (rule fixed_env.cash_map_entries [OF assms(1) cash grid cash_entries_keys [OF dist(1)]])
  have declared: "returns (any_res (\<lambda>(iid, _). and_then (spec_of c iid) (\<lambda>sp. Inr (has_contract_margin sp))) (lg_positions l))"
    using any_res_returns fixed_env.tally_specs [OF assms(1) s] by simp
  then consider (declared) "any_res (\<lambda>(iid, _). and_then (spec_of c iid) (\<lambda>sp. Inr (has_contract_margin sp))) (lg_positions l) = Inr True"
    | (plain) "any_res (\<lambda>(iid, _). and_then (spec_of c iid) (\<lambda>sp. Inr (has_contract_margin sp))) (lg_positions l) = Inr False"
    by (metis (full_types) returns_iff)
  then show ?thesis
  proof cases
    case declared
    with assms(3) show ?thesis by (simp add: liquidation_required_def)
  next
    case plain
    have none: "no_declared_margin c ?es" using no_declared_any [OF plain] by (simp add: no_declared_margin_def)
    from fixed_env.tally_fold_value [OF assms(1) s none] have "fold_res (value_and_margin E c l t ''maintenance_margin_rate'')
        (start, 0) ?es = Inr (ta_nav s, ta_maintenance s)" by simp
    from fixed_env.fold_value_perm [OF assms(1) this] have fold: "fold_res (value_and_margin E c l t ''maintenance_margin_rate'')
        (start, 0) (lg_positions l) = Inr (ta_nav s, ta_maintenance s)" by simp
    show ?thesis
    proof (cases "\<not> has_open_derivative_position c l \<and> \<not> pit c")
      case True
      have "\<forall>(iid, q) \<in> set ?es. held l iid = q \<and> (q \<noteq> 0 \<longrightarrow> \<not> derivative_instrument c iid)"
        using True positions_held [OF dist(2)] by (fastforce simp: has_open_derivative_position_def list_ex_iff)
      with fixed_env.tally_closed_margin [OF assms(1) s none] True have "ta_maintenance s = 0" by simp
      with maintenance have "units maintenance = 0"
        using fixed_env.fixed_half_even [OF assms(1)] True by (auto simp: fixed_for_valuation_def)
      then show ?thesis using plain t True by (simp add: liquidation_required_def flag liquidation_flag_def)
    next
      case False
      then show ?thesis using plain t fold nav maintenance start
        by (auto simp: liquidation_required_def flag entries)
    qed
  qed
qed

end
