(* ===== verification/Ledger_Demo.thy ===== *)
theory Ledger_Demo
  imports Ledger_Value
begin

text \<open>
  The properties of the ledger applied to small accounts: one that buys and sells, and one
  whose currency has no exchange rate.
\<close>

section \<open>Witnesses\<close>

text \<open>Witnesses use the reference environment with a constant digest.\<close>

text \<open>An account with 1000 USD that buys four units at 100 and sells three of them a day later.\<close>

definition ledger_env :: env where
  "ledger_env = std_env\<lparr>sha256_hex := (\<lambda>_. ''0'')\<rparr>"

interpretation lenv: fixed_env ledger_env
  using std.fixed_env_axioms by (simp add: fixed_env_def ledger_env_def)

lemma ledger_env_decimal [simp]: "decimal ledger_env f = of_int (units f) / 10 ^ scale f"
  by (rule lenv.decimal_value)

definition demo_ledger_config :: ledger_config where
  "demo_ledger_config = \<lparr>lc_account_id = ''acc'', lc_base_currency = ''USD'', lc_instruments = [(''X'', demo_spec)],
     lc_money_scale = 2, lc_dividend_mode = None, lc_fx_mode = LEGACY,
     lc_initial_cash = [(''USD'', \<lparr>units = 100000, scale = 2\<rparr>)], lc_initial_fx = [], lc_default_opened_at = 0,
     lc_payload_digest = (\<lambda>_. ''''), lc_select_pit_fx = (\<lambda>_ _ _ _. None), lc_sink_accepts = (\<lambda>_. True)\<rparr>"

definition demo_ledger :: ledger where
  "demo_ledger = (case ledger_reset ledger_env demo_ledger_config None of Inr l \<Rightarrow> l | Inl e \<Rightarrow> blank_ledger demo_ledger_config 0)"

definition demo_trade :: "string \<Rightarrow> side \<Rightarrow> int \<Rightarrow> fill" where
  "demo_trade fid sd n = \<lparr>fl_fill_id = fid, fl_order_id = ''o'', fl_account_id = ''acc'', fl_strategy_id = ''s'',
     fl_instrument_id = ''X'', fl_side = sd, fl_quantity = \<lparr>units = n, scale = 0\<rparr>,
     fl_price = \<lparr>units = 100, scale = 0\<rparr>, fl_event_time = 7, fl_liquidity_role = TAKER, fl_venue_trade_id = None\<rparr>"

definition demo_apply :: "fill \<Rightarrow> day \<Rightarrow> ledger \<Rightarrow> account_snapshot option res \<times> ledger" where
  "demo_apply f d l = apply_with_trading_day ledger_env demo_ledger_config (FillEvent f) d False l"

definition demo_bought :: ledger where
  "demo_bought = snd (demo_apply (demo_trade ''f1'' BUY 4) 1 demo_ledger)"

definition demo_sold :: ledger where
  "demo_sold = snd (demo_apply (demo_trade ''f2'' SELL 3) 2 demo_bought)"

lemma demo_reset: "ledger_reset ledger_env demo_ledger_config None = Inr demo_ledger"
proof -
  have "returns (ledger_reset ledger_env demo_ledger_config None)" by code_simp
  then show ?thesis by (auto simp: demo_ledger_def returns_iff)
qed

definition answers :: "'a option res \<Rightarrow> bool" where
  "answers r \<longleftrightarrow> (case r of Inr None \<Rightarrow> True | _ \<Rightarrow> False)"

lemma answers_iff: "answers r \<longleftrightarrow> r = Inr None"
  by (auto simp: answers_def split: sum.splits option.splits)

text \<open>The evaluations of this account, together: the code is prepared once per evaluation.\<close>

lemma demo_facts:
  "answers (fst (demo_apply (demo_trade ''f1'' BUY 4) 1 demo_ledger))
    \<and> answers (fst (demo_apply (demo_trade ''f2'' SELL 3) 2 demo_bought))
    \<and> ledger_op_ok ledger_env demo_ledger_config demo_ledger (DayOp (FillEvent (demo_trade ''f1'' BUY 4)) 1 False)
    \<and> ledger_op_ok ledger_env demo_ledger_config demo_bought (DayOp (FillEvent (demo_trade ''f2'' SELL 3)) 2 False)
    \<and> \<not> lg_artifact_stream_closed demo_sold \<and> lg_artifact_sink demo_ledger = None
    \<and> dget (lg_event_fingerprints demo_ledger) (''fill_id:'' @ fl_fill_id (demo_trade ''f1'' BUY 4)) = None
    \<and> dget (lg_event_fingerprints demo_bought) (''fill_id:'' @ fl_fill_id (demo_trade ''f2'' SELL 3)) = None
    \<and> 0 \<le> held demo_ledger ''X'' \<and> 0 \<le> cash_balance demo_ledger ''USD''
    \<and> \<not> is_derivative demo_spec \<and> \<not> is_premium_asset demo_spec
    \<and> lots_total (dget_or (lg_position_lots demo_bought) ''X'' []) = held demo_bought ''X''
    \<and> dget_or (lg_position_lots demo_bought) ''X'' [] = [(1, 4)] \<and> held demo_bought ''X'' = 4
    \<and> closing_quantity 4 (signed_quantity ledger_env (demo_trade ''f2'' SELL 3)) 3 = 3"
  by code_simp

lemma demo_buy: "demo_apply (demo_trade ''f1'' BUY 4) 1 demo_ledger = (Inr None, demo_bought)"
proof -
  from demo_facts have "answers (fst (demo_apply (demo_trade ''f1'' BUY 4) 1 demo_ledger))" by blast
  then show ?thesis by (simp add: answers_iff demo_bought_def prod_eq_iff)
qed

lemma demo_sell: "demo_apply (demo_trade ''f2'' SELL 3) 2 demo_bought = (Inr None, demo_sold)"
proof -
  from demo_facts have "answers (fst (demo_apply (demo_trade ''f2'' SELL 3) 2 demo_bought))" by blast
  then show ?thesis by (simp add: answers_iff demo_sold_def prod_eq_iff)
qed

theorem ledger_books_follow_a_balanced_journal_witness:
  "currency_total (lg_accounts demo_sold) ''USD'' = 0 \<and> lg_positions demo_sold = journal_positions ledger_env (journal_of demo_sold)"
proof -
  let ?ops = "[DayOp (FillEvent (demo_trade ''f1'' BUY 4)) 1 False, DayOp (FillEvent (demo_trade ''f2'' SELL 3)) 2 False]"
  have "ledger_step ledger_env demo_ledger_config demo_ledger (hd ?ops) = Inr demo_bought"
    "ledger_step ledger_env demo_ledger_config demo_bought (hd (tl ?ops)) = Inr demo_sold"
    using demo_buy demo_sell by (simp_all add: ledger_step_def outcome_Inr demo_apply_def outcome_def)
  moreover have "ledger_op_ok ledger_env demo_ledger_config demo_ledger (hd ?ops)"
    "ledger_op_ok ledger_env demo_ledger_config demo_bought (hd (tl ?ops))"
    using demo_facts by simp_all
  ultimately have r: "admissible (ledger_step ledger_env demo_ledger_config) (ledger_op_ok ledger_env demo_ledger_config) demo_ledger ?ops"
    "fold_res (ledger_step ledger_env demo_ledger_config) demo_ledger ?ops = Inr demo_sold" by simp_all
  from demo_facts have "\<not> lg_artifact_stream_closed demo_sold" by blast
  with ledger_books_follow_a_balanced_journal [OF lenv.fixed_env_axioms demo_reset r] show ?thesis by blast
qed

text \<open>An account in euros without a euro rate: every snapshot is refused, after the posting.\<close>

definition demo_eur_config :: ledger_config where
  "demo_eur_config = demo_ledger_config\<lparr>lc_instruments := [(''X'', demo_spec\<lparr>sp_settlement_currency := ''EUR''\<rparr>)],
     lc_initial_cash := [(''EUR'', \<lparr>units = 100000, scale = 2\<rparr>)]\<rparr>"

definition demo_eur_ledger :: ledger where
  "demo_eur_ledger = (case ledger_reset ledger_env demo_eur_config None of Inr l \<Rightarrow> l | Inl e \<Rightarrow> blank_ledger demo_eur_config 0)"

definition demo_eur_buy :: "account_snapshot option res \<times> ledger" where
  "demo_eur_buy = apply_with_trading_day ledger_env demo_eur_config (FillEvent (demo_trade ''f1'' BUY 4)) 1 True demo_eur_ledger"

lemma refusedE: "\<not> returns (fst r) \<Longrightarrow> \<exists>e. r = (Inl e, snd r)"
  by (cases r; cases "fst r") simp_all

theorem refused_event_leaves_no_trace_witness:
  "\<not> returns (fst demo_eur_buy) \<and> same_ledger demo_eur_ledger (snd demo_eur_buy)"
proof -
  have "lg_artifact_sink demo_eur_ledger = None \<and> \<not> returns (fst demo_eur_buy)" by code_simp
  then have "lg_artifact_sink demo_eur_ledger = None" and f: "\<not> returns (fst demo_eur_buy)" by blast+
  moreover from f obtain e where "demo_eur_buy = (Inl e, snd demo_eur_buy)" using refusedE by blast
  ultimately show ?thesis
    using refused_event_leaves_no_trace [of demo_eur_ledger ledger_env demo_eur_config "FillEvent (demo_trade ''f1'' BUY 4)" True e _ 1] f
    by (auto simp: demo_eur_buy_def)
qed

lemma demo_new:
  "dget (lg_event_fingerprints demo_ledger) (''fill_id:'' @ fl_fill_id (demo_trade ''f1'' BUY 4)) = None"
  "dget (lg_event_fingerprints demo_bought) (''fill_id:'' @ fl_fill_id (demo_trade ''f2'' SELL 3)) = None"
  using demo_facts by blast+

theorem ledger_application_is_idempotent_witness:
  "demo_apply (demo_trade ''f1'' BUY 4) 1 demo_bought = (Inr None, demo_bought)
     \<and> \<not> returns (fst (demo_apply (demo_trade ''f1'' BUY 3) 1 demo_bought))"
proof -
  from demo_facts have sink: "lg_artifact_sink demo_ledger = None" by blast
  have v: "validate_event ledger_env demo_ledger_config demo_bought (FillEvent (demo_trade ''f1'' BUY 4)) = Inr ()"
    by (simp add: validate_event_def require_account_def demo_ledger_config_def demo_trade_def)
  have n: "dget (lg_event_fingerprints demo_ledger) (event_identity (FillEvent (demo_trade ''f1'' BUY 4))) = None"
    using demo_new(1) by (simp add: event_identity_def)
  have d: "event_identity (FillEvent (demo_trade ''f1'' BUY 3)) = event_identity (FillEvent (demo_trade ''f1'' BUY 4))
      \<and> (FillEvent (demo_trade ''f1'' BUY 3) \<noteq> FillEvent (demo_trade ''f1'' BUY 4)
          \<or> is_fill (FillEvent (demo_trade ''f1'' BUY 4)) \<and> (1::day) \<noteq> 1)"
    by (simp add: event_identity_def demo_trade_def)
  note idem = ledger_application_is_idempotent [OF demo_buy [unfolded demo_apply_def] n v]
  obtain e where "apply_with_trading_day ledger_env demo_ledger_config (FillEvent (demo_trade ''f1'' BUY 3)) 1 False demo_bought
      = (Inl e, demo_bought)"
    using mp [OF spec [OF spec [OF spec [OF mp [OF conjunct2 [OF idem] sink]]]] d] by blast
  with idem show ?thesis by (simp add: demo_apply_def)
qed

theorem cash_asset_fill_is_funded_witness:
  "0 \<le> held demo_bought ''X'' \<and> 0 \<le> cash_balance demo_bought ''USD''"
proof -
  have "0 \<le> held demo_ledger ''X''" "0 \<le> cash_balance demo_ledger ''USD''" "\<not> is_derivative demo_spec"
    "\<not> is_premium_asset demo_spec"
    using demo_facts by blast+
  then show ?thesis
    using cash_asset_fill_is_funded [OF lenv.fixed_env_axioms lenv.ledger_reset_inv [OF demo_reset]
        demo_buy [unfolded demo_apply_def] demo_new(1), of demo_spec]
    by (simp add: demo_trade_def demo_ledger_config_def demo_spec_def)
qed

theorem lots_follow_the_position_witness:
  "lots_total (dget_or (lg_position_lots demo_sold) ''X'' []) = held demo_sold ''X''
     \<and> (\<exists>prior today. dget (lg_fill_close_allocations demo_sold) ''f2'' = Some (prior, today) \<and> prior + today = 3)"
proof -
  have lots: "lots_total (dget_or (lg_position_lots demo_bought) ''X'' []) = held demo_bought ''X''"
    "dget_or (lg_position_lots demo_bought) ''X'' [] = [(1, 4)]" "held demo_bought ''X'' = 4"
    using demo_facts by blast+
  have good: "list_all (good_lot 0 7 1) (dget_or (lg_position_lots demo_bought) ''X'' [])"
    unfolding lots(2) by (auto simp: good_lot_def intro!: exI [of _ "4::int"])
  have q: "decimal ledger_env (fl_quantity (demo_trade ''f2'' SELL 3)) = 3" "fl_instrument_id (demo_trade ''f2'' SELL 3) = ''X''"
    "fl_fill_id (demo_trade ''f2'' SELL 3) = ''f2''" "prec ledger_env = 28"
    by (simp_all add: demo_trade_def) (simp add: ledger_env_def std_env_def)
  have cl: "closing_quantity 4 (signed_quantity ledger_env (demo_trade ''f2'' SELL 3)) 3 = 3" using demo_facts by blast
  show ?thesis
    using lots_follow_the_position [OF lenv.fixed_env_axioms demo_sell [unfolded demo_apply_def] demo_new(2),
        unfolded q lots, OF lots(1) [unfolded lots] good [unfolded lots], of 3] lots cl
    by auto
qed


section \<open>Valuation\<close>

text \<open>A perpetual future with declared margin rates, two units bought at 100.\<close>

definition demo_perp_config :: ledger_config where
  "demo_perp_config = demo_ledger_config\<lparr>lc_instruments := [(''X'', demo_spec\<lparr>sp_asset_class := CRYPTO,
     sp_product_type := ''perpetual'', sp_metadata := [(''initial_margin_rate'', ''0.1''), (''maintenance_margin_rate'', ''0.05'')]\<rparr>)]\<rparr>"

definition demo_perp_ledger :: ledger where
  "demo_perp_ledger = (case ledger_reset ledger_env demo_perp_config None of Inr l \<Rightarrow> l | Inl e \<Rightarrow> blank_ledger demo_perp_config 0)"

definition demo_perp_bought :: "account_snapshot option res \<times> ledger" where
  "demo_perp_bought = apply_with_trading_day ledger_env demo_perp_config (FillEvent (demo_trade ''f1'' BUY 2)) 1 False demo_perp_ledger"

lemma demo_perp_facts:
  "returns (ledger_reset ledger_env demo_perp_config None) \<and> answers (fst demo_perp_bought)
    \<and> event_small ledger_env demo_perp_config demo_perp_ledger (FillEvent (demo_trade ''f1'' BUY 2))
    \<and> (case snapshot ledger_env demo_perp_config (snd demo_perp_bought) None of
        Inr s \<Rightarrow> \<not> as_liquidation_required s | Inl e \<Rightarrow> False)"
  by code_simp

lemma demo_perp_inv: "ledger_inv ledger_env demo_perp_config (snd demo_perp_bought)"
proof -
  from demo_perp_facts have "ledger_reset ledger_env demo_perp_config None = Inr demo_perp_ledger" by (auto simp: demo_perp_ledger_def returns_iff)
  from lenv.ledger_reset_inv [OF this] have inv: "ledger_inv ledger_env demo_perp_config demo_perp_ledger" .
  from demo_perp_facts have "apply_on_day ledger_env demo_perp_config (FillEvent (demo_trade ''f1'' BUY 2)) (Some 1) False demo_perp_ledger
      = (Inr None, snd demo_perp_bought)"
    by (simp add: answers_iff demo_perp_bought_def apply_with_trading_day_def is_fill_def prod_eq_iff)
  moreover have "event_small ledger_env demo_perp_config demo_perp_ledger (FillEvent (demo_trade ''f1'' BUY 2))"
    using demo_perp_facts by blast
  ultimately show ?thesis using inv by (blast intro: lenv.apply_on_day_inv)
qed

theorem liquidation_required_agrees_with_snapshot_witness:
  "liquidation_required ledger_env demo_perp_config (snd demo_perp_bought) None = Inr False"
proof -
  obtain s where "snapshot ledger_env demo_perp_config (snd demo_perp_bought) None = Inr s" "\<not> as_liquidation_required s"
    using demo_perp_facts by (auto split: sum.splits)
  with liquidation_required_agrees_with_snapshot [OF lenv.fixed_env_axioms demo_perp_inv] show ?thesis by auto
qed

text \<open>A euro rate learnt at instant 3 and replaced at instant 9.\<close>

definition demo_rated :: ledger where
  "demo_rated = (case fold_res (ledger_step ledger_env demo_eur_config) demo_eur_ledger
       [FxOp ''EUR'' \<lparr>units = 11, scale = 1\<rparr> 3, FxOp ''EUR'' \<lparr>units = 12, scale = 1\<rparr> 9] of Inr l \<Rightarrow> l | Inl e \<Rightarrow> demo_eur_ledger)"

theorem conversion_uses_the_latest_known_rate_witness:
  "returns (to_base ledger_env demo_eur_config demo_rated 100 ''EUR'' 5)
     \<and> \<not> returns (to_base ledger_env demo_eur_config demo_rated 100 ''EUR'' 2)"
proof -
  let ?rates = "[FxOp ''EUR'' \<lparr>units = 11, scale = 1\<rparr> 3, FxOp ''EUR'' \<lparr>units = 12, scale = 1\<rparr> 9]"
  have facts: "returns (ledger_reset ledger_env demo_eur_config None)
      \<and> returns (fold_res (ledger_step ledger_env demo_eur_config) demo_eur_ledger ?rates)
      \<and> (\<exists>(k, q, s) \<in> set (lg_fx_history demo_rated). k = ''EUR'' \<and> s \<le> 5)
      \<and> \<not> (\<exists>(k, q, s) \<in> set (lg_fx_history demo_rated). k = ''EUR'' \<and> s \<le> 2)"
    by code_simp
  then have r: "ledger_reset ledger_env demo_eur_config None = Inr demo_eur_ledger" by (auto simp: demo_eur_ledger_def returns_iff)
  from facts have s: "fold_res (ledger_step ledger_env demo_eur_config) demo_eur_ledger ?rates = Inr demo_rated"
    by (auto simp: demo_rated_def returns_iff simp del: fold_res.simps)
  from facts show ?thesis using conversion_uses_the_latest_known_rate [OF r s, of 100] by simp
qed

text \<open>A funding payment in euros without a rate, while the journal is streamed.\<close>

definition demo_streaming :: ledger where
  "demo_streaming = snd (start_ledger_stream demo_eur_config demo_eur_ledger)"

definition demo_funding :: funding where
  "demo_funding = \<lparr>fu_funding_id = ''n'', fu_account_id = ''acc'', fu_instrument_id = ''X'',
     fu_amount = \<lparr>units = 5, scale = 0\<rparr>, fu_currency = ''EUR'', fu_event_time = 7\<rparr>"

definition demo_refused :: "account_snapshot option res \<times> ledger" where
  "demo_refused = apply_ledger ledger_env demo_eur_config (FundingEvent demo_funding) True demo_streaming"

theorem streamed_refusal_leaves_its_transaction_witness:
  "\<not> returns (fst demo_refused) \<and> lg_transaction_count (snd demo_refused) = 2
     \<and> cash_balance (snd demo_refused) ''EUR'' = 1000"
proof -
  let ?ev = "FundingEvent demo_funding"
  have facts: "\<not> returns (fst demo_refused) \<and> returns (translate ledger_env demo_eur_config demo_streaming ?ev)
      \<and> returns (validate_event ledger_env demo_eur_config demo_streaming ?ev)
      \<and> (case lg_artifact_sink demo_streaming of None \<Rightarrow> False | Some sent \<Rightarrow> True)
      \<and> dget (lg_event_fingerprints demo_streaming) (''funding_id:'' @ fu_funding_id demo_funding) = None
      \<and> \<not> lg_artifact_stream_closed demo_streaming \<and> lg_event_time demo_streaming \<le> fu_event_time demo_funding
      \<and> lg_transaction_count demo_streaming = 1 \<and> cash_balance demo_streaming ''EUR'' = 1000"
    by code_simp
  then obtain e where e: "demo_refused = (Inl e, snd demo_refused)" using refusedE by blast
  from facts obtain t where t: "translate ledger_env demo_eur_config demo_streaming (FundingEvent demo_funding) = Inr t"
    by (auto simp: returns_iff)
  from facts obtain sent where sink: "lg_artifact_sink demo_streaming = Some sent" by (auto split: option.splits)
  from facts have v: "validate_event ledger_env demo_eur_config demo_streaming ?ev = Inr ()" by (auto simp: returns_iff)
  have "lc_sink_accepts demo_eur_config t" by (simp add: demo_eur_config_def demo_ledger_config_def)
  with streamed_refusal_leaves_its_transaction [OF sink _ _ v _ t _ e [unfolded demo_refused_def]] facts
  show ?thesis by (simp add: demo_refused_def cash_balance_def account_balance_def dget_or_def)
qed

end
