(* ===== verification/Us_Cash.thy ===== *)
theory Us_Cash
  imports Ledger_Apply
begin

text \<open>
  \<open>us_cash.py\<close>: the settled cash of a US cash account.  The time zone database and the trading
  calendar are outside the repository; what the code asks of them is the record \<open>us_calendar\<close>:
  the conversion to a UTC timestamp, the date in New York, and the session on which a trade of
  a day settles, both days as ISO text, which is compared as text.
\<close>

record us_calendar =
  uc_utc :: "instant \<Rightarrow> instant res"
  uc_new_york_date :: "instant \<Rightarrow> day"
  uc_settlement_session :: "string \<Rightarrow> string res"

text \<open>Sale proceeds booked by one transaction, in US dollars.\<close>

definition cash_received :: "env \<Rightarrow> ledger_transaction \<Rightarrow> rat" where
  "cash_received E t = dsum E (map (\<lambda>p. decimal E (po_amount p))
     (filter (\<lambda>p. po_ledger_account p = ''assets:cash'' \<and> po_currency p = ''USD'' \<and> units (po_amount p) > 0)
       (tx_postings t)))"

definition new_york_day :: "us_calendar \<Rightarrow> instant \<Rightarrow> string res" where
  "new_york_day u t = and_then (uc_utc u t) (\<lambda>s. Inr (iso_date (uc_new_york_date u s)))"

definition add_pending :: "env \<Rightarrow> us_calendar \<Rightarrow> string \<Rightarrow> rat \<Rightarrow> ledger_transaction \<Rightarrow> rat res" where
  "add_pending E u today pending t =
     (if tx_event_type t \<noteq> EV_FILL then Inr pending
      else and_then (new_york_day u (tx_event_time t)) (\<lambda>trade_day.
           and_then (uc_settlement_session u trade_day) (\<lambda>settles.
           Inr (if settles > today then dadd E pending (cash_received E t) else pending))))"

definition settled_cash :: "env \<Rightarrow> us_calendar \<Rightarrow> ledger_config \<Rightarrow> ledger \<Rightarrow> instant \<Rightarrow> rat res" where
  "settled_cash E u c l t =
     and_then (uc_utc u t) (\<lambda>stamp.
     and_then (snapshot E c l None) (\<lambda>current.
     if stamp < as_event_time current then Inl (ValueError ''cash query cannot precede current account state'')
     else and_then (new_york_day u t) (\<lambda>today.
     and_then (fold_res (add_pending E u today) 0 (lg_transactions l)) (\<lambda>pending.
       Inr (dsub E (cash_balance l ''USD'') pending)))))"

end
