(* ===== verification/Hong_Kong.thy ===== *)
theory Hong_Kong
  imports Ledger_Apply
begin

text \<open>\<open>hong_kong.py\<close>.\<close>

definition upper_char :: "char \<Rightarrow> char" where
  "upper_char c = (let n = of_char c :: nat in if 97 \<le> n \<and> n \<le> 122 then char_of (n - 32) else c)"

definition reject_generic_hk_rule :: "instrument_spec \<Rightarrow> unit res" where
  "reject_generic_hk_rule sp = (if map upper_char (sp_venue sp) \<in> {''XHKG'', ''HKEX'', ''SEHK''}
     then raise ''HK securities require HKDailyExecution'' else Inr ())"

end
