(* ===== verification/Rules.thy ===== *)
theory Rules
  imports Us_Cash Hong_Kong
begin

text \<open>
  \<open>rules.py\<close>: the instrument-driven rules of one order and the risk gate.  The gate reads the
  account through a view (\<open>risk_view\<close>), either a whole snapshot or the few balances one order
  needs, and keeps the market state and the reservations of open orders.  Its two caches (rule
  and fee rate per instrument, side and role) hold values of functions of exactly those keys
  and are left out.  Risk policies are supplied by the user and are parameters.
\<close>

section \<open>Metadata and decisions\<close>

definition metadata_decimal :: "instrument_spec \<Rightarrow> string \<Rightarrow> bool \<Rightarrow> string \<Rightarrow> rat res" where
  "metadata_decimal sp key required fallback =
     (if dget (sp_metadata sp) key = None \<and> required then raise ''InstrumentSpec metadata is required''
      else case py_decimal (dget_or (sp_metadata sp) key fallback) of
        None \<Rightarrow> raise ''InstrumentSpec metadata must be decimal''
      | Some NonFinite \<Rightarrow> raise ''InstrumentSpec metadata must be finite''
      | Some d \<Rightarrow> Inr (dval d))"

definition ACCEPTED_DECISION :: risk_decision where
  "ACCEPTED_DECISION = \<lparr>rd_accepted = True, rd_code = ''ACCEPTED'', rd_message = ''''\<rparr>"

definition refused :: "string \<Rightarrow> string \<Rightarrow> risk_decision" where
  "refused code message = \<lparr>rd_accepted = False, rd_code = code, rd_message = message\<rparr>"

text \<open>One check after the other: the first refusal is the decision.\<close>

definition unless :: "bool \<Rightarrow> string \<Rightarrow> string \<Rightarrow> risk_decision res \<Rightarrow> risk_decision res" where
  "unless bad code message rest = (if bad then Inr (refused code message) else rest)"

definition when_accepted :: "risk_decision res \<Rightarrow> risk_decision res \<Rightarrow> risk_decision res" where
  "when_accepted first rest = and_then first (\<lambda>d. if rd_accepted d then rest else Inr d)"

section \<open>A-share replay status\<close>

definition resolve_a_share_replay_status ::
  "bool option \<Rightarrow> bool option \<Rightarrow> bool option \<Rightarrow> bool option \<Rightarrow> bool option \<Rightarrow> string res" where
  "resolve_a_share_replay_status listed delisted tradable limit_up limit_down =
     (case (listed, delisted, tradable, limit_up, limit_down) of
        (Some li, Some de, Some tr, Some up, Some down) \<Rightarrow>
          if de \<and> li then raise ''a delisted instrument cannot remain listed''
          else if \<not> li \<and> (tr \<or> up \<or> down)
          then raise ''an unlisted instrument cannot be tradable or price-limited''
          else if \<not> tr \<and> (up \<or> down)
          then raise ''a non-tradable instrument cannot be at a tradable price limit''
          else if up \<and> down then raise ''an instrument cannot be both limit-up and limit-down''
          else Inr (if \<not> li then ''closed'' else if \<not> tr then ''suspended''
                    else if up then ''limit_up'' else if down then ''limit_down'' else ''open'')
      | _ \<Rightarrow> Inr ''unknown'')"

section \<open>Market state and account view\<close>

record market_state =
  ms_event :: market_event
  ms_reference_price :: "fixed_point option"
  ms_status :: string

record risk_view =
  rv_account_id :: string
  rv_cash_balances :: "(string, rat) dict"
  rv_positions :: "(string, rat) dict"
  rv_nav :: rat
  rv_initial_margin :: rat

definition view_of_snapshot :: "env \<Rightarrow> account_snapshot \<Rightarrow> risk_view" where
  "view_of_snapshot E s = \<lparr>rv_account_id = as_account_id s,
     rv_cash_balances = map (\<lambda>(k, f). (k, decimal E f)) (as_cash_balances s),
     rv_positions = map (\<lambda>(k, f). (k, decimal E f)) (as_positions s),
     rv_nav = decimal E (as_nav s), rv_initial_margin = decimal E (as_initial_margin s)\<rparr>"

definition intent_price :: "env \<Rightarrow> order_intent \<Rightarrow> market_state \<Rightarrow> rat option" where
  "intent_price E i m = (case oi_limit_price i of
       Some p \<Rightarrow> Some (decimal E p)
     | None \<Rightarrow> (case oi_stop_price i of
           Some p \<Rightarrow> Some (decimal E p)
         | None \<Rightarrow> map_option (decimal E) (ms_reference_price m)))"

text \<open>The price of a check that comes after the base check; without one the product would raise.\<close>

definition checked_price :: "env \<Rightarrow> order_intent \<Rightarrow> market_state \<Rightarrow> rat res" where
  "checked_price E i m = (case intent_price E i m of
       Some p \<Rightarrow> Inr p | None \<Rightarrow> Inl (TypeError ''NoneType''))"

section \<open>Asset rules\<close>

text \<open>
  \<open>Decimal(text)\<close> of a daily limit may be infinite, which compares like a number; a NaN makes
  the comparison raise.  \<open>exceeds price raw False\<close> is \<open>price > Decimal(raw)\<close>,
  \<open>exceeds price raw True\<close> is \<open>price < Decimal(raw)\<close>.
\<close>

definition exceeds :: "rat \<Rightarrow> string \<Rightarrow> bool \<Rightarrow> bool res" where
  "exceeds price raw below = (case py_decimal raw of
       None \<Rightarrow> Inl (ArithmeticError ''invalid operation'')
     | Some NonFinite \<Rightarrow>
         (let (neg, s) = split_sign (filter (\<lambda>c. c \<noteq> CHR ''_'') (py_strip raw)) in
          if take 3 (py_lower s) = ''inf'' then Inr (neg \<noteq> below) else Inl (ArithmeticError ''invalid operation''))
     | Some d \<Rightarrow> Inr (if below then price < dval d else price > dval d))"

definition outside :: "instrument_spec \<Rightarrow> string \<Rightarrow> rat \<Rightarrow> bool \<Rightarrow> bool res" where
  "outside sp key price below = (case dget (sp_metadata sp) key of
       None \<Rightarrow> Inr False | Some raw \<Rightarrow> exceeds price raw below)"

definition asset_check :: "env \<Rightarrow> order_intent \<Rightarrow> market_state \<Rightarrow> instrument_spec \<Rightarrow> risk_decision res" where
  "asset_check E i m sp = (case intent_price E i m of
       None \<Rightarrow> Inr (refused ''NO_REFERENCE_PRICE'' ''market order has no visible price'')
     | Some price \<Rightarrow>
         and_then (outside sp ''daily_upper_limit'' price False) (\<lambda>above.
         unless above ''PRICE_ABOVE_LIMIT'' ''price exceeds instrument upper limit''
         (and_then (outside sp ''daily_lower_limit'' price True) (\<lambda>below.
         unless below ''PRICE_BELOW_LIMIT'' ''price is below instrument lower limit''
         (Inr ACCEPTED_DECISION)))))"

text \<open>Position and cash of the view, zero where they are absent.\<close>

definition view_position :: "risk_view \<Rightarrow> string \<Rightarrow> rat" where
  "view_position v iid = dget_or (rv_positions v) iid 0"

definition view_cash :: "risk_view \<Rightarrow> string \<Rightarrow> rat" where
  "view_cash v currency = dget_or (rv_cash_balances v) currency 0"

definition order_notional :: "env \<Rightarrow> order_intent \<Rightarrow> rat \<Rightarrow> instrument_spec \<Rightarrow> rat" where
  "order_notional E i price sp =
     dmul E (dmul E (decimal E (oi_quantity i)) price) (decimal E (sp_contract_multiplier sp))"

definition us_cash_check ::
  "env \<Rightarrow> us_calendar \<Rightarrow> ledger_config \<Rightarrow> ledger \<Rightarrow> order_intent \<Rightarrow> risk_view \<Rightarrow> market_state
     \<Rightarrow> instrument_spec \<Rightarrow> risk_decision res" where
  "us_cash_check E u c l i v m sp =
     when_accepted (asset_check E i m sp)
     (unless (sp_settlement_currency sp \<noteq> ''USD'') ''US_CURRENCY'' ''US cash research requires USD''
     (unless (oi_side i = SELL \<and> decimal E (oi_quantity i) > view_position v (sp_instrument_id sp))
        ''US_NO_SHORT'' ''cash account cannot sell short''
     (if oi_side i = BUY
      then and_then (checked_price E i m) (\<lambda>price.
           and_then (metadata_decimal sp ''commission_rate'' False ''0'') (\<lambda>rate.
           and_then (settled_cash E u c l (me_available_at (ms_event m))) (\<lambda>settled.
           unless (dmul E (order_notional E i price sp) (dadd E 1 rate) > settled)
             ''US_UNSETTLED_CASH'' ''insufficient settled USD'' (Inr ACCEPTED_DECISION))))
      else Inr ACCEPTED_DECISION)))"

definition quote_or_settlement :: "instrument_spec \<Rightarrow> string" where
  "quote_or_settlement sp = (case sp_quote_currency sp of
       Some q \<Rightarrow> if q = '''' then sp_settlement_currency sp else q | None \<Rightarrow> sp_settlement_currency sp)"

text \<open>The lot rule of an A-share order: whole board lots, or a sale that clears the odd remainder.\<close>

definition breaks_lot_rule :: "env \<Rightarrow> order_intent \<Rightarrow> rat \<Rightarrow> rat \<Rightarrow> bool res" where
  "breaks_lot_rule E i lot position =
     and_then (dmod E (decimal E (oi_quantity i)) lot) (\<lambda>odd.
     if odd = 0 then Inr False
     else if oi_side i = SELL
     then and_then (dmod E position lot) (\<lambda>rest. Inr (odd \<noteq> rest))
     else Inr True)"

definition a_share_check ::
  "env \<Rightarrow> ledger \<Rightarrow> order_intent \<Rightarrow> risk_view \<Rightarrow> market_state \<Rightarrow> instrument_spec \<Rightarrow> bool \<Rightarrow> risk_decision res" where
  "a_share_check E l i v m sp accepted_partial_order =
     when_accepted (asset_check E i m sp)
     (and_then (metadata_decimal sp ''lot_size'' True '''') (\<lambda>lot.
      let position = view_position v (oi_instrument_id i); quantity = decimal E (oi_quantity i) in
      and_then (if accepted_partial_order then Inr False else breaks_lot_rule E i lot position) (\<lambda>odd_lot.
      unless odd_lot ''A_SHARE_LOT'' ''buy requires board lots; sell must clear the odd remainder''
      (if oi_side i = SELL
       then unless (quantity > dsub E position (acquired_today E l (oi_instrument_id i) (me_trading_day (ms_event m))))
              ''A_SHARE_T_PLUS_ONE'' ''sell exceeds settled T+1 position'' (Inr ACCEPTED_DECISION)
       else and_then (checked_price E i m) (\<lambda>price.
            unless (view_cash v (sp_settlement_currency sp) < order_notional E i price sp)
              ''INSUFFICIENT_CASH'' ''cash cannot fund A-share buy'' (Inr ACCEPTED_DECISION))))))"

definition reduces :: "env \<Rightarrow> order_intent \<Rightarrow> rat \<Rightarrow> bool" where
  "reduces E i position = (let signed = dmul E (decimal E (oi_quantity i)) (if oi_side i = BUY then 1 else - 1) in
     position \<noteq> 0 \<and> dmul E position signed < 0 \<and> dabs E signed \<le> dabs E position)"

definition futures_check ::
  "env \<Rightarrow> ledger_config \<Rightarrow> ledger \<Rightarrow> order_intent \<Rightarrow> risk_view \<Rightarrow> market_state \<Rightarrow> instrument_spec \<Rightarrow> risk_decision res" where
  "futures_check E c l i v m sp =
     when_accepted (asset_check E i m sp)
     (unless (oi_reduce_only i \<and> \<not> reduces E i (view_position v (oi_instrument_id i)))
        ''REDUCE_ONLY_VIOLATION'' ''order would not reduce position''
     (unless ((case sp_expiry_date sp of None \<Rightarrow> False | Some d \<Rightarrow> me_trading_day (ms_event m) \<ge> d) \<and> \<not> oi_reduce_only i)
        ''FUTURES_EXPIRY'' ''opening is disabled at expiry''
     (if oi_reduce_only i then Inr ACCEPTED_DECISION
      else and_then (checked_price E i m) (\<lambda>price.
           and_then (metadata_decimal sp ''initial_margin_rate'' True '''') (\<lambda>rate.
           and_then (convert_to_base E c l (dmul E (order_notional E i price sp) rate)
                       (sp_settlement_currency sp) (me_available_at (ms_event m))) (\<lambda>required.
           unless (required > dsub E (rv_nav v) (rv_initial_margin v))
             ''INSUFFICIENT_MARGIN'' ''initial margin is insufficient'' (Inr ACCEPTED_DECISION)))))))"

definition crypto_spot_check ::
  "env \<Rightarrow> order_intent \<Rightarrow> risk_view \<Rightarrow> market_state \<Rightarrow> instrument_spec \<Rightarrow> risk_decision res" where
  "crypto_spot_check E i v m sp =
     when_accepted (asset_check E i m sp)
     (and_then (metadata_decimal sp ''min_quantity'' True '''') (\<lambda>minimum.
      let quantity = decimal E (oi_quantity i) in
      unless (quantity < minimum) ''MIN_QUANTITY'' ''quantity is below venue minimum''
      (unless (oi_reduce_only i) ''SPOT_REDUCE_ONLY'' ''reduce_only is derivative-only''
      (if oi_side i = SELL
       then unless (quantity > view_position v (oi_instrument_id i))
              ''INSUFFICIENT_POSITION'' ''spot sell exceeds balance'' (Inr ACCEPTED_DECISION)
       else and_then (checked_price E i m) (\<lambda>price.
            and_then (metadata_decimal sp ''maker_fee_rate'' False ''0'') (\<lambda>maker.
            and_then (metadata_decimal sp ''taker_fee_rate'' False ''0'') (\<lambda>taker.
            unless (dmul E (order_notional E i price sp) (dadd E 1 (max maker taker)) > view_cash v (quote_or_settlement sp))
              ''INSUFFICIENT_CASH'' ''quote balance is insufficient'' (Inr ACCEPTED_DECISION))))))))"

definition linear_perpetual_check ::
  "env \<Rightarrow> ledger_config \<Rightarrow> ledger \<Rightarrow> order_intent \<Rightarrow> risk_view \<Rightarrow> market_state \<Rightarrow> instrument_spec \<Rightarrow> risk_decision res" where
  "linear_perpetual_check E c l i v m sp =
     and_then (metadata_decimal sp ''min_quantity'' True '''') (\<lambda>minimum.
     unless (decimal E (oi_quantity i) < minimum) ''MIN_QUANTITY'' ''quantity is below venue minimum''
       (futures_check E c l i v m sp))"

datatype asset_rule = US_CASH_EQUITY | A_SHARE | CN_FUTURE | CRYPTO_SPOT | LINEAR_PERPETUAL

definition rule_of :: "instrument_spec \<Rightarrow> asset_rule res" where
  "rule_of sp = (let product = py_lower (sp_product_type sp) in
     if sp_asset_class sp \<in> {EQUITY, ETF}
     then (if product \<in> {''us_equity'', ''us_etf''} then Inr US_CASH_EQUITY
           else and_then (reject_generic_hk_rule sp) (\<lambda>_. Inr A_SHARE))
     else if sp_asset_class sp = FUTURE then Inr CN_FUTURE
     else if sp_asset_class sp = CRYPTO \<and> (py_in ''perpetual'' product \<or> py_in ''perp'' product) then Inr LINEAR_PERPETUAL
     else if sp_asset_class sp = CRYPTO \<and> py_in ''spot'' product then Inr CRYPTO_SPOT
     else raise ''unsupported asset rule'')"

definition role_fee_rate :: "liquidity_role \<Rightarrow> instrument_spec \<Rightarrow> rat res" where
  "role_fee_rate role sp =
     metadata_decimal sp (if role = MAKER then ''maker_fee_rate'' else ''taker_fee_rate'') False ''0''"

definition a_share_fee_rate :: "side \<Rightarrow> env \<Rightarrow> instrument_spec \<Rightarrow> rat res" where
  "a_share_fee_rate sd E sp = and_then (metadata_decimal sp ''commission_rate'' False ''0'') (\<lambda>rate.
     if sd = SELL
     then and_then (metadata_decimal sp ''stamp_duty_rate'' True '''') (\<lambda>duty. Inr (dadd E rate duty))
     else Inr rate)"

definition rule_fee_rate :: "env \<Rightarrow> asset_rule \<Rightarrow> side \<Rightarrow> liquidity_role \<Rightarrow> instrument_spec \<Rightarrow> rat res" where
  "rule_fee_rate E rule sd role sp = (case rule of
       US_CASH_EQUITY \<Rightarrow> metadata_decimal sp ''commission_rate'' False ''0''
     | A_SHARE \<Rightarrow> a_share_fee_rate sd E sp
     | CN_FUTURE \<Rightarrow> metadata_decimal sp ''fee_rate'' False ''0''
     | CRYPTO_SPOT \<Rightarrow> role_fee_rate role sp
     | LINEAR_PERPETUAL \<Rightarrow> role_fee_rate role sp)"

definition rule_check ::
  "env \<Rightarrow> us_calendar \<Rightarrow> ledger_config \<Rightarrow> ledger \<Rightarrow> asset_rule \<Rightarrow> order_intent \<Rightarrow> risk_view \<Rightarrow> market_state
     \<Rightarrow> instrument_spec \<Rightarrow> bool \<Rightarrow> risk_decision res" where
  "rule_check E u c l rule i v m sp accepted_partial_order = (case rule of
       US_CASH_EQUITY \<Rightarrow> us_cash_check E u c l i v m sp
     | A_SHARE \<Rightarrow> a_share_check E l i v m sp accepted_partial_order
     | CN_FUTURE \<Rightarrow> futures_check E c l i v m sp
     | CRYPTO_SPOT \<Rightarrow> crypto_spot_check E i v m sp
     | LINEAR_PERPETUAL \<Rightarrow> linear_perpetual_check E c l i v m sp)"

end
