(* ===== verification/Risk_Gate.thy ===== *)
theory Risk_Gate
  imports Rules
begin

text \<open>
  \<open>RuleBookRiskGate\<close> of \<open>rules.py\<close>: market state, reservations of open orders, the check of an
  order, of an open order and of a fill, the policies and the fee of a fill.  The ledger is an
  argument, as the code only reads it.  \<open>str\<close> of a \<open>Decimal\<close> depends on its exponent, which a
  number does not have, so the texts that go into the fee identifier are a parameter.
\<close>

section \<open>Configuration and state\<close>

datatype policy_answer = PolicyRaises string | NotADecision | Decided risk_decision

record risk_policy =
  rp_sends_live_orders :: bool
  rp_check_order :: "order_intent \<Rightarrow> risk_check_context \<Rightarrow> policy_answer"
  rp_runtime_check :: "risk_check_context \<Rightarrow> policy_answer"

record gate_config =
  gc_instruments :: "(string, instrument_spec) dict"
  gc_ledger :: ledger_config
  gc_money_scale :: nat
  gc_policies :: "risk_policy list"
  gc_calendar :: us_calendar
  gc_decimal_text :: "fill \<Rightarrow> rat \<Rightarrow> string"

type_synonym cash_reservation = "string \<times> rat \<times> rat"
type_synonym margin_reservation = "rat \<times> rat"
type_synonym requirement = "(string \<times> rat) option \<times> rat \<times> (string \<times> rat) option"

record risk_gate =
  rg_states :: "(string, market_state) dict"
  rg_cash_reservations :: "(string, cash_reservation) dict"
  rg_margin_reservations :: "(string, margin_reservation) dict"
  rg_position_reservations :: "(string, cash_reservation) dict"

definition gate_reset :: risk_gate where
  "gate_reset = \<lparr>rg_states = [], rg_cash_reservations = [], rg_margin_reservations = [], rg_position_reservations = []\<rparr>"

definition mk_risk_gate :: "gate_config \<Rightarrow> risk_gate res" where
  "mk_risk_gate g = (if list_ex rp_sends_live_orders (gc_policies g) then raise ''risk policy cannot send live orders''
     else Inr gate_reset)"

record gate_checkpoint =
  gp_states :: "(string, market_state) dict"
  gp_cash_reservations :: "(string, cash_reservation) dict"
  gp_margin_reservations :: "(string, margin_reservation) dict"
  gp_position_reservations :: "(string, cash_reservation) dict"

definition gate_capture_state :: "risk_gate \<Rightarrow> gate_checkpoint" where
  "gate_capture_state r = \<lparr>gp_states = rg_states r, gp_cash_reservations = rg_cash_reservations r,
     gp_margin_reservations = rg_margin_reservations r, gp_position_reservations = rg_position_reservations r\<rparr>"

definition gate_restore_state :: "gate_checkpoint \<Rightarrow> risk_gate \<Rightarrow> risk_gate" where
  "gate_restore_state saved r = r\<lparr>rg_states := gp_states saved, rg_cash_reservations := gp_cash_reservations saved,
     rg_margin_reservations := gp_margin_reservations saved, rg_position_reservations := gp_position_reservations saved\<rparr>"

section \<open>Observation\<close>

definition observed_status :: "gate_config \<Rightarrow> market_state option \<Rightarrow> market_event \<Rightarrow> string" where
  "observed_status g prior ev =
     (let strict = (case dget (gc_instruments g) (me_instrument_id ev) of None \<Rightarrow> False
                    | Some sp \<Rightarrow> dget (sp_metadata sp) ''requires_status_evidence'' = Some ''true'');
          same_day = (case prior of None \<Rightarrow> False | Some m \<Rightarrow> me_trading_day (ms_event m) = me_trading_day ev) in
      case me_body ev of
        StatusEvent s \<Rightarrow> py_lower s
      | _ \<Rightarrow> if strict \<and> \<not> same_day then ''unknown''
             else (case prior of None \<Rightarrow> ''open'' | Some m \<Rightarrow> ms_status m))"

definition observed_reference :: "env \<Rightarrow> market_state option \<Rightarrow> market_event \<Rightarrow> fixed_point option res" where
  "observed_reference E prior ev = (case me_body ev of
       MarkPriceEvent p \<Rightarrow> Inr (Some p)
     | TradeEvent t \<Rightarrow> Inr (Some (tr_price t))
     | QuoteEvent q \<Rightarrow> and_then (midpoint E (qt_bid_price q) (qt_ask_price q)) (\<lambda>f. Inr (Some f))
     | BarEvent b \<Rightarrow> Inr (Some (bar_close_price b))
     | _ \<Rightarrow> Inr (Option.bind prior ms_reference_price))"

definition gate_observe :: "env \<Rightarrow> gate_config \<Rightarrow> market_event \<Rightarrow> risk_gate \<Rightarrow> risk_gate res" where
  "gate_observe E g ev r =
     (let prior = dget (rg_states r) (me_instrument_id ev) in
      and_then (observed_reference E prior ev) (\<lambda>reference.
      Inr (r\<lparr>rg_states := dset (me_instrument_id ev)
         \<lparr>ms_event = ev, ms_reference_price = reference, ms_status = observed_status g prior ev\<rparr> (rg_states r)\<rparr>)))"

section \<open>Reservations\<close>

definition reservation_requirement ::
  "env \<Rightarrow> ledger_config \<Rightarrow> ledger \<Rightarrow> order_intent \<Rightarrow> market_state \<Rightarrow> instrument_spec \<Rightarrow> requirement res" where
  "reservation_requirement E c l i m sp = (case intent_price E i m of
       None \<Rightarrow> raise ''reservation requires a reference price''
     | Some price \<Rightarrow> let notional = order_notional E i price sp in
         if is_derivative sp
         then (if oi_reduce_only i then Inr (None, 0, Some (oi_instrument_id i, decimal E (oi_quantity i)))
               else and_then (metadata_decimal sp ''initial_margin_rate'' True '''') (\<lambda>rate.
                    and_then (convert_to_base E c l (dmul E notional rate) (sp_settlement_currency sp)
                                (me_available_at (ms_event m))) (\<lambda>margin.
                    Inr (None, margin, None))))
         else if oi_side i = BUY
         then and_then (metadata_decimal sp ''commission_rate'' False ''0'') (\<lambda>commission.
              and_then (metadata_decimal sp ''maker_fee_rate'' False ''0'') (\<lambda>maker.
              and_then (metadata_decimal sp ''taker_fee_rate'' False ''0'') (\<lambda>taker.
              Inr (Some (quote_or_settlement sp,
                         dmul E notional (dadd E 1 (max (max commission maker) taker))), 0, None))))
         else Inr (None, 0, Some (oi_instrument_id i, decimal E (oi_quantity i))))"

text \<open>What the other orders hold of a currency, of the margin, of an instrument.\<close>

definition reserved_for :: "env \<Rightarrow> (string, cash_reservation) dict \<Rightarrow> string \<Rightarrow> string \<Rightarrow> rat" where
  "reserved_for E d what key = dsum E (map (\<lambda>(_, _, amount, _). amount)
     (filter (\<lambda>(k, reserved, _, _). reserved = what \<and> k \<noteq> key) d))"

definition reserved_margin :: "env \<Rightarrow> (string, margin_reservation) dict \<Rightarrow> string \<Rightarrow> rat" where
  "reserved_margin E d key = dsum E (map (\<lambda>(_, amount, _). amount) (filter (\<lambda>(k, _, _). k \<noteq> key) d))"

definition available_position ::
  "env \<Rightarrow> ledger \<Rightarrow> risk_view \<Rightarrow> market_state \<Rightarrow> instrument_spec \<Rightarrow> string \<Rightarrow> rat" where
  "available_position E l v m sp iid = (let whole = dabs E (view_position v iid) in
     if sp_asset_class sp \<in> {EQUITY, ETF} \<and> py_lower (sp_product_type sp) \<notin> {''us_equity'', ''us_etf''}
     then dsub E whole (acquired_today E l iid (me_trading_day (ms_event m))) else whole)"

definition check_reservations ::
  "env \<Rightarrow> ledger \<Rightarrow> risk_gate \<Rightarrow> order_intent \<Rightarrow> risk_view \<Rightarrow> market_state \<Rightarrow> instrument_spec
     \<Rightarrow> requirement \<Rightarrow> risk_decision" where
  "check_reservations E l r i v m sp q = (case q of (cash, margin, position) \<Rightarrow> let key = oi_idempotency_key i in
     if (case cash of None \<Rightarrow> False
         | Some (currency, required) \<Rightarrow>
             dadd E required (reserved_for E (rg_cash_reservations r) currency key) > view_cash v currency)
     then refused ''INSUFFICIENT_AVAILABLE_CASH'' ''open-order reservations exceed available cash''
     else if margin \<noteq> 0 \<and> dadd E margin (reserved_margin E (rg_margin_reservations r) key)
               > dsub E (rv_nav v) (rv_initial_margin v)
     then refused ''INSUFFICIENT_AVAILABLE_MARGIN'' ''open-order reservations exceed available margin''
     else if (case position of None \<Rightarrow> False
         | Some (iid, required) \<Rightarrow>
             dadd E required (reserved_for E (rg_position_reservations r) iid key)
               > max 0 (available_position E l v m sp iid))
     then refused ''INSUFFICIENT_AVAILABLE_POSITION'' ''open-order reservations exceed reducible position''
     else ACCEPTED_DECISION)"

text \<open>A requirement has one part, so a key that is refused leaves the reservations as they were.\<close>

definition reserve_under :: "string \<Rightarrow> string \<Rightarrow> 'v \<Rightarrow> (string, 'v) dict \<Rightarrow> (string, 'v) dict res" where
  "reserve_under msg key expected d = (case dget d key of
       Some prior \<Rightarrow> if prior \<noteq> expected then raise msg else Inr (dset key expected d)
     | None \<Rightarrow> Inr (dset key expected d))"

definition reserve_requirement :: "order_intent \<Rightarrow> requirement \<Rightarrow> risk_gate \<Rightarrow> risk_gate res" where
  "reserve_requirement i q r = (case q of (cash, margin, position) \<Rightarrow> let key = oi_idempotency_key i in
     and_then (case cash of None \<Rightarrow> Inr (rg_cash_reservations r)
               | Some (currency, amount) \<Rightarrow> reserve_under ''reservation key reused with different cash requirement''
                   key (currency, amount, amount) (rg_cash_reservations r)) (\<lambda>cs.
     and_then (if margin = 0 then Inr (rg_margin_reservations r)
               else reserve_under ''reservation key reused with different margin requirement''
                   key (margin, margin) (rg_margin_reservations r)) (\<lambda>ms.
     and_then (case position of None \<Rightarrow> Inr (rg_position_reservations r)
               | Some (iid, amount) \<Rightarrow> reserve_under ''reservation key reused with different position requirement''
                   key (iid, amount, amount) (rg_position_reservations r)) (\<lambda>ps.
       Inr (r\<lparr>rg_cash_reservations := cs, rg_margin_reservations := ms, rg_position_reservations := ps\<rparr>)))))"

definition need_spec :: "gate_config \<Rightarrow> string \<Rightarrow> instrument_spec res" where
  "need_spec g iid = dneed (gc_instruments g) iid"

definition need_state :: "risk_gate \<Rightarrow> string \<Rightarrow> market_state res" where
  "need_state r iid = dneed (rg_states r) iid"

definition reserve :: "env \<Rightarrow> gate_config \<Rightarrow> ledger \<Rightarrow> order_intent \<Rightarrow> risk_gate \<Rightarrow> risk_gate res" where
  "reserve E g l i r =
     and_then (need_spec g (oi_instrument_id i)) (\<lambda>sp.
     and_then (need_state r (oi_instrument_id i)) (\<lambda>m.
     and_then (reservation_requirement E (gc_ledger g) l i m sp) (\<lambda>q. reserve_requirement i q r)))"

text \<open>A fill gives back its share of the original amount; what is not positive is dropped.\<close>

definition give_back :: "env \<Rightarrow> rat \<Rightarrow> string \<Rightarrow> ('v \<Rightarrow> rat \<times> rat) \<Rightarrow> (rat \<Rightarrow> 'v \<Rightarrow> 'v) \<Rightarrow> (string, 'v) dict \<Rightarrow> (string, 'v) dict" where
  "give_back E fraction key amounts set_amount d = (case dget d key of
       None \<Rightarrow> d
     | Some v \<Rightarrow> let (amount, original) = amounts v; remaining = dsub E amount (dmul E original fraction) in
         if remaining \<le> 0 then ddel key d else dset key (set_amount remaining v) d)"

definition gate_release_fill :: "env \<Rightarrow> fill \<Rightarrow> order \<Rightarrow> risk_gate \<Rightarrow> risk_gate res" where
  "gate_release_fill E f ord r =
     and_then (ddiv E (decimal E (fl_quantity f)) (decimal E (oi_quantity (ord_intent ord)))) (\<lambda>fraction.
     let key = oi_idempotency_key (ord_intent ord) in
     Inr (r\<lparr>rg_cash_reservations := give_back E fraction key snd (\<lambda>a (c, _, original). (c, a, original)) (rg_cash_reservations r),
            rg_margin_reservations := give_back E fraction key id (\<lambda>a (_, original). (a, original)) (rg_margin_reservations r),
            rg_position_reservations := give_back E fraction key snd (\<lambda>a (c, _, original). (c, a, original)) (rg_position_reservations r)\<rparr>))"

definition release_order :: "order \<Rightarrow> risk_gate \<Rightarrow> risk_gate" where
  "release_order ord r = (let key = oi_idempotency_key (ord_intent ord) in
     r\<lparr>rg_cash_reservations := ddel key (rg_cash_reservations r),
       rg_margin_reservations := ddel key (rg_margin_reservations r),
       rg_position_reservations := ddel key (rg_position_reservations r)\<rparr>)"

section \<open>Policies\<close>

definition order_context ::
  "env \<Rightarrow> gate_config \<Rightarrow> ledger \<Rightarrow> risk_gate \<Rightarrow> instant \<Rightarrow> order_intent \<Rightarrow> account_snapshot
     \<Rightarrow> portfolio_risk_snapshot \<Rightarrow> risk_check_context res" where
  "order_context E g l r event_time i account portfolio =
     and_then (need_spec g (oi_instrument_id i)) (\<lambda>sp.
     and_then (need_state r (oi_instrument_id i)) (\<lambda>m.
     case ms_reference_price m of
       None \<Rightarrow> raise ''risk policy requires a causal reference price''
     | Some reference \<Rightarrow>
         let local = order_notional E i (decimal E reference) sp;
             signed = (if oi_side i = SELL then dneg E local else local) in
         and_then (convert_to_base E (gc_ledger g) l signed (sp_settlement_currency sp) event_time) (\<lambda>projected.
         and_then (fixed E projected (gc_money_scale g) (Some ROUND_HALF_EVEN)) (\<lambda>notional.
         mk_risk_check_context E \<lparr>rc_account_snapshot = account, rc_portfolio_snapshot = portfolio,
           rc_instrument_spec = Some sp, rc_reference_price = Some reference,
           rc_projected_notional_base = Some notional\<rparr>))))"

definition risk_context ::
  "env \<Rightarrow> gate_config \<Rightarrow> ledger \<Rightarrow> risk_gate \<Rightarrow> instant \<Rightarrow> order_intent option \<Rightarrow> risk_check_context res" where
  "risk_context E g l r event_time intent =
     and_then (snapshot E (gc_ledger g) l (Some event_time)) (\<lambda>account.
     and_then (portfolio_risk_snapshot_of E (gc_ledger g) l event_time) (\<lambda>portfolio.
     case intent of
       None \<Rightarrow> mk_risk_check_context E \<lparr>rc_account_snapshot = account, rc_portfolio_snapshot = portfolio,
           rc_instrument_spec = None, rc_reference_price = None, rc_projected_notional_base = None\<rparr>
     | Some i \<Rightarrow> order_context E g l r event_time i account portfolio))"

definition exn_text :: "py_exn \<Rightarrow> string" where
  "exn_text e = (case e of ValidationError s \<Rightarrow> s | ValueError s \<Rightarrow> s | ArithmeticError s \<Rightarrow> s | KeyError s \<Rightarrow> s
     | RuntimeError s \<Rightarrow> s | TypeError s \<Rightarrow> s | AttributeError s \<Rightarrow> s | IndexError s \<Rightarrow> s
     | ReplayError s \<Rightarrow> s | AssertionError s \<Rightarrow> s)"

fun ask_policies :: "(risk_policy \<Rightarrow> policy_answer) \<Rightarrow> risk_policy list \<Rightarrow> risk_decision" where
  "ask_policies question [] = ACCEPTED_DECISION"
| "ask_policies question (p # ps) = (case question p of
     PolicyRaises msg \<Rightarrow> refused ''RISK_POLICY_ERROR'' msg
   | NotADecision \<Rightarrow> refused ''RISK_POLICY_INVALID'' ''returned a non-RiskDecision''
   | Decided d \<Rightarrow> if rd_accepted d then ask_policies question ps else d)"

text \<open>Whatever goes wrong around the policies, the answer is a refusal.\<close>

definition check_policies ::
  "gate_config \<Rightarrow> risk_check_context res \<Rightarrow> (risk_policy \<Rightarrow> risk_check_context \<Rightarrow> policy_answer) \<Rightarrow> risk_decision" where
  "check_policies g context question =
     (if gc_policies g = [] then ACCEPTED_DECISION
      else case context of
        Inl e \<Rightarrow> refused ''RISK_CONTEXT_INVALID'' (exn_text e)
      | Inr x \<Rightarrow> ask_policies (\<lambda>p. question p x) (gc_policies g))"

definition check_order_policies ::
  "env \<Rightarrow> gate_config \<Rightarrow> ledger \<Rightarrow> risk_gate \<Rightarrow> order_intent \<Rightarrow> instant \<Rightarrow> risk_decision" where
  "check_order_policies E g l r i event_time =
     check_policies g (risk_context E g l r event_time (Some i)) (\<lambda>p. rp_check_order p i)"

definition check_runtime_policies :: "env \<Rightarrow> gate_config \<Rightarrow> ledger \<Rightarrow> risk_gate \<Rightarrow> instant \<Rightarrow> risk_decision" where
  "check_runtime_policies E g l r event_time =
     check_policies g (risk_context E g l r event_time None) rp_runtime_check"

section \<open>The check of an order\<close>

definition lifecycle_refusal :: "instrument_spec \<Rightarrow> instant \<Rightarrow> risk_decision option" where
  "lifecycle_refusal sp as_of =
     (if as_of < sp_available_at sp then Some (refused ''PIT_INSTRUMENT'' ''InstrumentSpec was not yet available'')
      else if as_of < sp_effective_from sp \<or> (case sp_effective_to sp of None \<Rightarrow> False | Some t \<Rightarrow> as_of \<ge> t)
      then Some (refused ''INSTRUMENT_INACTIVE'' ''instrument lifecycle is inactive'')
      else None)"

definition status_refusal :: "string \<Rightarrow> side \<Rightarrow> risk_decision option" where
  "status_refusal status sd =
     (if status \<in> {''unknown'', ''no_restriction''} then Some (refused ''MARKET_STATUS_UNKNOWN'' status)
      else if status \<in> {''halted'', ''suspended'', ''closed''} then Some (refused ''MARKET_NOT_TRADABLE'' status)
      else if status = ''limit_up'' \<and> sd = BUY then Some (refused ''LIMIT_UP'' ''buy is blocked at limit-up'')
      else if status = ''limit_down'' \<and> sd = SELL then Some (refused ''LIMIT_DOWN'' ''sell is blocked at limit-down'')
      else None)"

definition off_tick :: "env \<Rightarrow> fixed_point option \<Rightarrow> instrument_spec \<Rightarrow> bool res" where
  "off_tick E price sp = (case price of None \<Rightarrow> Inr False
     | Some p \<Rightarrow> and_then (aligned E p (sp_price_tick sp)) (\<lambda>ok. Inr (\<not> ok)))"

text \<open>The rule of the instrument and the reservations; a \<open>ValidationError\<close> in them is a refusal.\<close>

definition check_rule ::
  "env \<Rightarrow> gate_config \<Rightarrow> ledger \<Rightarrow> risk_gate \<Rightarrow> order_intent \<Rightarrow> risk_view \<Rightarrow> market_state \<Rightarrow> instrument_spec
     \<Rightarrow> bool \<Rightarrow> (risk_decision \<times> requirement option) res" where
  "check_rule E g l r i v m sp accepted_partial_order =
     and_then (rule_of sp) (\<lambda>rule.
     and_then (rule_check E (gc_calendar g) (gc_ledger g) l rule i v m sp accepted_partial_order) (\<lambda>d.
     if \<not> rd_accepted d then Inr (d, None)
     else and_then (reservation_requirement E (gc_ledger g) l i m sp) (\<lambda>q.
       Inr (check_reservations E l r i v m sp q, Some q))))"

definition guarded_rule :: "(risk_decision \<times> requirement option) res \<Rightarrow> (risk_decision \<times> requirement option) res" where
  "guarded_rule x = (case x of
       Inl (ValidationError msg) \<Rightarrow> Inr (refused ''RULE_CONFIGURATION'' msg, None)
     | _ \<Rightarrow> x)"

text \<open>\<open>_check\<close>: the decision, and the requirement it prepared when it accepts.\<close>

definition check_intent ::
  "env \<Rightarrow> gate_config \<Rightarrow> ledger \<Rightarrow> risk_gate \<Rightarrow> order_intent \<Rightarrow> risk_view \<Rightarrow> instant \<Rightarrow> bool
     \<Rightarrow> (risk_decision \<times> requirement option) res" where
  "check_intent E g l r i v as_of accepted_partial_order =
     (if oi_account_id i \<noteq> rv_account_id v then Inr (refused ''ACCOUNT_MISMATCH'' ''intent targets another account'', None)
      else case dget (gc_instruments g) (oi_instrument_id i) of
        None \<Rightarrow> Inr (refused ''UNKNOWN_INSTRUMENT'' ''InstrumentSpec is missing'', None)
      | Some sp \<Rightarrow>
      case dget (rg_states r) (oi_instrument_id i) of
        None \<Rightarrow> Inr (refused ''NO_MARKET_STATE'' ''no MarketEvent has been observed'', None)
      | Some m \<Rightarrow>
      case lifecycle_refusal sp as_of of
        Some d \<Rightarrow> Inr (d, None)
      | None \<Rightarrow>
      case status_refusal (ms_status m) (oi_side i) of
        Some d \<Rightarrow> Inr (d, None)
      | None \<Rightarrow>
      and_then (aligned E (oi_quantity i) (sp_quantity_step sp)) (\<lambda>on_step.
      if \<not> on_step then Inr (refused ''QUANTITY_STEP'' ''quantity violates InstrumentSpec step'', None)
      else and_then (off_tick E (oi_limit_price i) sp) (\<lambda>limit_off.
      if limit_off then Inr (refused ''PRICE_TICK'' ''limit_price violates price tick'', None)
      else and_then (off_tick E (oi_stop_price i) sp) (\<lambda>stop_off.
      if stop_off then Inr (refused ''PRICE_TICK'' ''stop_price violates price tick'', None)
      else and_then (guarded_rule (check_rule E g l r i v m sp accepted_partial_order)) (\<lambda>(d, q).
      if \<not> rd_accepted d then Inr (d, None)
      else let policies = check_order_policies E g l r i as_of in
           Inr (policies, if rd_accepted policies then q else None))))))"

definition current_view :: "env \<Rightarrow> gate_config \<Rightarrow> ledger \<Rightarrow> instant \<Rightarrow> string \<Rightarrow> risk_view res" where
  "current_view E g l event_time iid =
     (let whole = and_then (risk_balances E (gc_ledger g) l event_time) (\<lambda>(cash, positions, nav, margin).
            Inr \<lparr>rv_account_id = lc_account_id (gc_ledger g), rv_cash_balances = cash, rv_positions = positions,
                 rv_nav = nav, rv_initial_margin = margin\<rparr>) in
      case dget (gc_instruments g) iid of
        None \<Rightarrow> whole
      | Some sp \<Rightarrow> if is_derivative sp then whole
          else let currency = quote_or_settlement sp in
            Inr \<lparr>rv_account_id = lc_account_id (gc_ledger g),
                 rv_cash_balances = [(currency, cash_balance l currency)],
                 rv_positions = (case dget (lg_positions l) iid of None \<Rightarrow> [] | Some q \<Rightarrow> [(iid, q)]),
                 rv_nav = 0, rv_initial_margin = 0\<rparr>)"

definition gate_check :: "env \<Rightarrow> gate_config \<Rightarrow> ledger \<Rightarrow> risk_gate \<Rightarrow> order_intent \<Rightarrow> account_snapshot \<Rightarrow> risk_decision res" where
  "gate_check E g l r i snap =
     and_then (check_intent E g l r i (view_of_snapshot E snap) (oi_created_at i) False) (\<lambda>(d, _). Inr d)"

definition check_current_for_submit ::
  "env \<Rightarrow> gate_config \<Rightarrow> ledger \<Rightarrow> risk_gate \<Rightarrow> order_intent \<Rightarrow> instant \<Rightarrow> (risk_decision \<times> requirement option) res" where
  "check_current_for_submit E g l r i event_time =
     and_then (current_view E g l event_time (oi_instrument_id i)) (\<lambda>v.
       check_intent E g l r i v (oi_created_at i) False)"

definition check_current :: "env \<Rightarrow> gate_config \<Rightarrow> ledger \<Rightarrow> risk_gate \<Rightarrow> order_intent \<Rightarrow> instant \<Rightarrow> risk_decision res" where
  "check_current E g l r i event_time =
     and_then (check_current_for_submit E g l r i event_time) (\<lambda>(d, _). Inr d)"

section \<open>Runtime checks and open orders\<close>

definition liquidation_refusal :: risk_decision where
  "liquidation_refusal = refused ''LIQUIDATION_REQUIRED'' ''NAV is at or below aggregate maintenance margin''"

definition runtime_check :: "env \<Rightarrow> gate_config \<Rightarrow> ledger \<Rightarrow> risk_gate \<Rightarrow> account_snapshot \<Rightarrow> risk_decision" where
  "runtime_check E g l r snap = (if as_liquidation_required snap then liquidation_refusal
     else check_runtime_policies E g l r (as_event_time snap))"

definition runtime_check_current :: "env \<Rightarrow> gate_config \<Rightarrow> ledger \<Rightarrow> risk_gate \<Rightarrow> instant \<Rightarrow> risk_decision res" where
  "runtime_check_current E g l r event_time =
     and_then (utc E event_time) (\<lambda>t.
     if gc_policies g = [] \<and> \<not> has_open_derivative_position (gc_ledger g) l then Inr ACCEPTED_DECISION
     else and_then (liquidation_required E (gc_ledger g) l (Some t)) (\<lambda>liquidate.
       Inr (if liquidate then liquidation_refusal else check_runtime_policies E g l r t)))"

text \<open>The rest of a partly filled order, as an intent of the present moment.\<close>

definition remaining_intent :: "env \<Rightarrow> order \<Rightarrow> instant \<Rightarrow> order_intent res" where
  "remaining_intent E ord event_time = (let i = ord_intent ord in
     if order_remaining ord = units (oi_quantity i) then Inr i
     else and_then (new_fixed E (order_remaining ord) (scale (oi_quantity i))) (\<lambda>q.
       mk_order_intent E (i\<lparr>oi_quantity := q, oi_created_at := event_time\<rparr>)))"

definition check_remaining ::
  "env \<Rightarrow> gate_config \<Rightarrow> ledger \<Rightarrow> risk_gate \<Rightarrow> order \<Rightarrow> risk_view res \<Rightarrow> instant \<Rightarrow> risk_decision res" where
  "check_remaining E g l r ord view event_time =
     (if order_remaining ord \<le> 0 then Inr (refused ''NO_REMAINING_QUANTITY'' ''order has no open quantity'')
      else and_then (remaining_intent E ord event_time) (\<lambda>i.
      and_then view (\<lambda>v.
      and_then (check_intent E g l r i v event_time (units (ord_filled_quantity ord) > 0)) (\<lambda>(d, _). Inr d))))"

definition check_open_order ::
  "env \<Rightarrow> gate_config \<Rightarrow> ledger \<Rightarrow> risk_gate \<Rightarrow> order \<Rightarrow> account_snapshot \<Rightarrow> instant \<Rightarrow> risk_decision res" where
  "check_open_order E g l r ord snap event_time = (let d = runtime_check E g l r snap in
     if \<not> rd_accepted d then Inr d
     else check_remaining E g l r ord (Inr (view_of_snapshot E snap)) event_time)"

definition check_open_order_current ::
  "env \<Rightarrow> gate_config \<Rightarrow> ledger \<Rightarrow> risk_gate \<Rightarrow> order \<Rightarrow> instant \<Rightarrow> risk_decision res" where
  "check_open_order_current E g l r ord event_time =
     when_accepted (runtime_check_current E g l r event_time)
       (check_remaining E g l r ord (current_view E g l event_time (oi_instrument_id (ord_intent ord))) event_time)"

section \<open>Fills and fees\<close>

definition fill_notional :: "env \<Rightarrow> fill \<Rightarrow> instrument_spec \<Rightarrow> rat" where
  "fill_notional E f sp =
     dmul E (dmul E (decimal E (fl_quantity f)) (decimal E (fl_price f))) (decimal E (sp_contract_multiplier sp))"

definition fee_rate_for :: "env \<Rightarrow> fill \<Rightarrow> instrument_spec \<Rightarrow> rat res" where
  "fee_rate_for E f sp = and_then (rule_of sp) (\<lambda>rule.
     rule_fee_rate E rule (fl_side f) (fl_liquidity_role f) sp)"

definition check_fill :: "env \<Rightarrow> gate_config \<Rightarrow> ledger \<Rightarrow> risk_gate \<Rightarrow> fill \<Rightarrow> order \<Rightarrow> risk_decision res" where
  "check_fill E g l r f ord = (let key = oi_idempotency_key (ord_intent ord) in
     and_then (need_spec g (fl_instrument_id f)) (\<lambda>sp.
     if is_derivative sp
     then (if oi_reduce_only (ord_intent ord) then Inr ACCEPTED_DECISION
           else and_then (metadata_decimal sp ''initial_margin_rate'' True '''') (\<lambda>rate.
                and_then (convert_to_base E (gc_ledger g) l (dmul E (fill_notional E f sp) rate)
                            (sp_settlement_currency sp) (fl_event_time f)) (\<lambda>required.
                and_then (risk_balances E (gc_ledger g) l (fl_event_time f)) (\<lambda>(_, _, nav, margin).
                unless (dadd E required (reserved_margin E (rg_margin_reservations r) key) > dsub E nav margin)
                  ''INSUFFICIENT_MARGIN_AT_FILL'' ''actual fill price would exceed available base-currency margin''
                  (Inr ACCEPTED_DECISION)))))
     else if fl_side f = SELL then Inr ACCEPTED_DECISION
     else and_then (need_state r (fl_instrument_id f)) (\<lambda>_.
          and_then (fee_rate_for E f sp) (\<lambda>rate.
          unless (dadd E (dmul E (fill_notional E f sp) (dadd E 1 (max rate 0)))
                    (reserved_for E (rg_cash_reservations r) (quote_or_settlement sp) key)
                  > cash_balance l (quote_or_settlement sp))
            ''INSUFFICIENT_CASH_AT_FILL'' ''actual fill price and fee would create negative available cash''
            (Inr ACCEPTED_DECISION)))))"

text \<open>The amount of a fee and its type; a future charges the lots it closes today at their own rate.\<close>

definition fee_amount_for ::
  "env \<Rightarrow> gate_config \<Rightarrow> ledger \<Rightarrow> fill \<Rightarrow> instrument_spec \<Rightarrow> rat \<Rightarrow> (rat \<times> string) res" where
  "fee_amount_for E g l f sp rate =
     (let unit_notional = dmul E (decimal E (fl_price f)) (decimal E (sp_contract_multiplier sp)) in
      if sp_asset_class sp = FUTURE
      then and_then (close_allocation l (fl_fill_id f)) (\<lambda>(prior_close, today_close).
           let normal = dsub E (decimal E (fl_quantity f)) today_close in
           and_then (if today_close = 0 then Inr 0 else metadata_decimal sp ''close_today_fee_rate'' True '''') (\<lambda>today_rate.
           Inr (dmul E unit_notional (dadd E (dmul E normal rate) (dmul E today_close today_rate)),
                ''auto_fifo:prior='' @ gc_decimal_text g f prior_close @ '':today='' @ gc_decimal_text g f today_close
                  @ '':open_or_regular='' @ gc_decimal_text g f (dsub E normal prior_close))))
      else Inr (dmul E (dmul E (decimal E (fl_quantity f)) unit_notional) rate,
                if fl_liquidity_role f = MAKER then ''maker'' else ''taker''))"

definition fee_for :: "env \<Rightarrow> gate_config \<Rightarrow> ledger \<Rightarrow> risk_gate \<Rightarrow> fill \<Rightarrow> fee option res" where
  "fee_for E g l r f =
     and_then (need_spec g (fl_instrument_id f)) (\<lambda>sp.
     and_then (need_state r (fl_instrument_id f)) (\<lambda>_.
     and_then (fee_rate_for E f sp) (\<lambda>rate.
     and_then (fee_amount_for E g l f sp rate) (\<lambda>(amount, fee_type).
     if amount = 0 then Inr None
     else and_then (fixed E amount (gc_money_scale g) (Some ROUND_HALF_EVEN)) (\<lambda>money.
       Inr (Some \<lparr>fee_fee_id = ''fee-'' @ take 24 (sha256_hex E (fl_fill_id f @ CHR ''|'' # gc_decimal_text g f amount
               @ CHR ''|'' # fee_type @ CHR ''|'' # sp_settlement_currency sp)),
             fee_fill_id = fl_fill_id f, fee_account_id = fl_account_id f, fee_amount = money,
             fee_currency = sp_settlement_currency sp, fee_event_time = fl_event_time f, fee_fee_type = fee_type\<rparr>))))))"

end
