(* ===== verification/Risk_Props.thy ===== *)
theory Risk_Props
  imports Risk_Gate Ledger_Value
begin

text \<open>
  What the risk gate promises: an accepted order passed every guard and is covered on top of
  the other open orders; a purchase it lets through can pay its fee in the ledger; the A-share
  status blocks both sides unless everything is known and tradable.  Two properties show where
  the code falls short: the release of fills may leave a remainder reserved, and settled cash
  is not computed while the journal is streamed.
\<close>

section \<open>Inversion of the checks\<close>

lemma unlessE:
  assumes "unless bad code msg rest = Inr d" "rd_accepted d"
  obtains "\<not> bad" "rest = Inr d"
  using assms by (auto simp: unless_def refused_def split: if_splits)

lemma refused_not_accepted [simp]: "\<not> rd_accepted (refused code msg)" "rd_accepted ACCEPTED_DECISION"
  by (simp_all add: refused_def ACCEPTED_DECISION_def)


lemma guarded_rule_accepted:
  assumes "guarded_rule x = Inr (d, q)" "rd_accepted d"
  shows "x = Inr (d, q)"
  using assms by (auto simp: guarded_rule_def split: sum.splits py_exn.splits)



text \<open>What a check found in order when it accepted.\<close>

lemma check_intent_acceptedE:
  assumes "check_intent E g l r i v as_of partial = Inr (d, q)" "rd_accepted d"
  obtains sp m cash margin position where
    "oi_account_id i = rv_account_id v"
    "dget (gc_instruments g) (oi_instrument_id i) = Some sp" "dget (rg_states r) (oi_instrument_id i) = Some m"
    "lifecycle_refusal sp as_of = None" "status_refusal (ms_status m) (oi_side i) = None"
    "aligned E (oi_quantity i) (sp_quantity_step sp) = Inr True"
    "off_tick E (oi_limit_price i) sp = Inr False" "off_tick E (oi_stop_price i) sp = Inr False"
    "q = Some (cash, margin, position)"
    "reservation_requirement E (gc_ledger g) l i m sp = Inr (cash, margin, position)"
    "rd_accepted (check_reservations E l r i v m sp (cash, margin, position))"
    "d = check_order_policies E g l r i as_of"
    "\<exists>rule d'. rule_of sp = Inr rule \<and> rd_accepted d'
       \<and> rule_check E (gc_calendar g) (gc_ledger g) l rule i v m sp partial = Inr d'"
proof -
  have acct: "oi_account_id i = rv_account_id v"
    by (rule ccontr) (use assms in \<open>simp add: check_intent_def\<close>, use assms in auto)
  obtain sp where sp: "dget (gc_instruments g) (oi_instrument_id i) = Some sp"
    by (cases "dget (gc_instruments g) (oi_instrument_id i)") (use assms acct in \<open>auto simp: check_intent_def\<close>)
  obtain m where m: "dget (rg_states r) (oi_instrument_id i) = Some m"
    by (cases "dget (rg_states r) (oi_instrument_id i)") (use assms acct sp in \<open>auto simp: check_intent_def\<close>)
  have life: "lifecycle_refusal sp as_of = None"
    by (cases "lifecycle_refusal sp as_of") (use assms acct sp m in \<open>auto simp: check_intent_def lifecycle_refusal_def split: if_splits\<close>)
  have status: "status_refusal (ms_status m) (oi_side i) = None"
    by (cases "status_refusal (ms_status m) (oi_side i)")
      (use assms acct sp m life in \<open>auto simp: check_intent_def status_refusal_def split: if_splits\<close>)
  note a = acct sp m life status
  note rest = assms(1) [unfolded check_intent_def, simplified a option.case if_False simp_thms]
  obtain on_step where s: "aligned E (oi_quantity i) (sp_quantity_step sp) = Inr on_step"
    using rest by auto
  have s1: "on_step" by (rule ccontr) (use rest s assms(2) in auto)
  obtain lo where l: "off_tick E (oi_limit_price i) sp = Inr lo" using rest s s1 by auto
  have l1: "\<not> lo" by (rule notI) (use rest s s1 l assms(2) in auto)
  obtain so where t: "off_tick E (oi_stop_price i) sp = Inr so" using rest s s1 l l1 by auto
  have t1: "\<not> so" by (rule notI) (use rest s s1 l l1 t assms(2) in auto)
  obtain d' q' where gr: "guarded_rule (check_rule E g l r i v m sp partial) = Inr (d', q')"
    using rest s s1 l l1 t t1 by auto
  have d': "rd_accepted d'" by (rule ccontr) (use rest s s1 l l1 t t1 gr assms(2) in auto)
  have fin: "d = check_order_policies E g l r i as_of" "q = q'"
    using rest s s1 l l1 t t1 gr d' assms(2) by (auto simp: Let_def split: if_splits)
  have b: "aligned E (oi_quantity i) (sp_quantity_step sp) = Inr True" "off_tick E (oi_limit_price i) sp = Inr False"
    "off_tick E (oi_stop_price i) sp = Inr False" using s s1 l l1 t t1 by simp_all
  from guarded_rule_accepted [OF gr d'] d' obtain rule d0 q0 where c: "rule_of sp = Inr rule"
    "rule_check E (gc_calendar g) (gc_ledger g) l rule i v m sp partial = Inr d0" "rd_accepted d0"
    "reservation_requirement E (gc_ledger g) l i m sp = Inr q0" "q' = Some q0"
    "rd_accepted (check_reservations E l r i v m sp q0)"
    by (auto simp: check_rule_def split: if_splits)
  show ?thesis
    by (cases q0) (use that a b c fin in auto)
qed








lemma check_reservations_accepted:
  "rd_accepted (check_reservations E l r i v m sp (cash, margin, position)) \<longleftrightarrow>
     (\<forall>currency a. cash = Some (currency, a) \<longrightarrow>
        dadd E a (reserved_for E (rg_cash_reservations r) currency (oi_idempotency_key i)) \<le> view_cash v currency)
   \<and> (margin \<noteq> 0 \<longrightarrow> dadd E margin (reserved_margin E (rg_margin_reservations r) (oi_idempotency_key i))
        \<le> dsub E (rv_nav v) (rv_initial_margin v))
   \<and> (\<forall>iid a. position = Some (iid, a) \<longrightarrow>
        dadd E a (reserved_for E (rg_position_reservations r) iid (oi_idempotency_key i))
          \<le> max 0 (available_position E l v m sp iid))"
  by (auto simp: check_reservations_def Let_def not_less split: option.splits)

section \<open>Funding of a checked purchase\<close>

text \<open>No amount of the charge needs more digits than the context or the ledger has.\<close>

definition exact_charge :: "env \<Rightarrow> ledger_config \<Rightarrow> fill \<Rightarrow> instrument_spec \<Rightarrow> rat \<Rightarrow> bool" where
  "exact_charge E c f sp rate \<longleftrightarrow>
     (let q = decimal E (fl_quantity f); p = decimal E (fl_price f); m = decimal E (sp_contract_multiplier sp); n = q * p * m in
      fill_notional E f sp = n \<and> product_for_valuation E c [q, p, m] = n \<and> dadd E 1 rate = 1 + rate
      \<and> dmul E n (1 + rate) = n * (1 + rate) \<and> dmul E (dmul E q (dmul E p m)) rate = n * rate)"

lemma dsum_nonneg:
  assumes "\<forall>x \<in> set xs. 0 \<le> x"
  shows "0 \<le> dsum E xs"
proof -
  have "0 \<le> a \<Longrightarrow> 0 \<le> fold (\<lambda>x s. dadd E s x) xs a" for a
    using assms by (induction xs arbitrary: a) (simp_all add: dadd_def ctx_round_nonneg)
  then show ?thesis by (simp add: dsum_def)
qed

lemma round_pair:
  assumes "a + b \<le> of_int k"
  shows "round_half_even a + round_half_even b \<le> k + 1"
    and "\<not> (a - of_int \<lfloor>a\<rfloor> = 1 / 2 \<and> b - of_int \<lfloor>b\<rfloor> = 1 / 2) \<Longrightarrow> round_half_even a + round_half_even b \<le> k"
proof -
  have e: "of_int (round_half_even a) \<le> a + 1 / 2" "of_int (round_half_even b) \<le> b + 1 / 2"
    using round_half_even_error [of a] round_half_even_error [of b] by linarith+
  then have "of_int (round_half_even a + round_half_even b) \<le> (of_int (k + 1) :: rat)" using assms by simp
  then show "round_half_even a + round_half_even b \<le> k + 1" by (simp only: of_int_le_iff)
  assume tie: "\<not> (a - of_int \<lfloor>a\<rfloor> = 1 / 2 \<and> b - of_int \<lfloor>b\<rfloor> = 1 / 2)"
  have strict: "of_int (round_half_even x) < x + 1 / 2" if "x - of_int \<lfloor>x\<rfloor> \<noteq> 1 / 2" for x :: rat
    using that by (simp add: round_half_even_def Let_def) linarith
  have "of_int (round_half_even a + round_half_even b) < (of_int (k + 1) :: rat)"
    using tie e strict [of a] strict [of b] assms by auto
  then show "round_half_even a + round_half_even b \<le> k" by (simp only: of_int_less_iff)
qed

text \<open>A value is a tie when it lies half-way between two units of the money scale.\<close>

definition money_tie :: "ledger_config \<Rightarrow> rat \<Rightarrow> bool" where
  "money_tie c x \<longleftrightarrow> (let y = x * 10 ^ lc_money_scale c in y - of_int \<lfloor>y\<rfloor> = 1 / 2)"

lemma posted_pair:
  assumes "x + y \<le> z" "money_grid c z"
  shows "posted c x + posted c y \<le> z + 1 / 10 ^ lc_money_scale c"
    and "\<not> (money_tie c x \<and> money_tie c y) \<Longrightarrow> posted c x + posted c y \<le> z"
proof -
  let ?s = "10 ^ lc_money_scale c :: rat"
  obtain k where k: "z = of_int k / ?s" using assms(2) by (auto simp: money_grid_def)
  have le: "x * ?s + y * ?s \<le> of_int k"
    using mult_right_mono [OF assms(1), of ?s] by (simp add: k algebra_simps)
  define r where "r = round_half_even (x * ?s) + round_half_even (y * ?s)"
  have sum: "posted c x + posted c y = of_int r / ?s" by (simp add: posted_def r_def add_divide_distrib)
  have "r \<le> k + 1" unfolding r_def by (rule round_pair(1) [OF le])
  then have "(of_int r :: rat) \<le> of_int (k + 1)" by (simp only: of_int_le_iff)
  then show "posted c x + posted c y \<le> z + 1 / ?s"
    unfolding sum k by (simp add: divide_right_mono flip: add_divide_distrib)
  assume "\<not> (money_tie c x \<and> money_tie c y)"
  then have "r \<le> k" unfolding r_def by (intro round_pair(2) [OF le]) (simp add: money_tie_def Let_def)
  then show "posted c x + posted c y \<le> z" unfolding sum k by (simp add: divide_right_mono)
qed

context fixed_env
begin

lemma dadd_ge:
  assumes "ctx_round (prec E) x = x" "0 \<le> y"
  shows "x \<le> dadd E x y"
  using ctx_round_mono [OF prec_pos, of x "x + y"] assms by (simp add: dadd_def)

lemma cash_asset_buy:
  assumes "fill_transaction E c l f = Inr tx" "dget (lc_instruments c) (fl_instrument_id f) = Some sp"
    and "\<not> is_derivative sp" "\<not> is_premium_asset sp" "fl_side f = BUY"
    and n: "n = product_for_valuation E c [decimal E (fl_quantity f), decimal E (fl_price f), decimal E (sp_contract_multiplier sp)]" "0 \<le> n"
  shows "sum_list (map (cash_effect (sp_settlement_currency sp)) (tx_postings tx)) = - posted c n"
proof -
  let ?iid = "fl_instrument_id f" and ?cur = "sp_settlement_currency sp"
  from assms(1,2) obtain rs where rs: "fill_postings E c l sp f = Inr rs"
    and ps: "map_res id (rs @ quantity_postings E c ?cur ?iid (signed_quantity E f) (- signed_quantity E f)
        (scale (fl_quantity f))) = Inr (tx_postings tx)"
    by (auto simp: fill_transaction_def spec_of_def of_option_def make_transaction_def split: if_splits)
  from rs assms(2-4) n obtain average allocated where
    cash: "cash_asset_postings E c l ?cur ?iid (fl_side f) (decimal E (fl_quantity f)) (decimal E (sp_contract_multiplier sp)) n
       (held l ?iid) average allocated = Inr rs"
    by (auto simp: fill_postings_def Let_def derivative_instrument_def)
  from ps obtain p1 p2 where p: "map_res id rs = Inr p1" "tx_postings tx = p1 @ p2"
    "map_res id (quantity_postings E c ?cur ?iid (signed_quantity E f) (- signed_quantity E f) (scale (fl_quantity f))) = Inr p2"
    by (auto simp: map_res_append)
  have u: "signed_quantity E f = of_int (units (fl_quantity f)) / 10 ^ scale (fl_quantity f)"
    using assms(5) by (simp add: signed_quantity_def decimal_value)
  from quantity_effects(1) [OF p(3) [unfolded u]] cash_asset_effect(2) [OF cash p(1) n(2)] p(2) assms(5)
  show ?thesis by simp
qed

lemma checked_buy_covers:
  assumes "check_fill E g l r f ord = Inr d" "rd_accepted d" "dget (gc_instruments g) (fl_instrument_id f) = Some sp"
    and "\<not> is_derivative sp" "fl_side f = BUY" "quote_or_settlement sp = sp_settlement_currency sp"
    and "\<forall>(k, cur, a, original) \<in> set (rg_cash_reservations r). 0 \<le> a"
    and "fee_rate_for E f sp = Inr rate" "0 \<le> rate" "exact_charge E c f sp rate"
  shows "decimal E (fl_quantity f) * decimal E (fl_price f) * decimal E (sp_contract_multiplier sp) * (1 + rate)
     \<le> cash_balance l (sp_settlement_currency sp)"
proof -
  define n where "n = decimal E (fl_quantity f) * decimal E (fl_price f) * decimal E (sp_contract_multiplier sp)"
  define rest where "rest = reserved_for E (rg_cash_reservations r) (sp_settlement_currency sp) (oi_idempotency_key (ord_intent ord))"
  have x: "fill_notional E f sp = n" "dadd E 1 rate = 1 + rate" "dmul E n (1 + rate) = n * (1 + rate)"
    using assms(10) by (simp_all add: exact_charge_def Let_def n_def)
  have "dadd E (dmul E n (dadd E 1 rate)) rest \<le> cash_balance l (sp_settlement_currency sp)"
    using assms(1-6,8,9) x(1)
    by (auto simp: check_fill_def need_spec_def dneed_def Let_def rest_def max_def not_less elim!: unlessE split: if_splits)
  moreover have "0 \<le> rest"
    unfolding rest_def reserved_for_def using assms(7) by (intro dsum_nonneg) fastforce
  moreover have "ctx_round (prec E) (n * (1 + rate)) = n * (1 + rate)"
    using x(3) by (simp add: dmul_def)
  ultimately show ?thesis using dadd_ge [of "n * (1 + rate)" rest] x by (simp flip: n_def)
qed

end

text \<open>
  C30: A purchase of a cash asset that the gate lets through is funded together with its fee:
  when the ledger has booked the fill, the cash left pays the fee, unless both the notional
  and the fee lie exactly half-way between two units of the money scale and round up; then
  at most one unit is missing.
\<close>

theorem checked_purchase_pays_its_fee:
  assumes "fixed_env E" "c = gc_ledger g" "ledger_inv E c l" "gc_money_scale g = lc_money_scale c"
    and "check_fill E g l r f ord = Inr d" "rd_accepted d"
    and "dget (gc_instruments g) (fl_instrument_id f) = Some sp" "dget (lc_instruments c) (fl_instrument_id f) = Some sp"
    and "\<not> is_derivative sp" "\<not> is_premium_asset sp" "fl_side f = BUY" "quote_or_settlement sp = sp_settlement_currency sp"
    and "\<forall>(k, cur, a, original) \<in> set (rg_cash_reservations r). 0 \<le> a"
    and "fee_rate_for E f sp = Inr rate" "0 \<le> rate" "exact_charge E c f sp rate"
    and "0 \<le> units (fl_price f)" "0 \<le> units (fl_quantity f)" "0 \<le> units (sp_contract_multiplier sp)"
    and "dget (lg_event_fingerprints l) (''fill_id:'' @ fl_fill_id f) = None"
    and "apply_with_trading_day E c (FillEvent f) day create l = (Inr snap, l')"
    and "fee_for E g l' r f = Inr (Some fee)"
  shows "decimal E (fee_amount fee) \<le> cash_balance l' (sp_settlement_currency sp) + 1 / 10 ^ lc_money_scale c
     \<and> (\<not> (money_tie c (fill_notional E f sp) \<and> money_tie c (fill_notional E f sp * rate)) \<longrightarrow>
          decimal E (fee_amount fee) \<le> cash_balance l' (sp_settlement_currency sp))"
proof -
  let ?cur = "sp_settlement_currency sp" and ?s = "10 ^ lc_money_scale c :: rat"
  define n where "n = decimal E (fl_quantity f) * decimal E (fl_price f) * decimal E (sp_contract_multiplier sp)"
  note x = assms(16) [unfolded exact_charge_def Let_def, folded n_def]
  have dec: "decimal E y = of_int (units y) / 10 ^ scale y" for y by (rule fixed_env.decimal_value [OF assms(1)])
  have n: "0 \<le> n" using assms(17-19) by (simp add: n_def dec)
  have covers: "n * (1 + rate) \<le> cash_balance l ?cur"
    using fixed_env.checked_buy_covers [OF assms(1) assms(5-7,9,11-16)] by (simp add: n_def)
  obtain tx where tx: "fill_transaction E c l f = Inr tx"
    and books: "lg_accounts l' = fold (account_add E) (tx_postings tx) (lg_accounts l)"
    by (rule apply_day_fill_books [OF assms(21,20)])
  have "cash_balance l' ?cur = cash_balance (l\<lparr>lg_accounts := fold (account_add E) (tx_postings tx) (lg_accounts l)\<rparr>) ?cur"
    by (simp add: cash_balance_def account_balance_def books)
  also have "\<dots> = cash_balance l ?cur - posted c n"
    using fixed_env.cash_asset_buy [OF assms(1) tx assms(8-11), of n] x n by (simp add: fixed_env.books_effect [OF assms(1)])
  finally have left: "cash_balance l' ?cur = cash_balance l ?cur - posted c n" .
  have grid: "money_grid c (cash_balance l ?cur)"
    using fixed_env.ledger_inv_money [OF assms(1,3)] by (simp add: money_accounts_def cash_balance_def)
  have "sp_asset_class sp \<noteq> FUTURE" using assms(9) by (auto simp: is_derivative_def)
  then obtain money where "fixed E (n * rate) (lc_money_scale c) (Some ROUND_HALF_EVEN) = Inr money" "fee_amount fee = money"
    using assms(4,7,14,22) x by (auto simp: fee_for_def fee_amount_for_def need_spec_def dneed_def Let_def split: if_splits option.splits)
  then have fee: "decimal E (fee_amount fee) = posted c (n * rate)"
    using fixed_env.fixed_half_even [OF assms(1)] by (auto simp: dec posted_def)
  have sum: "n + n * rate \<le> cash_balance l ?cur" using covers by (simp add: algebra_simps)
  show ?thesis
    using posted_pair(1) [OF sum grid] posted_pair(2) [OF sum grid] x by (auto simp: fee left)
qed

section \<open>Properties\<close>


text \<open>What the other orders hold, written out.\<close>

lemma reserved_for_sum:
  "reserved_for E table what key = dsum E [blocked. (k, w, blocked, original) \<leftarrow> table, w = what \<and> k \<noteq> key]"
proof -
  have "map (\<lambda>(_, _, amount, _). amount) (filter (\<lambda>(k, w, _, _). w = what \<and> k \<noteq> key) table)
      = [blocked. (k, w, blocked, original) \<leftarrow> table, w = what \<and> k \<noteq> key]"
    by (induction table) (auto split: prod.splits)
  then show ?thesis by (simp add: reserved_for_def)
qed

lemma reserved_margin_sum: "reserved_margin E table key = dsum E [blocked. (k, blocked, original) \<leftarrow> table, k \<noteq> key]"
proof -
  have "map (\<lambda>(_, amount, _). amount) (filter (\<lambda>(k, _, _). k \<noteq> key) table) = [blocked. (k, blocked, original) \<leftarrow> table, k \<noteq> key]"
    by (induction table) (auto split: prod.splits)
  then show ?thesis by (simp add: reserved_margin_def)
qed

text \<open>The requirement of an order, kind by kind.\<close>

lemma requirement_cases:
  assumes "reservation_requirement E c l i m sp = Inr (cash, margin, position)"
  obtains (purchase) price commission maker taker where "intent_price E i m = Some price"
      "\<not> is_derivative sp" "oi_side i = BUY" "metadata_decimal sp ''commission_rate'' False ''0'' = Inr commission"
      "metadata_decimal sp ''maker_fee_rate'' False ''0'' = Inr maker" "metadata_decimal sp ''taker_fee_rate'' False ''0'' = Inr taker"
      "cash = Some (quote_or_settlement sp, dmul E (order_notional E i price sp) (dadd E 1 (max (max commission maker) taker)))"
      "margin = 0" "position = None"
  | (delivery) price where "intent_price E i m = Some price" "if is_derivative sp then oi_reduce_only i else oi_side i = SELL"
      "cash = None" "margin = 0" "position = Some (oi_instrument_id i, decimal E (oi_quantity i))"
  | (margin) price rate where "intent_price E i m = Some price" "is_derivative sp" "\<not> oi_reduce_only i"
      "metadata_decimal sp ''initial_margin_rate'' True '''' = Inr rate"
      "convert_to_base E c l (dmul E (order_notional E i price sp) rate) (sp_settlement_currency sp) (me_available_at (ms_event m)) = Inr margin"
      "cash = None" "position = None"
proof (cases "intent_price E i m")
  case (Some price)
  note kinds = that [OF Some]
  show ?thesis
  proof (cases "is_derivative sp")
    case True
    with assms Some kinds(2,3) show ?thesis
      by (cases "oi_reduce_only i") (auto simp: reservation_requirement_def Let_def)
  next
    case False
    with assms Some kinds(1,2) show ?thesis
      by (cases "oi_side i") (auto simp: reservation_requirement_def Let_def)
  qed
qed (use assms in \<open>simp add: reservation_requirement_def\<close>)

text \<open>
  C32: An accepted order is covered on top of what every other open order holds.  A purchase of an
  asset that is paid in full needs its notional, at the price the order can reach, and the highest
  declared fee in cash; a sale, and a reduce-only order, needs its quantity among the units that
  are free (for an A-share those not acquired today); any other derivative order needs its
  initial margin in the base currency within the net asset value not yet bound as margin.  The
  requirement the decision carries is that very amount.
\<close>

theorem accepted_order_is_covered:
  assumes "check_intent E g l r i v as_of partial = Inr (d, q)" "rd_accepted d"
    and "dget (gc_instruments g) (oi_instrument_id i) = Some sp" "dget (rg_states r) (oi_instrument_id i) = Some m"
  shows "\<exists>price notional. intent_price E i m = Some price
     \<and> notional = dmul E (dmul E (decimal E (oi_quantity i)) price) (decimal E (sp_contract_multiplier sp))
     \<and> (\<not> is_derivative sp \<and> oi_side i = BUY \<longrightarrow> (\<exists>commission maker taker amount.
          metadata_decimal sp ''commission_rate'' False ''0'' = Inr commission
        \<and> metadata_decimal sp ''maker_fee_rate'' False ''0'' = Inr maker \<and> metadata_decimal sp ''taker_fee_rate'' False ''0'' = Inr taker
        \<and> amount = dmul E notional (dadd E 1 (max (max commission maker) taker))
        \<and> q = Some (Some (quote_or_settlement sp, amount), 0, None)
        \<and> dadd E amount (dsum E [blocked. (k, c, blocked, original) \<leftarrow> rg_cash_reservations r, c = quote_or_settlement sp \<and> k \<noteq> oi_idempotency_key i])
            \<le> view_cash v (quote_or_settlement sp)))
     \<and> ((if is_derivative sp then oi_reduce_only i else oi_side i = SELL) \<longrightarrow>
          q = Some (None, 0, Some (oi_instrument_id i, decimal E (oi_quantity i)))
        \<and> dadd E (decimal E (oi_quantity i))
            (dsum E [blocked. (k, x, blocked, original) \<leftarrow> rg_position_reservations r, x = oi_instrument_id i \<and> k \<noteq> oi_idempotency_key i])
            \<le> max 0 (if sp_asset_class sp \<in> {EQUITY, ETF} \<and> py_lower (sp_product_type sp) \<notin> {''us_equity'', ''us_etf''}
                then dsub E (dabs E (view_position v (oi_instrument_id i)))
                       (acquired_today E l (oi_instrument_id i) (me_trading_day (ms_event m)))
                else dabs E (view_position v (oi_instrument_id i))))
     \<and> (is_derivative sp \<and> \<not> oi_reduce_only i \<longrightarrow> (\<exists>rate margin. metadata_decimal sp ''initial_margin_rate'' True '''' = Inr rate
        \<and> convert_to_base E (gc_ledger g) l (dmul E notional rate) (sp_settlement_currency sp) (me_available_at (ms_event m)) = Inr margin
        \<and> q = Some (None, margin, None)
        \<and> (margin \<noteq> 0 \<longrightarrow> dadd E margin (dsum E [blocked. (k, blocked, original) \<leftarrow> rg_margin_reservations r, k \<noteq> oi_idempotency_key i])
            \<le> dsub E (rv_nav v) (rv_initial_margin v))))"
proof -
  obtain cash margin position where q: "q = Some (cash, margin, position)"
    and need: "reservation_requirement E (gc_ledger g) l i m sp = Inr (cash, margin, position)"
    and covered: "rd_accepted (check_reservations E l r i v m sp (cash, margin, position))"
    by (rule check_intent_acceptedE [OF assms(1,2)]) (use assms(3,4) in auto)
  note free = covered [unfolded check_reservations_accepted available_position_def Let_def]
  note sums = reserved_for_sum [symmetric] reserved_margin_sum [symmetric]
  from need show ?thesis
  proof (cases rule: requirement_cases)
    case (purchase price commission maker taker)
    note purchase = this
    have "dadd E (dmul E (order_notional E i price sp) (dadd E 1 (max (max commission maker) taker)))
        (reserved_for E (rg_cash_reservations r) (quote_or_settlement sp) (oi_idempotency_key i)) \<le> view_cash v (quote_or_settlement sp)"
      using free purchase(7) by blast
    with purchase q show ?thesis
      by (intro exI [of _ price] exI [of _ "order_notional E i price sp"]) (simp add: order_notional_def sums)
  next
    case (delivery price)
    note delivery = this
    have "dadd E (decimal E (oi_quantity i)) (reserved_for E (rg_position_reservations r) (oi_instrument_id i) (oi_idempotency_key i))
        \<le> max 0 (if sp_asset_class sp \<in> {EQUITY, ETF} \<and> py_lower (sp_product_type sp) \<notin> {''us_equity'', ''us_etf''}
                then dsub E (dabs E (view_position v (oi_instrument_id i)))
                       (acquired_today E l (oi_instrument_id i) (me_trading_day (ms_event m)))
                else dabs E (view_position v (oi_instrument_id i)))"
      using free delivery(5) by blast
    with delivery q show ?thesis
      by (intro exI [of _ price] exI [of _ "order_notional E i price sp"])
        (cases "is_derivative sp", simp_all add: order_notional_def sums)
  next
    case (margin price rate)
    note margin = this
    have "margin \<noteq> 0 \<longrightarrow> dadd E margin (reserved_margin E (rg_margin_reservations r) (oi_idempotency_key i))
            \<le> dsub E (rv_nav v) (rv_initial_margin v)"
      using free by blast
    with margin q show ?thesis
      by (intro exI [of _ price] exI [of _ "order_notional E i price sp"]) (simp add: order_notional_def sums)
  qed
qed

text \<open>
  The status resolved from complete A-share flags lets an order through exactly when the
  security is listed, not delisted, tradable and not at the limit of the order's side; a
  missing flag blocks both sides, and contradictory flags are refused.
\<close>

theorem a_share_status_blocks_unless_tradable:
  "(\<exists>s. resolve_a_share_replay_status listed delisted tradable up down = Inr s \<and> status_refusal s sd = None)
     \<longleftrightarrow> listed = Some True \<and> delisted = Some False \<and> tradable = Some True
       \<and> (\<exists>u w. up = Some u \<and> down = Some w \<and> \<not> (u \<and> w) \<and> \<not> (if sd = BUY then u else w))"
  by (cases listed; cases delisted; cases tradable; cases up; cases down; cases sd)
    (auto simp: resolve_a_share_replay_status_def status_refusal_def)

section \<open>Settled cash while the journal is streamed\<close>

lemma apply_replay_event_streams:
  assumes "apply_replay_event E c ev day l = (Inr u, l')" "lg_artifact_sink l \<noteq> None"
  shows "lg_artifact_sink l' \<noteq> None \<and> lg_transactions l' = lg_transactions l"
proof -
  obtain snap l1 where a: "apply_event E c ev day False False True l = (Inr snap, l1)"
    and l': "l' = record_replay_fact c (LedgerFact ev day) (length (lg_transactions l)) l1"
    using assms(1) by (auto simp: apply_replay_event_def bind_Inr split: if_splits)
  from a have "lg_artifact_sink l1 \<noteq> None \<and> lg_transactions l1 = lg_transactions l"
  proof (cases rule: apply_event_InrE)
    case (new prepared t)
    from new(7) obtain k m where p: "if no_effect_action ev t then k = l else post E c False t l = (Inr (), k)"
      and st: "event_state E ev day prepared k = (Inr (), m)"
      and r: "release_fill c ev (note_event E c ev True t m) = (Inr (), l1)"
      by (rule commit_event_InrE)
    have "lg_artifact_sink k \<noteq> None \<and> lg_transactions k = lg_transactions l"
      using p assms(2) by (auto split: if_splits elim!: post_Inr)
    then show ?thesis
      using event_state_books [OF st] release_fill_books [OF r] by (auto simp: same_books_def note_event_def)
  qed simp
  then show ?thesis
    by (simp add: l' record_replay_fact_def next_replay_sequence_def split: prod.splits)
qed

definition replay_fills :: "env \<Rightarrow> ledger_config \<Rightarrow> (fill \<times> day) list \<Rightarrow> ledger \<Rightarrow> ledger res" where
  "replay_fills E c fills l = fold_res (\<lambda>l (f, day).
     and_then (outcome (apply_replay_event E c (FillEvent f) (Some day)) l) (\<lambda>(_, l'). Inr l')) l fills"

text \<open>
  C31: While the journal is streamed the settled cash of a US account is its whole cash: the
  sales whose proceeds are still to settle are looked up in the list of transactions, which
  streaming keeps empty, so the rule against unsettled purchases does not bind.
\<close>

theorem streamed_sales_count_as_settled:
  assumes "start_ledger_stream c l0 = (Inr (), l1)" "replay_fills E c fills l1 = Inr l"
    and "settled_cash E u c l t = Inr x"
  shows "x = ctx_round (prec E) (cash_balance l ''USD'')"
proof -
  have start: "lg_artifact_sink l1 \<noteq> None \<and> lg_transactions l1 = []"
    using assms(1) by (auto simp: start_ledger_stream_def bind_Inr split: if_splits)
  have "lg_artifact_sink l \<noteq> None \<and> lg_transactions l = []"
  proof (rule fold_res_invariant [OF assms(2) [unfolded replay_fills_def], where P = "\<lambda>l. lg_artifact_sink l \<noteq> None \<and> lg_transactions l = []"])
    show "lg_artifact_sink l1 \<noteq> None \<and> lg_transactions l1 = []" by (rule start)
  next
    fix s x s'
    assume P: "lg_artifact_sink s \<noteq> None \<and> lg_transactions s = []" and step: "(case x of (f, day) \<Rightarrow>
       and_then (outcome (apply_replay_event E c (FillEvent f) (Some day)) s) (\<lambda>(_, l'). Inr l')) = Inr s'"
    from step obtain f day where "apply_replay_event E c (FillEvent f) (Some day) s = (Inr (), s')"
      by (cases x) (auto simp: outcome_Inr)
    from apply_replay_event_streams [OF this] P show "lg_artifact_sink s' \<noteq> None \<and> lg_transactions s' = []" by simp
  qed
  with assms(3) show ?thesis by (auto simp: settled_cash_def dsub_def split: if_splits)
qed


section \<open>What the release of fills leaves\<close>

definition dust_order :: order where
  "dust_order = demo_order\<lparr>ord_intent := demo_intent\<lparr>oi_quantity := \<lparr>units = 3, scale = 0\<rparr>\<rparr>\<rparr>"

definition dust_fill :: "nat \<Rightarrow> fill" where
  "dust_fill n = \<lparr>fl_fill_id = replicate n CHR ''f'', fl_order_id = ''o'', fl_account_id = ''acc'', fl_strategy_id = ''s'',
     fl_instrument_id = ''X'', fl_side = BUY, fl_quantity = \<lparr>units = 1, scale = 0\<rparr>,
     fl_price = \<lparr>units = 33, scale = 0\<rparr>, fl_event_time = 7, fl_liquidity_role = TAKER, fl_venue_trade_id = None\<rparr>"

lemma third: "ctx_round 28 (1 / 3) = 3333333333333333333333333333 / 10000000000000000000000000000"
  by code_simp

lemma share: "ctx_round 28 (3333333333333333333333333333 / 100000000000000000000000000) = 3333333333333333333333333333 / 100000000000000000000000000"
  by code_simp

lemma rests:
  "ctx_round 28 (6666666666666666666666666667 / 100000000000000000000000000) = 6666666666666666666666666667 / 100000000000000000000000000"
  "ctx_round 28 (1666666666666666666666666667 / 50000000000000000000000000) = 1666666666666666666666666667 / 50000000000000000000000000"
  "ctx_round 28 (1 / 100000000000000000000000000) = 1 / 100000000000000000000000000"
  by code_simp+

lemma dust_step:
  "gate_release_fill std_env (dust_fill n) dust_order (gate_reset\<lparr>rg_cash_reservations := [(''k'', ''USD'', a, 100)]\<rparr>)
     = Inr (gate_reset\<lparr>rg_cash_reservations :=
         (let rest = ctx_round 28 (a - 3333333333333333333333333333 / 100000000000000000000000000) in
          if rest \<le> 0 then [] else [(''k'', ''USD'', rest, 100)])\<rparr>)"
proof -
  have p: "prec std_env = 28" by (simp add: std_env_def)
  have "ddiv std_env (decimal std_env (fl_quantity (dust_fill n))) (decimal std_env (oi_quantity (ord_intent dust_order)))
     = Inr (3333333333333333333333333333 / 10000000000000000000000000000)"
    by (simp add: std.decimal_value dust_fill_def dust_order_def demo_intent_def ddiv_def p third)
  moreover have "oi_idempotency_key (ord_intent dust_order) = ''k''"
    by (simp add: dust_order_def demo_intent_def)
  ultimately show ?thesis
    by (simp add: gate_release_fill_def give_back_def gate_reset_def dmul_def dsub_def share Let_def p)
qed

text \<open>
  An order of three units that is filled unit by unit keeps a reservation: a third is
  rounded to the 28 digits of the context, so the three shares do not add up to the amount
  reserved, and a remainder that is positive is kept under the key of the filled order.
\<close>

theorem filled_order_keeps_a_reservation:
  "fold_res (\<lambda>r n. gate_release_fill std_env (dust_fill n) dust_order r)
      (gate_reset\<lparr>rg_cash_reservations := [(''k'', ''USD'', 100, 100)]\<rparr>) [1, 2, 3]
     = Inr (gate_reset\<lparr>rg_cash_reservations := [(''k'', ''USD'', 1 / 10 ^ 26, 100)]\<rparr>)"
  by (simp add: dust_step rests)

end
