(* ===== verification/Risk_Demo.thy ===== *)
theory Risk_Demo
  imports Risk_Props Ledger_Demo
begin

text \<open>The properties of the risk gate on an account that trades one A-share in lots of one.\<close>

definition demo_share_spec :: instrument_spec where
  "demo_share_spec = demo_spec\<lparr>sp_metadata := [(''lot_size'', ''1''), (''commission_rate'', ''0.01''), (''stamp_duty_rate'', ''0.001'')]\<rparr>"

definition demo_share_config :: ledger_config where
  "demo_share_config = demo_ledger_config\<lparr>lc_instruments := [(''X'', demo_share_spec)]\<rparr>"

definition demo_share_ledger :: ledger where
  "demo_share_ledger = (case ledger_reset ledger_env demo_share_config None of Inr l \<Rightarrow> l | Inl e \<Rightarrow> blank_ledger demo_share_config 0)"

definition demo_calendar :: us_calendar where
  "demo_calendar = \<lparr>uc_utc = Inr, uc_new_york_date = utc_date, uc_settlement_session = (\<lambda>day. Inr (day @ ''+1''))\<rparr>"

definition demo_gate_config :: gate_config where
  "demo_gate_config = \<lparr>gc_instruments = [(''X'', demo_share_spec)], gc_ledger = demo_share_config, gc_money_scale = 2,
     gc_policies = [], gc_calendar = demo_calendar, gc_decimal_text = (\<lambda>f x. '''')\<rparr>"

definition demo_gate :: risk_gate where
  "demo_gate = gate_reset\<lparr>rg_states := [(''X'', \<lparr>ms_event = demo_market_event (BarEvent demo_bar),
     ms_reference_price = Some \<lparr>units = 10000, scale = 2\<rparr>, ms_status = ''open''\<rparr>)]\<rparr>"

lemma demo_gate_observed:
  "gate_observe ledger_env demo_gate_config (demo_market_event (BarEvent demo_bar)) gate_reset = Inr demo_gate"
  by (simp add: gate_observe_def observed_reference_def observed_status_def demo_gate_def gate_reset_def demo_market_event_def
      demo_bar_def Let_def demo_gate_config_def demo_share_spec_def demo_spec_def)

definition demo_view :: risk_view where
  "demo_view = \<lparr>rv_account_id = ''acc'', rv_cash_balances = [(''USD'', 1010)], rv_positions = [], rv_nav = 0, rv_initial_margin = 0\<rparr>"

definition demo_accepts :: "(risk_decision \<times> requirement option) res \<Rightarrow> bool" where
  "demo_accepts x = (case x of Inr (d, q) \<Rightarrow> rd_accepted d | Inl e \<Rightarrow> False)"

definition demo_share_bought :: "account_snapshot option res \<times> ledger" where
  "demo_share_bought = apply_with_trading_day ledger_env demo_share_config (FillEvent (demo_trade ''f1'' BUY 4)) 1 False demo_share_ledger"

definition demo_charge :: fee where
  "demo_charge = \<lparr>fee_fee_id = ''fee-0'', fee_fill_id = ''f1'', fee_account_id = ''acc'', fee_amount = \<lparr>units = 400, scale = 2\<rparr>,
     fee_currency = ''USD'', fee_event_time = 7, fee_fee_type = ''taker''\<rparr>"

text \<open>Four units bought and three sold, once streamed and once not.\<close>

definition demo_stream_start :: ledger where
  "demo_stream_start = snd (start_ledger_stream demo_ledger_config demo_ledger)"

definition demo_trades :: "(fill \<times> day) list" where
  "demo_trades = [(demo_trade ''f1'' BUY 4, 1), (demo_trade ''f2'' SELL 3, 1)]"

definition demo_after :: "ledger \<Rightarrow> ledger" where
  "demo_after l = (case replay_fills ledger_env demo_ledger_config demo_trades l of Inr l' \<Rightarrow> l' | Inl e \<Rightarrow> l)"

text \<open>The evaluations, together: the code of the definitions is prepared once per lemma.\<close>

lemma risk_demo_facts:
  "demo_accepts (check_intent ledger_env demo_gate_config demo_share_ledger demo_gate demo_intent demo_view 5 False)" (is ?p1)
  "rule_of demo_share_spec = Inr A_SHARE" (is ?p2)
  "returns (ledger_reset ledger_env demo_share_config None)" (is ?p3)
  "check_fill ledger_env demo_gate_config demo_share_ledger demo_gate (demo_trade ''f1'' BUY 4) demo_order = Inr ACCEPTED_DECISION" (is ?p4)
  "fee_for ledger_env demo_gate_config (snd demo_share_bought) demo_gate (demo_trade ''f1'' BUY 4) = Inr (Some demo_charge)" (is ?p5)
  "answers (fst demo_share_bought)" (is ?p6)
  "dget (lg_event_fingerprints demo_share_ledger) (''fill_id:'' @ fl_fill_id (demo_trade ''f1'' BUY 4)) = None" (is ?p7)
  "\<not> is_derivative demo_share_spec" (is ?p8)
  "\<not> is_premium_asset demo_share_spec" (is ?p9)
  "quote_or_settlement demo_share_spec = sp_settlement_currency demo_share_spec" (is ?p10)
  "fee_rate_for ledger_env (demo_trade ''f1'' BUY 4) demo_share_spec = Inr (1 / 100)" (is ?p11)
  "exact_charge ledger_env demo_share_config (demo_trade ''f1'' BUY 4) demo_share_spec (1 / 100)" (is ?p12)
  "\<not> money_tie demo_share_config (fill_notional ledger_env (demo_trade ''f1'' BUY 4) demo_share_spec)" (is ?p13)
proof -
  have "?p1 \<and> ?p2 \<and> ?p3 \<and> ?p4 \<and> ?p5 \<and> ?p6 \<and> ?p7 \<and> ?p8 \<and> ?p9 \<and> ?p10 \<and> ?p11 \<and> ?p12 \<and> ?p13" by code_simp
  then show ?p1 ?p2 ?p3 ?p4 ?p5 ?p6 ?p7 ?p8 ?p9 ?p10 ?p11 ?p12 ?p13 by blast+
qed

lemma stream_demo_facts:
  "returns (fst (start_ledger_stream demo_ledger_config demo_ledger))" (is ?p1)
  "returns (replay_fills ledger_env demo_ledger_config demo_trades demo_stream_start)" (is ?p2)
  "returns (settled_cash ledger_env demo_calendar demo_ledger_config (demo_after demo_stream_start) 7)" (is ?p3)
  "ctx_round (prec ledger_env) (cash_balance (demo_after demo_stream_start) ''USD'') = 900" (is ?p4)
  "settled_cash ledger_env demo_calendar demo_ledger_config (demo_after demo_ledger) 7 = Inr 600" (is ?p5)
proof -
  have "?p1 \<and> ?p2 \<and> ?p3 \<and> ?p4 \<and> ?p5" by code_simp
  then show ?p1 ?p2 ?p3 ?p4 ?p5 by blast+
qed

lemma demo_checked:
  obtains q where
    "check_intent ledger_env demo_gate_config demo_share_ledger demo_gate demo_intent demo_view 5 False = Inr (ACCEPTED_DECISION, q)"
proof -
  let ?check = "check_intent ledger_env demo_gate_config demo_share_ledger demo_gate demo_intent demo_view 5 False"
  obtain d q where c: "?check = Inr (d, q)" "rd_accepted d" using risk_demo_facts(1) by (auto simp: demo_accepts_def split: sum.splits)
  from c(1) c(2) have "d = ACCEPTED_DECISION"
    by (elim check_intent_acceptedE) (simp_all add: check_order_policies_def check_policies_def demo_gate_config_def)
  with c(1) that show thesis by blast
qed


theorem accepted_order_is_covered_witness:
  "\<exists>amount. check_intent ledger_env demo_gate_config demo_share_ledger demo_gate demo_intent demo_view 5 False
       = Inr (ACCEPTED_DECISION, Some (Some (''USD'', amount), 0, None)) \<and> dadd ledger_env amount 0 \<le> 1010"
proof -
  obtain q where c: "check_intent ledger_env demo_gate_config demo_share_ledger demo_gate demo_intent demo_view 5 False
      = Inr (ACCEPTED_DECISION, q)" by (rule demo_checked)
  have spec: "dget (gc_instruments demo_gate_config) (oi_instrument_id demo_intent) = Some demo_share_spec"
    "oi_side demo_intent = BUY" "\<not> is_derivative demo_share_spec" "quote_or_settlement demo_share_spec = ''USD''"
    "view_cash demo_view ''USD'' = 1010" "rg_cash_reservations demo_gate = []"
    using risk_demo_facts(8) by (simp_all add: demo_gate_config_def demo_intent_def quote_or_settlement_def demo_share_spec_def
        demo_spec_def view_cash_def demo_view_def demo_gate_def gate_reset_def dget_or_def)
  have state: "dget (rg_states demo_gate) (oi_instrument_id demo_intent) = Some (snd (hd (rg_states demo_gate)))"
    by (simp add: demo_gate_def demo_intent_def)
  from accepted_order_is_covered [OF c refused_not_accepted(2) spec(1) state] spec c
  show ?thesis by (auto simp: dsum_def)
qed

theorem checked_purchase_pays_its_fee_witness:
  "decimal ledger_env (fee_amount demo_charge) \<le> cash_balance (snd demo_share_bought) ''USD''"
proof -
  let ?f = "demo_trade ''f1'' BUY 4"
  have reset: "ledger_reset ledger_env demo_share_config None = Inr demo_share_ledger"
    using risk_demo_facts(3) by (auto simp: demo_share_ledger_def returns_iff)
  note inv = lenv.ledger_reset_inv [OF reset]
  note check = risk_demo_facts(4) refused_not_accepted(2)
  note fee = risk_demo_facts(5)
  from risk_demo_facts(6) have applied: "apply_with_trading_day ledger_env demo_share_config (FillEvent ?f) 1 False demo_share_ledger
      = (Inr None, snd demo_share_bought)"
    by (simp add: answers_iff demo_share_bought_def prod_eq_iff)
  note new = risk_demo_facts(7)
  have spec: "dget (gc_instruments demo_gate_config) (fl_instrument_id ?f) = Some demo_share_spec"
    "dget (lc_instruments demo_share_config) (fl_instrument_id ?f) = Some demo_share_spec"
    by (simp_all add: demo_gate_config_def demo_trade_def demo_share_config_def)
  note kind = risk_demo_facts(8-10)
  note charge = risk_demo_facts(11,12)
  note no_tie = risk_demo_facts(13)
  show ?thesis
    using checked_purchase_pays_its_fee [OF lenv.fixed_env_axioms _ inv _ check spec kind(1,2) _ kind(3) _ charge(1) _ charge(2)
        _ _ _ new applied fee] no_tie
    by (simp add: demo_gate_config_def demo_share_config_def demo_ledger_config_def demo_trade_def demo_gate_def gate_reset_def
        demo_share_spec_def demo_spec_def)
qed

theorem streamed_sales_count_as_settled_witness:
  "settled_cash ledger_env demo_calendar demo_ledger_config (demo_after demo_stream_start) 7 = Inr 900
     \<and> settled_cash ledger_env demo_calendar demo_ledger_config (demo_after demo_ledger) 7 = Inr 600"
proof -
  have "start_ledger_stream demo_ledger_config demo_ledger = (Inr (), demo_stream_start)"
    using stream_demo_facts(1) by (auto simp: demo_stream_start_def prod_eq_iff returns_iff)
  moreover have "replay_fills ledger_env demo_ledger_config demo_trades demo_stream_start = Inr (demo_after demo_stream_start)"
    using stream_demo_facts(2) by (auto simp: demo_after_def returns_iff)
  moreover obtain x where "settled_cash ledger_env demo_calendar demo_ledger_config (demo_after demo_stream_start) 7 = Inr x"
    using stream_demo_facts(3) by (auto simp: returns_iff)
  ultimately show ?thesis using streamed_sales_count_as_settled stream_demo_facts(4,5) by metis
qed

end
