(* ===== verification/Engine.thy ===== *)
theory Engine
  imports Risk_Gate
begin

text \<open>
  \<open>engine.py\<close>: the replay of a stream of market events, which drives the broker, the gate, the
  ledger, the matching model and the strategy.  Every exception inside a replay ends it and
  the engine is restored from the checkpoint taken at its start, so a step of the replay either
  raises or returns the next state, and a loop that stops keeps the last state it reached, over
  which the checkpoint is restored component by component.  The strategy is
  the user's and a parameter, as are the hash of the journal and the artifact sink.  The gate,
  ledger and broker are the built-in ones, for which the engine takes its direct paths.
\<close>

section \<open>Matching models\<close>

datatype matching = BarMatching bar_model | BboMatching bbo_model | L2Matching l2_model

definition matching_match :: "env \<Rightarrow> matching \<Rightarrow> market_event \<Rightarrow> order list \<Rightarrow> (matching \<times> fill list) res" where
  "matching_match E m ev orders = (case m of
       BarMatching b \<Rightarrow> and_then (bar_match E b ev orders) (\<lambda>(b', fs). Inr (BarMatching b', fs))
     | BboMatching b \<Rightarrow> and_then (bbo_match E b ev orders) (\<lambda>(b', fs). Inr (BboMatching b', fs))
     | L2Matching b \<Rightarrow> and_then (l2_match E b ev orders) (\<lambda>(b', fs). Inr (L2Matching b', fs)))"

definition matching_config :: "matching \<Rightarrow> model_config" where
  "matching_config m = (case m of BarMatching b \<Rightarrow> bm_config b | BboMatching b \<Rightarrow> bbo_config b | L2Matching b \<Rightarrow> l2_config b)"

definition matching_reset :: "matching \<Rightarrow> matching" where
  "matching_reset m = (case m of BarMatching b \<Rightarrow> BarMatching (bar_reset b) | BboMatching b \<Rightarrow> BboMatching (bbo_reset b)
     | L2Matching b \<Rightarrow> L2Matching (l2_reset (l2_config b)))"

text \<open>A bar model without stop-limit orders changes no state, so it is not checkpointed.\<close>

definition checkpointed :: "matching \<Rightarrow> order list \<Rightarrow> bool" where
  "checkpointed m orders = (case m of BarMatching b \<Rightarrow> bar_checkpoint_required orders | _ \<Rightarrow> True)"

section \<open>Configuration and state\<close>

text \<open>A corporate action is a market event that carries the action.\<close>

datatype replay_event = MarketData market_event | CorporateAction market_event corporate_action

fun header :: "replay_event \<Rightarrow> market_event" where
  "header (MarketData ev) = ev"
| "header (CorporateAction ev a) = ev"

record run_artifacts =
  ra_market_events :: "replay_event list"
  ra_orders :: "order list"
  ra_order_events :: "order_event list"
  ra_fills :: "fill list"
  ra_fees :: "fee list"
  ra_settlements :: "settlement list"
  ra_ledger_transactions :: "ledger_transaction list"
  ra_risk_events :: "string list"

record run_result =
  rr_run_id :: string
  rr_seed :: int
  rr_event_count :: int
  rr_order_count :: int
  rr_fill_count :: int
  rr_event_sha256 :: string
  rr_fill_sha256 :: string
  rr_ledger_sha256 :: string

text \<open>
  \<open>ec_begin_replay\<close> resets the strategy and gives it a fresh context, \<open>ec_on_event\<close> is the
  callback with the seed, \<open>ec_journal_sha256\<close> hashes the journal.  Of the stored artifacts the
  engine keeps the counters and hashes it handed to the sink; the files are not modelled.
\<close>

record 'st engine_config =
  ec_run_id :: string
  ec_account_id :: string
  ec_strategy_id :: string
  ec_gate :: gate_config
  ec_begin_replay :: "'st \<Rightarrow> 'st"
  ec_on_event :: "int \<Rightarrow> 'st \<Rightarrow> replay_event \<Rightarrow> order_intent list res \<times> 'st"
  ec_journal_sha256 :: "ledger \<Rightarrow> string res"

record 'st engine =
  en_broker :: broker_state
  en_gate :: risk_gate
  en_ledger :: ledger
  en_matching :: matching
  en_strategy :: 'st
  en_artifacts :: "(run_artifacts \<times> run_result) option"
  en_stored_artifacts :: "run_result option"

text \<open>
  The private attributes of a matching model, those that begin with an underscore, are what its
  \<open>capture_state\<close> copies and \<open>restore_state\<close> puts back; configuration and parameters stay.
\<close>

datatype matching_private =
    BarPrivate "string list"
  | BboPrivate "(string, quote) dict" "string list"
  | L2Private "(string, book) dict" "(string, book) dict" "(string, rat) dict" "(string, queue_key) dict"
      "(string, queue_rank) dict" "(string, rat) dict" "string list" "(string, instant) dict"

definition matching_capture :: "matching \<Rightarrow> matching_private" where
  "matching_capture m = (case m of
       BarMatching b \<Rightarrow> BarPrivate (bm_activated_stop_limits b)
     | BboMatching b \<Rightarrow> BboPrivate (bbo_quotes b) (bbo_triggered_stops b)
     | L2Matching b \<Rightarrow> L2Private (l2_books b) (l2_liquidity_books b) (l2_queue_ahead b) (l2_queue_keys b)
         (l2_queue_priority b) (l2_queue_remaining b) (l2_triggered_stops b) (l2_stop_triggered_at b))"

fun matching_restore :: "matching_private \<Rightarrow> matching \<Rightarrow> matching" where
  "matching_restore (BarPrivate stops) (BarMatching b) = BarMatching (b\<lparr>bm_activated_stop_limits := stops\<rparr>)"
| "matching_restore (BboPrivate quotes stops) (BboMatching b) = BboMatching (b\<lparr>bbo_quotes := quotes, bbo_triggered_stops := stops\<rparr>)"
| "matching_restore (L2Private books liquidity ahead keys priority remaining stops stopped_at) (L2Matching b) =
     L2Matching (b\<lparr>l2_books := books, l2_liquidity_books := liquidity, l2_queue_ahead := ahead, l2_queue_keys := keys,
       l2_queue_priority := priority, l2_queue_remaining := remaining, l2_triggered_stops := stops,
       l2_stop_triggered_at := stopped_at\<rparr>)"
| "matching_restore saved m = m"

record 'st engine_checkpoint =
  ck_broker :: broker_checkpoint
  ck_ledger :: ledger_checkpoint
  ck_gate :: gate_checkpoint
  ck_matching :: matching_private
  ck_strategy :: 'st
  ck_artifacts :: "(run_artifacts \<times> run_result) option"
  ck_stored_artifacts :: "run_result option"

definition engine_capture :: "'st engine \<Rightarrow> 'st engine_checkpoint" where
  "engine_capture en = \<lparr>ck_broker = capture_state (en_broker en), ck_ledger = capture_ledger_state (en_ledger en),
     ck_gate = gate_capture_state (en_gate en), ck_matching = matching_capture (en_matching en),
     ck_strategy = en_strategy en, ck_artifacts = en_artifacts en, ck_stored_artifacts = en_stored_artifacts en\<rparr>"

definition engine_restore :: "'st engine_checkpoint \<Rightarrow> 'st engine \<Rightarrow> 'st engine" where
  "engine_restore saved en = en\<lparr>en_broker := restore_captured (ck_broker saved) (en_broker en),
     en_ledger := restore_captured_state (ck_ledger saved) (en_ledger en),
     en_gate := gate_restore_state (ck_gate saved) (en_gate en),
     en_matching := matching_restore (ck_matching saved) (en_matching en), en_strategy := ck_strategy saved,
     en_artifacts := ck_artifacts saved, en_stored_artifacts := ck_stored_artifacts saved\<rparr>"

text \<open>The facts one replay collects, and whether they go to a sink.\<close>

record run_log =
  rl_streaming :: bool
  rl_fills :: "fill list"
  rl_fees :: "fee list"
  rl_settlements :: "settlement list"
  rl_risk_events :: "string list"
  rl_seen_fill_ids :: "string list"

type_synonym 'st run = "'st engine \<times> run_log"

definition mk_engine_config :: "'st engine_config \<Rightarrow> 'st engine_config res" where
  "mk_engine_config k =
     (if py_strip (ec_run_id k) = '''' \<or> py_strip (ec_account_id k) = '''' \<or> py_strip (ec_strategy_id k) = ''''
      then raise ''run_id, account_id and strategy_id are required''
      else if ec_account_id k \<noteq> lc_account_id (gc_ledger (ec_gate k)) then raise ''engine account differs from ledger account''
      else Inr k)"

definition engine_ledger :: "'st engine_config \<Rightarrow> ledger_config" where
  "engine_ledger k = gc_ledger (ec_gate k)"

section \<open>The order of events\<close>

definition event_sort_key ::
  "replay_event \<Rightarrow> instant \<times> instant \<times> string \<times> string \<times> string \<times> int \<times> string" where
  "event_sort_key re = (let ev = header re in
     (me_available_at ev, me_event_time ev, me_source ev, me_instrument_id ev, me_session_id ev, me_sequence ev, me_event_id ev))"

definition event_id :: "replay_event \<Rightarrow> string" where
  "event_id re = me_event_id (header re)"

definition validated_events :: "replay_event list \<Rightarrow> replay_event list res" where
  "validated_events records = (if distinct (map event_id records) then Inr (sort_key event_sort_key records)
     else raise ''duplicate MarketEvent event_id'')"

fun strictly_chronological :: "instant option \<Rightarrow> replay_event list list \<Rightarrow> replay_event list list res" where
  "strictly_chronological previous [] = Inr []"
| "strictly_chronological previous (segment # rest) =
     and_then (validated_events segment) (\<lambda>events.
     if events = [] \<or> (case previous of None \<Rightarrow> False | Some t \<Rightarrow> me_available_at (header (hd events)) \<le> t)
     then raise ''continuous segments must be nonempty and strictly chronological''
     else and_then (strictly_chronological (Some (me_available_at (header (last events)))) rest) (\<lambda>ss.
       Inr (events # ss)))"

section \<open>Steps that close orders\<close>

definition colon :: "string list \<Rightarrow> string" where
  "colon parts = concat (map (\<lambda>s. s @ '':'') (butlast parts)) @ (if parts = [] then '''' else last parts)"

text \<open>Expire an open order and give its reservations back.\<close>

definition expire_and_release ::
  "env \<Rightarrow> string \<Rightarrow> instant \<Rightarrow> string \<Rightarrow> order \<Rightarrow> 'st engine \<Rightarrow> 'st engine res" where
  "expire_and_release E oid time reason ord en =
     and_then (expire E (en_broker en) oid time reason) (\<lambda>(b, _).
       Inr (en\<lparr>en_broker := b, en_gate := release_order ord (en_gate en)\<rparr>))"

definition log_risk :: "string list \<Rightarrow> run_log \<Rightarrow> run_log" where
  "log_risk parts facts = facts\<lparr>rl_risk_events := rl_risk_events facts @ [colon parts]\<rparr>"

definition release_expired :: "env \<Rightarrow> 'st engine \<Rightarrow> order_event \<Rightarrow> 'st engine res" where
  "release_expired E en expiry = and_then (require_order E (en_broker en) (oe_order_id expiry)) (\<lambda>ord.
     Inr (en\<lparr>en_gate := release_order ord (en_gate en)\<rparr>))"

definition expire_day :: "env \<Rightarrow> market_event \<Rightarrow> 'st engine \<Rightarrow> 'st engine res" where
  "expire_day E ev en =
     and_then (expire_day_orders E (en_broker en) (me_trading_day ev) (me_available_at ev)) (\<lambda>(b, expiries).
       fold_res (release_expired E) (en\<lparr>en_broker := b\<rparr>) expiries)"

section \<open>What the event does to gate and ledger\<close>

definition apply_to_ledger :: "env \<Rightarrow> 'st engine_config \<Rightarrow> ledger_event \<Rightarrow> 'st engine \<Rightarrow> 'st engine res" where
  "apply_to_ledger E k ev en =
     and_then (outcome (apply_ledger E (engine_ledger k) ev False) (en_ledger en)) (\<lambda>(_, l). Inr (en\<lparr>en_ledger := l\<rparr>))"

definition observe_event :: "env \<Rightarrow> 'st engine_config \<Rightarrow> market_event \<Rightarrow> 'st engine \<Rightarrow> 'st engine res" where
  "observe_event E k ev en =
     and_then (gate_observe E (ec_gate k) ev (en_gate en)) (\<lambda>r.
     and_then (outcome (observe_market E (engine_ledger k) ev False True) (en_ledger en)) (\<lambda>(_, l).
       Inr (en\<lparr>en_gate := r, en_ledger := l\<rparr>)))"

definition book_caused_event :: "env \<Rightarrow> 'st engine_config \<Rightarrow> replay_event \<Rightarrow> 'st run \<Rightarrow> 'st run res" where
  "book_caused_event E k re s = (case s of (en, facts) \<Rightarrow> (case re of
       CorporateAction ev a \<Rightarrow> and_then (apply_to_ledger E k (ActionEvent a) en) (\<lambda>en'. Inr (en', facts))
     | MarketData ev \<Rightarrow> (case me_body ev of
           FundingRateEvent rate \<Rightarrow>
             and_then (funding_from_market E (engine_ledger k) (en_ledger en) ev rate) (\<lambda>funding.
             case funding of None \<Rightarrow> Inr s
             | Some fu \<Rightarrow> and_then (apply_to_ledger E k (FundingEvent fu) en) (\<lambda>en'. Inr (en', facts)))
         | StatusEvent status \<Rightarrow>
             and_then (settlement_from_market E (engine_ledger k) (en_ledger en) ev status) (\<lambda>settlement.
             case settlement of None \<Rightarrow> Inr s
             | Some st \<Rightarrow> and_then (apply_to_ledger E k (SettlementEvent st) en) (\<lambda>en'.
                 Inr (en', facts\<lparr>rl_settlements := rl_settlements facts @ [st]\<rparr>)))
         | _ \<Rightarrow> Inr s)))"

section \<open>The check of the open orders\<close>

definition recheck_order :: "env \<Rightarrow> 'st engine_config \<Rightarrow> market_event \<Rightarrow> 'st run \<Rightarrow> order \<Rightarrow> 'st run res" where
  "recheck_order E k ev s ord = (case s of (en, facts) \<Rightarrow>
     and_then (check_open_order_current E (ec_gate k) (en_ledger en) (en_gate en) ord (me_available_at ev)) (\<lambda>d.
     if rd_accepted d then Inr s
     else and_then (expire_and_release E (ord_order_id ord) (me_available_at ev) (rd_code d @ '': '' @ rd_message d) ord en) (\<lambda>en'.
       Inr (en', log_risk [ord_order_id ord, rd_code d, rd_message d] facts))))"

definition recheck_open_orders :: "env \<Rightarrow> 'st engine_config \<Rightarrow> market_event \<Rightarrow> 'st run \<Rightarrow> 'st run res" where
  "recheck_open_orders E k ev s =
     and_then (open_orders (en_broker (fst s))) (\<lambda>ords. fold_res (recheck_order E k ev) s ords)"

section \<open>Matching and committing\<close>

fun validate_candidate_fill_ids :: "fill list \<Rightarrow> string list \<Rightarrow> string list \<Rightarrow> unit res" where
  "validate_candidate_fill_ids [] seen attempt = Inr ()"
| "validate_candidate_fill_ids (f # fs) seen attempt =
     (if fl_fill_id f \<in> set seen \<or> fl_fill_id f \<in> set attempt then raise ''duplicate fill_id''
      else validate_candidate_fill_ids fs seen (fl_fill_id f # attempt))"

definition commit_fill ::
  "env \<Rightarrow> 'st engine_config \<Rightarrow> bool \<Rightarrow> market_event \<Rightarrow> fill \<Rightarrow> order \<Rightarrow> 'st engine \<Rightarrow> ('st engine \<times> fee option) res" where
  "commit_fill E k streaming ev f ord en = (let c = engine_ledger k in
     and_then (apply_fill E (en_broker en) f streaming) (\<lambda>(b, _).
     and_then (gate_release_fill E f ord (en_gate en)) (\<lambda>r.
     and_then (outcome (apply_replay_event E c (FillEvent f) (Some (me_trading_day ev))) (en_ledger en)) (\<lambda>(_, l).
     and_then (fee_for E (ec_gate k) l r f) (\<lambda>fee.
     case fee of
       None \<Rightarrow> Inr (en\<lparr>en_broker := b, en_gate := r, en_ledger := l\<rparr>, None)
     | Some x \<Rightarrow> and_then (outcome (apply_replay_event E c (FeeEvent x) None) l) (\<lambda>(_, l').
         Inr (en\<lparr>en_broker := b, en_gate := r, en_ledger := l'\<rparr>, Some x)))))))"

definition log_fill :: "fill \<Rightarrow> fee option \<Rightarrow> run_log \<Rightarrow> run_log" where
  "log_fill f fee facts = facts\<lparr>rl_fills := rl_fills facts @ [f], rl_seen_fill_ids := List.insert (fl_fill_id f) (rl_seen_fill_ids facts),
     rl_fees := (case fee of None \<Rightarrow> rl_fees facts | Some x \<Rightarrow> rl_fees facts @ [x])\<rparr>"

definition commit_one :: "env \<Rightarrow> 'st engine_config \<Rightarrow> market_event \<Rightarrow> 'st run \<Rightarrow> fill \<Rightarrow> 'st run res" where
  "commit_one E k ev s f = (case s of (en, facts) \<Rightarrow>
     and_then (require_order E (en_broker en) (fl_order_id f)) (\<lambda>ord.
     and_then (commit_fill E k (rl_streaming facts) ev f ord en) (\<lambda>(en', fee). Inr (en', log_fill f fee facts))))"

text \<open>The orders whose fills the gate refuses, each with its first refusal.\<close>

type_synonym rejection = "string \<times> string \<times> string"

definition judge_fill :: "env \<Rightarrow> 'st engine_config \<Rightarrow> 'st engine \<Rightarrow> rejection list \<Rightarrow> fill \<Rightarrow> rejection list res" where
  "judge_fill E k en rejected f =
     and_then (require_order E (en_broker en) (fl_order_id f)) (\<lambda>ord.
     if ord_order_id ord \<in> set (map fst rejected) then Inr rejected
     else and_then (check_fill E (ec_gate k) (en_ledger en) (en_gate en) f ord) (\<lambda>d.
       Inr (if rd_accepted d then rejected else rejected @ [(ord_order_id ord, rd_code d, rd_message d)])))"

definition expire_rejection ::
  "env \<Rightarrow> market_event \<Rightarrow> order list \<Rightarrow> 'st run \<Rightarrow> rejection \<Rightarrow> 'st run res" where
  "expire_rejection E ev opened s x = (case (s, x) of ((en, facts), (oid, code, message)) \<Rightarrow>
     if oid \<notin> set (map ord_order_id opened) then raise ''fill rejection references an order outside the match batch''
     else and_then (require_order E (en_broker en) oid) (\<lambda>ord.
          and_then (expire_and_release E oid (me_available_at ev) (code @ '': '' @ message) ord en) (\<lambda>en'.
            Inr (en', log_risk [oid, code, message] facts))))"

definition expire_fill_rejections ::
  "env \<Rightarrow> market_event \<Rightarrow> rejection list \<Rightarrow> order list \<Rightarrow> 'st run \<Rightarrow> 'st run res" where
  "expire_fill_rejections E ev rejected opened s =
     (if rejected = [] then raise ''fill rejection retry must remove at least one order''
      else fold_res (expire_rejection E ev opened) s rejected)"

text \<open>
  One turn of the loop of \<open>_match_and_commit\<close>: it ends with whether something was committed, or
  expires the refused orders and goes round again with the matching state of before restored.  A single
  match is the case of a list of one.
\<close>

datatype 's turn = Settled 's bool | Again 's

definition match_turn :: "env \<Rightarrow> 'st engine_config \<Rightarrow> market_event \<Rightarrow> 'st run \<Rightarrow> 'st run turn res" where
  "match_turn E k ev s = (case s of (en, facts) \<Rightarrow>
     and_then (open_orders (en_broker en)) (\<lambda>opened.
     and_then (matching_match E (en_matching en) ev opened) (\<lambda>(m, matched).
     if opened = []
     then (if matched \<noteq> [] then raise ''matching model returned a fill for an order that is not open''
           else Inr (Settled (en\<lparr>en_matching := m\<rparr>, facts) False))
     else if matched = [] then Inr (Settled (en\<lparr>en_matching := m\<rparr>, facts) False)
     else and_then (validate_candidate_fill_ids matched (rl_seen_fill_ids facts) []) (\<lambda>_.
          and_then (fold_res (judge_fill E k en) [] matched) (\<lambda>rejected.
          if rejected \<noteq> []
          then and_then (expire_fill_rejections E ev rejected opened
                 (en\<lparr>en_matching := (if checkpointed (en_matching en) opened
                    then matching_restore (matching_capture (en_matching en)) m else m)\<rparr>, facts)) (\<lambda>s'. Inr (Again s'))
          else and_then (fold_res (commit_one E k ev) (en\<lparr>en_matching := m\<rparr>, facts) matched) (\<lambda>s'. Inr (Settled s' True)))))))"

fun match_loop :: "nat \<Rightarrow> env \<Rightarrow> 'st engine_config \<Rightarrow> market_event \<Rightarrow> 'st run \<Rightarrow> ('st run \<times> bool) res option" where
  "match_loop 0 E k ev s = None"
| "match_loop (Suc n) E k ev s = (case match_turn E k ev s of
       Inl e \<Rightarrow> Some (Inl e)
     | Inr (Settled s' committed) \<Rightarrow> Some (Inr (s', committed))
     | Inr (Again s') \<Rightarrow> match_loop n E k ev s')"

text \<open>One turn more than there are open orders is always enough (\<open>matching_always_settles\<close>).\<close>

definition match_and_commit :: "env \<Rightarrow> 'st engine_config \<Rightarrow> market_event \<Rightarrow> 'st run \<Rightarrow> ('st run \<times> bool) res" where
  "match_and_commit E k ev s = (case match_loop (Suc (length (br_open_order_ids (en_broker (fst s))))) E k ev s of
       Some r \<Rightarrow> r | None \<Rightarrow> Inl (RuntimeError ''the matching loop did not end''))"

section \<open>Immediate orders and the runtime check\<close>

definition upper_ascii :: "string \<Rightarrow> string" where
  "upper_ascii s = map upper_char s"

definition expire_immediate :: "env \<Rightarrow> market_event \<Rightarrow> 'st engine \<Rightarrow> order \<Rightarrow> 'st engine res" where
  "expire_immediate E ev en ord =
     (if eligible (matching_config (en_matching en)) ord ev
      then expire_and_release E (ord_order_id ord) (me_available_at ev)
             (upper_ascii (tif_value (oi_time_in_force (ord_intent ord))) @ '' remainder expired'') ord en
      else Inr en)"

definition expire_immediate_orders :: "env \<Rightarrow> market_event \<Rightarrow> 'st engine \<Rightarrow> 'st engine res" where
  "expire_immediate_orders E ev en =
     and_then (immediate_orders (en_broker en)) (\<lambda>ords. fold_res (expire_immediate E ev) en ords)"

definition runtime_stop :: "env \<Rightarrow> 'st engine_config \<Rightarrow> market_event \<Rightarrow> 'st run \<Rightarrow> 'st run res" where
  "runtime_stop E k ev s = (case s of (en, facts) \<Rightarrow>
     and_then (runtime_check_current E (ec_gate k) (en_ledger en) (en_gate en) (me_available_at ev)) (\<lambda>d.
     if rd_accepted d then Inr s
     else and_then (open_orders (en_broker en)) (\<lambda>ords.
          and_then (fold_res (\<lambda>en ord. expire_and_release E (ord_order_id ord) (me_available_at ev) (rd_code d) ord en) en ords)
            (\<lambda>en'. Inr (en', log_risk [me_event_id ev, rd_code d, rd_message d] facts)))))"

section \<open>The strategy\<close>

definition check_strategy_intent :: "'st engine_config \<Rightarrow> market_event \<Rightarrow> order_intent \<Rightarrow> unit res" where
  "check_strategy_intent k ev i =
     (if oi_account_id i \<noteq> ec_account_id k \<or> oi_strategy_id i \<noteq> ec_strategy_id k
      then raise ''strategy intent identity differs from engine context''
      else if oi_created_at i \<noteq> me_available_at ev
      then raise ''strategy callback intent created_at must equal MarketEvent.available_at'' else Inr ())"

definition strategy_intents ::
  "'st engine_config \<Rightarrow> int \<Rightarrow> replay_event \<Rightarrow> 'st engine \<Rightarrow> (order_intent list \<times> 'st engine) res" where
  "strategy_intents k seed re en = (case ec_on_event k seed (en_strategy en) re of (answer, st) \<Rightarrow>
     and_then answer (\<lambda>intents.
     and_then (map_res (check_strategy_intent k (header re)) intents) (\<lambda>_.
       Inr (sort_key oi_idempotency_key intents, en\<lparr>en_strategy := st\<rparr>))))"

definition accept_intent ::
  "env \<Rightarrow> 'st engine_config \<Rightarrow> market_event \<Rightarrow> order_intent \<Rightarrow> requirement option \<Rightarrow> 'st engine \<Rightarrow> 'st engine res" where
  "accept_intent E k ev i reservation en =
     and_then (submit E (en_broker en) i) (\<lambda>(b, ord).
     and_then (note_trading_day b (ord_order_id ord) (me_trading_day ev)) (\<lambda>b'.
     if open_status (ord_status ord)
     then and_then (case reservation of
              None \<Rightarrow> reserve E (ec_gate k) (en_ledger en) i (en_gate en)
            | Some q \<Rightarrow> reserve_requirement i q (en_gate en)) (\<lambda>r.
          Inr (en\<lparr>en_broker := b', en_gate := r\<rparr>))
     else Inr (en\<lparr>en_broker := b'\<rparr>)))"

definition handle_intent :: "env \<Rightarrow> 'st engine_config \<Rightarrow> market_event \<Rightarrow> 'st run \<Rightarrow> order_intent \<Rightarrow> 'st run res" where
  "handle_intent E k ev s i = (case s of (en, facts) \<Rightarrow>
     and_then (check_current_for_submit E (ec_gate k) (en_ledger en) (en_gate en) i (me_available_at ev)) (\<lambda>(d, reservation).
     if rd_accepted d then and_then (accept_intent E k ev i reservation en) (\<lambda>en'. Inr (en', facts))
     else and_then (reject E (en_broker en) i (rd_code d) (rd_message d)) (\<lambda>(b, _).
          Inr (en\<lparr>en_broker := b\<rparr>, log_risk [oi_idempotency_key i, rd_code d, rd_message d] facts))))"

section \<open>One event and the whole replay\<close>

text \<open>
  The loop of \<open>replay\<close> and the loop of \<open>replay_to_sink\<close> are two pieces of code, and are two
  definitions here (\<open>process_event\<close>, \<open>stream_process_event\<close>).
\<close>

definition process_event :: "env \<Rightarrow> 'st engine_config \<Rightarrow> int \<Rightarrow> 'st run \<Rightarrow> replay_event \<Rightarrow> 'st run res" where
  "process_event E k seed s re = (let ev = header re in
     and_then (expire_day E ev (fst s)) (\<lambda>en1.
     and_then (observe_event E k ev en1) (\<lambda>en2.
     and_then (book_caused_event E k re (en2, snd s)) (\<lambda>s3.
     and_then (recheck_open_orders E k ev s3) (\<lambda>s4.
     and_then (match_and_commit E k ev s4) (\<lambda>(s5, _).
     and_then (expire_immediate_orders E ev (fst s5)) (\<lambda>en6.
     and_then (runtime_stop E k ev (en6, snd s5)) (\<lambda>s7.
     and_then (strategy_intents k seed re (fst s7)) (\<lambda>(intents, en8).
       fold_res (handle_intent E k ev) (en8, snd s7) intents)))))))))"

definition engine_reset :: "env \<Rightarrow> 'st engine_config \<Rightarrow> instant option \<Rightarrow> 'st engine \<Rightarrow> 'st engine res" where
  "engine_reset E k opened_at en = and_then (ledger_reset E (engine_ledger k) opened_at) (\<lambda>l.
     Inr \<lparr>en_broker = broker_reset, en_gate = gate_reset, en_ledger = l, en_matching = matching_reset (en_matching en),
          en_strategy = ec_begin_replay k (en_strategy en), en_artifacts = None, en_stored_artifacts = None\<rparr>)"

definition empty_log :: "bool \<Rightarrow> run_log" where
  "empty_log streaming = \<lparr>rl_streaming = streaming, rl_fills = [], rl_fees = [], rl_settlements = [], rl_risk_events = [],
     rl_seen_fill_ids = []\<rparr>"

definition engine_order_event_bytes :: "env \<Rightarrow> order_event \<Rightarrow> string" where
  "engine_order_event_bytes E e = json_object
     [(''event_id'', string_token (oe_event_id e)),
      (''event_time'', string_token (iso_utc E (oe_event_time e))),
      (''fill_quantity'', fixed_token (oe_fill_quantity e)),
      (''from_status'', string_token (status_value (oe_from_status e))),
      (''order_id'', string_token (oe_order_id e)),
      (''reason'', string_token (oe_reason e)),
      (''sequence'', show_int (oe_sequence e)),
      (''to_status'', string_token (status_value (oe_to_status e)))]"

definition engine_fill_bytes :: "env \<Rightarrow> fill \<Rightarrow> string" where
  "engine_fill_bytes E f = json_object
     [(''account_id'', string_token (fl_account_id f)),
      (''event_time'', string_token (iso_utc E (fl_event_time f))),
      (''fill_id'', string_token (fl_fill_id f)),
      (''instrument_id'', string_token (fl_instrument_id f)),
      (''liquidity_role'', string_token (role_value (fl_liquidity_role f))),
      (''order_id'', string_token (fl_order_id f)),
      (''price'', fixed_token (Some (fl_price f))),
      (''quantity'', fixed_token (Some (fl_quantity f))),
      (''side'', string_token (side_value (fl_side f))),
      (''strategy_id'', string_token (fl_strategy_id f)),
      (''venue_trade_id'', case fl_venue_trade_id f of None \<Rightarrow> ''null'' | Some v \<Rightarrow> string_token v)]"

definition fact_hash :: "env \<Rightarrow> string list \<Rightarrow> string" where
  "fact_hash E payloads = sha256_hex E (json_array payloads)"

definition mk_run_result :: "run_result \<Rightarrow> run_result res" where
  "mk_run_result x = and_then (required_text (rr_run_id x)) (\<lambda>rid.
     if rr_seed x < 0 \<or> rr_event_count x < 0 \<or> rr_order_count x < 0 \<or> rr_fill_count x < 0
     then raise ''must be a non-negative integer''
     else if list_ex (\<lambda>h. \<not> is_sha256_text (py_strip h)) [rr_event_sha256 x, rr_fill_sha256 x, rr_ledger_sha256 x]
     then raise ''must be a lowercase SHA-256''
     else Inr (x\<lparr>rr_run_id := rid\<rparr>))"

definition result_sha256 :: "env \<Rightarrow> run_result \<Rightarrow> string" where
  "result_sha256 E x = sha256_hex E (json_object
     [(''event_count'', show_int (rr_event_count x)), (''fill_count'', show_int (rr_fill_count x)),
      (''fill_sha256'', string_token (rr_fill_sha256 x)), (''ledger_sha256'', string_token (rr_ledger_sha256 x)),
      (''order_count'', show_int (rr_order_count x)), (''order_sha256'', string_token (rr_event_sha256 x)),
      (''run_id'', string_token (rr_run_id x)), (''seed'', show_int (rr_seed x))])"

definition finalize_replay ::
  "env \<Rightarrow> 'st engine_config \<Rightarrow> int \<Rightarrow> replay_event list \<Rightarrow> 'st run \<Rightarrow> (run_result \<times> 'st engine) res" where
  "finalize_replay E k seed events s = (case s of (en, facts) \<Rightarrow>
     and_then (all_orders E (en_broker en)) (\<lambda>ords.
     and_then (ec_journal_sha256 k (en_ledger en)) (\<lambda>journal.
     and_then (mk_run_result \<lparr>rr_run_id = ec_run_id k, rr_seed = seed, rr_event_count = int (length events),
        rr_order_count = int (length ords), rr_fill_count = int (length (rl_fills facts)),
        rr_event_sha256 = fact_hash E (map (engine_order_event_bytes E) (br_events (en_broker en))),
        rr_fill_sha256 = fact_hash E (map (engine_fill_bytes E) (rl_fills facts)), rr_ledger_sha256 = journal\<rparr>) (\<lambda>result.
       Inr (result, en\<lparr>en_artifacts := Some (\<lparr>ra_market_events = events, ra_orders = ords,
          ra_order_events = br_events (en_broker en), ra_fills = rl_fills facts, ra_fees = rl_fees facts,
          ra_settlements = rl_settlements facts, ra_ledger_transactions = lg_transactions (en_ledger en),
          ra_risk_events = rl_risk_events facts\<rparr>, result)\<rparr>)))))"

text \<open>
  A loop that an exception ends leaves the state its last complete step reached, next to the
  exception; what the failing step itself left half done is not represented, and is overwritten
  by the restore like everything else (\<open>engine_restore_captured\<close> holds for every state).
\<close>

fun run_until :: "('s \<Rightarrow> 'x \<Rightarrow> 's res) \<Rightarrow> 's \<Rightarrow> 'x list \<Rightarrow> 's \<times> unit res" where
  "run_until f s [] = (s, Inr ())"
| "run_until f s (x # xs) = (case f s x of Inl e \<Rightarrow> (s, Inl e) | Inr s' \<Rightarrow> run_until f s' xs)"

definition finished :: "(run_result \<times> 'st engine) res \<Rightarrow> 'st engine \<Rightarrow> run_result res \<times> 'st engine" where
  "finished r en = (case r of Inl e \<Rightarrow> (Inl e, en) | Inr (result, en') \<Rightarrow> (Inr result, en'))"

text \<open>The two \<open>try\<close> blocks of \<open>replay\<close>; the broker is reset before the ledger can refuse.\<close>

definition replay_body ::
  "env \<Rightarrow> 'st engine_config \<Rightarrow> int \<Rightarrow> replay_event list \<Rightarrow> ('st engine, run_result) effect" where
  "replay_body E k seed events en =
     (case engine_reset E k (case events of [] \<Rightarrow> None | e # _ \<Rightarrow> Some (me_available_at (header e))) en of
        Inl e \<Rightarrow> (Inl e, en\<lparr>en_broker := broker_reset\<rparr>)
      | Inr en0 \<Rightarrow> (case run_until (process_event E k seed) (en0, empty_log False) events of
          (s, Inl e) \<Rightarrow> (Inl e, fst s)
        | (s, Inr _) \<Rightarrow> finished (finalize_replay E k seed events s) (fst s)))"

definition replay ::
  "env \<Rightarrow> 'st engine_config \<Rightarrow> replay_event list \<Rightarrow> int \<Rightarrow> ('st engine, run_result) effect" where
  "replay E k stream seed en =
     (if seed < 0 then (raise ''seed must be a non-negative integer'', en)
      else case validated_events stream of
        Inl e \<Rightarrow> (Inl e, en)
      | Inr events \<Rightarrow> (let checkpoint = engine_capture en in
          case replay_body E k seed events en of
            (Inl e, en') \<Rightarrow> (Inl (ReplayError ''replay failed closed''), engine_restore checkpoint en')
          | (Inr result, en') \<Rightarrow> (Inr result, en')))"

definition replay_segments ::
  "env \<Rightarrow> 'st engine_config \<Rightarrow> replay_event list list \<Rightarrow> int \<Rightarrow> ('st engine, run_result) effect" where
  "replay_segments E k segments seed en = (case strictly_chronological None segments of
       Inl e \<Rightarrow> (Inl e, en)
     | Inr validated \<Rightarrow> if validated = [] then (raise ''at least one continuous segment required'', en)
         else replay E k (concat validated) seed en)"

section \<open>The streaming replay\<close>

text \<open>
  \<open>replay_to_sink\<close> reads the stream once and checks its order on the way.  The sink is a list of
  the payloads handed to it (in the broker, the ledger and the run); what it computes at the end
  over the files it wrote is the parameter \<open>journal_of_sink\<close>.
\<close>

type_synonym 'st streaming = "'st run \<times> string list \<times>
  (instant \<times> instant \<times> string \<times> string \<times> string \<times> int \<times> string) option"

definition stream_process_event :: "env \<Rightarrow> 'st engine_config \<Rightarrow> int \<Rightarrow> 'st run \<Rightarrow> replay_event \<Rightarrow> 'st run res" where
  "stream_process_event E k seed s re = (let ev = header re in
     and_then (expire_day E ev (fst s)) (\<lambda>en1.
     and_then (observe_event E k ev en1) (\<lambda>en2.
     and_then (book_caused_event E k re (en2, snd s)) (\<lambda>s3.
     and_then (recheck_open_orders E k ev s3) (\<lambda>s4.
     and_then (match_and_commit E k ev s4) (\<lambda>(s5, _).
     and_then (expire_immediate_orders E ev (fst s5)) (\<lambda>en6.
     and_then (runtime_stop E k ev (en6, snd s5)) (\<lambda>s7.
     and_then (strategy_intents k seed re (fst s7)) (\<lambda>(intents, en8).
       fold_res (handle_intent E k ev) (en8, snd s7) intents)))))))))"

definition stream_event :: "env \<Rightarrow> 'st engine_config \<Rightarrow> int \<Rightarrow> 'st streaming \<Rightarrow> replay_event \<Rightarrow> 'st streaming res" where
  "stream_event E k seed x re = (case x of (s, seen, prior) \<Rightarrow> let key = event_sort_key re in
     if (case prior of None \<Rightarrow> False | Some p \<Rightarrow> key < p) then raise ''streaming event_stream is not deterministically sorted''
     else if event_id re \<in> set seen then raise ''duplicate MarketEvent event_id''
     else and_then (stream_process_event E k seed s re) (\<lambda>s'. Inr (s', event_id re # seen, Some key)))"

definition start_streams :: "'st engine_config \<Rightarrow> 'st engine \<Rightarrow> 'st engine res" where
  "start_streams k en =
     and_then (start_artifact_stream (en_broker en)) (\<lambda>b.
     and_then (outcome (start_ledger_stream (engine_ledger k)) (en_ledger en)) (\<lambda>(_, l).
       Inr (en\<lparr>en_broker := b, en_ledger := l\<rparr>)))"

definition order_events_of :: "artifact list option \<Rightarrow> order_event list" where
  "order_events_of out = concat (map (\<lambda>x. case x of OrderEventArtifact e \<Rightarrow> [e] | OrderArtifact ord \<Rightarrow> [])
     (case out of None \<Rightarrow> [] | Some xs \<Rightarrow> xs))"

definition finalize_stream ::
  "env \<Rightarrow> 'st engine_config \<Rightarrow> (ledger \<Rightarrow> string res) \<Rightarrow> int \<Rightarrow> nat \<Rightarrow> 'st run \<Rightarrow> (run_result \<times> 'st engine) res" where
  "finalize_stream E k journal_of_sink seed n s = (case s of (en, facts) \<Rightarrow>
     and_then (finish_artifact_stream (en_broker en)) (\<lambda>(b, out).
     and_then (journal_of_sink (en_ledger en)) (\<lambda>journal.
     and_then (finish_ledger_stream (Some journal) (\<lambda>_. None) (en_ledger en)) (\<lambda>(_, l).
     and_then (mk_run_result \<lparr>rr_run_id = ec_run_id k, rr_seed = seed, rr_event_count = int n,
        rr_order_count = int (br_order_count b), rr_fill_count = int (length (rl_fills facts)),
        rr_event_sha256 = fact_hash E (map (order_event_bytes E) (order_events_of out)),
        rr_fill_sha256 = fact_hash E (map (fill_bytes E) (rl_fills facts)), rr_ledger_sha256 = journal\<rparr>) (\<lambda>result.
       Inr (result, en\<lparr>en_broker := b, en_ledger := l, en_artifacts := None, en_stored_artifacts := Some result\<rparr>))))))"

definition abort_streams :: "'st engine \<Rightarrow> 'st engine" where
  "abort_streams en = en\<lparr>en_broker := abort_artifact_stream (en_broker en), en_ledger := abort_ledger_stream (en_ledger en)\<rparr>"

definition stream_body ::
  "env \<Rightarrow> 'st engine_config \<Rightarrow> (ledger \<Rightarrow> string res) \<Rightarrow> int \<Rightarrow> replay_event list \<Rightarrow> ('st engine, run_result) effect" where
  "stream_body E k journal_of_sink seed stream en =
     (case engine_reset E k (case stream of [] \<Rightarrow> None | e # _ \<Rightarrow> Some (me_available_at (header e))) en of
        Inl e \<Rightarrow> (Inl e, en\<lparr>en_broker := broker_reset\<rparr>)
      | Inr en0 \<Rightarrow> (case start_streams k en0 of
          Inl e \<Rightarrow> (Inl e, en0)
        | Inr en1 \<Rightarrow> (case run_until (stream_event E k seed) ((en1, empty_log True), [], None) stream of
            ((s, _), Inl e) \<Rightarrow> (Inl e, fst s)
          | ((s, _), Inr _) \<Rightarrow> finished (finalize_stream E k journal_of_sink seed (length stream) s) (fst s))))"

definition replay_to_sink ::
  "env \<Rightarrow> 'st engine_config \<Rightarrow> (ledger \<Rightarrow> string res) \<Rightarrow> replay_event list \<Rightarrow> int \<Rightarrow> ('st engine, run_result) effect" where
  "replay_to_sink E k journal_of_sink stream seed en =
     (if seed < 0 then (raise ''seed must be a non-negative integer'', en)
      else let checkpoint = engine_capture en in
        case stream_body E k journal_of_sink seed stream en of
          (Inl e, en') \<Rightarrow> (Inl (ReplayError ''streaming replay failed closed''), engine_restore checkpoint (abort_streams en'))
        | (Inr result, en') \<Rightarrow> (Inr result, en'))"

end
