(* ===== verification/Engine_Restore.thy ===== *)
theory Engine_Restore
  imports Engine Matching_Bar_Props Matching_L2_Props
begin

text \<open>
  Checkpoints of the engine: matching changes only the private attributes of a model, and
  putting back what was captured, component by component, gives back the captured engine over
  whatever state a run had reached.
\<close>

section \<open>Matching keeps the parameters of a model\<close>

text \<open>Two states of one model agree after a reset: they differ in private attributes only.\<close>

lemma bar_execution_price_reset: "bar_execution_price E m ord br = Inr (m', p) \<Longrightarrow> bar_reset m' = bar_reset m"
  by (cases "oi_order_type (ord_intent ord)")
    (auto simp: bar_execution_price_def bar_stop_limit_price_def Let_def bar_reset_def split: if_splits)

lemma bar_match_order_reset:
  assumes "bar_match_order E ev br (m, c, fs) ord = Inr (m', c', fs')"
  shows "bar_reset m' = bar_reset m"
proof (cases "c \<le> 0 \<or> \<not> eligible (bm_config m) ord ev")
  case False
  with assms obtain m1 p where "bar_execution_price E m ord br = Inr (m1, p)" "m' = m1"
    by (auto split: if_splits option.splits)
  then show ?thesis using bar_execution_price_reset by blast
qed (use assms in simp)

lemma bar_match_reset:
  assumes "bar_match E m ev orders = Inr (m', fs)"
  shows "bar_reset m' = bar_reset m"
proof -
  have "bar_reset (fst s') = bar_reset m" if "fold_res (bar_match_order E ev br) (m, c, []) ords = Inr s'" for br c ords s'
    by (rule fold_res_invariant [OF that, where P = "\<lambda>s. bar_reset (fst s) = bar_reset m"]) (auto dest: bar_match_order_reset simp del: bar_match_order.simps)
  with assms show ?thesis by (fastforce simp: bar_match_def split: event_body.splits if_splits)
qed

lemma stop_or_limit_reset: "stop_or_limit E b m ord price = Inr (m', ok) \<Longrightarrow> bbo_reset m' = bbo_reset m"
  by (auto simp: stop_or_limit_def Let_def bbo_reset_def split: if_splits)

lemma bbo_match_reset:
  assumes "bbo_match E m ev orders = Inr (m', fs)"
  shows "bbo_reset m' = bbo_reset m"
proof -
  have quote: "quote_match_order E ev q (m1, a1, f1) ord = Inr (m2, a2, f2) \<Longrightarrow> bbo_reset m2 = bbo_reset m1" for q m1 a1 f1 ord m2 a2 f2
    by (cases a1) (auto simp: bbo_marketable_def Let_def split: if_splits option.splits dest: stop_or_limit_reset)
  have trade: "trade_match_order E ev t v (m1, a1, f1) ord = Inr (m2, a2, f2) \<Longrightarrow> bbo_reset m2 = bbo_reset m1" for t v m1 a1 f1 ord m2 a2 f2
    by (auto simp: bbo_passive_executable_def split: if_splits option.splits dest: stop_or_limit_reset)
  have 1: "bbo_reset (fst s') = bbo_reset m0" if "fold_res (quote_match_order E ev q) (m0, a, []) ords = Inr s'" for q m0 a ords s'
    by (rule fold_res_invariant [OF that, where P = "\<lambda>s. bbo_reset (fst s) = bbo_reset m0"]) (auto dest: quote simp del: quote_match_order.simps)
  have 2: "bbo_reset (fst s') = bbo_reset m0" if "fold_res (trade_match_order E ev t v) (m0, a, []) ords = Inr s'" for t v m0 a ords s'
    by (rule fold_res_invariant [OF that, where P = "\<lambda>s. bbo_reset (fst s) = bbo_reset m0"]) (auto dest: trade simp del: trade_match_order.simps)
  show ?thesis
  proof (cases "me_body ev")
    case (QuoteEvent q)
    let ?m = "m\<lparr>bbo_quotes := dset (me_instrument_id ev) q (bbo_quotes m)\<rparr>"
    from assms QuoteEvent obtain ords left where "fold_res (quote_match_order E ev q)
        (?m, (decimal E (qt_bid_quantity q), decimal E (qt_ask_quantity q)), []) ords = Inr (m', left, fs)"
      by (auto simp: bbo_match_def match_quote_def)
    from 1 [OF this] show ?thesis by (simp add: bbo_reset_def)
  next
    case (TradeEvent t)
    with assms obtain v ords left where "fold_res (trade_match_order E ev t v) (m, decimal E (tr_quantity t), []) ords = Inr (m', left, fs)"
      by (auto simp: bbo_match_def match_trade_def)
    from 2 [OF this] show ?thesis by simp
  qed (use assms in \<open>auto simp: bbo_match_def\<close>)
qed

lemma requeue_taker_config:
  assumes "requeue_taker E bk ord r s = Inr s'"
  shows "l2_config (tk_model s') = l2_config (tk_model s)"
proof -
  from assms obtain m1 where 1: "(if dget (l2_queue_remaining (tk_model s)) (ord_order_id ord) = None then Inr (tk_model s)
        else reduce_queue_remaining E (ord_order_id ord) r (tk_model s)) = Inr m1"
    and 2: "(if dget (l2_queue_keys m1) (ord_order_id ord) \<noteq> None then Inr m1
        else queue_passive_order E ord (bk\<lparr>bk_bids := tk_bids s, bk_asks := tk_asks s\<rparr>) (Some r) m1) = Inr (tk_model s')"
    by (auto simp: requeue_taker_def Let_def split del: if_split)
  have "l2_config m1 = l2_config (tk_model s)" using 1 reduce_queue_remaining_effect(1) by (auto split: if_splits)
  moreover have "l2_config (tk_model s') = l2_config m1" using 2 queue_passive_order_effect(1) by (auto split: if_splits)
  ultimately show ?thesis by simp
qed

lemma take_visible_config:
  assumes "take_visible E ev skip bk s ord = Inr s'"
  shows "l2_config (tk_model s') = l2_config (tk_model s)"
proof -
  have level: "take_level E ev ps ord (s1, x) step = Inr (s2, y) \<Longrightarrow> l2_config (tk_model s2) = l2_config (tk_model s1)" for ps s1 x step s2 y
    using ahead_onlyD(1) [OF advance_queues_ahead] by (auto simp: take_level_def set_opposite_def Let_def split: prod.splits if_splits)
  have levels: "l2_config (tk_model (fst z)) = l2_config (tk_model s)"
    if "fold_res (take_level E ev ps ord) (s, 0) plan = Inr z" for ps plan z
    by (rule fold_res_invariant [OF that, where P = "\<lambda>z. l2_config (tk_model (fst z)) = l2_config (tk_model s)"]) (auto dest: level)
  show ?thesis
    using assms levels by (auto simp: take_visible_def Let_def split: if_splits prod.splits dest!: requeue_taker_config)
qed

lemma consume_visible_config:
  assumes "consume_visible_book E ev orders skip m = Inr (m', fs)"
  shows "l2_config m' = l2_config m"
proof -
  from assms obtain bk ords s where "fold_res (take_visible E ev skip bk)
      \<lparr>tk_model = m, tk_bids = bk_bids bk, tk_asks = bk_asks bk, tk_fills = []\<rparr> ords = Inr s" "l2_config m' = l2_config (tk_model s)"
    by (auto simp: consume_visible_book_def)
  moreover from this(1) have "l2_config (tk_model s) = l2_config m"
    by (rule fold_res_invariant [where P = "\<lambda>s. l2_config (tk_model s) = l2_config m"]) (auto dest: take_visible_config)
  ultimately show ?thesis by simp
qed

lemma consume_queues_config:
  assumes "consume_queues E ev t orders m = Inr (m', fs)"
  shows "l2_config m' = l2_config m"
proof -
  have step: "consume_queue E ev t (m1, f1) ord = Inr (m2, f2) \<Longrightarrow> l2_config m2 = l2_config m1" for m1 f1 ord m2 f2
    by (auto simp: consume_queue_def queue_fill_def Let_def split: if_splits option.splits)
  from assms obtain ords where "fold_res (consume_queue E ev t) (m, []) ords = Inr (m', fs)"
    by (auto simp: consume_queues_def)
  then have "l2_config (fst (m', fs)) = l2_config m"
    by (rule fold_res_invariant [where P = "\<lambda>x. l2_config (fst x) = l2_config m"]) (auto dest: step)
  then show ?thesis by simp
qed

lemma l2_match_config:
  assumes "l2_match E m ev orders = Inr (m', fs)"
  shows "l2_config m' = l2_config m"
proof -
  have book: "after_book E ev orders m1 = Inr (m2, f) \<Longrightarrow> l2_config m2 = l2_config m1" for m1 m2 f
    by (auto simp: after_book_def dest!: reconcile_queues_config trigger_stops_keep(1) consume_visible_config simp: stops_only_def)
  have saved: "consume_saved_book E ev orders m1 = Inr (m2, f) \<Longrightarrow> l2_config m2 = l2_config m1" for m1 m2 f
    by (auto simp: consume_saved_book_def split: if_splits dest: consume_visible_config)
  show ?thesis
    using assms
    by (auto simp: l2_match_def Let_def stops_only_def split: event_body.splits
        dest!: book saved reconcile_queues_config trigger_stops_keep(2) consume_queues_config)
qed

theorem matching_keeps_parameters:
  "matching_match E m ev orders = Inr (m', fs) \<Longrightarrow> matching_reset m' = matching_reset m"
  by (auto simp: matching_match_def matching_reset_def split: matching.splits dest: bar_match_reset bbo_match_reset l2_match_config)

section \<open>Restoring what was captured\<close>

lemma same_after_reset:
  "bar_reset b = bar_reset b' \<longleftrightarrow> bm_config b = bm_config b' \<and> bm_participation_rate b = bm_participation_rate b'
     \<and> bm_slippage_ticks b = bm_slippage_ticks b'"
  "bbo_reset q = bbo_reset q' \<longleftrightarrow> bbo_config q = bbo_config q'"
  "l2_reset c = l2_reset c' \<longleftrightarrow> c = c'"
  by (cases b; cases b'; auto simp: bar_reset_def) (cases q; cases q'; auto simp: bbo_reset_def l2_reset_def)+

lemma matching_restore_captured:
  assumes "matching_reset m' = matching_reset m"
  shows "matching_restore (matching_capture m) m' = m"
  using assms
  by (cases m; cases m') (auto simp: matching_reset_def matching_capture_def same_after_reset
      intro!: bar_model.equality bbo_model.equality l2_model.equality)

lemma broker_restore_captured: "restore_captured (capture_state b) b' = b\<lparr>br_artifact_sink := br_artifact_sink b'\<rparr>"
  by (simp add: restore_captured_def capture_state_def)

lemma gate_restore_captured: "gate_restore_state (gate_capture_state r) r' = r"
  by (simp add: gate_restore_state_def gate_capture_state_def)

text \<open>No sink is attached and the matching model has the parameters of the captured engine.\<close>

definition restorable :: "'st engine \<Rightarrow> 'st engine \<Rightarrow> bool" where
  "restorable en cur \<longleftrightarrow> br_artifact_sink (en_broker cur) = None \<and> lg_artifact_sink (en_ledger cur) = None
     \<and> matching_reset (en_matching cur) = matching_reset (en_matching en)"

lemma engine_restore_captured:
  assumes "restorable en en" "restorable en cur"
  shows "engine_restore (engine_capture en) cur = en"
  using assms
  by (simp add: restorable_def engine_restore_def engine_capture_def broker_restore_captured restore_captured_ledger
      gate_restore_captured matching_restore_captured)

lemma abort_streams_restorable:
  "matching_reset (en_matching cur) = matching_reset (en_matching en) \<Longrightarrow> restorable en (abort_streams cur)"
  by (simp add: restorable_def abort_streams_def abort_artifact_stream_def abort_ledger_stream_def)

end
