(* ===== verification/Engine_Props.thy ===== *)
theory Engine_Props
  imports Engine_Restore Broker_Props Ledger_Props "HOL-Library.Sublist"
begin

text \<open>
  What the replay engine guarantees: its matching loop ends, a replay is a function of its
  inputs, a failed one is undone by its checkpoint, both replays only append to the histories,
  immediate orders do not survive the event they could trade on, and the engine reaches broker
  and ledger through their operations only (\<open>event_moves\<close>, the moves before the strategy is
  asked, and \<open>engine_moves\<close>, all of them; interpreted for the runs of the components, for
  their histories, for what a checkpoint needs and for the invariant of the broker).
\<close>

section \<open>The matching loop ends\<close>

abbreviation open_ids :: "'st engine \<Rightarrow> string list" where
  "open_ids en \<equiv> br_open_order_ids (en_broker en)"

lemma expire_shrinks:
  "expire E b oid t reason = Inr (b', ev) \<Longrightarrow> length (br_open_order_ids b') < length (br_open_order_ids b)"
  by (auto simp: expire_def close_order_def set_remove_def length_removeAll_less split: if_splits prod.splits)

lemma expire_and_release_shrinks:
  "expire_and_release E oid t reason ord en = Inr en' \<Longrightarrow> length (open_ids en') < length (open_ids en)"
  by (auto simp: expire_and_release_def dest: expire_shrinks)

lemma expire_rejection_shrinks:
  "expire_rejection E ev opened s x = Inr s' \<Longrightarrow> length (open_ids (fst s')) < length (open_ids (fst s))"
  by (auto simp: expire_rejection_def split: prod.splits if_splits dest: expire_and_release_shrinks)

lemma expire_rejections_shrink:
  assumes "fold_res (expire_rejection E ev opened) s xs = Inr s'"
  shows "length (open_ids (fst s')) + length xs \<le> length (open_ids (fst s))"
  using assms
proof (induction xs arbitrary: s)
  case (Cons x xs)
  then obtain u where "expire_rejection E ev opened s x = Inr u" "fold_res (expire_rejection E ev opened) u xs = Inr s'"
    by auto
  with Cons.IH [of u] expire_rejection_shrinks [of E ev opened s x u] show ?case by simp
qed simp

lemma turn_again:
  "(if c then if d then raise msg else Inr (Settled a x) else r) = Inr (Again t) \<longleftrightarrow> \<not> c \<and> r = Inr (Again t)"
  "(if c then Inr (Settled a x) else r) = Inr (Again t) \<longleftrightarrow> \<not> c \<and> r = Inr (Again t)"
  "(if c then and_then p (\<lambda>s. Inr (Again s)) else and_then q (\<lambda>s. Inr (Settled s True))) = Inr (Again t) \<longleftrightarrow> c \<and> p = Inr t"
  by auto

lemma match_turn_shrinks:
  assumes "match_turn E k ev s = Inr (Again s')"
  shows "length (open_ids (fst s')) < length (open_ids (fst s))"
proof -
  obtain en facts where s: "s = (en, facts)" by (cases s)
  from assms obtain opened m rejected where "rejected \<noteq> []"
    and r: "expire_fill_rejections E ev rejected opened (en\<lparr>en_matching := m\<rparr>, facts) = Inr s'"
    unfolding s match_turn_def by (auto simp: turn_again)
  let ?s0 = "(en\<lparr>en_matching := m\<rparr>, facts)"
  from r have "length (open_ids (fst s')) + length rejected \<le> length (open_ids (fst ?s0))"
    using expire_rejections_shrink [of E ev opened ?s0 rejected s'] by (simp add: expire_fill_rejections_def)
  with \<open>rejected \<noteq> []\<close> show ?thesis by (cases rejected) (auto simp: s split: if_splits)
qed

lemma match_loop_settles:
  "length (open_ids (fst s)) < n \<Longrightarrow> \<exists>r. \<forall>m. match_loop (n + m) E k ev s = Some r"
proof (induction n arbitrary: s)
  case (Suc n)
  show ?case
  proof (cases "match_turn E k ev s")
    case (Inr t)
    then show ?thesis
    proof (cases t)
      case (Again u)
      with Inr match_turn_shrinks [of E k ev s u] Suc.prems have "length (open_ids (fst u)) < n" by simp
      from Suc.IH [OF this] Inr Again show ?thesis by simp
    qed simp
  qed simp
qed simp

text \<open>
  C23: The loop that matches, refuses and matches again always ends: every further turn has
  expired at least one order that was open, so one turn more than there are open orders
  settles it, with a result that no further turn would change; \<open>match_and_commit\<close> never
  runs out of turns.
\<close>

theorem matching_always_settles:
  "\<exists>r. (\<forall>n. match_loop (Suc (length (br_open_order_ids (en_broker (fst s)))) + n) E k ev s = Some r)
     \<and> match_and_commit E k ev s = r"
proof -
  let ?n = "Suc (length (br_open_order_ids (en_broker (fst s))))"
  obtain r where r: "\<forall>m. match_loop (?n + m) E k ev s = Some r"
    using match_loop_settles [of s ?n E k ev] by auto
  moreover from r [rule_format, of 0] have "match_and_commit E k ev s = r" by (simp add: match_and_commit_def)
  ultimately show ?thesis by blast
qed

section \<open>The order of the input\<close>

lemma distinct_ids_key: "distinct (map event_id xs) \<Longrightarrow> inj_on event_sort_key (set xs)"
  by (auto simp: distinct_map inj_on_def event_sort_key_def event_id_def Let_def)

lemma validated_events_Inr: "validated_events xs = Inr ys \<longleftrightarrow> distinct (map event_id xs) \<and> ys = sort_key event_sort_key xs"
  by (auto simp: validated_events_def)

lemma validated_events_mset:
  assumes "mset xs = mset ys"
  shows "validated_events xs = validated_events ys"
proof -
  have d: "distinct (map event_id xs) \<longleftrightarrow> distinct (map event_id ys)"
    using assms by (metis mset_eq_imp_distinct_iff mset_map)
  have "sort_key event_sort_key xs = sort_key event_sort_key ys" if "distinct (map event_id xs)"
    by (rule sort_key_inj_key_eq [OF _ distinct_ids_key [OF that]]) (simp_all add: assms)
  then show ?thesis by (simp add: validated_events_def d)
qed

lemma validated_events_fixed: "validated_events xs = Inr xs \<longleftrightarrow> distinct (map event_id xs) \<and> sorted (map event_sort_key xs)"
  by (auto simp: validated_events_Inr sort_key_id_if_sorted simp del: sort_key_simps) (metis sorted_sort_key)

lemma engine_reset_cong:
  assumes "matching_reset (en_matching en1) = matching_reset (en_matching en2)"
    and "ec_begin_replay k (en_strategy en1) = ec_begin_replay k (en_strategy en2)"
  shows "engine_reset E k opened_at en1 = engine_reset E k opened_at en2"
  by (simp add: engine_reset_def assms)

lemma run_until_fold: "run_until f s xs = (s', Inr ()) \<longleftrightarrow> fold_res f s xs = Inr s'"
  by (induction xs arbitrary: s) (auto split: sum.splits)

lemma run_until_all: "run_until f s xs = (s', Inr u) \<longleftrightarrow> fold_res f s xs = Inr s'"
  using run_until_fold [of f s xs s'] by simp

lemma replay_body_Inr:
  "replay_body E k seed events en = (Inr result, en') \<longleftrightarrow>
     (\<exists>en0 s. engine_reset E k (case events of [] \<Rightarrow> None | e # _ \<Rightarrow> Some (me_available_at (header e))) en = Inr en0
        \<and> fold_res (process_event E k seed) (en0, empty_log False) events = Inr s
        \<and> finalize_replay E k seed events s = Inr (result, en'))"
proof (cases "engine_reset E k (case events of [] \<Rightarrow> None | e # _ \<Rightarrow> Some (me_available_at (header e))) en")
  case (Inr en0)
  obtain s r where run: "run_until (process_event E k seed) (en0, empty_log False) events = (s, r)" by fastforce
  show ?thesis
  proof (cases r)
    case (Inl e)
    then have "\<nexists>s. fold_res (process_event E k seed) (en0, empty_log False) events = Inr s"
      using run run_until_fold [of "process_event E k seed" "(en0, empty_log False)" events] by auto
    then show ?thesis by (simp add: replay_body_def Inr run Inl)
  next
    case (Inr u)
    then have "fold_res (process_event E k seed) (en0, empty_log False) events = Inr s" using run run_until_all by metis
    then show ?thesis
      by (cases s) (auto simp: replay_body_def finished_def \<open>engine_reset _ _ _ _ = Inr en0\<close> run Inr split: sum.splits)
  qed
qed (simp add: replay_body_def)

text \<open>
  C24: A replay is a function of its inputs: two engines of one configuration whose matching
  models and strategies reset to the same state give the same result and end in the same
  state, whatever they replayed before and in whatever order the events of the stream arrive;
  when one of them fails, the other fails with the same error.
\<close>

theorem replay_is_deterministic:
  assumes "mset xs = mset ys"
    and "matching_reset (en_matching en1) = matching_reset (en_matching en2)"
    and "ec_begin_replay k (en_strategy en1) = ec_begin_replay k (en_strategy en2)"
  shows "fst (replay E k xs seed en1) = fst (replay E k ys seed en2)
     \<and> (returns (fst (replay E k xs seed en1)) \<longrightarrow> replay E k xs seed en1 = replay E k ys seed en2)"
proof (cases "seed < 0")
  case False
  have same: "replay_body E k seed events en1 = replay_body E k seed events en2 \<or>
      (\<exists>e e1 e2. replay_body E k seed events en1 = (Inl e, e1) \<and> replay_body E k seed events en2 = (Inl e, e2))" for events
    using engine_reset_cong [OF assms(2,3)] by (auto simp: replay_body_def split: sum.splits)
  show ?thesis
  proof (cases "validated_events ys")
    case (Inr events)
    then show ?thesis
      using same [of events] False
      by (auto simp: replay_def Let_def validated_events_mset [OF assms(1)] split: sum.splits prod.splits)
  qed (use False in \<open>simp add: replay_def validated_events_mset [OF assms(1)]\<close>)
qed (simp add: replay_def raise_def)

section \<open>Streaming\<close>

lemma stream_event_Inr:
  "stream_event E k seed (s, seen, prior) re = Inr x \<longleftrightarrow>
     (case prior of None \<Rightarrow> True | Some p \<Rightarrow> p \<le> event_sort_key re) \<and> event_id re \<notin> set seen
     \<and> (\<exists>s'. stream_process_event E k seed s re = Inr s' \<and> x = (s', event_id re # seen, Some (event_sort_key re)))"
  by (auto simp: stream_event_def Let_def not_less split: option.splits)

lemma stream_events_Inr:
  "fold_res (stream_event E k seed) (s, seen, prior) xs = Inr (s', seen', prior') \<longleftrightarrow>
     sorted (map event_sort_key xs) \<and> (case prior of None \<Rightarrow> True | Some p \<Rightarrow> \<forall>re \<in> set xs. p \<le> event_sort_key re)
     \<and> distinct (map event_id xs) \<and> set seen \<inter> event_id ` set xs = {}
     \<and> fold_res (stream_process_event E k seed) s xs = Inr s'
     \<and> seen' = rev (map event_id xs) @ seen \<and> prior' = (if xs = [] then prior else Some (event_sort_key (last xs)))"
proof (induction xs arbitrary: s seen prior)
  case Nil
  then show ?case by (auto split: option.splits)
next
  case (Cons x xs)
  show ?case
    by (cases "stream_process_event E k seed s x")
      (auto simp: stream_event_Inr Cons.IH split: option.splits intro: order_trans)
qed

text \<open>The two loops, written twice in the code, do the same to the same run.\<close>

lemma stream_process_event_eq: "stream_process_event = process_event"
  by (intro ext) (simp add: stream_process_event_def process_event_def)

text \<open>The streaming loop ends without an exception exactly on input that \<open>replay\<close> leaves in its order.\<close>

lemma streaming_needs_sorted_input:
  "(\<exists>seen prior. fold_res (stream_event E k seed) (s, [], None) xs = Inr (s', seen, prior))
     \<longleftrightarrow> validated_events xs = Inr xs \<and> fold_res (stream_process_event E k seed) s xs = Inr s'"
  by (auto simp: stream_events_Inr validated_events_fixed)

text \<open>The steps of the processing of an event, with the states between them.\<close>

lemma process_event_phases [consumes 1, case_names phases]:
  assumes "process_event E k seed s re = Inr s'"
  obtains en1 en2 s3 s4 s5 c en6 s7 intents en8 where
    "expire_day E (header re) (fst s) = Inr en1" "observe_event E k (header re) en1 = Inr en2"
    "book_caused_event E k re (en2, snd s) = Inr s3" "recheck_open_orders E k (header re) s3 = Inr s4"
    "match_and_commit E k (header re) s4 = Inr (s5, c)"
    "expire_immediate_orders E (header re) (fst s5) = Inr en6" "runtime_stop E k (header re) (en6, snd s5) = Inr s7"
    "strategy_intents k seed re (fst s7) = Inr (intents, en8)"
    "fold_res (handle_intent E k (header re)) (en8, snd s7) intents = Inr s'"
  using assms unfolding process_event_def Let_def by (elim and_thenE) (auto elim!: and_thenE)

section \<open>The engine as a client of its components\<close>

text \<open>
  What the engine may ask of the broker and of the ledger: it never cancels, submits only intents of its
  own account and strategy, books fills and fees without the checks of a first import, and
  never sets rates or imports positions.
\<close>

fun engine_broker_op :: "'st engine_config \<Rightarrow> broker_op \<Rightarrow> bool" where
  "engine_broker_op k (SubmitOp i) = (oi_account_id i = ec_account_id k \<and> oi_strategy_id i = ec_strategy_id k)"
| "engine_broker_op k (RejectOp i code message) = (oi_account_id i = ec_account_id k \<and> oi_strategy_id i = ec_strategy_id k)"
| "engine_broker_op k (ExpireOp oid t reason) = True"
| "engine_broker_op k (ApplyFillOp f trusted) = True"
| "engine_broker_op k (NoteTradingDayOp oid d) = True"
| "engine_broker_op k (ExpireDayOrdersOp d t) = True"
| "engine_broker_op k op = False"

text \<open>Before the strategy is asked, orders are only filled and expired.\<close>

fun market_broker_op :: "broker_op \<Rightarrow> bool" where
  "market_broker_op (ExpireOp oid t reason) = True"
| "market_broker_op (ApplyFillOp f trusted) = True"
| "market_broker_op (ExpireDayOrdersOp d t) = True"
| "market_broker_op op = False"

lemma market_engine_op: "market_broker_op op \<Longrightarrow> engine_broker_op k op"
  by (cases op) simp_all

fun engine_ledger_op :: "ledger_op \<Rightarrow> bool" where
  "engine_ledger_op (ApplyOp ev create) = (\<not> create \<and> (case ev of FillEvent f \<Rightarrow> False | FeeEvent x \<Rightarrow> False | _ \<Rightarrow> True))"
| "engine_ledger_op (ReplayOp ev d) = (case ev of FillEvent f \<Rightarrow> d \<noteq> None | FeeEvent x \<Rightarrow> d = None | _ \<Rightarrow> False)"
| "engine_ledger_op (ObserveOp ev create trusted) = (\<not> create \<and> trusted)"
| "engine_ledger_op op = False"

text \<open>
  The contract of a step of the engine: a relation between the states before and after that
  is kept by every single move the engine makes on one of its components is kept by the
  processing of an event.  The steps before the strategy is asked need the moves they make only.
\<close>

locale event_moves =
  fixes E :: env and k :: "'st engine_config" and R :: "'st engine \<Rightarrow> 'st engine \<Rightarrow> bool"
  assumes refl [simp]: "R en en"
    and trans: "R en en1 \<Longrightarrow> R en1 en2 \<Longrightarrow> R en en2"
    and market_move: "broker_step E (en_broker en) op = Inr b \<Longrightarrow> market_broker_op op \<Longrightarrow> R en (en\<lparr>en_broker := b\<rparr>)"
    and ledger_move: "ledger_step E (engine_ledger k) (en_ledger en) lop = Inr l \<Longrightarrow> engine_ledger_op lop \<Longrightarrow> R en (en\<lparr>en_ledger := l\<rparr>)"
    and gate_move: "R en (en\<lparr>en_gate := r\<rparr>)"
    and matching_move: "matching_reset m = matching_reset (en_matching en) \<Longrightarrow> R en (en\<lparr>en_matching := m\<rparr>)"
begin

lemma fold_moves:
  assumes "fold_res f s xs = Inr s'" "\<And>s x s'. x \<in> set xs \<Longrightarrow> f s x = Inr s' \<Longrightarrow> R (h s) (h s')"
  shows "R (h s) (h s')"
  by (rule fold_res_invariant [OF assms(1), where P = "\<lambda>u. R (h s) (h u)"]) (auto intro: trans assms(2))

lemma fold_moves_fst:
  assumes "fold_res f s xs = Inr s'" "\<And>s x s'. f s x = Inr s' \<Longrightarrow> R (fst s) (fst s')"
  shows "R (fst s) (fst s')"
  by (rule fold_moves [where h = fst, OF assms(1)]) (rule assms(2))

lemma fold_moves_id:
  assumes "fold_res f en xs = Inr en'" "\<And>en x en'. f en x = Inr en' \<Longrightarrow> R en en'"
  shows "R en en'"
  by (rule fold_moves [where h = "\<lambda>x. x", OF assms(1)]) (rule assms(2))

lemma broker_gate_move:
  assumes "broker_step E (en_broker en) op = Inr b" "market_broker_op op"
  shows "R en (en\<lparr>en_broker := b, en_gate := r\<rparr>)"
  using trans [OF market_move [OF assms] gate_move [of "en\<lparr>en_broker := b\<rparr>" r]] by simp

lemma expire_and_release_moves: "expire_and_release E oid t reason ord en = Inr en' \<Longrightarrow> R en en'"
  by (auto simp: expire_and_release_def intro: broker_gate_move [where op = "ExpireOp oid t reason"])

lemma expire_day_moves:
  assumes "expire_day E ev en = Inr en'"
  shows "R en en'"
proof -
  from assms obtain b expiries where b: "expire_day_orders E (en_broker en) (me_trading_day ev) (me_available_at ev) = Inr (b, expiries)"
    and f: "fold_res (release_expired E) (en\<lparr>en_broker := b\<rparr>) expiries = Inr en'"
    by (auto simp: expire_day_def)
  have "R en (en\<lparr>en_broker := b\<rparr>)"
    by (rule market_move [where op = "ExpireDayOrdersOp (me_trading_day ev) (me_available_at ev)"]) (simp_all add: b)
  moreover have "R (en\<lparr>en_broker := b\<rparr>) en'"
    by (rule fold_moves_id [OF f]) (auto simp: release_expired_def intro: gate_move)
  ultimately show ?thesis by (rule trans)
qed

lemma observe_event_moves: "observe_event E k ev en = Inr en' \<Longrightarrow> R en en'"
proof -
  assume "observe_event E k ev en = Inr en'"
  then obtain r l snap where l: "observe_market E (engine_ledger k) ev False True (en_ledger en) = (Inr snap, l)"
    and en': "en' = en\<lparr>en_gate := r, en_ledger := l\<rparr>"
    by (auto simp: observe_event_def outcome_Inr)
  have "R (en\<lparr>en_gate := r\<rparr>) (en\<lparr>en_gate := r\<rparr>\<lparr>en_ledger := l\<rparr>)"
    by (rule ledger_move [where lop = "ObserveOp ev False True"]) (simp_all add: ledger_step_def outcome_def l)
  from trans [OF gate_move this] show "R en en'" by (simp add: en')
qed

lemma apply_to_ledger_moves:
  assumes "apply_to_ledger E k ev en = Inr en'" "case ev of FillEvent f \<Rightarrow> False | FeeEvent x \<Rightarrow> False | _ \<Rightarrow> True"
  shows "R en en'"
proof -
  from assms(1) obtain snap l where l: "apply_ledger E (engine_ledger k) ev False (en_ledger en) = (Inr snap, l)"
    and en': "en' = en\<lparr>en_ledger := l\<rparr>"
    by (auto simp: apply_to_ledger_def outcome_Inr)
  show ?thesis unfolding en'
    by (rule ledger_move [where lop = "ApplyOp ev False"]) (use assms(2) in \<open>simp_all add: ledger_step_def outcome_def l\<close>)
qed

lemma booked_moves:
  "apply_to_ledger E k (FundingEvent fu) en = Inr en' \<Longrightarrow> R en en'"
  "apply_to_ledger E k (SettlementEvent st) en = Inr en' \<Longrightarrow> R en en'"
  "apply_to_ledger E k (ActionEvent a) en = Inr en' \<Longrightarrow> R en en'"
  by (erule apply_to_ledger_moves, simp)+

lemma book_caused_event_moves: "book_caused_event E k re s = Inr s' \<Longrightarrow> R (fst s) (fst s')"
  by (auto simp: book_caused_event_def split: prod.splits replay_event.splits event_body.splits option.splits)
    (blast intro: booked_moves)+

lemma recheck_order_moves: "recheck_order E k ev s ord = Inr s' \<Longrightarrow> R (fst s) (fst s')"
  by (auto simp: recheck_order_def intro: expire_and_release_moves split: prod.splits if_splits)

lemma recheck_open_orders_moves: "recheck_open_orders E k ev s = Inr s' \<Longrightarrow> R (fst s) (fst s')"
  by (auto simp: recheck_open_orders_def intro: fold_moves_fst recheck_order_moves)

lemma expire_rejection_moves: "expire_rejection E ev opened s x = Inr s' \<Longrightarrow> R (fst s) (fst s')"
  by (auto simp: expire_rejection_def intro: expire_and_release_moves split: prod.splits if_splits)

lemma commit_fill_moves:
  assumes "commit_fill E k streaming ev f ord en = Inr (en', fee)"
  shows "R en en'"
proof -
  let ?c = "engine_ledger k"
  from assms obtain b ev' r l where b: "apply_fill E (en_broker en) f streaming = Inr (b, ev')"
    and l: "apply_replay_event E ?c (FillEvent f) (Some (me_trading_day ev)) (en_ledger en) = (Inr (), l)"
    and fee: "and_then (fee_for E (ec_gate k) l r f) (\<lambda>fee. case fee of
         None \<Rightarrow> Inr (en\<lparr>en_broker := b, en_gate := r, en_ledger := l\<rparr>, None)
       | Some x \<Rightarrow> and_then (outcome (apply_replay_event E ?c (FeeEvent x) None) l) (\<lambda>(_, l').
           Inr (en\<lparr>en_broker := b, en_gate := r, en_ledger := l'\<rparr>, Some x))) = Inr (en', fee)"
    unfolding commit_fill_def Let_def by (auto simp: outcome_Inr) blast
  then have rest: "en' = en\<lparr>en_broker := b, en_gate := r, en_ledger := l\<rparr> \<or>
      (\<exists>x l'. apply_replay_event E ?c (FeeEvent x) None l = (Inr (), l')
         \<and> en' = en\<lparr>en_broker := b, en_gate := r, en_ledger := l'\<rparr>)"
    by (auto simp: outcome_Inr split: option.splits)
  let ?en = "en\<lparr>en_broker := b, en_gate := r\<rparr>"
  have "R en ?en" by (rule broker_gate_move [where op = "ApplyFillOp f streaming"]) (simp_all add: b)
  moreover have "R ?en (?en\<lparr>en_ledger := l\<rparr>)"
    by (rule ledger_move [where lop = "ReplayOp (FillEvent f) (Some (me_trading_day ev))"]) (simp_all add: ledger_step_def outcome_def l)
  ultimately have fill: "R en (?en\<lparr>en_ledger := l\<rparr>)" by (rule trans)
  from rest show ?thesis
  proof (elim disjE exE conjE)
    fix x l'
    assume l': "apply_replay_event E ?c (FeeEvent x) None l = (Inr (), l')"
      and en': "en' = en\<lparr>en_broker := b, en_gate := r, en_ledger := l'\<rparr>"
    have "R (?en\<lparr>en_ledger := l\<rparr>) (?en\<lparr>en_ledger := l\<rparr>\<lparr>en_ledger := l'\<rparr>)"
      by (rule ledger_move [where lop = "ReplayOp (FeeEvent x) None"]) (simp_all add: ledger_step_def outcome_def l')
    from trans [OF fill this] show ?thesis by (simp add: en')
  qed (use fill in simp)
qed

lemma commit_one_moves: "commit_one E k ev s f = Inr s' \<Longrightarrow> R (fst s) (fst s')"
  by (auto simp: commit_one_def intro: commit_fill_moves split: prod.splits)

lemma match_turn_moves:
  assumes "match_turn E k ev s = Inr t"
  shows "R (fst s) (fst (case t of Settled s' c \<Rightarrow> s' | Again s' \<Rightarrow> s'))"
proof -
  obtain en facts where s: "s = (en, facts)" by (cases s)
  have start: "R en (fst s')" if "R (en\<lparr>en_matching := m\<rparr>) (fst s')" "matching_reset m = matching_reset (en_matching en)" for m s'
    using trans [OF matching_move [OF that(2)] that(1)] .
  show ?thesis
  proof (cases t)
    case (Again s')
    with assms obtain opened m fs rejected where m: "matching_match E (en_matching en) ev opened = Inr (m, fs)"
      and r: "expire_fill_rejections E ev rejected opened (en\<lparr>en_matching := (if checkpointed (en_matching en) opened
          then matching_restore (matching_capture (en_matching en)) m else m)\<rparr>, facts) = Inr s'"
      unfolding s match_turn_def by (auto simp: turn_again)
    let ?m = "if checkpointed (en_matching en) opened then matching_restore (matching_capture (en_matching en)) m else m"
    note K = matching_keeps_parameters [OF m]
    have "matching_reset ?m = matching_reset (en_matching en)" using K matching_restore_captured [OF K] by simp
    moreover have "R (fst (en\<lparr>en_matching := ?m\<rparr>, facts)) (fst s')"
      using r fold_moves_fst [OF _ expire_rejection_moves] by (fastforce simp: expire_fill_rejections_def)
    ultimately show ?thesis using start [of ?m s'] by (simp add: s Again)
  next
    case (Settled s' c)
    with assms obtain opened m fs where m: "matching_match E (en_matching en) ev opened = Inr (m, fs)"
      and r: "s' = (en\<lparr>en_matching := m\<rparr>, facts) \<or> fold_res (commit_one E k ev) (en\<lparr>en_matching := m\<rparr>, facts) fs = Inr s'"
      unfolding s match_turn_def by (auto split: if_splits)
    have "R (fst (en\<lparr>en_matching := m\<rparr>, facts)) (fst s')" 
      using r
    proof
      assume "fold_res (commit_one E k ev) (en\<lparr>en_matching := m\<rparr>, facts) fs = Inr s'"
      then show ?thesis by (rule fold_moves_fst) (rule commit_one_moves)
    qed simp
    with start [of m s'] matching_keeps_parameters [OF m] show ?thesis by (simp add: s Settled)
  qed
qed

lemma match_loop_moves: "match_loop n E k ev s = Some (Inr (s', c)) \<Longrightarrow> R (fst s) (fst s')"
proof (induction n arbitrary: s)
  case (Suc n)
  then obtain t where t: "match_turn E k ev s = Inr t" by (auto split: sum.splits)
  note M = match_turn_moves [OF t]
  show ?case
  proof (cases t)
    case (Again u)
    with Suc t have "R (fst u) (fst s')" by simp
    then show ?thesis using M Again trans by auto
  qed (use Suc.prems t M in simp)
qed simp

lemma match_and_commit_moves: "match_and_commit E k ev s = Inr (s', c) \<Longrightarrow> R (fst s) (fst s')"
  by (auto simp: match_and_commit_def simp del: match_loop.simps split: option.splits intro: match_loop_moves)

lemma expire_immediate_moves: "expire_immediate E ev en ord = Inr en' \<Longrightarrow> R en en'"
  by (auto simp: expire_immediate_def intro: expire_and_release_moves split: if_splits)

lemma expire_immediate_orders_moves: "expire_immediate_orders E ev en = Inr en' \<Longrightarrow> R en en'"
  by (auto simp: expire_immediate_orders_def intro: fold_moves_id expire_immediate_moves)

lemma runtime_stop_moves: "runtime_stop E k ev s = Inr s' \<Longrightarrow> R (fst s) (fst s')"
  by (auto simp: runtime_stop_def intro: fold_moves_id expire_and_release_moves split: prod.splits if_splits)

lemma before_immediate_moves:
  assumes "expire_day E (header re) en = Inr en1" "observe_event E k (header re) en1 = Inr en2"
    "book_caused_event E k re (en2, facts) = Inr s3" "recheck_open_orders E k (header re) s3 = Inr s4"
    "match_and_commit E k (header re) s4 = Inr (s5, c)"
  shows "R en (fst s5)"
  using expire_day_moves [OF assms(1)] observe_event_moves [OF assms(2)] book_caused_event_moves [OF assms(3), simplified]
    recheck_open_orders_moves [OF assms(4)] match_and_commit_moves [OF assms(5)]
  by (meson trans)

end

locale engine_moves = event_moves E k R for E :: env and k :: "'st engine_config" and R :: "'st engine \<Rightarrow> 'st engine \<Rightarrow> bool" +
  assumes broker_move: "broker_step E (en_broker en) op = Inr b \<Longrightarrow> engine_broker_op k op \<Longrightarrow> R en (en\<lparr>en_broker := b\<rparr>)"
    and strategy_move: "R en (en\<lparr>en_strategy := st\<rparr>)"
begin

lemma checked_intents:
  assumes "strategy_intents k seed re en = Inr (intents, en')"
  shows "R en en'" "i \<in> set intents \<Longrightarrow> oi_account_id i = ec_account_id k \<and> oi_strategy_id i = ec_strategy_id k"
proof -
  from assms obtain st raw ys where en': "en' = en\<lparr>en_strategy := st\<rparr>" and i: "intents = sort_key oi_idempotency_key raw"
    and c: "map_res (check_strategy_intent k (header re)) raw = Inr ys"
    by (auto simp: strategy_intents_def split: prod.splits)
  show "R en en'" unfolding en' by (rule strategy_move)
  have "\<forall>i \<in> set raw. check_strategy_intent k (header re) i = Inr ()"
    using c by (induction raw arbitrary: ys) auto
  then show "i \<in> set intents \<Longrightarrow> oi_account_id i = ec_account_id k \<and> oi_strategy_id i = ec_strategy_id k"
    by (auto simp: i check_strategy_intent_def)
qed

lemma accept_intent_moves:
  assumes "accept_intent E k ev i reservation en = Inr en'"
    and "oi_account_id i = ec_account_id k \<and> oi_strategy_id i = ec_strategy_id k"
  shows "R en en'"
proof -
  from assms(1) obtain b ord b' where b: "submit E (en_broker en) i = Inr (b, ord)"
    and b': "note_trading_day b (ord_order_id ord) (me_trading_day ev) = Inr b'"
    and en': "en' = en\<lparr>en_broker := b'\<rparr> \<or> (\<exists>r. en' = en\<lparr>en_broker := b', en_gate := r\<rparr>)"
    unfolding accept_intent_def by (auto split: if_splits)
  have 1: "R en (en\<lparr>en_broker := b\<rparr>)"
    by (rule broker_move [where op = "SubmitOp i"]) (use b assms(2) in simp_all)
  have "R (en\<lparr>en_broker := b\<rparr>) (en\<lparr>en_broker := b\<rparr>\<lparr>en_broker := b'\<rparr>)"
    by (rule broker_move [where op = "NoteTradingDayOp (ord_order_id ord) (me_trading_day ev)"]) (simp_all add: b')
  from trans [OF 1 this] have 2: "R en (en\<lparr>en_broker := b'\<rparr>)" by simp
  with trans [OF 2 gate_move] en' show ?thesis by auto
qed

lemma reject_moves:
  "reject E (en_broker en) i code message = Inr (b, ord) \<Longrightarrow> oi_account_id i = ec_account_id k \<Longrightarrow>
     oi_strategy_id i = ec_strategy_id k \<Longrightarrow> R en (en\<lparr>en_broker := b\<rparr>)"
  by (rule broker_move [where op = "RejectOp i code message"]) simp_all

lemma handle_intent_moves:
  assumes "handle_intent E k ev s i = Inr s'" "oi_account_id i = ec_account_id k \<and> oi_strategy_id i = ec_strategy_id k"
  shows "R (fst s) (fst s')"
  using assms
  by (auto simp: handle_intent_def split: prod.splits if_splits
      intro: accept_intent_moves reject_moves)

lemma process_event_moves:
  assumes "process_event E k seed s re = Inr s'"
  shows "R (fst s) (fst s')"
  using assms
proof (cases rule: process_event_phases)
  case (phases en1 en2 s3 s4 s5 c en6 s7 intents en8)
  note first = before_immediate_moves [OF phases(1-5)]
  note second = expire_immediate_orders_moves [OF phases(6)] runtime_stop_moves [OF phases(7), simplified] checked_intents(1) [OF phases(8)]
  have "R en8 (fst s')"
    by (rule fold_moves [where h = fst, OF phases(9), simplified])
      (rule handle_intent_moves, assumption, rule checked_intents(2) [OF phases(8)])
  with first second show ?thesis by (meson trans)
qed

lemma process_events_move: "fold_res (process_event E k seed) s events = Inr s' \<Longrightarrow> R (fst s) (fst s')"
  by (auto intro: fold_moves_fst process_event_moves)

lemma run_until_moves:
  assumes "run_until f s xs = (s', r)" "\<And>s x s'. f s x = Inr s' \<Longrightarrow> R (h s) (h s')"
  shows "R (h s) (h s')"
  using assms(1)
proof (induction xs arbitrary: s)
  case (Cons x xs)
  show ?case
  proof (cases "f s x")
    case (Inr u)
    with Cons have "R (h u) (h s')" by simp
    then show ?thesis using assms(2) [OF Inr] trans by blast
  qed (use Cons.prems in simp)
qed simp

lemma stream_event_moves:
  "stream_event E k seed x re = Inr y \<Longrightarrow> R (fst (fst x)) (fst (fst y))"
  by (cases x; cases y) (auto simp: stream_event_Inr stream_process_event_eq dest: process_event_moves)

end

section \<open>Everything goes through the components\<close>

text \<open>
  The states of broker and ledger after a step are reached from those before by a sequence of
  their operations that the engine may use.
\<close>

definition driven :: "env \<Rightarrow> 'st engine_config \<Rightarrow> 'st engine \<Rightarrow> 'st engine \<Rightarrow> bool" where
  "driven E k en en' \<longleftrightarrow>
     (\<exists>bops. Ball (set bops) (engine_broker_op k) \<and> fold_res (broker_step E) (en_broker en) bops = Inr (en_broker en'))
   \<and> (\<exists>lops. Ball (set lops) engine_ledger_op \<and> fold_res (ledger_step E (engine_ledger k)) (en_ledger en) lops = Inr (en_ledger en'))"

lemma fold_res_join:
  "Ball (set xs) P \<and> fold_res f s xs = Inr t \<Longrightarrow> Ball (set ys) P \<and> fold_res f t ys = Inr u \<Longrightarrow>
     \<exists>zs. Ball (set zs) P \<and> fold_res f s zs = Inr u"
  by (rule exI [of _ "xs @ ys"]) (auto simp: fold_res_append)

lemma driven_trans: "driven E k en en1 \<Longrightarrow> driven E k en1 en2 \<Longrightarrow> driven E k en en2"
  unfolding driven_def by (blast intro: fold_res_join)

lemma driven_same: "en_broker en' = en_broker en \<Longrightarrow> en_ledger en' = en_ledger en \<Longrightarrow> driven E k en en'"
  unfolding driven_def by (intro conjI exI [of _ "[]"]) simp_all

lemma driven_broker:
  "broker_step E (en_broker en) op = Inr b \<Longrightarrow> engine_broker_op k op \<Longrightarrow> driven E k en (en\<lparr>en_broker := b\<rparr>)"
  unfolding driven_def by (intro conjI exI [of _ "[op]"] exI [of _ "[]"]) simp_all

lemma driven_ledger:
  "ledger_step E (engine_ledger k) (en_ledger en) op = Inr l \<Longrightarrow> engine_ledger_op op \<Longrightarrow> driven E k en (en\<lparr>en_ledger := l\<rparr>)"
  unfolding driven_def by (intro conjI exI [of _ "[op]"] exI [of _ "[]"]) simp_all

interpretation drive: engine_moves E k "driven E k" for E k
  by unfold_locales (auto intro: driven_trans driven_same driven_broker driven_ledger dest: market_engine_op)

lemma replay_InrE:
  assumes "replay E k stream seed en = (Inr result, en')"
  obtains events en0 s where "validated_events stream = Inr events"
    "engine_reset E k (case events of [] \<Rightarrow> None | e # _ \<Rightarrow> Some (me_available_at (header e))) en = Inr en0"
    "fold_res (process_event E k seed) (en0, empty_log False) events = Inr s"
    "finalize_replay E k seed events s = Inr (result, en')"
  using assms by (auto simp: replay_def Let_def replay_body_Inr split: if_splits sum.splits prod.splits)

lemma finalize_replay_keeps:
  "finalize_replay E k seed events s = Inr (result, en') \<Longrightarrow> en_broker en' = en_broker (fst s) \<and> en_ledger en' = en_ledger (fst s)"
  by (auto simp: finalize_replay_def split: prod.splits)

lemma engine_reset_fields:
  "engine_reset E k t en = Inr en0 \<Longrightarrow> en_broker en0 = broker_reset \<and> ledger_reset E (engine_ledger k) t = Inr (en_ledger en0)
     \<and> en_gate en0 = gate_reset \<and> en_matching en0 = matching_reset (en_matching en)"
  by (auto simp: engine_reset_def)

text \<open>
  C27: A finished replay has driven its components only through their operations: the book of
  orders is reached from an empty broker by a run of broker operations, none a cancellation
  and every intent of the engine's own account and strategy, and the ledger from its reset by
  observations, events and replayed fills and fees.  So what holds of every such run of the
  broker or of the ledger, their invariants first, holds after the replay.
\<close>

theorem replay_drives_its_components:
  assumes "replay E k stream seed en = (Inr result, en')"
  shows "\<exists>bops lops opened_at l0. ledger_reset E (engine_ledger k) opened_at = Inr l0
     \<and> Ball (set bops) (engine_broker_op k) \<and> fold_res (broker_step E) broker_reset bops = Inr (en_broker en')
     \<and> Ball (set lops) engine_ledger_op \<and> fold_res (ledger_step E (engine_ledger k)) l0 lops = Inr (en_ledger en')
     \<and> (fixed_env E \<and> admissible (broker_step E) (broker_op_ok E) broker_reset bops \<longrightarrow> broker_inv (en_broker en'))
     \<and> (fixed_env E \<and> admissible (ledger_step E (engine_ledger k)) (ledger_op_ok E (engine_ledger k)) l0 lops
          \<longrightarrow> ledger_inv E (engine_ledger k) (en_ledger en'))"
proof -
  obtain events en0 s where reset: "engine_reset E k (case events of [] \<Rightarrow> None | e # _ \<Rightarrow> Some (me_available_at (header e))) en = Inr en0"
    and run: "fold_res (process_event E k seed) (en0, empty_log False) events = Inr s"
    and fin: "finalize_replay E k seed events s = Inr (result, en')"
    by (rule replay_InrE [OF assms])
  note start = engine_reset_fields [OF reset] and last = finalize_replay_keeps [OF fin]
  from drive.process_events_move [OF run] have "driven E k en0 (fst s)" by simp
  then obtain bops lops where b: "Ball (set bops) (engine_broker_op k)" "fold_res (broker_step E) broker_reset bops = Inr (en_broker en')"
    and l: "Ball (set lops) engine_ledger_op" "fold_res (ledger_step E (engine_ledger k)) (en_ledger en0) lops = Inr (en_ledger en')"
    using start last by (auto simp: driven_def)
  have bi: "broker_inv (en_broker en')" if "fixed_env E" "admissible (broker_step E) (broker_op_ok E) broker_reset bops"
    using fixed_env.broker_run_inv [OF that(1) that(2) b(2)] .
  have li: "ledger_inv E (engine_ledger k) (en_ledger en')" if "fixed_env E"
      "admissible (ledger_step E (engine_ledger k)) (ledger_op_ok E (engine_ledger k)) (en_ledger en0) lops"
    using fixed_env.ledger_run_inv [OF that(1) fixed_env.ledger_reset_inv [OF that(1)] that(2) l(2)] start by blast
  show ?thesis using start b l bi li by blast
qed

section \<open>Histories only grow\<close>

definition recorded_events :: "broker_state \<Rightarrow> order_event list" where
  "recorded_events b = br_events b @ sink_events (br_artifact_sink b)"

definition grows :: "broker_state \<Rightarrow> broker_state \<Rightarrow> bool" where
  "grows b b' \<longleftrightarrow> (br_artifact_sink b \<noteq> None \<longrightarrow> br_events b = []) \<longrightarrow>
     (br_artifact_sink b' \<noteq> None \<longrightarrow> br_events b' = []) \<and> prefix (recorded_events b) (recorded_events b')"

lemma grows_refl [simp]: "grows b b"
  by (simp add: grows_def)

lemma grows_trans: "grows b b1 \<Longrightarrow> grows b1 b2 \<Longrightarrow> grows b b2"
  unfolding grows_def by (meson prefix_order.trans)

lemma grows_record: "br_events b1 = br_events b \<Longrightarrow> br_artifact_sink b1 = br_artifact_sink b \<Longrightarrow> grows b (record_event ev ord b1)"
  by (auto simp: grows_def recorded_events_def record_event_def sink_events_def split: option.splits if_splits)

lemma grows_same: "br_events b1 = br_events b \<Longrightarrow> br_artifact_sink b1 = br_artifact_sink b \<Longrightarrow> grows b b1"
  by (simp add: grows_def recorded_events_def)

lemma expire_grows: "expire E b oid t reason = Inr (b', ev) \<Longrightarrow> grows b b'"
  by (auto simp: expire_def close_order_def intro: grows_record)

lemma expire_day_orders_grows:
  assumes "expire_day_orders E b d t = Inr (b', evs)"
  shows "grows b b'"
proof (cases "br_day_order_ids b = []")
  case False
  with assms obtain ords where "fold_res (expire_if_due E d t) (b, []) (sort_key order_sort_key ords) = Inr (b', evs)"
    by (auto simp: expire_day_orders_def)
  then have "grows b (fst (b', evs))"
    by (rule fold_res_invariant [where P = "\<lambda>x. grows b (fst x)"])
      (auto simp: expire_if_due_def intro: grows_trans [OF _ expire_grows] split: prod.splits if_splits)
  then show ?thesis by simp
qed (use assms in \<open>auto simp: expire_day_orders_def\<close>)

lemma fill_key_grows: "grows b b1 \<Longrightarrow> grows b (b1\<lparr>br_fill_keys := x\<rparr>)"
  by (simp add: grows_def recorded_events_def)

lemma apply_fill_grows: "apply_fill E b f trusted = Inr (b', ev) \<Longrightarrow> grows b b'"
  by (auto simp: apply_fill_def Let_def store_filled_def close_order_def split: option.splits fill_key.splits if_splits
      intro!: fill_key_grows grows_record)

lemma broker_step_grows: "engine_broker_op k op \<Longrightarrow> broker_step E b op = Inr b' \<Longrightarrow> grows b b'"
  by (cases op) (auto simp: submit_def reject_def note_trading_day_def Let_def split: option.splits if_splits stored_order.splits
      intro: grows_record grows_same expire_grows apply_fill_grows expire_day_orders_grows)

lemma same_books_journal: "same_books l l' \<Longrightarrow> journal_of l' = journal_of l"
  by (auto simp: same_books_def journal_of_def split: option.splits)

lemma apply_event_journal:
  assumes "apply_event E c ev d create rollback trusted l = (Inr snap, l')"
  shows "prefix (journal_of l) (journal_of l')"
  using assms
proof (cases rule: apply_event_InrE)
  case (new prepared t)
  obtain l1 l2 where p: "if no_effect_action ev t then l1 = l else post E c rollback t l = (Inr (), l1)"
    and s: "event_state E ev d prepared l1 = (Inr (), l2)" and r: "release_fill c ev (note_event E c ev trusted t l2) = (Inr (), l')"
    by (rule commit_event_InrE [OF new(7)])
  have "same_books l1 l'"
    by (rule same_books_trans [OF event_state_books [OF s] same_books_trans [OF note_event_books release_fill_books [OF r]]])
  then have "journal_of l' = journal_of l1" by (rule same_books_journal)
  moreover have "prefix (journal_of l) (journal_of l1)"
  proof (cases "no_effect_action ev t")
    case False
    with p have "post E c rollback t l = (Inr (), l1)" by simp
    then show ?thesis by (cases rule: post_Inr) (auto simp: journal_of_def)
  qed (use p in simp)
  ultimately show ?thesis by simp
qed simp

lemma ledger_step_journal:
  assumes "engine_ledger_op op" "ledger_step E c l op = Inr l'"
  shows "prefix (journal_of l) (journal_of l')"
proof (cases op)
  case (ApplyOp ev create)
  with assms(2) obtain snap d where "apply_on_day E c ev d create l = (Inr snap, l')"
    by (auto simp: ledger_step_def outcome_Inr apply_ledger_def)
  then show ?thesis
    by (elim apply_on_day_InrE) (simp add: apply_event_journal same_books_journal [OF record_new_event_books])
next
  case (ReplayOp ev d)
  with assms(2) obtain snap l1 n where "apply_event E c ev d False False True l = (Inr snap, l1)"
    and "l' = record_replay_fact c (LedgerFact ev d) n l1"
    by (auto simp: ledger_step_def outcome_Inr apply_replay_event_def bind_Inr split: if_splits)
  then show ?thesis by (simp add: apply_event_journal same_books_journal [OF record_replay_fact_books])
next
  case (ObserveOp ev create trusted)
  with assms(2) have "same_books l l'"
    by (auto simp: ledger_step_def outcome_Inr intro: observe_market_books)
  then show ?thesis by (simp add: same_books_journal)
qed (use assms(1) in simp_all)

interpretation history: engine_moves E k
  "\<lambda>en en'. grows (en_broker en) (en_broker en') \<and> prefix (journal_of (en_ledger en)) (journal_of (en_ledger en'))" for E k
  by unfold_locales (auto intro: grows_trans broker_step_grows broker_step_grows [OF market_engine_op] ledger_step_journal prefix_order.trans)

text \<open>
  C26: Processing events only appends, in the loop of \<open>replay\<close> and in that of \<open>replay_to_sink\<close>
  with its sinks attached: the order events recorded so far, in memory or in the
  sink, stay the beginning of the history of order events, and the journal the beginning of
  the journal; no later event rewrites or drops what an earlier one booked.  (A broker that
  streams keeps no events in memory, as its start of the stream demands.)
\<close>

theorem events_only_append:
  assumes "fold_res (process_event E k seed) (en, facts) events = Inr (en', facts')
      \<or> fold_res (stream_event E k seed) ((en, facts), seen, prior) events = Inr ((en', facts'), later)"
    and "br_artifact_sink (en_broker en) \<noteq> None \<longrightarrow> br_events (en_broker en) = []"
  shows "prefix (recorded_events (en_broker en)) (recorded_events (en_broker en'))
     \<and> prefix (journal_of (en_ledger en)) (journal_of (en_ledger en'))"
proof -
  have "grows (en_broker en) (en_broker en') \<and> prefix (journal_of (en_ledger en)) (journal_of (en_ledger en'))"
    using assms(1)
  proof
    assume "fold_res (process_event E k seed) (en, facts) events = Inr (en', facts')"
    from history.process_events_move [OF this] show ?thesis by simp
  next
    assume "fold_res (stream_event E k seed) ((en, facts), seen, prior) events = Inr ((en', facts'), later)"
    from history.fold_moves [where h = "\<lambda>x. fst (fst x)", OF this history.stream_event_moves] show ?thesis by simp
  qed
  with assms(2) show ?thesis by (simp add: grows_def)
qed

section \<open>Checkpoints\<close>

lemma broker_step_sink:
  assumes "engine_broker_op k op" "broker_step E b op = Inr b'" "br_artifact_sink b = None"
  shows "br_artifact_sink b' = None"
proof -
  have noted: "br_artifact_sink b1 = None \<Longrightarrow> br_artifact_sink (record_event ev ord b1) = None" for ev ord and b1 :: broker_state
    by (simp add: record_event_def)
  have expire: "expire E b1 oid t reason = Inr (b2, ev) \<Longrightarrow> br_artifact_sink b1 = None \<Longrightarrow> br_artifact_sink b2 = None"
    for b1 oid t reason b2 ev
    by (auto simp: expire_def close_order_def noted)
  have days: "br_artifact_sink (fst y) = None"
    if "fold_res (expire_if_due E d t) x ords = Inr y" "br_artifact_sink (fst x) = None" for d t x ords y
    by (rule fold_res_invariant [OF that(1), where P = "\<lambda>x. br_artifact_sink (fst x) = None"])
      (auto simp: that(2) expire_if_due_def split: prod.splits if_splits dest: expire)
  show ?thesis
    using assms
    by (cases op) (auto simp: submit_def reject_def note_trading_day_def apply_fill_def expire_day_orders_def Let_def store_filled_def
        close_order_def noted split: option.splits if_splits stored_order.splits fill_key.splits dest: expire days)
qed

lemma ledger_step_sink:
  assumes "engine_ledger_op op" "ledger_step E c l op = Inr l'" "lg_artifact_sink l = None"
  shows "lg_artifact_sink l' = None"
proof -
  have books: "same_books l1 l2 \<Longrightarrow> lg_artifact_sink l1 = None \<Longrightarrow> lg_artifact_sink l2 = None" for l1 l2
    by (simp add: same_books_def)
  have event: "lg_artifact_sink l2 = None"
    if e: "apply_event E c ev d create rollback trusted l1 = (Inr snap, l2)" and n: "lg_artifact_sink l1 = None"
    for ev d create rollback trusted l1 snap l2
    using e
  proof (cases rule: apply_event_InrE)
    case (new prepared t)
    obtain l3 l4 where p: "if no_effect_action ev t then l3 = l1 else post E c rollback t l1 = (Inr (), l3)"
      and s: "event_state E ev d prepared l3 = (Inr (), l4)" and r: "release_fill c ev (note_event E c ev trusted t l4) = (Inr (), l2)"
      by (rule commit_event_InrE [OF new(7)])
    have "lg_artifact_sink l3 = None" using p n by (auto split: if_splits elim!: post_Inr)
    then show ?thesis
      using books [OF same_books_trans [OF event_state_books [OF s] same_books_trans [OF note_event_books release_fill_books [OF r]]]] by blast
  qed (simp add: n)
  show ?thesis
  proof (cases op)
    case (ApplyOp ev create)
    with assms(2) obtain snap d where "apply_on_day E c ev d create l = (Inr snap, l')"
      by (auto simp: ledger_step_def outcome_Inr apply_ledger_def)
    then show ?thesis
      by (elim apply_on_day_InrE) (metis event books record_new_event_books assms(3))
  next
    case (ReplayOp ev d)
    with assms(2) obtain snap l1 n where "apply_event E c ev d False False True l = (Inr snap, l1)"
      and "l' = record_replay_fact c (LedgerFact ev d) n l1"
      by (auto simp: ledger_step_def outcome_Inr apply_replay_event_def bind_Inr split: if_splits)
    with event assms(3) show ?thesis by (metis books record_replay_fact_books)
  next
    case (ObserveOp ev create trusted)
    with assms(2) have "same_books l l'"
      by (auto simp: ledger_step_def outcome_Inr intro: observe_market_books)
    with assms(3) books show ?thesis by blast
  qed (use assms(1) in simp_all)
qed

text \<open>A run attaches no sink of its own accord and never changes the parameters of its matching model.\<close>

definition stays_restorable :: "'st engine \<Rightarrow> 'st engine \<Rightarrow> bool" where
  "stays_restorable en en' \<longleftrightarrow> matching_reset (en_matching en') = matching_reset (en_matching en)
     \<and> (br_artifact_sink (en_broker en) = None \<longrightarrow> br_artifact_sink (en_broker en') = None)
     \<and> (lg_artifact_sink (en_ledger en) = None \<longrightarrow> lg_artifact_sink (en_ledger en') = None)"

interpretation undo: engine_moves E k stays_restorable for E k
  by unfold_locales (auto simp: stays_restorable_def dest: broker_step_sink broker_step_sink [OF market_engine_op] ledger_step_sink)

lemma ledger_reset_sink:
  assumes "ledger_reset E c t = Inr l"
  shows "lg_artifact_sink l = None"
proof -
  from assms obtain at0 l1 where fx: "fold_res (\<lambda>l (currency, rate). set_fx_rate E c currency rate at0 l) (blank_ledger c at0)
      (sort_key fst (lc_initial_fx c)) = Inr l1"
    and cash: "fold_res (opening_cash E c at0) l1 (sort_key fst (lc_initial_cash c)) = Inr l"
    by (auto simp: ledger_reset_def)
  have "lg_artifact_sink l1 = None"
    by (rule fold_res_invariant [OF fx]) (auto simp: blank_ledger_def same_books_def dest: set_fx_rate_books split: prod.splits)
  then show ?thesis
    by (rule fold_res_invariant [OF cash]) (auto simp: opening_cash_def outcome_Inr split: prod.splits elim!: post_Inr)
qed

lemma matching_reset_idem [simp]: "matching_reset (matching_reset m) = matching_reset m"
  by (cases m) (simp_all add: matching_reset_def bar_reset_def bbo_reset_def l2_reset_def)

lemma engine_reset_restorable: "engine_reset E k t en = Inr en0 \<Longrightarrow> restorable en en0"
  by (auto simp: engine_reset_def restorable_def broker_reset_def ledger_reset_sink matching_reset_idem)

lemma replay_body_restorable:
  assumes "replay_body E k seed events en = (Inl e, cur)" "restorable en en"
  shows "restorable en cur"
proof (cases "engine_reset E k (case events of [] \<Rightarrow> None | e # _ \<Rightarrow> Some (me_available_at (header e))) en")
  case (Inl e)
  with assms show ?thesis by (auto simp: replay_body_def restorable_def broker_reset_def)
next
  case (Inr en0)
  obtain s r where run: "run_until (process_event E k seed) (en0, empty_log False) events = (s, r)" by fastforce
  have "cur = fst s" using assms(1) by (auto simp: replay_body_def Inr run finished_def split: sum.splits)
  moreover have "stays_restorable (fst (en0, empty_log False)) (fst s)"
    by (rule undo.run_until_moves [OF run]) (rule undo.process_event_moves)
  ultimately show ?thesis using engine_reset_restorable [OF Inr] by (simp add: stays_restorable_def restorable_def)
qed

lemma stream_body_restorable:
  assumes "stream_body E k files seed stream en = (Inl e, cur)"
  shows "matching_reset (en_matching cur) = matching_reset (en_matching en)"
proof (cases "engine_reset E k (case stream of [] \<Rightarrow> None | e # _ \<Rightarrow> Some (me_available_at (header e))) en")
  case (Inl e)
  with assms show ?thesis by (auto simp: stream_body_def)
next
  case (Inr en0)
  note R = engine_reset_restorable [OF Inr, unfolded restorable_def]
  show ?thesis
  proof (cases "start_streams k en0")
    case (Inl e)
    with assms Inr R show ?thesis by (auto simp: stream_body_def)
  next
    case (Inr en1)
    obtain x r where run: "run_until (stream_event E k seed) ((en1, empty_log True), [], None) stream = (x, r)" by fastforce
    have "cur = fst (fst x)"
      using assms by (cases x) (auto simp: stream_body_def \<open>engine_reset _ _ _ _ = Inr en0\<close> Inr run finished_def split: sum.splits)
    moreover from undo.run_until_moves [where h = "\<lambda>x. fst (fst x)", OF run undo.stream_event_moves]
    have "stays_restorable en1 (fst (fst x))" by simp
    moreover have "en_matching en1 = en_matching en0" using Inr by (auto simp: start_streams_def)
    ultimately show ?thesis using R by (simp add: stays_restorable_def)
  qed
qed

text \<open>
  C25: A replay that fails, in memory, over segments or into a sink, leaves an engine that had
  no sink attached exactly as it was: every table of the broker, the ledger and the gate, the private state of the matching
  model, the strategy and both kinds of artifacts.  The checkpoint is copied and put back field by
  field over the state the run had reached, and it does so over any state of the same engine, so
  also over what a half-done step leaves.
\<close>

theorem failed_replay_leaves_the_engine:
  assumes "br_artifact_sink (en_broker en) = None" "lg_artifact_sink (en_ledger en) = None"
    and "replay E k stream seed en = (Inl e, en') \<or> replay_segments E k segments seed en = (Inl e, en')
       \<or> replay_to_sink E k files stream seed en = (Inl e, en')"
  shows "en' = en \<and> (\<forall>cur. matching_reset (en_matching cur) = matching_reset (en_matching en) \<longrightarrow>
     engine_restore (engine_capture en) (abort_streams cur) = en)"
proof -
  have self: "restorable en en" using assms(1,2) by (simp add: restorable_def)
  note undone = engine_restore_captured [OF self]
  have batch: "en' = en" if "replay E k events seed en = (Inl e, en')" for events
    using that undone replay_body_restorable [OF _ self]
    by (auto simp: replay_def Let_def split: if_splits sum.splits prod.splits)
  have sink: "en' = en" if "replay_to_sink E k files stream seed en = (Inl e, en')"
    using that
    by (auto simp: replay_to_sink_def Let_def split: if_splits sum.splits prod.splits
        intro!: undone abort_streams_restorable dest: stream_body_restorable)
  have "replay_segments E k segments seed en = (Inl e, en') \<Longrightarrow> en' = en"
    using batch by (auto simp: replay_segments_def split: sum.splits if_splits)
  with assms(3) batch sink have "en' = en" by blast
  then show ?thesis using undone abort_streams_restorable by blast
qed

section \<open>Immediate orders\<close>

lemma expire_index:
  "expire E b oid t reason = Inr (b', ev) \<Longrightarrow> oid \<notin> set (br_open_order_ids b')
     \<and> set (br_open_order_ids b') \<subseteq> set (br_open_order_ids b)
     \<and> set (br_immediate_order_ids b') \<subseteq> set (br_immediate_order_ids b)"
  by (auto simp: expire_def close_order_def set_remove_def set_discard_def split: if_splits)

definition immediate_swept :: "env \<Rightarrow> market_event \<Rightarrow> 'st engine \<Rightarrow> order list \<Rightarrow> 'st engine \<Rightarrow> bool" where
  "immediate_swept E ev en seen en' \<longleftrightarrow> broker_inv (en_broker en') \<and> en_matching en' = en_matching en
     \<and> set (br_open_order_ids (en_broker en')) \<subseteq> set (br_open_order_ids (en_broker en))
     \<and> (\<forall>ord \<in> set seen. eligible (matching_config (en_matching en)) ord ev \<longrightarrow>
          ord_order_id ord \<notin> set (br_open_order_ids (en_broker en')))
     \<and> (\<forall>oid \<in> set (br_open_order_ids (en_broker en')). dget (br_orders (en_broker en')) oid = dget (br_orders (en_broker en)) oid)"

lemma immediate_swept_step:
  assumes "fixed_env E" "immediate_swept E ev en seen en1" "expire_immediate E ev en1 ord = Inr en2"
  shows "immediate_swept E ev en (seen @ [ord]) en2"
proof (cases "eligible (matching_config (en_matching en)) ord ev")
  case True
  with assms(2,3) obtain b x reason where b: "expire E (en_broker en1) (ord_order_id ord) (me_available_at ev) reason = Inr (b, x)"
    and en2: "en_broker en2 = b" "en_matching en2 = en_matching en1"
    by (auto simp: expire_immediate_def expire_and_release_def immediate_swept_def)
  have inv: "broker_inv (en_broker en1)" using assms(2) by (simp add: immediate_swept_def)
  note I = expire_index [OF b] and K = expire_keeps(1) [OF assms(1) inv b]
  from assms(2) I K fixed_env.expire_inv [OF assms(1) inv b] show ?thesis
    unfolding immediate_swept_def en2 set_append by (auto dest: subsetD) (metis subsetD)
next
  case False
  with assms(2,3) show ?thesis by (auto simp: expire_immediate_def immediate_swept_def)
qed

lemma swept_orders_are_not_eligible:
  assumes "fixed_env E" "broker_inv (en_broker en)" "expire_immediate_orders E ev en = Inr en'"
    and "dget (br_orders (en_broker en')) oid = Some (Live ord)" "open_status (ord_status ord)"
    and "oi_time_in_force (ord_intent ord) \<in> {IOC, FOK}"
  shows "\<not> eligible (matching_config (en_matching en')) ord ev
     \<and> dget (br_orders (en_broker en)) oid = Some (Live ord) \<and> broker_inv (en_broker en')"
proof -
  let ?b = "en_broker en" and ?b' = "en_broker en'"
  from assms(3) obtain ords where ords: "immediate_orders ?b = Inr ords" "fold_res (expire_immediate E ev) en ords = Inr en'"
    by (auto simp: expire_immediate_orders_def)
  have swept: "immediate_swept E ev en ords en'"
    by (rule fold_res_prefix_invariant [OF ords(2), where P = "immediate_swept E ev en"])
      (use assms(2) in \<open>auto simp: immediate_swept_def [of E ev en "[]"] intro: immediate_swept_step [OF assms(1)]\<close>)
  then have inv: "broker_inv ?b'" by (simp add: immediate_swept_def)
  have "oid \<in> set (br_open_order_ids ?b')" using broker_invD(3) [OF inv] assms(4,5) by (auto simp: is_open_def)
  with swept assms(4) have old: "dget (br_orders ?b) oid = Some (Live ord)" by (simp add: immediate_swept_def)
  then have "oid \<in> set (br_immediate_order_ids ?b)"
    using broker_invD(4) [OF assms(2)] assms(5,6) by (auto simp: is_immediate_def)
  moreover from this ords(1) obtain ls where "map_res (live_order ?b) (br_immediate_order_ids ?b) = Inr ls" "set ords = set ls"
    by (auto simp: immediate_orders_def split: if_splits)
  moreover have "live_order ?b oid = Inr ord" by (simp add: live_order_def old)
  ultimately have "ord \<in> set ords" by (metis map_res_image)
  moreover have "ord_order_id ord = oid" using broker_invD(1) [OF assms(2) old] by simp
  ultimately have "\<not> eligible (matching_config (en_matching en)) ord ev"
    using swept \<open>oid \<in> set (br_open_order_ids ?b')\<close> by (auto simp: immediate_swept_def)
  then show ?thesis using swept old inv by (simp add: immediate_swept_def)
qed

text \<open>Up to the sweep, orders are only filled and expired: the book stays well-formed and no key is forgotten.\<close>

definition keeps_book :: "env \<Rightarrow> 'st engine \<Rightarrow> 'st engine \<Rightarrow> bool" where
  "keeps_book E en en' \<longleftrightarrow> (fixed_env E \<longrightarrow> broker_inv (en_broker en) \<longrightarrow> broker_inv (en_broker en'))
     \<and> br_submit_keys (en_broker en') = br_submit_keys (en_broker en)
     \<and> matching_reset (en_matching en') = matching_reset (en_matching en)"

lemma market_step_keys: "broker_step E b op = Inr b' \<Longrightarrow> market_broker_op op \<Longrightarrow> br_submit_keys b' = br_submit_keys b"
proof -
  have noted: "br_submit_keys (record_event ev ord b1) = br_submit_keys b1" for ev ord b1
    by (simp add: record_event_def split: option.splits)
  have expire: "expire E b1 oid t reason = Inr (b2, ev) \<Longrightarrow> br_submit_keys b2 = br_submit_keys b1" for b1 oid t reason b2 ev
    by (auto simp: expire_def close_order_def noted)
  have days: "br_submit_keys (fst y) = br_submit_keys (fst x)" if "fold_res (expire_if_due E d t) x ords = Inr y" for d t x ords y
    by (rule fold_res_invariant [OF that, where P = "\<lambda>y. br_submit_keys (fst y) = br_submit_keys (fst x)"])
      (auto simp: expire_if_due_def split: prod.splits if_splits dest: expire)
  show "broker_step E b op = Inr b' \<Longrightarrow> market_broker_op op \<Longrightarrow> br_submit_keys b' = br_submit_keys b"
    by (cases op) (auto simp: apply_fill_def expire_day_orders_def store_filled_def close_order_def Let_def noted
        split: option.splits fill_key.splits if_splits dest: expire days)
qed

lemma market_step_inv:
  "fixed_env E \<Longrightarrow> broker_inv b \<Longrightarrow> broker_step E b op = Inr b' \<Longrightarrow> market_broker_op op \<Longrightarrow> broker_inv b'"
  by (rule fixed_env.broker_step_inv) (auto elim: market_broker_op.elims)

interpretation book: event_moves E k "keeps_book E" for E k
  by unfold_locales (auto simp: keeps_book_def market_step_keys dest: market_step_inv)

text \<open>
  After the sweep, an order that is open under a recorded key was open before with the same intent:
  only an intent with a new key opens an order.
\<close>

definition opens_new_keys :: "broker_state \<Rightarrow> broker_state \<Rightarrow> bool" where
  "opens_new_keys b b' \<longleftrightarrow> (\<forall>key. dget (br_submit_keys b) key \<noteq> None \<longrightarrow> dget (br_submit_keys b') key \<noteq> None)
     \<and> (\<forall>oid ord'. dget (br_orders b') oid = Some (Live ord') \<longrightarrow> open_status (ord_status ord') \<longrightarrow>
          dget (br_submit_keys b) (oi_idempotency_key (ord_intent ord')) \<noteq> None \<longrightarrow>
          (\<exists>ord. dget (br_orders b) oid = Some (Live ord) \<and> open_status (ord_status ord) \<and> ord_intent ord = ord_intent ord'))"

lemma opens_refl [simp]: "opens_new_keys b b"
  by (simp add: opens_new_keys_def)

lemma opens_trans: "opens_new_keys b b1 \<Longrightarrow> opens_new_keys b1 b2 \<Longrightarrow> opens_new_keys b b2"
  unfolding opens_new_keys_def by metis

lemma opens_same: "br_orders b' = br_orders b \<Longrightarrow> br_submit_keys b' = br_submit_keys b \<Longrightarrow> opens_new_keys b b'"
  by (simp add: opens_new_keys_def)

lemma opens_record: "opens_new_keys b b1 \<Longrightarrow> opens_new_keys b (record_event ev ord b1)"
  by (auto simp: opens_new_keys_def record_event_def split: option.splits)

lemma transition_status: "transition_order E ord target eid t q reason = Inr (ord', ev) \<Longrightarrow> ord_status ord' = target"
  by (drule transition_orderD(7)) auto

lemma expire_opens: 
  assumes "expire E b oid t reason = Inr (b', ev)"
  shows "opens_new_keys b b'"
proof -
  from assms obtain ord ord' b1 eid where tr: "transition_order E ord EXPIRED eid t None reason = Inr (ord', ev)"
    and c: "close_order b oid ord' = Inr b1" and b': "b' = record_event ev ord' b1"
    by (auto simp: expire_def)
  have "ord_status ord' = EXPIRED" by (rule transition_status [OF tr])
  then have "opens_new_keys b b1" using c by (auto simp: close_order_def opens_new_keys_def open_status_def split: if_splits)
  then show ?thesis by (simp add: b' opens_record)
qed

lemma opens_new_entry:
  assumes "br_orders b1 = dset oid (Live ord) (br_orders b)" "br_submit_keys b1 = dset key v (br_submit_keys b)"
    and "open_status (ord_status ord) \<longrightarrow> oi_idempotency_key (ord_intent ord) = key" "dget (br_submit_keys b) key = None"
  shows "opens_new_keys b (record_event ev ord b1)"
  by (rule opens_record) (use assms in \<open>auto simp: opens_new_keys_def split: if_splits\<close>)

lemma submit_opens: "submit E b i = Inr (b', ord) \<Longrightarrow> opens_new_keys b b'"
  by (cases "dget (br_submit_keys b) (oi_idempotency_key i)")
    (auto simp: submit_def Let_def order_fact_def split: if_splits intro!: opens_new_entry)

lemma reject_opens: "reject E b i code message = Inr (b', ord) \<Longrightarrow> opens_new_keys b b'"
  by (cases "dget (br_submit_keys b) (oi_idempotency_key i)")
    (auto simp: reject_def Let_def open_status_def split: if_splits dest!: transition_status intro!: opens_new_entry)

lemma note_trading_day_opens: "note_trading_day b oid d = Inr b' \<Longrightarrow> opens_new_keys b b'"
  by (auto simp: note_trading_day_def opens_new_keys_def split: option.splits stored_order.splits if_splits)

abbreviation engine_opens :: "'st engine \<Rightarrow> 'st engine \<Rightarrow> bool" where
  "engine_opens en en' \<equiv> opens_new_keys (en_broker en) (en_broker en')"

lemma expire_and_release_opens: "expire_and_release E oid t reason ord en = Inr en' \<Longrightarrow> engine_opens en en'"
  by (auto simp: expire_and_release_def dest: expire_opens)

lemma runtime_stop_opens:
  assumes "runtime_stop E k ev s = Inr s'"
  shows "engine_opens (fst s) (fst s')"
proof -
  have "engine_opens en en'" if "fold_res (\<lambda>en ord. expire_and_release E (ord_order_id ord) t reason ord en) en ords = Inr en'"
    for en en' t reason ords
    by (rule fold_res_invariant [OF that, where P = "engine_opens en"]) (auto intro: opens_trans expire_and_release_opens)
  with assms show ?thesis by (auto simp: runtime_stop_def split: prod.splits if_splits)
qed

lemma accept_intent_opens: "accept_intent E k ev i reservation en = Inr en' \<Longrightarrow> engine_opens en en'"
  unfolding accept_intent_def
  by (auto split: if_splits option.splits intro: opens_trans [OF submit_opens note_trading_day_opens])

lemma handle_intent_opens: "handle_intent E k ev s i = Inr s' \<Longrightarrow> engine_opens (fst s) (fst s')"
  by (auto simp: handle_intent_def split: prod.splits if_splits intro: accept_intent_opens reject_opens)

lemma matching_config_reset: "matching_config (matching_reset m) = matching_config m"
  by (cases m) (simp_all add: matching_reset_def matching_config_def bar_reset_def bbo_reset_def l2_reset_def)

text \<open>
  C28: Over a broker that satisfies its invariant
  an immediate order does not outlive the first event it could trade on, in the loop of
  \<open>replay\<close> and in that of \<open>replay_to_sink\<close>: an IOC or FOK order that was in the book when the
  event arrived, for the instrument of the event and past its latency, is no longer open when the event has been processed, whatever was filled, refused,
  expired or submitted on the way.  (An order the strategy submits while the event is processed
  meets its first event with the next one.)
\<close>

theorem immediate_orders_do_not_survive:
  assumes "fixed_env E" "broker_inv (en_broker en)"
    and "process_event E k seed (en, facts) re = Inr (en', facts') \<or> stream_process_event E k seed (en, facts) re = Inr (en', facts')"
    and "dget (br_orders (en_broker en)) oid = Some (Live ord)" "oi_time_in_force (ord_intent ord) \<in> {IOC, FOK}"
    and "dget (br_submit_keys (en_broker en)) (oi_idempotency_key (ord_intent ord)) \<noteq> None"
    and "eligible (matching_config (en_matching en)) ord (header re)"
  shows "\<not> (\<exists>ord'. dget (br_orders (en_broker en')) oid = Some (Live ord') \<and> ord_intent ord' = ord_intent ord
     \<and> open_status (ord_status ord'))"
proof -
  have "process_event E k seed (en, facts) re = Inr (en', facts')" using assms(3) by (simp add: stream_process_event_eq)
  then show ?thesis
  proof (cases rule: process_event_phases)
    case (phases en1 en2 s3 s4 s5 c en6 s7 intents en8)
    have book: "keeps_book E en (fst s5)" by (rule book.before_immediate_moves) (use phases(1-5) in simp_all)
    then have inv: "broker_inv (en_broker (fst s5))" using assms(1,2) by (simp add: keeps_book_def)
    have swept: "keeps_book E (fst s5) en6" by (rule book.expire_immediate_orders_moves [OF phases(6)])
    have same: "matching_config (en_matching en6) = matching_config (en_matching en)"
      using book swept by (metis keeps_book_def matching_config_reset)
    have "engine_opens en6 (fst s7)" using runtime_stop_opens [OF phases(7)] by simp
    moreover have "en_broker en8 = en_broker (fst s7)" using phases(8) by (auto simp: strategy_intents_def split: prod.splits)
    moreover have "engine_opens en8 en'"
      using fold_res_invariant [OF phases(9), where P = "\<lambda>s. engine_opens en8 (fst s)"] by (auto intro: opens_trans handle_intent_opens)
    ultimately have later: "engine_opens en6 en'" by (metis opens_trans)
    show ?thesis
    proof
      assume "\<exists>ord'. dget (br_orders (en_broker en')) oid = Some (Live ord') \<and> ord_intent ord' = ord_intent ord \<and> open_status (ord_status ord')"
      then obtain ord6 where o6: "dget (br_orders (en_broker en6)) oid = Some (Live ord6)" "open_status (ord_status ord6)"
        "ord_intent ord6 = ord_intent ord"
        using later book swept assms(6) unfolding opens_new_keys_def keeps_book_def by metis
      from swept_orders_are_not_eligible [OF assms(1) inv phases(6) o6(1,2)] o6(3) assms(5) same
      have "\<not> eligible (matching_config (en_matching en)) ord6 (header re)" by simp
      with assms(7) o6(3) show False by (simp add: eligible_def)
    qed
  qed
qed

end
