(* ===== verification/Engine_Demo.thy ===== *)
theory Engine_Demo
  imports Engine_Props Risk_Demo
begin

text \<open>
  The properties of the engine on a replay of one bar in which the strategy sends one order; the
  same strategy raising instead; and a book with an immediate order.
\<close>

definition engine_env :: env where
  "engine_env = std_env\<lparr>sha256_hex := (\<lambda>_. replicate 64 CHR ''0'')\<rparr>"

interpretation eenv: fixed_env engine_env
  using std.fixed_env_axioms by (auto simp add: fixed_env_def engine_env_def)

definition demo_engine_event :: "string \<Rightarrow> instant \<Rightarrow> replay_event" where
  "demo_engine_event eid t = MarketData ((demo_market_event (BarEvent demo_bar))
     \<lparr>me_event_id := eid, me_event_time := t, me_received_at := t, me_available_at := t, me_sequence := t\<rparr>)"

definition demo_engine_intent :: order_intent where
  "demo_engine_intent = demo_intent\<lparr>oi_quantity := \<lparr>units = 4, scale = 0\<rparr>, oi_created_at := 8\<rparr>"

definition demo_engine_config :: "bool engine_config" where
  "demo_engine_config = \<lparr>ec_run_id = ''r'', ec_account_id = ''acc'', ec_strategy_id = ''s'', ec_gate = demo_gate_config,
     ec_begin_replay = (\<lambda>_. False), ec_on_event = (\<lambda>seed sent re. (Inr (if sent then [] else [demo_engine_intent]), True)),
     ec_journal_sha256 = (\<lambda>l. Inr (replicate 64 CHR ''0''))\<rparr>"

definition demo_engine :: "bool engine" where
  "demo_engine = \<lparr>en_broker = broker_reset, en_gate = gate_reset, en_ledger = blank_ledger demo_share_config 0,
     en_matching = BarMatching demo_bar_model, en_strategy = False, en_artifacts = None, en_stored_artifacts = None\<rparr>"

definition demo_outcome :: "(run_result res \<times> bool engine) \<Rightarrow> (int \<times> int \<times> int) option" where
  "demo_outcome x = (case x of (Inr r, en) \<Rightarrow> Some (rr_event_count r, rr_order_count r, rr_fill_count r) | _ \<Rightarrow> None)"


definition demo_raising_config :: "bool engine_config" where
  "demo_raising_config = demo_engine_config\<lparr>ec_on_event := (\<lambda>seed sent re. (raise ''strategy'', sent))\<rparr>"

lemma engine_demo_facts:
  "demo_outcome (replay engine_env demo_engine_config [demo_engine_event ''e1'' 8] 0 demo_engine) = Some (1, 1, 0)" (is ?p1)
  "\<not> returns (fst (replay engine_env demo_raising_config [demo_engine_event ''e1'' 8] 0 demo_engine))" (is ?p2)
proof -
  have "?p1 \<and> ?p2" by code_simp
  then show ?p1 ?p2 by blast+
qed

lemma demo_replayed_Inr:
  obtains result en where "replay engine_env demo_engine_config [demo_engine_event ''e1'' 8] 0 demo_engine = (Inr result, en)"
    "rr_order_count result = 1"
  using engine_demo_facts(1) by (auto simp: demo_outcome_def split: prod.splits sum.splits)

theorem replay_is_deterministic_witness:
  "fst (replay engine_env demo_engine_config [demo_engine_event ''e2'' 9, demo_engine_event ''e1'' 8] 0 demo_engine)
     = fst (replay engine_env demo_engine_config [demo_engine_event ''e1'' 8, demo_engine_event ''e2'' 9] 0
         (demo_engine\<lparr>en_strategy := True, en_broker := demo_book\<rparr>))"
  using replay_is_deterministic [of "[demo_engine_event ''e2'' 9, demo_engine_event ''e1'' 8]"
      "[demo_engine_event ''e1'' 8, demo_engine_event ''e2'' 9]" demo_engine
      "demo_engine\<lparr>en_strategy := True, en_broker := demo_book\<rparr>" demo_engine_config engine_env 0]
  by (simp add: demo_engine_config_def)

theorem failed_replay_leaves_the_engine_witness:
  "\<exists>e. replay engine_env demo_raising_config [demo_engine_event ''e1'' 8] 0 demo_engine = (Inl e, demo_engine)"
proof -
  obtain e en' where r: "replay engine_env demo_raising_config [demo_engine_event ''e1'' 8] 0 demo_engine = (Inl e, en')"
    using engine_demo_facts(2) by (metis returns.elims(3) prod.collapse)
  have "br_artifact_sink (en_broker demo_engine) = None" "lg_artifact_sink (en_ledger demo_engine) = None"
    by (simp_all add: demo_engine_def broker_reset_def blank_ledger_def)
  from failed_replay_leaves_the_engine [OF this disjI1 [OF r]] r show ?thesis by blast
qed

theorem replay_drives_its_components_witness:
  "\<exists>result en bops. replay engine_env demo_engine_config [demo_engine_event ''e1'' 8] 0 demo_engine = (Inr result, en)
     \<and> rr_order_count result = 1 \<and> fold_res (broker_step engine_env) broker_reset bops = Inr (en_broker en)"
  by (rule demo_replayed_Inr) (use replay_drives_its_components in blast)

theorem events_only_append_witness:
  "\<exists>en0 en facts. fold_res (process_event engine_env demo_engine_config 0) (en0, empty_log False) [demo_engine_event ''e1'' 8] = Inr (en, facts)
     \<and> prefix (recorded_events (en_broker en0)) (recorded_events (en_broker en))"
proof (rule demo_replayed_Inr)
  fix result en
  assume "replay engine_env demo_engine_config [demo_engine_event ''e1'' 8] 0 demo_engine = (Inr result, en)"
  then obtain en0 s where reset: "engine_reset engine_env demo_engine_config (Some 8) demo_engine = Inr en0"
    and run: "fold_res (process_event engine_env demo_engine_config 0) (en0, empty_log False) [demo_engine_event ''e1'' 8] = Inr s"
    by (elim replay_InrE) (auto simp: validated_events_def demo_engine_event_def)
  obtain en' facts where s: "s = (en', facts)" by (cases s)
  have "br_artifact_sink (en_broker en0) \<noteq> None \<longrightarrow> br_events (en_broker en0) = []"
    using engine_reset_fields [OF reset] by (simp add: broker_reset_def)
  from events_only_append [OF disjI1 [OF run [unfolded s]] this] run [unfolded s] show ?thesis by blast
qed

text \<open>A reset engine with one IOC order for ten units in its book; the bar can give five.\<close>

definition demo_ioc_intent :: order_intent where
  "demo_ioc_intent = demo_intent\<lparr>oi_time_in_force := IOC\<rparr>"

definition demo_ioc_engine :: "bool engine" where
  "demo_ioc_engine = (case engine_reset engine_env demo_engine_config (Some 7) demo_engine of Inl e \<Rightarrow> demo_engine
     | Inr en \<Rightarrow> en\<lparr>en_strategy := True, en_broker := (case submit engine_env broker_reset demo_ioc_intent of
         Inr (b, ord) \<Rightarrow> b | Inl e \<Rightarrow> broker_reset)\<rparr>)"

lemma demo_ioc_facts:
  "returns (submit engine_env broker_reset demo_ioc_intent)" (is ?p1)
  "returns (engine_reset engine_env demo_engine_config (Some 7) demo_engine)" (is ?p2)
  "returns (process_event engine_env demo_engine_config 0 (demo_ioc_engine, empty_log False) (demo_engine_event ''e1'' 8))" (is ?p3)
  "case dget (br_orders (en_broker demo_ioc_engine)) ''ord-000000000000000000000000'' of Some (Live ord) \<Rightarrow>
     ord_intent ord = demo_ioc_intent \<and> eligible (matching_config (en_matching demo_ioc_engine)) ord (header (demo_engine_event ''e1'' 8))
   | _ \<Rightarrow> False" (is ?p4)
  "dget (br_submit_keys (en_broker demo_ioc_engine)) ''k'' \<noteq> None" (is ?p5)
proof -
  have "?p1 \<and> ?p2 \<and> ?p3 \<and> ?p4 \<and> ?p5" by code_simp
  then show ?p1 ?p2 ?p3 ?p4 ?p5 by blast+
qed

theorem immediate_orders_do_not_survive_witness:
  "\<exists>en facts. process_event engine_env demo_engine_config 0 (demo_ioc_engine, empty_log False) (demo_engine_event ''e1'' 8) = Inr (en, facts)
     \<and> \<not> (\<exists>ord. dget (br_orders (en_broker en)) ''ord-000000000000000000000000'' = Some (Live ord)
            \<and> ord_intent ord = demo_ioc_intent \<and> open_status (ord_status ord))"
proof -
  let ?b = "en_broker demo_ioc_engine"
  obtain ord0 where s: "submit engine_env broker_reset demo_ioc_intent = Inr (?b, ord0)"
    using demo_ioc_facts(1,2) by (auto simp: demo_ioc_engine_def returns_iff)
  have inv: "broker_inv ?b"
    by (rule eenv.submit_inv [OF broker_inv_reset _ _ s])
      (simp_all add: fresh_id_def positive_intent_def broker_reset_def demo_ioc_intent_def demo_intent_def)
  obtain en facts where run: "process_event engine_env demo_engine_config 0 (demo_ioc_engine, empty_log False) (demo_engine_event ''e1'' 8) = Inr (en, facts)"
    using demo_ioc_facts(3) by (auto simp: returns_iff)
  obtain ord where ord: "dget (br_orders ?b) ''ord-000000000000000000000000'' = Some (Live ord)" "ord_intent ord = demo_ioc_intent"
    "eligible (matching_config (en_matching demo_ioc_engine)) ord (header (demo_engine_event ''e1'' 8))"
    using demo_ioc_facts(4) by (auto split: option.splits stored_order.splits)
  have "oi_time_in_force (ord_intent ord) \<in> {IOC, FOK}" "dget (br_submit_keys ?b) (oi_idempotency_key (ord_intent ord)) \<noteq> None"
    using demo_ioc_facts(5) by (simp_all add: ord(2) demo_ioc_intent_def demo_intent_def)
  from immediate_orders_do_not_survive [OF eenv.fixed_env_axioms inv disjI1 [OF run] ord(1) this ord(3)] run ord(2) show ?thesis by auto
qed

end
