(* ===== verification/Accounts.thy ===== *)
theory Accounts
  imports Ledger_Atomic Text
begin

text \<open>
  What the research accounts (\<open>hong_kong.py\<close>, \<open>us_cash.py\<close>, \<open>derivatives.py\<close>,
  \<open>research_account.py\<close>) share: they drive an exact ledger of their own outside a stream, book
  several events as one, undo all of them when one is refused, and recognise a request they
  have served before by its identifier and its content.
\<close>

section \<open>Several bookings as one\<close>

text \<open>\<open>ledger.apply(event)\<close> and \<open>ledger.mark(event)\<close> with their result dropped.\<close>

definition apply_now :: "env \<Rightarrow> ledger_config \<Rightarrow> ledger_event \<Rightarrow> (ledger, unit) effect" where
  "apply_now E c ev = bind (apply_ledger E c ev True) (\<lambda>_. ret ())"

definition mark_now :: "env \<Rightarrow> ledger_config \<Rightarrow> market_event \<Rightarrow> fixed_point \<Rightarrow> (ledger, unit) effect" where
  "mark_now E c ev price = bind (mark E c ev price True) (\<lambda>_. ret ())"

primrec each :: "('a \<Rightarrow> ('s, unit) effect) \<Rightarrow> 'a list \<Rightarrow> ('s, unit) effect" where
  "each f [] = ret ()"
| "each f (x # xs) = bind (f x) (\<lambda>_. each f xs)"

text \<open>
  \<open>state = ledger.capture_state()\<close>, then \<open>try: ... except Exception: ledger.restore_state(state); raise\<close>;
  restoring may itself refuse, and then its exception is the one that is raised.
\<close>

definition all_or_nothing :: "(ledger, 'a) effect \<Rightarrow> (ledger, 'a) effect" where
  "all_or_nothing p l = (case p l of
       (Inr x, l') \<Rightarrow> (Inr x, l')
     | (Inl e, l') \<Rightarrow> (case restore_ledger_state (capture_ledger_state l) l' of Inl e' \<Rightarrow> (Inl e', l') | Inr saved \<Rightarrow> (Inl e, saved)))"

text \<open>A ledger that is not streamed and not closed, as the accounts use it throughout.\<close>

definition plain :: "ledger \<Rightarrow> bool" where
  "plain l \<longleftrightarrow> lg_artifact_sink l = None \<and> \<not> lg_artifact_stream_closed l"

definition keeps_plain :: "(ledger, 'a) effect \<Rightarrow> bool" where
  "keeps_plain p \<longleftrightarrow> (\<forall>l r l'. plain l \<longrightarrow> p l = (r, l') \<longrightarrow> plain l')"

named_theorems plain_intros

lemma keeps_plain_ret [plain_intros]: "keeps_plain (ret x)"
  by (simp add: keeps_plain_def)

lemma keeps_plain_ask [plain_intros]: "keeps_plain (ask f)"
  by (simp add: keeps_plain_def)

lemma keeps_plain_bind [plain_intros]:
  assumes "keeps_plain p" "\<And>x. keeps_plain (f x)"
  shows "keeps_plain (bind p f)"
  unfolding keeps_plain_def
proof (intro allI impI)
  fix l r l' assume l: "plain l" and b: "bind p f l = (r, l')"
  obtain q u where p: "p l = (q, u)" by (cases "p l")
  with assms(1) l have u: "plain u" by (auto simp: keeps_plain_def)
  show "plain l'"
  proof (cases q)
    case (Inl e)
    with b p u show ?thesis by (simp add: bind_def)
  next
    case (Inr x)
    with b p have "f x u = (r, l')" by (simp add: bind_def)
    with assms(2) u show ?thesis unfolding keeps_plain_def by blast
  qed
qed

lemma keeps_plain_each [plain_intros]: "(\<And>x. keeps_plain (f x)) \<Longrightarrow> keeps_plain (each f xs)"
  by (induction xs) (auto intro: plain_intros)

lemma same_ledger_plain: "same_ledger l l' \<Longrightarrow> plain l' \<longleftrightarrow> plain l"
  by (simp add: same_ledger_def plain_def)

lemma same_books_plain: "same_books l l' \<Longrightarrow> plain l' \<longleftrightarrow> plain l"
  by (simp add: same_books_def plain_def)

lemma post_plain: "post E c rollback t l = (Inr (), u) \<Longrightarrow> plain l \<Longrightarrow> plain u"
  using post_touches(1) [of E c rollback t l u undefined] by (simp add: plain_def touches_def)

lemma apply_event_plain:
  assumes "apply_event E c ev d create rollback trusted l = (Inr snap, u)" "plain l"
  shows "plain u"
  using assms(1)
proof (cases rule: apply_event_InrE)
  case (replayed fp)
  with assms(2) show ?thesis by simp
next
  case (new prepared t)
  from new(7) obtain l1 l2 where 1: "if no_effect_action ev t then l1 = l else post E c rollback t l = (Inr (), l1)"
    and 2: "event_state E ev d prepared l1 = (Inr (), l2)" "release_fill c ev (note_event E c ev trusted t l2) = (Inr (), u)"
    by (rule commit_event_InrE)
  have "plain l1" using 1 assms(2) post_plain by (auto split: if_splits)
  with 2 show ?thesis
    by (meson event_state_books note_event_books release_fill_books same_books_plain)
qed

lemma apply_on_day_plain [plain_intros]: "keeps_plain (apply_on_day E c ev d create)"
  unfolding keeps_plain_def
proof (intro allI impI)
  fix l r u assume l: "plain l" and a: "apply_on_day E c ev d create l = (r, u)"
  show "plain u"
  proof (cases r)
    case (Inl e)
    with a l apply_on_day_atomic [of l E c ev d create] show ?thesis
      by (auto simp: ledger_state.atomic_def plain_def same_ledger_def)
  next
    case (Inr snap)
    with a obtain v where v: "apply_event E c ev d create True False l = (Inr snap, v)" "u = record_new_event c ev d l v"
      by (auto simp: apply_on_day_def bind_Inr)
    with apply_event_plain l record_new_event_books same_books_plain show ?thesis by blast
  qed
qed

lemma apply_now_plain [plain_intros]: "keeps_plain (apply_now E c ev)"
  unfolding apply_now_def apply_ledger_def by (intro plain_intros)

lemma mark_once_plain [plain_intros]: "keeps_plain (mark_once E c ev k p fingerprinted create)"
  unfolding keeps_plain_def
proof (intro allI impI)
  fix l r u assume l: "plain l" and a: "mark_once E c ev k p fingerprinted create l = (r, u)"
  show "plain u"
  proof (cases r)
    case (Inl e)
    with a mark_once_atomic [of E c ev k p fingerprinted create l] l show ?thesis
      by (auto simp: ledger_state.atomic_def same_ledger_plain)
  next
    case (Inr snap)
    with a l show ?thesis using mark_once_books same_books_plain by blast
  qed
qed

lemma mark_now_plain [plain_intros]: "keeps_plain (mark_now E c ev price)"
  unfolding mark_now_def mark_def by (intro plain_intros)

text \<open>A refused group of bookings leaves the very ledger it found.\<close>

lemma all_or_nothing_Inl:
  assumes "keeps_plain p" "plain l" "all_or_nothing p l = (Inl e, u)"
  shows "u = l"
proof -
  obtain q l' where p: "p l = (q, l')" by (cases "p l")
  with assms(1,2) have "plain l'" by (auto simp: keeps_plain_def)
  then have "restore_ledger_state (capture_ledger_state l) l' = Inr l"
    using assms(2) by (simp add: restore_ledger_state_def ledger_require_mutable_def restore_captured_ledger plain_def)
  with p assms(3) show ?thesis by (auto simp: all_or_nothing_def split: sum.splits)
qed

lemma all_or_nothing_Inr: "all_or_nothing p l = (Inr x, u) \<longleftrightarrow> p l = (Inr x, u)"
  by (auto simp: all_or_nothing_def split: sum.splits prod.splits)

lemma all_or_nothing_plain [plain_intros]:
  assumes "keeps_plain p"
  shows "keeps_plain (all_or_nothing p)"
  unfolding keeps_plain_def
proof (intro allI impI)
  fix l r l' assume l: "plain l" and a: "all_or_nothing p l = (r, l')"
  show "plain l'"
  proof (cases r)
    case (Inl e)
    with all_or_nothing_Inl [OF assms l] a l show ?thesis by blast
  next
    case (Inr x)
    with a have "p l = (Inr x, l')" by (simp add: all_or_nothing_Inr)
    with assms l show ?thesis unfolding keeps_plain_def by blast
  qed
qed

section \<open>Small facts\<close>

lemma py_strip_ends:
  assumes "s \<noteq> ''''" "py_strip s = s"
  shows "\<not> py_space (hd s)" "\<not> py_space (last s)"
proof -
  have le: "length (dropWhile P xs) \<le> length xs" for P :: "char \<Rightarrow> bool" and xs by (rule length_dropWhile_le)
  have 1: "length s \<le> length (dropWhile py_space s)"
    using assms(2) le [of py_space "rev (dropWhile py_space s)"] by (metis length_rev py_strip_def)
  then show h: "\<not> py_space (hd s)"
    using assms(1) le [of py_space "tl s"] by (cases s) (auto split: if_splits)
  then have "dropWhile py_space s = s" using assms(1) by (cases s) simp_all
  then have "dropWhile py_space (rev s) = rev s" using assms(2) by (simp add: py_strip_def rev_swap)
  then have "\<not> py_space (hd (rev s))"
    using assms(1) by (metis dropWhile_eq_self_iff rev_is_Nil_conv)
  then show "\<not> py_space (last s)" by (simp add: hd_rev assms(1))
qed

lemma dquantize_Inr: "dquantize E mode x s = Inr y \<Longrightarrow> \<exists>m. y = of_int m / 10 ^ s \<and> \<bar>m\<bar> < 10 ^ prec E"
  by (auto simp: dquantize_def Let_def not_le split: if_splits)

section \<open>Requests served once\<close>

text \<open>
  An account that remembers, under the identifier of a request it has served, the content of
  the request and its answer.  \<open>other\<close> stands for the operations between two requests.
\<close>

locale once =
  fixes run :: "'q \<Rightarrow> ('s, 'v) effect"
    and served :: "'s \<Rightarrow> 'i \<Rightarrow> ('g \<times> 'v) option"
    and ident :: "'q \<Rightarrow> 'i" and content :: "'q \<Rightarrow> 'g"
    and fine :: "'s \<Rightarrow> bool" and other :: "'s \<Rightarrow> 's \<Rightarrow> bool"
  assumes repeated: "served s (ident q) = Some (content q, v) \<Longrightarrow> run q s = (Inr v, s)"
    and remembered: "fine s \<Longrightarrow> run q s = (Inr v, t) \<Longrightarrow> served t (ident q) = Some (content q, v)"
    and kept: "fine s \<Longrightarrow> run q s = (Inr v, t) \<Longrightarrow> served s i = Some w \<Longrightarrow> served t i = Some w"
    and refused: "fine s \<Longrightarrow> run q s = (Inl e, t) \<Longrightarrow> t = s \<or> other s t"
    and stays_fine: "fine s \<Longrightarrow> run q s = (Inr v, t) \<Longrightarrow> fine t"
    and other_served: "other s t \<Longrightarrow> served s i = Some w \<Longrightarrow> served t i = Some w"
    and other_fine: "fine s \<Longrightarrow> other s t \<Longrightarrow> fine t"
begin

definition moves :: "'s \<Rightarrow> 's \<Rightarrow> bool" where
  "moves s t \<longleftrightarrow> (\<exists>q. t = snd (run q s)) \<or> other s t"

lemma moves_keep:
  assumes "moves s t" "fine s"
  shows "fine t \<and> (served s i = Some w \<longrightarrow> served t i = Some w)"
  using assms(1) unfolding moves_def
proof
  assume "\<exists>q. t = snd (run q s)"
  then obtain q where "t = snd (run q s)" ..
  then obtain r where r: "run q s = (r, t)" by (cases "run q s") simp
  show ?thesis
  proof (cases r)
    case (Inl e)
    with r refused [OF assms(2)] assms(2) other_served other_fine [OF assms(2)] show ?thesis by blast
  next
    case (Inr v)
    with r kept [OF assms(2)] stays_fine [OF assms(2)] show ?thesis by blast
  qed
next
  assume "other s t"
  with other_served other_fine [OF assms(2)] show ?thesis by blast
qed

lemma history_keeps:
  assumes "moves\<^sup>*\<^sup>* s t" "fine s"
  shows "fine t \<and> (served s i = Some w \<longrightarrow> served t i = Some w)"
  using assms by (induction rule: rtranclp_induct) (use moves_keep in blast)+

lemma answered_again:
  assumes "fine s" "run q s = (Inr v, t)" "moves\<^sup>*\<^sup>* t u"
  shows "run q u = (Inr v, u)"
  using repeated history_keeps [OF assms(3) stays_fine [OF assms(1,2)]] remembered [OF assms(1,2)] by blast

end

end
