(* ===== verification/Account_Books.thy ===== *)
theory Account_Books
  imports Accounts Ledger_Props
begin

text \<open>
  What one accepted event does to the books of a ledger that is not streamed: it appends the
  transaction it translates to, adds its postings, and remembers the event; and what a fill of
  a cash asset and a fee do to the cash.
\<close>

lemma event_state_fingerprints:
  "event_state E ev d prepared l = (Inr x, u) \<Longrightarrow> lg_event_fingerprints u = lg_event_fingerprints l" if "\<forall>a. ev \<noteq> ActionEvent a"
  using that by (cases ev) (auto simp: event_state_def book_fill_state_def split: option.splits)

lemma record_new_event_keeps [simp]:
  "lg_event_fingerprints (record_new_event c ev d before l) = lg_event_fingerprints l"
  "lg_event_time (record_new_event c ev d before l) = lg_event_time l"
  "lg_accounts (record_new_event c ev d before l) = lg_accounts l"
  "lg_positions (record_new_event c ev d before l) = lg_positions l"
  "lg_transactions (record_new_event c ev d before l) = lg_transactions l"
  by (simp_all add: record_new_event_def record_replay_fact_def next_replay_sequence_def)

lemma apply_on_day_books:
  assumes "apply_on_day E c ev d create l = (Inr snap, u)" "dget (lg_event_fingerprints l) (event_identity ev) = None"
    and "plain l" "\<forall>a. ev \<noteq> ActionEvent a"
  obtains tx where "translate E c l ev = Inr tx" "lg_transactions u = lg_transactions l @ [tx]"
    "lg_accounts u = fold (account_add E) (tx_postings tx) (lg_accounts l)"
    "lg_positions u = fold (position_add E) (tx_postings tx) (lg_positions l)"
    "lg_event_fingerprints u = dset (event_identity ev) (Whole ev) (lg_event_fingerprints l)" "plain u"
proof -
  have pu: "plain u" using apply_on_day_plain assms(1,3) unfolding keeps_plain_def by blast
  obtain l0 where a: "apply_event E c ev d create True False l = (Inr snap, l0)" and u: "u = record_new_event c ev d l l0"
    using assms(1) by (rule apply_on_day_InrE)
  from a show thesis
  proof (cases rule: apply_event_InrE)
    case (replayed fp)
    with assms(2) show thesis by simp
  next
    case (new prepared t)
    have eff: "\<not> no_effect_action ev t" using assms(4) by (cases ev) (auto simp: no_effect_action_def)
    from new(7) obtain l1 l2 where post: "post E c True t l = (Inr (), l1)"
      and st: "event_state E ev d prepared l1 = (Inr (), l2)"
      and r: "release_fill c ev (note_event E c ev False t l2) = (Inr (), l0)"
      by (rule commit_event_InrE) (simp add: eff)
    have b: "same_books l1 l2" by (rule event_state_books [OF st])
    have tx: "lg_transactions l1 = lg_transactions l @ [t]" "plain l1"
      using post_touches [OF post] post_plain [OF post assms(3)] assms(3) by (simp_all add: plain_def)
    have sink: "lg_artifact_sink (note_event E c ev False t l2) = None" "lg_artifact_sink l2 = None"
      using same_books_plain [OF b] tx(2) by (simp_all add: note_event_def plain_def)
    have l0: "l0 = note_event E c ev False t l2" using release_fill_plain [OF sink(1)] r by simp
    show thesis
      using new(6) post_fields [OF post] b tx pu event_state_fingerprints [OF assms(4) st] sink
      by (intro that [of t]) (simp_all add: u l0 note_event_def same_books_def kept_fingerprint_def)
  qed
qed

context fixed_env
begin

lemma quantity_cash:
  assumes "map_res id (quantity_postings E c cur iid x y s) = Inr ps"
  shows "sum_list (map (cash_effect cur') ps) = 0"
  using assms by (auto simp: quantity_postings_def cash_effect_def dest!: new_posting_parts)

lemma cash_asset_cash:
  assumes "cash_asset_postings E c l cur iid sd quantity m notional old average allocated = Inr rs" "map_res id rs = Inr ps"
  shows "sum_list (map (cash_effect cur) ps) = (if sd = BUY then - posted c notional else posted c notional)"
    and "sd = SELL \<Longrightarrow> quantity \<le> old"
proof -
  have n: "decimal E f = posted c notional" if "fixed E notional (lc_money_scale c) (Some ROUND_HALF_EVEN) = Inr f" for f
    using fixed_half_even [OF that] by (simp add: decimal_value posted_def)
  have idem: "posted c (posted c notional) = posted c notional" by (simp add: posted_id)
  show "sum_list (map (cash_effect cur) ps) = (if sd = BUY then - posted c notional else posted c notional)"
    "sd = SELL \<Longrightarrow> quantity \<le> old"
    using assms n idem unfolding cash_asset_postings_def by (auto simp: Let_def split: if_splits)
qed

text \<open>The cash a fill of a cash asset moves.\<close>

lemma cash_asset_fill_cash:
  assumes "fill_transaction E c l f = Inr tx" "dget (lc_instruments c) (fl_instrument_id f) = Some sp"
    and "\<not> is_derivative sp" "\<not> is_premium_asset sp"
    and n: "n = product_for_valuation E c [decimal E (fl_quantity f), decimal E (fl_price f), decimal E (sp_contract_multiplier sp)]"
  shows "sum_list (map (cash_effect (sp_settlement_currency sp)) (tx_postings tx))
     = (if fl_side f = BUY then - posted c n else posted c n)"
proof -
  let ?iid = "fl_instrument_id f" and ?cur = "sp_settlement_currency sp"
  from assms(1,2) obtain rs where rs: "fill_postings E c l sp f = Inr rs"
    and ps: "map_res id (rs @ quantity_postings E c ?cur ?iid (signed_quantity E f) (- signed_quantity E f)
        (scale (fl_quantity f))) = Inr (tx_postings tx)"
    by (auto simp: fill_transaction_def spec_of_def of_option_def make_transaction_def split: if_splits)
  from rs assms(2-4) n obtain average allocated where
    cash: "cash_asset_postings E c l ?cur ?iid (fl_side f) (decimal E (fl_quantity f)) (decimal E (sp_contract_multiplier sp)) n
       (held l ?iid) average allocated = Inr rs"
    by (auto simp: fill_postings_def Let_def derivative_instrument_def)
  from ps obtain p1 p2 where p: "map_res id rs = Inr p1" "tx_postings tx = p1 @ p2"
    "map_res id (quantity_postings E c ?cur ?iid (signed_quantity E f) (- signed_quantity E f) (scale (fl_quantity f))) = Inr p2"
    by (auto simp: map_res_append)
  from cash_asset_cash(1) [OF cash p(1)] quantity_cash [OF p(3)] p(2) show ?thesis by simp
qed

lemma cash_after:
  "lg_accounts u = fold (account_add E) ps (lg_accounts l) \<Longrightarrow>
     cash_balance u cur = cash_balance l cur + sum_list (map (cash_effect cur) ps)"
  using books_effect(1) [where l = l and cur = cur and ps = ps] by (simp add: cash_balance_def account_balance_def)

text \<open>A new fee takes its rounded amount out of the cash of its currency.\<close>

lemma fee_cash:
  assumes "apply_now E c (FeeEvent fee) l = (Inr (), u)" "plain l"
    and "dget (lg_event_fingerprints l) (''fee_id:'' @ fee_fee_id fee) = None"
  shows "cash_balance u (fee_currency fee) = cash_balance l (fee_currency fee) + posted c (dneg E (decimal E (fee_amount fee)))"
    and "lg_event_fingerprints u = dset (''fee_id:'' @ fee_fee_id fee) (Whole (FeeEvent fee)) (lg_event_fingerprints l)"
    and "plain u" and "\<exists>tx. lg_transactions u = lg_transactions l @ [tx] \<and> tx_event_type tx = EV_FEE"
proof -
  from assms(1) obtain snap where a: "apply_on_day E c (FeeEvent fee) None True l = (Inr snap, u)"
    by (auto simp: apply_now_def apply_ledger_def bind_Inr)
  from assms(3) have fresh: "dget (lg_event_fingerprints l) (event_identity (FeeEvent fee)) = None" by (simp add: event_identity_def)
  obtain tx where tx: "translate E c l (FeeEvent fee) = Inr tx" "lg_transactions u = lg_transactions l @ [tx]"
    and books: "lg_accounts u = fold (account_add E) (tx_postings tx) (lg_accounts l)"
    and fp: "lg_event_fingerprints u = dset (event_identity (FeeEvent fee)) (Whole (FeeEvent fee)) (lg_event_fingerprints l)"
      "plain u"
    by (rule apply_on_day_books [OF a fresh assms(2)]) auto
  then show "\<exists>tx. lg_transactions u = lg_transactions l @ [tx] \<and> tx_event_type tx = EV_FEE"
    by (auto simp: translate_def cash_income_transaction_def make_transaction_def)
  from tx(1) have "sum_list (map (cash_effect (fee_currency fee)) (tx_postings tx)) = posted c (dneg E (decimal E (fee_amount fee)))"
    by (auto simp: translate_def cash_income_transaction_def make_transaction_def cash_posting_def cash_effect_def
        dest!: new_posting_parts)
  with cash_after [OF books] show "cash_balance u (fee_currency fee) =
      cash_balance l (fee_currency fee) + posted c (dneg E (decimal E (fee_amount fee)))" by simp
  show "lg_event_fingerprints u = dset (''fee_id:'' @ fee_fee_id fee) (Whole (FeeEvent fee)) (lg_event_fingerprints l)" "plain u"
    using fp by (simp_all add: event_identity_def)
qed

end

end
