(* ===== verification/Hk_Account.thy ===== *)
theory Hk_Account
  imports Accounts Hong_Kong
begin

text \<open>
  \<open>hong_kong.py\<close>: the dated fee schedule and the daily execution account on its own ledger.
  The amounts of the schedule are finite decimals by type.  The constructor of a mark event
  belongs to the data kit and is a field of \<open>hk_config\<close>, like the rendering of a timestamp.
\<close>

section \<open>Fees\<close>

record hk_fees =
  hf_valid_from :: day
  hf_valid_to :: day
  hf_commission_rate :: rat
  hf_minimum_commission :: rat
  hf_platform_fee :: rat
  hf_stamp_rate :: rat
  hf_sfc_rate :: rat
  hf_afrc_rate :: rat
  hf_trading_rate :: rat
  hf_settlement_rate :: rat
  hf_settlement_minimum :: rat
  hf_settlement_maximum :: "rat option"
  hf_slippage_rate :: rat
  hf_source :: string

definition hk_money :: "env \<Rightarrow> rat \<Rightarrow> fixed_point res" where
  "hk_money E x = fixed E x 2 (Some ROUND_HALF_UP)"

definition hk_fee_parameters :: "hk_fees \<Rightarrow> rat list" where
  "hk_fee_parameters f = [hf_commission_rate f, hf_minimum_commission f, hf_platform_fee f, hf_stamp_rate f,
     hf_sfc_rate f, hf_afrc_rate f, hf_trading_rate f, hf_settlement_rate f, hf_settlement_minimum f, hf_slippage_rate f]"

definition mk_hk_fees :: "hk_fees \<Rightarrow> hk_fees res" where
  "mk_hk_fees f =
     (if hf_valid_to f < hf_valid_from f \<or> py_strip (hf_source f) = ''''
      then Inl (ValueError ''Fee schedule needs valid dates and provenance'')
      else if list_ex (\<lambda>v. v < 0) (hk_fee_parameters f) then Inl (ValueError ''Invalid fee parameter'')
      else if (case hf_settlement_maximum f of None \<Rightarrow> False | Some m \<Rightarrow> m < hf_settlement_minimum f)
      then Inl (ValueError ''Invalid settlement maximum'') else Inr f)"

definition hk_clearing :: "env \<Rightarrow> hk_fees \<Rightarrow> rat \<Rightarrow> rat" where
  "hk_clearing E f amount = (let least = max (hf_settlement_minimum f) (dmul E amount (hf_settlement_rate f)) in
     case hf_settlement_maximum f of None \<Rightarrow> least | Some m \<Rightarrow> min least m)"

definition hk_values :: "env \<Rightarrow> hk_fees \<Rightarrow> rat \<Rightarrow> rat \<Rightarrow> (string \<times> rat) list" where
  "hk_values E f amount stamp =
     [(''commission'', max (hf_minimum_commission f) (dmul E amount (hf_commission_rate f))),
      (''platform'', hf_platform_fee f), (''stamp'', stamp),
      (''sfc'', dmul E amount (hf_sfc_rate f)), (''afrc'', dmul E amount (hf_afrc_rate f)),
      (''trading'', dmul E amount (hf_trading_rate f)), (''settlement'', hk_clearing E f amount),
      (''slippage'', dmul E amount (hf_slippage_rate f))]"

type_synonym charges = "(string, fixed_point) dict"

definition hk_charge :: "env \<Rightarrow> hk_fees \<Rightarrow> fixed_point \<Rightarrow> day \<Rightarrow> bool \<Rightarrow> charges res" where
  "hk_charge E f notional d stamp_exempt = (let amount = decimal E notional in
     if amount \<le> 0 \<or> \<not> (hf_valid_from f \<le> d \<and> d \<le> hf_valid_to f)
     then Inl (ValueError ''Positive notional and a fee schedule covering the trade date required'')
     else and_then (if stamp_exempt then Inr 0 else dquantize E ceiling (dmul E amount (hf_stamp_rate f)) 0) (\<lambda>stamp.
       map_res (\<lambda>(key, v). and_then (hk_money E v) (\<lambda>m. Inr (key, m))) (hk_values E f amount stamp)))"

definition charges_total :: "env \<Rightarrow> charges \<Rightarrow> rat" where
  "charges_total E cs = dsum E (map (\<lambda>(key, v). decimal E v) cs)"

section \<open>The account\<close>

text \<open>\<open>int(text)\<close>: white space around, a sign, digits with single underscores between them.\<close>

definition py_int :: "string \<Rightarrow> int option" where
  "py_int raw = (let (neg, s) = split_sign (py_strip raw); ds = filter (\<lambda>ch. ch \<noteq> CHR ''_'') s in
     if s = '''' \<or> \<not> list_all is_digit ds \<or> hd s = CHR ''_'' \<or> last s = CHR ''_'' \<or> py_in ''__'' s then None
     else Some (if neg then - digits_value ds else digits_value ds))"

record hk_config =
  hc_ledger :: ledger_config
  hc_fees :: hk_fees
  hc_settlement_days :: "day list"
  hc_mark_event :: "market_event \<Rightarrow> market_event res"
  hc_isoformat :: "instant \<Rightarrow> string"

record hk_request =
  hr_symbol :: string
  hr_quantity :: int
  hr_side :: side
  hr_price :: fixed_point
  hr_at :: instant

record hk_account =
  ha_ledger :: ledger
  ha_pending :: "(day \<times> rat) list"
  ha_executed :: "(string, hk_request \<times> fill \<times> charges) dict"
  ha_last_settlement_day :: "day option"

definition hk_spec :: "ledger_config \<Rightarrow> string \<Rightarrow> instrument_spec res" where
  "hk_spec c symbol = (case dget (lc_instruments c) symbol of None \<Rightarrow> Inl (KeyError symbol) | Some sp \<Rightarrow> Inr sp)"

definition hk_metadata :: "instrument_spec \<Rightarrow> string \<Rightarrow> string res" where
  "hk_metadata sp key = (case dget (sp_metadata sp) key of None \<Rightarrow> Inl (KeyError key) | Some v \<Rightarrow> Inr v)"

definition board_lot :: "instrument_spec \<Rightarrow> int res" where
  "board_lot sp = and_then (hk_metadata sp ''lot_size'') (\<lambda>text.
     case py_int text of None \<Rightarrow> Inl (ValueError ''invalid literal for int()'') | Some n \<Rightarrow> Inr n)"

definition hk_check_instrument :: "instrument_spec \<Rightarrow> unit res" where
  "hk_check_instrument sp =
     (if sp_venue sp \<noteq> ''XHKG'' \<or> sp_settlement_currency sp \<noteq> ''HKD'' \<or> sp_asset_class sp \<notin> {EQUITY, ETF}
      then Inl (ValueError ''HK daily execution only accepts XHKG/HKD instruments'')
      else and_then (board_lot sp) (\<lambda>lot.
        if lot \<le> 0 then Inl (ValueError ''Explicit board lot and stamp exemption required'')
        else and_then (hk_metadata sp ''stamp_exempt'') (\<lambda>exempt.
          if exempt \<notin> {''true'', ''false''} then Inl (ValueError ''Explicit board lot and stamp exemption required'')
          else Inr ())))"

definition mk_hk_account ::
  "env \<Rightarrow> hk_config \<Rightarrow> fixed_point \<Rightarrow> instant \<Rightarrow> bool \<Rightarrow> (hk_config \<times> hk_account) res" where
  "mk_hk_account E given initial_cash opened_at has_verifier =
     (if lc_instruments (hc_ledger given) = [] \<or> decimal E initial_cash \<le> 0
      then Inl (ValueError ''HK execution needs instruments and positive capital'')
      else if \<not> sorted_wrt (<) (hc_settlement_days given)
      then Inl (ValueError ''Settlement calendar must be unique and sorted'')
      else and_then (fold_res (\<lambda>_ (iid, sp). hk_check_instrument sp) () (lc_instruments (hc_ledger given))) (\<lambda>_.
        and_then (mk_ledger E ((hc_ledger given)\<lparr>lc_account_id := ''hk-research'', lc_base_currency := ''HKD'',
            lc_initial_cash := [(''HKD'', initial_cash)], lc_money_scale := 8, lc_initial_fx := []\<rparr>)
            (Some opened_at) has_verifier) (\<lambda>(c, l).
          Inr (given\<lparr>hc_ledger := c\<rparr>,
               \<lparr>ha_ledger = l, ha_pending = [], ha_executed = [], ha_last_settlement_day = None\<rparr>))))"

definition available_cash :: "env \<Rightarrow> hk_account \<Rightarrow> rat" where
  "available_cash E a = dsub E (cash_balance (ha_ledger a) ''HKD'') (dsum E (map snd (ha_pending a)))"

definition settle_end_of_day :: "day \<Rightarrow> (hk_account, unit) effect" where
  "settle_end_of_day d a =
     (if (case ha_last_settlement_day a of None \<Rightarrow> False | Some last_day \<Rightarrow> d < last_day)
      then (Inl (ValueError ''Settlement date cannot move backwards''), a)
      else (Inr (), a\<lparr>ha_pending := filter (\<lambda>item. fst item > d) (ha_pending a), ha_last_settlement_day := Some d\<rparr>))"

definition settlement_date :: "hk_config \<Rightarrow> day \<Rightarrow> day res" where
  "settlement_date k d = (let future = filter (\<lambda>x. x > d) (hc_settlement_days k) in
     if length future < 2 then Inl (ValueError ''Settlement calendar does not cover T+2'') else Inr (future ! 1))"

definition hk_costs :: "env \<Rightarrow> hk_config \<Rightarrow> string \<Rightarrow> fixed_point \<Rightarrow> int \<Rightarrow> day \<Rightarrow> charges res" where
  "hk_costs E k symbol price quantity d =
     (if quantity \<le> 0 then Inl (ValueError ''Quantity must be a positive integer'')
      else and_then (hk_spec (hc_ledger k) symbol) (\<lambda>sp.
        and_then (fixed E (dmul E (decimal E price) (of_int quantity)) 8 None) (\<lambda>notional.
        and_then (hk_metadata sp ''stamp_exempt'') (\<lambda>exempt.
          hk_charge E (hc_fees k) notional d (exempt = ''true'')))))"

section \<open>The largest affordable order\<close>

definition hk_outlay :: "env \<Rightarrow> fixed_point \<Rightarrow> int \<Rightarrow> int \<Rightarrow> charges \<Rightarrow> rat" where
  "hk_outlay E price lots lot cs =
     dadd E (dmul E (dmul E (decimal E price) (of_int lots)) (of_int lot)) (charges_total E cs)"

function search_lots ::
  "env \<Rightarrow> hk_config \<Rightarrow> string \<Rightarrow> fixed_point \<Rightarrow> rat \<Rightarrow> day \<Rightarrow> int \<Rightarrow> int \<Rightarrow> int \<Rightarrow> int res" where
  "search_lots E k symbol price budget d lot low high =
     (if low < high
      then let mid = (low + high + 1) div 2 in
        case hk_costs E k symbol price (mid * lot) d of
          Inl e \<Rightarrow> Inl e
        | Inr cs \<Rightarrow> if hk_outlay E price mid lot cs \<le> budget
            then search_lots E k symbol price budget d lot mid high
            else search_lots E k symbol price budget d lot low (mid - 1)
      else Inr low)"
  by pat_completeness auto
termination
  by (relation "measure (\<lambda>(E, k, symbol, price, budget, d, lot, low, high). nat (high - low))") auto

declare search_lots.simps [simp del]

definition affordable_quantity :: "env \<Rightarrow> hk_config \<Rightarrow> string \<Rightarrow> fixed_point \<Rightarrow> rat \<Rightarrow> day \<Rightarrow> int res" where
  "affordable_quantity E k symbol price budget d =
     (if decimal E price \<le> 0 \<or> budget < 0 then Inl (ValueError ''Invalid price/budget'')
      else and_then (hk_spec (hc_ledger k) symbol) (\<lambda>sp.
        and_then (board_lot sp) (\<lambda>lot.
        and_then (ddiv E budget (decimal E price)) (\<lambda>shares.
          if lot = 0 then Inl (ArithmeticError ''division by zero'')
          else and_then (search_lots E k symbol price budget d lot 0 (round_down shares div lot)) (\<lambda>lots.
            Inr (lots * lot))))))"

section \<open>Execution\<close>

text \<open>What an order is booked as, once every check has passed.\<close>

record hk_trade =
  ht_day :: day
  ht_due :: day
  ht_fill :: fill
  ht_charges :: charges
  ht_amount :: rat
  ht_fee_amount :: rat

definition hk_check_rules :: "hk_account \<Rightarrow> instrument_spec \<Rightarrow> instant \<Rightarrow> unit res" where
  "hk_check_rules a sp t =
     (if \<not> sp_effective_from sp \<le> t \<or> (case sp_effective_to sp of None \<Rightarrow> False | Some e \<Rightarrow> e \<le> t)
      then Inl (ValueError ''Instrument rules do not cover execution time'')
      else if t < sp_available_at sp then Inl (ValueError ''Instrument rules were unavailable at execution time'')
      else if (case ha_last_settlement_day a of None \<Rightarrow> False | Some last_day \<Rightarrow> utc_date t \<le> last_day)
      then Inl (ValueError ''Cannot trade on a session already settled at day end'') else Inr ())"

definition hk_check_funds :: "env \<Rightarrow> hk_account \<Rightarrow> hk_request \<Rightarrow> rat \<Rightarrow> rat \<Rightarrow> rat \<Rightarrow> unit res" where
  "hk_check_funds E a q owned amount fees =
     (if hr_side q = SELL \<and> owned < of_int (hr_quantity q)
      then Inl (ValueError ''Short selling is outside HK cash-research scope'')
      else if hr_side q = BUY \<and> available_cash E a < dadd E amount fees
      then Inl (ValueError ''Insufficient settled cash including fees'')
      else if hr_side q = SELL \<and> dadd E (available_cash E a) amount < fees
      then Inl (ValueError ''Sale proceeds cannot cover fees'') else Inr ())"

definition hk_fill :: "env \<Rightarrow> string \<Rightarrow> hk_request \<Rightarrow> fill res" where
  "hk_fill E oid q = and_then (new_fixed E (hr_quantity q) 0) (\<lambda>quantity.
     mk_fill E \<lparr>fl_fill_id = oid, fl_order_id = oid, fl_account_id = ''hk-research'', fl_strategy_id = ''hk-daily'',
       fl_instrument_id = hr_symbol q, fl_side = hr_side q, fl_quantity = quantity, fl_price = hr_price q,
       fl_event_time = hr_at q, fl_liquidity_role = UNKNOWN, fl_venue_trade_id = None\<rparr>)"

definition hk_check_order :: "env \<Rightarrow> hk_config \<Rightarrow> string \<Rightarrow> hk_request \<Rightarrow> hk_account \<Rightarrow> hk_trade res" where
  "hk_check_order E k oid q a =
     (if py_strip oid = '''' then Inl (ValueError ''A side and nonempty order ID are required'')
      else and_then (hk_spec (hc_ledger k) (hr_symbol q)) (\<lambda>sp.
        and_then (hk_check_rules a sp (hr_at q)) (\<lambda>_. let d = utc_date (hr_at q) in
        and_then (hk_costs E k (hr_symbol q) (hr_price q) (hr_quantity q) d) (\<lambda>cs.
        and_then (board_lot sp) (\<lambda>lot.
        if lot = 0 then Inl (ArithmeticError ''modulo by zero'')
        else if hr_quantity q mod lot \<noteq> 0 then Inl (ValueError ''Order is not a whole board lot'')
        else let amount = dmul E (decimal E (hr_price q)) (of_int (hr_quantity q)); fees = charges_total E cs in
        and_then (snapshot E (hc_ledger k) (ha_ledger a) (Some (hr_at q))) (\<lambda>snap.
        let owned = (case dget (as_positions snap) (hr_symbol q) of None \<Rightarrow> 0 | Some h \<Rightarrow> decimal E h) in
        and_then (hk_check_funds E a q owned amount fees) (\<lambda>_.
        and_then (settlement_date k d) (\<lambda>due.
        and_then (hk_fill E oid q) (\<lambda>f.
          Inr \<lparr>ht_day = d, ht_due = due, ht_fill = f, ht_charges = cs, ht_amount = amount,
               ht_fee_amount = fees\<rparr>)))))))))"

definition hk_fee :: "env \<Rightarrow> string \<Rightarrow> instant \<Rightarrow> string \<times> fixed_point \<Rightarrow> fee res" where
  "hk_fee E oid t entry = (case entry of (key, v) \<Rightarrow>
     mk_fee E \<lparr>fee_fee_id = oid @ CHR '':'' # key, fee_fill_id = oid, fee_account_id = ''hk-research'', fee_amount = v,
       fee_currency = ''HKD'', fee_event_time = t, fee_fee_type = ''hk:'' @ key\<rparr>)"

definition hk_book_fee :: "env \<Rightarrow> ledger_config \<Rightarrow> string \<Rightarrow> instant \<Rightarrow> string \<times> fixed_point \<Rightarrow> (ledger, unit) effect" where
  "hk_book_fee E c oid t entry =
     (if units (snd entry) = 0 then ret ()
      else bind (ask (\<lambda>_. hk_fee E oid t entry)) (\<lambda>fee. apply_now E c (FeeEvent fee)))"

definition hk_book :: "env \<Rightarrow> ledger_config \<Rightarrow> string \<Rightarrow> hk_request \<Rightarrow> hk_trade \<Rightarrow> (ledger, unit) effect" where
  "hk_book E c oid q tr = all_or_nothing
     (bind (apply_with_trading_day E c (FillEvent (ht_fill tr)) (ht_day tr) True) (\<lambda>_.
        each (hk_book_fee E c oid (hr_at q)) (ht_charges tr)))"

definition hk_note :: "env \<Rightarrow> string \<Rightarrow> hk_request \<Rightarrow> hk_trade \<Rightarrow> hk_account \<Rightarrow> hk_account" where
  "hk_note E oid q tr a = a\<lparr>
     ha_pending := (if hr_side q = SELL then ha_pending a @ [(ht_due tr, max 0 (dsub E (ht_amount tr) (ht_fee_amount tr)))]
                    else ha_pending a),
     ha_executed := dset oid (q, ht_fill tr, ht_charges tr) (ha_executed a)\<rparr>"

definition on_hk_ledger :: "(ledger, 'a) effect \<Rightarrow> (hk_account, 'a) effect" where
  "on_hk_ledger p a = (case p (ha_ledger a) of (r, l) \<Rightarrow> (r, a\<lparr>ha_ledger := l\<rparr>))"

definition hk_execute :: "env \<Rightarrow> hk_config \<Rightarrow> string \<times> hk_request \<Rightarrow> (hk_account, fill \<times> charges) effect" where
  "hk_execute E k order a = (case order of (oid, q) \<Rightarrow> (case dget (ha_executed a) oid of
       Some (prior, answer) \<Rightarrow>
         (if q \<noteq> prior then Inl (ValueError ''Order ID reused with different content'') else Inr answer, a)
     | None \<Rightarrow>
         bind (ask (hk_check_order E k oid q)) (\<lambda>tr.
         bind (on_hk_ledger (hk_book E (hc_ledger k) oid q tr)) (\<lambda>_.
         bind (put (hk_note E oid q tr)) (\<lambda>_. ret (ht_fill tr, ht_charges tr)))) a))"

definition hk_mark :: "env \<Rightarrow> hk_config \<Rightarrow> string \<Rightarrow> fixed_point \<Rightarrow> instant \<Rightarrow> (hk_account, unit) effect" where
  "hk_mark E k symbol price t =
     bind (ask (\<lambda>_. hc_mark_event k \<lparr>me_event_id = ''mark:'' @ symbol @ CHR '':'' # hc_isoformat k t,
         me_instrument_id = symbol, me_event_time = t, me_received_at = t, me_available_at = t,
         me_source = ''hk-daily-research'', me_trading_day = utc_date t, me_session_id = iso_date (utc_date t),
         me_sequence = 0, me_body = MarkPriceEvent price\<rparr>)) (\<lambda>ev.
       on_hk_ledger (mark_now E (hc_ledger k) ev price))"

lemma py_int_examples:
  "py_int '' 1_000 '' = Some 1000" "py_int ''-7'' = Some (- 7)" "py_int ''1__0'' = None" "py_int ''1.0'' = None"
  by code_simp+

end
