(* ===== verification/Hk_Props.thy ===== *)
theory Hk_Props
  imports Hk_Account Account_Books
begin

text \<open>
  The Hong Kong account: fees grow with the traded amount, so the search for the largest
  affordable order finds it; orders are served once; orders are covered by settled cash.
\<close>

section \<open>Fees grow with the amount\<close>

context fixed_env
begin

lemma dadd_mono: "x \<le> x' \<Longrightarrow> y \<le> y' \<Longrightarrow> dadd E x y \<le> dadd E x' y'"
  unfolding dadd_def by (intro ctx_round_mono prec_pos add_mono)

lemma dmul_mono: "x \<le> x' \<Longrightarrow> 0 \<le> y \<Longrightarrow> dmul E x y \<le> dmul E x' y"
  unfolding dmul_def by (intro ctx_round_mono prec_pos mult_right_mono)

lemma dsum_mono:
  assumes "list_all2 (\<le>) xs ys"
  shows "dsum E xs \<le> dsum E ys"
proof -
  have "s \<le> t \<Longrightarrow> fold (\<lambda>x s. dadd E s x) xs s \<le> fold (\<lambda>x s. dadd E s x) ys t" for s t
    using assms by (induction arbitrary: s t rule: list_all2_induct) (simp_all add: dadd_mono)
  then show ?thesis by (simp add: dsum_def)
qed

lemma hk_money_mono: "hk_money E x = Inr f \<Longrightarrow> hk_money E y = Inr g \<Longrightarrow> x \<le> y \<Longrightarrow> decimal E f \<le> decimal E g"
  by (auto simp: hk_money_def decimal_value divide_right_mono dest!: fixed_half_up intro!: round_half_up_mono)

lemma charged_mono:
  assumes "list_all2 (\<lambda>x y. snd x \<le> snd y) vs ws"
    and "map_res (\<lambda>(key, v). and_then (hk_money E v) (\<lambda>m. Inr (key, m))) vs = Inr cs"
    and "map_res (\<lambda>(key, v). and_then (hk_money E v) (\<lambda>m. Inr (key, m))) ws = Inr ds"
  shows "charges_total E cs \<le> charges_total E ds"
proof -
  have "list_all2 (\<le>) (map (\<lambda>(key, v). decimal E v) cs) (map (\<lambda>(key, v). decimal E v) ds)"
    using assms
  proof (induction arbitrary: cs ds rule: list_all2_induct)
    case (Cons x xs y ys)
    then show ?case by (cases x; cases y) (auto dest: hk_money_mono)
  qed simp
  then show ?thesis unfolding charges_total_def by (rule dsum_mono)
qed

lemma dquantize_mono:
  "dquantize E ceiling x p = Inr a \<Longrightarrow> dquantize E ceiling y p = Inr b \<Longrightarrow> x \<le> y \<Longrightarrow> a \<le> b"
proof -
  assume a: "dquantize E ceiling x p = Inr a" and b: "dquantize E ceiling y p = Inr b" and xy: "x \<le> y"
  have "\<lceil>x * 10 ^ p\<rceil> \<le> \<lceil>y * 10 ^ p\<rceil>" using xy by (intro ceiling_mono mult_right_mono) simp_all
  then have "rat_of_int \<lceil>x * 10 ^ p\<rceil> / 10 ^ p \<le> rat_of_int \<lceil>y * 10 ^ p\<rceil> / 10 ^ p"
    by (intro divide_right_mono) simp_all
  with a b show ?thesis by (auto simp: dquantize_def Let_def split: if_splits)
qed

lemma hk_charge_mono:
  assumes "mk_hk_fees f = Inr f" "hk_charge E f n d x = Inr cs" "hk_charge E f m d x = Inr ds" "decimal E n \<le> decimal E m"
  shows "charges_total E cs \<le> charges_total E ds"
proof -
  have rates: "0 \<le> hf_commission_rate f" "0 \<le> hf_stamp_rate f" "0 \<le> hf_sfc_rate f" "0 \<le> hf_afrc_rate f"
    "0 \<le> hf_trading_rate f" "0 \<le> hf_settlement_rate f" "0 \<le> hf_slippage_rate f"
    using assms(1) by (auto simp: mk_hk_fees_def hk_fee_parameters_def split: if_splits)
  obtain s t where s: "(if x then Inr 0 else dquantize E ceiling (dmul E (decimal E n) (hf_stamp_rate f)) 0) = Inr s"
      "map_res (\<lambda>(key, v). and_then (hk_money E v) (\<lambda>m. Inr (key, m))) (hk_values E f (decimal E n) s) = Inr cs"
    and t: "(if x then Inr 0 else dquantize E ceiling (dmul E (decimal E m) (hf_stamp_rate f)) 0) = Inr t"
      "map_res (\<lambda>(key, v). and_then (hk_money E v) (\<lambda>m. Inr (key, m))) (hk_values E f (decimal E m) t) = Inr ds"
    using assms(2,3) unfolding hk_charge_def Let_def by (auto split: if_splits)
  note grow = dmul_mono [OF assms(4)]
  have st: "s \<le> t" using s(1) t(1) dquantize_mono grow [OF rates(2)] by (cases x) auto
  have "hk_clearing E f (decimal E n) \<le> hk_clearing E f (decimal E m)"
    using grow [OF rates(6)] by (auto simp: hk_clearing_def Let_def split: option.split)
  then have "list_all2 (\<lambda>x y. snd x \<le> snd y) (hk_values E f (decimal E n) s) (hk_values E f (decimal E m) t)"
    using grow rates st by (auto simp: hk_values_def max.coboundedI2)
  then show ?thesis by (rule charged_mono [OF _ s(2) t(2)])
qed

lemma hk_costs_Inr:
  assumes "hk_costs E k symbol price q d = Inr cs"
  obtains notional x where "0 < q" "decimal E notional = dmul E (decimal E price) (of_int q)"
    "hk_charge E (hc_fees k) notional d x = Inr cs" "\<exists>sp. hk_spec (hc_ledger k) symbol = Inr sp
       \<and> (\<exists>w. hk_metadata sp ''stamp_exempt'' = Inr w \<and> x = (w = ''true''))"
proof -
  from assms obtain sp n w where "0 < q" "hk_spec (hc_ledger k) symbol = Inr sp"
    and n: "fixed E (dmul E (decimal E price) (of_int q)) 8 None = Inr n"
    and r: "hk_metadata sp ''stamp_exempt'' = Inr w" "hk_charge E (hc_fees k) n d (w = ''true'') = Inr cs"
    by (auto simp: hk_costs_def split: if_splits)
  have "decimal E n = dmul E (decimal E price) (of_int q)" using fixed_exact [OF n] by (simp add: decimal_value)
  with that \<open>0 < q\<close> r \<open>hk_spec (hc_ledger k) symbol = Inr sp\<close> show thesis by blast
qed

lemma hk_outlay_mono:
  assumes "mk_hk_fees (hc_fees k) = Inr (hc_fees k)" "0 \<le> decimal E price" "0 < lot" "m \<le> n"
    and "hk_costs E k symbol price (m * lot) d = Inr cs" "hk_costs E k symbol price (n * lot) d = Inr ds"
  shows "hk_outlay E price m lot cs \<le> hk_outlay E price n lot ds"
proof -
  obtain a x where a: "decimal E a = dmul E (decimal E price) (of_int (m * lot))" "hk_charge E (hc_fees k) a d x = Inr cs"
    and x: "\<exists>sp. hk_spec (hc_ledger k) symbol = Inr sp \<and> (\<exists>w. hk_metadata sp ''stamp_exempt'' = Inr w \<and> x = (w = ''true''))"
    using assms(5) by (rule hk_costs_Inr)
  obtain b y where b: "decimal E b = dmul E (decimal E price) (of_int (n * lot))" "hk_charge E (hc_fees k) b d y = Inr ds"
    and y: "\<exists>sp. hk_spec (hc_ledger k) symbol = Inr sp \<and> (\<exists>w. hk_metadata sp ''stamp_exempt'' = Inr w \<and> y = (w = ''true''))"
    using assms(6) by (rule hk_costs_Inr)
  have "y = x" using x y by auto
  have scaled: "dmul E (decimal E price) (of_int u) \<le> dmul E (decimal E price) (of_int v)" if "u \<le> v" for u v
    unfolding dmul_def using that assms(2) by (intro ctx_round_mono prec_pos mult_left_mono) simp_all
  have "decimal E a \<le> decimal E b"
    unfolding a(1) b(1) using assms(3,4) by (intro scaled mult_right_mono) simp_all
  from hk_charge_mono [OF assms(1) a(2) b(2) [unfolded \<open>y = x\<close>] this]
  have "charges_total E cs \<le> charges_total E ds" .
  moreover have "dmul E (dmul E (decimal E price) (of_int m)) (of_int lot) \<le> dmul E (dmul E (decimal E price) (of_int n)) (of_int lot)"
    using scaled [OF assms(4)] assms(3) by (intro dmul_mono) simp_all
  ultimately show ?thesis unfolding hk_outlay_def by (intro dadd_mono)
qed

section \<open>The search\<close>

lemma search_lots_found:
  assumes "search_lots E k symbol price budget d lot low high = Inr r" "low \<le> high"
    and "mk_hk_fees (hc_fees k) = Inr (hc_fees k)" "0 \<le> decimal E price" "0 < lot"
  shows "low \<le> r \<and> r \<le> high
     \<and> (r \<noteq> low \<longrightarrow> (\<exists>cs. hk_costs E k symbol price (r * lot) d = Inr cs \<and> hk_outlay E price r lot cs \<le> budget))
     \<and> (\<forall>m cs. r < m \<and> m \<le> high \<and> hk_costs E k symbol price (m * lot) d = Inr cs \<longrightarrow> budget < hk_outlay E price m lot cs)"
  using assms(1,2)
proof (induction "nat (high - low)" arbitrary: low high rule: less_induct)
  case less
  show ?case
  proof (cases "low < high")
    case False
    with less.prems show ?thesis by (subst (asm) search_lots.simps) auto
  next
    case True
    define mid where "mid = (low + high + 1) div 2"
    have mid: "low < mid" "mid \<le> high" using True by (auto simp: mid_def)
    from less.prems(1) [unfolded search_lots.simps [of E k symbol price budget d lot low high]] True
    obtain cs where cs: "hk_costs E k symbol price (mid * lot) d = Inr cs"
      and next_half: "(if hk_outlay E price mid lot cs \<le> budget then search_lots E k symbol price budget d lot mid high
           else search_lots E k symbol price budget d lot low (mid - 1)) = Inr r"
      by (simp add: Let_def flip: mid_def split: sum.splits)
    show ?thesis
    proof (cases "hk_outlay E price mid lot cs \<le> budget")
      case True
      with next_half have "search_lots E k symbol price budget d lot mid high = Inr r" by simp
      from less.hyps [OF _ this] mid have "mid \<le> r \<and> r \<le> high
          \<and> (r \<noteq> mid \<longrightarrow> (\<exists>cs. hk_costs E k symbol price (r * lot) d = Inr cs \<and> hk_outlay E price r lot cs \<le> budget))
          \<and> (\<forall>m cs. r < m \<and> m \<le> high \<and> hk_costs E k symbol price (m * lot) d = Inr cs \<longrightarrow> budget < hk_outlay E price m lot cs)"
        by simp
      with True cs mid show ?thesis by (cases "r = mid") auto
    next
      case False
      with next_half have "search_lots E k symbol price budget d lot low (mid - 1) = Inr r" by simp
      from less.hyps [OF _ this] mid have ih: "low \<le> r \<and> r \<le> mid - 1
          \<and> (r \<noteq> low \<longrightarrow> (\<exists>cs. hk_costs E k symbol price (r * lot) d = Inr cs \<and> hk_outlay E price r lot cs \<le> budget))
          \<and> (\<forall>m cs. r < m \<and> m \<le> mid - 1 \<and> hk_costs E k symbol price (m * lot) d = Inr cs \<longrightarrow> budget < hk_outlay E price m lot cs)"
        by simp
      have "budget < hk_outlay E price m lot ds" if "mid \<le> m" "hk_costs E k symbol price (m * lot) d = Inr ds" for m ds
        using hk_outlay_mono [OF assms(3-5) that(1) cs that(2)] False by simp
      then have "\<forall>m ds. r < m \<and> m \<le> high \<and> hk_costs E k symbol price (m * lot) d = Inr ds \<longrightarrow>
          budget < hk_outlay E price m lot ds"
        using ih by (metis linorder_not_le zle_diff1_eq)
      moreover have "r \<le> high" using ih mid by linarith
      ultimately show ?thesis using ih by blast
    qed
  qed
qed

text \<open>Above the bound of the search the shares alone cost more than the budget.\<close>

lemma beyond_the_bound:
  assumes "ddiv E budget p = Inr shares" "0 < p" "0 < lot" "round_down shares div lot < m" "0 \<le> budget" "m * lot < 10 ^ prec E"
  shows "budget < p * of_int m * of_int lot"
proof (rule ccontr)
  assume "\<not> budget < p * of_int m * of_int lot"
  then have "of_int (m * lot) \<le> budget / p" using assms(2) by (simp add: field_simps)
  from ctx_round_mono [OF prec_pos this]
  have le: "ctx_round (prec E) (of_int (m * lot)) \<le> shares" using assms(1,2) by (simp add: ddiv_def split: if_splits)
  have s: "0 \<le> shares" using assms(1,2,5) by (auto simp: ddiv_def ctx_round_nonneg split: if_splits)
  then have "0 \<le> round_down shares div lot" using assms(3) round_down_le by (simp add: pos_imp_zdiv_nonneg_iff)
  then have "0 < m * lot" using assms(3,4) by simp
  with assms(6) have "ctx_round (prec E) (of_int (m * lot) / 10 ^ 0) = of_int (m * lot) / 10 ^ 0"
    by (intro ctx_round_exact_div) simp
  with le have "of_int (m * lot) \<le> shares" by simp
  then have "m * lot \<le> round_down shares" using s by (simp add: round_down_def le_floor_iff del: of_int_mult)
  then have "m \<le> round_down shares div lot" using assms(3) by (simp add: zdiv_mono1 [of "m * lot" _ lot, simplified])
  with assms(4) show False by simp
qed

end

text \<open>
  C34: The binary search for the largest affordable order returns whole board lots that can be
  paid with all their fees from the budget, and no larger number of lots that has a price could:
  either its outlay exceeds the budget or already the shares do.
\<close>

theorem affordable_quantity_is_the_largest:
  assumes "fixed_env E" "mk_hk_fees (hc_fees k) = Inr (hc_fees k)"
    and "dget (lc_instruments (hc_ledger k)) symbol = Some sp" "board_lot sp = Inr lot" "0 < lot"
    and "affordable_quantity E k symbol price budget d = Inr q"
  shows "\<exists>lots \<ge> 0. q = lots * lot
     \<and> (lots \<noteq> 0 \<longrightarrow> (\<exists>cs. hk_costs E k symbol price q d = Inr cs \<and> hk_outlay E price lots lot cs \<le> budget))
     \<and> (\<forall>m cs. lots < m \<and> m * lot < 10 ^ prec E \<and> hk_costs E k symbol price (m * lot) d = Inr cs \<longrightarrow>
          budget < hk_outlay E price m lot cs \<or> budget < decimal E price * of_int m * of_int lot)"
proof -
  from assms(3-6) obtain shares lots where p: "0 < decimal E price" "0 \<le> budget"
    and shares: "ddiv E budget (decimal E price) = Inr shares"
    and found: "search_lots E k symbol price budget d lot 0 (round_down shares div lot) = Inr lots" and q: "q = lots * lot"
    by (auto simp: affordable_quantity_def hk_spec_def split: if_splits)
  have "0 \<le> shares" using shares p by (auto simp: ddiv_def ctx_round_nonneg split: if_splits)
  then have "0 \<le> round_down shares div lot" using assms(5) round_down_le by (simp add: pos_imp_zdiv_nonneg_iff)
  note r = fixed_env.search_lots_found [OF assms(1) found this assms(2) less_imp_le [OF p(1)] assms(5)]
  have "budget < decimal E price * of_int m * of_int lot"
    if "round_down shares div lot < m" "m * lot < 10 ^ prec E" for m
    using fixed_env.beyond_the_bound [OF assms(1) shares p(1) assms(5) that(1) p(2) that(2)] .
  with r have "budget < hk_outlay E price m lot cs \<or> budget < decimal E price * of_int m * of_int lot"
    if "lots < m" "m * lot < 10 ^ prec E" "hk_costs E k symbol price (m * lot) d = Inr cs" for m cs
    using that by (cases "m \<le> round_down shares div lot") auto
  with r q show ?thesis by blast
qed


section \<open>Orders served once\<close>

lemma on_hk_ledger_iff: "on_hk_ledger p a = (r, b) \<longleftrightarrow> (\<exists>l. p (ha_ledger a) = (r, l) \<and> b = a\<lparr>ha_ledger := l\<rparr>)"
  by (auto simp: on_hk_ledger_def split: prod.splits)

lemma hk_book_plain [plain_intros]:
  "keeps_plain (bind (apply_with_trading_day E c (FillEvent (ht_fill tr)) (ht_day tr) True) (\<lambda>_.
     each (hk_book_fee E c oid (hr_at q)) (ht_charges tr)))"
  unfolding apply_with_trading_day_def hk_book_fee_def
  by (intro plain_intros) (auto intro: plain_intros)

lemma hk_execute_new:
  assumes "dget (ha_executed a) oid = None"
  obtains (refused) e where "hk_execute E k (oid, q) a = (Inl e, a)" "hk_check_order E k oid q a = Inl e"
  | (unbooked) tr e l where "hk_check_order E k oid q a = Inr tr" "hk_book E (hc_ledger k) oid q tr (ha_ledger a) = (Inl e, l)"
      "hk_execute E k (oid, q) a = (Inl e, a\<lparr>ha_ledger := l\<rparr>)"
  | (executed) tr l where "hk_check_order E k oid q a = Inr tr" "hk_book E (hc_ledger k) oid q tr (ha_ledger a) = (Inr (), l)"
      "hk_execute E k (oid, q) a = (Inr (ht_fill tr, ht_charges tr), hk_note E oid q tr (a\<lparr>ha_ledger := l\<rparr>))"
proof (cases "hk_check_order E k oid q a")
  case (Inl e)
  with assms refused [of e] show thesis by (simp add: hk_execute_def bind_def ask_def)
next
  case (Inr tr)
  obtain r l where b: "hk_book E (hc_ledger k) oid q tr (ha_ledger a) = (r, l)" by (cases "hk_book E (hc_ledger k) oid q tr (ha_ledger a)")
  show thesis
  proof (cases r)
    case (Inl e)
    with assms Inr b unbooked [of tr e l] show thesis by (simp add: hk_execute_def bind_def ask_def on_hk_ledger_def)
  next
    case (Inr u)
    with assms \<open>hk_check_order E k oid q a = Inr tr\<close> b executed [of tr l] show thesis
      by (simp add: hk_execute_def bind_def ask_def on_hk_ledger_def put_def ret_def)
  qed
qed

lemma hk_execute_refused:
  assumes "plain (ha_ledger a)" "hk_execute E k order a = (Inl e, b)"
  shows "b = a"
proof (cases order)
  case (Pair oid q)
  show ?thesis
  proof (cases "dget (ha_executed a) oid")
    case None
    then show ?thesis
    proof (cases rule: hk_execute_new [of a oid E k q, case_names refused unbooked executed])
      case (unbooked tr e' l)
      have "l = ha_ledger a"
        using unbooked(2) unfolding hk_book_def by (rule all_or_nothing_Inl [OF hk_book_plain assms(1)])
      with unbooked(3) assms(2) Pair show ?thesis by simp
    qed (use assms(2) Pair in auto)
  qed (use assms(2) Pair in \<open>auto simp: hk_execute_def\<close>)
qed

lemma hk_execute_done:
  assumes "plain (ha_ledger a)" "hk_execute E k order a = (Inr v, b)"
  shows "plain (ha_ledger b) \<and> dget (ha_executed b) (fst order) = Some (snd order, v)
     \<and> (dget (ha_executed a) i = Some w \<longrightarrow> dget (ha_executed b) i = Some w)"
proof (cases order)
  case (Pair oid q)
  show ?thesis
  proof (cases "dget (ha_executed a) oid")
    case None
    then show ?thesis
    proof (cases rule: hk_execute_new [of a oid E k q, case_names refused unbooked executed])
      case (executed tr l)
      have "plain l" using executed(2) assms(1) all_or_nothing_plain [OF hk_book_plain]
        unfolding hk_book_def keeps_plain_def by blast
      with executed(3) assms(2) Pair None show ?thesis by (auto simp: hk_note_def)
    qed (use assms(2) Pair in auto)
  qed (use assms Pair in \<open>auto simp: hk_execute_def split: if_splits prod.splits\<close>)
qed

text \<open>What can happen to the account between two orders.\<close>

definition hk_other :: "env \<Rightarrow> hk_config \<Rightarrow> hk_account \<Rightarrow> hk_account \<Rightarrow> bool" where
  "hk_other E k a b \<longleftrightarrow> (\<exists>d. b = snd (settle_end_of_day d a)) \<or> (\<exists>symbol price t. b = snd (hk_mark E k symbol price t a))"

lemma hk_mark_keeps:
  assumes "hk_mark E k symbol price t a = (r, b)"
  shows "ha_executed b = ha_executed a \<and> (plain (ha_ledger a) \<longrightarrow> plain (ha_ledger b))"
  using assms mark_now_plain [of E "hc_ledger k"]
  by (cases r) (auto simp: hk_mark_def bind_Inl bind_Inr on_hk_ledger_iff keeps_plain_def)

lemma hk_other_keeps:
  assumes "hk_other E k a b"
  shows "ha_executed b = ha_executed a \<and> (plain (ha_ledger a) \<longrightarrow> plain (ha_ledger b))"
  using assms unfolding hk_other_def
proof (elim disjE exE)
  fix d assume "b = snd (settle_end_of_day d a)"
  then show ?thesis by (auto simp: settle_end_of_day_def)
next
  fix symbol price t assume "b = snd (hk_mark E k symbol price t a)"
  then show ?thesis using hk_mark_keeps [OF prod.collapse [symmetric]] by simp
qed

interpretation hk_orders: once "hk_execute E k" "\<lambda>a. dget (ha_executed a)" fst snd "\<lambda>a. plain (ha_ledger a)" "hk_other E k"
  for E k
proof (unfold_locales, goal_cases)
  case (1 a order v)
  then show ?case by (cases order) (simp add: hk_execute_def)
next
  case (2 a order v b)
  then show ?case using hk_execute_done by blast
next
  case (3 a order v b i w)
  then show ?case using hk_execute_done by blast
next
  case (4 a order e b)
  then show ?case using hk_execute_refused by blast
next
  case (5 a order v b)
  then show ?case using hk_execute_done by blast
qed (simp_all add: hk_other_keeps)

text \<open>The steps of an account: orders, marks and the end of a settlement day.\<close>

inductive hk_step :: "env \<Rightarrow> hk_config \<Rightarrow> hk_account \<Rightarrow> hk_account \<Rightarrow> bool" for E k where
  Order: "hk_execute E k order a = (r, b) \<Longrightarrow> hk_step E k a b"
| Settle: "settle_end_of_day d a = (u, b) \<Longrightarrow> hk_step E k a b"
| Mark: "hk_mark E k symbol price t a = (u, b) \<Longrightarrow> hk_step E k a b"

lemma hk_step_moves: "hk_step E k a b \<Longrightarrow> hk_orders.moves E k a b"
  unfolding hk_orders.moves_def hk_other_def by (induction rule: hk_step.induct) (metis snd_conv)+

text \<open>
  An executed order is answered again with the same fill and charges and changes nothing
  any more, whatever orders, marks and settlements came in between; an order that is refused,
  also when the ledger refuses one of its fees, leaves the account exactly as it was.
\<close>

theorem hk_orders_execute_once:
  assumes "plain (ha_ledger a)"
  shows "(\<forall>e b. hk_execute E k order a = (Inl e, b) \<longrightarrow> b = a)
    \<and> (\<forall>v b c. hk_execute E k order a = (Inr v, b) \<and> (hk_step E k)\<^sup>*\<^sup>* b c \<longrightarrow> hk_execute E k order c = (Inr v, c))"
  using hk_execute_refused [OF assms] hk_orders.answered_again [OF assms]
    rtranclp_mono [of "hk_step E k" "hk_orders.moves E k"] hk_step_moves by blast

section \<open>Settled cash\<close>

text \<open>The cash of the ledger without the proceeds that are not settled yet.\<close>

definition free_cash :: "hk_account \<Rightarrow> rat" where
  "free_cash a = cash_balance (ha_ledger a) ''HKD'' - sum_list (map snd (ha_pending a))"

text \<open>No decimal operation of the order is cut off by the precision of the context.\<close>

definition hk_exact :: "env \<Rightarrow> hk_account \<Rightarrow> hk_request \<Rightarrow> hk_trade \<Rightarrow> bool" where
  "hk_exact E a q tr \<longleftrightarrow> hr_quantity q < 10 ^ prec E \<and> \<bar>units (hr_price q) * hr_quantity q\<bar> < 10 ^ prec E
     \<and> (\<forall>(key, v) \<in> set (ht_charges tr). \<bar>units v\<bar> < 10 ^ prec E)
     \<and> ht_fee_amount tr = (\<Sum>(key, v) \<leftarrow> ht_charges tr. decimal E v)
     \<and> available_cash E a = free_cash a
     \<and> dadd E (ht_amount tr) (ht_fee_amount tr) = ht_amount tr + ht_fee_amount tr
     \<and> dsub E (ht_amount tr) (ht_fee_amount tr) = ht_amount tr - ht_fee_amount tr
     \<and> dadd E (available_cash E a) (ht_amount tr) = available_cash E a + ht_amount tr"

lemma hk_fee_Inr:
  assumes "hk_fee E oid t (key, v) = Inr fee" "oid \<noteq> ''''" "py_strip oid = oid" "key \<noteq> ''''" "py_strip key = key"
  shows "fee_fee_id fee = oid @ CHR '':'' # key \<and> fee_amount fee = v \<and> fee_currency fee = ''HKD''"
proof -
  have "py_strip (oid @ CHR '':'' # key) = oid @ CHR '':'' # key"
    using py_strip_ends [OF assms(2,3)] py_strip_ends [OF assms(4,5)] assms(2,4) by (intro py_strip_id) auto
  moreover have "py_strip ''HKD'' = ''HKD''" by code_simp
  ultimately show ?thesis
    using assms(1) by (auto simp: hk_fee_def mk_fee_def required_text_def currency_code_def split: if_splits)
qed

context fixed_env
begin

text \<open>The eight charges are amounts of cents under distinct names.\<close>

lemma hk_charge_names:
  assumes "hk_charge E f n d x = Inr cs"
  shows "map fst cs = [''commission'', ''platform'', ''stamp'', ''sfc'', ''afrc'', ''trading'', ''settlement'', ''slippage'']
     \<and> (\<forall>(key, v) \<in> set cs. scale v = 2)"
  using assms unfolding hk_charge_def Let_def hk_values_def
  by (auto simp: hk_money_def dest!: fixed_half_up split: if_splits)

lemma cents_posted:
  assumes "scale v = 2" "\<bar>units v\<bar> < 10 ^ prec E" "lc_money_scale c = 8"
  shows "posted c (dneg E (decimal E v)) = - decimal E v"
proof -
  have "dneg E (decimal E v) = - decimal E v"
    using ctx_round_exact_div [OF assms(2), of 2] by (simp add: dneg_def ctx_round_minus decimal_value assms(1))
  moreover have "decimal E v = of_int (units v * 10 ^ 6) / 10 ^ 8" by (simp add: decimal_value assms(1))
  then have "money_grid c (decimal E v)" unfolding money_grid_def assms(3) by blast
  ultimately show ?thesis by (simp add: posted_id)
qed

lemma book_charges_cash:
  assumes "each (hk_book_fee E c oid t) cs l = (Inr (), u)" "plain l" "lc_money_scale c = 8" "oid \<noteq> ''''" "py_strip oid = oid"
    and "distinct (map fst cs)"
    and "\<forall>(key, v) \<in> set cs. key \<noteq> '''' \<and> py_strip key = key \<and> scale v = 2 \<and> \<bar>units v\<bar> < 10 ^ prec E
       \<and> dget (lg_event_fingerprints l) (''fee_id:'' @ oid @ CHR '':'' # key) = None"
  shows "cash_balance u ''HKD'' = cash_balance l ''HKD'' - (\<Sum>(key, v) \<leftarrow> cs. decimal E v)"
  using assms(1,2,6,7)
proof (induction cs arbitrary: l)
  case (Cons entry cs)
  obtain key v where e: "entry = (key, v)" by (cases entry)
  from Cons.prems(1) obtain l1 where b: "hk_book_fee E c oid t (key, v) l = (Inr (), l1)"
    and r: "each (hk_book_fee E c oid t) cs l1 = (Inr (), u)"
    by (auto simp: e bind_Inr)
  have k: "key \<noteq> ''''" "py_strip key = key" "scale v = 2" "\<bar>units v\<bar> < 10 ^ prec E"
    "dget (lg_event_fingerprints l) (''fee_id:'' @ oid @ CHR '':'' # key) = None"
    using Cons.prems(4) by (auto simp: e)
  have step: "plain l1 \<and> cash_balance l1 ''HKD'' = cash_balance l ''HKD'' - decimal E v
      \<and> (\<forall>j. j \<noteq> ''fee_id:'' @ oid @ CHR '':'' # key \<longrightarrow> dget (lg_event_fingerprints l1) j = dget (lg_event_fingerprints l) j)"
  proof (cases "units v = 0")
    case True
    with b Cons.prems(2) show ?thesis by (simp add: hk_book_fee_def decimal_value)
  next
    case False
    with b obtain fee where f: "hk_fee E oid t (key, v) = Inr fee" and a: "apply_now E c (FeeEvent fee) l = (Inr (), l1)"
      by (auto simp: hk_book_fee_def bind_Inr)
    note fee = hk_fee_Inr [OF f assms(4,5) k(1,2)]
    from fee_cash [OF a Cons.prems(2)] k(5) fee cents_posted [OF k(3,4) assms(3)] show ?thesis by simp
  qed
  have "\<forall>(j, w) \<in> set cs. j \<noteq> key" using Cons.prems(3) by (force simp: e)
  then have "\<forall>(j, w) \<in> set cs. j \<noteq> '''' \<and> py_strip j = j \<and> scale w = 2 \<and> \<bar>units w\<bar> < 10 ^ prec E
      \<and> dget (lg_event_fingerprints l1) (''fee_id:'' @ oid @ CHR '':'' # j) = None"
    using Cons.prems(4) step by (fastforce simp: e)
  from Cons.IH [OF r _ _ this] step Cons.prems(3) show ?case by (simp add: e)
qed simp

lemma hk_check_order_Inr:
  assumes "hk_check_order E k oid q a = Inr tr"
  obtains "oid \<noteq> ''''" "0 < hr_quantity q" "ht_amount tr = dmul E (decimal E (hr_price q)) (of_int (hr_quantity q))"
    "ht_fee_amount tr = charges_total E (ht_charges tr)"
    "\<exists>n. fixed E (ht_amount tr) 8 None = Inr n \<and> (\<exists>x. hk_charge E (hc_fees k) n (ht_day tr) x = Inr (ht_charges tr))"
    "hr_side q = BUY \<Longrightarrow> dadd E (ht_amount tr) (ht_fee_amount tr) \<le> available_cash E a"
    "hr_side q = SELL \<Longrightarrow> ht_fee_amount tr \<le> dadd E (available_cash E a) (ht_amount tr)"
    "hk_fill E oid q = Inr (ht_fill tr)" "settlement_date k (ht_day tr) = Inr (ht_due tr)" "ht_day tr = utc_date (hr_at q)"
    "hk_costs E k (hr_symbol q) (hr_price q) (hr_quantity q) (ht_day tr) = Inr (ht_charges tr)"
proof -
  obtain x where "hk_costs E k (hr_symbol q) (hr_price q) (hr_quantity q) (utc_date (hr_at q)) = Inr (ht_charges tr)"
    "ht_day tr = utc_date (hr_at q)" "oid \<noteq> ''''"
    "ht_amount tr = dmul E (decimal E (hr_price q)) (of_int (hr_quantity q))" "ht_fee_amount tr = charges_total E (ht_charges tr)"
    "hk_check_funds E a q x (ht_amount tr) (ht_fee_amount tr) = Inr ()"
    "hk_fill E oid q = Inr (ht_fill tr)" "settlement_date k (ht_day tr) = Inr (ht_due tr)"
  proof -
    have "py_strip oid \<noteq> ''''" using assms by (auto simp: hk_check_order_def)
    then have "oid \<noteq> ''''" by (auto simp: py_strip_def)
    with that assms show thesis by (auto simp: hk_check_order_def Let_def split: if_splits)
  qed
  with that show thesis
    by (fastforce simp: hk_costs_def hk_check_funds_def split: if_splits)
qed

text \<open>The fill takes or brings exactly the traded amount.\<close>

lemma hk_fill_cash:
  assumes "apply_with_trading_day E c (FillEvent (ht_fill tr)) (ht_day tr) True l = (Inr snap, u)" "plain l"
    and "hk_fill E oid q = Inr (ht_fill tr)" "py_strip oid = oid" "py_strip (hr_symbol q) = hr_symbol q"
    and "dget (lg_event_fingerprints l) (''fill_id:'' @ oid) = None"
    and "dget (lc_instruments c) (hr_symbol q) = Some sp" "\<not> is_derivative sp" "\<not> is_premium_asset sp"
    and "decimal E (sp_contract_multiplier sp) = 1" "lc_money_scale c = 8"
    and "0 < hr_quantity q" "hr_quantity q < 10 ^ prec E" "\<bar>units (hr_price q) * hr_quantity q\<bar> < 10 ^ prec E"
    and "amount = dmul E (decimal E (hr_price q)) (of_int (hr_quantity q))" "fixed E amount 8 None = Inr notional"
  shows "cash_balance u (sp_settlement_currency sp) = cash_balance l (sp_settlement_currency sp)
      + (if hr_side q = BUY then - amount else amount)"
    and "lg_event_fingerprints u = dset (''fill_id:'' @ oid) (Whole (FillEvent (ht_fill tr))) (lg_event_fingerprints l)"
    and "plain u"
proof -
  let ?f = "ht_fill tr" and ?q = "of_int (hr_quantity q) :: rat" and ?p = "decimal E (hr_price q)"
  obtain x where x: "new_fixed E (hr_quantity q) 0 = Inr x" and "fl_quantity ?f = x"
    and f: "fl_fill_id ?f = oid" "fl_instrument_id ?f = hr_symbol q" "fl_side ?f = hr_side q" "fl_price ?f = hr_price q"
    using assms(3-5) by (auto simp: hk_fill_def mk_fill_def required_text_def dest!: sym [of _ "ht_fill tr"] split: if_splits)
  then have f5: "decimal E (fl_quantity ?f) = ?q" using new_fixed_Inr [OF x] by (simp add: decimal_value)
  note f = f f5
  have a: "apply_on_day E c (FillEvent ?f) (Some (ht_day tr)) True l = (Inr snap, u)"
    using assms(1) by (simp add: apply_with_trading_day_def is_fill_def)
  obtain tx where tx: "translate E c l (FillEvent ?f) = Inr tx"
    and books: "lg_accounts u = fold (account_add E) (tx_postings tx) (lg_accounts l)"
    and fp: "lg_event_fingerprints u = dset (event_identity (FillEvent ?f)) (Whole (FillEvent ?f)) (lg_event_fingerprints l)"
      "plain u"
    by (rule apply_on_day_books [OF a _ assms(2)]) (use assms(6) f(1) in \<open>auto simp: event_identity_def\<close>)
  have q: "ctx_round (prec E) ?q = ?q"
    using ctx_round_exact_div [of "hr_quantity q" "prec E" 0] assms(12,13) by simp
  have pq: "ctx_round (prec E) (?q * ?p) = ?q * ?p"
    using ctx_round_exact_div [OF assms(14), of "scale (hr_price q)"] by (simp add: decimal_value mult.commute)
  then have amount: "amount = ?q * ?p" using assms(15) by (simp add: dmul_def mult.commute)
  have "product_for_valuation E c [decimal E (fl_quantity ?f), decimal E (fl_price ?f), decimal E (sp_contract_multiplier sp)] = amount"
    using q pq by (simp add: product_for_valuation_def f assms(10) amount dmul_def)
  then have "sum_list (map (cash_effect (sp_settlement_currency sp)) (tx_postings tx))
      = (if hr_side q = BUY then - posted c amount else posted c amount)"
    using cash_asset_fill_cash [OF _ _ assms(8,9), of c l ?f tx amount] tx assms(7) by (simp add: translate_def f)
  moreover have "money_grid c amount"
    using fixed_exact [OF assms(16)] unfolding money_grid_def assms(11) by (intro exI [of _ "units notional"]) simp
  ultimately show "cash_balance u (sp_settlement_currency sp) = cash_balance l (sp_settlement_currency sp)
      + (if hr_side q = BUY then - amount else amount)"
    using cash_after [OF books] by (simp add: posted_id)
  show "lg_event_fingerprints u = dset (''fill_id:'' @ oid) (Whole (FillEvent ?f)) (lg_event_fingerprints l)" "plain u"
    using fp by (simp_all add: event_identity_def f)
qed

end

text \<open>
  C33: An order takes from the settled cash exactly its amount with all fees when it buys, and
  at most the fees its proceeds do not cover when it sells: the proceeds of a sale are withheld
  until they settle, and the settled cash never becomes negative.  This is shown for cash
  instruments in HKD whose contract multiplier is one: the account charges price times quantity,
  the ledger books the multiplier too, so it does not hold for other multipliers.  (No decimal of
  the order is cut off by the context, identifiers are stripped and new to the ledger.)
\<close>

theorem settled_cash_is_never_overspent:
  assumes "fixed_env E" "lc_money_scale (hc_ledger k) = 8" "plain (ha_ledger a)" "0 \<le> free_cash a"
    and "dget (ha_executed a) oid = None" "hk_execute E k (oid, q) a = (Inr v, b)"
    and "hk_check_order E k oid q a = Inr tr" "hk_exact E a q tr"
    and "dget (lc_instruments (hc_ledger k)) (hr_symbol q) = Some sp" "sp_settlement_currency sp = ''HKD''"
    and "\<not> is_derivative sp" "\<not> is_premium_asset sp" "decimal E (sp_contract_multiplier sp) = 1"
    and "py_strip oid = oid" "py_strip (hr_symbol q) = hr_symbol q"
    and "dget (lg_event_fingerprints (ha_ledger a)) (''fill_id:'' @ oid) = None"
    and "\<forall>key. dget (lg_event_fingerprints (ha_ledger a)) (''fee_id:'' @ oid @ CHR '':'' # key) = None"
  shows "0 \<le> free_cash b \<and> free_cash b = free_cash a
     - (if hr_side q = BUY then ht_amount tr + ht_fee_amount tr else max 0 (ht_fee_amount tr - ht_amount tr))"
proof -
  let ?c = "hc_ledger k" and ?l = "ha_ledger a"
  obtain n x where tr: "oid \<noteq> ''''" "0 < hr_quantity q" "fixed E (ht_amount tr) 8 None = Inr n"
      "ht_amount tr = dmul E (decimal E (hr_price q)) (of_int (hr_quantity q))" "hk_fill E oid q = Inr (ht_fill tr)"
      "hk_charge E (hc_fees k) n (ht_day tr) x = Inr (ht_charges tr)"
    and funds: "hr_side q = BUY \<Longrightarrow> dadd E (ht_amount tr) (ht_fee_amount tr) \<le> available_cash E a"
      "hr_side q = SELL \<Longrightarrow> ht_fee_amount tr \<le> dadd E (available_cash E a) (ht_amount tr)"
    using assms(7) by (rule fixed_env.hk_check_order_Inr [OF assms(1)]) blast
  have exact: "hr_quantity q < 10 ^ prec E" "\<bar>units (hr_price q) * hr_quantity q\<bar> < 10 ^ prec E"
      "\<forall>(key, v) \<in> set (ht_charges tr). \<bar>units v\<bar> < 10 ^ prec E"
      "ht_fee_amount tr = (\<Sum>(key, v) \<leftarrow> ht_charges tr. decimal E v)"
    and sums: "available_cash E a = free_cash a" "dadd E (ht_amount tr) (ht_fee_amount tr) = ht_amount tr + ht_fee_amount tr"
      "dsub E (ht_amount tr) (ht_fee_amount tr) = ht_amount tr - ht_fee_amount tr"
      "dadd E (available_cash E a) (ht_amount tr) = available_cash E a + ht_amount tr"
    using assms(8) unfolding hk_exact_def by blast+
  from assms(5,6,7) obtain l where booked: "hk_book E ?c oid q tr ?l = (Inr (), l)" and b: "b = hk_note E oid q tr (a\<lparr>ha_ledger := l\<rparr>)"
    by (auto elim!: hk_execute_new [where E = E and k = k and q = q])
  then obtain snap l1 where fill: "apply_with_trading_day E ?c (FillEvent (ht_fill tr)) (ht_day tr) True ?l = (Inr snap, l1)"
    and fees: "each (hk_book_fee E ?c oid (hr_at q)) (ht_charges tr) l1 = (Inr (), l)"
    by (auto simp: hk_book_def all_or_nothing_Inr bind_Inr)
  note after_fill = fixed_env.hk_fill_cash [OF assms(1) fill assms(3) tr(5) assms(14-16,9,11-13,2) tr(2) exact(1,2) tr(4,3)]
  have names: "map fst (ht_charges tr) = [''commission'', ''platform'', ''stamp'', ''sfc'', ''afrc'', ''trading'', ''settlement'', ''slippage'']"
    "\<forall>(key, v) \<in> set (ht_charges tr). scale v = 2"
    using fixed_env.hk_charge_names [OF assms(1) tr(6)] by auto
  have stripped: "key \<noteq> '''' \<and> py_strip key = key" if "key \<in> set (map fst (ht_charges tr))" for key
  proof -
    have "list_all (\<lambda>key. key \<noteq> '''' \<and> py_strip key = key) [''commission'', ''platform'', ''stamp'', ''sfc'', ''afrc'', ''trading'', ''settlement'', ''slippage'']"
      by code_simp
    then show ?thesis using that unfolding names(1) by (auto simp: list_all_iff)
  qed
  have "cash_balance l ''HKD'' = cash_balance l1 ''HKD'' - ht_fee_amount tr"
    unfolding exact(4)
  proof (rule fixed_env.book_charges_cash [OF assms(1) fees after_fill(3) assms(2) tr(1) assms(14)])
    show "distinct (map fst (ht_charges tr))" unfolding names(1) by code_simp
    have "key \<noteq> '''' \<and> py_strip key = key \<and> scale v = 2 \<and> \<bar>units v\<bar> < 10 ^ prec E
       \<and> dget (lg_event_fingerprints l1) (''fee_id:'' @ oid @ CHR '':'' # key) = None" if "(key, v) \<in> set (ht_charges tr)" for key v
    proof -
      have "key \<noteq> '''' \<and> py_strip key = key" using stripped [of key] that by force
      moreover have "scale v = 2" "\<bar>units v\<bar> < 10 ^ prec E" using names(2) exact(3) that by blast+
      ultimately show ?thesis using assms(17) by (simp add: after_fill(2))
    qed
    then show "\<forall>(key, v) \<in> set (ht_charges tr). key \<noteq> '''' \<and> py_strip key = key \<and> scale v = 2 \<and> \<bar>units v\<bar> < 10 ^ prec E
       \<and> dget (lg_event_fingerprints l1) (''fee_id:'' @ oid @ CHR '':'' # key) = None" by blast
  qed
  with after_fill(1) assms(10) have "cash_balance l ''HKD'' = cash_balance ?l ''HKD''
      + (if hr_side q = BUY then - ht_amount tr else ht_amount tr) - ht_fee_amount tr" by simp
  with b sums have "free_cash b = free_cash a
     - (if hr_side q = BUY then ht_amount tr + ht_fee_amount tr else max 0 (ht_fee_amount tr - ht_amount tr))"
    by (cases "hr_side q") (simp_all add: free_cash_def hk_note_def max_def)
  moreover have "hr_side q = BUY \<Longrightarrow> ht_amount tr + ht_fee_amount tr \<le> free_cash a"
    "hr_side q = SELL \<Longrightarrow> ht_fee_amount tr \<le> free_cash a + ht_amount tr"
    using funds sums by simp_all
  ultimately show ?thesis using assms(4) by (cases "hr_side q") (auto simp: max_def)
qed

end
