(* ===== verification/Hk_Demo.thy ===== *)
theory Hk_Demo
  imports Hk_Props
begin

text \<open>The properties of the Hong Kong account on one instrument with board lots of 100 shares.\<close>

definition hk_env :: env where
  "hk_env = std_env\<lparr>sha256_hex := (\<lambda>_. ''0'')\<rparr>"

interpretation henv: fixed_env hk_env
  using std.fixed_env_axioms by (simp add: fixed_env_def hk_env_def)

definition demo_hk_spec :: instrument_spec where
  "demo_hk_spec = \<lparr>sp_instrument_id = ''5'', sp_asset_class = EQUITY, sp_product_type = ''e'', sp_venue = ''XHKG'',
     sp_settlement_currency = ''HKD'', sp_quote_currency = Some ''HKD'', sp_price_tick = \<lparr>units = 1, scale = 2\<rparr>,
     sp_quantity_step = \<lparr>units = 1, scale = 0\<rparr>, sp_contract_multiplier = \<lparr>units = 1, scale = 0\<rparr>,
     sp_metadata = [(''lot_size'', ''100''), (''stamp_exempt'', ''true'')], sp_available_at = 0, sp_effective_from = 0,
     sp_effective_to = None, sp_expiry_date = None\<rparr>"

definition demo_hk_fees :: hk_fees where
  "demo_hk_fees = \<lparr>hf_valid_from = 0, hf_valid_to = 800000, hf_commission_rate = 1 / 1000, hf_minimum_commission = 3,
     hf_platform_fee = 0, hf_stamp_rate = 1 / 1000, hf_sfc_rate = 0, hf_afrc_rate = 0, hf_trading_rate = 0,
     hf_settlement_rate = 0, hf_settlement_minimum = 0, hf_settlement_maximum = None, hf_slippage_rate = 0,
     hf_source = ''declared''\<rparr>"

definition demo_hk_ledger_config :: ledger_config where
  "demo_hk_ledger_config = \<lparr>lc_account_id = ''hk-research'', lc_base_currency = ''HKD'', lc_instruments = [(''5'', demo_hk_spec)],
     lc_money_scale = 8, lc_dividend_mode = None, lc_fx_mode = LEGACY, lc_initial_cash = [], lc_initial_fx = [],
     lc_default_opened_at = 0, lc_payload_digest = (\<lambda>_. []), lc_select_pit_fx = (\<lambda>_ _ _ _. None), lc_sink_accepts = (\<lambda>_. True)\<rparr>"

definition demo_hk :: hk_config where
  "demo_hk = \<lparr>hc_ledger = demo_hk_ledger_config, hc_fees = demo_hk_fees, hc_settlement_days = [719163, 719164, 719165, 719166],
     hc_mark_event = Inr, hc_isoformat = show_int\<rparr>"

definition demo_hk_account :: hk_account where
  "demo_hk_account = (case mk_hk_account hk_env demo_hk \<lparr>units = 1000, scale = 0\<rparr> 0 False of
     Inr (k, a) \<Rightarrow> a | Inl e \<Rightarrow> \<lparr>ha_ledger = blank_ledger demo_hk_ledger_config 0, ha_pending = [], ha_executed = [], ha_last_settlement_day = None\<rparr>)"

definition demo_hk_buy :: hk_request where
  "demo_hk_buy = \<lparr>hr_symbol = ''5'', hr_quantity = 100, hr_side = BUY, hr_price = \<lparr>units = 150, scale = 2\<rparr>, hr_at = 5\<rparr>"

text \<open>The evaluations, together: the code of the definitions is prepared once.\<close>

lemma hk_demo_facts:
  "affordable_quantity hk_env demo_hk ''5'' \<lparr>units = 1, scale = 0\<rparr> 350 719163 = Inr 300" (is ?p1)
  "lg_event_fingerprints (ha_ledger demo_hk_account) = [] \<and> ha_executed demo_hk_account = [] \<and> plain (ha_ledger demo_hk_account)
    \<and> free_cash demo_hk_account = 1000" (is ?p2)
  "hk_costs hk_env demo_hk ''5'' \<lparr>units = 150, scale = 2\<rparr> 100 719163 = Inr [(''commission'', \<lparr>units = 300, scale = 2\<rparr>),
     (''platform'', \<lparr>units = 0, scale = 2\<rparr>), (''stamp'', \<lparr>units = 0, scale = 2\<rparr>), (''sfc'', \<lparr>units = 0, scale = 2\<rparr>),
     (''afrc'', \<lparr>units = 0, scale = 2\<rparr>), (''trading'', \<lparr>units = 0, scale = 2\<rparr>), (''settlement'', \<lparr>units = 0, scale = 2\<rparr>),
     (''slippage'', \<lparr>units = 0, scale = 2\<rparr>)]" (is ?p3)
  "returns (fst (hk_execute hk_env demo_hk (''o1'', demo_hk_buy) demo_hk_account))" (is ?p4)
  "mk_hk_fees demo_hk_fees = Inr demo_hk_fees" (is ?p5)
  "utc_date 5 = 719163" (is ?p6)
  "available_cash hk_env demo_hk_account = 1000" (is ?p7)
  "prec hk_env = 28" (is ?p8)
  "dmul hk_env (decimal hk_env \<lparr>units = 150, scale = 2\<rparr>) 100 = 150" (is ?p9)
  "dadd hk_env 150 3 = 153" (is ?p10)
  "dsub hk_env 150 3 = 147" (is ?p11)
  "dadd hk_env 1000 150 = 1150" (is ?p12)
  "board_lot demo_hk_spec = Inr 100" (is ?p13)
  "\<not> is_derivative demo_hk_spec" (is ?p14)
  "\<not> is_premium_asset demo_hk_spec" (is ?p15)
  "dget (lc_instruments demo_hk_ledger_config) ''5'' = Some demo_hk_spec" (is ?p16)
  "py_strip ''o1'' = ''o1''" (is ?p17)
  "py_strip ''5'' = ''5''" (is ?p18)
proof -
  have "?p1 \<and> ?p2 \<and> ?p3 \<and> ?p4 \<and> ?p5 \<and> ?p6 \<and> ?p7 \<and> ?p8 \<and> ?p9 \<and> ?p10
     \<and> ?p11 \<and> ?p12 \<and> ?p13 \<and> ?p14 \<and> ?p15 \<and> ?p16 \<and> ?p17 \<and> ?p18" by code_simp
  then show ?p1 ?p2 ?p3 ?p4 ?p5 ?p6 ?p7 ?p8 ?p9 ?p10 ?p11 ?p12 ?p13 ?p14 ?p15 ?p16 ?p17 ?p18 by blast+
qed

lemmas hk_demo_search = hk_demo_facts(1)
lemmas hk_demo_account = hk_demo_facts(2)
lemmas hk_demo_costs = hk_demo_facts(3)
lemmas hk_demo_executes = hk_demo_facts(4)
lemmas hk_demo_sums = hk_demo_facts(5-18)

lemma hk_demo_bought:
  obtains v b tr where "hk_execute hk_env demo_hk (''o1'', demo_hk_buy) demo_hk_account = (Inr v, b)"
    "hk_check_order hk_env demo_hk ''o1'' demo_hk_buy demo_hk_account = Inr tr" "ht_amount tr = 150" "ht_fee_amount tr = 3"
    "hk_exact hk_env demo_hk_account demo_hk_buy tr"
proof -
  obtain v b where x: "hk_execute hk_env demo_hk (''o1'', demo_hk_buy) demo_hk_account = (Inr v, b)"
    using hk_demo_executes by (metis prod.collapse returns_iff)
  have "dget (ha_executed demo_hk_account) ''o1'' = None" using hk_demo_account by simp
  then obtain tr where tr: "hk_check_order hk_env demo_hk ''o1'' demo_hk_buy demo_hk_account = Inr tr"
    using x by (cases rule: hk_execute_new [of demo_hk_account "''o1''" hk_env demo_hk demo_hk_buy]) auto
  from henv.hk_check_order_Inr [OF this]
  have a: "ht_amount tr = 150" "ht_fee_amount tr = charges_total hk_env (ht_charges tr)"
    "hk_costs hk_env demo_hk ''5'' \<lparr>units = 150, scale = 2\<rparr> 100 719163 = Inr (ht_charges tr)"
    using hk_demo_sums(2,5) by (auto simp: demo_hk_buy_def)
  note cs = a(3) [unfolded hk_demo_costs, THEN Inr_inject, symmetric]
  have f: "ht_fee_amount tr = 3" unfolding a(2) cs by code_simp
  have "(\<Sum>(key, v) \<leftarrow> ht_charges tr. decimal hk_env v) = 3" unfolding cs by code_simp
  moreover have "\<forall>(key, v) \<in> set (ht_charges tr). \<bar>units v\<bar> < 10 ^ prec hk_env" unfolding cs hk_demo_sums(4) by simp
  ultimately have "hk_exact hk_env demo_hk_account demo_hk_buy tr"
    using hk_demo_sums hk_demo_account by (simp add: hk_exact_def a(1) f demo_hk_buy_def)
  with x tr a(1) f show thesis by (rule that)
qed

theorem affordable_quantity_is_the_largest_witness:
  "\<exists>lots. lots * 100 = 300 \<and> (lots = 0 \<or> (\<exists>cs. hk_costs hk_env demo_hk ''5'' \<lparr>units = 1, scale = 0\<rparr> 300 719163 = Inr cs
     \<and> hk_outlay hk_env \<lparr>units = 1, scale = 0\<rparr> lots 100 cs \<le> 350))"
  using affordable_quantity_is_the_largest [OF henv.fixed_env_axioms _ _ _ _ hk_demo_search, of demo_hk_spec 100] hk_demo_sums
  by (auto simp: demo_hk_def)

theorem hk_orders_execute_once_witness:
  "\<exists>v b. hk_execute hk_env demo_hk (''o1'', demo_hk_buy) demo_hk_account = (Inr v, b)
     \<and> hk_execute hk_env demo_hk (''o1'', demo_hk_buy) b = (Inr v, b)"
  using hk_orders_execute_once [of demo_hk_account hk_env demo_hk "(''o1'', demo_hk_buy)"] hk_demo_account
  by (rule_tac hk_demo_bought) blast

theorem settled_cash_is_never_overspent_witness:
  "\<exists>v b. hk_execute hk_env demo_hk (''o1'', demo_hk_buy) demo_hk_account = (Inr v, b) \<and> free_cash b = 847"
proof (rule hk_demo_bought)
  fix v b tr assume x: "hk_execute hk_env demo_hk (''o1'', demo_hk_buy) demo_hk_account = (Inr v, b)"
    and tr: "hk_check_order hk_env demo_hk ''o1'' demo_hk_buy demo_hk_account = Inr tr" "ht_amount tr = 150" "ht_fee_amount tr = 3"
    and exact: "hk_exact hk_env demo_hk_account demo_hk_buy tr"
  have "decimal hk_env (sp_contract_multiplier demo_hk_spec) = 1" by (simp add: henv.decimal_value demo_hk_spec_def)
  from settled_cash_is_never_overspent [OF henv.fixed_env_axioms _ _ _ _ x tr(1) exact _ _ _ _ this] tr hk_demo_account hk_demo_sums
  have "free_cash b = 847" by (simp add: demo_hk_def demo_hk_ledger_config_def demo_hk_buy_def demo_hk_spec_def)
  with x show ?thesis by blast
qed

end
