(* ===== verification/Us_Account.thy ===== *)
theory Us_Account
  imports Accounts Us_Cash
begin

text \<open>
  \<open>us_cash.py\<close>: the US cash account.  Values are finite decimals by type; the constructors of
  a mark event and of a corporate action belong to the data kit and are fields of
  \<open>us_config\<close>.  A trade record keeps its amounts, not their decimal text.
\<close>

definition us_fp :: "env \<Rightarrow> rat \<Rightarrow> nat \<Rightarrow> fixed_point res" where
  "us_fp E x s = and_then (dquantize E round_half_even x s) (\<lambda>y. fixed E y s None)"

record us_config =
  ua_ledger :: ledger_config
  ua_calendar :: us_calendar
  ua_commission :: rat
  ua_slippage :: rat
  ua_mark_event :: "market_event \<Rightarrow> market_event res"
  ua_action_event :: "corporate_action \<Rightarrow> corporate_action res"

record us_trade =
  ut_instrument_id :: string
  ut_quantity :: rat
  ut_reference_price :: rat
  ut_at :: instant

record us_record =
  ur_trade_id :: string
  ur_instrument_id :: string
  ur_at :: instant
  ur_side :: side
  ur_quantity :: rat
  ur_price :: fixed_point
  ur_fee :: fixed_point
  ur_reference_price :: rat

record us_account =
  us_ledger :: ledger
  us_fills :: "us_record list"
  us_trades :: "(string, us_trade) dict"

section \<open>Construction\<close>

definition us_instrument :: "env \<Rightarrow> string \<Rightarrow> string \<Rightarrow> instant \<Rightarrow> bool \<Rightarrow> instrument_spec res" where
  "us_instrument E iid symbol t etf =
     and_then (us_fp E (1 / 100000000) 8) (\<lambda>tick. and_then (us_fp E (1 / 1000000) 6) (\<lambda>step_size.
     and_then (us_fp E 1 0) (\<lambda>one.
       Inr \<lparr>sp_instrument_id = iid, sp_asset_class = (if etf then ETF else EQUITY),
         sp_product_type = (if etf then ''us_etf'' else ''us_equity''), sp_venue = ''US-CONSOLIDATED'',
         sp_settlement_currency = ''USD'', sp_quote_currency = Some ''USD'', sp_price_tick = tick, sp_quantity_step = step_size,
         sp_contract_multiplier = one, sp_metadata = [(''market'', ''US''), (''commission_rate'', ''0'')],
         sp_available_at = t, sp_effective_from = t, sp_effective_to = None, sp_expiry_date = None\<rparr>)))"

definition us_check_instrument :: "env \<Rightarrow> instrument_spec \<Rightarrow> bool" where
  "us_check_instrument E sp \<longleftrightarrow> sp_settlement_currency sp = ''USD'' \<and> sp_quote_currency sp = Some ''USD''
     \<and> sp_asset_class sp \<in> {EQUITY, ETF} \<and> sp_product_type sp \<in> {''us_equity'', ''us_etf''}
     \<and> decimal E (sp_contract_multiplier sp) = 1"

definition mk_us_account ::
  "env \<Rightarrow> us_config \<Rightarrow> rat \<Rightarrow> rat \<Rightarrow> rat \<Rightarrow> instant \<Rightarrow> (us_config \<times> us_account) res" where
  "mk_us_account E given commission_bps slippage_bps initial_cash opened_at =
     and_then (ddiv E commission_bps 10000) (\<lambda>commission. and_then (ddiv E slippage_bps 10000) (\<lambda>slippage.
     if \<not> (0 \<le> commission \<and> commission < 1) \<or> \<not> (0 \<le> slippage \<and> slippage < 1) \<or> initial_cash \<le> 0
     then Inl (ValueError ''invalid cash or costs'')
     else if list_ex (\<lambda>(iid, sp). \<not> us_check_instrument E sp) (lc_instruments (ua_ledger given))
     then Inl (ValueError ''explicit USD US equity instruments required'')
     else and_then (us_fp E initial_cash 8) (\<lambda>cash.
       and_then (mk_ledger E ((ua_ledger given)\<lparr>lc_account_id := ''us-research'', lc_base_currency := ''USD'',
           lc_initial_cash := [(''USD'', cash)], lc_money_scale := 8, lc_initial_fx := [], lc_dividend_mode := None,
           lc_fx_mode := LEGACY\<rparr>) (Some opened_at) False) (\<lambda>(c, l).
         Inr (given\<lparr>ua_ledger := c, ua_commission := commission, ua_slippage := slippage\<rparr>,
              \<lparr>us_ledger = l, us_fills = [], us_trades = []\<rparr>)))))"

section \<open>Views\<close>

definition us_quantity :: "env \<Rightarrow> us_config \<Rightarrow> us_account \<Rightarrow> string \<Rightarrow> rat res" where
  "us_quantity E k a iid = and_then (snapshot E (ua_ledger k) (us_ledger a) None) (\<lambda>snap.
     Inr (case dget (as_positions snap) iid of None \<Rightarrow> 0 | Some q \<Rightarrow> decimal E q))"

definition buying_power :: "env \<Rightarrow> us_config \<Rightarrow> us_account \<Rightarrow> instant \<Rightarrow> rat res" where
  "buying_power E k a t = and_then (uc_utc (ua_calendar k) t) (\<lambda>stamp.
     and_then (settled_cash E (ua_calendar k) (ua_ledger k) (us_ledger a) stamp) (\<lambda>cash. Inr (max 0 cash)))"

definition us_check_time :: "env \<Rightarrow> us_config \<Rightarrow> us_account \<Rightarrow> instant \<Rightarrow> unit res" where
  "us_check_time E k a t = and_then (uc_utc (ua_calendar k) t) (\<lambda>stamp.
     and_then (snapshot E (ua_ledger k) (us_ledger a) None) (\<lambda>snap.
     if stamp < as_event_time snap then Inl (ValueError ''account event cannot precede current account state'')
     else Inr ()))"

definition us_market_event :: "us_config \<Rightarrow> string \<Rightarrow> string \<Rightarrow> instant \<Rightarrow> event_body \<Rightarrow> market_event res" where
  "us_market_event k event_id iid t body = and_then (uc_utc (ua_calendar k) t) (\<lambda>stamp.
     let d = uc_new_york_date (ua_calendar k) stamp in
     Inr \<lparr>me_event_id = event_id, me_instrument_id = iid, me_event_time = stamp, me_received_at = stamp,
          me_available_at = stamp, me_source = ''us-research-model'', me_trading_day = d,
          me_session_id = ''XNYS:'' @ iso_date d, me_sequence = 0, me_body = body\<rparr>)"

section \<open>Marks and corporate actions\<close>

definition on_us_ledger :: "(ledger, 'a) effect \<Rightarrow> (us_account, 'a) effect" where
  "on_us_ledger p a = (case p (us_ledger a) of (r, l) \<Rightarrow> (r, a\<lparr>us_ledger := l\<rparr>))"

definition us_mark :: "env \<Rightarrow> us_config \<Rightarrow> string \<Rightarrow> rat \<Rightarrow> instant \<Rightarrow> string \<Rightarrow> (us_account, unit) effect" where
  "us_mark E k iid price t event_id =
     bind (ask (\<lambda>a. us_check_time E k a t)) (\<lambda>_.
     bind (ask (\<lambda>_. and_then (us_fp E price 8) (\<lambda>p.
        and_then (us_market_event k event_id iid t (MarkPriceEvent p)) (\<lambda>given.
        and_then (ua_mark_event k given) (\<lambda>ev. Inr (ev, p)))))) (\<lambda>(ev, p).
       on_us_ledger (mark_now E (ua_ledger k) ev p)))"

definition optional_fp :: "env \<Rightarrow> rat option \<Rightarrow> nat \<Rightarrow> fixed_point option res" where
  "optional_fp E x s = (case x of None \<Rightarrow> Inr None | Some v \<Rightarrow> and_then (us_fp E v s) (\<lambda>f. Inr (Some f)))"

definition us_action ::
  "env \<Rightarrow> us_config \<Rightarrow> string \<Rightarrow> instant \<Rightarrow> string \<Rightarrow> rat option \<Rightarrow> rat option \<Rightarrow> bool \<Rightarrow> day option
     \<Rightarrow> (us_account, unit) effect" where
  "us_action E k iid t event_id ratio cash payment ex_date =
     bind (ask (\<lambda>a. us_check_time E k a t)) (\<lambda>_.
     bind (ask (\<lambda>_. and_then (us_market_event k event_id iid t OtherEvent) (\<lambda>head.
        and_then (optional_fp E ratio 6) (\<lambda>r. and_then (optional_fp E cash 8) (\<lambda>amount.
          ua_action_event k \<lparr>ca_event_id = event_id, ca_instrument_id = iid,
            ca_action_type = (if cash = None then ''split'' else if payment then ''cash_dividend_payment''
               else ''cash_dividend_entitlement''),
            ca_effective_date = (case ex_date of None \<Rightarrow> me_trading_day head | Some d \<Rightarrow> d),
            ca_available_at = me_available_at head, ca_ratio = r, ca_cash_amount = amount,
            ca_currency = (if cash = None then None else Some ''USD''), ca_share_entitlement = None\<rparr>))))) (\<lambda>ev.
       on_us_ledger (apply_now E (ua_ledger k) (ActionEvent ev))))"

section \<open>Trades\<close>

text \<open>The two ledger events of a trade and the record of it, once every check has passed.\<close>

definition us_amounts ::
  "env \<Rightarrow> us_config \<Rightarrow> us_trade \<Rightarrow> (rat \<times> fixed_point \<times> rat \<times> fixed_point) res" where
  "us_amounts E k q =
     (if ut_quantity q = 0 \<or> ut_reference_price q \<le> 0 then Inl (ValueError ''nonzero quantity and positive price required'')
      else and_then (dquantize E round_down (dabs E (ut_quantity q)) 6) (\<lambda>absolute.
        if absolute = 0 \<or> absolute \<noteq> dabs E (ut_quantity q)
        then Inl (ValueError ''quantity exceeds supported 6-decimal precision'')
        else and_then (us_fp E (dmul E (ut_reference_price q)
               (if 0 < ut_quantity q then dadd E 1 (ua_slippage k) else dsub E 1 (ua_slippage k))) 8) (\<lambda>price.
          let notional = dmul E (decimal E price) absolute in
          and_then (us_fp E (dmul E notional (ua_commission k)) 8) (\<lambda>fee. Inr (absolute, price, notional, fee)))))"

definition us_side :: "us_trade \<Rightarrow> side" where
  "us_side q = (if 0 < ut_quantity q then BUY else SELL)"

definition us_check_funds ::
  "env \<Rightarrow> us_config \<Rightarrow> us_account \<Rightarrow> us_trade \<Rightarrow> instant \<Rightarrow> rat \<times> fixed_point \<times> rat \<times> fixed_point \<Rightarrow> unit res" where
  "us_check_funds E k a q stamp amounts = (case amounts of (absolute, price, notional, fee) \<Rightarrow>
     if us_side q = SELL
     then and_then (us_quantity E k a (ut_instrument_id q)) (\<lambda>owned.
       if owned < absolute then Inl (ValueError ''cash account cannot sell short'') else Inr ())
     else and_then (buying_power E k a stamp) (\<lambda>power.
       if power < dadd E notional (decimal E fee) then Inl (ValueError ''insufficient settled USD buying power'') else Inr ()))"

definition us_fill :: "env \<Rightarrow> string \<Rightarrow> us_trade \<Rightarrow> instant \<Rightarrow> rat \<times> fixed_point \<times> rat \<times> fixed_point \<Rightarrow> fill res" where
  "us_fill E tid q stamp amounts = (case amounts of (absolute, price, notional, fee) \<Rightarrow>
     and_then (us_fp E absolute 6) (\<lambda>quantity.
       mk_fill E \<lparr>fl_fill_id = tid, fl_order_id = tid, fl_account_id = ''us-research'', fl_strategy_id = ''daily'',
         fl_instrument_id = ut_instrument_id q, fl_side = us_side q, fl_quantity = quantity, fl_price = price,
         fl_event_time = stamp, fl_liquidity_role = UNKNOWN, fl_venue_trade_id = None\<rparr>))"

definition us_fee :: "env \<Rightarrow> string \<Rightarrow> instant \<Rightarrow> rat \<times> fixed_point \<times> rat \<times> fixed_point \<Rightarrow> fee res" where
  "us_fee E tid stamp amounts = (case amounts of (absolute, price, notional, fee) \<Rightarrow>
     mk_fee E \<lparr>fee_fee_id = tid @ '':fee'', fee_fill_id = tid, fee_account_id = ''us-research'', fee_amount = fee,
       fee_currency = ''USD'', fee_event_time = stamp, fee_fee_type = ''commission''\<rparr>)"

definition us_book ::
  "env \<Rightarrow> us_config \<Rightarrow> string \<Rightarrow> instant \<Rightarrow> rat \<times> fixed_point \<times> rat \<times> fixed_point \<Rightarrow> fill \<Rightarrow> (ledger, unit) effect" where
  "us_book E k tid stamp amounts f = all_or_nothing
     (bind (apply_now E (ua_ledger k) (FillEvent f)) (\<lambda>_.
      bind (ask (\<lambda>_. us_fee E tid stamp amounts)) (\<lambda>fee. apply_now E (ua_ledger k) (FeeEvent fee))))"

definition us_record_of :: "string \<Rightarrow> us_trade \<Rightarrow> rat \<times> fixed_point \<times> rat \<times> fixed_point \<Rightarrow> us_record" where
  "us_record_of tid q amounts = (case amounts of (absolute, price, notional, fee) \<Rightarrow>
     \<lparr>ur_trade_id = tid, ur_instrument_id = ut_instrument_id q, ur_at = ut_at q, ur_side = us_side q,
      ur_quantity = absolute, ur_price = price, ur_fee = fee, ur_reference_price = ut_reference_price q\<rparr>)"

definition us_prepare ::
  "env \<Rightarrow> us_config \<Rightarrow> string \<Rightarrow> us_trade \<Rightarrow> us_account \<Rightarrow> ((rat \<times> fixed_point \<times> rat \<times> fixed_point) \<times> fill) res" where
  "us_prepare E k tid q a =
     and_then (us_check_time E k a (ut_at q)) (\<lambda>_.
     and_then (us_amounts E k q) (\<lambda>amounts.
     and_then (us_check_funds E k a q (ut_at q) amounts) (\<lambda>_.
     and_then (us_fill E tid q (ut_at q) amounts) (\<lambda>f. Inr (amounts, f)))))"

text \<open>A repeated trade is answered with the record of the first one that has its identifier.\<close>

definition us_answer :: "us_account \<Rightarrow> string \<Rightarrow> us_record res" where
  "us_answer a tid = (case find (\<lambda>row. ur_trade_id row = tid) (us_fills a) of
     None \<Rightarrow> Inl (RuntimeError ''StopIteration'') | Some row \<Rightarrow> Inr row)"

definition us_execute_stamped :: "env \<Rightarrow> us_config \<Rightarrow> string \<times> us_trade \<Rightarrow> (us_account, us_record) effect" where
  "us_execute_stamped E k request a = (case request of (tid, q) \<Rightarrow> (case dget (us_trades a) tid of
       Some prior \<Rightarrow> (if prior \<noteq> q then Inl (ValueError ''trade id reused with changed content'') else us_answer a tid, a)
     | None \<Rightarrow>
         bind (ask (us_prepare E k tid q)) (\<lambda>(amounts, f).
         bind (on_us_ledger (us_book E k tid (ut_at q) amounts f)) (\<lambda>_.
         bind (put (\<lambda>a. a\<lparr>us_trades := dset tid q (us_trades a), us_fills := us_fills a @ [us_record_of tid q amounts]\<rparr>)) (\<lambda>_.
           ret (us_record_of tid q amounts)))) a))"

text \<open>\<open>trade\<close> converts the timestamp before anything else.\<close>

definition us_execute :: "env \<Rightarrow> us_config \<Rightarrow> string \<times> us_trade \<Rightarrow> (us_account, us_record) effect" where
  "us_execute E k request a = (case uc_utc (ua_calendar k) (ut_at (snd request)) of
       Inl e \<Rightarrow> (Inl e, a)
     | Inr stamp \<Rightarrow> us_execute_stamped E k (fst request, (snd request)\<lparr>ut_at := stamp\<rparr>) a)"

section \<open>The audit\<close>

definition currency_totals :: "env \<Rightarrow> ledger_transaction \<Rightarrow> (string, rat) dict" where
  "currency_totals E t = fold (\<lambda>p d. dset (po_currency p) (dadd E (dget_or d (po_currency p) 0) (decimal E (po_amount p))) d)
     (tx_postings t) []"

definition us_validate_balance :: "env \<Rightarrow> us_account \<Rightarrow> unit res" where
  "us_validate_balance E a =
     (if list_ex (\<lambda>t. list_ex (\<lambda>(cur, v). v \<noteq> 0) (currency_totals E t)) (lg_transactions (us_ledger a))
      then Inl (AssertionError ''unbalanced QExec transaction'') else Inr ())"

end
