(* ===== verification/Us_Props.thy ===== *)
theory Us_Props
  imports Us_Account Account_Books
begin

text \<open>
  The US account: trades are served once and leave no trace when they are refused; a trade
  moves the settled cash by its cost only, the proceeds of a sale wait for their session.
\<close>

section \<open>Trades served once\<close>

lemma on_us_ledger_iff: "on_us_ledger p a = (r, b) \<longleftrightarrow> (\<exists>l. p (us_ledger a) = (r, l) \<and> b = a\<lparr>us_ledger := l\<rparr>)"
  by (auto simp: on_us_ledger_def split: prod.splits)

lemma us_book_plain [plain_intros]:
  "keeps_plain (bind (apply_now E c (FillEvent f)) (\<lambda>_.
      bind (ask (\<lambda>_. us_fee E tid stamp amounts)) (\<lambda>fee. apply_now E c (FeeEvent fee))))"
  by (intro plain_intros)

definition us_noted :: "string \<Rightarrow> us_trade \<Rightarrow> us_record \<Rightarrow> us_account \<Rightarrow> us_account" where
  "us_noted tid q row a = a\<lparr>us_trades := dset tid q (us_trades a), us_fills := us_fills a @ [row]\<rparr>"

lemma us_execute_new:
  assumes "dget (us_trades a) tid = None"
  obtains (refused) e where "us_execute_stamped E k (tid, q) a = (Inl e, a)" "us_prepare E k tid q a = Inl e"
  | (unbooked) amounts f e l where "us_prepare E k tid q a = Inr (amounts, f)"
      "us_book E k tid (ut_at q) amounts f (us_ledger a) = (Inl e, l)" "us_execute_stamped E k (tid, q) a = (Inl e, a\<lparr>us_ledger := l\<rparr>)"
  | (executed) amounts f l where "us_prepare E k tid q a = Inr (amounts, f)"
      "us_book E k tid (ut_at q) amounts f (us_ledger a) = (Inr (), l)"
      "us_execute_stamped E k (tid, q) a
         = (Inr (us_record_of tid q amounts), us_noted tid q (us_record_of tid q amounts) (a\<lparr>us_ledger := l\<rparr>))"
proof (cases "us_prepare E k tid q a")
  case (Inl e)
  with assms refused [of e] show thesis by (simp add: us_execute_stamped_def bind_def ask_def)
next
  case (Inr p)
  obtain amounts f where p: "p = (amounts, f)" by (cases p)
  obtain r l where b: "us_book E k tid (ut_at q) amounts f (us_ledger a) = (r, l)"
    by (cases "us_book E k tid (ut_at q) amounts f (us_ledger a)")
  show thesis
  proof (cases r)
    case (Inl e)
    with assms Inr p b unbooked [of amounts f e l] show thesis by (simp add: us_execute_stamped_def bind_def ask_def on_us_ledger_def)
  next
    case (Inr u)
    with assms \<open>us_prepare E k tid q a = Inr p\<close> p b executed [of amounts f l] show thesis
      by (simp add: us_execute_stamped_def bind_def ask_def on_us_ledger_def put_def ret_def us_noted_def)
  qed
qed

lemma us_execute_refused:
  assumes "plain (us_ledger a)" "us_execute_stamped E k request a = (Inl e, b)"
  shows "b = a"
proof (cases request)
  case (Pair tid q)
  show ?thesis
  proof (cases "dget (us_trades a) tid")
    case None
    then show ?thesis
    proof (cases rule: us_execute_new [of a tid E k q, case_names refused unbooked executed])
      case (unbooked amounts f e' l)
      have "l = us_ledger a"
        using unbooked(2) unfolding us_book_def by (rule all_or_nothing_Inl [OF us_book_plain assms(1)])
      with unbooked(3) assms(2) Pair show ?thesis by simp
    qed (use assms(2) Pair in auto)
  qed (use assms(2) Pair in \<open>auto simp: us_execute_stamped_def\<close>)
qed

text \<open>Every record belongs to a remembered trade, so a repeated trade finds its own record.\<close>

definition us_fine :: "us_account \<Rightarrow> bool" where
  "us_fine a \<longleftrightarrow> plain (us_ledger a) \<and> (\<forall>row \<in> set (us_fills a). dget (us_trades a) (ur_trade_id row) \<noteq> None)"

definition us_served :: "us_account \<Rightarrow> string \<Rightarrow> (us_trade \<times> us_record) option" where
  "us_served a tid = (case (dget (us_trades a) tid, us_answer a tid) of (Some q, Inr row) \<Rightarrow> Some (q, row) | _ \<Rightarrow> None)"

lemma us_served_iff: "us_served a tid = Some (q, row) \<longleftrightarrow> dget (us_trades a) tid = Some q \<and> us_answer a tid = Inr row"
  by (auto simp: us_served_def split: option.splits sum.splits)

lemma find_snoc: "find P (xs @ [x]) = (case find P xs of None \<Rightarrow> if P x then Some x else None | Some y \<Rightarrow> Some y)"
  by (induction xs) auto

lemma us_answer_noted:
  "ur_trade_id row = tid \<Longrightarrow> us_answer (us_noted tid q row a) i
     = (case us_answer a i of Inr seen \<Rightarrow> Inr seen | Inl e \<Rightarrow> if i = tid then Inr row else Inl e)"
  by (auto simp: us_answer_def us_noted_def find_snoc split: option.splits)

lemma us_execute_done:
  assumes "us_fine a" "us_execute_stamped E k request a = (Inr v, b)"
  shows "us_fine b \<and> us_served b (fst request) = Some (snd request, v) \<and> (us_served a i = Some w \<longrightarrow> us_served b i = Some w)"
proof (cases request)
  case (Pair tid q)
  show ?thesis
  proof (cases "dget (us_trades a) tid")
    case None
    then show ?thesis
    proof (cases rule: us_execute_new [of a tid E k q, case_names refused unbooked executed])
      case (executed amounts f l)
      have l: "plain l" using executed(2) assms(1) all_or_nothing_plain [OF us_book_plain]
        unfolding us_book_def keeps_plain_def us_fine_def by blast
      have b: "b = us_noted tid q v (a\<lparr>us_ledger := l\<rparr>)" and row: "ur_trade_id v = tid"
        using executed(3) assms(2) Pair by (auto simp: us_record_of_def split: prod.splits)
      have "find (\<lambda>row. ur_trade_id row = tid) (us_fills a) = None"
        using assms(1) None by (auto simp: find_None_iff us_fine_def)
      then have none: "us_answer (a\<lparr>us_ledger := l\<rparr>) tid = Inl (RuntimeError ''StopIteration'')" by (simp add: us_answer_def)
      have "us_fine b" using l assms(1) row by (auto simp: us_fine_def b us_noted_def)
      moreover have "us_served b tid = Some (q, v)" using row none
        by (simp add: us_served_iff b us_answer_noted) (simp add: us_noted_def)
      moreover have "us_served b i = Some w" if "us_served a i = Some w"
      proof -
        have "i \<noteq> tid" using that None by (auto simp: us_served_def)
        then show ?thesis using that
          by (cases w) (auto simp: us_served_iff b us_answer_noted [OF row] us_noted_def us_answer_def find_snoc split: option.splits)
      qed
      ultimately show ?thesis by (simp add: Pair)
    qed (use assms(2) Pair in auto)
  next
    case (Some prior)
    with assms Pair show ?thesis by (auto simp: us_execute_stamped_def us_served_iff split: if_splits)
  qed
qed

inductive us_step :: "env \<Rightarrow> us_config \<Rightarrow> us_account \<Rightarrow> us_account \<Rightarrow> bool" for E k where
  Trade: "us_execute E k request a = (r, b) \<Longrightarrow> us_step E k a b"
| Mark: "us_mark E k iid price t event_id a = (u, b) \<Longrightarrow> us_step E k a b"
| Action: "us_action E k iid t event_id ratio cash payment ex_date a = (u, b) \<Longrightarrow> us_step E k a b"

definition us_other :: "us_account \<Rightarrow> us_account \<Rightarrow> bool" where
  "us_other a b \<longleftrightarrow> us_fills b = us_fills a \<and> us_trades b = us_trades a \<and> (plain (us_ledger a) \<longrightarrow> plain (us_ledger b))"

interpretation us_requests: once "us_execute_stamped E k" us_served fst snd us_fine us_other for E k
proof (unfold_locales, goal_cases)
  case (1 a request v)
  then show ?case by (cases request) (simp add: us_served_iff us_execute_stamped_def)
next
  case (2 a request v b)
  then show ?case using us_execute_done by blast
next
  case (3 a request v b i w)
  then show ?case using us_execute_done by blast
next
  case (4 a request e b)
  then show ?case using us_execute_refused unfolding us_fine_def by blast
next
  case (5 a request v b)
  then show ?case using us_execute_done by blast
next
  case (6 a b)
  then show ?case by (simp add: us_other_def us_served_def us_answer_def fun_eq_iff)
next
  case (7 a b)
  then show ?case by (simp add: us_other_def us_fine_def)
qed

lemma us_bookings_other:
  assumes "on_us_ledger p a = (r, b)" "keeps_plain p"
  shows "us_other a b"
  using assms by (auto simp: us_other_def on_us_ledger_iff keeps_plain_def)

lemma us_other_refl: "us_other a a"
  by (simp add: us_other_def)

lemma us_step_moves:
  assumes "us_step E k a b"
  shows "us_requests.moves E k a b"
  using assms
proof cases
  case (Trade request r)
  show ?thesis
  proof (cases "uc_utc (ua_calendar k) (ut_at (snd request))")
    case (Inl e)
    with Trade us_other_refl show ?thesis by (auto simp: us_execute_def us_requests.moves_def)
  next
    case (Inr stamp)
    with Trade have "b = snd (us_execute_stamped E k (fst request, (snd request)\<lparr>ut_at := stamp\<rparr>) a)"
      by (simp add: us_execute_def)
    then show ?thesis unfolding us_requests.moves_def by blast
  qed
next
  case (Mark iid price t event_id u)
  then have "us_other a b"
    by (cases u) (auto simp: us_mark_def bind_Inl bind_Inr us_other_refl intro: us_bookings_other [OF _ mark_now_plain])
  then show ?thesis by (simp add: us_requests.moves_def)
next
  case (Action iid t event_id ratio cash payment ex_date u)
  then have "us_other a b"
    by (cases u) (auto simp: us_action_def bind_Inl bind_Inr us_other_refl intro: us_bookings_other [OF _ apply_now_plain])
  then show ?thesis by (simp add: us_requests.moves_def)
qed

text \<open>
  An executed US trade is answered again with the record of the first execution and changes
  nothing any more, whatever trades, marks and corporate actions came in between; a trade that
  is refused, also when the ledger refuses its fee after the fill, leaves the account as it was.
\<close>

theorem us_trades_execute_once:
  assumes "us_fine a"
  shows "(\<forall>e b. us_execute E k request a = (Inl e, b) \<longrightarrow> b = a)
    \<and> (\<forall>row b c. us_execute E k request a = (Inr row, b) \<and> (us_step E k)\<^sup>*\<^sup>* b c \<longrightarrow>
         us_fine c \<and> us_execute E k request c = (Inr row, c))"
proof (cases "uc_utc (ua_calendar k) (ut_at (snd request))")
  case (Inl e)
  then show ?thesis by (simp add: us_execute_def)
next
  case (Inr stamp)
  have again: "us_fine c \<and> us_execute_stamped E k r c = (Inr row, c)"
    if "us_execute_stamped E k r a = (Inr row, b)" "(us_step E k)\<^sup>*\<^sup>* b c" for r row b c
  proof -
    have m: "(us_requests.moves E k)\<^sup>*\<^sup>* b c"
      using that(2) rtranclp_mono [of "us_step E k" "us_requests.moves E k"] us_step_moves by blast
    have "us_fine b" using us_execute_done [OF assms that(1)] by blast
    with us_requests.answered_again [OF assms that(1) m] us_requests.history_keeps [OF m] show ?thesis by blast
  qed
  have "plain (us_ledger a)" using assms by (simp add: us_fine_def)
  with Inr again us_execute_refused show ?thesis by (auto simp: us_execute_def)
qed


section \<open>Settled cash\<close>

definition us_pending :: "env \<Rightarrow> us_calendar \<Rightarrow> ledger \<Rightarrow> instant \<Rightarrow> rat res" where
  "us_pending E u l t = and_then (new_york_day u t) (\<lambda>today. fold_res (add_pending E u today) 0 (lg_transactions l))"

lemma settled_cash_pending:
  "settled_cash E u c l t = Inr s \<Longrightarrow> us_pending E u l t = Inr p \<Longrightarrow> s = dsub E (cash_balance l ''USD'') p"
  by (auto simp: settled_cash_def us_pending_def split: if_splits)

lemma fill_transaction_shape:
  "fill_transaction E c l f = Inr tx \<Longrightarrow> tx_event_type tx = EV_FILL \<and> tx_event_time tx = fl_event_time f"
  by (auto simp: fill_transaction_def make_transaction_def split: if_splits)

context fixed_env
begin

lemma us_fp_Inr:
  assumes "us_fp E x s = Inr f"
  shows "decimal E f = of_int (round_half_even (x * 10 ^ s)) / 10 ^ s \<and> scale f = s \<and> units f = round_half_even (x * 10 ^ s)
     \<and> \<bar>units f\<bar> < 10 ^ prec E"
proof -
  from assms have small: "\<bar>round_half_even (x * 10 ^ s)\<bar> < 10 ^ prec E"
    and f: "fixed E (of_int (round_half_even (x * 10 ^ s)) / 10 ^ s) s None = Inr f"
    by (auto simp: us_fp_def dquantize_def Let_def split: if_splits)
  from fixed_exact [OF f] have "of_int (units f) = (of_int (round_half_even (x * 10 ^ s)) :: rat)" "scale f = s" by simp_all
  then have "units f = round_half_even (x * 10 ^ s)" by (simp only: of_int_eq_iff)
  with small \<open>scale f = s\<close> show ?thesis by (simp add: decimal_value)
qed

lemma dadd_grid: "money_grid c x \<Longrightarrow> money_grid c y \<Longrightarrow> money_grid c (dadd E x y)"
  using ctx_round_grid [of "prec E"] money_grid_add [of c x y] unfolding money_grid_def dadd_def by metis

lemma dadd_money_back:
  assumes "money_grid c x" "money_grid c y" "fits_money E c (dadd E x y)"
  shows "dadd E x y = x + y"
proof -
  obtain n where n: "x + y = of_int n / 10 ^ lc_money_scale c"
    using money_grid_add [OF assms(1,2)] by (auto simp: money_grid_def)
  obtain m where m: "dadd E x y = of_int m / 10 ^ lc_money_scale c"
    using dadd_grid [OF assms(1,2)] by (auto simp: money_grid_def)
  have "2 * \<bar>m\<bar> < 10 ^ prec E" using assms(3) by (simp add: m fits_money_def)
  moreover have "ctx_round (prec E) (of_int n / 10 ^ lc_money_scale c) = of_int m / 10 ^ lc_money_scale c"
    using m by (simp add: dadd_def n)
  ultimately have "m = n" using ctx_round_small [OF prec_pos] by blast
  with m n show ?thesis by simp
qed

lemma ctx_money: "money_grid c x \<Longrightarrow> fits_money E c x \<Longrightarrow> ctx_round (prec E) x = x"
  using dneg_money [of c x] by (simp add: dneg_def ctx_round_minus)

text \<open>What one fill of a cash asset brings in cash, as the settlement query sees it.\<close>

lemma cash_asset_received:
  assumes "fill_transaction E c l f = Inr tx" "dget (lc_instruments c) (fl_instrument_id f) = Some sp"
    and "\<not> is_derivative sp" "\<not> is_premium_asset sp" "sp_settlement_currency sp = ''USD''"
    and n: "n = product_for_valuation E c [decimal E (fl_quantity f), decimal E (fl_price f), decimal E (sp_contract_multiplier sp)]" "0 \<le> n"
    and fits: "fits_money E c (posted c n)"
  shows "cash_received E tx = (if fl_side f = BUY then 0 else posted c n)"
proof -
  let ?iid = "fl_instrument_id f" and ?cur = "''USD''" and ?P = "\<lambda>p. po_ledger_account p = ''assets:cash'' \<and> po_currency p = ''USD'' \<and> 0 < units (po_amount p)"
  from assms(1,2,5) obtain rs where rs: "fill_postings E c l sp f = Inr rs"
    and ps: "map_res id (rs @ quantity_postings E c ?cur ?iid (signed_quantity E f) (- signed_quantity E f)
        (scale (fl_quantity f))) = Inr (tx_postings tx)"
    by (auto simp: fill_transaction_def spec_of_def of_option_def make_transaction_def split: if_splits)
  from rs assms(2-5) n obtain average allocated where
    cash: "cash_asset_postings E c l ?cur ?iid (fl_side f) (decimal E (fl_quantity f)) (decimal E (sp_contract_multiplier sp)) n
       (held l ?iid) average allocated = Inr rs"
    by (auto simp: fill_postings_def Let_def derivative_instrument_def)
  from ps obtain p1 p2 where p: "map_res id rs = Inr p1" "tx_postings tx = p1 @ p2"
    "map_res id (quantity_postings E c ?cur ?iid (signed_quantity E f) (- signed_quantity E f) (scale (fl_quantity f))) = Inr p2"
    by (auto simp: map_res_append)
  have 2: "filter ?P p2 = []"
    using p(3) by (auto simp: quantity_postings_def filter_empty_conv dest!: new_posting_parts)
  have sign: "0 < units (po_amount p) \<longleftrightarrow> 0 < posted c x" if "cash_posting E c ?cur x = Inr p" for p x
  proof -
    have "decimal E (po_amount p) = posted c x" using that by (simp add: cash_posting_def new_posting_parts)
    then show ?thesis by (metis decimal_value divide_pos_pos of_int_0_less_iff zero_less_divide_iff zero_less_numeral zero_less_power not_less_iff_gr_or_eq)
  qed
  show ?thesis
  proof (cases "fl_side f")
    case BUY
    with cash p(1) posted_nonneg [OF n(2), of c] have "filter ?P p1 = []"
      by (auto simp: cash_asset_postings_def instrument_posting_def sign dest!: new_posting_parts split: if_splits)
    with 2 p(2) BUY show ?thesis by (simp add: cash_received_def dsum_def)
  next
    case SELL
    from cash p(1) SELL obtain x q r1 r2 where p1: "p1 = [q, r1, r2]" and q: "cash_posting E c ?cur x = Inr q" "x = posted c n"
      and r: "po_ledger_account r1 = ''assets:position_cost''" "po_ledger_account r2 = ''income:realized_pnl''"
      by (auto simp: cash_asset_postings_def instrument_posting_def Let_def fixed_money_value dest!: new_posting_parts split: if_splits)
    have v: "decimal E (po_amount q) = posted c n" "po_ledger_account q = ''assets:cash''" "po_currency q = ''USD''"
      using q by (simp_all add: cash_posting_def new_posting_parts posted_id)
    have "filter ?P (tx_postings tx) = (if 0 < posted c n then [q] else [])"
      using 2 r sign [OF q(1)] v(2,3) by (simp add: p(2) p1 q(2) posted_id)
    then have "cash_received E tx = (if 0 < posted c n then ctx_round (prec E) (posted c n) else 0)"
      by (simp add: cash_received_def dsum_def dadd_def v(1))
    with SELL ctx_money [OF _ fits] posted_nonneg [OF n(2), of c] show ?thesis by auto
  qed
qed

text \<open>The pending proceeds stay on the money grid.\<close>

lemma pending_grid:
  assumes "fold_res (add_pending E u today) p ts = Inr r" "money_grid c p" "lc_money_scale c = 8"
    and "\<forall>t \<in> set ts. \<forall>q \<in> set (tx_postings t). scale (po_amount q) = 8"
  shows "money_grid c r"
  using assms(1,2,4)
proof (induction ts arbitrary: p)
  case (Cons t ts)
  from Cons.prems(1) obtain p1 where p1: "add_pending E u today p t = Inr p1" and r: "fold_res (add_pending E u today) p1 ts = Inr r"
    by auto
  have g: "money_grid c (decimal E (po_amount q))" if "q \<in> set (tx_postings t)" for q
    using Cons.prems(3) that by (auto simp: money_grid_def decimal_value assms(3))
  have "money_grid c (fold (\<lambda>x s. dadd E s x) xs z)" if "\<forall>x \<in> set xs. money_grid c x" "money_grid c z" for xs z
    using that by (induction xs arbitrary: z) (simp_all add: dadd_grid)
  then have "money_grid c (cash_received E t)" unfolding cash_received_def dsum_def using g by simp
  with p1 Cons.prems(2) have "money_grid c p1" by (auto simp: add_pending_def dadd_grid split: if_splits)
  from Cons.IH [OF r this] Cons.prems(3) show ?case by simp
qed simp

end

text \<open>No decimal operation of the trade is cut off by the precision of the context.\<close>

definition us_exact :: "env \<Rightarrow> ledger_config \<Rightarrow> us_account \<Rightarrow> us_account \<Rightarrow> rat \<Rightarrow> rat \<Rightarrow> rat \<Rightarrow> bool" where
  "us_exact E c a b p notional fee \<longleftrightarrow>
     (\<forall>x \<in> {cash_balance (us_ledger a) ''USD'', cash_balance (us_ledger b) ''USD'', p, dadd E p (posted c notional), posted c notional}.
        fits_money E c x)
     \<and> dadd E notional fee = notional + fee"

context fixed_env
begin

lemma us_prepared:
  assumes "us_prepare E k tid q a = Inr ((absolute, price, notional, fee), f)" "py_strip tid = tid"
    "py_strip (ut_instrument_id q) = ut_instrument_id q"
  shows "fl_fill_id f = tid" "fl_instrument_id f = ut_instrument_id q" "fl_side f = us_side q" "fl_price f = price"
    "decimal E (fl_quantity f) = absolute" "ctx_round (prec E) absolute = absolute" "notional = dmul E (decimal E price) absolute"
    "scale fee = 8" "\<bar>units fee\<bar> < 10 ^ prec E"
    "us_check_funds E k a q (ut_at q) (absolute, price, notional, fee) = Inr ()"
proof -
  from assms(1) have am: "us_amounts E k q = Inr (absolute, price, notional, fee)"
    and fund: "us_check_funds E k a q (ut_at q) (absolute, price, notional, fee) = Inr ()"
    and f: "us_fill E tid q (ut_at q) (absolute, price, notional, fee) = Inr f"
    by (auto simp: us_prepare_def)
  from am have "dquantize E round_down (dabs E (ut_quantity q)) 6 = Inr absolute"
    and n: "notional = dmul E (decimal E price) absolute" and fee: "us_fp E (dmul E notional (ua_commission k)) 8 = Inr fee"
    by (auto simp: us_amounts_def Let_def split: if_splits)
  from dquantize_Inr [OF this(1)] obtain m where m: "absolute = of_int m / 10 ^ 6" "\<bar>m\<bar> < 10 ^ prec E" by blast
  from f obtain x where x: "us_fp E absolute 6 = Inr x" and qx: "fl_quantity f = x"
    and rest: "fl_fill_id f = tid" "fl_instrument_id f = ut_instrument_id q" "fl_side f = us_side q" "fl_price f = price"
    using assms(2,3) by (auto simp: us_fill_def mk_fill_def required_text_def dest!: sym [of _ f] split: if_splits)
  have "decimal E (fl_quantity f) = absolute" using us_fp_Inr [OF x] by (simp add: qx m(1))
  moreover have "ctx_round (prec E) absolute = absolute" unfolding m(1) by (rule ctx_round_exact_div [OF m(2)])
  ultimately show "fl_fill_id f = tid" "fl_instrument_id f = ut_instrument_id q" "fl_side f = us_side q" "fl_price f = price"
    "decimal E (fl_quantity f) = absolute" "ctx_round (prec E) absolute = absolute" "notional = dmul E (decimal E price) absolute"
    "scale fee = 8" "\<bar>units fee\<bar> < 10 ^ prec E" "us_check_funds E k a q (ut_at q) (absolute, price, notional, fee) = Inr ()"
    using rest n fund us_fp_Inr [OF fee] by blast+
qed

end

text \<open>
  C35: A trade takes from the settled cash exactly its rounded cost with the commission when it
  buys, and the commission alone when it sells: the proceeds of a sale become settled cash only
  from their settlement session on, and a purchase never overdraws the settled cash.
\<close>

theorem us_trade_moves_settled_cash:
  assumes "fixed_env E" "ledger_inv E (ua_ledger k) (us_ledger a)" "lc_money_scale (ua_ledger k) = 8" "\<not> pit (ua_ledger k)"
    and "plain (us_ledger a)" "dget (us_trades a) tid = None" "us_execute_stamped E k (tid, q) a = (Inr row, b)"
    and "us_prepare E k tid q a = Inr ((absolute, price, notional, fee), f)" "0 \<le> notional"
    and "dget (lc_instruments (ua_ledger k)) (ut_instrument_id q) = Some sp" "us_check_instrument E sp"
    and "\<not> is_derivative sp" "\<not> is_premium_asset sp"
    and "tid \<noteq> ''''" "py_strip tid = tid" "py_strip (ut_instrument_id q) = ut_instrument_id q"
    and "dget (lg_event_fingerprints (us_ledger a)) (''fill_id:'' @ tid) = None"
    and "dget (lg_event_fingerprints (us_ledger a)) (''fee_id:'' @ tid @ '':fee'') = None"
    and "new_york_day (ua_calendar k) (fl_event_time f) = Inr d" "new_york_day (ua_calendar k) (ut_at q) = Inr d"
    and "uc_settlement_session (ua_calendar k) d = Inr session" "d < session"
    and "us_pending E (ua_calendar k) (us_ledger a) (ut_at q) = Inr p"
    and "us_exact E (ua_ledger k) a b p notional (decimal E fee)"
    and "settled_cash E (ua_calendar k) (ua_ledger k) (us_ledger a) (ut_at q) = Inr s" "0 \<le> s"
    and "settled_cash E (ua_calendar k) (ua_ledger k) (us_ledger b) (ut_at q) = Inr s'"
    and "uc_utc (ua_calendar k) (ut_at q) = Inr (ut_at q)"
  shows "s' = s - (if us_side q = BUY then posted (ua_ledger k) notional + decimal E fee else decimal E fee)
     \<and> (us_side q = BUY \<longrightarrow> 0 \<le> s')"
proof -
  let ?c = "ua_ledger k" and ?u = "ua_calendar k" and ?l = "us_ledger a" and ?n = "posted (ua_ledger k) notional"
  note dec = fixed_env.decimal_value [OF assms(1)]
  note prepared = fixed_env.us_prepared [OF assms(1,8,15,16)]
  have sp: "sp_settlement_currency sp = ''USD''" "decimal E (sp_contract_multiplier sp) = 1"
    using assms(11) by (simp_all add: us_check_instrument_def)
  have fits: "fits_money E ?c (cash_balance ?l ''USD'')" "fits_money E ?c (cash_balance (us_ledger b) ''USD'')"
      "fits_money E ?c p" "fits_money E ?c (dadd E p ?n)" "fits_money E ?c ?n" and total: "dadd E notional (decimal E fee) = notional + decimal E fee"
    using assms(24) by (simp_all add: us_exact_def)
  from assms(6,7,8) obtain l where booked: "us_book E k tid (ut_at q) (absolute, price, notional, fee) f ?l = (Inr (), l)"
    and b: "b = us_noted tid q (us_record_of tid q (absolute, price, notional, fee)) (a\<lparr>us_ledger := l\<rparr>)"
    by (auto elim!: us_execute_new [where E = E and k = k and q = q])
  then obtain snap l1 fe where fill: "apply_on_day E ?c (FillEvent f) (Some (utc_date (fl_event_time f))) True ?l = (Inr snap, l1)"
    and fe: "us_fee E tid (ut_at q) (absolute, price, notional, fee) = Inr fe" and fees: "apply_now E ?c (FeeEvent fe) l1 = (Inr (), l)"
    by (auto simp: us_book_def all_or_nothing_Inr bind_Inr apply_now_def apply_ledger_def)
  obtain t1 where t1: "translate E ?c ?l (FillEvent f) = Inr t1" "lg_transactions l1 = lg_transactions ?l @ [t1]"
    and books: "lg_accounts l1 = fold (account_add E) (tx_postings t1) (lg_accounts ?l)"
    and fp: "lg_event_fingerprints l1 = dset (event_identity (FillEvent f)) (Whole (FillEvent f)) (lg_event_fingerprints ?l)" "plain l1"
    by (rule apply_on_day_books [OF fill _ assms(5)]) (use assms(17) prepared(1) in \<open>auto simp: event_identity_def\<close>)
  have t1: "fill_transaction E ?c ?l f = Inr t1" "lg_transactions l1 = lg_transactions ?l @ [t1]"
    using t1 by (simp_all add: translate_def)
  have product: "notional = product_for_valuation E ?c [decimal E (fl_quantity f), decimal E (fl_price f), decimal E (sp_contract_multiplier sp)]"
    using assms(4) fixed_env.prec_pos [OF assms(1)]
    by (simp add: product_for_valuation_def prepared(4-7) sp(2) dmul_def ctx_round_idem mult.commute)
  note inst = assms(10) [folded prepared(2)]
  have "py_strip (tid @ '':fee'') = tid @ '':fee''"
    using py_strip_ends [OF assms(14,15)] assms(14) by (intro py_strip_id) (simp_all add: py_space_def)
  then have fe: "fee_fee_id fe = tid @ '':fee''" "fee_currency fe = ''USD''" "fee_amount fe = fee"
    using fe by (auto simp: us_fee_def mk_fee_def required_text_def currency_code_def py_strip_def py_space_def split: if_splits)
  have "dneg E (decimal E fee) = - decimal E fee"
    using ctx_round_exact_div [OF prepared(9), of "scale fee"] by (simp add: dneg_def ctx_round_minus dec)
  moreover have "money_grid ?c (decimal E fee)" unfolding money_grid_def assms(3) by (auto simp: dec prepared(8))
  ultimately have paid: "posted ?c (dneg E (decimal E fee)) = - decimal E fee" by (simp add: posted_id)
  have fresh: "dget (lg_event_fingerprints l1) (''fee_id:'' @ fee_fee_id fe) = None"
    using assms(18) by (simp add: fp(1) fe(1) event_identity_def)
  note fee_booked = fixed_env.fee_cash [OF assms(1) fees fp(2) fresh]
  have cash: "cash_balance l ''USD'' = cash_balance ?l ''USD'' + (if us_side q = BUY then - ?n else ?n) - decimal E fee"
    using fee_booked(1) fixed_env.cash_after [OF assms(1) books, of "''USD''"]
      fixed_env.cash_asset_fill_cash [OF assms(1) t1(1) inst assms(12,13) product]
    by (simp add: fe sp(1) paid prepared(3))
  have received: "cash_received E t1 = (if us_side q = BUY then 0 else ?n)"
    using fixed_env.cash_asset_received [OF assms(1) t1(1) inst assms(12,13) sp(1) product assms(9) fits(5)] by (simp add: prepared(3))
  obtain t2 where t2: "lg_transactions l = lg_transactions ?l @ [t1, t2]" "tx_event_type t2 = EV_FEE"
    using fee_booked(4) t1(2) by auto
  have pend: "fold_res (add_pending E ?u d) 0 (lg_transactions ?l) = Inr p" using assms(20,23) by (simp add: us_pending_def)
  have grid: "money_grid ?c p" "money_grid ?c (cash_balance ?l ''USD'')"
  proof -
    from assms(2,5) have "\<forall>t \<in> set (lg_transactions ?l). balanced ?c t" by (auto simp: ledger_inv_def plain_def journal_of_def)
    then show "money_grid ?c p"
      using assms(3) by (intro fixed_env.pending_grid [OF assms(1) pend]) (auto simp: balanced_def)
    show "money_grid ?c (cash_balance ?l ''USD'')"
      using fixed_env.ledger_inv_money [OF assms(1,2)] by (simp add: money_accounts_def cash_balance_def)
  qed
  have p: "dadd E p (cash_received E t1) = p + (if us_side q = BUY then 0 else ?n)"
    using fixed_env.dadd_money_back [OF assms(1) grid(1) posted_grid fits(4)] fixed_env.ctx_money [OF assms(1) grid(1) fits(3)]
    by (simp add: received) (simp add: dadd_def)
  have s: "s = cash_balance ?l ''USD'' - p"
    using settled_cash_pending [OF assms(25,23)] fixed_env.dsub_money [OF assms(1) grid(2,1) fits(1,3)] by simp
  have "us_pending E ?u l (ut_at q) = Inr (dadd E p (cash_received E t1))"
    using pend t2(2) fill_transaction_shape [OF t1(1)] assms(19,21,22)
    by (simp add: us_pending_def assms(20) t2(1) fold_res_append add_pending_def)
  then have "s' = dsub E (cash_balance l ''USD'') (p + (if us_side q = BUY then 0 else ?n))"
    using settled_cash_pending assms(27) p b by (simp add: us_noted_def)
  moreover have "money_grid ?c (cash_balance l ''USD'')"
    unfolding cash using grid(2) \<open>money_grid ?c (decimal E fee)\<close>
    by (intro money_grid_diff money_grid_add) (simp_all split: if_splits)
  moreover have "money_grid ?c (p + (if us_side q = BUY then 0 else ?n))" "fits_money E ?c (p + (if us_side q = BUY then 0 else ?n))"
    using grid(1) fits(3,4) p received by (auto simp: money_grid_add split: if_splits)
  ultimately have s': "s' = cash_balance l ''USD'' - (p + (if us_side q = BUY then 0 else ?n))"
    using fixed_env.dsub_money [OF assms(1)] fits(2) b by (simp add: us_noted_def)
  have "?n + decimal E fee \<le> s" if "us_side q = BUY"
  proof -
    have "notional + decimal E fee \<le> s"
      using prepared(10) that assms(25,26,28) total
      by (auto simp: us_check_funds_def buying_power_def split: if_splits)
    then have "posted ?c notional \<le> posted ?c (s - decimal E fee)" by (intro fixed_env.posted_mono [OF assms(1)]) simp
    moreover have "money_grid ?c (s - decimal E fee)"
      unfolding s using grid \<open>money_grid ?c (decimal E fee)\<close> by (intro money_grid_diff)
    ultimately show ?thesis by (simp add: posted_id)
  qed
  then show ?thesis using s s' cash by auto
qed

end
