(* ===== verification/Us_Demo.thy ===== *)
theory Us_Demo
  imports Us_Props
begin

text \<open>The properties of the US account on a purchase of one share.\<close>

definition us_env :: env where
  "us_env = std_env\<lparr>sha256_hex := (\<lambda>_. ''0'')\<rparr>"

interpretation uenv: fixed_env us_env
  using std.fixed_env_axioms by (simp add: fixed_env_def us_env_def)

definition demo_us_spec :: instrument_spec where
  "demo_us_spec = \<lparr>sp_instrument_id = ''S'', sp_asset_class = EQUITY, sp_product_type = ''us_etf'', sp_venue = ''U'',
     sp_settlement_currency = ''USD'', sp_quote_currency = Some ''USD'', sp_price_tick = \<lparr>units = 1, scale = 8\<rparr>,
     sp_quantity_step = \<lparr>units = 1, scale = 6\<rparr>, sp_contract_multiplier = \<lparr>units = 1, scale = 0\<rparr>,
     sp_metadata = [], sp_available_at = 0, sp_effective_from = 0, sp_effective_to = None, sp_expiry_date = None\<rparr>"

definition demo_us_ledger_config :: ledger_config where
  "demo_us_ledger_config = \<lparr>lc_account_id = ''us-research'', lc_base_currency = ''USD'', lc_instruments = [(''S'', demo_us_spec)],
     lc_money_scale = 8, lc_dividend_mode = None, lc_fx_mode = LEGACY, lc_initial_cash = [(''USD'', \<lparr>units = 100000000000, scale = 8\<rparr>)],
     lc_initial_fx = [], lc_default_opened_at = 0, lc_payload_digest = (\<lambda>_. []), lc_select_pit_fx = (\<lambda>_ _ _ _. None),
     lc_sink_accepts = (\<lambda>_. True)\<rparr>"

text \<open>Every trade is made on day \<open>1970-01-01\<close> and settles on the next one.\<close>

definition demo_us :: us_config where
  "demo_us = \<lparr>ua_ledger = demo_us_ledger_config,
     ua_calendar = \<lparr>uc_utc = Inr, uc_new_york_date = (\<lambda>_. 719163), uc_settlement_session = (\<lambda>_. Inr ''1970-01-02'')\<rparr>,
     ua_commission = 1 / 100, ua_slippage = 0, ua_mark_event = Inr, ua_action_event = Inr\<rparr>"

definition demo_us_account :: us_account where
  "demo_us_account = \<lparr>us_ledger = (case ledger_reset us_env demo_us_ledger_config None of Inr l \<Rightarrow> l | Inl e \<Rightarrow> blank_ledger demo_us_ledger_config 0),
     us_fills = [], us_trades = []\<rparr>"

definition demo_us_buy :: us_trade where
  "demo_us_buy = \<lparr>ut_instrument_id = ''S'', ut_quantity = 1, ut_reference_price = 100, ut_at = 5\<rparr>"

definition demo_us_amounts :: "rat \<times> fixed_point \<times> rat \<times> fixed_point" where
  "demo_us_amounts = (1, \<lparr>units = 10000000000, scale = 8\<rparr>, 100, \<lparr>units = 100000000, scale = 8\<rparr>)"

lemma us_demo_facts:
  "(case ledger_reset us_env demo_us_ledger_config None of Inl e \<Rightarrow> False | Inr l \<Rightarrow>
      lg_event_fingerprints l = [] \<and> plain l \<and> cash_balance l ''USD'' = 1000
      \<and> us_pending us_env (ua_calendar demo_us) l 5 = Inr 0
      \<and> settled_cash us_env (ua_calendar demo_us) demo_us_ledger_config l 5 = Inr 1000)" (is ?p1)
  "us_amounts us_env demo_us demo_us_buy = Inr demo_us_amounts" (is ?p2)
proof -
  have "?p1 \<and> ?p2" by code_simp
  then show ?p1 ?p2 by blast+
qed

lemma us_demo_account:
  "ledger_reset us_env demo_us_ledger_config None = Inr (us_ledger demo_us_account)"
  "lg_event_fingerprints (us_ledger demo_us_account) = []" "plain (us_ledger demo_us_account)"
  "cash_balance (us_ledger demo_us_account) ''USD'' = 1000"
  "us_pending us_env (ua_calendar demo_us) (us_ledger demo_us_account) 5 = Inr 0"
  "settled_cash us_env (ua_calendar demo_us) demo_us_ledger_config (us_ledger demo_us_account) 5 = Inr 1000"
  using us_demo_facts(1) by (auto simp: demo_us_account_def split: sum.splits)

definition demo_us_bought :: bool where
  "demo_us_bought \<longleftrightarrow> (case us_execute_stamped us_env demo_us (''t1'', demo_us_buy) demo_us_account of
     (Inr row, b) \<Rightarrow> cash_balance (us_ledger b) ''USD'' = 899
        \<and> returns (settled_cash us_env (ua_calendar demo_us) demo_us_ledger_config (us_ledger b) 5)
   | _ \<Rightarrow> False)"

lemma us_demo_bought: demo_us_bought
  by code_simp


lemma us_demo_executed:
  obtains row b s' where "us_execute_stamped us_env demo_us (''t1'', demo_us_buy) demo_us_account = (Inr row, b)"
    "cash_balance (us_ledger b) ''USD'' = 899"
    "settled_cash us_env (ua_calendar demo_us) demo_us_ledger_config (us_ledger b) 5 = Inr s'"
  using us_demo_bought by (auto simp: demo_us_bought_def returns_iff split: prod.splits sum.splits)

theorem us_trades_execute_once_witness:
  "\<exists>row b. us_execute us_env demo_us (''t1'', demo_us_buy) demo_us_account = (Inr row, b)
     \<and> us_execute us_env demo_us (''t1'', demo_us_buy) b = (Inr row, b)"
proof (rule us_demo_executed)
  fix row b assume "us_execute_stamped us_env demo_us (''t1'', demo_us_buy) demo_us_account = (Inr row, b)"
  then have x: "us_execute us_env demo_us (''t1'', demo_us_buy) demo_us_account = (Inr row, b)"
    by (simp add: us_execute_def demo_us_def)
  have "us_fine demo_us_account" using us_demo_account(3) by (simp add: us_fine_def) (simp add: demo_us_account_def)
  from us_trades_execute_once [OF this] x show ?thesis by blast
qed

lemma us_demo_select:
  "ua_ledger demo_us = demo_us_ledger_config" "uc_utc (ua_calendar demo_us) = Inr"
  "uc_settlement_session (ua_calendar demo_us) d = Inr ''1970-01-02''" "lc_money_scale demo_us_ledger_config = 8"
  "\<not> pit demo_us_ledger_config" "ut_instrument_id demo_us_buy = ''S''" "ut_at demo_us_buy = 5" "us_side demo_us_buy = BUY"
  by (simp_all add: demo_us_def demo_us_ledger_config_def pit_def demo_us_buy_def us_side_def)

lemma us_demo_sums:
  "dadd us_env 0 (posted demo_us_ledger_config 100) = 100" (is ?p1)
  "posted demo_us_ledger_config 100 = 100" (is ?p2)
  "list_all (fits_money us_env demo_us_ledger_config) [1000, 899, 0, 100]" (is ?p3)
  "dadd us_env 100 1 = 101" (is ?p4)
  "decimal us_env \<lparr>units = 100000000, scale = 8\<rparr> = 1" (is ?p5)
  "us_check_instrument us_env demo_us_spec" (is ?p6)
  "\<not> is_derivative demo_us_spec" (is ?p7)
  "\<not> is_premium_asset demo_us_spec" (is ?p8)
  "dget (lc_instruments demo_us_ledger_config) ''S'' = Some demo_us_spec" (is ?p9)
  "py_strip ''t1'' = ''t1''" (is ?p10)
  "py_strip ''S'' = ''S''" (is ?p11)
  "new_york_day (ua_calendar demo_us) t = Inr ''1970-01-01''" (is ?p12)
  "''1970-01-01'' < ''1970-01-02''" (is ?p13)
proof -
  have "?p1 \<and> ?p2 \<and> ?p3 \<and> ?p4 \<and> ?p5 \<and> ?p6 \<and> ?p7 \<and> ?p8 \<and> ?p9 \<and> ?p10 \<and> ?p11 \<and> ?p12 \<and> ?p13" by code_simp
  then show ?p1 ?p2 ?p3 ?p4 ?p5 ?p6 ?p7 ?p8 ?p9 ?p10 ?p11 ?p12 ?p13 by blast+
qed

theorem us_trade_moves_settled_cash_witness:
  "\<exists>row b. us_execute_stamped us_env demo_us (''t1'', demo_us_buy) demo_us_account = (Inr row, b)
     \<and> settled_cash us_env (ua_calendar demo_us) demo_us_ledger_config (us_ledger b) 5 = Inr 899"
proof (rule us_demo_executed)
  fix row b s' assume x: "us_execute_stamped us_env demo_us (''t1'', demo_us_buy) demo_us_account = (Inr row, b)"
    and cash: "cash_balance (us_ledger b) ''USD'' = 899"
    and s': "settled_cash us_env (ua_calendar demo_us) demo_us_ledger_config (us_ledger b) 5 = Inr s'"
  have none: "dget (us_trades demo_us_account) ''t1'' = None" by (simp add: demo_us_account_def)
  obtain f where p: "us_prepare us_env demo_us ''t1'' demo_us_buy demo_us_account = Inr (demo_us_amounts, f)"
    using x us_demo_facts(2)
    by (rule_tac us_execute_new [OF none, of us_env demo_us demo_us_buy]) (auto simp: us_prepare_def)
  have inv: "ledger_inv us_env demo_us_ledger_config (us_ledger demo_us_account)"
    by (rule uenv.ledger_reset_inv [OF us_demo_account(1)])
  have exact: "us_exact us_env demo_us_ledger_config demo_us_account b 0 100 (decimal us_env \<lparr>units = 100000000, scale = 8\<rparr>)"
    using us_demo_sums us_demo_account(4) cash by (simp add: us_exact_def)
  note exact' = exact [folded us_demo_select(1)]
  have "s' = 1000 - (if us_side demo_us_buy = BUY then posted (ua_ledger demo_us) 100 + decimal us_env \<lparr>units = 100000000, scale = 8\<rparr>
      else decimal us_env \<lparr>units = 100000000, scale = 8\<rparr>) \<and> (us_side demo_us_buy = BUY \<longrightarrow> 0 \<le> s')"
    by (rule us_trade_moves_settled_cash [OF uenv.fixed_env_axioms _ _ _ us_demo_account(3) none x p [unfolded demo_us_amounts_def]])
      (rule us_demo_sums(6-8,13) us_demo_sums(12) exact' | simp add: us_demo_select us_demo_account us_demo_sums inv s')+
  then have "s' = 899" by (simp add: us_demo_select us_demo_sums)
  with x s' show ?thesis by blast
qed

end
