(* ===== verification/Corporate_Actions.thy ===== *)
theory Corporate_Actions
  imports Accounts
begin

text \<open>
  \<open>corporate_actions.py\<close>: corporate actions with declared terms applied to a ledger as one
  atomic step.  \<open>ActionTerms\<close> and the functions \<open>number\<close> and \<open>utc\<close> belong to the data kit:
  the terms keep their amounts as text, and \<open>action_config\<close> holds the conversions, the
  fingerprint of the terms and the constructor of an event.
\<close>

record action_terms =
  cx_event_id :: string
  cx_instrument_id :: string
  cx_kind :: string
  cx_effective_at :: instant
  cx_available_at :: instant
  cx_currency :: string
  cx_cash_per_unit :: "string option"
  cx_ratio :: "string option"
  cx_entitlement_date :: "string option"
  cx_retired_quantity :: "string option"
  cx_target_id :: string
  cx_election_quantity :: "string option"
  cx_cost_fraction :: "string option"
  cx_target_mark :: "string option"
  cx_parent_mark :: "string option"

record action_config =
  ax_ledger :: ledger_config
  ax_utc :: "instant \<Rightarrow> instant res"
  ax_number :: "string option \<Rightarrow> rat res"
  ax_entitlement_day :: "string \<Rightarrow> day res"
  ax_event :: "corporate_action \<Rightarrow> corporate_action res"
  ax_fingerprint :: "action_terms \<Rightarrow> string"

section \<open>Posting a verified transaction\<close>

definition money_fixed :: "env \<Rightarrow> ledger_config \<Rightarrow> rat \<Rightarrow> rat res" where
  "money_fixed E c x = and_then (fixed E x (lc_money_scale c) (Some ROUND_HALF_EVEN)) (\<lambda>f. Inr (decimal E f))"

definition action_transaction ::
  "env \<Rightarrow> ledger_config \<Rightarrow> action_terms \<Rightarrow> instant \<Rightarrow> posting res list \<Rightarrow> ledger_transaction res" where
  "action_transaction E c x stamp postings =
     and_then (make_transaction E c EV_CORPORATE_ACTION (cx_event_id x) (''financial-action:'' @ cx_event_id x) stamp postings)
       (mk_ledger_transaction E)"

definition moves_something :: "ledger_transaction \<Rightarrow> bool" where
  "moves_something t \<longleftrightarrow> list_ex (\<lambda>p. units (po_amount p) \<noteq> 0
     \<or> (case po_quantity_delta p of None \<Rightarrow> False | Some d \<Rightarrow> units d \<noteq> 0)) (tx_postings t)"

section \<open>Cash in lieu\<close>

text \<open>Lots are retired in the stored order; what is left to retire comes back with the kept lots.\<close>

definition retire_lot :: "env \<Rightarrow> lot \<Rightarrow> rat \<times> lot list \<Rightarrow> rat \<times> lot list" where
  "retire_lot E entry s = (case (entry, s) of ((acquired, quantity), (remaining, kept)) \<Rightarrow>
     let take = min quantity remaining in
     (dsub E remaining take, if take < quantity then kept @ [(acquired, dsub E quantity take)] else kept))"

definition retire_lots :: "env \<Rightarrow> rat \<Rightarrow> lot list \<Rightarrow> rat \<times> lot list" where
  "retire_lots E retired lots = fold (retire_lot E) lots (retired, [])"

definition cash_in_lieu_transaction ::
  "env \<Rightarrow> action_config \<Rightarrow> action_terms \<Rightarrow> instant \<Rightarrow> ledger \<Rightarrow> (ledger_transaction \<times> rat \<times> rat) res" where
  "cash_in_lieu_transaction E k x stamp l = (let c = ax_ledger k; iid = cx_instrument_id x; currency = cx_currency x in
     and_then (spec_of c iid) (\<lambda>sp. let old = held l iid in
     and_then (ax_number k (cx_retired_quantity x)) (\<lambda>retired.
     and_then (if old < retired then Inr True
               else and_then (dmod E retired (decimal E (sp_quantity_step sp))) (\<lambda>r. Inr (r \<noteq> 0))) (\<lambda>bad.
     if bad then raise ''cash-in-lieu quantity exceeds holding or violates declared step''
     else and_then (position_cost c l iid False) (\<lambda>book_cost.
     and_then (ddiv E (dmul E book_cost retired) old) (\<lambda>share.
     and_then (money_fixed E c share) (\<lambda>cost.
     and_then (ax_number k (cx_cash_per_unit x)) (\<lambda>per_unit.
     and_then (money_fixed E c (dmul E retired per_unit)) (\<lambda>cash.
     and_then (action_transaction E c x stamp
       ([cash_posting E c currency cash,
         instrument_posting E c ''assets:position_cost'' currency (dneg E cost) iid,
         instrument_posting E c ''income:realized_pnl'' currency (dsub E cost cash) iid]
        @ quantity_postings E c currency iid (dneg E retired) retired (scale (sp_quantity_step sp)))) (\<lambda>tx.
       Inr (tx, retired, old)))))))))))"

definition cash_in_lieu :: "env \<Rightarrow> action_config \<Rightarrow> action_terms \<Rightarrow> instant \<Rightarrow> (ledger, unit) effect" where
  "cash_in_lieu E k x stamp = (let iid = cx_instrument_id x in
     bind (ask (cash_in_lieu_transaction E k x stamp)) (\<lambda>(tx, retired, old).
     bind (post E (ax_ledger k) True tx) (\<lambda>_.
     bind (ask (\<lambda>l. case retire_lots E retired (dget_or (lg_position_lots l) iid []) of (remaining, kept) \<Rightarrow>
        if remaining \<noteq> 0 then raise ''cash-in-lieu quantity is not backed by holding lots'' else Inr kept)) (\<lambda>kept.
       put (\<lambda>l. l\<lparr>lg_position_lots := dset iid kept (lg_position_lots l),
         lg_marks := (if retired = old then ddel iid (lg_marks l) else lg_marks l), lg_event_time := stamp\<rparr>)))))"

section \<open>Conversions, distributions and subscriptions\<close>

definition is_exercise :: "action_terms \<Rightarrow> bool" where
  "is_exercise x \<longleftrightarrow> cx_kind x = ''rights_exercise''"

definition is_distribution :: "action_terms \<Rightarrow> bool" where
  "is_distribution x \<longleftrightarrow> cx_kind x \<in> {''spin_off'', ''rights_distribution''}"

record conversion =
  cv_parent :: instrument_spec
  cv_target :: instrument_spec
  cv_ratio :: rat
  cv_added :: rat
  cv_removed :: rat
  cv_removed_cost :: rat
  cv_target_cost :: rat
  cv_cash :: rat

definition conversion_quantities ::
  "env \<Rightarrow> action_config \<Rightarrow> action_terms \<Rightarrow> rat \<Rightarrow> instrument_spec \<Rightarrow> instrument_spec \<Rightarrow> (rat \<times> rat \<times> rat \<times> rat) res" where
  "conversion_quantities E k x old parent target =
     (if old < 0 then raise ''short corporate-action conversion is not supported''
      else and_then (if is_exercise x then ax_number k (cx_election_quantity x) else Inr old) (\<lambda>entitled.
      if old < entitled then raise ''election exceeds held rights''
      else and_then (ax_number k (cx_ratio x)) (\<lambda>ratio.
      let added = dmul E entitled ratio; removed = (if is_distribution x then 0 else entitled) in
      and_then (dmod E added (decimal E (sp_quantity_step target))) (\<lambda>r1.
      and_then (if r1 \<noteq> 0 then Inr r1 else dmod E removed (decimal E (sp_quantity_step parent))) (\<lambda>r2.
      if r2 \<noteq> 0 then raise ''fractional entitlement requires explicit step or cash-in-lieu evidence''
      else Inr (entitled, ratio, added, removed))))))"

definition conversion_costs ::
  "env \<Rightarrow> action_config \<Rightarrow> action_terms \<Rightarrow> ledger \<Rightarrow> rat \<Rightarrow> rat \<Rightarrow> (rat \<times> rat \<times> rat) res" where
  "conversion_costs E k x l old entitled = (let c = ax_ledger k in
     and_then (position_cost c l (cx_instrument_id x) False) (\<lambda>cost.
     and_then (if old \<noteq> 0 then ddiv E entitled old else Inr 0) (\<lambda>part.
     and_then (if is_exercise x then Inr 1 else ax_number k (cx_cost_fraction x)) (\<lambda>fraction.
     and_then (money_fixed E c (dmul E (dmul E cost part) fraction)) (\<lambda>moved.
     and_then (if is_distribution x then Inr moved else money_fixed E c (dmul E cost part)) (\<lambda>removed_cost.
     and_then (ax_number k (cx_cash_per_unit x)) (\<lambda>per_unit.
     and_then (money_fixed E c (dmul E (dmul E entitled per_unit) (if is_exercise x then - 1 else 1))) (\<lambda>cash.
     if dadd E (cash_balance l (cx_currency x)) cash < 0
     then raise ''insufficient cash for explicitly elected rights subscription''
     else Inr (removed_cost, if is_exercise x then dsub E moved cash else moved, cash)))))))))"

definition prepare_conversion :: "env \<Rightarrow> action_config \<Rightarrow> action_terms \<Rightarrow> ledger \<Rightarrow> conversion res" where
  "prepare_conversion E k x l = (let c = ax_ledger k; old = held l (cx_instrument_id x) in
     and_then (spec_of c (cx_instrument_id x)) (\<lambda>parent. and_then (spec_of c (cx_target_id x)) (\<lambda>target.
     if is_derivative target \<or> sp_settlement_currency target \<noteq> cx_currency x
       \<or> decimal E (sp_contract_multiplier parent) \<noteq> 1 \<or> decimal E (sp_contract_multiplier target) \<noteq> 1
     then raise ''conversion requires same-currency unit-multiplier cash assets''
     else and_then (conversion_quantities E k x old parent target) (\<lambda>(entitled, ratio, added, removed).
     and_then (conversion_costs E k x l old entitled) (\<lambda>(removed_cost, target_cost, cash).
       Inr \<lparr>cv_parent = parent, cv_target = target, cv_ratio = ratio, cv_added = added, cv_removed = removed,
            cv_removed_cost = removed_cost, cv_target_cost = target_cost, cv_cash = cash\<rparr>)))))"

definition conversion_postings ::
  "env \<Rightarrow> ledger_config \<Rightarrow> action_terms \<Rightarrow> conversion \<Rightarrow> posting res list" where
  "conversion_postings E c x v = (let currency = cx_currency x; iid = cx_instrument_id x; target = cx_target_id x;
       out = dneg E (cv_removed v) in
     [cash_posting E c currency (cv_cash v),
      instrument_posting E c ''assets:position_cost'' currency (dneg E (cv_removed_cost v)) iid,
      instrument_posting E c ''assets:position_cost'' currency (cv_target_cost v) target,
      instrument_posting E c ''income:realized_pnl'' currency
        (dsub E (dsub E (cv_removed_cost v) (cv_target_cost v)) (cv_cash v)) iid]
     @ quantity_postings E c currency iid (dmul E out 1) (dmul E out (- 1)) (scale (sp_quantity_step (cv_parent v)))
     @ quantity_postings E c currency target (dmul E (cv_added v) 1) (dmul E (cv_added v) (- 1))
         (scale (sp_quantity_step (cv_target v))))"

text \<open>The oldest lots of the parent become lots of the target; an exercise acquires them anew.\<close>

definition convert_lot ::
  "env \<Rightarrow> day option \<Rightarrow> rat \<Rightarrow> lot \<Rightarrow> rat \<times> lot list \<times> lot list \<Rightarrow> rat \<times> lot list \<times> lot list" where
  "convert_lot E acquired_on ratio entry s = (case (entry, s) of ((acquired, quantity), (remaining, residual, consumed)) \<Rightarrow>
     let taken = min remaining quantity in
     (dsub E remaining taken,
      if taken < quantity then residual @ [(acquired, dsub E quantity taken)] else residual,
      if taken \<noteq> 0 then consumed @ [(case acquired_on of None \<Rightarrow> acquired | Some d \<Rightarrow> d, dmul E taken ratio)] else consumed))"

definition convert_lots :: "env \<Rightarrow> day option \<Rightarrow> rat \<Rightarrow> rat \<Rightarrow> lot list \<Rightarrow> rat \<times> lot list \<times> lot list" where
  "convert_lots E acquired_on ratio removed lots = fold (convert_lot E acquired_on ratio) lots (removed, [], [])"

definition move_lots :: "env \<Rightarrow> action_terms \<Rightarrow> instant \<Rightarrow> conversion \<Rightarrow> (ledger, unit) effect" where
  "move_lots E x stamp v = (let iid = cx_instrument_id x; target = cx_target_id x; today = utc_date stamp in
     bind (if cv_removed v \<noteq> 0
       then bind (ask (\<lambda>l. case convert_lots E (if is_exercise x then Some today else None) (cv_ratio v) (cv_removed v)
              (dget_or (lg_position_lots l) iid []) of (remaining, residual, consumed) \<Rightarrow>
              if remaining \<noteq> 0 then raise ''position lots do not cover conversion'' else Inr (residual, consumed))) (\<lambda>(residual, consumed).
            bind (put (\<lambda>l. l\<lparr>lg_position_lots := dset iid residual (lg_position_lots l)\<rparr>)) (\<lambda>_. ret consumed))
       else ret (if cv_added v \<noteq> 0 then [(today, cv_added v)] else [])) (\<lambda>consumed.
     put (\<lambda>l. l\<lparr>lg_position_lots := dset target (dget_or (lg_position_lots l) target [] @ consumed) (lg_position_lots l)\<rparr>)))"

definition mark_conversion :: "action_config \<Rightarrow> action_terms \<Rightarrow> instant \<Rightarrow> (ledger, unit) effect" where
  "mark_conversion k x stamp = (let iid = cx_instrument_id x in
     bind (ask (\<lambda>_. ax_number k (cx_target_mark x))) (\<lambda>m.
     bind (put (\<lambda>l. l\<lparr>lg_marks := dset (cx_target_id x) (m, stamp, cx_event_id x) (lg_marks l)\<rparr>)) (\<lambda>_.
     bind (if is_distribution x
       then bind (ask (\<lambda>_. ax_number k (cx_parent_mark x))) (\<lambda>p.
            put (\<lambda>l. l\<lparr>lg_marks := dset iid (p, stamp, cx_event_id x) (lg_marks l)\<rparr>))
       else put (\<lambda>l. if held l iid = 0 then l\<lparr>lg_marks := ddel iid (lg_marks l)\<rparr> else l)) (\<lambda>_.
       put (\<lambda>l. l\<lparr>lg_event_time := stamp\<rparr>)))))"

definition convert_position :: "env \<Rightarrow> action_config \<Rightarrow> action_terms \<Rightarrow> instant \<Rightarrow> (ledger, unit) effect" where
  "convert_position E k x stamp =
     bind (ask (prepare_conversion E k x)) (\<lambda>v.
     bind (ask (\<lambda>l. action_transaction E (ax_ledger k) x stamp (conversion_postings E (ax_ledger k) x v))) (\<lambda>tx.
     bind (if moves_something tx then post E (ax_ledger k) True tx else ret ()) (\<lambda>_.
     bind (move_lots E x stamp v) (\<lambda>_. mark_conversion k x stamp))))"

section \<open>Splits, dividends and terminal cash\<close>

definition simple_event :: "env \<Rightarrow> action_config \<Rightarrow> action_terms \<Rightarrow> instant \<Rightarrow> ledger_event res" where
  "simple_event E k x stamp = (let c = ax_ledger k; split = (cx_kind x = ''split'') in
     and_then (if split then Inr None
               else and_then (ax_number k (cx_cash_per_unit x)) (\<lambda>v.
                 and_then (fixed E v (lc_money_scale c) (Some ROUND_HALF_EVEN)) (\<lambda>f. Inr (Some f)))) (\<lambda>cash.
     and_then (if split then and_then (ax_number k (cx_ratio x)) (\<lambda>v.
                 and_then (fixed E v 12 (Some ROUND_HALF_EVEN)) (\<lambda>f. Inr (Some f)))
               else if cx_kind x = ''terminal_cash''
               then and_then (fixed E 0 0 (Some ROUND_HALF_EVEN)) (\<lambda>f. Inr (Some f)) else Inr None) (\<lambda>ratio.
     and_then (case cx_entitlement_date x of
         Some d \<Rightarrow> if d = '''' then Inr (utc_date stamp) else ax_entitlement_day k d
       | None \<Rightarrow> Inr (utc_date stamp)) (\<lambda>effective.
     and_then (ax_event k \<lparr>ca_event_id = ''financial-action:'' @ cx_event_id x, ca_instrument_id = cx_instrument_id x,
         ca_action_type = (if cx_kind x = ''dividend_entitlement'' then ''cash_dividend_entitlement''
            else if cx_kind x = ''dividend_payment'' then ''cash_dividend_payment'' else cx_kind x),
         ca_effective_date = effective, ca_available_at = stamp, ca_ratio = ratio, ca_cash_amount = cash,
         ca_currency = (if cash = None then None else Some (cx_currency x)), ca_share_entitlement = None\<rparr>) (\<lambda>a.
       Inr (ActionEvent a))))))"

section \<open>Applying an action\<close>

definition perform_action :: "env \<Rightarrow> action_config \<Rightarrow> action_terms \<Rightarrow> instant \<Rightarrow> (ledger, unit) effect" where
  "perform_action E k x stamp =
     (if cx_kind x = ''cash_in_lieu'' then cash_in_lieu E k x stamp
      else if cx_kind x \<in> {''split'', ''dividend_entitlement'', ''dividend_payment'', ''terminal_cash''}
      then bind (ask (\<lambda>_. simple_event E k x stamp)) (\<lambda>ev. apply_now E (ax_ledger k) ev)
      else convert_position E k x stamp)"

definition action_key :: "action_terms \<Rightarrow> string" where
  "action_key x = ''financial-action:'' @ cx_event_id x"

definition check_action_time :: "action_config \<Rightarrow> action_terms \<Rightarrow> instant \<Rightarrow> instant res" where
  "check_action_time k x t = and_then (ax_utc k t) (\<lambda>stamp.
     and_then (ax_utc k (cx_effective_at x)) (\<lambda>effective.
     and_then (if stamp < effective then Inr True
               else and_then (ax_utc k (cx_available_at x)) (\<lambda>known. Inr (stamp < known))) (\<lambda>early.
     if early then raise ''corporate action is not effective and known yet'' else Inr stamp)))"

definition check_new_action :: "env \<Rightarrow> action_config \<Rightarrow> action_terms \<Rightarrow> instant \<Rightarrow> ledger \<Rightarrow> unit res" where
  "check_new_action E k x stamp l = and_then (snapshot E (ax_ledger k) l None) (\<lambda>snap.
     if stamp < as_event_time snap then raise ''corporate action cannot reverse account time''
     else if lg_artifact_sink l \<noteq> None then raise ''complex action batch requires nonstreaming atomic replay''
     else and_then (spec_of (ax_ledger k) (cx_instrument_id x)) (\<lambda>sp.
       if is_derivative sp \<or> sp_settlement_currency sp \<noteq> cx_currency x
       then raise ''action requires matching cash-asset currency'' else Inr ()))"

definition apply_action :: "env \<Rightarrow> action_config \<Rightarrow> action_terms \<Rightarrow> instant \<Rightarrow> (ledger, account_snapshot) effect" where
  "apply_action E k x t =
     bind (ask ledger_require_mutable) (\<lambda>_.
     bind (ask (\<lambda>_. check_action_time k x t)) (\<lambda>stamp.
     bind (ask (\<lambda>l. Inr (dget (lg_event_fingerprints l) (action_key x)))) (\<lambda>prior.
     case prior of
       Some fp \<Rightarrow> ask (\<lambda>l. if fp \<noteq> Digest (ax_fingerprint k x) then raise ''corporate action ID reused with changed terms''
          else snapshot E (ax_ledger k) l None)
     | None \<Rightarrow>
         bind (ask (check_new_action E k x stamp)) (\<lambda>_.
         all_or_nothing
           (bind (perform_action E k x stamp) (\<lambda>_.
            bind (put (\<lambda>l. l\<lparr>lg_event_fingerprints := dset (action_key x) (Digest (ax_fingerprint k x)) (lg_event_fingerprints l)\<rparr>)) (\<lambda>_.
              ask (\<lambda>l. snapshot E (ax_ledger k) l (Some stamp)))))))))"

end
