(* ===== verification/Corporate_Props.thy ===== *)
theory Corporate_Props
  imports Corporate_Actions Account_Books Ledger_Lots
begin

text \<open>
  Corporate actions with declared terms: all or nothing, applied once, and in step with the
  acquisition lots.
\<close>

section \<open>All or nothing\<close>

lemma keeps_plain_post [plain_intros]: "keeps_plain (post E c rollback t)"
  unfolding keeps_plain_def
proof (intro allI impI)
  fix l r u assume l: "plain l" and p: "post E c rollback t l = (r, u)"
  show "plain u"
  proof (cases r)
    case (Inl e)
    with p l post_fails [of E c rollback t l e u] show ?thesis by (simp add: plain_def)
  next
    case (Inr x)
    with p l post_plain [of E c rollback t l u] show ?thesis by simp
  qed
qed

lemma keeps_plain_put: "(\<And>l. plain l \<Longrightarrow> plain (g l)) \<Longrightarrow> keeps_plain (put g)"
  by (simp add: keeps_plain_def)

lemma move_lots_plain [plain_intros]: "keeps_plain (move_lots E x stamp v)"
  unfolding move_lots_def Let_def
  by (auto intro!: plain_intros keeps_plain_put simp: plain_def split: prod.splits)

lemma mark_conversion_plain [plain_intros]: "keeps_plain (mark_conversion k x stamp)"
  unfolding mark_conversion_def Let_def
  by (auto intro!: plain_intros keeps_plain_put simp: plain_def)

lemma convert_position_plain [plain_intros]: "keeps_plain (convert_position E k x stamp)"
  unfolding convert_position_def by (auto intro!: plain_intros)

lemma cash_in_lieu_plain [plain_intros]: "keeps_plain (cash_in_lieu E k x stamp)"
  unfolding cash_in_lieu_def Let_def
  by (auto intro!: plain_intros keeps_plain_put simp: plain_def split: prod.splits)

lemma perform_action_plain [plain_intros]: "keeps_plain (perform_action E k x stamp)"
  unfolding perform_action_def by (auto intro!: plain_intros)

lemma complete_action_plain:
  "keeps_plain (bind (perform_action E k x stamp) (\<lambda>_.
     bind (put (\<lambda>l. l\<lparr>lg_event_fingerprints := dset (action_key x) (Digest (ax_fingerprint k x)) (lg_event_fingerprints l)\<rparr>)) (\<lambda>_.
       ask (\<lambda>l. snapshot E (ax_ledger k) l (Some stamp)))))"
  by (auto intro!: plain_intros keeps_plain_put simp: plain_def)

lemma apply_action_new:
  assumes "apply_action E k x t l = (r, u)" "dget (lg_event_fingerprints l) (action_key x) = None" "plain l"
  obtains (refused) e where "r = Inl e" "u = l"
  | (applied) stamp snap v where "r = Inr snap" "check_action_time k x t = Inr stamp" "check_new_action E k x stamp l = Inr ()"
      "perform_action E k x stamp l = (Inr (), v)"
      "u = v\<lparr>lg_event_fingerprints := dset (action_key x) (Digest (ax_fingerprint k x)) (lg_event_fingerprints v)\<rparr>"
      "snapshot E (ax_ledger k) u (Some stamp) = Inr snap"
proof (cases r)
  case (Inl e)
  have "u = l"
    using assms(1) assms(2) all_or_nothing_Inl [OF complete_action_plain assms(3)] unfolding Inl
    by (auto simp: apply_action_def bind_Inl)
  with Inl refused show thesis by blast
next
  case (Inr snap)
  with assms(1,2) applied [of snap] show thesis
    by (auto simp: apply_action_def bind_Inr all_or_nothing_Inr)
qed

lemma apply_action_known:
  assumes "apply_action E k x t l = (r, u)" "dget (lg_event_fingerprints l) (action_key x) = Some fp"
  shows "u = l \<and> (fp \<noteq> Digest (ax_fingerprint k x) \<longrightarrow> (\<exists>e. r = Inl e))"
  using assms by (cases r) (auto simp: apply_action_def bind_Inl bind_Inr raise_def split: if_splits)

text \<open>
  A corporate action is applied as a whole or not at all, and once: when it is refused at
  any step the ledger is the very one it found; after it was applied, applying the same terms
  again changes nothing, and other terms under its identifier are refused.
\<close>

theorem corporate_action_is_atomic_and_applied_once:
  assumes "plain l" "apply_action E k x t l = (r, u)"
  shows "(\<forall>e. r = Inl e \<longrightarrow> u = l)
    \<and> (returns r \<longrightarrow> plain u \<and> dget (lg_event_fingerprints u) (action_key x) = Some (Digest (ax_fingerprint k x))
         \<and> (\<forall>y s r' v. cx_event_id y = cx_event_id x \<and> apply_action E k y s u = (r', v) \<longrightarrow>
              v = u \<and> (ax_fingerprint k y \<noteq> ax_fingerprint k x \<longrightarrow> (\<exists>e. r' = Inl e))))"
proof -
  have later: "v = u' \<and> (ax_fingerprint k y \<noteq> ax_fingerprint k x \<longrightarrow> (\<exists>e. r' = Inl e))"
    if "dget (lg_event_fingerprints u') (action_key x) = Some (Digest (ax_fingerprint k x))"
      "cx_event_id y = cx_event_id x" "apply_action E k y s u' = (r', v)" for u' y s r' v
    using apply_action_known [OF that(3), of "Digest (ax_fingerprint k x)"] that(1,2) by (simp add: action_key_def)
  show ?thesis
  proof (cases "dget (lg_event_fingerprints l) (action_key x)")
    case (Some fp)
    note known = apply_action_known [OF assms(2) this]
    then have "returns r \<Longrightarrow> fp = Digest (ax_fingerprint k x)" by auto
    with known Some assms(1) later show ?thesis by blast
  next
    case None
    from assms(2) this assms(1) show ?thesis
    proof (cases rule: apply_action_new)
      case (applied stamp snap v)
      have "plain v" using perform_action_plain assms(1) applied(4) unfolding keeps_plain_def by blast
      then have u: "plain u" "dget (lg_event_fingerprints u) (action_key x) = Some (Digest (ax_fingerprint k x))"
        by (simp_all add: applied(5) plain_def)
      with applied(1) later [OF u(2)] show ?thesis by blast
    qed auto
  qed
qed

section \<open>Lots\<close>

lemma retire_as_convert:
  "fold (retire_lot E) lots (remaining, kept)
     = (case fold (convert_lot E None ratio) lots (remaining, kept, moved) of (r, residual, consumed) \<Rightarrow> (r, residual))"
proof (induction lots arbitrary: remaining kept moved)
  case (Cons lt lots)
  obtain d q where lt: "lt = (d, q)" by (cases lt)
  have "min remaining q = min q remaining" by (rule min.commute)
  with Cons show ?case by (simp add: lt retire_lot_def convert_lot_def Let_def)
qed simp

text \<open>Lots are retired from the front of the stored list; the first one left gives up the rest.\<close>

definition cut_front :: "rat \<Rightarrow> lot list \<Rightarrow> lot list" where
  "cut_front x lots = (case lots of [] \<Rightarrow> [] | (d, q) # later \<Rightarrow> (d, q - x) # later)"

context fixed_env
begin

lemma retire_nothing:
  assumes "list_all (good_lot s t 1) lots" "t * 10 ^ s < 10 ^ prec E"
  shows "fold (retire_lot E) lots (0, kept) = (0, kept @ lots)"
  using assms(1)
proof (induction lots arbitrary: kept)
  case (Cons lt lots)
  obtain d q where lt: "lt = (d, q)" by (cases lt)
  obtain m where q: "q = of_int m / 10 ^ s" "0 < q" "q \<le> t" using Cons.prems by (fastforce simp: lt good_lot_def dest: abs_le_D1)
  have "dsub E q 0 = q" "dsub E 0 0 = 0"
    using grid_diff_exact [OF q(1), of 0 0 t] grid_diff_exact [of 0 0 s 0 0 t] q(2,3) assms(2) by simp_all
  with Cons q(2) show ?case by (simp add: lt retire_lot_def Let_def min_def)
qed simp

lemma retire_front:
  assumes "fold (retire_lot E) lots (r, kept0) = (0, kept)" "list_all (good_lot s t 1) lots"
    and "r = of_int n / 10 ^ s" "0 \<le> r" "r \<le> t" "t * 10 ^ s < 10 ^ prec E"
  shows "\<exists>gone rest. lots = gone @ rest \<and> kept = kept0 @ cut_front (r - lots_total gone) rest
     \<and> 0 \<le> r - lots_total gone \<and> (case rest of [] \<Rightarrow> r = lots_total gone | lt # later \<Rightarrow> r - lots_total gone < snd lt)"
  using assms(1-5)
proof (induction lots arbitrary: r n)
  case Nil
  then show ?case by (auto simp: cut_front_def lots_total_def)
next
  case (Cons lt lots)
  obtain d q where lt: "lt = (d, q)" by (cases lt)
  obtain m where q: "q = of_int m / 10 ^ s" "0 < q" "q \<le> t" using Cons.prems(2) by (fastforce simp: lt good_lot_def dest: abs_le_D1)
  show ?case
  proof (cases "r < q")
    case True
    have "dsub E r r = r - r" "dsub E q r = q - r"
      using True q(3) Cons.prems(4,5) grid_diff_exact [OF Cons.prems(3) Cons.prems(3) _ assms(6)]
        grid_diff_exact [OF q(1) Cons.prems(3) _ assms(6)] by simp_all
    with True have "retire_lot E lt (r, kept0) = (0, kept0 @ [(d, q - r)])" by (simp add: lt retire_lot_def Let_def min_def)
    with Cons.prems(1) have "fold (retire_lot E) lots (0, kept0 @ [(d, q - r)]) = (0, kept)" by simp
    moreover have "list_all (good_lot s t 1) lots" using Cons.prems(2) by simp
    ultimately have "kept = kept0 @ cut_front r (lt # lots)" using retire_nothing [OF _ assms(6)] by (simp add: lt cut_front_def)
    with True Cons.prems(4) show ?thesis
      by (intro exI [of _ "[]"] exI [of _ "lt # lots"]) (simp add: lots_total_def lt)
  next
    case False
    have e: "dsub E r q = r - q"
      using False q(2) Cons.prems(4,5) grid_diff_exact [OF Cons.prems(3) q(1) _ assms(6)] by simp
    with False have "retire_lot E lt (r, kept0) = (r - q, kept0)" by (simp add: lt retire_lot_def Let_def min_def)
    with Cons.prems(1) have "fold (retire_lot E) lots (r - q, kept0) = (0, kept)" by simp
    moreover have "r - q = of_int (n - m) / 10 ^ s" by (simp add: Cons.prems(3) q(1) diff_divide_distrib)
    ultimately obtain gone rest where g: "lots = gone @ rest" "kept = kept0 @ cut_front (r - q - lots_total gone) rest"
      "0 \<le> r - q - lots_total gone" "case rest of [] \<Rightarrow> r - q = lots_total gone | lt # later \<Rightarrow> r - q - lots_total gone < snd lt"
      using Cons.IH [of "r - q" "n - m"] False q(2) Cons.prems(2,5) by auto
    then show ?thesis
      by (intro exI [of _ "lt # gone"] exI [of _ rest]) (auto simp: lots_total_def lt algebra_simps split: list.splits)
  qed
qed

text \<open>The ratio of the action multiplies the lots without rounding.\<close>

definition exact_ratio :: "nat \<Rightarrow> rat \<Rightarrow> rat \<Rightarrow> bool" where
  "exact_ratio s t ratio \<longleftrightarrow> (\<forall>m :: int. \<bar>of_int m / 10 ^ s\<bar> \<le> t \<longrightarrow> dmul E (of_int m / 10 ^ s) ratio = of_int m / 10 ^ s * ratio)"

lemma convert_lots_exact:
  assumes "fold (convert_lot E acquired_on ratio) lots (remaining, residual, consumed) = (remaining', residual', consumed')"
    and "list_all (good_lot s t 1) lots" "remaining = of_int n / 10 ^ s" "0 \<le> remaining" "remaining \<le> t" "t * 10 ^ s < 10 ^ prec E"
  shows "0 \<le> remaining' \<and> lots_total residual' = lots_total residual + lots_total lots - (remaining - remaining')
     \<and> (exact_ratio s t ratio \<longrightarrow> lots_total consumed' = lots_total consumed + (remaining - remaining') * ratio)"
  using assms(1-5)
proof (induction lots arbitrary: remaining residual consumed n)
  case (Cons lt lots)
  obtain d q where lt: "lt = (d, q)" by (cases lt)
  obtain m where q: "q = of_int m / 10 ^ s" "0 < q" "q \<le> t" using Cons.prems(2) by (fastforce simp: lt good_lot_def dest: abs_le_D1)
  define taken where "taken = min remaining q"
  obtain j where j: "taken = of_int j / 10 ^ s" using grid_min [OF Cons.prems(3) q(1)] by (auto simp: taken_def)
  have b: "0 \<le> taken" "taken \<le> remaining" "taken \<le> q" using q(2) Cons.prems(4) by (simp_all add: taken_def)
  have e: "dsub E remaining taken = remaining - taken" "dsub E q taken = q - taken"
    using b q(3) Cons.prems(5) by (auto intro!: grid_diff_exact [OF _ j _ assms(6)] Cons.prems(3) q(1))
  have x: "dmul E taken ratio = taken * ratio" if "exact_ratio s t ratio"
    using that b Cons.prems(5) unfolding exact_ratio_def j by simp
  let ?residual = "if taken < q then residual @ [(d, q - taken)] else residual"
  let ?consumed = "if taken \<noteq> 0 then consumed @ [(case acquired_on of None \<Rightarrow> d | Some a \<Rightarrow> a, dmul E taken ratio)] else consumed"
  have step: "convert_lot E acquired_on ratio lt (remaining, residual, consumed) = (remaining - taken, ?residual, ?consumed)"
    by (simp only: convert_lot_def Let_def lt prod.case taken_def [symmetric] e)
  note IH = Cons.IH [of "remaining - taken" ?residual ?consumed "n - j"]
  have "fold (convert_lot E acquired_on ratio) lots (remaining - taken, ?residual, ?consumed) = (remaining', residual', consumed')"
    using Cons.prems(1) by (simp add: step)
  moreover have "remaining - taken = of_int (n - j) / 10 ^ s" by (simp add: Cons.prems(3) j diff_divide_distrib)
  ultimately have "0 \<le> remaining' \<and> lots_total residual' = lots_total ?residual + lots_total lots - (remaining - taken - remaining')
     \<and> (exact_ratio s t ratio \<longrightarrow> lots_total consumed' = lots_total ?consumed + (remaining - taken - remaining') * ratio)"
    using Cons.prems(2,5) b by (intro IH) simp_all
  moreover have "lots_total ?residual = lots_total residual + (q - taken)" using b by simp
  moreover have "lots_total ?consumed = lots_total consumed + taken * ratio" if "exact_ratio s t ratio" using x [OF that] by simp
  ultimately show ?case by (simp add: lt algebra_simps)
qed simp

section \<open>Positions\<close>

lemma quantity_position:
  assumes "map_res id (quantity_postings E c cur iid (of_int n / 10 ^ s) counter s) = Inr ps"
  shows "sum_list (map (position_effect j) ps) = (if j = iid then of_int n / 10 ^ s else 0)"
  using assms by (auto simp: quantity_postings_def position_effect_def dest!: new_posting_parts split: option.splits)

lemma money_fixed_scale: "money_fixed E c x = Inr v \<Longrightarrow> v = posted c x"
  by (auto simp: money_fixed_def fixed_money_value)

lemma action_transaction_postings:
  assumes "action_transaction E c x stamp rs = Inr tx"
  shows "map_res id rs = Inr (tx_postings tx)"
  using assms by (auto simp: action_transaction_def make_transaction_def mk_ledger_transaction_def split: if_splits)

lemma quantity_multiple:
  assumes "dmod E q (decimal E step_size) = Inr 0"
  shows "\<exists>n. q = of_int n / 10 ^ scale step_size"
proof -
  obtain j :: int where "q = of_int j * decimal E step_size" using dmod_zero_iff [OF assms] by auto
  then have "q = of_int (j * units step_size) / 10 ^ scale step_size" by (simp add: decimal_value)
  then show ?thesis by blast
qed

lemma held_after:
  "lg_positions u = fold (position_add E) ps (lg_positions l) \<Longrightarrow> held u iid = held l iid + sum_list (map (position_effect iid) ps)"
  using books_effect(2) [where l = l and iid = iid and ps = ps] by (simp add: held_def)

lemma idle_positions:
  assumes "\<not> moves_something tx"
  shows "sum_list (map (position_effect iid) (tx_postings tx)) = 0"
proof -
  have "position_effect iid p = 0" if "p \<in> set (tx_postings tx)" for p
    using assms that by (auto simp: moves_something_def position_effect_def list_ex_iff decimal_value split: option.splits)
  then show ?thesis by (induction "tx_postings tx") (simp_all add: sum_list_0 map_idI cong: map_cong)
qed

end

text \<open>How far the lots of an instrument are from its position.\<close>

definition lot_gap :: "ledger \<Rightarrow> string \<Rightarrow> rat" where
  "lot_gap l iid = lots_total (dget_or (lg_position_lots l) iid []) - held l iid"

context fixed_env
begin

lemma bind_askE:
  assumes "bind (ask f) g s = (Inr y, t)"
  obtains z where "f s = Inr z" "g z s = (Inr y, t)"
  using assms by (auto simp: bind_Inr)

lemma cash_in_lieu_Inr:
  assumes "cash_in_lieu E k x stamp l = (Inr (), u)"
  obtains tx old taken l1 kept where "cash_in_lieu_transaction E k x stamp l = Inr (tx, taken, old)"
    "post E (ax_ledger k) True tx l = (Inr (), l1)"
    "retire_lots E taken (dget_or (lg_position_lots l1) (cx_instrument_id x) []) = (0, kept)"
    "u = l1\<lparr>lg_position_lots := dset (cx_instrument_id x) kept (lg_position_lots l1),
         lg_marks := (if taken = old then ddel (cx_instrument_id x) (lg_marks l1) else lg_marks l1), lg_event_time := stamp\<rparr>"
proof -
  let ?iid = "cx_instrument_id x"
  obtain w where w: "cash_in_lieu_transaction E k x stamp l = Inr w" and rest: "(case w of (tx, retired, old) \<Rightarrow>
     bind (post E (ax_ledger k) True tx) (\<lambda>_.
     bind (ask (\<lambda>l. case retire_lots E retired (dget_or (lg_position_lots l) ?iid []) of (remaining, kept) \<Rightarrow>
        if remaining \<noteq> 0 then raise ''cash-in-lieu quantity is not backed by holding lots'' else Inr kept)) (\<lambda>kept.
       put (\<lambda>l. l\<lparr>lg_position_lots := dset ?iid kept (lg_position_lots l),
         lg_marks := (if retired = old then ddel ?iid (lg_marks l) else lg_marks l), lg_event_time := stamp\<rparr>)))) l = (Inr (), u)"
    by (rule bind_askE [OF assms [unfolded cash_in_lieu_def Let_def]])
  obtain tx taken old where ww: "w = (tx, taken, old)" by (cases w)
  from rest obtain p :: unit and l1 kept where r: "post E (ax_ledger k) True tx l = (Inr p, l1)"
    "(case retire_lots E taken (dget_or (lg_position_lots l1) ?iid []) of (remaining, kept) \<Rightarrow>
        if remaining \<noteq> 0 then raise ''cash-in-lieu quantity is not backed by holding lots'' else Inr kept) = Inr kept"
    "u = l1\<lparr>lg_position_lots := dset ?iid kept (lg_position_lots l1),
         lg_marks := (if taken = old then ddel ?iid (lg_marks l1) else lg_marks l1), lg_event_time := stamp\<rparr>"
    by (simp only: ww prod.case bind_Inr ask_iff put_iff prod.inject simp_thms)
      (elim exE conjE, rule that, assumption, assumption, simp)
  have "retire_lots E taken (dget_or (lg_position_lots l1) ?iid []) = (0, kept)"
    using r(2) by (cases "retire_lots E taken (dget_or (lg_position_lots l1) ?iid [])") (auto split: if_splits)
  with w ww r(1,3) that [of tx taken old l1 kept] show thesis by simp
qed

lemma cash_in_lieu_transaction_Inr:
  assumes "cash_in_lieu_transaction E k x stamp l = Inr (tx, taken, old)"
  shows "\<exists>sp cash cost. spec_of (ax_ledger k) (cx_instrument_id x) = Inr sp
    \<and> ax_number k (cx_retired_quantity x) = Inr taken \<and> old = held l (cx_instrument_id x) \<and> taken \<le> old
    \<and> dmod E taken (decimal E (sp_quantity_step sp)) = Inr 0
    \<and> map_res id ([cash_posting E (ax_ledger k) (cx_currency x) cash,
         instrument_posting E (ax_ledger k) ''assets:position_cost'' (cx_currency x) (dneg E cost) (cx_instrument_id x),
         instrument_posting E (ax_ledger k) ''income:realized_pnl'' (cx_currency x) (dsub E cost cash) (cx_instrument_id x)]
        @ quantity_postings E (ax_ledger k) (cx_currency x) (cx_instrument_id x) (dneg E taken) taken (scale (sp_quantity_step sp)))
        = Inr (tx_postings tx)"
proof -
  let ?c = "ax_ledger k" and ?iid = "cx_instrument_id x"
  from assms obtain sp taken' bad cost cash tx' where r: "spec_of ?c ?iid = Inr sp" "ax_number k (cx_retired_quantity x) = Inr taken'"
    "(if held l ?iid < taken' then Inr True
      else and_then (dmod E taken' (decimal E (sp_quantity_step sp))) (\<lambda>r. Inr (r \<noteq> 0))) = Inr bad" "\<not> bad"
    "action_transaction E ?c x stamp ([cash_posting E ?c (cx_currency x) cash,
         instrument_posting E ?c ''assets:position_cost'' (cx_currency x) (dneg E cost) ?iid,
         instrument_posting E ?c ''income:realized_pnl'' (cx_currency x) (dsub E cost cash) ?iid]
        @ quantity_postings E ?c (cx_currency x) ?iid (dneg E taken') taken' (scale (sp_quantity_step sp))) = Inr tx'"
    "(Inr (tx', taken', held l ?iid) :: (ledger_transaction \<times> rat \<times> rat) res) = Inr (tx, taken, old)"
    unfolding cash_in_lieu_transaction_def Let_def by (elim and_thenE if_raiseE) (rule that)
  from r(6) have e: "tx' = tx" "taken' = taken" "old = held l ?iid" by simp_all
  from r(3,4) have "taken \<le> old" "dmod E taken (decimal E (sp_quantity_step sp)) = Inr 0"
    by (auto simp: e split: if_splits)
  with r(1,2) e action_transaction_postings [OF r(5)] show ?thesis by blast
qed

lemma cash_in_lieu_lots:
  assumes "cash_in_lieu E k x stamp l = (Inr (), u)" "dget (lc_instruments (ax_ledger k)) (cx_instrument_id x) = Some sp"
    and "ax_number k (cx_retired_quantity x) = Inr retired" "0 \<le> retired" "held l (cx_instrument_id x) \<le> t"
    and "list_all (good_lot (scale (sp_quantity_step sp)) t 1) (dget_or (lg_position_lots l) (cx_instrument_id x) [])"
    and "t * 10 ^ scale (sp_quantity_step sp) < 10 ^ prec E"
  shows "lot_gap u iid = lot_gap l iid \<and> held u iid = held l iid - (if iid = cx_instrument_id x then retired else 0) \<and> retired \<le> held l (cx_instrument_id x)
    \<and> (iid \<noteq> cx_instrument_id x \<longrightarrow> dget_or (lg_position_lots u) iid [] = dget_or (lg_position_lots l) iid [])
    \<and> (\<exists>gone rest. dget_or (lg_position_lots l) (cx_instrument_id x) [] = gone @ rest
         \<and> dget_or (lg_position_lots u) (cx_instrument_id x) [] = cut_front (retired - lots_total gone) rest
         \<and> 0 \<le> retired - lots_total gone
         \<and> (case rest of [] \<Rightarrow> retired = lots_total gone | lt # later \<Rightarrow> retired - lots_total gone < snd lt))"
proof -
  let ?iid = "cx_instrument_id x" and ?c = "ax_ledger k" and ?s = "scale (sp_quantity_step sp)"
  from assms(1) obtain tx old taken l1 kept where tx: "cash_in_lieu_transaction E k x stamp l = Inr (tx, taken, old)"
    and post: "post E ?c True tx l = (Inr (), l1)" and lots: "retire_lots E taken (dget_or (lg_position_lots l1) ?iid []) = (0, kept)"
    and u: "u = l1\<lparr>lg_position_lots := dset ?iid kept (lg_position_lots l1),
         lg_marks := (if taken = old then ddel ?iid (lg_marks l1) else lg_marks l1), lg_event_time := stamp\<rparr>"
    by (rule cash_in_lieu_Inr)
  from cash_in_lieu_transaction_Inr [OF tx] obtain sp' cash cost where r: "spec_of ?c ?iid = Inr sp'"
    "ax_number k (cx_retired_quantity x) = Inr taken" "old = held l ?iid" "taken \<le> old"
    "dmod E taken (decimal E (sp_quantity_step sp')) = Inr 0"
    "map_res id ([cash_posting E ?c (cx_currency x) cash,
         instrument_posting E ?c ''assets:position_cost'' (cx_currency x) (dneg E cost) ?iid,
         instrument_posting E ?c ''income:realized_pnl'' (cx_currency x) (dsub E cost cash) ?iid]
        @ quantity_postings E ?c (cx_currency x) ?iid (dneg E taken) taken (scale (sp_quantity_step sp'))) = Inr (tx_postings tx)"
    by (elim exE conjE) (rule that)
  have eq: "sp' = sp" "taken = retired" using r(1,2) assms(2,3) by (simp_all add: spec_of_def of_option_def)
  note small = r(4) [unfolded r(3) eq] and step = r(5) [unfolded eq] and ps = r(6) [unfolded eq]
  obtain n where n: "retired = of_int n / 10 ^ ?s" using quantity_multiple [OF step] by blast
  have "dneg E retired = of_int (- n) / 10 ^ ?s"
    using grid_neg_exact [OF n _ assms(7)] small assms(4,5) by (simp add: n)
  then obtain p1 p2 where p: "tx_postings tx = p1 @ p2"
      "map_res id (quantity_postings E ?c (cx_currency x) ?iid (of_int (- n) / 10 ^ ?s) retired ?s) = Inr p2"
      "map_res id [cash_posting E ?c (cx_currency x) cash,
         instrument_posting E ?c ''assets:position_cost'' (cx_currency x) (dneg E cost) ?iid,
         instrument_posting E ?c ''income:realized_pnl'' (cx_currency x) (dsub E cost cash) ?iid] = Inr p1"
    using ps unfolding map_res_append by (elim exE conjE) (rule that, assumption, simp only:, assumption)
  have idle: "sum_list (map (position_effect iid) p1) = 0"
    using p(3) by (auto simp: position_effect_def cash_posting_def instrument_posting_def dest!: new_posting_parts)
  have held: "held u iid = held l iid - (if iid = ?iid then retired else 0)"
    using held_after [OF post_fields(8) [OF post], of iid] quantity_position [OF p(2), of iid] p(1) idle n
    by (simp add: u held_def)
  have same: "lg_position_lots l1 = lg_position_lots l" by (rule post_Inr [OF post]) simp_all
  obtain con where "fold (convert_lot E None 0) (dget_or (lg_position_lots l) ?iid []) (retired, [], []) = (0, kept, con)"
    using lots retire_as_convert [of E _ retired "[]" 0 "[]"] by (auto simp: retire_lots_def same eq split: prod.splits)
  from convert_lots_exact [OF this assms(6) n assms(4) _ assms(7)] small assms(5)
  have "lots_total kept = lots_total (dget_or (lg_position_lots l) ?iid []) - retired" by simp
  then have gap: "lot_gap u iid = lot_gap l iid" using held by (simp add: lot_gap_def u same)
  have "fold (retire_lot E) (dget_or (lg_position_lots l) ?iid []) (retired, []) = (0, kept)"
    using lots by (simp add: retire_lots_def same eq)
  from retire_front [OF this assms(6) n assms(4) _ assms(7)] small assms(5)
  have "\<exists>gone rest. dget_or (lg_position_lots l) ?iid [] = gone @ rest \<and> kept = cut_front (retired - lots_total gone) rest
     \<and> 0 \<le> retired - lots_total gone
     \<and> (case rest of [] \<Rightarrow> retired = lots_total gone | lt # later \<Rightarrow> retired - lots_total gone < snd lt)" by simp
  moreover have "dget_or (lg_position_lots u) ?iid [] = kept" by (simp add: u dget_or_def)
  moreover have "dget_or (lg_position_lots u) iid [] = dget_or (lg_position_lots l) iid []" if "iid \<noteq> ?iid"
    using that by (simp add: u same dget_or_def)
  ultimately show ?thesis using gap held small by metis
qed

end

text \<open>
  C36: Cash in lieu takes the retired quantity out of the position and out of the acquisition
  lots alike, the lots from the front of the stored list: whole lots are taken until the rest is
  less than the next one, which keeps what remains of it, and all later lots stay.  So the lots
  of every instrument stay as far from its position as they were, a position that its lots
  account for stays accounted for, other instruments keep theirs, and none is retired short.
  (The lots are positive, on the quantity step and inside the precision of the context.)
\<close>

theorem cash_in_lieu_keeps_lots_in_step:
  assumes "fixed_env E" "cash_in_lieu E k x stamp l = (Inr (), u)"
    and "dget (lc_instruments (ax_ledger k)) (cx_instrument_id x) = Some sp"
    and "ax_number k (cx_retired_quantity x) = Inr retired" "0 \<le> retired" "held l (cx_instrument_id x) \<le> t"
    and "list_all (good_lot (scale (sp_quantity_step sp)) t 1) (dget_or (lg_position_lots l) (cx_instrument_id x) [])"
    and "t * 10 ^ scale (sp_quantity_step sp) < 10 ^ prec E"
  shows "(\<forall>iid. lot_gap u iid = lot_gap l iid
      \<and> held u iid = held l iid - (if iid = cx_instrument_id x then retired else 0)
      \<and> (iid \<noteq> cx_instrument_id x \<longrightarrow> dget_or (lg_position_lots u) iid [] = dget_or (lg_position_lots l) iid []))
    \<and> 0 \<le> held u (cx_instrument_id x)
    \<and> (\<exists>gone rest. dget_or (lg_position_lots l) (cx_instrument_id x) [] = gone @ rest
         \<and> dget_or (lg_position_lots u) (cx_instrument_id x) [] = cut_front (retired - lots_total gone) rest
         \<and> 0 \<le> retired - lots_total gone
         \<and> (case rest of [] \<Rightarrow> retired = lots_total gone | lt # later \<Rightarrow> retired - lots_total gone < snd lt))"
proof -
  note a = fixed_env.cash_in_lieu_lots [OF assms]
  note held_u = conjunct1 [OF conjunct2 [OF a]]
  from conjunct1 [OF conjunct2 [OF conjunct2 [OF a]]] held_u [of "cx_instrument_id x"]
  have "0 \<le> held u (cx_instrument_id x)" by simp
  then show ?thesis
    by (intro conjI allI conjunct1 [OF a] held_u conjunct1 [OF conjunct2 [OF conjunct2 [OF conjunct2 [OF a]]]]
        conjunct2 [OF conjunct2 [OF conjunct2 [OF conjunct2 [OF a]]]])
qed

end
