(* ===== verification/Corporate_Demo.thy ===== *)
theory Corporate_Demo
  imports Corporate_Props Ledger_Demo
begin

text \<open>Cash in lieu for one unit of the demo account's four, declared at 90 a unit.\<close>

definition demo_terms :: "string \<Rightarrow> action_terms" where
  "demo_terms fp = \<lparr>cx_event_id = ''A'', cx_instrument_id = ''X'', cx_kind = ''cash_in_lieu'', cx_effective_at = 8,
     cx_available_at = 8, cx_currency = ''USD'', cx_cash_per_unit = Some ''90'', cx_ratio = None, cx_entitlement_date = None,
     cx_retired_quantity = Some ''1'', cx_target_id = fp, cx_election_quantity = None, cx_cost_fraction = None,
     cx_target_mark = None, cx_parent_mark = None\<rparr>"

definition demo_ax :: action_config where
  "demo_ax = \<lparr>ax_ledger = demo_ledger_config, ax_utc = Inr, ax_number = (\<lambda>v. Inr (if v = Some ''90'' then 90 else 1)),
     ax_entitlement_day = (\<lambda>_. Inr 0), ax_event = Inr, ax_fingerprint = cx_target_id\<rparr>"

definition demo_retired :: "unit res \<times> ledger" where
  "demo_retired = cash_in_lieu ledger_env demo_ax (demo_terms ''p'') 9 demo_bought"

theorem cash_in_lieu_keeps_lots_in_step_witness:
  "lot_gap (snd demo_retired) ''X'' = 0 \<and> held (snd demo_retired) ''X'' = 3"
proof -
  have facts: "returns (fst demo_retired) \<and> dget_or (lg_position_lots demo_bought) ''X'' [] = [(1, 4)]
      \<and> held demo_bought ''X'' = 4 \<and> lot_gap demo_bought ''X'' = 0"
    by code_simp
  then have x: "cash_in_lieu ledger_env demo_ax (demo_terms ''p'') 9 demo_bought = (Inr (), snd demo_retired)"
    by (simp add: demo_retired_def returns_iff prod_eq_iff)
  have b: "dget_or (lg_position_lots demo_bought) ''X'' [] = [(1, 4)]" "held demo_bought ''X'' = 4" "lot_gap demo_bought ''X'' = 0"
    using facts by blast+
  have "list_all (good_lot 0 7 1) (dget_or (lg_position_lots demo_bought) ''X'' [])"
    unfolding b(1) by (auto simp: good_lot_def intro!: exI [of _ "4::int"])
  moreover have "prec ledger_env = 28" by (simp add: ledger_env_def std_env_def)
  moreover have "scale (sp_quantity_step demo_spec) = 0" "cx_instrument_id (demo_terms ''p'') = ''X''"
    "dget (lc_instruments (ax_ledger demo_ax)) ''X'' = Some demo_spec"
    "ax_number demo_ax (cx_retired_quantity (demo_terms ''p'')) = Inr 1"
    by (simp_all add: demo_terms_def demo_ax_def demo_ledger_config_def demo_spec_def)
  ultimately show ?thesis
    using cash_in_lieu_keeps_lots_in_step [OF lenv.fixed_env_axioms x, of demo_spec 1 7] b by (simp add: del: split_paired_Ex)
qed

end
