(* ===== verification/Derivative_Account.thy ===== *)
theory Derivative_Account
  imports Accounts
begin

text \<open>
  \<open>derivatives.py\<close>: the research account for futures and options.  \<open>Contract\<close> and the functions
  \<open>utc\<close> and \<open>decimal\<close> belong to the data kit: values are finite decimals by type, and the
  timestamp conversion, the local date, the event constructors, \<open>InstrumentSpec\<close> and the text
  of a decimal are fields of \<open>derivative_config\<close>.  Every operation is a request under an
  event identifier; the request itself is the fingerprint the code keeps.
\<close>

record contract_terms =
  ct_instrument_id :: string
  ct_kind :: string
  ct_venue :: string
  ct_currency :: string
  ct_timezone :: string
  ct_tick :: rat
  ct_multiplier :: rat
  ct_underlying :: string
  ct_underlying_kind :: string
  ct_settlement :: string
  ct_exercise_style :: string
  ct_option_right :: string
  ct_strike :: rat
  ct_listed_at :: instant
  ct_known_at :: instant
  ct_last_trade_at :: instant
  ct_expiry :: instant
  ct_initial_margin :: "rat option"
  ct_maintenance_margin :: "rat option"
  ct_rules_source :: string

record derivative_config =
  dx_contracts :: "(string, contract_terms) dict"
  dx_currency :: string
  dx_fee :: rat
  dx_slippage :: rat
  dx_ledger :: ledger_config
  dx_utc :: "instant \<Rightarrow> instant res"
  dx_local_date :: "string \<Rightarrow> instant \<Rightarrow> day"
  dx_spec :: "instrument_spec \<Rightarrow> instrument_spec res"
  dx_mark_event :: "market_event \<Rightarrow> market_event res"
  dx_status_event :: "market_event \<Rightarrow> market_event res"
  dx_action_event :: "corporate_action \<Rightarrow> corporate_action res"
  dx_text :: "rat option \<Rightarrow> string"

datatype derivative_request =
    MarkRequest string rat instant
  | BasketRequest "(string \<times> rat \<times> rat) list" instant
  | SettleRequest string rat instant
  | ExerciseRequest string rat instant bool

record basket_record =
  bt_trade_id :: string
  bt_instrument_id :: string
  bt_at :: instant
  bt_quantity :: rat
  bt_price :: rat
  bt_fee :: rat
  bt_side :: side

record lifecycle_record =
  lr_event_id :: string
  lr_instrument_id :: string
  lr_at :: instant
  lr_kind :: string
  lr_settlement :: string
  lr_quantity :: rat
  lr_intrinsic :: rat
  lr_cash :: rat

record derivative_account =
  da_ledger :: ledger
  da_fills :: "basket_record list"
  da_lifecycle :: "lifecycle_record list"
  da_events :: "(string, derivative_request) dict"

section \<open>Construction\<close>

definition dv_fp :: "env \<Rightarrow> rat \<Rightarrow> nat \<Rightarrow> fixed_point res" where
  "dv_fp E x s = and_then (dquantize E round_half_even x s) (\<lambda>rounded.
     if x \<noteq> rounded then Inl (ValueError ''value exceeds supported decimal precision'') else fixed E rounded s None)"

definition contract_metadata :: "derivative_config \<Rightarrow> contract_terms \<Rightarrow> (string, string) dict" where
  "contract_metadata k c = [(''initial_margin_rate'', ''0''), (''maintenance_margin_rate'', ''0''), (''rules_source'', ct_rules_source c)]
     @ (if ct_initial_margin c = None then [] else
         [(''initial_margin_per_contract'', dx_text k (ct_initial_margin c)),
          (''maintenance_margin_per_contract'', dx_text k (ct_maintenance_margin c))])"

definition contract_specification :: "env \<Rightarrow> derivative_config \<Rightarrow> contract_terms \<Rightarrow> instrument_spec res" where
  "contract_specification E k c =
     and_then (dv_fp E (ct_tick c) 8) (\<lambda>tick. and_then (dv_fp E 1 0) (\<lambda>one.
     and_then (dv_fp E (ct_multiplier c) 8) (\<lambda>multiplier.
       dx_spec k \<lparr>sp_instrument_id = ct_instrument_id c, sp_asset_class = (if ct_kind c = ''future'' then FUTURE else OPTION),
         sp_product_type = ''research_'' @ ct_kind c, sp_venue = ct_venue c, sp_settlement_currency = ct_currency c,
         sp_quote_currency = Some (ct_currency c), sp_price_tick = tick, sp_quantity_step = one,
         sp_contract_multiplier = multiplier, sp_metadata = contract_metadata k c, sp_available_at = ct_known_at c,
         sp_effective_from = ct_listed_at c, sp_effective_to = None, sp_expiry_date = Some (utc_date (ct_expiry c))\<rparr>)))"

text \<open>The instrument that the physical settlement of an option delivers.\<close>

definition underlying_spec :: "env \<Rightarrow> derivative_config \<Rightarrow> contract_terms \<Rightarrow> instrument_spec res" where
  "underlying_spec E k c =
     and_then (dv_fp E (ct_tick c) 8) (\<lambda>tick. and_then (dv_fp E 1 0) (\<lambda>one.
       dx_spec k \<lparr>sp_instrument_id = ct_underlying c, sp_asset_class = EQUITY, sp_product_type = ''delivery_underlying'',
         sp_venue = ct_venue c, sp_settlement_currency = ct_currency c, sp_quote_currency = Some (ct_currency c),
         sp_price_tick = tick, sp_quantity_step = one, sp_contract_multiplier = one,
         sp_metadata = [(''research_delivery'', ''true'')], sp_available_at = ct_known_at c,
         sp_effective_from = ct_listed_at c, sp_effective_to = None, sp_expiry_date = None\<rparr>))"

definition add_specification ::
  "env \<Rightarrow> derivative_config \<Rightarrow> (string, instrument_spec) dict \<Rightarrow> contract_terms \<Rightarrow> (string, instrument_spec) dict res" where
  "add_specification E k specs c = and_then (contract_specification E k c) (\<lambda>sp. Inr (dset (ct_instrument_id c) sp specs))"

definition add_underlying ::
  "env \<Rightarrow> derivative_config \<Rightarrow> (string, instrument_spec) dict \<Rightarrow> contract_terms \<Rightarrow> (string, instrument_spec) dict res" where
  "add_underlying E k specs c =
     (if ct_kind c \<noteq> ''option'' \<or> ct_settlement c \<noteq> ''physical'' then Inr specs
      else if ct_underlying_kind c = ''future''
      then (case dget (dx_contracts k) (ct_underlying c) of
              None \<Rightarrow> Inl (ValueError ''physical futures option requires linked future with same multiplier'')
            | Some u \<Rightarrow> if ct_kind u \<noteq> ''future'' \<or> ct_multiplier u \<noteq> ct_multiplier c
                then Inl (ValueError ''physical futures option requires linked future with same multiplier'') else Inr specs)
      else if dget specs (ct_underlying c) = None
      then and_then (underlying_spec E k c) (\<lambda>sp. Inr (dset (ct_underlying c) sp specs))
      else Inr specs)"

definition mk_derivative_account ::
  "env \<Rightarrow> derivative_config \<Rightarrow> contract_terms list \<Rightarrow> rat \<Rightarrow> instant \<Rightarrow> rat \<Rightarrow> rat
     \<Rightarrow> (derivative_config \<times> derivative_account) res" where
  "mk_derivative_account E given contracts initial_cash opened_at fee slippage =
     (if contracts = [] \<or> \<not> distinct (map ct_instrument_id contracts)
        \<or> list_ex (\<lambda>c. ct_currency c \<noteq> ct_currency (hd contracts)) contracts
      then Inl (ValueError ''distinct contracts in one currency required; split cross-currency studies'')
      else if fee < 0 \<or> slippage < 0 \<or> slippage \<noteq> of_int \<lfloor>slippage\<rfloor> \<or> initial_cash \<le> 0
      then Inl (ValueError ''positive cash, nonnegative fee and integer slippage ticks required'')
      else let k = given\<lparr>dx_contracts := map (\<lambda>c. (ct_instrument_id c, c)) contracts,
             dx_currency := ct_currency (hd contracts), dx_fee := fee, dx_slippage := slippage\<rparr> in
      and_then (fold_res (add_specification E k) [] contracts) (\<lambda>specs.
      and_then (fold_res (add_underlying E k) specs contracts) (\<lambda>specs.
      and_then (dv_fp E initial_cash 8) (\<lambda>cash. and_then (dx_utc k opened_at) (\<lambda>t.
      and_then (mk_ledger E ((dx_ledger k)\<lparr>lc_account_id := ''derivatives-research'', lc_base_currency := dx_currency k,
          lc_instruments := specs, lc_initial_cash := [(dx_currency k, cash)], lc_money_scale := 8, lc_initial_fx := [],
          lc_dividend_mode := None, lc_fx_mode := LEGACY\<rparr>) (Some t) False) (\<lambda>(c, l).
        Inr (k\<lparr>dx_ledger := c\<rparr>, \<lparr>da_ledger = l, da_fills = [], da_lifecycle = [], da_events = []\<rparr>)))))))"

section \<open>Shared parts\<close>

definition dv_held :: "env \<Rightarrow> derivative_config \<Rightarrow> ledger \<Rightarrow> string \<Rightarrow> rat res" where
  "dv_held E k l iid = and_then (snapshot E (dx_ledger k) l None) (\<lambda>snap.
     Inr (decimal E (dget_or (as_positions snap) iid \<lparr>units = 0, scale = 0\<rparr>)))"

definition dv_check_time :: "env \<Rightarrow> derivative_config \<Rightarrow> ledger \<Rightarrow> instant \<Rightarrow> unit res" where
  "dv_check_time E k l t = and_then (dx_utc k t) (\<lambda>stamp.
     and_then (snapshot E (dx_ledger k) l None) (\<lambda>snap.
     if stamp < as_event_time snap then Inl (ValueError ''event cannot precede current account time'') else Inr ()))"

definition dv_event :: "derivative_config \<Rightarrow> string \<Rightarrow> instant \<Rightarrow> string \<Rightarrow> event_body \<Rightarrow> market_event" where
  "dv_event k iid t event_id body =
     (let d = dx_local_date k (case dget (dx_contracts k) iid of None \<Rightarrow> ''UTC'' | Some c \<Rightarrow> ct_timezone c) t in
      \<lparr>me_event_id = event_id, me_instrument_id = iid, me_event_time = t, me_received_at = t, me_available_at = t,
       me_source = ''derivative-research'', me_trading_day = d, me_session_id = ''research:'' @ iso_date d,
       me_sequence = 0, me_body = body\<rparr>)"

definition dv_mark :: "env \<Rightarrow> derivative_config \<Rightarrow> string \<Rightarrow> rat \<Rightarrow> instant \<Rightarrow> string \<Rightarrow> (ledger, unit) effect" where
  "dv_mark E k iid price t event_id =
     bind (ask (\<lambda>_. and_then (dv_fp E price 8) (\<lambda>p.
        and_then (dx_mark_event k (dv_event k iid t event_id (MarkPriceEvent p))) (\<lambda>ev. Inr (ev, p))))) (\<lambda>(ev, p).
       mark_now E (dx_ledger k) ev p)"

definition dv_fill ::
  "env \<Rightarrow> derivative_config \<Rightarrow> string \<Rightarrow> rat \<Rightarrow> rat \<Rightarrow> instant \<Rightarrow> string \<Rightarrow> (ledger, unit) effect" where
  "dv_fill E k iid quantity price t trade_id =
     bind (ask (\<lambda>_. and_then (dv_fp E (dabs E quantity) 0) (\<lambda>q. and_then (dv_fp E price 8) (\<lambda>p.
        mk_fill E \<lparr>fl_fill_id = trade_id, fl_order_id = trade_id, fl_account_id = lc_account_id (dx_ledger k),
          fl_strategy_id = ''research'', fl_instrument_id = iid, fl_side = (if 0 < quantity then BUY else SELL),
          fl_quantity = q, fl_price = p, fl_event_time = t, fl_liquidity_role = UNKNOWN, fl_venue_trade_id = None\<rparr>)))) (\<lambda>f.
       apply_now E (dx_ledger k) (FillEvent f))"

definition contract_of :: "derivative_config \<Rightarrow> string \<Rightarrow> contract_terms res" where
  "contract_of k iid = (case dget (dx_contracts k) iid of None \<Rightarrow> Inl (KeyError iid) | Some c \<Rightarrow> Inr c)"

section \<open>Baskets\<close>

text \<open>A trade executes at the next whole tick against it, worsened by the slippage.\<close>

definition execution_price :: "env \<Rightarrow> derivative_config \<Rightarrow> contract_terms \<Rightarrow> rat \<Rightarrow> rat \<Rightarrow> rat res" where
  "execution_price E k c quantity price = and_then (ddiv E price (ct_tick c)) (\<lambda>ticks.
     Inr (dmul E (dadd E (of_int (if 0 < quantity then \<lceil>ticks\<rceil> else \<lfloor>ticks\<rfloor>))
       (if 0 < quantity then dx_slippage k else dneg E (dx_slippage k))) (ct_tick c)))"

definition check_leg ::
  "env \<Rightarrow> derivative_config \<Rightarrow> instant \<Rightarrow> string \<times> rat \<times> rat \<Rightarrow> ledger \<Rightarrow> rat res" where
  "check_leg E k t leg l = (case leg of (iid, quantity, price) \<Rightarrow>
     and_then (contract_of k iid) (\<lambda>c.
     if \<not> (max (ct_listed_at c) (ct_known_at c) \<le> t \<and> t \<le> ct_last_trade_at c)
     then Inl (ValueError ''trade outside contract tradability/knowledge interval'')
     else if quantity = 0 \<or> quantity \<noteq> of_int (round_down quantity) \<or> price \<le> 0
     then Inl (ValueError ''nonzero integer contracts and positive prices required'')
     else and_then (dv_held E k l iid) (\<lambda>h.
     if ct_initial_margin c = None \<and> (ct_kind c = ''future'' \<or> dadd E h quantity < 0)
     then Inl (ValueError ''explicit margin assumptions required for futures or short options'')
     else execution_price E k c quantity price)))"

definition dv_leg ::
  "env \<Rightarrow> derivative_config \<Rightarrow> string \<Rightarrow> instant \<Rightarrow> int \<Rightarrow> string \<times> rat \<times> rat \<Rightarrow> (ledger, basket_record) effect" where
  "dv_leg E k event_id t i leg = (case leg of (iid, quantity, price) \<Rightarrow>
     let trade_id = event_id @ '':'' @ show_int i; fee = dmul E (dx_fee k) (dabs E quantity) in
     bind (ask (check_leg E k t leg)) (\<lambda>execution.
     bind (dv_fill E k iid quantity execution t trade_id) (\<lambda>_.
     bind (ask (\<lambda>_. and_then (dv_fp E fee 8) (\<lambda>amount.
        mk_fee E \<lparr>fee_fee_id = trade_id @ '':fee'', fee_fill_id = trade_id, fee_account_id = lc_account_id (dx_ledger k),
          fee_amount = amount, fee_currency = dx_currency k, fee_event_time = t, fee_fee_type = ''commission''\<rparr>))) (\<lambda>f.
     bind (apply_now E (dx_ledger k) (FeeEvent f)) (\<lambda>_.
       ret \<lparr>bt_trade_id = trade_id, bt_instrument_id = iid, bt_at = t, bt_quantity = quantity, bt_price = execution,
            bt_fee = fee, bt_side = (if 0 < quantity then BUY else SELL)\<rparr>)))))"

fun dv_legs ::
  "env \<Rightarrow> derivative_config \<Rightarrow> string \<Rightarrow> instant \<Rightarrow> int \<Rightarrow> (string \<times> rat \<times> rat) list \<Rightarrow> (ledger, basket_record list) effect" where
  "dv_legs E k event_id t i [] = ret []"
| "dv_legs E k event_id t i (leg # legs) = bind (dv_leg E k event_id t i leg) (\<lambda>row.
     bind (dv_legs E k event_id t (i + 1) legs) (\<lambda>rows. ret (row # rows)))"

definition check_margin :: "env \<Rightarrow> derivative_config \<Rightarrow> ledger \<Rightarrow> unit res" where
  "check_margin E k l = and_then (snapshot E (dx_ledger k) l None) (\<lambda>snap.
     if units (as_nav snap) < units (as_initial_margin snap) \<or> cash_balance l (dx_currency k) < 0
     then Inl (ValueError ''insufficient cash or declared initial margin'') else Inr ())"

definition book_basket ::
  "env \<Rightarrow> derivative_config \<Rightarrow> string \<Rightarrow> (string \<times> rat \<times> rat) list \<Rightarrow> instant \<Rightarrow> (ledger, basket_record list) effect" where
  "book_basket E k event_id legs t =
     bind (ask (\<lambda>l. dv_check_time E k l t)) (\<lambda>_.
     bind (ask (\<lambda>_. if legs = [] \<or> \<not> distinct (map fst legs) then Inl (ValueError ''basket needs distinct instruments'') else Inr ())) (\<lambda>_.
     all_or_nothing
       (bind (dv_legs E k event_id t 0 legs) (\<lambda>rows. bind (ask (check_margin E k)) (\<lambda>_. ret rows)))))"

section \<open>Daily settlement\<close>

definition book_settlement :: "env \<Rightarrow> derivative_config \<Rightarrow> string \<Rightarrow> string \<Rightarrow> rat \<Rightarrow> instant \<Rightarrow> (ledger, unit) effect" where
  "book_settlement E k event_id iid price t =
     bind (ask (\<lambda>_. and_then (contract_of k iid) (\<lambda>c.
        if ct_kind c \<noteq> ''future'' then Inl (ValueError ''daily settlement requires a future'') else Inr ()))) (\<lambda>_.
     bind (ask (\<lambda>l. dv_check_time E k l t)) (\<lambda>_.
     all_or_nothing
       (bind (dv_mark E k iid price t (event_id @ '':mark'')) (\<lambda>_.
        bind (ask (\<lambda>l. and_then (dx_status_event k (dv_event k iid t event_id (StatusEvent ''daily_settlement''))) (\<lambda>ev.
           settlement_from_market E (dx_ledger k) l ev ''daily_settlement''))) (\<lambda>settled.
        case settled of None \<Rightarrow> ret () | Some s \<Rightarrow> apply_now E (dx_ledger k) (SettlementEvent s))))))"

section \<open>Expiry and exercise\<close>

definition check_exercise :: "derivative_config \<Rightarrow> string \<Rightarrow> rat \<Rightarrow> instant \<Rightarrow> bool \<Rightarrow> contract_terms res" where
  "check_exercise k iid price t early = and_then (contract_of k iid) (\<lambda>c.
     if ct_kind c \<noteq> ''option'' \<or> price \<le> 0 then Inl (ValueError ''option and positive observed underlying required'')
     else if early
     then (if ct_exercise_style c \<noteq> ''american'' \<or> \<not> (max (ct_listed_at c) (ct_known_at c) \<le> t \<and> t < ct_expiry c)
           then Inl (ValueError ''early exercise only inside American option life'') else Inr c)
     else if t < ct_expiry c then Inl (ValueError ''expiry cannot occur before contract expiry'') else Inr c)"

definition option_sign :: "contract_terms \<Rightarrow> rat" where
  "option_sign c = (if ct_option_right c = ''call'' then 1 else - 1)"

definition intrinsic_value :: "env \<Rightarrow> contract_terms \<Rightarrow> rat \<Rightarrow> rat" where
  "intrinsic_value E c price = max 0 (dmul E (option_sign c) (dsub E price (ct_strike c)))"

definition exercise_payout :: "env \<Rightarrow> contract_terms \<Rightarrow> rat \<Rightarrow> rat" where
  "exercise_payout E c price = (if ct_settlement c = ''cash'' then dmul E (intrinsic_value E c price) (ct_multiplier c) else 0)"

definition terminal_event ::
  "env \<Rightarrow> derivative_config \<Rightarrow> contract_terms \<Rightarrow> string \<Rightarrow> rat \<Rightarrow> instant \<Rightarrow> string \<Rightarrow> corporate_action res" where
  "terminal_event E k c iid payout t event_id = and_then (dv_fp E 0 0) (\<lambda>zero. and_then (dv_fp E payout 8) (\<lambda>cash.
     dx_action_event k \<lparr>ca_event_id = event_id, ca_instrument_id = iid, ca_action_type = ''terminal_cash'',
       ca_effective_date = utc_date t, ca_available_at = t, ca_ratio = Some zero, ca_cash_amount = Some cash,
       ca_currency = Some (ct_currency c), ca_share_entitlement = None\<rparr>))"

definition delivered_units :: "env \<Rightarrow> contract_terms \<Rightarrow> rat \<Rightarrow> rat" where
  "delivered_units E c quantity = dmul E (dmul E quantity (option_sign c))
     (if ct_underlying_kind c = ''spot'' then ct_multiplier c else 1)"

definition book_exercise ::
  "env \<Rightarrow> derivative_config \<Rightarrow> string \<Rightarrow> string \<Rightarrow> rat \<Rightarrow> instant \<Rightarrow> bool \<Rightarrow> (ledger, lifecycle_record) effect" where
  "book_exercise E k event_id iid price t early =
     bind (ask (\<lambda>l. dv_check_time E k l t)) (\<lambda>_.
     bind (ask (\<lambda>_. check_exercise k iid price t early)) (\<lambda>c.
     bind (ask (\<lambda>l. dv_held E k l iid)) (\<lambda>quantity.
     let payout = exercise_payout E c price in
     bind (all_or_nothing
       (bind (ask (\<lambda>_. terminal_event E k c iid payout t event_id)) (\<lambda>a.
        bind (apply_now E (dx_ledger k) (ActionEvent a)) (\<lambda>_.
        if ct_settlement c = ''physical'' \<and> 0 < intrinsic_value E c price \<and> quantity \<noteq> 0
        then bind (dv_fill E k (ct_underlying c) (delivered_units E c quantity) (ct_strike c) t (event_id @ '':delivery'')) (\<lambda>_.
             dv_mark E k (ct_underlying c) price t (event_id @ '':mark''))
        else ret ())))) (\<lambda>_.
       ret \<lparr>lr_event_id = event_id, lr_instrument_id = iid, lr_at = t, lr_kind = (if early then ''early_exercise'' else ''expiry''),
            lr_settlement = ct_settlement c, lr_quantity = quantity, lr_intrinsic = intrinsic_value E c price,
            lr_cash = dmul E payout quantity\<rparr>))))"

section \<open>Requests\<close>

definition on_da_ledger :: "(ledger, 'a) effect \<Rightarrow> (derivative_account, 'a) effect" where
  "on_da_ledger p a = (case p (da_ledger a) of (r, l) \<Rightarrow> (r, a\<lparr>da_ledger := l\<rparr>))"

definition dv_book :: "env \<Rightarrow> derivative_config \<Rightarrow> string \<Rightarrow> derivative_request \<Rightarrow> (derivative_account, unit) effect" where
  "dv_book E k event_id request = (case request of
       MarkRequest iid price t \<Rightarrow>
         bind (on_da_ledger (bind (ask (\<lambda>l. dv_check_time E k l t)) (\<lambda>_. dv_mark E k iid price t event_id))) (\<lambda>_. ret ())
     | BasketRequest legs t \<Rightarrow>
         bind (on_da_ledger (book_basket E k event_id legs t)) (\<lambda>rows. put (\<lambda>a. a\<lparr>da_fills := da_fills a @ rows\<rparr>))
     | SettleRequest iid price t \<Rightarrow> on_da_ledger (book_settlement E k event_id iid price t)
     | ExerciseRequest iid price t early \<Rightarrow>
         bind (on_da_ledger (book_exercise E k event_id iid price t early)) (\<lambda>row. put (\<lambda>a. a\<lparr>da_lifecycle := da_lifecycle a @ [row]\<rparr>)))"

text \<open>A request with its time already converted: a repeated one is answered, a changed one refused.\<close>

definition dv_execute_stamped :: "env \<Rightarrow> derivative_config \<Rightarrow> string \<times> derivative_request \<Rightarrow> (derivative_account, unit) effect" where
  "dv_execute_stamped E k q = (case q of (event_id, request) \<Rightarrow>
     bind (ask (\<lambda>a. if event_id = '''' then Inl (ValueError ''event ID required'')
       else case dget (da_events a) event_id of
           None \<Rightarrow> Inr False
         | Some prior \<Rightarrow> if prior \<noteq> request then Inl (ValueError ''event ID reused with changed content'') else Inr True)) (\<lambda>duplicate.
     if duplicate then ret ()
     else bind (dv_book E k event_id request) (\<lambda>_. put (\<lambda>a. a\<lparr>da_events := dset event_id request (da_events a)\<rparr>))))"

fun stamped :: "derivative_config \<Rightarrow> derivative_request \<Rightarrow> derivative_request res" where
  "stamped k (MarkRequest iid price t) = and_then (dx_utc k t) (\<lambda>s. Inr (MarkRequest iid price s))"
| "stamped k (BasketRequest legs t) = and_then (dx_utc k t) (\<lambda>s. Inr (BasketRequest legs s))"
| "stamped k (SettleRequest iid price t) = and_then (dx_utc k t) (\<lambda>s. Inr (SettleRequest iid price s))"
| "stamped k (ExerciseRequest iid price t early) = and_then (dx_utc k t) (\<lambda>s. Inr (ExerciseRequest iid price s early))"

definition dv_execute :: "env \<Rightarrow> derivative_config \<Rightarrow> string \<times> derivative_request \<Rightarrow> (derivative_account, unit) effect" where
  "dv_execute E k q = bind (ask (\<lambda>_. stamped k (snd q))) (\<lambda>request. dv_execute_stamped E k (fst q, request))"

section \<open>Views\<close>

definition margin_breach :: "env \<Rightarrow> derivative_config \<Rightarrow> derivative_account \<Rightarrow> bool res" where
  "margin_breach E k a = and_then (snapshot E (dx_ledger k) (da_ledger a) None) (\<lambda>snap.
     Inr (as_liquidation_required snap \<or> cash_balance (da_ledger a) (dx_currency k) < 0
       \<or> list_ex (\<lambda>(iid, q). dget (dx_contracts k) iid = None \<and> units q < 0) (as_positions snap)))"

end
