(* ===== verification/Derivative_Props.thy ===== *)
theory Derivative_Props
  imports Derivative_Account
begin

text \<open>
  The derivative account: every request is served once, a refused one leaves no trace, and a
  basket that executes is covered when all of its legs are booked.
\<close>

section \<open>Requests served once\<close>

lemma on_da_ledger_iff: "on_da_ledger p a = (r, b) \<longleftrightarrow> (\<exists>l. p (da_ledger a) = (r, l) \<and> b = a\<lparr>da_ledger := l\<rparr>)"
  by (auto simp: on_da_ledger_def split: prod.splits)

lemma dv_mark_plain [plain_intros]: "keeps_plain (dv_mark E k iid price t event_id)"
  unfolding dv_mark_def by (auto intro!: plain_intros split: prod.splits)

lemma dv_fill_plain [plain_intros]: "keeps_plain (dv_fill E k iid quantity price t trade_id)"
  unfolding dv_fill_def by (intro plain_intros)

lemma dv_leg_plain [plain_intros]: "keeps_plain (dv_leg E k event_id t i leg)"
  unfolding dv_leg_def Let_def by (auto intro!: plain_intros split: prod.splits)

lemma dv_legs_plain [plain_intros]: "keeps_plain (dv_legs E k event_id t i legs)"
  by (induction legs arbitrary: i) (auto intro!: plain_intros)

lemma settled_plain: "keeps_plain (case settled of None \<Rightarrow> ret () | Some s \<Rightarrow> apply_now E c (SettlementEvent s))"
  by (auto intro!: plain_intros split: option.splits)

lemma book_basket_plain [plain_intros]: "keeps_plain (book_basket E k event_id legs t)"
  unfolding book_basket_def by (intro plain_intros)

lemma book_settlement_plain [plain_intros]: "keeps_plain (book_settlement E k event_id iid price t)"
  unfolding book_settlement_def by (intro plain_intros settled_plain)

lemma book_exercise_plain [plain_intros]: "keeps_plain (book_exercise E k event_id iid price t early)"
  unfolding book_exercise_def Let_def by (auto intro!: plain_intros)

text \<open>A refused basket, settlement or exercise leaves the very ledger it found.\<close>

lemma guarded_Inl:
  assumes "bind (ask f) g l = (Inl e, u)" "\<And>x. f l = Inr x \<Longrightarrow> g x l = (Inl e, u) \<Longrightarrow> u = l"
  shows "u = l"
  using assms by (auto simp: bind_Inl)

lemma book_basket_Inl: "book_basket E k event_id legs t l = (Inl e, u) \<Longrightarrow> plain l \<Longrightarrow> u = l"
  unfolding book_basket_def
  by (erule guarded_Inl, erule guarded_Inl, erule all_or_nothing_Inl [rotated -1]) (intro plain_intros)

lemma book_settlement_Inl: "book_settlement E k event_id iid price t l = (Inl e, u) \<Longrightarrow> plain l \<Longrightarrow> u = l"
  unfolding book_settlement_def
  by (erule guarded_Inl, erule guarded_Inl, erule all_or_nothing_Inl [rotated -1]) (intro plain_intros settled_plain)

lemma book_exercise_Inl: "book_exercise E k event_id iid price t early l = (Inl e, u) \<Longrightarrow> plain l \<Longrightarrow> u = l"
  unfolding book_exercise_def Let_def
  by (erule guarded_Inl, erule guarded_Inl, erule guarded_Inl, clarsimp simp: bind_Inl,
      erule all_or_nothing_Inl [rotated -1]) (auto intro!: plain_intros)

lemma mark_now_Inl: "mark_now E c ev price l = (Inl e, u) \<Longrightarrow> same_ledger l u"
  using mark_once_atomic [of E c ev "me_event_id ev" price True True l]
  by (auto simp: mark_now_def mark_def bind_Inl ledger_state.atomic_def)

lemma dv_mark_Inl: "dv_mark E k iid price t event_id l = (Inl e, u) \<Longrightarrow> same_ledger l u"
  by (auto simp: dv_mark_def bind_Inl dest: mark_now_Inl)

definition is_mark :: "derivative_request \<Rightarrow> bool" where
  "is_mark request \<longleftrightarrow> (case request of MarkRequest iid price t \<Rightarrow> True | _ \<Rightarrow> False)"

lemma dv_book_Inl:
  assumes "dv_book E k event_id request a = (Inl e, b)" "plain (da_ledger a)"
  shows "\<exists>l. b = a\<lparr>da_ledger := l\<rparr> \<and> same_ledger (da_ledger a) l \<and> (\<not> is_mark request \<longrightarrow> l = da_ledger a)"
proof (cases request)
  case (MarkRequest iid price t)
  with assms(1) obtain l where l: "bind (ask (\<lambda>l. dv_check_time E k l t)) (\<lambda>_. dv_mark E k iid price t event_id) (da_ledger a) = (Inl e, l)"
    "b = a\<lparr>da_ledger := l\<rparr>" by (auto simp: dv_book_def bind_Inl on_da_ledger_iff)
  then have "same_ledger (da_ledger a) l" by (auto simp: bind_Inl dest: dv_mark_Inl)
  with l(2) MarkRequest show ?thesis by (auto simp: is_mark_def)
next
  case (BasketRequest legs t)
  with assms show ?thesis
    by (auto simp: dv_book_def bind_Inl on_da_ledger_iff dest: book_basket_Inl intro!: exI [of _ "da_ledger a"])
next
  case (SettleRequest iid price t)
  with assms show ?thesis
    by (auto simp: dv_book_def on_da_ledger_iff dest: book_settlement_Inl intro!: exI [of _ "da_ledger a"])
next
  case (ExerciseRequest iid price t early)
  with assms show ?thesis
    by (auto simp: dv_book_def bind_Inl on_da_ledger_iff dest: book_exercise_Inl intro!: exI [of _ "da_ledger a"])
qed

lemma dv_marked_plain [plain_intros]:
  "keeps_plain (bind (ask (\<lambda>l. dv_check_time E k l t)) (\<lambda>_. dv_mark E k iid price t event_id))"
  by (intro plain_intros)

lemma on_da_ledger_plain:
  "on_da_ledger p a = (r, b) \<Longrightarrow> keeps_plain p \<Longrightarrow> plain (da_ledger a) \<Longrightarrow> plain (da_ledger b) \<and> da_events b = da_events a"
  by (auto simp: on_da_ledger_iff keeps_plain_def)

lemma dv_book_Inr:
  assumes "dv_book E k event_id request a = (Inr v, b)" "plain (da_ledger a)"
  shows "plain (da_ledger b) \<and> da_events b = da_events a"
proof (cases request)
  case (MarkRequest iid price t)
  with assms show ?thesis
    using on_da_ledger_plain [OF _ dv_marked_plain] by (fastforce simp: dv_book_def bind_Inr [of "on_da_ledger _"])
next
  case (BasketRequest legs t)
  with assms show ?thesis
    using on_da_ledger_plain [OF _ book_basket_plain] by (fastforce simp: dv_book_def bind_Inr)
next
  case (SettleRequest iid price t)
  with assms show ?thesis
    using on_da_ledger_plain [OF _ book_settlement_plain] by (fastforce simp: dv_book_def)
next
  case (ExerciseRequest iid price t early)
  with assms show ?thesis
    using on_da_ledger_plain [OF _ book_exercise_plain] by (fastforce simp: dv_book_def bind_Inr)
qed

definition da_served :: "derivative_account \<Rightarrow> string \<Rightarrow> (derivative_request \<times> unit) option" where
  "da_served a event_id = (if event_id = '''' then None
     else case dget (da_events a) event_id of None \<Rightarrow> None | Some request \<Rightarrow> Some (request, ()))"

lemma da_served_iff: "da_served a event_id = Some w \<longleftrightarrow> event_id \<noteq> '''' \<and> dget (da_events a) event_id = Some (fst w)"
  by (cases w) (auto simp: da_served_def split: option.splits)

lemma dv_execute_Inr:
  assumes "dv_execute_stamped E k q a = (Inr v, b)"
  shows "fst q \<noteq> '''' \<and> (if dget (da_events a) (fst q) = None
     then \<exists>c. dv_book E k (fst q) (snd q) a = (Inr (), c) \<and> b = c\<lparr>da_events := dset (fst q) (snd q) (da_events c)\<rparr>
     else b = a \<and> dget (da_events a) (fst q) = Some (snd q))"
  using assms by (auto simp: dv_execute_stamped_def bind_Inr split: prod.splits option.splits if_splits)

lemma dv_execute_Inl:
  assumes "dv_execute_stamped E k q a = (Inl e, b)" "plain (da_ledger a)"
  shows "\<exists>l. b = a\<lparr>da_ledger := l\<rparr> \<and> same_ledger (da_ledger a) l \<and> (\<not> is_mark (snd q) \<longrightarrow> l = da_ledger a)"
proof (cases "b = a")
  case True
  then show ?thesis by (intro exI [of _ "da_ledger a"]) (simp add: same_ledger_def)
next
  case False
  with assms(1) have "dv_book E k (fst q) (snd q) a = (Inl e, b)"
    by (auto simp: dv_execute_stamped_def bind_Inl bind_Inr split: prod.splits option.splits if_splits)
  then show ?thesis using assms(2) by (rule dv_book_Inl)
qed

definition da_other :: "derivative_account \<Rightarrow> derivative_account \<Rightarrow> bool" where
  "da_other a b \<longleftrightarrow> (\<exists>l. b = a\<lparr>da_ledger := l\<rparr> \<and> same_ledger (da_ledger a) l)"

lemma dv_execute_done:
  assumes "plain (da_ledger a)" "dv_execute_stamped E k q a = (Inr v, b)"
  shows "plain (da_ledger b) \<and> da_served b (fst q) = Some (snd q, v) \<and> (da_served a i = Some w \<longrightarrow> da_served b i = Some w)"
  using dv_execute_Inr [OF assms(2)] dv_book_Inr [of E k "fst q" "snd q" a "()"] assms(1)
  by (auto simp: da_served_iff split: if_splits)

interpretation da_requests: once "dv_execute_stamped E k" da_served fst snd "\<lambda>a. plain (da_ledger a)" da_other for E k
proof (unfold_locales, goal_cases)
  case (1 a q v)
  then show ?case by (cases q) (simp add: da_served_iff dv_execute_stamped_def bind_def ask_def ret_def)
next
  case (2 a q v b)
  then show ?case using dv_execute_done by blast
next
  case (3 a q v b i w)
  then show ?case using dv_execute_done by blast
next
  case (4 a q e b)
  then show ?case using dv_execute_Inl [OF 4(2,1)] unfolding da_other_def by blast
next
  case (5 a q v b)
  then show ?case using dv_execute_done by blast
next
  case (6 a b i w)
  then show ?case by (auto simp: da_other_def da_served_iff)
next
  case (7 a b)
  then show ?case by (auto simp: da_other_def same_ledger_plain)
qed

text \<open>A history of the account is a sequence of requests, served or refused.\<close>

definition dv_step :: "env \<Rightarrow> derivative_config \<Rightarrow> derivative_account \<Rightarrow> derivative_account \<Rightarrow> bool" where
  "dv_step E k a b \<longleftrightarrow> (\<exists>q. b = snd (dv_execute E k q a))"

lemma dv_execute_cases:
  obtains (unstamped) e where "stamped k (snd q) = Inl e" "\<And>a. dv_execute E k q a = (Inl e, a)"
  | (run) request where "stamped k (snd q) = Inr request" "\<And>a. dv_execute E k q a = dv_execute_stamped E k (fst q, request) a"
  by (cases "stamped k (snd q)") (auto simp: dv_execute_def bind_def ask_def)

lemma stamped_is_mark: "stamped k r = Inr r' \<Longrightarrow> is_mark r' = is_mark r"
  by (cases r) (auto simp: is_mark_def)

lemma da_other_refl: "da_other a a"
  by (auto simp: da_other_def same_ledger_def intro!: exI [of _ "da_ledger a"])

lemma dv_step_moves: "dv_step E k a b \<Longrightarrow> da_requests.moves E k a b"
proof -
  assume "dv_step E k a b"
  then obtain q where b: "b = snd (dv_execute E k q a)" by (auto simp: dv_step_def)
  show "da_requests.moves E k a b"
    by (cases rule: dv_execute_cases [of k q E]) (use b da_other_refl in \<open>auto simp: da_requests.moves_def\<close>)
qed

text \<open>
  C39: Requests on the derivative account happen once: a mark, basket, settlement or exercise
  that was served is answered again without any change, whatever requests came in between;
  one that is refused at any step, a later leg of a basket or the delivery of an exercise
  included, leaves the account as it was, up to the order of its tables for a mark.
\<close>

theorem derivative_requests_happen_once:
  assumes "plain (da_ledger a)"
  shows "(\<forall>e b. dv_execute E k q a = (Inl e, b) \<longrightarrow>
       da_events b = da_events a \<and> da_fills b = da_fills a \<and> da_lifecycle b = da_lifecycle a
       \<and> same_ledger (da_ledger a) (da_ledger b) \<and> (\<not> is_mark (snd q) \<longrightarrow> b = a))
    \<and> (\<forall>v b c. dv_execute E k q a = (Inr v, b) \<and> (dv_step E k)\<^sup>*\<^sup>* b c \<longrightarrow> dv_execute E k q c = (Inr v, c))"
proof (cases rule: dv_execute_cases [of k q E])
  case (unstamped e)
  then show ?thesis by (simp add: same_ledger_def)
next
  case (run request)
  have refused: "da_events b = da_events a \<and> da_fills b = da_fills a \<and> da_lifecycle b = da_lifecycle a
      \<and> same_ledger (da_ledger a) (da_ledger b) \<and> (\<not> is_mark (snd q) \<longrightarrow> b = a)" if "dv_execute E k q a = (Inl e, b)" for e b
    using dv_execute_Inl [of E k "(fst q, request)" a e b] that assms stamped_is_mark [OF run(1)] by (auto simp: run(2))
  have "dv_execute E k q c = (Inr v, c)" if "dv_execute E k q a = (Inr v, b)" "(dv_step E k)\<^sup>*\<^sup>* b c" for v b c
  proof -
    have "(da_requests.moves E k)\<^sup>*\<^sup>* b c"
      using that(2) rtranclp_mono [of "dv_step E k" "da_requests.moves E k"] dv_step_moves by blast
    then show ?thesis using da_requests.answered_again [OF assms] that(1) run(2) by metis
  qed
  with refused show ?thesis by blast
qed

section \<open>Baskets are covered\<close>

definition leg_allowed :: "derivative_config \<Rightarrow> instant \<Rightarrow> string \<times> rat \<times> rat \<Rightarrow> bool" where
  "leg_allowed k t leg \<longleftrightarrow> (case leg of (iid, quantity, price) \<Rightarrow> \<exists>c. dget (dx_contracts k) iid = Some c
     \<and> ct_listed_at c \<le> t \<and> ct_known_at c \<le> t \<and> t \<le> ct_last_trade_at c
     \<and> quantity \<noteq> 0 \<and> quantity = of_int (round_down quantity) \<and> 0 < price
     \<and> (ct_kind c = ''future'' \<longrightarrow> ct_initial_margin c \<noteq> None))"

lemma check_leg_Inr:
  assumes "check_leg E k t (iid, quantity, price) l = Inr x"
  shows "leg_allowed k t (iid, quantity, price) \<and> (\<exists>c. dget (dx_contracts k) iid = Some c \<and> execution_price E k c quantity price = Inr x)"
  using assms by (auto simp: check_leg_def contract_of_def leg_allowed_def split: if_splits option.splits)

text \<open>The record of a leg states what was booked for it.\<close>

definition leg_recorded ::
  "env \<Rightarrow> derivative_config \<Rightarrow> instant \<Rightarrow> string \<times> rat \<times> rat \<Rightarrow> basket_record \<Rightarrow> bool" where
  "leg_recorded E k t leg row \<longleftrightarrow> (case leg of (iid, quantity, price) \<Rightarrow> leg_allowed k t leg
     \<and> bt_instrument_id row = iid \<and> bt_quantity row = quantity \<and> bt_at row = t
     \<and> (\<exists>c. dget (dx_contracts k) iid = Some c \<and> execution_price E k c quantity price = Inr (bt_price row)))"

lemma dv_leg_Inr: "dv_leg E k event_id t i leg l = (Inr row, u) \<Longrightarrow> leg_recorded E k t leg row"
  by (cases leg) (auto simp: dv_leg_def Let_def bind_Inr leg_recorded_def dest: check_leg_Inr)

lemma dv_legs_Inr:
  "dv_legs E k event_id t i legs l = (Inr rows, u) \<Longrightarrow> list_all2 (leg_recorded E k t) legs rows"
  by (induction legs arbitrary: i l rows) (auto simp: bind_Inr dest: dv_leg_Inr)

lemma book_basket_Inr:
  assumes "book_basket E k event_id legs t l = (Inr rows, u)"
  shows "legs \<noteq> [] \<and> distinct (map fst legs) \<and> list_all2 (leg_recorded E k t) legs rows \<and> check_margin E k u = Inr ()"
  using assms by (auto simp: book_basket_def bind_Inr all_or_nothing_Inr split: if_splits dest: dv_legs_Inr)

text \<open>
  C0: A basket that executes is covered as a whole: after all its legs and fees are booked the
  net asset value covers the declared initial margin and the cash is not negative; every leg
  was within the life and knowledge of its contract, in whole contracts, futures only with
  declared margin, and was recorded at its execution price.
\<close>

theorem executed_basket_is_covered:
  assumes "dv_execute E k (event_id, BasketRequest legs given) a = (Inr (), b)" "dget (da_events a) event_id = None"
  shows "\<exists>t rows snap. dx_utc k given = Inr t \<and> legs \<noteq> [] \<and> distinct (map fst legs)
    \<and> da_fills b = da_fills a @ rows \<and> list_all2 (leg_recorded E k t) legs rows
    \<and> snapshot E (dx_ledger k) (da_ledger b) None = Inr snap \<and> units (as_initial_margin snap) \<le> units (as_nav snap)
    \<and> 0 \<le> cash_balance (da_ledger b) (dx_currency k)"
proof -
  from assms(1) obtain t where t: "dx_utc k given = Inr t"
    and x: "dv_execute_stamped E k (event_id, BasketRequest legs t) a = (Inr (), b)"
    by (auto simp: dv_execute_def bind_Inr)
  from dv_execute_Inr [OF x] assms(2) obtain rows l where
    r: "book_basket E k event_id legs t (da_ledger a) = (Inr rows, l)" "da_fills b = da_fills a @ rows" "da_ledger b = l"
    by (auto simp: dv_book_def bind_Inr on_da_ledger_iff)
  from book_basket_Inr [OF r(1)] r t show ?thesis
    by (auto simp: check_margin_def not_less split: if_splits)
qed

end
