(* ===== verification/Derivative_Demo.thy ===== *)
theory Derivative_Demo
  imports Derivative_Props
begin

text \<open>One call option without margin assumptions: two contracts are bought at 5 with a multiplier of 10.\<close>

definition dv_env :: env where
  "dv_env = std_env\<lparr>sha256_hex := (\<lambda>_. ''0'')\<rparr>"

definition demo_call :: contract_terms where
  "demo_call = \<lparr>ct_instrument_id = ''C'', ct_kind = ''option'', ct_venue = ''V'', ct_currency = ''USD'', ct_timezone = ''UTC'',
     ct_tick = 1 / 100, ct_multiplier = 10, ct_underlying = ''U'', ct_underlying_kind = ''spot'', ct_settlement = ''cash'',
     ct_exercise_style = ''european'', ct_option_right = ''call'', ct_strike = 100, ct_listed_at = 0, ct_known_at = 0,
     ct_last_trade_at = 100, ct_expiry = 100, ct_initial_margin = None, ct_maintenance_margin = None, ct_rules_source = ''r''\<rparr>"

definition demo_dv_ledger_config :: ledger_config where
  "demo_dv_ledger_config = \<lparr>lc_account_id = ''derivatives-research'', lc_base_currency = ''USD'', lc_instruments = [],
     lc_money_scale = 8, lc_dividend_mode = None, lc_fx_mode = LEGACY, lc_initial_cash = [], lc_initial_fx = [],
     lc_default_opened_at = 0, lc_payload_digest = (\<lambda>_. []), lc_select_pit_fx = (\<lambda>_ _ _ _. None), lc_sink_accepts = (\<lambda>_. True)\<rparr>"

definition demo_dv_given :: derivative_config where
  "demo_dv_given = \<lparr>dx_contracts = [], dx_currency = ''USD'', dx_fee = 0, dx_slippage = 0, dx_ledger = demo_dv_ledger_config,
     dx_utc = Inr, dx_local_date = (\<lambda>_ _. 1), dx_spec = Inr, dx_mark_event = Inr, dx_status_event = Inr,
     dx_action_event = Inr, dx_text = (\<lambda>_. ''0'')\<rparr>"

definition demo_dv :: "derivative_config \<times> derivative_account" where
  "demo_dv = (case mk_derivative_account dv_env demo_dv_given [demo_call] 1000 0 1 0 of Inr p \<Rightarrow> p
     | Inl e \<Rightarrow> (demo_dv_given, \<lparr>da_ledger = blank_ledger demo_dv_ledger_config 0, da_fills = [], da_lifecycle = [], da_events = []\<rparr>))"

definition demo_dv_request :: "string \<times> derivative_request" where
  "demo_dv_request = (''b1'', BasketRequest [(''C'', 2, 5)] 5)"

definition demo_dv_done :: "unit res \<times> derivative_account" where
  "demo_dv_done = dv_execute dv_env (fst demo_dv) demo_dv_request (snd demo_dv)"

lemma demo_dv_evaluated:
  "case mk_derivative_account dv_env demo_dv_given [demo_call] 1000 0 1 0 of
     Inl e \<Rightarrow> False
   | Inr (k, a) \<Rightarrow> plain (da_ledger a) \<and> da_events a = []
       \<and> (case dv_execute dv_env k demo_dv_request a of (r, b) \<Rightarrow> returns r \<and> cash_balance (da_ledger b) ''USD'' = 898)"
  by code_simp

lemma demo_dv_runs: "returns (fst demo_dv_done) \<and> plain (da_ledger (snd demo_dv)) \<and> da_events (snd demo_dv) = []
    \<and> cash_balance (da_ledger (snd demo_dv_done)) ''USD'' = 898"
  using demo_dv_evaluated unfolding demo_dv_def demo_dv_done_def
  by (cases "mk_derivative_account dv_env demo_dv_given [demo_call] 1000 0 1 0") (auto split: prod.splits)

lemma demo_dv_served: "dv_execute dv_env (fst demo_dv) demo_dv_request (snd demo_dv) = (Inr (), snd demo_dv_done)"
  using demo_dv_runs by (simp add: demo_dv_done_def returns_iff prod_eq_iff)

theorem derivative_requests_happen_once_witness:
  "dv_execute dv_env (fst demo_dv) demo_dv_request (snd demo_dv_done) = (Inr (), snd demo_dv_done)"
proof -
  have "plain (da_ledger (snd demo_dv))" using demo_dv_runs by blast
  from derivative_requests_happen_once [OF this] demo_dv_served show ?thesis by blast
qed

theorem executed_basket_is_covered_witness:
  "\<exists>row. da_fills (snd demo_dv_done) = da_fills (snd demo_dv) @ [row] \<and> bt_quantity row = 2 \<and> bt_instrument_id row = ''C''"
proof -
  have "dget (da_events (snd demo_dv)) ''b1'' = None" using demo_dv_runs by simp
  from executed_basket_is_covered [OF demo_dv_served [unfolded demo_dv_request_def] this]
  show ?thesis by (auto simp: list_all2_Cons1 leg_recorded_def)
qed

end
