(* ===== verification/Research_Account.thy ===== *)
theory Research_Account
  imports Accounts
begin

text \<open>
  \<open>research_account.py\<close>: baskets of cash equities and options on one ledger, with short sales
  against declared borrow.  Values are finite decimals by type; the data kit's \<open>utc\<close>, the mark
  event constructor and the \<open>repr\<close> of a request, its fingerprint, are fields of
  \<open>research_config\<close>.  A failing basket restores the ledger, the pending proceeds and the fills.
\<close>

record borrow_evidence =
  be_available_at :: instant
  be_expires_at :: instant
  be_units :: rat
  be_source :: string

record basket_request =
  rb_legs :: "(string \<times> rat \<times> rat) list"
  rb_at :: instant
  rb_marks :: "(string, rat) dict"
  rb_borrow :: "(string, borrow_evidence) dict"
  rb_settles_at :: "instant option"
  rb_fee_per_unit :: rat

record research_config =
  rc_specs :: "(string, instrument_spec) dict"
  rc_currency :: string
  rc_addon :: rat
  rc_ledger :: ledger_config
  rc_utc :: "instant \<Rightarrow> instant res"
  rc_mark_event :: "market_event \<Rightarrow> market_event res"
  rc_fingerprint :: "basket_request \<Rightarrow> string"

record research_fill =
  rf_event_id :: string
  rf_instrument_id :: string
  rf_at :: instant
  rf_quantity :: rat
  rf_price :: rat
  rf_fee :: rat
  rf_settles_at :: instant

record research_account =
  rk_ledger :: ledger
  rk_pending :: "(instant \<times> rat) list"
  rk_fills :: "research_fill list"
  rk_events :: "(string, string) dict"

section \<open>Construction\<close>

definition rs_fp :: "env \<Rightarrow> rat \<Rightarrow> fixed_point res" where
  "rs_fp E x = fixed E x 8 (Some ROUND_HALF_EVEN)"

definition is_stock :: "instrument_spec \<Rightarrow> bool" where
  "is_stock sp \<longleftrightarrow> sp_asset_class sp \<in> {EQUITY, ETF}"

definition delivery_spec :: "instrument_spec \<Rightarrow> instrument_spec" where
  "delivery_spec sp = (if is_stock sp then sp\<lparr>sp_metadata := dset ''research_delivery'' ''true'' (sp_metadata sp)\<rparr> else sp)"

definition mk_research_account ::
  "env \<Rightarrow> research_config \<Rightarrow> instrument_spec list \<Rightarrow> rat \<Rightarrow> instant \<Rightarrow> rat \<Rightarrow> (research_config \<times> research_account) res" where
  "mk_research_account E given specs initial_cash opened_at addon =
     (let table = fold (\<lambda>sp d. dset (sp_instrument_id sp) (delivery_spec sp) d) specs [] in
      if table = [] \<or> list_ex (\<lambda>(iid, sp). sp_settlement_currency sp \<noteq> sp_settlement_currency (snd (hd table))) table
         \<or> initial_cash \<le> 0
      then Inl (ValueError ''one currency, nonempty specs and positive cash required'')
      else if \<not> (0 \<le> addon \<and> addon \<le> 5) then Inl (ValueError ''invalid short collateral add-on'')
      else if list_ex (\<lambda>(iid, sp). sp_asset_class sp \<notin> {EQUITY, ETF, OPTION}) table
      then Inl (ValueError ''premium-funded spot equities/ETFs and options required'')
      else let k = given\<lparr>rc_specs := table, rc_currency := sp_settlement_currency (snd (hd table)), rc_addon := addon\<rparr> in
      and_then (rs_fp E initial_cash) (\<lambda>cash. and_then (rc_utc k opened_at) (\<lambda>t.
      and_then (mk_ledger E ((rc_ledger k)\<lparr>lc_account_id := ''research-basket'', lc_base_currency := rc_currency k,
          lc_instruments := table, lc_initial_cash := [(rc_currency k, cash)], lc_money_scale := 8, lc_initial_fx := [],
          lc_dividend_mode := None, lc_fx_mode := LEGACY\<rparr>) (Some t) False) (\<lambda>(c, l).
        Inr (k\<lparr>rc_ledger := c\<rparr>, \<lparr>rk_ledger = l, rk_pending = [], rk_fills = [], rk_events = []\<rparr>)))))"

section \<open>Holdings, marks and collateral\<close>

definition rs_held :: "env \<Rightarrow> research_config \<Rightarrow> ledger \<Rightarrow> string \<Rightarrow> rat res" where
  "rs_held E k l iid = and_then (snapshot E (rc_ledger k) l None) (\<lambda>snap.
     and_then (rs_fp E 0) (\<lambda>zero. Inr (decimal E (dget_or (as_positions snap) iid zero))))"

definition rs_mark :: "env \<Rightarrow> research_config \<Rightarrow> string \<Rightarrow> rat \<Rightarrow> instant \<Rightarrow> string \<Rightarrow> (ledger, unit) effect" where
  "rs_mark E k iid price given event_id =
     bind (ask (\<lambda>_. and_then (rc_utc k given) (\<lambda>t. and_then (rs_fp E price) (\<lambda>p.
        and_then (rc_mark_event k \<lparr>me_event_id = event_id, me_instrument_id = iid, me_event_time = t, me_received_at = t,
            me_available_at = t, me_source = ''declared-research'', me_trading_day = utc_date t,
            me_session_id = iso_date (utc_date t), me_sequence = 0, me_body = MarkPriceEvent p\<rparr>) (\<lambda>ev. Inr (ev, p)))))) (\<lambda>(ev, p).
       mark_now E (rc_ledger k) ev p)"

definition lookup :: "(string, 'a) dict \<Rightarrow> string \<Rightarrow> 'a res" where
  "lookup d key = (case dget d key of None \<Rightarrow> Inl (KeyError key) | Some v \<Rightarrow> Inr v)"

definition add_collateral ::
  "env \<Rightarrow> research_config \<Rightarrow> (string, rat) dict \<Rightarrow> ledger \<Rightarrow> rat \<Rightarrow> string \<times> instrument_spec \<Rightarrow> rat res" where
  "add_collateral E k marks l acc entry = (case entry of (iid, sp) \<Rightarrow>
     and_then (rs_held E k l iid) (\<lambda>q.
     if q < 0 \<and> is_stock sp
     then and_then (lookup marks iid) (\<lambda>m. Inr (dadd E acc (dmul E (dmul E (dabs E q) m) (dadd E 1 (rc_addon k)))))
     else Inr acc))"

definition collateral :: "env \<Rightarrow> research_config \<Rightarrow> (string, rat) dict \<Rightarrow> ledger \<Rightarrow> rat res" where
  "collateral E k marks l = fold_res (add_collateral E k marks l) 0 (rc_specs k)"

definition unsettled :: "env \<Rightarrow> (instant \<times> rat) list \<Rightarrow> instant \<Rightarrow> rat" where
  "unsettled E pending t = dsum E (map snd (filter (\<lambda>(date, amount). t < date) pending))"

section \<open>The guards of a basket\<close>

definition check_borrow ::
  "env \<Rightarrow> research_config \<Rightarrow> string \<Rightarrow> string \<Rightarrow> (string, borrow_evidence) dict \<Rightarrow> string \<Rightarrow> rat \<Rightarrow> instant \<Rightarrow> unit res" where
  "check_borrow E k invalid short borrow iid final t = (case dget borrow iid of
       None \<Rightarrow> Inl (ValueError invalid)
     | Some ev \<Rightarrow>
         and_then (rc_utc k (be_available_at ev)) (\<lambda>from.
         and_then (if t < from then Inr False else and_then (rc_utc k (be_expires_at ev)) (\<lambda>until. Inr (t < until))) (\<lambda>valid.
         if \<not> valid then Inl (ValueError invalid)
         else if be_units ev < dabs E final \<or> be_source ev = ''''
         then Inl (ValueError short) else Inr ())))"

definition check_research_leg ::
  "env \<Rightarrow> research_config \<Rightarrow> basket_request \<Rightarrow> instant \<Rightarrow> string \<times> rat \<times> rat \<Rightarrow> ledger \<Rightarrow> (instrument_spec \<times> rat) res" where
  "check_research_leg E k request t leg l = (case leg of (iid, quantity, price) \<Rightarrow>
     and_then (lookup (rc_specs k) iid) (\<lambda>sp.
     and_then (if quantity = 0 \<or> price \<le> 0 then Inr True
               else and_then (dmod E quantity (decimal E (sp_quantity_step sp))) (\<lambda>r. Inr (r \<noteq> 0))) (\<lambda>bad.
     if bad then Inl (ValueError ''positive price, nonzero step-aligned quantity required'')
     else and_then (dmod E price (decimal E (sp_price_tick sp))) (\<lambda>r.
     if r \<noteq> 0 then Inl (ValueError ''execution price is not tick-aligned'')
     else if t < max (sp_available_at sp) (sp_effective_from sp)
     then Inl (ValueError ''instrument terms unavailable at execution'')
     else and_then (rs_held E k l iid) (\<lambda>old.
     let final = dadd E old quantity in
     and_then (if final < 0 \<and> is_stock sp 
       then check_borrow E k ''valid borrow evidence required for short inventory'' ''insufficient evidenced borrow units''
         (rb_borrow request) iid final t
       else Inr ()) (\<lambda>_.
     if final < 0 \<and> sp_asset_class sp = OPTION \<and> dget (sp_metadata sp) ''initial_margin_per_contract'' = None
     then Inl (ValueError ''short option requires declared margin'')
     else Inr (sp, old)))))))"

section \<open>Booking a basket\<close>

text \<open>Only the disposal of units that were owned before releases sale proceeds.\<close>

definition sale_proceeds :: "env \<Rightarrow> instrument_spec \<Rightarrow> rat \<Rightarrow> rat \<Rightarrow> rat \<Rightarrow> instant \<Rightarrow> instant \<Rightarrow> (instant \<times> rat) list" where
  "sale_proceeds E sp old quantity price settles t =
     (let sale = min (max old 0) (max (dneg E quantity) 0) in
      if sale \<noteq> 0 \<and> t < settles then [(settles, dmul E (dmul E sale price) (decimal E (sp_contract_multiplier sp)))] else [])"

definition book_research_leg ::
  "env \<Rightarrow> research_config \<Rightarrow> string \<Rightarrow> basket_request \<Rightarrow> instant \<Rightarrow> instant \<Rightarrow> int \<Rightarrow> string \<times> rat \<times> rat
     \<Rightarrow> (ledger, (instant \<times> rat) list \<times> research_fill) effect" where
  "book_research_leg E k event_id request t settles n leg = (case leg of (iid, quantity, price) \<Rightarrow>
     let key = event_id @ '':'' @ show_int n in
     bind (ask (check_research_leg E k request t leg)) (\<lambda>(sp, old).
     bind (ask (\<lambda>_. and_then (rs_fp E (dabs E quantity)) (\<lambda>q. and_then (rs_fp E price) (\<lambda>p.
        mk_fill E \<lparr>fl_fill_id = key, fl_order_id = key, fl_account_id = lc_account_id (rc_ledger k),
          fl_strategy_id = ''research-basket'', fl_instrument_id = iid, fl_side = (if 0 < quantity then BUY else SELL),
          fl_quantity = q, fl_price = p, fl_event_time = t, fl_liquidity_role = UNKNOWN, fl_venue_trade_id = None\<rparr>)))) (\<lambda>f.
     bind (apply_now E (rc_ledger k) (FillEvent f)) (\<lambda>_.
     bind (ask (\<lambda>_. rs_fp E (dmul E (dabs E quantity) (rb_fee_per_unit request)))) (\<lambda>amount.
     bind (ask (\<lambda>_. mk_fee E \<lparr>fee_fee_id = key @ '':fee'', fee_fill_id = key, fee_account_id = lc_account_id (rc_ledger k),
          fee_amount = amount, fee_currency = rc_currency k, fee_event_time = t, fee_fee_type = ''commission''\<rparr>)) (\<lambda>fee.
     bind (apply_now E (rc_ledger k) (FeeEvent fee)) (\<lambda>_.
       ret (sale_proceeds E sp old quantity price settles t,
         \<lparr>rf_event_id = key, rf_instrument_id = iid, rf_at = t, rf_quantity = quantity, rf_price = price,
          rf_fee = decimal E amount, rf_settles_at = settles\<rparr>))))))))"

fun book_research_legs ::
  "env \<Rightarrow> research_config \<Rightarrow> string \<Rightarrow> basket_request \<Rightarrow> instant \<Rightarrow> instant \<Rightarrow> int \<Rightarrow> (string \<times> rat \<times> rat) list
     \<Rightarrow> (ledger, (instant \<times> rat) list \<times> research_fill list) effect" where
  "book_research_legs E k event_id request t settles n [] = ret ([], [])"
| "book_research_legs E k event_id request t settles n (leg # legs) =
     bind (book_research_leg E k event_id request t settles n leg) (\<lambda>(proceeds, row).
     bind (book_research_legs E k event_id request t settles (n + 1) legs) (\<lambda>(later, rows).
       ret (proceeds @ later, row # rows)))"

text \<open>Everything held or traded is marked first.\<close>

definition refresh_mark ::
  "env \<Rightarrow> research_config \<Rightarrow> string \<Rightarrow> basket_request \<Rightarrow> instant \<Rightarrow> string \<times> instrument_spec \<Rightarrow> (ledger, unit) effect" where
  "refresh_mark E k event_id request t entry = (case entry of (iid, sp) \<Rightarrow>
     bind (ask (\<lambda>l. rs_held E k l iid)) (\<lambda>q.
     if q \<noteq> 0 \<or> iid \<in> set (map fst (rb_legs request))
     then bind (ask (\<lambda>_. lookup (rb_marks request) iid)) (\<lambda>m. rs_mark E k iid m t (event_id @ '':mark:'' @ iid))
     else ret ()))"

definition audit_balance :: "env \<Rightarrow> ledger \<Rightarrow> unit res" where
  "audit_balance E l =
     (if list_ex (\<lambda>t. list_ex (\<lambda>(cur, v). v \<noteq> 0) (fold (\<lambda>p d. dset (po_currency p)
           (dadd E (dget_or d (po_currency p) 0) (decimal E (po_amount p))) d) (tx_postings t) [])) (lg_transactions l)
      then Inl (AssertionError ''unbalanced research transaction'') else Inr ())"

definition check_reserved ::
  "env \<Rightarrow> research_config \<Rightarrow> string \<Rightarrow> (string, rat) dict \<Rightarrow> (instant \<times> rat) list \<Rightarrow> instant \<Rightarrow> ledger \<Rightarrow> unit res" where
  "check_reserved E k message marks pending t l =
     and_then (snapshot E (rc_ledger k) l (Some t)) (\<lambda>snap.
     and_then (collateral E k marks l) (\<lambda>short.
     if cash_balance l (rc_currency k) < dadd E (dadd E short (decimal E (as_initial_margin snap))) (unsettled E pending t)
       \<or> decimal E (as_nav snap) < decimal E (as_initial_margin snap)
     then Inl (ValueError message) else audit_balance E l))"

definition book_research ::
  "env \<Rightarrow> research_config \<Rightarrow> string \<Rightarrow> basket_request \<Rightarrow> instant \<Rightarrow> instant \<Rightarrow> (instant \<times> rat) list
     \<Rightarrow> (ledger, (instant \<times> rat) list \<times> research_fill list) effect" where
  "book_research E k event_id request t settles pending = all_or_nothing
     (bind (each (refresh_mark E k event_id request t) (rc_specs k)) (\<lambda>_.
      bind (book_research_legs E k event_id request t settles 0 (rb_legs request)) (\<lambda>(proceeds, rows).
      bind (ask (check_reserved E k ''insufficient cash after margin, short collateral and unsettled proceeds''
          (rb_marks request) (pending @ proceeds) t)) (\<lambda>_.
        ret (pending @ proceeds, rows)))))"

text \<open>Validation errors of the ledger become value errors of the account.\<close>

fun normalized :: "'a res \<Rightarrow> 'a res" where
  "normalized (Inl (ValidationError message)) = Inl (ValueError message)"
| "normalized r = r"

definition on_ra_ledger :: "(ledger, 'a) effect \<Rightarrow> (research_account, 'a) effect" where
  "on_ra_ledger p a = (case p (rk_ledger a) of (r, l) \<Rightarrow> (r, a\<lparr>rk_ledger := l\<rparr>))"

definition normalizing :: "('s, 'a) effect \<Rightarrow> ('s, 'a) effect" where
  "normalizing p s = (case p s of (r, s') \<Rightarrow> (normalized r, s'))"

definition rs_times :: "research_config \<Rightarrow> basket_request \<Rightarrow> (instant \<times> instant) res" where
  "rs_times k request = and_then (rc_utc k (rb_at request)) (\<lambda>t.
     and_then (case rb_settles_at request of None \<Rightarrow> Inr t | Some s \<Rightarrow> rc_utc k s) (\<lambda>settles.
     if settles < t \<or> rb_fee_per_unit request < 0
     then Inl (ValueError ''settlement cannot precede execution; nonnegative fees required'') else Inr (t, settles)))"

definition rs_execute_timed ::
  "env \<Rightarrow> research_config \<Rightarrow> string \<times> basket_request \<times> instant \<times> instant \<Rightarrow> (research_account, unit) effect" where
  "rs_execute_timed E k q = (case q of (event_id, request, t, settles) \<Rightarrow>
     bind (ask (\<lambda>a. case dget (rk_events a) event_id of
           Some seen \<Rightarrow> if seen \<noteq> rc_fingerprint k request then Inl (ValueError ''basket ID reused with changed content'') else Inr True
         | None \<Rightarrow> if event_id = '''' \<or> rb_legs request = [] \<or> \<not> distinct (map fst (rb_legs request))
             then Inl (ValueError ''nonempty unique basket and ID required'') else Inr False)) (\<lambda>duplicate.
     if duplicate then ret ()
     else bind (ask (\<lambda>a. Inr (rk_pending a))) (\<lambda>before.
       bind (normalizing (on_ra_ledger (book_research E k event_id request t settles before))) (\<lambda>(pending, rows).
         put (\<lambda>a. a\<lparr>rk_pending := pending, rk_fills := rk_fills a @ rows,
           rk_events := dset event_id (rc_fingerprint k request) (rk_events a)\<rparr>)))))"

definition rs_execute :: "env \<Rightarrow> research_config \<Rightarrow> string \<times> basket_request \<Rightarrow> (research_account, unit) effect" where
  "rs_execute E k q = bind (ask (\<lambda>_. rs_times k (snd q))) (\<lambda>(t, settles). rs_execute_timed E k (fst q, snd q, t, settles))"

section \<open>Costs and carried risk\<close>

definition rs_charge :: "env \<Rightarrow> research_config \<Rightarrow> rat \<Rightarrow> instant \<Rightarrow> string \<Rightarrow> string \<Rightarrow> (research_account, unit) effect" where
  "rs_charge E k given t event_id kind =
     bind (ask (\<lambda>_. and_then (rs_fp E given) (\<lambda>amount.
        if units amount < 0 then Inl (ValueError ''nonnegative costs required'')
        else and_then (rs_fp E (dneg E (decimal E amount))) (\<lambda>cost. and_then (rc_utc k t) (\<lambda>stamp.
          mk_funding E \<lparr>fu_funding_id = kind @ '':'' @ event_id, fu_account_id = lc_account_id (rc_ledger k),
            fu_instrument_id = fst (hd (rc_specs k)), fu_amount = cost, fu_currency = rc_currency k, fu_event_time = stamp\<rparr>))))) (\<lambda>fu.
       on_ra_ledger (apply_now E (rc_ledger k) (FundingEvent fu)))"

definition check_carried ::
  "env \<Rightarrow> research_config \<Rightarrow> (string, borrow_evidence) dict \<Rightarrow> instant \<Rightarrow> ledger \<Rightarrow> string \<times> instrument_spec \<Rightarrow> unit res" where
  "check_carried E k borrow t l entry = (case entry of (iid, sp) \<Rightarrow>
     and_then (rs_held E k l iid) (\<lambda>q.
     if 0 \<le> q \<or> sp_asset_class sp = OPTION then Inr ()
     else check_borrow E k ''carried short requires unexpired borrow evidence'' ''carried short exceeds evidenced borrow'' borrow iid q t))"

definition check_risk ::
  "env \<Rightarrow> research_config \<Rightarrow> (string, rat) dict \<Rightarrow> instant \<Rightarrow> (string, borrow_evidence) dict \<Rightarrow> research_account \<Rightarrow> unit res" where
  "check_risk E k marks given borrow a = and_then (rc_utc k given) (\<lambda>t.
     and_then (fold_res (\<lambda>_ entry. check_carried E k borrow t (rk_ledger a) entry) () (rc_specs k)) (\<lambda>_.
       check_reserved E k ''insufficient carried collateral or margin'' marks (rk_pending a) t (rk_ledger a)))"

end
