(* ===== verification/Research_Props.thy ===== *)
theory Research_Props
  imports Research_Account
begin

text \<open>
  The research basket account: baskets are served once and leave no trace when they are refused;
  an executed basket is reserved in full.
\<close>

section \<open>Baskets served once\<close>

lemma on_ra_ledger_iff: "on_ra_ledger p a = (r, b) \<longleftrightarrow> (\<exists>l. p (rk_ledger a) = (r, l) \<and> b = a\<lparr>rk_ledger := l\<rparr>)"
  by (auto simp: on_ra_ledger_def split: prod.splits)

lemma normalized_Inr [simp]: "normalized r = Inr x \<longleftrightarrow> r = Inr x"
  by (cases r rule: normalized.cases) simp_all

lemma normalizing_Inr [simp]: "normalizing p s = (Inr x, t) \<longleftrightarrow> p s = (Inr x, t)"
  by (auto simp: normalizing_def split: prod.splits)

lemma normalizing_Inl: "normalizing p s = (Inl e, t) \<Longrightarrow> \<exists>e'. p s = (Inl e', t)"
  by (cases "fst (p s)") (auto simp: normalizing_def split: prod.splits)

lemma rs_mark_plain [plain_intros]: "keeps_plain (rs_mark E k iid price t event_id)"
  unfolding rs_mark_def by (auto intro!: plain_intros split: prod.splits)

lemma refresh_mark_plain [plain_intros]: "keeps_plain (refresh_mark E k event_id request t entry)"
  unfolding refresh_mark_def by (auto intro!: plain_intros split: prod.splits)

lemma book_research_leg_plain [plain_intros]: "keeps_plain (book_research_leg E k event_id request t settles n leg)"
  unfolding book_research_leg_def Let_def by (auto intro!: plain_intros split: prod.splits)

lemma book_research_legs_plain [plain_intros]: "keeps_plain (book_research_legs E k event_id request t settles n legs)"
  by (induction legs arbitrary: n) (auto intro!: plain_intros split: prod.splits)

lemma book_research_parts_plain:
  "keeps_plain (bind (each (refresh_mark E k event_id request t) (rc_specs k)) (\<lambda>_.
      bind (book_research_legs E k event_id request t settles 0 (rb_legs request)) (\<lambda>(proceeds, rows).
      bind (ask (check_reserved E k message (rb_marks request) (pending @ proceeds) t)) (\<lambda>_. ret (pending @ proceeds, rows)))))"
  by (auto intro!: plain_intros split: prod.splits)

lemma book_research_plain [plain_intros]: "keeps_plain (book_research E k event_id request t settles pending)"
  unfolding book_research_def by (rule all_or_nothing_plain [OF book_research_parts_plain])

lemma book_research_Inl: "book_research E k event_id request t settles pending l = (Inl e, u) \<Longrightarrow> plain l \<Longrightarrow> u = l"
  unfolding book_research_def by (rule all_or_nothing_Inl [OF book_research_parts_plain])

lemma rs_execute_timed_Inr:
  assumes "rs_execute_timed E k (event_id, request, t, settles) a = (Inr v, b)"
  shows "if dget (rk_events a) event_id = None
     then \<exists>pending rows l. rb_legs request \<noteq> [] \<and> distinct (map fst (rb_legs request))
       \<and> book_research E k event_id request t settles (rk_pending a) (rk_ledger a) = (Inr (pending, rows), l)
       \<and> b = a\<lparr>rk_ledger := l, rk_pending := pending, rk_fills := rk_fills a @ rows,
           rk_events := dset event_id (rc_fingerprint k request) (rk_events a)\<rparr>
     else b = a \<and> dget (rk_events a) event_id = Some (rc_fingerprint k request)"
  using assms by (auto simp: rs_execute_timed_def bind_Inr on_ra_ledger_iff split: option.splits if_splits prod.splits)

lemma rs_execute_timed_Inl:
  assumes "rs_execute_timed E k q a = (Inl e, b)" "plain (rk_ledger a)"
  shows "b = a"
proof -
  obtain event_id request t settles where q: "q = (event_id, request, t, settles)" by (cases q)
  show ?thesis
  proof (rule ccontr)
    assume ne: "b \<noteq> a"
    with assms(1) have "normalizing (on_ra_ledger (book_research E k event_id request t settles (rk_pending a))) a = (Inl e, b)"
      by (auto simp: q rs_execute_timed_def bind_Inl bind_Inr split: option.splits if_splits prod.splits)
    then obtain e' l where l: "book_research E k event_id request t settles (rk_pending a) (rk_ledger a) = (Inl e', l)"
      "b = a\<lparr>rk_ledger := l\<rparr>"
      by (auto simp: on_ra_ledger_iff dest!: normalizing_Inl)
    from book_research_Inl [OF l(1) assms(2)] l(2) ne show False by simp
  qed
qed

definition ra_served :: "research_account \<Rightarrow> string \<Rightarrow> (string \<times> unit) option" where
  "ra_served a event_id = map_option (\<lambda>fp. (fp, ())) (dget (rk_events a) event_id)"

text \<open>Marks and charges between two baskets.\<close>

definition ra_other :: "research_account \<Rightarrow> research_account \<Rightarrow> bool" where
  "ra_other a b \<longleftrightarrow> rk_events b = rk_events a \<and> (plain (rk_ledger a) \<longrightarrow> plain (rk_ledger b))"

lemma rs_execute_done:
  assumes "plain (rk_ledger a)" "rs_execute_timed E k q a = (Inr v, b)"
  shows "plain (rk_ledger b) \<and> ra_served b (fst q) = Some (rc_fingerprint k (fst (snd q)), v)
    \<and> (ra_served a i = Some w \<longrightarrow> ra_served b i = Some w)"
proof -
  obtain event_id request t settles where q: "q = (event_id, request, t, settles)" by (cases q)
  note r = rs_execute_timed_Inr [OF assms(2) [unfolded q]]
  show ?thesis
  proof (cases "dget (rk_events a) event_id")
    case None
    with r obtain pending rows l where l: "book_research E k event_id request t settles (rk_pending a) (rk_ledger a) = (Inr (pending, rows), l)"
      "b = a\<lparr>rk_ledger := l, rk_pending := pending, rk_fills := rk_fills a @ rows,
           rk_events := dset event_id (rc_fingerprint k request) (rk_events a)\<rparr>" by auto
    have "plain l" using book_research_plain l(1) assms(1) unfolding keeps_plain_def by blast
    with None l(2) show ?thesis by (auto simp: q ra_served_def)
  next
    case (Some seen)
    with r assms(1) show ?thesis by (simp add: q ra_served_def)
  qed
qed

interpretation ra_requests: once "rs_execute_timed E k" ra_served fst "\<lambda>q. rc_fingerprint k (fst (snd q))"
  "\<lambda>a. plain (rk_ledger a)" ra_other for E k
proof (unfold_locales, goal_cases)
  case (1 a q v)
  then show ?case by (cases q) (auto simp: ra_served_def rs_execute_timed_def bind_def ask_def ret_def)
next
  case (2 a q v b)
  then show ?case using rs_execute_done by blast
next
  case (3 a q v b i w)
  then show ?case using rs_execute_done by blast
next
  case (4 a q e b)
  then show ?case using rs_execute_timed_Inl by blast
next
  case (5 a q v b)
  then show ?case using rs_execute_done by blast
next
  case (6 a b i w)
  then show ?case by (simp add: ra_other_def ra_served_def)
next
  case (7 a b)
  then show ?case by (simp add: ra_other_def)
qed

lemma rs_charge_other: "rs_charge E k amount t event_id kind a = (r, b) \<Longrightarrow> ra_other a b"
  using apply_now_plain unfolding keeps_plain_def
  by (cases r) (fastforce simp: rs_charge_def bind_Inl bind_Inr on_ra_ledger_iff ra_other_def)+

text \<open>A basket is answered again without any change after whatever came in between.\<close>

lemma baskets_execute_once:
  assumes "plain (rk_ledger a)" "rs_execute E k q a = (Inr v, b)" "(ra_requests.moves E k)\<^sup>*\<^sup>* b c"
  shows "rs_execute E k q c = (Inr v, c)"
proof -
  from assms(2) obtain t settles where t: "rs_times k (snd q) = Inr (t, settles)"
    and x: "rs_execute_timed E k (fst q, snd q, t, settles) a = (Inr v, b)"
    by (auto simp: rs_execute_def bind_Inr)
  from ra_requests.answered_again [OF assms(1) x assms(3)] t show ?thesis by (simp add: rs_execute_def bind_def ask_def)
qed

lemma refused_basket_leaves_no_trace:
  "rs_execute E k q a = (Inl e, b) \<Longrightarrow> plain (rk_ledger a) \<Longrightarrow> b = a"
  by (auto simp: rs_execute_def bind_Inl dest: rs_execute_timed_Inl split: prod.splits)

section \<open>Holdings through a basket\<close>














text \<open>Which bookings leave the entries of an instrument alone.\<close>

definition moves_position :: "string \<Rightarrow> posting \<Rightarrow> bool" where
  "moves_position iid p \<longleftrightarrow> po_instrument_id p = Some iid \<and> po_quantity_delta p \<noteq> None"




lemma new_posting_moves:
  "new_posting E c account cur x j quantity = Inr p \<Longrightarrow> moves_position iid p \<longleftrightarrow> j = Some iid \<and> quantity \<noteq> None"
  by (auto simp: new_posting_def moves_position_def split: option.splits)

lemma posting_moves [simp]:
  "cash_posting E c cur x = Inr p \<Longrightarrow> \<not> moves_position iid p"
  "instrument_posting E c account cur x j = Inr p \<Longrightarrow> \<not> moves_position iid p"
  by (simp_all add: cash_posting_def instrument_posting_def new_posting_moves)









section \<open>Reserves\<close>











end
