(* ===== verification/Research_Demo.thy ===== *)
theory Research_Demo
  imports Research_Props
begin













end
