(* ===== verification/Market_Making.thy ===== *)
theory Market_Making
  imports Risk_Gate
begin

text \<open>
  \<open>market_making.py\<close>: the quoting policy, the quote plan and the callback of the market maker.
  The callback changes the strategy's own state and, through the references it holds, the
  broker and the gate, and an exception keeps what was changed before it: it is an effect on
  all four.  The L2 book reconstructor belongs to the data kit and is a field of \<open>mm_config\<close>.
\<close>

section \<open>Policy\<close>

record quote_policy =
  qp_order_quantity :: fixed_point
  qp_max_inventory :: fixed_point
  qp_target_inventory :: fixed_point
  qp_half_spread_ticks :: int
  qp_inventory_skew_ticks :: int
  qp_max_quote_age_ms :: int
  qp_refresh_ms :: int
  qp_cancel_latency_ms :: int

definition mk_quote_policy :: "env \<Rightarrow> quote_policy \<Rightarrow> quote_policy res" where
  "mk_quote_policy E p =
     (if units (qp_order_quantity p) \<le> 0 then Inl (ValueError ''positive FixedPoint order_quantity required'')
      else if units (qp_max_inventory p) \<le> 0 then Inl (ValueError ''positive FixedPoint max_inventory required'')
      else if \<not> (0 \<le> decimal E (qp_target_inventory p)
                  \<and> decimal E (qp_target_inventory p) \<le> decimal E (qp_max_inventory p))
      then Inl (ValueError ''cash inventory target must lie within [0,max_inventory]'')
      else if qp_half_spread_ticks p < 1 then Inl (ValueError ''invalid integer half_spread_ticks'')
      else if qp_inventory_skew_ticks p < 0 then Inl (ValueError ''invalid integer inventory_skew_ticks'')
      else if qp_max_quote_age_ms p < 1 then Inl (ValueError ''invalid integer max_quote_age_ms'')
      else if qp_refresh_ms p < 1 then Inl (ValueError ''invalid integer refresh_ms'')
      else if qp_cancel_latency_ms p < 0 then Inl (ValueError ''invalid integer cancel_latency_ms'')
      else Inr p)"

section \<open>The quote plan\<close>

type_synonym quote_row = "side \<times> fixed_point \<times> fixed_point"

text \<open>Every amount of the policy is a multiple of the quantity step.\<close>

definition check_step :: "env \<Rightarrow> rat \<Rightarrow> fixed_point \<Rightarrow> unit res" where
  "check_step E step_size amount = and_then (dmod E (decimal E amount) step_size) (\<lambda>r.
     if r \<noteq> 0 then Inl (ValueError ''inventory policy must align to instrument quantity step'') else Inr ())"

definition check_steps :: "env \<Rightarrow> rat \<Rightarrow> quote_policy \<Rightarrow> unit res" where
  "check_steps E step_size p = fold_res (\<lambda>_ amount. check_step E step_size amount) ()
     [qp_order_quantity p, qp_max_inventory p, qp_target_inventory p]"

definition quote_center :: "env \<Rightarrow> instrument_spec \<Rightarrow> quote_policy \<Rightarrow> rat \<Rightarrow> rat \<Rightarrow> rat \<Rightarrow> rat res" where
  "quote_center E sp p bid offer qty =
     and_then (ddiv E (dadd E bid offer) 2) (\<lambda>mid.
     and_then (ddiv E (dsub E qty (decimal E (qp_target_inventory p))) (decimal E (qp_max_inventory p))) (\<lambda>excess.
       Inr (dsub E mid (dmul E (dmul E excess (of_int (qp_inventory_skew_ticks p))) (decimal E (sp_price_tick sp))))))"

definition quote_line ::
  "env \<Rightarrow> instrument_spec \<Rightarrow> quote_policy \<Rightarrow> side \<times> rat \<times> rat \<times> (rat \<Rightarrow> int) \<Rightarrow> quote_row list res" where
  "quote_line E sp p row = (case row of (sd, price, capacity, mode) \<Rightarrow>
     let tick = decimal E (sp_price_tick sp); step_size = decimal E (sp_quantity_step sp) in
     and_then (ddiv E price tick) (\<lambda>ticks. let aligned_price = dmul E (of_int (mode ticks)) tick in
     and_then (ddiv E (min (decimal E (qp_order_quantity p)) capacity) step_size) (\<lambda>steps.
     let size = dmul E (of_int \<lfloor>steps\<rfloor>) step_size in
     if 0 < size \<and> 0 < aligned_price
     then and_then (fixed E aligned_price (scale (sp_price_tick sp)) (Some ROUND_HALF_EVEN)) (\<lambda>fp.
          and_then (fixed E size (scale (sp_quantity_step sp)) (Some ROUND_HALF_EVEN)) (\<lambda>fs. Inr [(sd, fp, fs)]))
     else Inr [])))"

definition quote_plan ::
  "env \<Rightarrow> instrument_spec \<Rightarrow> quote_policy \<Rightarrow> fixed_point \<Rightarrow> fixed_point \<Rightarrow> fixed_point \<Rightarrow> quote_row list res" where
  "quote_plan E sp p bid_price ask_price inventory = (let
       tick = decimal E (sp_price_tick sp); step_size = decimal E (sp_quantity_step sp);
       bid = decimal E bid_price; offer = decimal E ask_price; qty = decimal E inventory;
       half = dmul E (of_int (qp_half_spread_ticks p)) tick in
     if bid \<le> 0 \<or> offer \<le> bid \<or> qty < 0 \<or> decimal E (qp_max_inventory p) < qty
     then Inl (ValueError ''invalid BBO or inventory outside policy bounds'')
     else and_then (check_steps E step_size p) (\<lambda>_.
     and_then (quote_center E sp p bid offer qty) (\<lambda>center.
     and_then (quote_line E sp p
         (BUY, min bid (dsub E center half), dsub E (decimal E (qp_max_inventory p)) qty, floor)) (\<lambda>buys.
     and_then (quote_line E sp p (SELL, max offer (dadd E center half), qty, ceiling)) (\<lambda>sells.
       Inr (buys @ sells))))))"

section \<open>The strategy\<close>

datatype mm_decision =
    CancelRequested instant instant
  | QuoteDecision instant rat

record 'b mm_state =
  mm_book :: 'b
  mm_bbo :: "(fixed_point \<times> fixed_point \<times> instant) option"
  mm_last_submit :: "instant option"
  mm_cancel_due :: "instant option"
  mm_decisions :: "mm_decision list"

text \<open>\<open>mx_apply_book\<close> returns the reconstructed book with the prices of its bids and asks, best first.\<close>

record 'b mm_config =
  mx_spec :: instrument_spec
  mx_policy :: quote_policy
  mx_ledger :: ledger_config
  mx_empty_book :: 'b
  mx_apply_book :: "market_event \<Rightarrow> 'b \<Rightarrow> ('b \<times> (int \<times> nat) list \<times> (int \<times> nat) list) res"

record 'b mm_world =
  mw_state :: "'b mm_state"
  mw_broker :: broker_state
  mw_gate :: risk_gate
  mw_account :: ledger

definition mm_reset :: "'b mm_config \<Rightarrow> 'b mm_state" where
  "mm_reset k = \<lparr>mm_book = mx_empty_book k, mm_bbo = None, mm_last_submit = None, mm_cancel_due = None, mm_decisions = []\<rparr>"

definition mk_market_maker ::
  "'b mm_config \<Rightarrow> broker_state \<Rightarrow> risk_gate \<Rightarrow> ledger \<Rightarrow> 'b mm_world res" where
  "mk_market_maker k b g l =
     (if sp_asset_class (mx_spec k) \<notin> {EQUITY, ETF}
      then Inl (ValueError ''this policy supports cash equities/ETFs only'')
      else Inr \<lparr>mw_state = mm_reset k, mw_broker = b, mw_gate = g, mw_account = l\<rparr>)"

definition on_mm_state :: "('b mm_state \<Rightarrow> 'b mm_state) \<Rightarrow> ('b mm_world, unit) effect" where
  "on_mm_state f = put (\<lambda>w. w\<lparr>mw_state := f (mw_state w)\<rparr>)"

text \<open>A book event updates the book and the best prices, a quote replaces them, a status forgets them.\<close>

definition mm_observe :: "env \<Rightarrow> 'b mm_config \<Rightarrow> market_event \<Rightarrow> ('b mm_world, unit) effect" where
  "mm_observe E k ev = (let book_event =
       bind (ask (\<lambda>w. mx_apply_book k ev (mm_book (mw_state w)))) (\<lambda>(book, bids, asks).
       bind (on_mm_state (\<lambda>s. s\<lparr>mm_book := book\<rparr>)) (\<lambda>_.
       if bids \<noteq> [] \<and> asks \<noteq> []
       then bind (ask (\<lambda>_. and_then (new_fixed E (fst (hd bids)) (snd (hd bids))) (\<lambda>bid.
              and_then (new_fixed E (fst (hd asks)) (snd (hd asks))) (\<lambda>offer. Inr (bid, offer))))) (\<lambda>(bid, offer).
            on_mm_state (\<lambda>s. s\<lparr>mm_bbo := Some (bid, offer, me_event_time ev)\<rparr>))
       else on_mm_state (\<lambda>s. s\<lparr>mm_bbo := None\<rparr>))) in
     case me_body ev of
       BookSnapshotEvent _ \<Rightarrow> book_event
     | BookDeltaEvent _ \<Rightarrow> book_event
     | QuoteEvent q \<Rightarrow> on_mm_state (\<lambda>s. s\<lparr>mm_bbo := Some (qt_bid_price q, qt_ask_price q, me_event_time ev)\<rparr>)
     | StatusEvent _ \<Rightarrow> on_mm_state (\<lambda>s. s\<lparr>mm_bbo := None\<rparr>)
     | _ \<Rightarrow> ret ())"

definition mine :: "string \<Rightarrow> market_event \<Rightarrow> order \<Rightarrow> bool" where
  "mine strategy_id ev ord \<longleftrightarrow>
     oi_strategy_id (ord_intent ord) = strategy_id \<and> oi_instrument_id (ord_intent ord) = me_instrument_id ev"

definition mm_live :: "string \<Rightarrow> market_event \<Rightarrow> 'b mm_world \<Rightarrow> order list res" where
  "mm_live strategy_id ev w = and_then (open_orders (mw_broker w)) (\<lambda>ords. Inr (filter (mine strategy_id ev) ords))"

definition mm_cancel_key :: "market_event \<Rightarrow> order \<Rightarrow> string" where
  "mm_cancel_key ev ord = ''mm-cancel:'' @ ord_order_id ord @ '':'' @ me_event_id ev"

definition mm_cancel_order :: "env \<Rightarrow> market_event \<Rightarrow> order \<Rightarrow> ('b mm_world, unit) effect" where
  "mm_cancel_order E ev ord =
     bind (\<lambda>w. case cancel E (mw_broker w) (ord_order_id ord) (mm_cancel_key ev ord) (me_available_at ev) of
         Inl e \<Rightarrow> (Inl e, w) | Inr (b, _) \<Rightarrow> (Inr (), w\<lparr>mw_broker := b\<rparr>)) (\<lambda>_.
       put (\<lambda>w. w\<lparr>mw_gate := release_order ord (mw_gate w)\<rparr>))"

fun mm_cancel_all :: "env \<Rightarrow> market_event \<Rightarrow> order list \<Rightarrow> ('b mm_world, unit) effect" where
  "mm_cancel_all E ev [] = ret ()"
| "mm_cancel_all E ev (ord # ords) = bind (mm_cancel_order E ev ord) (\<lambda>_. mm_cancel_all E ev ords)"

definition milliseconds :: "int \<Rightarrow> int" where
  "milliseconds n = n * 1000000"

definition mm_plan :: "env \<Rightarrow> 'b mm_config \<Rightarrow> market_event \<Rightarrow> 'b mm_world \<Rightarrow> (quote_row list \<times> fixed_point) res" where
  "mm_plan E k ev w = (let now = me_available_at ev; p = mx_policy k in
     and_then (snapshot E (mx_ledger k) (mw_account w) (Some now)) (\<lambda>snap.
     let inventory = dget_or (as_positions snap) (me_instrument_id ev) \<lparr>units = 0, scale = 0\<rparr> in
     case mm_bbo (mw_state w) of
       None \<Rightarrow> Inr ([], inventory)
     | Some (bid, offer, seen) \<Rightarrow>
         if 0 \<le> now - seen \<and> now - seen \<le> milliseconds (qp_max_quote_age_ms p)
         then and_then (quote_plan E (mx_spec k) p bid offer inventory) (\<lambda>plan. Inr (plan, inventory))
         else Inr ([], inventory)))"

definition desired_quotes :: "env \<Rightarrow> quote_row list \<Rightarrow> (side \<times> rat \<times> rat) list" where
  "desired_quotes E plan = map (\<lambda>(sd, p, q). (sd, decimal E p, decimal E q)) plan"

definition outstanding_quote :: "env \<Rightarrow> order \<Rightarrow> (side \<times> rat \<times> rat) res" where
  "outstanding_quote E ord = (case oi_limit_price (ord_intent ord) of
       None \<Rightarrow> Inl (AttributeError ''limit_price'')
     | Some p \<Rightarrow> Inr (oi_side (ord_intent ord), decimal E p,
         dsub E (decimal E (oi_quantity (ord_intent ord))) (decimal E (ord_filled_quantity ord))))"

definition mm_intent ::
  "env \<Rightarrow> string \<Rightarrow> string \<Rightarrow> market_event \<Rightarrow> quote_row \<Rightarrow> order_intent res" where
  "mm_intent E account_id strategy_id ev line = (case line of (sd, price, quantity) \<Rightarrow>
     mk_order_intent E \<lparr>oi_idempotency_key = ''mm:'' @ me_event_id ev @ '':'' @ side_value sd, oi_account_id = account_id,
       oi_strategy_id = strategy_id, oi_instrument_id = me_instrument_id ev, oi_side = sd, oi_quantity = quantity,
       oi_order_type = LIMIT, oi_time_in_force = DAY, oi_created_at = me_available_at ev, oi_limit_price = Some price,
       oi_stop_price = None, oi_reduce_only = False\<rparr>)"

text \<open>What the callback decides once its old orders are cancelled or none was due.\<close>

definition mm_requote ::
  "env \<Rightarrow> 'b mm_config \<Rightarrow> string \<Rightarrow> string \<Rightarrow> market_event \<Rightarrow> order list \<Rightarrow> ('b mm_world, order_intent list) effect" where
  "mm_requote E k account_id strategy_id ev live = (let now = me_available_at ev; p = mx_policy k in
     bind (ask (mm_plan E k ev)) (\<lambda>(plan, inventory).
     bind (ask (\<lambda>_. map_res (outstanding_quote E) live)) (\<lambda>outstanding.
     if live \<noteq> [] \<and> set (desired_quotes E plan) \<noteq> set outstanding
     then bind (on_mm_state (\<lambda>s. s\<lparr>mm_cancel_due := Some (now + milliseconds (qp_cancel_latency_ms p)),
              mm_decisions := mm_decisions s @ [CancelRequested now (now + milliseconds (qp_cancel_latency_ms p))]\<rparr>)) (\<lambda>_. ret [])
     else bind (ask (\<lambda>w. Inr (mm_last_submit (mw_state w)))) (\<lambda>last_submit.
     if live \<noteq> [] \<or> plan = []
        \<or> (case last_submit of None \<Rightarrow> False | Some t \<Rightarrow> now - t < milliseconds (qp_refresh_ms p))
     then ret []
     else bind (on_mm_state (\<lambda>s. s\<lparr>mm_last_submit := Some now,
              mm_decisions := mm_decisions s @ [QuoteDecision now (decimal E inventory)]\<rparr>)) (\<lambda>_.
       ask (\<lambda>_. map_res (mm_intent E account_id strategy_id ev) plan))))))"

definition mm_on_event ::
  "env \<Rightarrow> 'b mm_config \<Rightarrow> string \<Rightarrow> string \<Rightarrow> market_event \<Rightarrow> ('b mm_world, order_intent list) effect" where
  "mm_on_event E k account_id strategy_id ev =
     (if me_instrument_id ev \<noteq> sp_instrument_id (mx_spec k) then ret []
      else bind (mm_observe E k ev) (\<lambda>_.
        bind (ask (mm_live strategy_id ev)) (\<lambda>live.
        bind (ask (\<lambda>w. Inr (mm_cancel_due (mw_state w)))) (\<lambda>due.
        case due of
          None \<Rightarrow> mm_requote E k account_id strategy_id ev live
        | Some t \<Rightarrow>
            if me_available_at ev < t then ret []
            else bind (mm_cancel_all E ev live) (\<lambda>_.
              bind (on_mm_state (\<lambda>s. s\<lparr>mm_cancel_due := None\<rparr>)) (\<lambda>_.
                mm_requote E k account_id strategy_id ev []))))))"

end
