(* ===== verification/Market_Making_Props.thy ===== *)
theory Market_Making_Props
  imports Market_Making Broker_Props
begin

text \<open>
  The market maker never quotes through the market nor more than the inventory bounds allow,
  and never has two generations of quotes in the book at a time.
\<close>

section \<open>The quote plan\<close>

context fixed_env
begin

lemma fixed_of_grid: "fixed E (of_int m / 10 ^ k) k (Some ROUND_HALF_EVEN) = Inr f \<Longrightarrow> decimal E f = of_int m / 10 ^ k"
  by (auto dest!: fixed_half_even simp: decimal_value)

lemma multiple_exact:
  assumes "\<bar>n * units u\<bar> < 10 ^ prec E"
  shows "dmul E (of_int n) (decimal E u) = of_int n * decimal E u"
  using ctx_round_exact_div [OF assms, of "scale u"] by (simp add: dmul_def decimal_value)

lemma multiple_quotient:
  assumes "\<bar>n * units u\<bar> < 10 ^ prec E" "0 < units u"
  shows "ddiv E (of_int n * decimal E u) (decimal E u) = Inr (of_int n)"
proof -
  have "\<bar>n\<bar> \<le> \<bar>n * units u\<bar>" using assms(2) by (simp add: abs_mult mult_le_cancel_left1)
  with assms(1) have "ctx_round (prec E) (of_int n) = of_int n"
    using ctx_round_exact [of n "prec E" 0] by simp
  with assms(2) show ?thesis by (simp add: ddiv_def decimal_value)
qed

text \<open>Rounding to ticks towards the passive side does not cross the aligned best price.\<close>

definition aligned_to :: "fixed_point \<Rightarrow> (rat \<Rightarrow> int) \<Rightarrow> rat \<Rightarrow> rat" where
  "aligned_to tick mode price = dmul E (of_int (mode (ctx_round (prec E) (price / decimal E tick)))) (decimal E tick)"

lemma aligned_floor:
  assumes "price \<le> of_int b * decimal E tick" "\<bar>b * units tick\<bar> < 10 ^ prec E" "0 < units tick"
  shows "aligned_to tick floor price \<le> of_int b * decimal E tick"
proof -
  have tick: "0 < decimal E tick" using assms(3) by (simp add: decimal_value)
  have "ddiv E (of_int b * decimal E tick) (decimal E tick) = Inr (of_int b)" by (rule multiple_quotient [OF assms(2,3)])
  then have b: "ctx_round (prec E) (of_int b * decimal E tick / decimal E tick) = of_int b" using tick by (simp add: ddiv_def)
  have "price / decimal E tick \<le> of_int b * decimal E tick / decimal E tick"
    using assms(1) tick by (intro divide_right_mono) simp_all
  then have "ctx_round (prec E) (price / decimal E tick) \<le> of_int b"
    using ctx_round_mono [OF prec_pos] b by metis
  then have "\<lfloor>ctx_round (prec E) (price / decimal E tick)\<rfloor> \<le> b" by linarith
  then have "of_int \<lfloor>ctx_round (prec E) (price / decimal E tick)\<rfloor> * decimal E tick \<le> of_int b * decimal E tick"
    using tick by (intro mult_right_mono) simp_all
  then have "aligned_to tick floor price \<le> dmul E (of_int b) (decimal E tick)"
    unfolding aligned_to_def dmul_def by (rule ctx_round_mono [OF prec_pos])
  then show ?thesis by (simp add: multiple_exact [OF assms(2)])
qed

lemma aligned_ceiling:
  assumes "of_int a * decimal E tick \<le> price" "\<bar>a * units tick\<bar> < 10 ^ prec E" "0 < units tick"
  shows "of_int a * decimal E tick \<le> aligned_to tick ceiling price"
proof -
  have tick: "0 < decimal E tick" using assms(3) by (simp add: decimal_value)
  have "ddiv E (of_int a * decimal E tick) (decimal E tick) = Inr (of_int a)" by (rule multiple_quotient [OF assms(2,3)])
  then have a: "ctx_round (prec E) (of_int a * decimal E tick / decimal E tick) = of_int a" using tick by (simp add: ddiv_def)
  have "of_int a * decimal E tick / decimal E tick \<le> price / decimal E tick"
    using assms(1) tick by (intro divide_right_mono) simp_all
  then have "of_int a \<le> ctx_round (prec E) (price / decimal E tick)"
    using ctx_round_mono [OF prec_pos] a by metis
  then have "a \<le> \<lceil>ctx_round (prec E) (price / decimal E tick)\<rceil>" by linarith
  then have "of_int a * decimal E tick \<le> of_int \<lceil>ctx_round (prec E) (price / decimal E tick)\<rceil> * decimal E tick"
    using tick by (intro mult_right_mono) simp_all
  then have "dmul E (of_int a) (decimal E tick) \<le> aligned_to tick ceiling price"
    unfolding aligned_to_def dmul_def by (rule ctx_round_mono [OF prec_pos])
  then show ?thesis by (simp add: multiple_exact [OF assms(2)])
qed

lemma quote_line_rows:
  assumes "quote_line E sp p (sd, price, capacity, mode) = Inr rows"
    and "0 < units (sp_price_tick sp)" "0 < units (sp_quantity_step sp)"
    and "min (decimal E (qp_order_quantity p)) capacity = of_int m * decimal E (sp_quantity_step sp)"
    and "\<bar>m * units (sp_quantity_step sp)\<bar> < 10 ^ prec E"
  shows "if 0 < m \<and> 0 < aligned_to (sp_price_tick sp) mode price
    then \<exists>f q. rows = [(sd, f, q)] \<and> decimal E f = aligned_to (sp_price_tick sp) mode price
      \<and> decimal E q = min (decimal E (qp_order_quantity p)) capacity
    else rows = []"
proof -
  let ?tick = "sp_price_tick sp" and ?step = "sp_quantity_step sp"
  let ?n = "mode (ctx_round (prec E) (price / decimal E ?tick))"
  have pos: "0 < decimal E ?tick" "0 < decimal E ?step" using assms(2,3) by (simp_all add: decimal_value)
  have size: "ddiv E (min (decimal E (qp_order_quantity p)) capacity) (decimal E ?step) = Inr (of_int m)"
    unfolding assms(4) by (rule multiple_quotient [OF assms(5,3)])
  have size': "dmul E (of_int m) (decimal E ?step) = of_int m * decimal E ?step" by (rule multiple_exact [OF assms(5)])
  obtain j where j: "aligned_to ?tick mode price = of_int j / 10 ^ scale ?tick"
    using ctx_round_grid [of "prec E" "?n * units ?tick" "scale ?tick"] by (auto simp: aligned_to_def dmul_def decimal_value)
  have grid: "of_int m * decimal E ?step = of_int (m * units ?step) / 10 ^ scale ?step" by (simp add: decimal_value)
  have m: "0 < of_int m * decimal E ?step \<longleftrightarrow> 0 < m" using pos by (simp add: zero_less_mult_iff)
  from assms(1) pos have "(if 0 < m \<and> 0 < aligned_to ?tick mode price
     then and_then (fixed E (aligned_to ?tick mode price) (scale ?tick) (Some ROUND_HALF_EVEN)) (\<lambda>fp.
          and_then (fixed E (of_int m * decimal E ?step) (scale ?step) (Some ROUND_HALF_EVEN)) (\<lambda>fs. Inr [(sd, fp, fs)]))
     else Inr []) = Inr rows"
    by (simp add: quote_line_def Let_def size size' m ddiv_def [of E price] aligned_to_def cong: if_cong)
  then show ?thesis
    unfolding assms(4) grid j by (auto split: if_splits dest!: fixed_of_grid simp del: of_int_mult)
qed

lemma check_stepD:
  "check_step E (decimal E u) amount = Inr () \<Longrightarrow> \<exists>n. decimal E amount = of_int n * decimal E u"
  using dmod_zero_iff by (fastforce simp: check_step_def split: if_splits)

lemma check_stepsD:
  assumes "check_steps E (decimal E u) p = Inr ()"
  shows "\<exists>n. decimal E (qp_order_quantity p) = of_int n * decimal E u" "\<exists>n. decimal E (qp_max_inventory p) = of_int n * decimal E u"
  using assms by (auto simp: check_steps_def intro!: check_stepD)

lemma quote_plan_rows:
  assumes "quote_plan E sp p bid offer inventory = Inr plan"
    and "0 < units (sp_price_tick sp)" "0 < units (sp_quantity_step sp)" "0 < units (qp_order_quantity p)"
    and "decimal E bid = of_int b * decimal E (sp_price_tick sp)" "\<bar>b * units (sp_price_tick sp)\<bar> < 10 ^ prec E"
    and "decimal E offer = of_int a * decimal E (sp_price_tick sp)" "\<bar>a * units (sp_price_tick sp)\<bar> < 10 ^ prec E"
    and "decimal E inventory = of_int i * decimal E (sp_quantity_step sp)"
    and "decimal E (qp_max_inventory p) * 10 ^ scale (sp_quantity_step sp) < 10 ^ prec E"
  obtains buys sells where "plan = buys @ sells"
    "buys = [] \<or> (\<exists>f q. buys = [(BUY, f, q)] \<and> 0 < decimal E f \<and> decimal E f \<le> decimal E bid \<and> 0 < decimal E q
       \<and> decimal E q = min (decimal E (qp_order_quantity p)) (decimal E (qp_max_inventory p) - decimal E inventory))"
    "if 0 < decimal E inventory
     then \<exists>f q. sells = [(SELL, f, q)] \<and> decimal E offer \<le> decimal E f \<and> 0 < decimal E f \<and> 0 < decimal E q
       \<and> decimal E q = min (decimal E (qp_order_quantity p)) (decimal E inventory)
     else sells = []"
proof -
  let ?tick = "sp_price_tick sp" and ?step = "sp_quantity_step sp"
  let ?oq = "decimal E (qp_order_quantity p)" and ?max = "decimal E (qp_max_inventory p)"
  from assms(1) obtain center buys sells where ok: "0 < decimal E bid" "decimal E bid < decimal E offer"
      "0 \<le> decimal E inventory" "decimal E inventory \<le> ?max"
    and steps: "check_steps E (decimal E ?step) p = Inr ()"
    and rows: "quote_line E sp p (BUY, min (decimal E bid) (dsub E center (dmul E (of_int (qp_half_spread_ticks p)) (decimal E ?tick))),
        dsub E ?max (decimal E inventory), floor) = Inr buys"
      "quote_line E sp p (SELL, max (decimal E offer) (dadd E center (dmul E (of_int (qp_half_spread_ticks p)) (decimal E ?tick))),
        decimal E inventory, ceiling) = Inr sells"
    and plan: "plan = buys @ sells"
    by (auto simp: quote_plan_def Let_def split: if_splits)
  have u: "0 < decimal E ?step" "0 < decimal E ?tick" using assms(2,3) by (simp_all add: decimal_value)
  obtain j c where jc: "?oq = of_int j * decimal E ?step" "?max = of_int c * decimal E ?step"
    using check_stepsD [OF steps] by blast
  have "0 < ?oq" using assms(4) by (simp add: decimal_value)
  then have j: "0 < j" using u by (simp add: jc zero_less_mult_iff)
  have i: "0 \<le> i" "i \<le> c" using ok(3,4) u by (simp_all add: assms(9) jc zero_le_mult_iff)
  have "?max * 10 ^ scale ?step = of_int (c * units ?step)" unfolding jc by (simp add: decimal_value)
  with assms(10) have "(of_int (c * units ?step) :: rat) < of_int (10 ^ prec E)" by simp
  then have cu: "c * units ?step < 10 ^ prec E" by (simp only: of_int_less_iff)
  have small: "\<bar>n * units ?step\<bar> < 10 ^ prec E" if "0 \<le> n" "n \<le> c" for n
  proof -
    have "n * units ?step \<le> c * units ?step" using that assms(3) by (intro mult_right_mono) simp_all
    also have "\<dots> < 10 ^ prec E" by (rule cu)
    finally show ?thesis using that assms(3) by simp
  qed
  have cap: "dsub E ?max (decimal E inventory) = of_int (c - i) * decimal E ?step"
    using multiple_exact [OF small, of "c - i"] i by (simp add: dsub_def dmul_def jc assms(9) left_diff_distrib)
  have mins: "min ?oq (of_int n * decimal E ?step) = of_int (min j n) * decimal E ?step" for n
    using u by (simp add: jc min_def)
  have buys: "if 0 < min j (c - i) \<and> 0 < aligned_to ?tick floor (min (decimal E bid)
        (dsub E center (dmul E (of_int (qp_half_spread_ticks p)) (decimal E ?tick))))
     then \<exists>f q. buys = [(BUY, f, q)] \<and> decimal E f = aligned_to ?tick floor (min (decimal E bid)
        (dsub E center (dmul E (of_int (qp_half_spread_ticks p)) (decimal E ?tick))))
      \<and> decimal E q = min ?oq (dsub E ?max (decimal E inventory)) else buys = []"
    using small [of "min j (c - i)"] i j by (intro quote_line_rows [OF rows(1) assms(2,3)]) (simp_all add: cap mins del: of_int_diff)
  have sells: "if 0 < min j i \<and> 0 < aligned_to ?tick ceiling (max (decimal E offer)
        (dadd E center (dmul E (of_int (qp_half_spread_ticks p)) (decimal E ?tick))))
     then \<exists>f q. sells = [(SELL, f, q)] \<and> decimal E f = aligned_to ?tick ceiling (max (decimal E offer)
        (dadd E center (dmul E (of_int (qp_half_spread_ticks p)) (decimal E ?tick))))
      \<and> decimal E q = min ?oq (decimal E inventory) else sells = []"
    using small [of "min j i"] i j by (intro quote_line_rows [OF rows(2) assms(2,3)]) (simp_all add: assms(9) mins)
  have crossing: "aligned_to ?tick floor (min (decimal E bid) x) \<le> decimal E bid"
      "decimal E offer \<le> aligned_to ?tick ceiling (max (decimal E offer) x)" for x
    using aligned_floor [OF _ assms(6,2), of "min (decimal E bid) x"] aligned_ceiling [OF _ assms(8,2), of "max (decimal E offer) x"]
    by (simp_all add: assms(5,7))
  have buy_size: "dsub E ?max (decimal E inventory) = ?max - decimal E inventory" unfolding cap by (simp add: jc assms(9) left_diff_distrib)
  have sizes: "0 < min ?oq (?max - decimal E inventory) \<longleftrightarrow> 0 < min j (c - i)" "0 < min ?oq (decimal E inventory) \<longleftrightarrow> 0 < min j i"
      "0 < decimal E inventory \<longleftrightarrow> 0 < min j i"
    using u j by (simp_all add: jc assms(9) zero_less_mult_iff flip: left_diff_distrib of_int_diff)
  have offer: "0 < decimal E offer" using ok by simp
  show thesis
  proof (rule that [OF plan])
    show "buys = [] \<or> (\<exists>f q. buys = [(BUY, f, q)] \<and> 0 < decimal E f \<and> decimal E f \<le> decimal E bid \<and> 0 < decimal E q
       \<and> decimal E q = min ?oq (?max - decimal E inventory))"
      using buys crossing(1) sizes(1) unfolding buy_size by (auto split: if_splits)
    show "if 0 < decimal E inventory
     then \<exists>f q. sells = [(SELL, f, q)] \<and> decimal E offer \<le> decimal E f \<and> 0 < decimal E f \<and> 0 < decimal E q
       \<and> decimal E q = min ?oq (decimal E inventory)
     else sells = []"
      using sells crossing(2) sizes(2,3) offer by (auto split: if_splits intro: less_le_trans)
  qed
qed

end

text \<open>
  C37: A quote plan is passive and covered: at most one bid and one offer, the bid at the best
  bid or below and the offer at the best offer or above, the bid for the order size or what the
  inventory limit leaves, the offer for the order size or what is held, whichever is less; an
  offer is made exactly when something is held.  So filling the whole plan on either side can
  neither exceed the limit nor sell short.
\<close>

theorem quote_plan_is_passive_and_covered:
  assumes "fixed_env E" "quote_plan E sp p bid offer inventory = Inr plan"
    and "0 < units (sp_price_tick sp)" "0 < units (sp_quantity_step sp)" "0 < units (qp_order_quantity p)"
    and "decimal E bid = of_int b * decimal E (sp_price_tick sp)" "\<bar>b * units (sp_price_tick sp)\<bar> < 10 ^ prec E"
    and "decimal E offer = of_int a * decimal E (sp_price_tick sp)" "\<bar>a * units (sp_price_tick sp)\<bar> < 10 ^ prec E"
    and "decimal E inventory = of_int i * decimal E (sp_quantity_step sp)"
    and "decimal E (qp_max_inventory p) * 10 ^ scale (sp_quantity_step sp) < 10 ^ prec E"
  shows "distinct (map fst plan) \<and> (SELL \<in> set (map fst plan) \<longleftrightarrow> 0 < decimal E inventory)
    \<and> list_all (\<lambda>(sd, price, size). 0 < decimal E price \<and> 0 < decimal E size \<and>
       (case sd of
          BUY \<Rightarrow> decimal E price \<le> decimal E bid
            \<and> decimal E size = min (decimal E (qp_order_quantity p)) (decimal E (qp_max_inventory p) - decimal E inventory)
        | SELL \<Rightarrow> decimal E offer \<le> decimal E price
            \<and> decimal E size = min (decimal E (qp_order_quantity p)) (decimal E inventory))) plan"
  by (rule fixed_env.quote_plan_rows [OF assms]) (auto split: if_splits)

section \<open>The callback\<close>

definition open_order :: "broker_state \<Rightarrow> order \<Rightarrow> bool" where
  "open_order b ord \<longleftrightarrow> (\<exists>oid. dget (br_orders b) oid = Some (Live ord) \<and> open_status (ord_status ord))"

lemma open_orders_inv:
  assumes "broker_inv b"
  obtains ords where "open_orders b = Inr ords" "set ords = {ord. open_order b ord}" "distinct (map ord_order_id ords)"
proof -
  have ids: "oid \<in> set (br_open_order_ids b) \<longleftrightarrow> is_open b oid" for oid using broker_invD(3) [OF assms] .
  define live where "live oid = (THE ord. dget (br_orders b) oid = Some (Live ord))" for oid
  have get: "dget (br_orders b) oid = Some (Live (live oid)) \<and> open_status (ord_status (live oid)) \<and> ord_order_id (live oid) = oid"
    if "oid \<in> set (br_open_order_ids b)" for oid
    using that ids broker_invD(1) [OF assms] by (auto simp: is_open_def live_def)
  have all: "map_res (live_order b) (br_open_order_ids b) = Inr (map live (br_open_order_ids b))"
    using get by (intro map_res_all) (simp add: live_order_def)
  have img: "live ` set (br_open_order_ids b) = {ord. open_order b ord}"
  proof (intro set_eqI iffI)
    fix ord assume "ord \<in> {ord. open_order b ord}"
    then obtain oid where o: "dget (br_orders b) oid = Some (Live ord)" "open_status (ord_status ord)" by (auto simp: open_order_def)
    then have "oid \<in> set (br_open_order_ids b)" by (auto simp: ids is_open_def)
    with get o(1) show "ord \<in> live ` set (br_open_order_ids b)" by force
  qed (use get in \<open>auto simp: open_order_def\<close>)
  have id: "map ord_order_id (map live (br_open_order_ids b)) = br_open_order_ids b" using get by (simp add: map_idI)
  obtain ords where "open_orders b = Inr ords" "mset ords = mset (map live (br_open_order_ids b))"
  proof (cases "br_open_order_ids b" rule: remdups_adj.cases)
    case (2 x)
    with get that [of "[live x]"] show thesis by (simp add: open_orders_def)
  next
    case (3 x y xs)
    with all that [of "sort_key order_sort_key (map live (br_open_order_ids b))"] show thesis by (simp add: open_orders_def)
  qed (use that [of "[]"] in \<open>simp add: open_orders_def\<close>)
  moreover from this(2) have "set ords = {ord. open_order b ord}" by (metis img mset_eq_setD set_map)
  moreover have "distinct (map ord_order_id ords)"
    using calculation(2) id broker_invD(6) [OF assms] by (metis mset_eq_imp_distinct_iff mset_map)
  ultimately show thesis using that by blast
qed

context fixed_env
begin

lemma cancel_removes:
  assumes "broker_inv b" "cancel E b oid key t = Inr (b', ev)" "dget (br_cancel_keys b) key = None"
  shows "broker_inv b'" "open_order b' ord \<longleftrightarrow> open_order b ord \<and> ord_order_id ord \<noteq> oid"
    "k \<noteq> key \<Longrightarrow> dget (br_cancel_keys b') k = dget (br_cancel_keys b) k"
proof -
  show inv: "broker_inv b'" by (rule cancel_inv [OF assms(1,2)])
  from assms(2,3) obtain ord1 ord' b1 where r: "require_order E b oid = Inr ord1" "open_status (ord_status ord1)"
    and tr: "transition_order E ord1 CANCELLED
       (mint_id E ''oev'' [SStr oid, SInt (ord_version ord1 + 1), SStr ''cancelled'']) t None
       ''cancel requested'' = Inr (ord', ev)"
    and c: "close_order b oid ord' = Inr b1"
    and b': "b' = record_event ev ord' (b1\<lparr>br_cancel_keys := dset key (oid, ev) (br_cancel_keys b1)\<rparr>)"
    by (auto simp: cancel_def)
  have old: "dget (br_orders b) oid = Some (Live ord1)" by (rule require_order_live [OF assms(1) r])
  have id: "ord_order_id ord1 = oid" using broker_invD(1) [OF assms(1) old] by simp
  have st: "ord_status ord' = CANCELLED" "ord_order_id ord' = oid" using transition_orderD [OF tr] id by auto
  obtain b2 where b2: "close_order b oid ord' = Inr b2" "br_orders b2 = dset oid (Live ord') (br_orders b)"
      "br_cancel_keys b2 = br_cancel_keys b"
    using close_order_open [OF assms(1) old r(2)] by metis
  with c have b1: "br_orders b1 = dset oid (Live ord') (br_orders b)" "br_cancel_keys b1 = br_cancel_keys b" by simp_all
  have get: "dget (br_orders b') x = (if x = oid then dget (br_orders b') oid else dget (br_orders b) x)" for x
    using record_event_get [OF st(2), of "b1\<lparr>br_cancel_keys := dset key (oid, ev) (br_cancel_keys b1)\<rparr>" "br_orders b" ev x] b1(1)
    by (cases "x = oid") (simp_all add: b')
  have closed: "\<not> (dget (br_orders b') oid = Some (Live x) \<and> open_status (ord_status x))" for x
    using record_event_get [OF st(2), of "b1\<lparr>br_cancel_keys := dset key (oid, ev) (br_cancel_keys b1)\<rparr>" "br_orders b" ev oid] b1(1) st(1)
    by (auto simp: b' open_status_def split: if_splits)
  show "open_order b' ord \<longleftrightarrow> open_order b ord \<and> ord_order_id ord \<noteq> oid"
    unfolding open_order_def by (metis get closed broker_invD(1) [OF assms(1)] broker_invD(1) [OF inv])
  show "k \<noteq> key \<Longrightarrow> dget (br_cancel_keys b') k = dget (br_cancel_keys b) k"
    by (simp add: b' b1(2))
qed

text \<open>No cancellation of the callback was requested before.\<close>

lemma mm_cancel_key_inj: "mm_cancel_key ev x = mm_cancel_key ev y \<longleftrightarrow> ord_order_id x = ord_order_id y"
  by (simp add: mm_cancel_key_def)

lemma mm_cancel_order_Inr:
  assumes "mm_cancel_order E ev ord w = (Inr u, w')"
  obtains b oev where "cancel E (mw_broker w) (ord_order_id ord) (mm_cancel_key ev ord) (me_available_at ev) = Inr (b, oev)"
    "w' = w\<lparr>mw_broker := b, mw_gate := release_order ord (mw_gate w)\<rparr>"
  using assms by (auto simp: mm_cancel_order_def bind_Inr split: sum.splits prod.splits)

lemma mm_cancel_all_removes:
  assumes "mm_cancel_all E ev ords w = (Inr u, w')" "broker_inv (mw_broker w)" "distinct (map ord_order_id ords)"
    and "\<And>ord. ord \<in> set ords \<Longrightarrow> dget (br_cancel_keys (mw_broker w)) (mm_cancel_key ev ord) = None"
  shows "broker_inv (mw_broker w') \<and> mw_state w' = mw_state w \<and> mw_account w' = mw_account w
    \<and> (\<forall>ord. open_order (mw_broker w') ord \<longleftrightarrow> open_order (mw_broker w) ord \<and> ord_order_id ord \<notin> ord_order_id ` set ords)"
  using assms
proof (induction ords arbitrary: w)
  case (Cons x ords)
  from Cons.prems(1) obtain w1 u1 where w1: "mm_cancel_order E ev x w = (Inr u1, w1)"
    and rest: "mm_cancel_all E ev ords w1 = (Inr u, w')" by (auto simp: bind_Inr)
  from w1 obtain b oev where c: "cancel E (mw_broker w) (ord_order_id x) (mm_cancel_key ev x) (me_available_at ev) = Inr (b, oev)"
    and w1': "w1 = w\<lparr>mw_broker := b, mw_gate := release_order x (mw_gate w)\<rparr>" by (rule mm_cancel_order_Inr)
  note new = Cons.prems(4) [OF list.set_intros(1)]
  note b = cancel_removes [OF Cons.prems(2) c new]
  have "dget (br_cancel_keys (mw_broker w1)) (mm_cancel_key ev ord) = None" if "ord \<in> set ords" for ord
  proof -
    have "ord_order_id ord \<in> ord_order_id ` set ords" using that by (rule imageI)
    with Cons.prems(3) have "ord_order_id ord \<noteq> ord_order_id x" by (metis distinct.simps(2) list.simps(9) set_map)
    with b(3) [of "mm_cancel_key ev ord"] Cons.prems(4) [of ord] that show ?thesis by (simp add: w1' mm_cancel_key_inj)
  qed
  from Cons.IH [OF rest _ _ this] b(1,2) Cons.prems(3) show ?case by (auto simp: w1')
qed simp

end

lemma mm_observe_keeps:
  assumes "mm_observe E k ev w = (Inr u, w')"
  shows "mw_broker w' = mw_broker w" "mw_account w' = mw_account w"
  using assms by (auto simp: mm_observe_def Let_def on_mm_state_def bind_Inr split: event_body.splits if_splits prod.splits)

lemma mm_requote_sends:
  assumes "mm_requote E k account sid ev live w = (Inr intents, w')" "intents \<noteq> []"
  obtains plan inventory where "live = []" "mm_plan E k ev w = Inr (plan, inventory)" "plan \<noteq> []"
    "map_res (mm_intent E account sid ev) plan = Inr intents"
    "mw_broker w' = mw_broker w" "mw_account w' = mw_account w" "mm_bbo (mw_state w') = mm_bbo (mw_state w)"
proof -
  from assms(1) obtain plan inventory outstanding where p: "mm_plan E k ev w = Inr (plan, inventory)"
    and r: "(if live \<noteq> [] \<and> set (desired_quotes E plan) \<noteq> set outstanding
     then bind (on_mm_state (\<lambda>s. s\<lparr>mm_cancel_due := Some (me_available_at ev + milliseconds (qp_cancel_latency_ms (mx_policy k))),
              mm_decisions := mm_decisions s @ [CancelRequested (me_available_at ev)
                (me_available_at ev + milliseconds (qp_cancel_latency_ms (mx_policy k)))]\<rparr>)) (\<lambda>_. ret [])
     else bind (ask (\<lambda>w. Inr (mm_last_submit (mw_state w)))) (\<lambda>last_submit.
     if live \<noteq> [] \<or> plan = []
        \<or> (case last_submit of None \<Rightarrow> False | Some t \<Rightarrow> me_available_at ev - t < milliseconds (qp_refresh_ms (mx_policy k)))
     then ret []
     else bind (on_mm_state (\<lambda>s. s\<lparr>mm_last_submit := Some (me_available_at ev),
              mm_decisions := mm_decisions s @ [QuoteDecision (me_available_at ev) (decimal E inventory)]\<rparr>)) (\<lambda>_.
       ask (\<lambda>_. map_res (mm_intent E account sid ev) plan)))) w = (Inr intents, w')"
    by (auto simp: mm_requote_def Let_def bind_Inr split: prod.splits)
  show thesis
  proof (cases "live \<noteq> [] \<and> set (desired_quotes E plan) \<noteq> set outstanding")
    case True
    with r assms(2) show thesis by (auto simp: bind_Inr)
  next
    case False
    with r have "bind (ask (\<lambda>w. Inr (mm_last_submit (mw_state w)))) (\<lambda>last_submit.
     if live \<noteq> [] \<or> plan = []
        \<or> (case last_submit of None \<Rightarrow> False | Some t \<Rightarrow> me_available_at ev - t < milliseconds (qp_refresh_ms (mx_policy k)))
     then ret []
     else bind (on_mm_state (\<lambda>s. s\<lparr>mm_last_submit := Some (me_available_at ev),
              mm_decisions := mm_decisions s @ [QuoteDecision (me_available_at ev) (decimal E inventory)]\<rparr>)) (\<lambda>_.
       ask (\<lambda>_. map_res (mm_intent E account sid ev) plan))) w = (Inr intents, w')" by simp
    with assms(2) that [of plan inventory] p show thesis
      by (auto simp: bind_Inr on_mm_state_def split: if_splits)
  qed
qed

lemma mm_plan_fresh:
  assumes "mm_plan E k ev w = Inr (plan, inventory)" "plan \<noteq> []"
  obtains bid offer seen snap where "mm_bbo (mw_state w) = Some (bid, offer, seen)"
    "0 \<le> me_available_at ev - seen" "me_available_at ev - seen \<le> milliseconds (qp_max_quote_age_ms (mx_policy k))"
    "snapshot E (mx_ledger k) (mw_account w) (Some (me_available_at ev)) = Inr snap"
    "quote_plan E (mx_spec k) (mx_policy k) bid offer
       (dget_or (as_positions snap) (me_instrument_id ev) \<lparr>units = 0, scale = 0\<rparr>) = Inr plan"
proof -
  from assms obtain snap where s: "snapshot E (mx_ledger k) (mw_account w) (Some (me_available_at ev)) = Inr snap"
    by (auto simp: mm_plan_def Let_def)
  show thesis
  proof (cases "mm_bbo (mw_state w)")
    case None
    with assms s show thesis by (simp add: mm_plan_def Let_def)
  next
    case (Some q)
    obtain bid offer seen where q: "q = (bid, offer, seen)" by (cases q)
    from assms s Some q that [of bid offer seen snap] show thesis by (auto simp: mm_plan_def Let_def split: if_splits)
  qed
qed

context fixed_env
begin

lemma mm_on_event_sends:
  assumes "broker_inv (mw_broker w)" "mm_on_event E k account sid ev w = (Inr intents, w')" "intents \<noteq> []"
    and "\<And>oid. dget (br_cancel_keys (mw_broker w)) (''mm-cancel:'' @ oid @ '':'' @ me_event_id ev) = None"
  obtains w1 where "mm_requote E k account sid ev [] w1 = (Inr intents, w')" "broker_inv (mw_broker w1)"
    "\<And>ord. open_order (mw_broker w1) ord \<Longrightarrow> \<not> mine sid ev ord" "mw_account w1 = mw_account w"
proof -
  from assms(2,3) obtain u wo live where o: "mm_observe E k ev w = (Inr u, wo)" and live: "mm_live sid ev wo = Inr live"
    and rest: "(case mm_cancel_due (mw_state wo) of
          None \<Rightarrow> mm_requote E k account sid ev live
        | Some t \<Rightarrow>
            if me_available_at ev < t then ret []
            else bind (mm_cancel_all E ev live) (\<lambda>_.
              bind (on_mm_state (\<lambda>s. s\<lparr>mm_cancel_due := None\<rparr>)) (\<lambda>_.
                mm_requote E k account sid ev []))) wo = (Inr intents, w')"
    by (auto simp: mm_on_event_def bind_Inr split: if_splits)
  note keep = mm_observe_keeps [OF o]
  have inv: "broker_inv (mw_broker wo)" using assms(1) keep by simp
  obtain ords where ords: "open_orders (mw_broker wo) = Inr ords" "set ords = {ord. open_order (mw_broker wo) ord}"
      "distinct (map ord_order_id ords)" by (rule open_orders_inv [OF inv])
  have lv: "live = filter (mine sid ev) ords" using live ords(1) by (simp add: mm_live_def)
  show thesis
  proof (cases "mm_cancel_due (mw_state wo)")
    case None
    with rest have r: "mm_requote E k account sid ev live wo = (Inr intents, w')" by simp
    then have "live = []" by (rule mm_requote_sends) (use assms(3) in simp_all)
    then have "filter (mine sid ev) ords = []" by (simp add: lv)
    then have "\<not> mine sid ev ord" if "open_order (mw_broker wo) ord" for ord
      using that ords(2) by (auto simp: filter_empty_conv)
    with r that [OF _ inv] keep(2) \<open>live = []\<close> show thesis by simp
  next
    case (Some t)
    with rest assms(3) obtain u2 w2 where w2: "mm_cancel_all E ev live wo = (Inr u2, w2)"
      and r: "mm_requote E k account sid ev [] (w2\<lparr>mw_state := (mw_state w2)\<lparr>mm_cancel_due := None\<rparr>\<rparr>) = (Inr intents, w')"
      by (auto simp: bind_Inr on_mm_state_def split: if_splits)
    have "distinct (map ord_order_id live)" unfolding lv using ords(3) by (rule distinct_map_filter)
    moreover have "dget (br_cancel_keys (mw_broker wo)) (mm_cancel_key ev ord) = None" for ord
      using assms(4) keep(1) by (simp add: mm_cancel_key_def)
    ultimately have c: "broker_inv (mw_broker w2)" "mw_account w2 = mw_account wo"
      "\<And>ord. open_order (mw_broker w2) ord \<longleftrightarrow> open_order (mw_broker wo) ord \<and> ord_order_id ord \<notin> ord_order_id ` set live"
      using mm_cancel_all_removes [OF w2 inv] by auto
    show thesis
    proof (rule that [OF r])
      show "\<not> mine sid ev ord" if "open_order (mw_broker (w2\<lparr>mw_state := (mw_state w2)\<lparr>mm_cancel_due := None\<rparr>\<rparr>)) ord" for ord
        using that c(3) ords(2) by (auto simp: lv)
    qed (use c keep in simp_all)
  qed
qed

end

text \<open>
  C38: New quotes stand alone: when the callback returns orders, none of the strategy's earlier
  quotes on the instrument is still open in the broker, the account was not touched, and the
  orders are the quote plan for the inventory the account holds now and for best prices no
  older than the policy allows and not from the future.
\<close>

theorem new_quotes_stand_alone:
  assumes "fixed_env E" "broker_inv (mw_broker w)" "mm_on_event E k account sid ev w = (Inr intents, w')" "intents \<noteq> []"
    and "\<And>oid. dget (br_cancel_keys (mw_broker w)) (''mm-cancel:'' @ oid @ '':'' @ me_event_id ev) = None"
  shows "(\<exists>opened. open_orders (mw_broker w') = Inr opened \<and> \<not> list_ex (mine sid ev) opened) \<and> mw_account w' = mw_account w
    \<and> (\<exists>bid offer seen snap plan. mm_bbo (mw_state w') = Some (bid, offer, seen)
         \<and> 0 \<le> me_available_at ev - seen \<and> me_available_at ev - seen \<le> milliseconds (qp_max_quote_age_ms (mx_policy k))
         \<and> snapshot E (mx_ledger k) (mw_account w') (Some (me_available_at ev)) = Inr snap
         \<and> quote_plan E (mx_spec k) (mx_policy k) bid offer
             (dget_or (as_positions snap) (me_instrument_id ev) \<lparr>units = 0, scale = 0\<rparr>) = Inr plan
         \<and> map_res (mm_intent E account sid ev) plan = Inr intents)"
proof -
  obtain w1 where r: "mm_requote E k account sid ev [] w1 = (Inr intents, w')" and inv: "broker_inv (mw_broker w1)"
    and none: "\<And>ord. open_order (mw_broker w1) ord \<Longrightarrow> \<not> mine sid ev ord" and account: "mw_account w1 = mw_account w"
    by (rule fixed_env.mm_on_event_sends [OF assms(1-4)]) (use assms(5) in blast)+
  obtain plan inventory where p: "mm_plan E k ev w1 = Inr (plan, inventory)" "plan \<noteq> []"
      "map_res (mm_intent E account sid ev) plan = Inr intents"
      "mw_broker w' = mw_broker w1" "mw_account w' = mw_account w1" "mm_bbo (mw_state w') = mm_bbo (mw_state w1)"
    by (rule mm_requote_sends [OF r assms(4)])
  obtain opened where "open_orders (mw_broker w') = Inr opened" "set opened = {ord. open_order (mw_broker w1) ord}"
    using open_orders_inv [OF inv] p(4) by metis
  then have "\<exists>opened. open_orders (mw_broker w') = Inr opened \<and> \<not> list_ex (mine sid ev) opened"
    using none by (auto simp: list_ex_iff)
  moreover obtain bid offer seen snap where "mm_bbo (mw_state w1) = Some (bid, offer, seen)"
    "0 \<le> me_available_at ev - seen" "me_available_at ev - seen \<le> milliseconds (qp_max_quote_age_ms (mx_policy k))"
    "snapshot E (mx_ledger k) (mw_account w1) (Some (me_available_at ev)) = Inr snap"
    "quote_plan E (mx_spec k) (mx_policy k) bid offer
       (dget_or (as_positions snap) (me_instrument_id ev) \<lparr>units = 0, scale = 0\<rparr>) = Inr plan"
    by (rule mm_plan_fresh [OF p(1,2)])
  ultimately show ?thesis using p(3,5,6) account by auto
qed

end
