(* ===== verification/Market_Making_Demo.thy ===== *)
theory Market_Making_Demo
  imports Market_Making_Props Ledger_Demo
begin

text \<open>The market maker on the demo account, which holds four of its target of five units.\<close>

definition demo_policy :: quote_policy where
  "demo_policy = \<lparr>qp_order_quantity = \<lparr>units = 3, scale = 0\<rparr>, qp_max_inventory = \<lparr>units = 6, scale = 0\<rparr>,
     qp_target_inventory = \<lparr>units = 5, scale = 0\<rparr>, qp_half_spread_ticks = 1, qp_inventory_skew_ticks = 4,
     qp_max_quote_age_ms = 1000, qp_refresh_ms = 100, qp_cancel_latency_ms = 10\<rparr>"

definition demo_best_bid :: fixed_point where "demo_best_bid = \<lparr>units = 99, scale = 0\<rparr>"

definition demo_best_offer :: fixed_point where "demo_best_offer = \<lparr>units = 101, scale = 0\<rparr>"

definition demo_holding :: fixed_point where "demo_holding = \<lparr>units = 4, scale = 0\<rparr>"

definition demo_quotes :: "quote_row list" where
  "demo_quotes = (case quote_plan ledger_env demo_spec demo_policy demo_best_bid demo_best_offer demo_holding of
     Inr plan \<Rightarrow> plan | Inl e \<Rightarrow> [])"

definition demo_mm :: "unit mm_config" where
  "demo_mm = \<lparr>mx_spec = demo_spec, mx_policy = demo_policy, mx_ledger = demo_ledger_config, mx_empty_book = (),
     mx_apply_book = (\<lambda>ev b. Inr ((), [], []))\<rparr>"

definition demo_quote_event :: market_event where
  "demo_quote_event = demo_market_event (QuoteEvent \<lparr>qt_bid_price = demo_best_bid, qt_ask_price = demo_best_offer,
     qt_bid_quantity = \<lparr>units = 1, scale = 0\<rparr>, qt_ask_quantity = \<lparr>units = 1, scale = 0\<rparr>\<rparr>)"

definition demo_mm_world :: "unit mm_world" where
  "demo_mm_world = \<lparr>mw_state = mm_reset demo_mm, mw_broker = broker_reset, mw_gate = gate_reset, mw_account = demo_bought\<rparr>"

definition demo_mm_answer :: "order_intent list res \<times> unit mm_world" where
  "demo_mm_answer = mm_on_event ledger_env demo_mm ''acc'' ''mm'' demo_quote_event demo_mm_world"

lemma demo_answers:
  "map fst demo_quotes = [BUY, SELL]
    \<and> (case fst demo_mm_answer of Inr intents \<Rightarrow> map oi_side intents = [BUY, SELL] | Inl e \<Rightarrow> False)"
  by code_simp

theorem quote_plan_is_passive_and_covered_witness:
  "map fst demo_quotes = [BUY, SELL] \<and> list_all (\<lambda>(sd, price, size). case sd of
      BUY \<Rightarrow> decimal ledger_env price \<le> 99 \<and> decimal ledger_env size = 2
    | SELL \<Rightarrow> 101 \<le> decimal ledger_env price \<and> decimal ledger_env size = 3) demo_quotes"
proof -
  note sides = demo_answers [THEN conjunct1]
  from sides have plan: "quote_plan ledger_env demo_spec demo_policy demo_best_bid demo_best_offer demo_holding = Inr demo_quotes"
    by (cases "quote_plan ledger_env demo_spec demo_policy demo_best_bid demo_best_offer demo_holding") (simp_all add: demo_quotes_def)
  have p: "prec ledger_env = 28" by (simp add: ledger_env_def std_env_def)
  have units: "units (sp_price_tick demo_spec) = 1" "scale (sp_price_tick demo_spec) = 2" "units (sp_quantity_step demo_spec) = 1"
    "scale (sp_quantity_step demo_spec) = 0"
    by (simp_all add: demo_spec_def)
  have "list_all (\<lambda>(sd, price, size). 0 < decimal ledger_env price \<and> 0 < decimal ledger_env size \<and>
       (case sd of
          BUY \<Rightarrow> decimal ledger_env price \<le> decimal ledger_env demo_best_bid
            \<and> decimal ledger_env size = min (decimal ledger_env (qp_order_quantity demo_policy))
                (decimal ledger_env (qp_max_inventory demo_policy) - decimal ledger_env demo_holding)
        | SELL \<Rightarrow> decimal ledger_env demo_best_offer \<le> decimal ledger_env price
            \<and> decimal ledger_env size = min (decimal ledger_env (qp_order_quantity demo_policy)) (decimal ledger_env demo_holding))) demo_quotes"
    by (rule conjunct2 [OF conjunct2 [OF quote_plan_is_passive_and_covered [OF lenv.fixed_env_axioms plan,
        of "99 * 10 ^ 2 div units (sp_price_tick demo_spec)" "101 * 10 ^ 2 div units (sp_price_tick demo_spec)"
           "4 * 10 ^ 0 div units (sp_quantity_step demo_spec)"]]])
      (simp_all add: units p demo_policy_def demo_best_bid_def demo_best_offer_def demo_holding_def)
  with sides show ?thesis
    by (auto simp: demo_policy_def demo_best_bid_def demo_best_offer_def demo_holding_def elim!: list.pred_mono_strong split: side.splits)
qed

theorem new_quotes_stand_alone_witness:
  "(case fst demo_mm_answer of Inr intents \<Rightarrow> map oi_side intents = [BUY, SELL] | Inl e \<Rightarrow> False)
    \<and> mw_account (snd demo_mm_answer) = demo_bought"
proof -
  note sides = demo_answers [THEN conjunct2]
  from sides obtain intents where i: "fst demo_mm_answer = Inr intents" "intents \<noteq> []" by (auto split: sum.splits)
  then have "mm_on_event ledger_env demo_mm ''acc'' ''mm'' demo_quote_event demo_mm_world = (Inr intents, snd demo_mm_answer)"
    by (simp add: demo_mm_answer_def prod_eq_iff)
  moreover have "broker_inv (mw_broker demo_mm_world)" by (simp add: demo_mm_world_def broker_inv_reset)
  moreover have "dget (br_cancel_keys (mw_broker demo_mm_world)) x = None" for x
    by (simp add: demo_mm_world_def broker_reset_def)
  ultimately have "mw_account (snd demo_mm_answer) = mw_account demo_mm_world"
    using new_quotes_stand_alone [OF lenv.fixed_env_axioms _ _ i(2)] by blast
  with sides show ?thesis by (simp add: demo_mm_world_def)
qed

end
