(* ===== verification/Spec2Isabelle.thy ===== *)
theory Spec2Isabelle
  imports Prelude Rounding Fixed Tokens Contracts Lifecycle Broker Broker_Inv Broker_Props
    Market Matching_Bar Matching_Bar_Props Matching_L2 Matching_L2_Props
    Text Effects Artifacts Ledger Ledger_Views Ledger_Post Ledger_Apply Ledger_Inv Ledger_Balance Ledger_Run
    Ledger_Atomic Ledger_Props Ledger_Lots Ledger_Value Ledger_Demo
    Us_Cash Hong_Kong Rules Risk_Gate Risk_Props Risk_Demo Engine Engine_Restore Engine_Props Engine_Demo
    Accounts Account_Books Hk_Account Hk_Props Hk_Demo Us_Account Us_Props Us_Demo
    Corporate_Actions Corporate_Props Corporate_Demo
    Derivative_Account Derivative_Props Derivative_Demo Research_Account Research_Props Research_Demo
    Market_Making Market_Making_Props Market_Making_Demo
begin

text \<open>
  A verification development of \<open>quant-execution\<close>, the offline event-driven execution engine in
  \<open>src/src/quant_execution\<close>.  This theory imports the whole library and is its documentation.

  \<^bold>\<open>The program.\<close>  A replay (\<open>engine.py\<close>) sorts market events and processes them one by one.  For
  each event it expires DAY orders, lets the risk gate (\<open>rules.py\<close>) observe the market, books
  what the market causes (funding, settlement, corporate actions, marks) in the double-entry
  ledger (\<open>ledger.py\<close>), checks the open orders again, asks the matching model (\<open>matching.py\<close>)
  for fills, books them in the broker (\<open>broker.py\<close>, whose orders move by \<open>state_machine.py\<close>) and
  in the ledger with their fees, and passes the event to the strategy, whose intents go through
  the gate to the broker.  All values are the validated dataclasses of \<open>contracts.py\<close> over exact
  decimals (\<open>_fixed.py\<close>).  Facts can be streamed to a sink (\<open>artifacts.py\<close>) instead of kept.
  Beside the engine, research accounts drive a ledger of their own: \<open>hong_kong.py\<close>,
  \<open>us_cash.py\<close>, \<open>derivatives.py\<close> and \<open>research_account.py\<close>; \<open>corporate_actions.py\<close> applies declared
  actions to a ledger; \<open>market_making.py\<close> is a strategy that cancels and quotes.

  \<^bold>\<open>Theories.\<close>
  \<^item> Ground.  \<open>Prelude\<close>: exceptions as values (\<open>py_exn + 'a\<close>), \<open>and_then\<close>, dictionaries as
    insertion-ordered association lists (\<open>dget\<close>, \<open>dset\<close>, \<open>ddel\<close>), string stripping.  \<open>Effects\<close>:
    operations that raise half way and keep what they changed, \<open>bind\<close>, \<open>on_error\<close>, and the
    locale \<open>guarded_update\<close> of operations that leave no trace.  \<open>Text\<close>: text and dates.
    \<open>Rounding\<close>: half-even, half-up and truncation, and the rounding of a decimal context, with
    exactness, error, monotonicity and grid lemmas.
  \<^item> Data.  \<open>Fixed\<close> (\<open>_fixed.py\<close>) with the environment \<open>env\<close> and its locale \<open>fixed_env\<close>;
    \<open>Tokens\<close> (\<open>_json.py\<close>): the flat encoding behind identifiers is injective; \<open>Contracts\<close>
    (\<open>contracts.py\<close>): one record and one validating constructor \<open>mk_...\<close> per dataclass.
  \<^item> Orders.  \<open>Lifecycle\<close> (\<open>state_machine.py\<close>): histories of transitions.  \<open>Broker\<close>, \<open>Broker_Inv\<close>,
    \<open>Broker_Props\<close> (\<open>broker.py\<close>): the state, every operation, the invariant tying the orders,
    indexes and recorded events together, idempotency and fill conservation.
  \<^item> Matching.  \<open>Market\<close> (events, queries and priorities), \<open>Matching_Bar\<close> (bar and top-of-book
    models), \<open>Matching_L2\<close> (order book, queue positions, plans), with what their fills obey and that
    the broker books all of them (\<open>Matching_Bar_Props\<close>, \<open>Matching_L2_Props\<close>).
  \<^item> Ledger.  \<open>Ledger\<close> (state, valuation, rates), \<open>Ledger_Views\<close> (snapshot), \<open>Ledger_Post\<close>
    (postings of every event), \<open>Ledger_Apply\<close> (application with undo, marks, observation,
    streaming, restore); \<open>Ledger_Inv\<close>, \<open>Ledger_Balance\<close>, \<open>Ledger_Run\<close> (books equal the journal, which
    balances, over any run), \<open>Ledger_Atomic\<close> (a refused event leaves no trace), \<open>Ledger_Props\<close>,
    \<open>Ledger_Lots\<close> (acquisition lots), \<open>Ledger_Value\<close> (liquidation check, rates, streaming).
    \<open>Artifacts\<close>: canonical encodings and the incremental digest.
  \<^item> Risk.  \<open>Rules\<close> (market state, A-share and fee rules), \<open>Risk_Gate\<close> (observation, reservations,
    evaluation, release, the checks of a fill), \<open>Risk_Props\<close>: what an accepted order passed, and
    that it is covered on top of the reservations of the other open orders.
  \<^item> Replay.  \<open>Engine\<close> (both replays with checkpoint and restore; the event loops of \<open>replay\<close> and
    of \<open>replay_to_sink\<close> are separate definitions).  \<open>Engine_Restore\<close>: every operation of a run
    stays within what the checkpoint, field by field, can undo.  \<open>Engine_Props\<close>: matching settles,
    determinism, failure atomicity, histories that only grow in both loops, immediate orders
    that do not outlive their first event, and refinement: a replay is a run
    of broker operations and a run of ledger operations, so both invariants hold after it.  The
    locales \<open>event_moves\<close> and \<open>engine_moves\<close> carry a relation over the phases of one event.
  \<^item> Accounts.  \<open>Accounts\<close>: several bookings as one (\<open>all_or_nothing\<close>), and the locale \<open>once\<close> of
    requests that are served once; \<open>Account_Books\<close>: what an event does to cash.  \<open>Hk_Account\<close>,
    \<open>Us_Cash\<close> and \<open>Us_Account\<close>, \<open>Derivative_Account\<close>, \<open>Research_Account\<close> model the accounts,
    each with an interpretation of \<open>once\<close> in its \<open>..._Props\<close> theory and its own properties:
    the binary search for affordable lots, settled cash, covered baskets, full reserves.
    \<open>Corporate_Actions\<close> and \<open>Corporate_Props\<close>: atomicity, and lots in step with positions.
    \<open>Market_Making\<close> and \<open>Market_Making_Props\<close>: the quote plan and the callback.
  \<^item> The \<open>..._Demo\<close> theories apply the properties to concrete states, evaluated in the kernel.

  \<^bold>\<open>How the code is modelled.\<close>
  \<^item> Objects are records passed explicitly; a method becomes a function to the next state.  Where
    an exception ends a whole unit that is undone the function is \<open>state \<Rightarrow> state res\<close>;
    where the code keeps partial changes it is an \<open>effect\<close>, which returns the state also when it
    raises: a replay that raises hands the state its loop had reached to the restore.  Messages of exceptions are kept without their interpolated parts.
  \<^item> Decimals are rationals; every operator that rounds to the ambient context is written
    \<open>dadd\<close>, \<open>dsub\<close>, \<open>dmul\<close>, \<open>ddiv\<close>, \<open>dmod\<close> with the precision of the environment.  Theorems that need
    amounts to stay inside that precision say so.  The few places that look at digits use
    \<open>pydecimal\<close>.  \<open>FixedPoint\<close> keeps its units and scale.
  \<^item> Timestamps are integers of nanoseconds, dates ordinals, strings lists of characters, sets
    and dictionaries lists in insertion order.  A \<open>deepcopy\<close> is the value;
    the \<open>capture_state\<close> and \<open>restore_state\<close> of broker, gate, ledger, matching model and engine are
    records of the fields they name, written back over the current object one by one.
  \<^item> Code that is not in the repository is a parameter: \<open>FixedPoint\<close>, timestamp validation and
    rendering and the hash are fields of \<open>env\<close>, with their documented behaviour as the locale
    \<open>fixed_env\<close>, interpreted on \<open>std_env\<close>; policies, calendars, event constructors, the point-in-time
    rate selection, the sink's acceptance, the hash of a journal and the strategy are fields of
    the configuration records.  The event constructors of the account models return their
    argument or refuse it; a corporate action as a market event has the body \<open>OtherEvent\<close>.
  \<^item> Loops are folds or structural recursion.  \<open>match_loop\<close> (match, expire what is refused, match
    again) has fuel: one more turn than there are open orders is enough, and more does not
    change the result (\<open>matching_always_settles\<close>).  The binary search \<open>search_lots\<close> terminates by
    the width of its interval; digit loops by their measure.  There is no other bound.

  \<^bold>\<open>What modelling showed\<close> is listed as findings: a noted terminal DAY order makes every later
  sweep raise; a refused event stays in a streamed journal; unsettled sales count as settled
  while streaming; a filled order can keep a reservation; a checked fee can miss by one unit;
  the Hong Kong account accepts contract multipliers and padded order identifiers.

  \<^bold>\<open>Not modelled.\<close>
  \<^item> \<open>dividends.py\<close> beyond the point-in-time rates and modes that the ledger calls: the entitlement
    lifecycle interprets evidence, policies and phases of an external library whose behaviour is
    the whole content of the module.
  \<^item> \<open>schemas.py\<close>: schema literals and the rendering of values as payloads; \<open>artifacts.py\<close> beyond
    encodings and digest: files, threads, Arrow tables; \<open>market_making_cli.py\<close>: command line.
  \<^item> \<open>continuous.py\<close> (attribution books over several sleeves), \<open>research_lifecycle.py\<close> (a journal of
    its own for untyped event dictionaries), \<open>derivative_replay.py\<close> (a study driver with CSV, SVG
    and HTML output), \<open>market_making_calibration.py\<close> (a report over an untyped payload) and
    \<open>replay_market_making\<close>: drivers and studies on top of what is modelled.
  \<^item> The decimal text of records (\<open>str(Decimal)\<close>), reports and views that only render; the journal
    hash of the ledger, which depends on the exponents of decimals; rule and fee-rate caches, which
    are transparent; \<open>protocols.py\<close> and \<open>__init__.py\<close>, which hold no behaviour.
\<close>

end
